(* ===== verification/Prelude.thy ===== *)
theory Prelude
  imports Main "HOL-Library.Sublist"
begin

text \<open>
  What every component shares: the outcome type of an operation that may throw, its
  combinators with their weakest-precondition and preservation rules, the table operations
  the SQL statements of the kernel come down to, and small list lemmas.

  An operation takes a state and returns a result and a state. The result is \<open>Inl e\<close> when
  the operation threw \<open>e\<close> and \<open>Inr x\<close> when it returned \<open>x\<close>. The state is returned in both
  cases: what an operation wrote before it threw is still there for the caller, which either
  commits it (a durable error), rolls it back (any other error) or goes on (a catch clause).
\<close>

named_theorems wp_simps "weakest preconditions of the combinators"
named_theorems keeps_rules "preservation of an invariant by an operation"
named_theorems run_simps "evaluation of an operation on a state"

section \<open>Operations that may throw\<close>

type_synonym ('s, 'e, 'a) op = "'s \<Rightarrow> ('e + 'a) \<times> 's"

definition ret :: "'a \<Rightarrow> ('s, 'e, 'a) op" where
  "ret x = (\<lambda>s. (Inr x, s))"

definition raise :: "'e \<Rightarrow> ('s, 'e, 'a) op" where
  "raise e = (\<lambda>s. (Inl e, s))"

definition bindM :: "('s, 'e, 'a) op \<Rightarrow> ('a \<Rightarrow> ('s, 'e, 'b) op) \<Rightarrow> ('s, 'e, 'b) op" where
  "bindM m f = (\<lambda>s. case m s of (r, t) \<Rightarrow> (case r of Inl e \<Rightarrow> (Inl e, t) | Inr x \<Rightarrow> f x t))"

definition seqM :: "('s, 'e, unit) op \<Rightarrow> ('s, 'e, 'b) op \<Rightarrow> ('s, 'e, 'b) op" where
  "seqM m n = bindM m (\<lambda>_. n)"

definition guardM :: "bool \<Rightarrow> 'e \<Rightarrow> ('s, 'e, unit) op" where
  "guardM c e = (if c then ret () else raise e)"

definition whenM :: "bool \<Rightarrow> ('s, 'e, unit) op \<Rightarrow> ('s, 'e, unit) op" where
  "whenM c m = (if c then m else ret ())"

definition gets :: "('s \<Rightarrow> 'a) \<Rightarrow> ('s, 'e, 'a) op" where
  "gets f = (\<lambda>s. (Inr (f s), s))"

definition modify :: "('s \<Rightarrow> 's) \<Rightarrow> ('s, 'e, unit) op" where
  "modify f = (\<lambda>s. (Inr (), f s))"

definition liftE :: "'e + 'a \<Rightarrow> ('s, 'e, 'a) op" where
  "liftE r = (\<lambda>s. (r, s))"

definition catchM :: "('s, 'e, 'a) op \<Rightarrow> ('e \<Rightarrow> ('s, 'e, 'a) op) \<Rightarrow> ('s, 'e, 'a) op" where
  "catchM m h = (\<lambda>s. case m s of (r, t) \<Rightarrow> (case r of Inl e \<Rightarrow> h e t | Inr x \<Rightarrow> (Inr x, t)))"

definition needM :: "'e \<Rightarrow> 'a option \<Rightarrow> ('s, 'e, 'a) op" where
  "needM e v = (case v of None \<Rightarrow> raise e | Some x \<Rightarrow> ret x)"

fun forM :: "'b list \<Rightarrow> ('b \<Rightarrow> ('s, 'e, unit) op) \<Rightarrow> ('s, 'e, unit) op" where
  "forM [] f = ret ()"
| "forM (x # xs) f = seqM (f x) (forM xs f)"

fun mapM :: "'b list \<Rightarrow> ('b \<Rightarrow> ('s, 'e, 'c) op) \<Rightarrow> ('s, 'e, 'c list) op" where
  "mapM [] f = ret []"
| "mapM (x # xs) f = bindM (f x) (\<lambda>y. bindM (mapM xs f) (\<lambda>ys. ret (y # ys)))"

lemma ret_run [run_simps, code]: "ret x s = (Inr x, s)"
  by (simp add: ret_def)

lemma raise_run [run_simps, code]: "raise e s = (Inl e, s)"
  by (simp add: raise_def)

lemma bindM_run [run_simps, code]:
  "bindM m f s = (case m s of (Inl e, t) \<Rightarrow> (Inl e, t) | (Inr x, t) \<Rightarrow> f x t)"
  by (simp add: bindM_def split: prod.splits sum.splits)

lemma seqM_run [run_simps, code]:
  "seqM m n s = (case m s of (Inl e, t) \<Rightarrow> (Inl e, t) | (Inr x, t) \<Rightarrow> n t)"
  by (simp add: seqM_def bindM_run)

lemma guardM_run [run_simps, code]: "guardM c e s = (if c then Inr () else Inl e, s)"
  by (simp add: guardM_def ret_def raise_def)

lemma whenM_run [run_simps, code]: "whenM c m s = (if c then m s else (Inr (), s))"
  by (simp add: whenM_def ret_def)

lemma gets_run [run_simps, code]: "gets f s = (Inr (f s), s)"
  by (simp add: gets_def)

lemma modify_run [run_simps, code]: "modify f s = (Inr (), f s)"
  by (simp add: modify_def)

lemma liftE_run [run_simps, code]: "liftE r s = (r, s)"
  by (simp add: liftE_def)

lemma catchM_run [run_simps, code]:
  "catchM m h s = (case m s of (Inl e, t) \<Rightarrow> h e t | (Inr x, t) \<Rightarrow> (Inr x, t))"
  by (simp add: catchM_def split: prod.splits sum.splits)

lemma needM_run [run_simps, code]:
  "needM e v s = (case v of None \<Rightarrow> (Inl e, s) | Some x \<Rightarrow> (Inr x, s))"
  by (simp add: needM_def ret_def raise_def split: option.splits)

section \<open>Weakest preconditions\<close>

text \<open>
  \<open>wp m Q E s\<close>: run from \<open>s\<close>, \<open>m\<close> ends in \<open>Q\<close> when it returns and in \<open>E\<close> when it throws.
\<close>

definition wp :: "('s, 'e, 'a) op \<Rightarrow> ('a \<Rightarrow> 's \<Rightarrow> bool) \<Rightarrow> ('e \<Rightarrow> 's \<Rightarrow> bool) \<Rightarrow> 's \<Rightarrow> bool" where
  "wp m Q E s = (case m s of (r, t) \<Rightarrow> (case r of Inl e \<Rightarrow> E e t | Inr x \<Rightarrow> Q x t))"

lemma wp_ret [wp_simps]: "wp (ret x) Q E = Q x"
  by (rule ext) (simp add: wp_def ret_def)

lemma wp_raise [wp_simps]: "wp (raise e) Q E = E e"
  by (rule ext) (simp add: wp_def raise_def)

lemma wp_bindM [wp_simps]: "wp (bindM m f) Q E s = wp m (\<lambda>x. wp (f x) Q E) E s"
  by (simp add: wp_def bindM_def split: prod.splits sum.splits)

lemma wp_seqM [wp_simps]: "wp (seqM m n) Q E s = wp m (\<lambda>_. wp n Q E) E s"
  by (simp add: seqM_def wp_bindM)

lemma wp_guardM [wp_simps]: "wp (guardM c e) Q E s = (if c then Q () s else E e s)"
  by (simp add: guardM_def wp_ret wp_raise)

lemma wp_whenM [wp_simps]: "wp (whenM c m) Q E s = (if c then wp m Q E s else Q () s)"
  by (simp add: whenM_def wp_ret)

lemma wp_gets [wp_simps]: "wp (gets f) Q E s = Q (f s) s"
  by (simp add: wp_def gets_def)

lemma wp_modify [wp_simps]: "wp (modify f) Q E s = Q () (f s)"
  by (simp add: wp_def modify_def)

lemma wp_liftE [wp_simps]: "wp (liftE r) Q E s = (case r of Inl e \<Rightarrow> E e s | Inr x \<Rightarrow> Q x s)"
  by (simp add: wp_def liftE_def)

lemma wp_catchM [wp_simps]: "wp (catchM m h) Q E s = wp m Q (\<lambda>e. wp (h e) Q E) s"
  by (simp add: wp_def catchM_def split: prod.splits sum.splits)

lemma wp_needM [wp_simps]:
  "wp (needM e v) Q E s = (case v of None \<Rightarrow> E e s | Some x \<Rightarrow> Q x s)"
  by (simp add: needM_def wp_ret wp_raise split: option.splits)

lemma wp_if [wp_simps]: "wp (if c then m else n) Q E s = (if c then wp m Q E s else wp n Q E s)"
  by simp

lemma wp_case_option [wp_simps]:
  "wp (case v of None \<Rightarrow> m | Some x \<Rightarrow> f x) Q E s =
     (case v of None \<Rightarrow> wp m Q E s | Some x \<Rightarrow> wp (f x) Q E s)"
  by (cases v) simp_all

text \<open>The same rules as introductions, one goal per branch.\<close>

named_theorems wp_intros "weakest preconditions, backwards"

lemma wp_intro_ret [wp_intros]: "Q x s \<Longrightarrow> wp (ret x) Q E s"
  by (simp add: wp_simps)

lemma wp_intro_raise [wp_intros]: "E e s \<Longrightarrow> wp (raise e) Q E s"
  by (simp add: wp_simps)

lemma wp_intro_bindM [wp_intros]: "wp m (\<lambda>x. wp (f x) Q E) E s \<Longrightarrow> wp (bindM m f) Q E s"
  by (simp add: wp_simps)

lemma wp_intro_seqM [wp_intros]: "wp m (\<lambda>_. wp n Q E) E s \<Longrightarrow> wp (seqM m n) Q E s"
  by (simp add: wp_simps)

lemma wp_intro_guardM [wp_intros]:
  "(c \<Longrightarrow> Q () s) \<Longrightarrow> (\<not> c \<Longrightarrow> E e s) \<Longrightarrow> wp (guardM c e) Q E s"
  by (simp add: wp_simps)

lemma wp_intro_whenM [wp_intros]:
  "(c \<Longrightarrow> wp m Q E s) \<Longrightarrow> (\<not> c \<Longrightarrow> Q () s) \<Longrightarrow> wp (whenM c m) Q E s"
  by (simp add: wp_simps)

lemma wp_intro_needM [wp_intros]:
  "(v = None \<Longrightarrow> E e s) \<Longrightarrow> (\<And>y. v = Some y \<Longrightarrow> Q y s) \<Longrightarrow> wp (needM e v) Q E s"
  by (simp add: wp_simps split: option.split)

lemma wp_intro_gets: "Q (f s) s \<Longrightarrow> wp (gets f) Q E s"
  by (simp add: wp_gets)

lemma wp_intro_modify: "Q () (f s) \<Longrightarrow> wp (modify f) Q E s"
  by (simp add: wp_modify)

lemma wp_intro_if [wp_intros]:
  "(c \<Longrightarrow> wp m Q E s) \<Longrightarrow> (\<not> c \<Longrightarrow> wp n Q E s) \<Longrightarrow> wp (if c then m else n) Q E s"
  by simp

lemma wp_intro_case_option [wp_intros]:
  "(v = None \<Longrightarrow> wp m Q E s) \<Longrightarrow> (\<And>x. v = Some x \<Longrightarrow> wp (f x) Q E s) \<Longrightarrow>
   wp (case v of None \<Rightarrow> m | Some x \<Rightarrow> f x) Q E s"
  by (cases v) simp_all

lemma wp_intro_case_prod [wp_intros]:
  "(\<And>x y. p = (x, y) \<Longrightarrow> wp (g x y) Q E s) \<Longrightarrow> wp (case p of (x, y) \<Rightarrow> g x y) Q E s"
  by (cases p) simp_all

lemma wp_intro_Let [wp_intros]: "wp (h w) Q E s \<Longrightarrow> wp (Let w h) Q E s"
  by (simp add: Let_def)

lemma wp_mono:
  assumes "wp m Q E s" and "\<And>x t. Q x t \<Longrightarrow> Q' x t" and "\<And>e t. E e t \<Longrightarrow> E' e t"
  shows "wp m Q' E' s"
  using assms by (auto simp: wp_def split: prod.splits sum.splits)

lemma wp_returned: "wp m Q E s \<Longrightarrow> m s = (Inr x, t) \<Longrightarrow> Q x t"
  by (simp add: wp_def)

lemma wp_threw: "wp m Q E s \<Longrightarrow> m s = (Inl e, t) \<Longrightarrow> E e t"
  by (simp add: wp_def)

lemma wpI:
  assumes "\<And>x t. m s = (Inr x, t) \<Longrightarrow> Q x t" and "\<And>e t. m s = (Inl e, t) \<Longrightarrow> E e t"
  shows "wp m Q E s"
  using assms by (auto simp: wp_def split: prod.splits sum.splits)

text \<open>Inversion: how a compound operation can have returned.\<close>

lemma bindM_returned:
  assumes "bindM m f s = (Inr y, u)"
  obtains x t where "m s = (Inr x, t)" and "f x t = (Inr y, u)"
  using assms by (auto simp: bindM_def split: prod.splits sum.splits)

lemma seqM_returned:
  assumes "seqM m n s = (Inr y, u)"
  obtains t where "m s = (Inr (), t)" and "n t = (Inr y, u)"
  using assms by (auto simp: seqM_def bindM_def split: prod.splits sum.splits)

lemma returned_run:
  assumes "\<not> isl (fst p)"
  obtains x t where "p = (Inr x, t)"
  using assms by (cases p; cases "fst p") auto

lemma guardM_returned: "guardM c e s = (Inr x, t) \<longleftrightarrow> c \<and> t = s"
  by (auto simp: guardM_run)

section \<open>Preservation\<close>

text \<open>\<open>keeps I m\<close>: \<open>m\<close> keeps the invariant \<open>I\<close> whether it returns or throws.\<close>

definition keeps :: "('s \<Rightarrow> bool) \<Rightarrow> ('s, 'e, 'a) op \<Rightarrow> bool" where
  "keeps I m \<longleftrightarrow> (\<forall>s. I s \<longrightarrow> I (snd (m s)))"

lemma keepsI: "(\<And>s. I s \<Longrightarrow> I (snd (m s))) \<Longrightarrow> keeps I m"
  by (simp add: keeps_def)

lemma keepsD: "keeps I m \<Longrightarrow> I s \<Longrightarrow> I (snd (m s))"
  by (simp add: keeps_def)

lemma keepsD_run: "keeps I m \<Longrightarrow> m s = (r, t) \<Longrightarrow> I s \<Longrightarrow> I t"
  by (auto simp: keeps_def dest: spec [of _ s])

lemma keeps_wp: "keeps I m \<longleftrightarrow> (\<forall>s. I s \<longrightarrow> wp m (\<lambda>_. I) (\<lambda>_. I) s)"
  by (simp add: keeps_def wp_def case_prod_unfold sum.case_eq_if)

lemma keeps_wpI: "(\<And>s. I s \<Longrightarrow> wp m (\<lambda>_. I) (\<lambda>_. I) s) \<Longrightarrow> keeps I m"
  unfolding keeps_wp by blast

lemma keeps_ret [keeps_rules]: "keeps I (ret x)"
  by (simp add: keeps_def ret_def)

lemma keeps_raise [keeps_rules]: "keeps I (raise e)"
  by (simp add: keeps_def raise_def)

lemma keeps_bindM [keeps_rules]: "keeps I m \<Longrightarrow> (\<And>x. keeps I (f x)) \<Longrightarrow> keeps I (bindM m f)"
  by (fastforce simp: keeps_def bindM_run split: prod.splits sum.splits)

lemma keeps_seqM [keeps_rules]: "keeps I m \<Longrightarrow> keeps I n \<Longrightarrow> keeps I (seqM m n)"
  by (simp add: seqM_def keeps_bindM)

lemma keeps_guardM [keeps_rules]: "keeps I (guardM c e)"
  by (simp add: guardM_def keeps_ret keeps_raise)

lemma keeps_whenM [keeps_rules]: "(c \<Longrightarrow> keeps I m) \<Longrightarrow> keeps I (whenM c m)"
  by (simp add: whenM_def keeps_ret)

lemma keeps_gets [keeps_rules]: "keeps I (gets f)"
  by (simp add: keeps_def gets_def)

lemma keeps_modify: "(\<And>s. I s \<Longrightarrow> I (f s)) \<Longrightarrow> keeps I (modify f)"
  by (simp add: keeps_def modify_def)

lemma keeps_liftE [keeps_rules]: "keeps I (liftE r)"
  by (simp add: keeps_def liftE_def)

lemma keeps_needM [keeps_rules]: "keeps I (needM e v)"
  by (simp add: needM_def keeps_ret keeps_raise split: option.split)

lemma keeps_catchM [keeps_rules]:
  "keeps I m \<Longrightarrow> (\<And>e. keeps I (h e)) \<Longrightarrow> keeps I (catchM m h)"
  by (fastforce simp: keeps_def catchM_run split: prod.splits sum.splits)

lemma keeps_if [keeps_rules]:
  "(c \<Longrightarrow> keeps I m) \<Longrightarrow> (\<not> c \<Longrightarrow> keeps I n) \<Longrightarrow> keeps I (if c then m else n)"
  by simp

lemma keeps_case_option [keeps_rules]:
  "(v = None \<Longrightarrow> keeps I m) \<Longrightarrow> (\<And>x. v = Some x \<Longrightarrow> keeps I (f x)) \<Longrightarrow>
   keeps I (case v of None \<Rightarrow> m | Some x \<Rightarrow> f x)"
  by (cases v) simp_all

lemma keeps_case_prod [keeps_rules]:
  "(\<And>x y. p = (x, y) \<Longrightarrow> keeps I (f x y)) \<Longrightarrow> keeps I (case p of (x, y) \<Rightarrow> f x y)"
  by (cases p) simp_all

lemma keeps_Let [keeps_rules]: "(\<And>x. x = v \<Longrightarrow> keeps I (f x)) \<Longrightarrow> keeps I (Let v f)"
  by simp

lemma keeps_forM [keeps_rules]: "(\<And>x. x \<in> set xs \<Longrightarrow> keeps I (f x)) \<Longrightarrow> keeps I (forM xs f)"
  by (induction xs) (auto intro: keeps_ret keeps_seqM)

lemma keeps_mapM [keeps_rules]: "(\<And>x. x \<in> set xs \<Longrightarrow> keeps I (f x)) \<Longrightarrow> keeps I (mapM xs f)"
  by (induction xs) (auto intro!: keeps_ret keeps_bindM)

lemma keeps_conj: "keeps I m \<Longrightarrow> keeps J m \<Longrightarrow> keeps (\<lambda>s. I s \<and> J s) m"
  by (simp add: keeps_def)

text \<open>
  \<open>preserves ok I m\<close>: \<open>m\<close> keeps \<open>I\<close> when it returns, and when it throws an error of the class
  \<open>ok\<close>. Any other error rolls the transaction back, so the state it leaves does not matter.
\<close>

named_theorems preserves_rules "preservation up to a class of errors"

definition preserves :: "('e \<Rightarrow> bool) \<Rightarrow> ('s \<Rightarrow> bool) \<Rightarrow> ('s, 'e, 'a) op \<Rightarrow> bool" where
  "preserves ok I m \<longleftrightarrow> (\<forall>s. I s \<longrightarrow> wp m (\<lambda>_. I) (\<lambda>e t. ok e \<longrightarrow> I t) s)"

lemma preservesI: "(\<And>s. I s \<Longrightarrow> wp m (\<lambda>_. I) (\<lambda>e t. ok e \<longrightarrow> I t) s) \<Longrightarrow> preserves ok I m"
  by (simp add: preserves_def)

lemma preservesD: "preserves ok I m \<Longrightarrow> I s \<Longrightarrow> wp m (\<lambda>_. I) (\<lambda>e t. ok e \<longrightarrow> I t) s"
  by (simp add: preserves_def)

lemma preserves_returned: "preserves ok I m \<Longrightarrow> I s \<Longrightarrow> m s = (Inr x, t) \<Longrightarrow> I t"
  by (auto dest!: preservesD wp_returned)

lemma preserves_threw: "preserves ok I m \<Longrightarrow> I s \<Longrightarrow> m s = (Inl e, t) \<Longrightarrow> ok e \<Longrightarrow> I t"
  by (auto dest!: preservesD wp_threw)

lemma keeps_preserves: "keeps I m \<Longrightarrow> preserves ok I m"
  by (auto simp: keeps_wp preserves_def elim: wp_mono)

lemma preserves_bindM [preserves_rules]:
  assumes "preserves ok I m" and "\<And>x. preserves ok I (f x)"
  shows "preserves ok I (bindM m f)"
proof (rule preservesI)
  fix s assume "I s"
  with assms(1) have "wp m (\<lambda>_. I) (\<lambda>e t. ok e \<longrightarrow> I t) s" by (rule preservesD)
  then show "wp (bindM m f) (\<lambda>_. I) (\<lambda>e t. ok e \<longrightarrow> I t) s"
    unfolding wp_bindM by (rule wp_mono) (auto dest: preservesD [OF assms(2)])
qed

lemma preserves_seqM [preserves_rules]:
  "preserves ok I m \<Longrightarrow> preserves ok I n \<Longrightarrow> preserves ok I (seqM m n)"
  by (simp add: seqM_def preserves_bindM)

lemma preserves_atoms [preserves_rules]:
  "preserves ok I (ret x)" "preserves ok I (raise e)" "preserves ok I (guardM c e)"
  "preserves ok I (gets h)" "preserves ok I (liftE r)" "preserves ok I (needM e v)"
  by (auto intro: keeps_preserves keeps_rules)

lemma preserves_whenM [preserves_rules]:
  "(c \<Longrightarrow> preserves ok I m) \<Longrightarrow> preserves ok I (whenM c m)"
  by (simp add: whenM_def preserves_atoms)

lemma preserves_cases [preserves_rules]:
  "(c \<Longrightarrow> preserves ok I m) \<Longrightarrow> (\<not> c \<Longrightarrow> preserves ok I n) \<Longrightarrow> preserves ok I (if c then m else n)"
  "(v = None \<Longrightarrow> preserves ok I m) \<Longrightarrow> (\<And>x. v = Some x \<Longrightarrow> preserves ok I (f x)) \<Longrightarrow>
   preserves ok I (case v of None \<Rightarrow> m | Some x \<Rightarrow> f x)"
  "(\<And>x y. p = (x, y) \<Longrightarrow> preserves ok I (h x y)) \<Longrightarrow>
   preserves ok I (case p of (x, y) \<Rightarrow> h x y)"
  "(\<And>x. x = w \<Longrightarrow> preserves ok I (g x)) \<Longrightarrow> preserves ok I (Let w g)"
  by (auto split: option.split prod.split)

lemma preserves_catchM:
  assumes "preserves ok I m" and "\<And>e. ok e \<Longrightarrow> preserves ok I (h e)"
    and "\<And>e. \<not> ok e \<Longrightarrow> h e = raise e"
  shows "preserves ok I (catchM m h)"
proof (rule preservesI)
  fix s assume "I s"
  with assms(1) have "wp m (\<lambda>_. I) (\<lambda>e t. ok e \<longrightarrow> I t) s" by (rule preservesD)
  then show "wp (catchM m h) (\<lambda>_. I) (\<lambda>e t. ok e \<longrightarrow> I t) s"
    unfolding wp_catchM
  proof (rule wp_mono)
    fix e t assume t: "ok e \<longrightarrow> I t"
    show "wp (h e) (\<lambda>_. I) (\<lambda>e t. ok e \<longrightarrow> I t) t"
    proof (cases "ok e")
      case True
      then show ?thesis using t preservesD [OF assms(2)] by blast
    next
      case False
      then show ?thesis by (simp add: assms(3) wp_raise)
    qed
  qed
qed

lemma preserves_forM [preserves_rules]:
  "(\<And>x. x \<in> set xs \<Longrightarrow> preserves ok I (f x)) \<Longrightarrow> preserves ok I (forM xs f)"
  by (induction xs) (auto intro: preserves_rules)

lemma preserves_mapM [preserves_rules]:
  "(\<And>x. x \<in> set xs \<Longrightarrow> preserves ok I (f x)) \<Longrightarrow> preserves ok I (mapM xs f)"
  by (induction xs) (auto intro!: preserves_rules)

section \<open>Evolutions\<close>

text \<open>
  \<open>evolves R m\<close>: whatever \<open>m\<close> does, returning or throwing, the state after is related by
  \<open>R\<close> to the state before. \<open>frames g m\<close> is the case where \<open>m\<close> leaves the view \<open>g\<close> of the
  state alone; it composes with the weakest preconditions through \<open>wp_frame\<close>.
\<close>

named_theorems frame_rules "what an operation leaves alone"

definition evolves :: "('s \<Rightarrow> 's \<Rightarrow> bool) \<Rightarrow> ('s, 'e, 'a) op \<Rightarrow> bool" where
  "evolves R m \<longleftrightarrow> (\<forall>s. R s (snd (m s)))"

definition frames :: "('s \<Rightarrow> 'v) \<Rightarrow> ('s, 'e, 'a) op \<Rightarrow> bool" where
  "frames g m \<longleftrightarrow> (\<forall>s. g (snd (m s)) = g s)"

locale evolution =
  fixes R :: "'s \<Rightarrow> 's \<Rightarrow> bool"
  assumes refl: "R s s"
    and trans: "R s t \<Longrightarrow> R t u \<Longrightarrow> R s u"
begin

lemma ret: "evolves R (ret x)"
  by (simp add: evolves_def ret_def refl)

lemma raise: "evolves R (raise e)"
  by (simp add: evolves_def raise_def refl)

lemma guardM: "evolves R (guardM c e)"
  by (simp add: evolves_def guardM_run refl)

lemma gets: "evolves R (gets f)"
  by (simp add: evolves_def gets_def refl)

lemma liftE: "evolves R (liftE r)"
  by (simp add: evolves_def liftE_def refl)

lemma needM: "evolves R (needM e v)"
  by (simp add: evolves_def needM_run refl split: option.split)

lemma bindM: "evolves R m \<Longrightarrow> (\<And>x. evolves R (f x)) \<Longrightarrow> evolves R (bindM m f)"
  unfolding evolves_def bindM_def
  by (auto split: prod.splits sum.splits intro: trans) (metis snd_conv trans)+

lemma seqM: "evolves R m \<Longrightarrow> evolves R n \<Longrightarrow> evolves R (seqM m n)"
  by (simp add: seqM_def bindM)

lemma whenM: "(c \<Longrightarrow> evolves R m) \<Longrightarrow> evolves R (whenM c m)"
  by (simp add: whenM_def ret)

lemma catchM: "evolves R m \<Longrightarrow> (\<And>e. evolves R (h e)) \<Longrightarrow> evolves R (catchM m h)"
  unfolding evolves_def catchM_def
  by (auto split: prod.splits sum.splits intro: trans) (metis snd_conv trans)+

lemma cond: "(c \<Longrightarrow> evolves R m) \<Longrightarrow> (\<not> c \<Longrightarrow> evolves R n) \<Longrightarrow> evolves R (if c then m else n)"
  by simp

lemma case_opt:
  "(v = None \<Longrightarrow> evolves R m) \<Longrightarrow> (\<And>x. v = Some x \<Longrightarrow> evolves R (f x)) \<Longrightarrow>
   evolves R (case v of None \<Rightarrow> m | Some x \<Rightarrow> f x)"
  by (cases v) simp_all

lemma case_pair:
  "(\<And>x y. p = (x, y) \<Longrightarrow> evolves R (f x y)) \<Longrightarrow> evolves R (case p of (x, y) \<Rightarrow> f x y)"
  by (cases p) simp_all

lemma case_lst:
  "(xs = [] \<Longrightarrow> evolves R m) \<Longrightarrow> (\<And>y ys. xs = y # ys \<Longrightarrow> evolves R (f y ys)) \<Longrightarrow>
   evolves R (case xs of [] \<Rightarrow> m | y # ys \<Rightarrow> f y ys)"
  by (cases xs) simp_all

lemma case_either:
  "(\<And>x. v = Inl x \<Longrightarrow> evolves R (f x)) \<Longrightarrow> (\<And>y. v = Inr y \<Longrightarrow> evolves R (h y)) \<Longrightarrow>
   evolves R (case v of Inl x \<Rightarrow> f x | Inr y \<Rightarrow> h y)"
  by (cases v) simp_all

lemma let_in: "(\<And>x. x = v \<Longrightarrow> evolves R (f x)) \<Longrightarrow> evolves R (Let v f)"
  by simp

lemma forM: "(\<And>x. x \<in> set xs \<Longrightarrow> evolves R (f x)) \<Longrightarrow> evolves R (forM xs f)"
  by (induction xs) (auto intro: ret seqM)

lemma mapM: "(\<And>x. x \<in> set xs \<Longrightarrow> evolves R (f x)) \<Longrightarrow> evolves R (mapM xs f)"
  by (induction xs) (auto intro!: ret bindM)

lemmas rules = ret raise guardM gets liftE needM bindM seqM whenM catchM cond case_opt
  case_pair case_lst case_either let_in forM mapM

end

text \<open>Leaving a view alone is an evolution, whatever the view.\<close>

interpretation framed: evolution "\<lambda>s t. g t = g s" for g :: "'s \<Rightarrow> 'v"
  by unfold_locales simp_all

lemma frames_evolves: "frames g m = evolves (\<lambda>s t. g t = g s) m"
  by (simp add: frames_def evolves_def)

lemmas frames_combinators [frame_rules] = framed.rules [folded frames_evolves]

lemma frames_modify: "(\<And>s. g (f s) = g s) \<Longrightarrow> frames g (modify f)"
  by (simp add: frames_def modify_def)

lemma frames_run: "frames g m \<Longrightarrow> m s = (r, t) \<Longrightarrow> g t = g s"
  by (auto simp: frames_def dest: spec [of _ s])

lemma wp_frame:
  assumes "frames g m" and "\<And>x t. g t = g s \<Longrightarrow> Q x t" and "\<And>e t. g t = g s \<Longrightarrow> E e t"
  shows "wp m Q E s"
  using assms frames_run [OF assms(1)] by (auto intro: wpI)

lemma wp_keep:
  assumes "wp m Q E s" and "frames g m"
  shows "wp m (\<lambda>x t. Q x t \<and> g t = g s) (\<lambda>e t. E e t \<and> g t = g s) s"
  using assms frames_run [OF assms(2)] by (auto simp: wp_def split: prod.splits sum.splits)

lemma keeps_frames: "frames g m \<Longrightarrow> keeps (\<lambda>s. J (g s)) m"
  by (simp add: frames_def keeps_def)

lemma preserves_frames: "frames g m \<Longrightarrow> preserves ok (\<lambda>s. J (g s)) m"
  by (rule keeps_preserves [OF keeps_frames])

lemma frames_comp: "frames g m \<Longrightarrow> frames (\<lambda>s. h (g s)) m"
  by (simp add: frames_def)

section \<open>Tables\<close>

text \<open>
  A table is the list of its rows in primary-key order of insertion. \<open>find_row\<close> is
  SELECT by key, \<open>update_rows\<close> is UPDATE with its WHERE clause, \<open>delete_rows\<close> is DELETE.
\<close>

fun find_first :: "('r \<Rightarrow> bool) \<Rightarrow> 'r list \<Rightarrow> 'r option" where
  "find_first P [] = None"
| "find_first P (r # rs) = (if P r then Some r else find_first P rs)"

definition find_row :: "('r \<Rightarrow> 'k) \<Rightarrow> 'k \<Rightarrow> 'r list \<Rightarrow> 'r option" where
  "find_row key k rs = find_first (\<lambda>r. key r = k) rs"

definition update_rows :: "('r \<Rightarrow> bool) \<Rightarrow> ('r \<Rightarrow> 'r) \<Rightarrow> 'r list \<Rightarrow> 'r list" where
  "update_rows P f rs = map (\<lambda>r. if P r then f r else r) rs"

definition delete_rows :: "('r \<Rightarrow> bool) \<Rightarrow> 'r list \<Rightarrow> 'r list" where
  "delete_rows P rs = filter (\<lambda>r. \<not> P r) rs"

text \<open>The next value of an AUTOINCREMENT key; rows of these tables are never deleted.\<close>

definition next_sequence :: "('r \<Rightarrow> nat) \<Rightarrow> 'r list \<Rightarrow> nat" where
  "next_sequence sq rs = (if rs = [] then 1 else Suc (sq (last rs)))"

lemma find_first_Some: "find_first P rs = Some r \<Longrightarrow> r \<in> set rs \<and> P r"
  by (induction rs) (auto split: if_splits)

lemma find_first_None: "find_first P rs = None \<longleftrightarrow> (\<forall>r \<in> set rs. \<not> P r)"
  by (induction rs) auto

lemma find_first_append:
  "find_first P (rs @ qs) = (case find_first P rs of None \<Rightarrow> find_first P qs | Some r \<Rightarrow> Some r)"
  by (induction rs) auto

lemma find_row_Nil [simp]: "find_row key k [] = None"
  by (simp add: find_row_def)

lemma find_row_Cons: "find_row key k (r # rs) = (if key r = k then Some r else find_row key k rs)"
  by (simp add: find_row_def)

lemma find_row_Some: "find_row key k rs = Some r \<Longrightarrow> r \<in> set rs \<and> key r = k"
  by (auto simp: find_row_def dest: find_first_Some)

lemma find_row_None: "find_row key k rs = None \<longleftrightarrow> k \<notin> key ` set rs"
  by (auto simp: find_row_def find_first_None)

lemma find_row_append:
  "find_row key k (rs @ qs) =
     (case find_row key k rs of None \<Rightarrow> find_row key k qs | Some r \<Rightarrow> Some r)"
  by (simp add: find_row_def find_first_append split: option.splits)

lemma find_row_snoc:
  "find_row key k (rs @ [r]) =
     (case find_row key k rs of None \<Rightarrow> (if key r = k then Some r else None) | Some q \<Rightarrow> Some q)"
  by (simp add: find_row_append find_row_Cons split: option.splits)

lemma find_row_member:
  "distinct (map key rs) \<Longrightarrow> r \<in> set rs \<Longrightarrow> find_row key (key r) rs = Some r"
  by (induction rs) (auto simp: find_row_Cons)

lemma find_row_update:
  assumes "\<And>r. key (f r) = key r"
  shows "find_row key k (update_rows P f rs) =
     map_option (\<lambda>r. if P r then f r else r) (find_row key k rs)"
  by (induction rs) (auto simp: find_row_Cons update_rows_def assms)

lemma map_key_update:
  assumes "\<And>r. P r \<Longrightarrow> key (f r) = key r"
  shows "map key (update_rows P f rs) = map key rs"
  by (auto simp: update_rows_def assms)

lemma update_rows_Nil [simp]: "update_rows P f [] = []"
  by (simp add: update_rows_def)

lemma update_rows_Cons [simp]:
  "update_rows P f (r # rs) = (if P r then f r else r) # update_rows P f rs"
  by (simp add: update_rows_def)

lemma length_update_rows [simp]: "length (update_rows P f rs) = length rs"
  by (simp add: update_rows_def)

lemma set_update_rows: "set (update_rows P f rs) = (\<lambda>r. if P r then f r else r) ` set rs"
  by (simp add: update_rows_def)

lemma next_sequence_greater:
  assumes "sorted_wrt (<) (map sq rs)" and "r \<in> set rs"
  shows "sq r < next_sequence sq rs"
proof (cases rs rule: rev_cases)
  case Nil
  then show ?thesis using assms(2) by simp
next
  case (snoc qs q)
  then show ?thesis using assms by (auto simp: next_sequence_def sorted_wrt_append)
qed

lemma sorted_snoc_next:
  assumes "sorted_wrt (<) (map sq rs)" and "sq r = next_sequence sq rs"
  shows "sorted_wrt (<) (map sq (rs @ [r]))"
  using assms next_sequence_greater [of sq rs] by (auto simp: sorted_wrt_append)

end
