(* ===== verification/Values.thy ===== *)
theory Values
  imports Prelude
begin

text \<open>
  The value layer of the kernel (\<open>values.ts\<close>, \<open>errors.ts\<close>): the errors a command can
  throw, JSON values, the numbers and strings of a command as JavaScript has them, and the
  validations every handler shares.

  Strings are lists of characters, one per UTF-16 code unit (code units above 255 have no
  counterpart). An instant is the integer number of milliseconds of a \<open>Date\<close>; the database
  holds it as ISO text, whose order is the order of the instants (years 0 to 9999).
  A number the code only compares with a stored revision is a \<open>nat\<close>; a number it validates
  with \<open>Number.isInteger\<close> is a \<open>jsnum\<close>, whose \<open>JOther\<close> stands for the fractions, the
  infinities and NaN.
\<close>

type_synonym ident = string
type_synonym instant = int

section \<open>JSON values and numbers\<close>

datatype json =
    JNull
  | JBool bool
  | JNum int
  | JDec string
  | JStr string
  | JArr "json list"
  | JObj "(string \<times> json) list"

datatype jsnum = JInt int | JOther

definition js_is_integer :: "jsnum \<Rightarrow> bool" where
  "js_is_integer n = (case n of JInt _ \<Rightarrow> True | JOther \<Rightarrow> False)"

text \<open>\<open>value ?? null\<close> as a JSON member.\<close>

definition jopt :: "string option \<Rightarrow> json" where
  "jopt v = (case v of None \<Rightarrow> JNull | Some t \<Rightarrow> JStr t)"

definition jnat :: "nat \<Rightarrow> json" where
  "jnat n = JNum (int n)"

definition jnat_opt :: "nat option \<Rightarrow> json" where
  "jnat_opt v = (case v of None \<Rightarrow> JNull | Some n \<Rightarrow> jnat n)"

definition jstrs :: "string list \<Rightarrow> json" where
  "jstrs ts = JArr (map JStr ts)"

text \<open>\<open>payload.runInputId\<close> of a stored payload: the member of an object, if it is a string.\<close>

definition json_string_member :: "string \<Rightarrow> json \<Rightarrow> string option" where
  "json_string_member k j =
     (case j of
        JObj ms \<Rightarrow> (case map_of (rev ms) k of Some (JStr t) \<Rightarrow> Some t | _ \<Rightarrow> None)
      | _ \<Rightarrow> None)"

text \<open>\<open>Number.MAX_SAFE_INTEGER\<close>.\<close>

definition MAX_SAFE_INTEGER :: int where "MAX_SAFE_INTEGER = 9007199254740991"

section \<open>Errors\<close>

datatype kcode =
    NotFound | Unauthorized | Forbidden | InvalidCommand | Conflict | DomainBusy
  | WriterAuthorityLost | CausalLimitExceeded | StaleRevision | ConditionalCheckFailed
  | TerminalRun | PendingRunInputs

text \<open>
  \<open>KernelError\<close> and \<open>DurableKernelError\<close> carry the code and the details of the thrown error;
  its English message is not modelled. \<open>ConstraintError\<close> is the exception of a violated UNIQUE
  constraint, \<open>InternalError\<close> any other exception (a plain \<open>Error\<close>, a CHECK constraint, an
  aborting trigger).
\<close>

datatype kerror =
    KernelError kcode "json option"
  | DurableKernelError kcode "json option"
  | ConstraintError
  | InternalError

definition err :: "kcode \<Rightarrow> kerror" where
  "err c = KernelError c None"

definition is_durable :: "kerror \<Rightarrow> bool" where
  "is_durable e = (case e of DurableKernelError _ _ \<Rightarrow> True | _ \<Rightarrow> False)"

text \<open>\<open>instanceof KernelError\<close>: a durable error is one too.\<close>

definition is_kernel_error :: "kerror \<Rightarrow> bool" where
  "is_kernel_error e =
     (case e of KernelError _ _ \<Rightarrow> True | DurableKernelError _ _ \<Rightarrow> True | _ \<Rightarrow> False)"

definition err_code :: "kerror \<Rightarrow> kcode option" where
  "err_code e =
     (case e of KernelError c _ \<Rightarrow> Some c | DurableKernelError c _ \<Rightarrow> Some c | _ \<Rightarrow> None)"

lemma error_class_simps [simp]:
  "\<not> is_durable (err c)" "\<not> is_durable (KernelError c j)" "is_durable (DurableKernelError c j)"
  "\<not> is_durable ConstraintError" "\<not> is_durable InternalError"
  "is_kernel_error (err c)" "is_kernel_error (KernelError c j)"
  "is_kernel_error (DurableKernelError c j)" "\<not> is_kernel_error ConstraintError"
  "\<not> is_kernel_error InternalError"
  by (simp_all add: is_durable_def is_kernel_error_def err_def)

section \<open>Strings\<close>

definition js_space :: "char \<Rightarrow> bool" where
  "js_space c = (of_char c \<in> {9 :: nat, 10, 11, 12, 13, 32, 160})"

definition js_trim :: "string \<Rightarrow> string" where
  "js_trim t = rev (dropWhile js_space (rev (dropWhile js_space t)))"

text \<open>A number in decimal, as a template literal prints it.\<close>

fun show_nat :: "nat \<Rightarrow> string" where
  "show_nat n = (if n < 10 then [char_of (48 + n)] else show_nat (n div 10) @ [char_of (48 + n mod 10)])"

declare show_nat.simps [simp del]

text \<open>The truth of an optional string in a condition: the empty string counts as absent.\<close>

definition truthy :: "string option \<Rightarrow> string option" where
  "truthy v = (if v = Some [] then None else v)"

definition requireNonEmpty :: "string \<Rightarrow> ('s, kerror, unit) op" where
  "requireNonEmpty t = guardM (js_trim t \<noteq> []) (err InvalidCommand)"

fun unique :: "'a list \<Rightarrow> 'a list" where
  "unique [] = []"
| "unique (x # xs) = x # unique (filter (\<lambda>y. y \<noteq> x) xs)"

section \<open>Bounded numbers\<close>

text \<open>\<open>boundedLimit(limit = 100)\<close>: an omitted limit is 100.\<close>

definition boundedLimit :: "jsnum option \<Rightarrow> ('s, kerror, nat) op" where
  "boundedLimit l =
     (case l of
        None \<Rightarrow> ret 100
      | Some JOther \<Rightarrow> raise (err InvalidCommand)
      | Some (JInt n) \<Rightarrow> if n < 1 \<or> n > 500 then raise (err InvalidCommand) else ret (nat n))"

definition boundedDuration :: "jsnum \<Rightarrow> ('s, kerror, int) op" where
  "boundedDuration d =
     (case d of
        JOther \<Rightarrow> raise (err InvalidCommand)
      | JInt n \<Rightarrow> if n < 1000 \<or> n > 300000 then raise (err InvalidCommand) else ret n)"

text \<open>\<open>requirePositiveRevision\<close> and \<open>requireValidRevision\<close>: a positive integer.\<close>

definition requirePositiveRevision :: "jsnum \<Rightarrow> ('s, kerror, nat) op" where
  "requirePositiveRevision r =
     (case r of
        JOther \<Rightarrow> raise (err InvalidCommand)
      | JInt n \<Rightarrow> if n < 1 then raise (err InvalidCommand) else ret (nat n))"

section \<open>Facts\<close>

lemma set_unique [simp]: "set (unique xs) = set xs"
  by (induction xs rule: unique.induct) auto

lemma distinct_unique [simp]: "distinct (unique xs)"
  by (induction xs rule: unique.induct) auto

lemma unique_id: "distinct xs \<Longrightarrow> unique xs = xs"
proof (induction xs)
  case Nil
  then show ?case by simp
next
  case (Cons x xs)
  then have "filter (\<lambda>y. y \<noteq> x) xs = xs" by (auto simp: filter_id_conv)
  with Cons show ?case by simp
qed

lemma length_unique_le: "length (unique xs) \<le> length xs"
proof (induction xs rule: unique.induct)
  case (2 x xs)
  have "length (filter (\<lambda>y. y \<noteq> x) xs) \<le> length xs" by simp
  with 2 have "length (unique (filter (\<lambda>y. y \<noteq> x) xs)) \<le> length xs" by (rule le_trans)
  then show ?case by simp
qed simp

lemma unique_eq_length: "length (unique xs) = length xs \<longleftrightarrow> distinct xs"
proof
  assume "length (unique xs) = length xs"
  then have "card (set xs) = length xs"
    using distinct_card [OF distinct_unique [of xs]] by simp
  then show "distinct xs" by (rule card_distinct)
qed (simp add: unique_id)

lemma wp_requireNonEmpty [wp_simps]:
  "wp (requireNonEmpty t) Q E s = (if js_trim t \<noteq> [] then Q () s else E (err InvalidCommand) s)"
  by (simp add: requireNonEmpty_def wp_simps)

lemma wp_intro_requireNonEmpty [wp_intros]:
  "(js_trim t \<noteq> [] \<Longrightarrow> Q () s) \<Longrightarrow> (js_trim t = [] \<Longrightarrow> E (err InvalidCommand) s) \<Longrightarrow>
   wp (requireNonEmpty t) Q E s"
  by (simp add: wp_requireNonEmpty)

lemma wp_intro_boundedDuration [wp_intros]:
  "(\<And>n. d = JInt n \<Longrightarrow> 1000 \<le> n \<Longrightarrow> n \<le> 300000 \<Longrightarrow> Q n s) \<Longrightarrow> E (err InvalidCommand) s \<Longrightarrow>
   wp (boundedDuration d) Q E s"
  by (auto simp: boundedDuration_def wp_simps split: jsnum.split)

lemma keeps_requireNonEmpty [keeps_rules]: "keeps I (requireNonEmpty t)"
  by (simp add: requireNonEmpty_def keeps_guardM)

lemma wp_boundedDuration [wp_simps]:
  "wp (boundedDuration d) Q E s =
     (case d of JInt n \<Rightarrow> if 1000 \<le> n \<and> n \<le> 300000 then Q n s else E (err InvalidCommand) s
      | JOther \<Rightarrow> E (err InvalidCommand) s)"
  by (auto simp: boundedDuration_def wp_simps split: jsnum.splits)

lemma keeps_boundedDuration [keeps_rules]: "keeps I (boundedDuration d)"
  by (auto simp: boundedDuration_def keeps_ret keeps_raise split: jsnum.splits)

lemma wp_boundedLimit [wp_simps]:
  "wp (boundedLimit l) Q E s =
     (case l of None \<Rightarrow> Q 100 s
      | Some JOther \<Rightarrow> E (err InvalidCommand) s
      | Some (JInt n) \<Rightarrow> if 1 \<le> n \<and> n \<le> 500 then Q (nat n) s else E (err InvalidCommand) s)"
  by (cases l rule: option.exhaust; simp add: boundedLimit_def wp_simps split: jsnum.split)

lemma keeps_boundedLimit [keeps_rules]: "keeps I (boundedLimit l)"
  by (auto simp: boundedLimit_def keeps_ret keeps_raise split: jsnum.splits option.splits)

lemma wp_requirePositiveRevision [wp_simps]:
  "wp (requirePositiveRevision r) Q E s =
     (case r of JInt n \<Rightarrow> if 1 \<le> n then Q (nat n) s else E (err InvalidCommand) s
      | JOther \<Rightarrow> E (err InvalidCommand) s)"
  by (auto simp: requirePositiveRevision_def wp_simps split: jsnum.splits)

lemma keeps_requirePositiveRevision [keeps_rules]: "keeps I (requirePositiveRevision r)"
  by (auto simp: requirePositiveRevision_def keeps_ret keeps_raise split: jsnum.splits)

end
