(* ===== verification/Schema.thy ===== *)
theory Schema
  imports Values
begin

text \<open>
  The durable state of the kernel: one record per table of \<open>schema.ts\<close>, with the closed sets
  of text values of its CHECK constraints as datatypes, the database as the record of all
  tables, and the kernel context (\<open>database.ts\<close>) as the record of the database, the clock, the
  two sources of fresh names and the local state.

  A nullable column is an option, a JSON column holds the JSON value itself, and a table is the
  list of its rows in the order of its integer primary key, or of insertion where it has none.
\<close>

section \<open>Closed value sets\<close>

datatype principal_kind = Human | Agent | Runtime

datatype run_state = RunActive | RunWaiting | RunCompleted | RunFailed | RunCancelled

datatype attention_status = AttOpen | AttResolved | AttIgnored

datatype attention_outcome = OutRunCreated | OutExistingRunContinued | OutIgnored

datatype disposition = Pending | Incorporated | Declined | Superseded | Withdrawn | Abandoned

datatype provider_status = ProvStarted | ProvAcknowledged | ProvCompleted | ProvFailed | ProvUnknown

datatype activation_outcome = ActCompleted | ActFailed | ActCancelled | ActExpired

datatype cause = CauseRun | CauseAttention

datatype trigger_kind = Mention

datatype retention_class = Durable | Transient

datatype lease_status = LeaseActive | LeaseReleased | LeaseExpired | LeaseQuarantined

datatype lease_event_type =
    LeaseAcquiredEv | LeaseRenewedEv | LeaseReleasedEv | LeaseExpiredEv
  | LeaseQuarantinedEv | LeaseQuarantineResolvedEv

datatype worktree_state = WtReady | WtQuarantined

datatype execution_state =
    ExStarting | ExRunning | ExStopRequested | ExStopConfirmed | ExForceTerminated | ExUncertain

datatype execution_operation = WriteProbe | NativeProvider

datatype permission_mode = ProviderDefault | AllowAll

datatype entity_type =
    EntAgent | EntMessage | EntAttention | EntRun | EntRunInput | EntActivationAttempt
  | EntProviderAttempt | EntRunActivityEvent | EntArtifact

datatype event_type =
    EvAttentionOpened | EvMessagePublished | EvMessageEdited | EvMessageDeleted
  | EvAgentConfigUpdated | EvRunConfigAdopted | EvRunInputAdded | EvRunInputWithdrawn
  | EvRunCreated | EvRunActivated | EvRunWaiting | EvRunCompleted | EvRunFailed | EvRunCancelled
  | EvLateOutputRecorded | EvAttentionHandlerLeaseSuperseded | EvAttentionClaimed
  | EvAttentionResolved | EvAttentionIgnored | EvActivationStarted | EvActivationFinished
  | EvProviderAttemptStarted | EvProviderAttemptAcknowledged | EvProviderAttemptFinished
  | EvRunActivityAppended | EvArtifactPublished

datatype outbox_topic =
    TopicRunActivationRequested | TopicRunInputAvailable | TopicRunInputWithdrawn
  | TopicRunActivated | TopicRunWaiting | TopicRunCompleted | TopicRunFailed | TopicRunCancelled
  | TopicMessagePublished | TopicMessageRevised | TopicArtifactPublished

datatype revocation_reason =
    SupersededActivation | RunCompletedReason | RunWaitingReason | RunFailedReason
  | RunCancelledReason | ProviderFailureParked | AttentionDomainSuperseded
  | AttentionLeaseReplaced | AttentionResolvedReason | AttentionIgnoredReason
  | AttentionResolvedWithExistingRun

text \<open>\<open>isTerminalRunState\<close>.\<close>

definition isTerminalRunState :: "run_state \<Rightarrow> bool" where
  "isTerminalRunState st \<longleftrightarrow> st = RunCompleted \<or> st = RunFailed \<or> st = RunCancelled"

text \<open>\<open>status IN ('Started', 'Acknowledged')\<close>.\<close>

definition unsettled :: "provider_status \<Rightarrow> bool" where
  "unsettled st \<longleftrightarrow> st = ProvStarted \<or> st = ProvAcknowledged"

section \<open>Identity and collaboration tables\<close>

record causal_limits_row =
  cl_max_depth :: nat
  cl_max_non_terminal :: nat

record principal_row =
  pr_id :: ident
  pr_kind :: principal_kind
  pr_display_name :: string

record project_row =
  pj_id :: ident
  pj_name :: string

record channel_row =
  ch_id :: ident
  ch_project_id :: ident
  ch_name :: string

record agent_row =
  ag_id :: ident
  ag_principal_id :: ident
  ag_project_id :: ident
  ag_name :: string
  ag_current_config_revision :: nat

record agent_config_row =
  ac_agent_id :: ident
  ac_revision :: nat
  ac_config :: json
  ac_created_at :: instant

record thread_row =
  th_root_message_id :: ident
  th_project_id :: ident
  th_channel_id :: ident
  th_created_event_sequence :: "nat option"
  th_cursor :: nat

record message_row =
  ms_id :: ident
  ms_project_id :: ident
  ms_channel_id :: ident
  ms_thread_root_id :: ident
  ms_reply_to_message_id :: "ident option"
  ms_author_principal_id :: ident
  ms_author_agent_id :: "ident option"
  ms_caused_by_attention_id :: "ident option"
  ms_caused_by_run_id :: "ident option"
  ms_thread_sequence :: nat
  ms_latest_revision :: nat
  ms_created_event_sequence :: "nat option"
  ms_created_at :: instant

record message_revision_row =
  mr_id :: ident
  mr_message_id :: ident
  mr_revision :: nat
  mr_body :: string
  mr_tombstone :: bool
  mr_created_event_sequence :: "nat option"
  mr_created_at :: instant

record mention_row =
  mn_id :: ident
  mn_message_revision_id :: ident
  mn_target_agent_id :: ident
  mn_created_event_sequence :: "nat option"
  mn_created_at :: instant

record attention_row =
  at_sequence :: nat
  at_id :: ident
  at_project_id :: ident
  at_channel_id :: ident
  at_thread_root_id :: ident
  at_message_revision_id :: ident
  at_target_agent_id :: ident
  at_trigger_kind :: trigger_kind
  at_status :: attention_status
  at_revision :: nat
  at_handler_lease_holder :: "ident option"
  at_handler_lease_token :: "string option"
  at_handler_lease_expires_at :: "instant option"
  at_resolution_outcome :: "attention_outcome option"
  at_resolved_by :: "ident option"
  at_resolved_activation_id :: "ident option"
  at_resolved_run_id :: "ident option"
  at_created_event_sequence :: "nat option"
  at_created_at :: instant
  at_resolved_at :: "instant option"

section \<open>Run and execution tables\<close>

record run_row =
  rn_id :: ident
  rn_project_id :: ident
  rn_home_channel_id :: ident
  rn_thread_root_id :: ident
  rn_owner_agent_id :: ident
  rn_agent_config_revision :: nat
  rn_causal_root_id :: ident
  rn_parent_attention_id :: ident
  rn_parent_run_id :: "ident option"
  rn_delegation_depth :: nat
  rn_state :: run_state
  rn_revision :: nat
  rn_activation_generation :: nat
  rn_next_input_sequence :: nat
  rn_next_activity_sequence :: nat
  rn_created_event_sequence :: "nat option"
  rn_created_at :: instant
  rn_updated_at :: instant
  rn_terminal_reason :: "string option"

record run_input_row =
  ri_id :: ident
  ri_run_id :: ident
  ri_message_revision_id :: ident
  ri_run_input_sequence :: nat
  ri_assigned_by_principal_id :: ident
  ri_assigned_by_activation_id :: "ident option"
  ri_source_attention_id :: "ident option"
  ri_created_event_sequence :: "nat option"
  ri_created_at :: instant
  ri_disposition :: disposition
  ri_disposition_revision :: nat
  ri_disposition_reason :: "string option"
  ri_superseded_by :: "ident option"

record activation_row =
  aa_id :: ident
  aa_agent_id :: ident
  aa_run_id :: "ident option"
  aa_attention_id :: "ident option"
  aa_attention_lease_token :: "string option"
  aa_run_activation_generation :: "nat option"
  aa_cause :: cause
  aa_config_revision :: nat
  aa_created_event_sequence :: "nat option"
  aa_started_at :: instant
  aa_expires_at :: instant
  aa_revoked_at :: "instant option"
  aa_revocation_reason :: "revocation_reason option"
  aa_finished_at :: "instant option"
  aa_outcome :: "activation_outcome option"
  aa_detail :: "string option"

record activation_input_row =
  ai_activation_id :: ident
  ai_run_input_id :: ident
  ai_run_input_sequence :: nat

record provider_attempt_row =
  pa_id :: ident
  pa_activation_id :: ident
  pa_run_id :: "ident option"
  pa_adapter :: string
  pa_adapter_version :: string
  pa_capability_snapshot :: json
  pa_run_input_ids :: "ident list"
  pa_request_idempotency_key :: string
  pa_status :: provider_status
  pa_detail :: "string option"
  pa_created_event_sequence :: "nat option"
  pa_started_at :: instant
  pa_finished_at :: "instant option"

record recovery_row =
  rx_activation_id :: ident
  rx_started_at :: instant
  rx_expires_at :: instant
  rx_unfinished :: bool
  rx_expired_recoverable :: bool
  rx_unsettled_count :: nat
  rx_finished_with_unsettled :: bool

record domain_fence_row =
  df_agent_id :: ident
  df_project_id :: ident
  df_channel_id :: ident
  df_thread_root_id :: ident
  df_attention_id :: ident
  df_lease_token :: "string option"
  df_lease_expires_at :: "instant option"
  df_unsettled_count :: nat

record activity_row =
  ra_id :: ident
  ra_run_id :: ident
  ra_activation_id :: "ident option"
  ra_provider_attempt_id :: "ident option"
  ra_sequence :: nat
  ra_kind :: string
  ra_payload :: json
  ra_retention_class :: retention_class
  ra_created_event_sequence :: "nat option"
  ra_created_at :: instant

record artifact_row =
  ar_id :: ident
  ar_content_digest :: string
  ar_producer_run_id :: ident
  ar_producer_activation_id :: ident
  ar_producer_thread_root_id :: ident
  ar_base_revision :: string
  ar_media_type :: string
  ar_byte_length :: nat
  ar_visibility_channel_id :: ident
  ar_metadata :: "json option"
  ar_created_event_sequence :: "nat option"
  ar_created_at :: instant

record outbox_row =
  ob_sequence :: nat
  ob_id :: ident
  ob_topic :: outbox_topic
  ob_aggregate_type :: entity_type
  ob_aggregate_id :: ident
  ob_payload :: json
  ob_delivery_attempts :: nat
  ob_lease_holder :: "ident option"
  ob_lease_token :: "string option"
  ob_lease_expires_at :: "instant option"
  ob_created_at :: instant
  ob_acknowledged_at :: "instant option"
  ob_acknowledged_by :: "ident option"

section \<open>Worktree tables\<close>

record lease_row =
  wl_worktree_id :: ident
  wl_revision :: nat
  wl_generation :: nat
  wl_fencing_token :: nat
  wl_status :: lease_status
  wl_holder :: "ident option"
  wl_lease_token :: "string option"
  wl_acquired_at :: "instant option"
  wl_renewed_at :: "instant option"
  wl_expires_at :: "instant option"
  wl_released_at :: "instant option"
  wl_quarantine_reason :: "string option"
  wl_quarantine_token :: "string option"
  wl_quarantine_evidence :: "json option"
  wl_quarantined_at :: "instant option"
  wl_quarantine_resolved_at :: "instant option"
  wl_quarantine_resolution :: "string option"
  wl_updated_at :: instant

record lease_event_row =
  we_sequence :: nat
  we_id :: ident
  we_worktree_id :: ident
  we_type :: lease_event_type
  we_revision :: nat
  we_generation :: nat
  we_fencing_token :: nat
  we_actor :: ident
  we_holder :: "ident option"
  we_expires_at :: "instant option"
  we_reason :: "string option"
  we_evidence :: "json option"
  we_correlation_id :: string
  we_occurred_at :: instant

record physical_row =
  pw_worktree_id :: ident
  pw_run_id :: ident
  pw_repository_id :: string
  pw_repository_path :: string
  pw_base_revision :: string
  pw_directory_path :: string
  pw_directory_identity :: string
  pw_state :: worktree_state
  pw_created_at :: instant

record execution_row =
  wx_sequence :: nat
  wx_id :: ident
  wx_worktree_id :: ident
  wx_activation_id :: ident
  wx_runtime_principal_id :: ident
  wx_executor_id :: string
  wx_execution_token :: string
  wx_generation :: nat
  wx_fencing_token :: nat
  wx_operation :: execution_operation
  wx_provider_attempt_id :: "ident option"
  wx_permission_mode :: "permission_mode option"
  wx_state :: execution_state
  wx_pid :: "nat option"
  wx_authority_revoked_at :: "instant option"
  wx_authority_revocation_reason :: "string option"
  wx_created_at :: instant

record execution_event_row =
  xe_sequence :: nat
  xe_execution_id :: ident
  xe_state :: execution_state
  xe_evidence :: string
  xe_occurred_at :: instant

section \<open>Events and histories\<close>

record event_row =
  ev_sequence :: nat
  ev_event_id :: ident
  ev_type :: event_type
  ev_project_id :: ident
  ev_channel_id :: "ident option"
  ev_thread_root_id :: "ident option"
  ev_thread_cursor :: "nat option"
  ev_entity_type :: entity_type
  ev_entity_id :: ident
  ev_actor :: ident
  ev_activation_id :: "ident option"
  ev_causation_id :: "ident option"
  ev_correlation_id :: string
  ev_payload :: json
  ev_occurred_at :: instant

record attention_history_row =
  nh_attention_id :: ident
  nh_event_sequence :: nat
  nh_status :: attention_status
  nh_revision :: nat
  nh_handler_lease_holder :: "ident option"
  nh_handler_lease_expires_at :: "instant option"
  nh_resolution_outcome :: "attention_outcome option"
  nh_resolved_run_id :: "ident option"
  nh_resolved_at :: "instant option"

record run_history_row =
  rh_run_id :: ident
  rh_event_sequence :: nat
  rh_state :: run_state
  rh_revision :: nat
  rh_agent_config_revision :: nat
  rh_activation_generation :: nat
  rh_updated_at :: instant
  rh_terminal_reason :: "string option"

record run_input_history_row =
  ih_run_input_id :: ident
  ih_event_sequence :: nat
  ih_disposition :: disposition
  ih_disposition_revision :: nat
  ih_disposition_reason :: "string option"
  ih_superseded_by :: "ident option"

record activation_history_row =
  ah_activation_id :: ident
  ah_event_sequence :: nat
  ah_revoked_at :: "instant option"
  ah_revocation_reason :: "revocation_reason option"
  ah_finished_at :: "instant option"
  ah_outcome :: "activation_outcome option"
  ah_detail :: "string option"

record provider_history_row =
  ph_provider_attempt_id :: ident
  ph_event_sequence :: nat
  ph_status :: provider_status
  ph_detail :: "string option"
  ph_finished_at :: "instant option"

end
