(* ===== verification/Store.thy ===== *)
theory Store
  imports Schema
begin

text \<open>
  The kernel context and its database (\<open>database.ts\<close>): the record of all tables, the
  environment the kernel reads (the clock, the id factory, the random source), and the
  statements the handlers run. A statement is SELECT by a condition, INSERT that fails on a
  violated UNIQUE constraint, UPDATE with a WHERE clause, or DELETE.

  The clock is an arbitrary stream of instants, one per read: nothing assumes that it moves
  forward. The id factory and the random source are arbitrary streams too; nothing assumes
  that they are fresh, since the UNIQUE constraints of the tables refuse a repeated key.
\<close>

section \<open>Commands, views and results\<close>

text \<open>Every command record extends this one.\<close>

record idempotent_command =
  idempotencyKey :: string

record outbox_view =
  ov_cursor :: nat
  ov_id :: ident
  ov_topic :: outbox_topic
  ov_aggregateType :: entity_type
  ov_aggregateId :: ident
  ov_payload :: json
  ov_deliveryAttempts :: nat
  ov_leaseHolderPrincipalId :: "ident option"
  ov_leaseExpiresAt :: "instant option"
  ov_acknowledgedAt :: "instant option"
  ov_createdAt :: instant

record lease_view =
  lv_worktreeId :: ident
  lv_revision :: nat
  lv_generation :: nat
  lv_fencingToken :: nat
  lv_status :: lease_status
  lv_holderPrincipalId :: "ident option"
  lv_acquiredAt :: "instant option"
  lv_renewedAt :: "instant option"
  lv_expiresAt :: "instant option"
  lv_releasedAt :: "instant option"
  lv_quarantineReason :: "string option"
  lv_quarantineEvidence :: "json option"
  lv_quarantinedAt :: "instant option"
  lv_quarantineResolvedAt :: "instant option"
  lv_quarantineResolution :: "string option"
  lv_updatedAt :: instant

datatype command_type =
    StartThread | ReplyToThread | EditMessage | DeleteMessage | UpdateAgentConfig
  | AdoptRunConfig | SendToRun | CancelRun | WithdrawRunInput | ClaimAttention
  | ResolveAttentionWithRun | IgnoreAttention | ResolveAttentionWithExistingRun
  | StartActivation | FinishActivation | StartProviderAttempt | FinishProviderAttempt
  | FailProviderAttempt | ParkRunAfterProviderAttemptFailure | ClaimOutboxEvents
  | AcknowledgeOutboxEvents | AppendRunActivity | PublishRunReply | PublishArtifact
  | CompleteRun | WaitRun | FailRun | RecordLateOutput | RegisterPhysicalWorktree
  | StartWorktreeExecution | RecordWorktreeExecution | RevokeWorktreeExecutionAuthority
  | RecoverWorktreeExecution | AcquireWorktreeWriterLease | RenewWorktreeWriterLease
  | ReleaseWorktreeWriterLease | QuarantineWorktreeWriterLease
  | ResolveWorktreeWriterLeaseQuarantine

record command_result =
  cr_commandType :: command_type
  cr_entityId :: ident
  cr_correlationId :: "string option"
  cr_revision :: "nat option"
  cr_threadCursor :: "nat option"
  cr_relatedIds :: "(string \<times> string) list option"
  cr_leaseToken :: "string option"
  cr_leaseExpiresAt :: "instant option"
  cr_authorityObservedAt :: "instant option"
  cr_outboxEvents :: "outbox_view list option"
  cr_leaseGeneration :: "nat option"
  cr_fencingToken :: "nat option"
  cr_quarantineToken :: "string option"
  cr_executionToken :: "string option"
  cr_worktreeWriterLease :: "lease_view option"

text \<open>The result object with the two members every command has; a handler adds the others.\<close>

definition command_result_of :: "command_type \<Rightarrow> ident \<Rightarrow> command_result" where
  "command_result_of ct eid =
     \<lparr>cr_commandType = ct, cr_entityId = eid, cr_correlationId = None, cr_revision = None,
      cr_threadCursor = None, cr_relatedIds = None, cr_leaseToken = None,
      cr_leaseExpiresAt = None, cr_authorityObservedAt = None, cr_outboxEvents = None,
      cr_leaseGeneration = None, cr_fencingToken = None, cr_quarantineToken = None,
      cr_executionToken = None, cr_worktreeWriterLease = None\<rparr>"

record idempotency_row =
  ir_principal_id :: ident
  ir_command_name :: command_type
  ir_idempotency_key :: string
  ir_payload_hash :: string
  ir_result :: command_result
  ir_created_at :: instant

record principal_context =
  pc_principalId :: ident
  pc_activationId :: "ident option"

section \<open>The database and the kernel context\<close>

record database =
  d_causal_limits :: "causal_limits_row option"
  d_principals :: "principal_row list"
  d_projects :: "project_row list"
  d_channels :: "channel_row list"
  d_agents :: "agent_row list"
  d_agent_configs :: "agent_config_row list"
  d_threads :: "thread_row list"
  d_messages :: "message_row list"
  d_message_revisions :: "message_revision_row list"
  d_mentions :: "mention_row list"
  d_attentions :: "attention_row list"
  d_runs :: "run_row list"
  d_run_inputs :: "run_input_row list"
  d_activations :: "activation_row list"
  d_activation_inputs :: "activation_input_row list"
  d_provider_attempts :: "provider_attempt_row list"
  d_recovery_revision :: nat
  d_recovery :: "recovery_row list"
  d_domain_fences :: "domain_fence_row list"
  d_activities :: "activity_row list"
  d_artifacts :: "artifact_row list"
  d_idempotency :: "idempotency_row list"
  d_outbox :: "outbox_row list"
  d_leases :: "lease_row list"
  d_lease_events :: "lease_event_row list"
  d_worktrees :: "physical_row list"
  d_executions :: "execution_row list"
  d_execution_events :: "execution_event_row list"
  d_events :: "event_row list"
  d_run_history :: "run_history_row list"
  d_run_input_history :: "run_input_history_row list"
  d_activation_history :: "activation_history_row list"
  d_provider_history :: "provider_history_row list"
  d_attention_history :: "attention_history_row list"
  d_activation_changes :: "ident list"
  d_storage_identity :: string

record kernel =
  k_db :: database
  k_clock :: "nat \<Rightarrow> instant"
  k_ticks :: nat
  k_ids :: "string \<Rightarrow> nat \<Rightarrow> string"
  k_drawn :: nat
  k_random :: "nat \<Rightarrow> string"
  k_randoms :: nat
  k_activationDurationMs :: int
  k_localWorktreeRevocations :: "ident list"
  k_cwd :: string

type_synonym 'a kop = "(kernel, kerror, 'a) op"

definition clock :: "instant kop" where
  "clock = (\<lambda>k. (Inr (k_clock k (k_ticks k)), k\<lparr>k_ticks := Suc (k_ticks k)\<rparr>))"

definition idFactory :: "string \<Rightarrow> ident kop" where
  "idFactory p = (\<lambda>k. (Inr (k_ids k p (k_drawn k)), k\<lparr>k_drawn := Suc (k_drawn k)\<rparr>))"

text \<open>\<open>randomBytes(32).toString("base64url")\<close>.\<close>

definition randomToken :: "string kop" where
  "randomToken = (\<lambda>k. (Inr (k_random k (k_randoms k)), k\<lparr>k_randoms := Suc (k_randoms k)\<rparr>))"

definition query :: "(database \<Rightarrow> 'a) \<Rightarrow> 'a kop" where
  "query f = gets (\<lambda>k. f (k_db k))"

definition writeDb :: "(database \<Rightarrow> database) \<Rightarrow> unit kop" where
  "writeDb f = modify (k_db_update f)"

text \<open>INSERT: a row that clashes with a stored row violates a UNIQUE constraint.\<close>

definition insert_unique ::
  "(database \<Rightarrow> 'r list) \<Rightarrow> (('r list \<Rightarrow> 'r list) \<Rightarrow> database \<Rightarrow> database) \<Rightarrow>
   ('r \<Rightarrow> 'r \<Rightarrow> bool) \<Rightarrow> 'r \<Rightarrow> unit kop" where
  "insert_unique get upd clash row =
     bindM (query get) (\<lambda>rows.
       if list_ex (\<lambda>r. clash r row) rows then raise ConstraintError
       else writeDb (upd (\<lambda>rs. rs @ [row])))"

definition update_where ::
  "(('r list \<Rightarrow> 'r list) \<Rightarrow> database \<Rightarrow> database) \<Rightarrow> ('r \<Rightarrow> bool) \<Rightarrow> ('r \<Rightarrow> 'r) \<Rightarrow> unit kop" where
  "update_where upd P f = writeDb (upd (update_rows P f))"

definition delete_where ::
  "(('r list \<Rightarrow> 'r list) \<Rightarrow> database \<Rightarrow> database) \<Rightarrow> ('r \<Rightarrow> bool) \<Rightarrow> unit kop" where
  "delete_where upd P = writeDb (upd (delete_rows P))"

text \<open>
  The database right after the schema script, before bootstrap, and a context around a given
  database with a clock that advances by a second per read; the witnesses start from these.
\<close>

definition empty_database :: database where
  "empty_database =
     \<lparr>d_causal_limits = None, d_principals = [], d_projects = [], d_channels = [], d_agents = [],
      d_agent_configs = [], d_threads = [], d_messages = [], d_message_revisions = [],
      d_mentions = [], d_attentions = [], d_runs = [], d_run_inputs = [], d_activations = [],
      d_activation_inputs = [], d_provider_attempts = [], d_recovery_revision = 0,
      d_recovery = [], d_domain_fences = [], d_activities = [], d_artifacts = [],
      d_idempotency = [], d_outbox = [], d_leases = [], d_lease_events = [], d_worktrees = [],
      d_executions = [], d_execution_events = [], d_events = [], d_run_history = [],
      d_run_input_history = [], d_activation_history = [], d_provider_history = [],
      d_attention_history = [], d_activation_changes = [], d_storage_identity = []\<rparr>"

definition context_on :: "database \<Rightarrow> kernel" where
  "context_on d =
     \<lparr>k_db = d, k_clock = (\<lambda>n. 1000 * int n), k_ticks = 0,
      k_ids = (\<lambda>p n. p @ replicate n (CHR ''x'')), k_drawn = 0,
      k_random = (\<lambda>n. replicate n (CHR ''r'')), k_randoms = 0,
      k_activationDurationMs = 300000, k_localWorktreeRevocations = [],
      k_cwd = ''/''\<rparr>"

definition sample_runtime :: principal_row where
  "sample_runtime = \<lparr>pr_id = ''r'', pr_kind = Runtime, pr_display_name = ''R''\<rparr>"

section \<open>Running and framing the statements\<close>

lemma clock_run [run_simps, code]:
  "clock k = (Inr (k_clock k (k_ticks k)), k\<lparr>k_ticks := Suc (k_ticks k)\<rparr>)"
  by (simp add: clock_def)

lemma idFactory_run [run_simps, code]:
  "idFactory p k = (Inr (k_ids k p (k_drawn k)), k\<lparr>k_drawn := Suc (k_drawn k)\<rparr>)"
  by (simp add: idFactory_def)

lemma randomToken_run [run_simps, code]:
  "randomToken k = (Inr (k_random k (k_randoms k)), k\<lparr>k_randoms := Suc (k_randoms k)\<rparr>)"
  by (simp add: randomToken_def)

lemma query_run [run_simps, code]: "query f k = (Inr (f (k_db k)), k)"
  by (simp add: query_def gets_def)

lemma writeDb_run [run_simps, code]: "writeDb f k = (Inr (), k_db_update f k)"
  by (simp add: writeDb_def modify_def)

lemma insert_unique_run [run_simps, code]:
  "insert_unique get upd clash row k =
     (if list_ex (\<lambda>r. clash r row) (get (k_db k)) then (Inl ConstraintError, k)
      else (Inr (), k_db_update (upd (\<lambda>rs. rs @ [row])) k))"
  by (simp add: insert_unique_def run_simps)

lemma update_where_run [run_simps, code]:
  "update_where upd P f k = (Inr (), k_db_update (upd (update_rows P f)) k)"
  by (simp add: update_where_def run_simps)

lemma delete_where_run [run_simps, code]:
  "delete_where upd P k = (Inr (), k_db_update (upd (delete_rows P)) k)"
  by (simp add: delete_where_def run_simps)

lemma wp_clock [wp_simps]:
  "wp clock Q E k = Q (k_clock k (k_ticks k)) (k\<lparr>k_ticks := Suc (k_ticks k)\<rparr>)"
  by (simp add: wp_def clock_run)

lemma wp_idFactory [wp_simps]:
  "wp (idFactory p) Q E k = Q (k_ids k p (k_drawn k)) (k\<lparr>k_drawn := Suc (k_drawn k)\<rparr>)"
  by (simp add: wp_def idFactory_run)

lemma wp_randomToken [wp_simps]:
  "wp randomToken Q E k = Q (k_random k (k_randoms k)) (k\<lparr>k_randoms := Suc (k_randoms k)\<rparr>)"
  by (simp add: wp_def randomToken_run)

lemma wp_query [wp_simps]: "wp (query f) Q E k = Q (f (k_db k)) k"
  by (simp add: wp_def query_run)

lemma wp_writeDb [wp_simps]: "wp (writeDb f) Q E k = Q () (k_db_update f k)"
  by (simp add: wp_def writeDb_run)

lemma wp_insert_unique [wp_simps]:
  "wp (insert_unique get upd clash row) Q E k =
     (if list_ex (\<lambda>r. clash r row) (get (k_db k)) then E ConstraintError k
      else Q () (k_db_update (upd (\<lambda>rs. rs @ [row])) k))"
  by (simp add: wp_def insert_unique_run)

lemma wp_update_where [wp_simps]:
  "wp (update_where upd P f) Q E k = Q () (k_db_update (upd (update_rows P f)) k)"
  by (simp add: wp_def update_where_run)

lemma wp_delete_where [wp_simps]:
  "wp (delete_where upd P) Q E k = Q () (k_db_update (upd (delete_rows P)) k)"
  by (simp add: wp_def delete_where_run)

lemma wp_intro_clock [wp_intros]:
  "Q (k_clock k (k_ticks k)) (k\<lparr>k_ticks := Suc (k_ticks k)\<rparr>) \<Longrightarrow> wp clock Q E k"
  by (simp add: wp_simps)

lemma wp_intro_idFactory [wp_intros]:
  "Q (k_ids k p (k_drawn k)) (k\<lparr>k_drawn := Suc (k_drawn k)\<rparr>) \<Longrightarrow> wp (idFactory p) Q E k"
  by (simp add: wp_simps)

lemma wp_intro_randomToken [wp_intros]:
  "Q (k_random k (k_randoms k)) (k\<lparr>k_randoms := Suc (k_randoms k)\<rparr>) \<Longrightarrow> wp randomToken Q E k"
  by (simp add: wp_simps)

lemma wp_intro_query [wp_intros]: "Q (f (k_db k)) k \<Longrightarrow> wp (query f) Q E k"
  by (simp add: wp_simps)

lemma wp_intro_writeDb [wp_intros]: "Q () (k_db_update f k) \<Longrightarrow> wp (writeDb f) Q E k"
  by (simp add: wp_simps)

lemma wp_intro_insert_unique [wp_intros]:
  "(list_ex (\<lambda>r. clash r row) (get (k_db k)) \<Longrightarrow> E ConstraintError k) \<Longrightarrow>
   (\<not> list_ex (\<lambda>r. clash r row) (get (k_db k)) \<Longrightarrow> Q () (k_db_update (upd (\<lambda>rs. rs @ [row])) k)) \<Longrightarrow>
   wp (insert_unique get upd clash row) Q E k"
  by (simp add: wp_simps)

lemma wp_intro_update_where [wp_intros]:
  "Q () (k_db_update (upd (update_rows P f)) k) \<Longrightarrow> wp (update_where upd P f) Q E k"
  by (simp add: wp_simps)

lemma wp_intro_delete_where [wp_intros]:
  "Q () (k_db_update (upd (delete_rows P)) k) \<Longrightarrow> wp (delete_where upd P) Q E k"
  by (simp add: wp_simps)

text \<open>
  \<open>on_db J\<close>: a condition or view of the database alone. Reading the clock, drawing an id and
  querying keep every such condition; a statement on one table keeps what does not look at it.
\<close>

definition on_db :: "(database \<Rightarrow> 'v) \<Rightarrow> kernel \<Rightarrow> 'v" where
  "on_db J k = J (k_db k)"

lemma on_db_simps [simp]:
  "on_db J (k_db_update f k) = J (f (k_db k))"
  "on_db J (k_ticks_update f1 k) = on_db J k"
  "on_db J (k_drawn_update f1 k) = on_db J k"
  "on_db J (k_randoms_update f1 k) = on_db J k"
  by (simp_all add: on_db_def)

lemma frames_clock [frame_rules]: "frames (on_db g) clock"
  by (simp add: frames_def clock_run)

lemma frames_idFactory [frame_rules]: "frames (on_db g) (idFactory p)"
  by (simp add: frames_def idFactory_run)

lemma frames_randomToken [frame_rules]: "frames (on_db g) randomToken"
  by (simp add: frames_def randomToken_run)

lemma frames_query [frame_rules]: "frames g (query f)"
  by (simp add: frames_def query_run)

lemma frames_writeDb: "(\<And>d. g (f d) = g d) \<Longrightarrow> frames (on_db g) (writeDb f)"
  by (simp add: frames_def writeDb_run on_db_def)

lemma frames_insert_unique [frame_rules]:
  "(\<And>h d. g (upd h d) = g d) \<Longrightarrow> frames (on_db g) (insert_unique get upd clash row)"
  by (simp add: frames_def insert_unique_run on_db_def)

lemma frames_update_where [frame_rules]:
  "(\<And>h d. g (upd h d) = g d) \<Longrightarrow> frames (on_db g) (update_where upd P f)"
  by (simp add: frames_def update_where_run on_db_def)

lemma frames_delete_where [frame_rules]:
  "(\<And>h d. g (upd h d) = g d) \<Longrightarrow> frames (on_db g) (delete_where upd P)"
  by (simp add: frames_def delete_where_run on_db_def)

section \<open>Keyed tables\<close>

text \<open>
  What a client of a table relies on: its selector and updater fit, and its UNIQUE constraint
  covers the key. Then the key identifies a row in every state the statements reach.
\<close>

locale table =
  fixes get :: "database \<Rightarrow> 'r list"
    and upd :: "('r list \<Rightarrow> 'r list) \<Rightarrow> database \<Rightarrow> database"
    and key :: "'r \<Rightarrow> 'k"
    and clash :: "'r \<Rightarrow> 'r \<Rightarrow> bool"
  assumes get_upd: "get (upd f d) = f (get d)"
    and upd_upd: "upd f (upd h d) = upd (\<lambda>rs. f (h rs)) d"
    and upd_id: "upd (\<lambda>rs. rs) d = d"
    and clash_key: "key r = key q \<Longrightarrow> clash r q"
begin

definition keyed :: "database \<Rightarrow> bool" where
  "keyed d \<longleftrightarrow> distinct (map key (get d))"

lemma fresh_key: "\<not> list_ex (\<lambda>r. clash r row) rs \<Longrightarrow> key row \<notin> key ` set rs"
  using clash_key by (force simp: list_ex_iff)

lemma keeps_insert: "keeps (on_db keyed) (insert_unique get upd clash row)"
  using fresh_key by (simp add: keeps_def insert_unique_run on_db_def keyed_def get_upd)

lemma keeps_update: "(\<And>r. key (f r) = key r) \<Longrightarrow> keeps (on_db keyed) (update_where upd P f)"
  by (simp add: keeps_def update_where_run on_db_def keyed_def get_upd map_key_update)

lemma keeps_delete: "keeps (on_db keyed) (delete_where upd P)"
  by (simp add: keeps_def delete_where_run on_db_def keyed_def get_upd delete_rows_def
      distinct_map_filter)

lemma find_after_insert:
  "insert_unique get upd clash row k = (Inr u, k') \<Longrightarrow>
   find_row key (key row) (get (k_db k')) = Some row"
  using fresh_key [of row "get (k_db k)"]
  by (auto simp: insert_unique_run get_upd find_row_snoc split: if_splits option.splits
      dest!: find_row_Some) (metis image_eqI)

lemma find_other_after_insert:
  "insert_unique get upd clash row k = (Inr u, k') \<Longrightarrow> i \<noteq> key row \<Longrightarrow>
   find_row key i (get (k_db k')) = find_row key i (get (k_db k))"
  by (auto simp: insert_unique_run get_upd find_row_snoc split: if_splits option.splits)

lemma find_after_update:
  "(\<And>r. key (f r) = key r) \<Longrightarrow> find_row key i (get (k_db (k_db_update (upd (update_rows P f)) k))) =
   map_option (\<lambda>r. if P r then f r else r) (find_row key i (get (k_db k)))"
  by (simp add: get_upd find_row_update)

text \<open>A loop that updates row after row by key is one UPDATE of all of them.\<close>

lemma update_each:
  assumes "\<And>r. key (f r) = key r" and "distinct ks"
  shows "forM ks (\<lambda>i. update_where upd (\<lambda>r. key r = i) f) k =
     (Inr (), k_db_update (upd (update_rows (\<lambda>r. key r \<in> set ks) f)) k)"
  using assms(2)
proof (induction ks arbitrary: k)
  case Nil
  then show ?case by (simp add: ret_run update_rows_def upd_id)
next
  case (Cons i ks)
  then have "update_rows (\<lambda>r. key r \<in> set ks) f (update_rows (\<lambda>r. key r = i) f rs) =
      update_rows (\<lambda>r. key r \<in> set (i # ks)) f rs" for rs
    by (auto simp: update_rows_def assms(1))
  with Cons show ?case by (simp add: run_simps upd_upd o_def)
qed

lemma find_member: "keyed d \<Longrightarrow> r \<in> set (get d) \<Longrightarrow> find_row key (key r) (get d) = Some r"
  by (simp add: keyed_def find_row_member)

end

end
