(* ===== verification/Triggers.thy ===== *)
theory Triggers
  imports Store
begin

text \<open>
  The UNIQUE constraints and the triggers of \<open>schema.ts\<close>. Every table with a key is an instance
  of the \<open>table\<close> interface; the tables with triggers have their own statements here, which run
  the trigger bodies after the change, row by row, and throw when a trigger aborts.

  The triggers keep two derived tables for recovery: \<open>attention_recovery_executions\<close> counts the
  unsettled provider attempts of an attention activation, \<open>attention_domain_fences\<close> counts them
  for the execution domain (agent, project, channel, thread) that the activation works in.
\<close>

section \<open>Unique constraints\<close>

definition channel_clash :: "channel_row \<Rightarrow> channel_row \<Rightarrow> bool" where
  "channel_clash r q \<longleftrightarrow> ch_id r = ch_id q"

definition agent_config_clash :: "agent_config_row \<Rightarrow> agent_config_row \<Rightarrow> bool" where
  "agent_config_clash r q \<longleftrightarrow> ac_agent_id r = ac_agent_id q \<and> ac_revision r = ac_revision q"

definition thread_clash :: "thread_row \<Rightarrow> thread_row \<Rightarrow> bool" where
  "thread_clash r q \<longleftrightarrow> th_root_message_id r = th_root_message_id q"

definition message_clash :: "message_row \<Rightarrow> message_row \<Rightarrow> bool" where
  "message_clash r q \<longleftrightarrow> ms_id r = ms_id q"

definition message_revision_clash :: "message_revision_row \<Rightarrow> message_revision_row \<Rightarrow> bool" where
  "message_revision_clash r q \<longleftrightarrow>
     mr_id r = mr_id q \<or> mr_message_id r = mr_message_id q \<and> mr_revision r = mr_revision q"

definition mention_clash :: "mention_row \<Rightarrow> mention_row \<Rightarrow> bool" where
  "mention_clash r q \<longleftrightarrow>
     mn_id r = mn_id q \<or>
     mn_message_revision_id r = mn_message_revision_id q \<and> mn_target_agent_id r = mn_target_agent_id q"

definition attention_clash :: "attention_row \<Rightarrow> attention_row \<Rightarrow> bool" where
  "attention_clash r q \<longleftrightarrow>
     at_id r = at_id q \<or>
     at_message_revision_id r = at_message_revision_id q \<and>
     at_target_agent_id r = at_target_agent_id q \<and> at_trigger_kind r = at_trigger_kind q"

definition run_clash :: "run_row \<Rightarrow> run_row \<Rightarrow> bool" where
  "run_clash r q \<longleftrightarrow> rn_id r = rn_id q"

definition run_input_clash :: "run_input_row \<Rightarrow> run_input_row \<Rightarrow> bool" where
  "run_input_clash r q \<longleftrightarrow>
     ri_id r = ri_id q \<or>
     ri_run_id r = ri_run_id q \<and>
       (ri_message_revision_id r = ri_message_revision_id q \<or>
        ri_run_input_sequence r = ri_run_input_sequence q)"

definition activation_clash :: "activation_row \<Rightarrow> activation_row \<Rightarrow> bool" where
  "activation_clash r q \<longleftrightarrow>
     aa_id r = aa_id q \<or>
     aa_attention_id r \<noteq> None \<and> aa_attention_lease_token r \<noteq> None \<and>
     aa_attention_id r = aa_attention_id q \<and> aa_attention_lease_token r = aa_attention_lease_token q"

definition activation_input_clash :: "activation_input_row \<Rightarrow> activation_input_row \<Rightarrow> bool" where
  "activation_input_clash r q \<longleftrightarrow>
     ai_activation_id r = ai_activation_id q \<and>
     (ai_run_input_id r = ai_run_input_id q \<or> ai_run_input_sequence r = ai_run_input_sequence q)"

definition provider_attempt_clash :: "provider_attempt_row \<Rightarrow> provider_attempt_row \<Rightarrow> bool" where
  "provider_attempt_clash r q \<longleftrightarrow>
     pa_id r = pa_id q \<or>
     pa_activation_id r = pa_activation_id q \<and>
     pa_request_idempotency_key r = pa_request_idempotency_key q"

definition domain_fence_clash :: "domain_fence_row \<Rightarrow> domain_fence_row \<Rightarrow> bool" where
  "domain_fence_clash r q \<longleftrightarrow>
     df_attention_id r = df_attention_id q \<or>
     df_agent_id r = df_agent_id q \<and> df_project_id r = df_project_id q \<and>
     df_channel_id r = df_channel_id q \<and> df_thread_root_id r = df_thread_root_id q"

definition activity_clash :: "activity_row \<Rightarrow> activity_row \<Rightarrow> bool" where
  "activity_clash r q \<longleftrightarrow> ra_id r = ra_id q \<or> ra_run_id r = ra_run_id q \<and> ra_sequence r = ra_sequence q"

definition artifact_clash :: "artifact_row \<Rightarrow> artifact_row \<Rightarrow> bool" where
  "artifact_clash r q \<longleftrightarrow>
     ar_id r = ar_id q \<or>
     ar_producer_run_id r = ar_producer_run_id q \<and> ar_content_digest r = ar_content_digest q"

definition idempotency_clash :: "idempotency_row \<Rightarrow> idempotency_row \<Rightarrow> bool" where
  "idempotency_clash r q \<longleftrightarrow>
     ir_principal_id r = ir_principal_id q \<and> ir_command_name r = ir_command_name q \<and>
     ir_idempotency_key r = ir_idempotency_key q"

definition outbox_clash :: "outbox_row \<Rightarrow> outbox_row \<Rightarrow> bool" where
  "outbox_clash r q \<longleftrightarrow> ob_id r = ob_id q"

definition worktree_clash :: "physical_row \<Rightarrow> physical_row \<Rightarrow> bool" where
  "worktree_clash r q \<longleftrightarrow>
     pw_worktree_id r = pw_worktree_id q \<or> pw_directory_path r = pw_directory_path q \<or>
     pw_directory_identity r = pw_directory_identity q"

definition event_clash :: "event_row \<Rightarrow> event_row \<Rightarrow> bool" where
  "event_clash r q \<longleftrightarrow> ev_event_id r = ev_event_id q"

interpretation agent_configs_table: table d_agent_configs d_agent_configs_update
    "\<lambda>r. (ac_agent_id r, ac_revision r)" agent_config_clash
  by unfold_locales (auto simp: agent_config_clash_def)

interpretation threads_table: table d_threads d_threads_update th_root_message_id thread_clash
  by unfold_locales (auto simp: thread_clash_def)

interpretation messages_table: table d_messages d_messages_update ms_id message_clash
  by unfold_locales (auto simp: message_clash_def)

interpretation attentions_table: table d_attentions d_attentions_update at_id attention_clash
  by unfold_locales (auto simp: attention_clash_def)

interpretation runs_table: table d_runs d_runs_update rn_id run_clash
  by unfold_locales (auto simp: run_clash_def)

interpretation run_inputs_table: table d_run_inputs d_run_inputs_update ri_id run_input_clash
  by unfold_locales (auto simp: run_input_clash_def)

interpretation activations_table: table d_activations d_activations_update aa_id activation_clash
  by unfold_locales (auto simp: activation_clash_def)

interpretation provider_attempts_table:
  table d_provider_attempts d_provider_attempts_update pa_id provider_attempt_clash
  by unfold_locales (auto simp: provider_attempt_clash_def)

interpretation activities_table:
  table d_activities d_activities_update "\<lambda>r. (ra_run_id r, ra_sequence r)" activity_clash
  by unfold_locales (auto simp: activity_clash_def)

interpretation artifacts_table: table d_artifacts d_artifacts_update ar_id artifact_clash
  by unfold_locales (auto simp: artifact_clash_def)

interpretation idempotency_table: table d_idempotency d_idempotency_update
    "\<lambda>r. (ir_principal_id r, ir_command_name r, ir_idempotency_key r)" idempotency_clash
  by unfold_locales (auto simp: idempotency_clash_def)

interpretation outbox_table: table d_outbox d_outbox_update ob_id outbox_clash
  by unfold_locales (auto simp: outbox_clash_def)

interpretation worktrees_table: table d_worktrees d_worktrees_update pw_worktree_id worktree_clash
  by unfold_locales (auto simp: worktree_clash_def)

interpretation events_table: table d_events d_events_update ev_event_id event_clash
  by unfold_locales (auto simp: event_clash_def)

section \<open>Triggers on activation attempts\<close>

definition bump_recovery :: "database \<Rightarrow> database" where
  "bump_recovery = d_recovery_revision_update Suc"

text \<open>\<open>attention_recovery_activation_insert\<close>.\<close>

definition on_activation_insert :: "activation_row \<Rightarrow> database \<Rightarrow> database" where
  "on_activation_insert new d =
     (if aa_cause new \<noteq> CauseAttention then d
      else bump_recovery
        (d_recovery_update
          (\<lambda>rs. delete_rows (\<lambda>r. rx_activation_id r = aa_id new \<and>
                  aa_revoked_at new \<noteq> None \<and> aa_finished_at new = None)
            (rs @ [\<lparr>rx_activation_id = aa_id new, rx_started_at = aa_started_at new,
                    rx_expires_at = aa_expires_at new,
                    rx_unfinished = (aa_finished_at new = None \<and> aa_revoked_at new = None),
                    rx_expired_recoverable = False, rx_unsettled_count = 0,
                    rx_finished_with_unsettled = False\<rparr>])) d))"

text \<open>\<open>attention_recovery_activation_update\<close>.\<close>

definition recovery_after_update :: "activation_row \<Rightarrow> activation_row \<Rightarrow> recovery_row \<Rightarrow> recovery_row" where
  "recovery_after_update old new r =
     r\<lparr>rx_started_at := aa_started_at new, rx_expires_at := aa_expires_at new,
       rx_unfinished := (aa_finished_at new = None \<and> aa_revoked_at new = None),
       rx_expired_recoverable :=
         (aa_finished_at new = None \<and> aa_revoked_at new = None \<and>
          aa_expires_at new = aa_expires_at old \<and> rx_expired_recoverable r),
       rx_finished_with_unsettled := (aa_finished_at new \<noteq> None \<and> rx_unsettled_count r > 0)\<rparr>"

definition on_activation_update :: "activation_row \<Rightarrow> activation_row \<Rightarrow> database \<Rightarrow> database" where
  "on_activation_update old new d =
     (if aa_cause old = CauseAttention \<and>
         (aa_started_at old \<noteq> aa_started_at new \<or> aa_expires_at old \<noteq> aa_expires_at new \<or>
          aa_revoked_at old \<noteq> aa_revoked_at new \<or>
          aa_revocation_reason old \<noteq> aa_revocation_reason new \<or>
          aa_finished_at old \<noteq> aa_finished_at new \<or> aa_outcome old \<noteq> aa_outcome new \<or>
          aa_detail old \<noteq> aa_detail new)
      then bump_recovery
        (d_recovery_update
          (\<lambda>rs. delete_rows (\<lambda>r. rx_activation_id r = aa_id new \<and> aa_revoked_at new \<noteq> None \<and>
                  rx_unsettled_count r = 0)
            (update_rows (\<lambda>r. rx_activation_id r = aa_id new) (recovery_after_update old new) rs)) d)
      else d)"

definition insert_activation :: "activation_row \<Rightarrow> unit kop" where
  "insert_activation row =
     seqM (insert_unique d_activations d_activations_update activation_clash row)
          (writeDb (on_activation_insert row))"

text \<open>UPDATE activation_attempts ... RETURNING id: the ids of the rows it changed.\<close>

definition update_activations ::
  "(activation_row \<Rightarrow> bool) \<Rightarrow> (activation_row \<Rightarrow> activation_row) \<Rightarrow> ident list kop" where
  "update_activations P f =
     bindM (query (\<lambda>d. filter P (d_activations d))) (\<lambda>olds.
     seqM (writeDb (\<lambda>d. fold (\<lambda>old. on_activation_update old (f old)) olds
                          (d_activations_update (update_rows P f) d)))
          (ret (map aa_id olds)))"

section \<open>Triggers on provider attempts\<close>

definition recovery_exists :: "ident \<Rightarrow> database \<Rightarrow> bool" where
  "recovery_exists aid d = list_ex (\<lambda>r. rx_activation_id r = aid) (d_recovery d)"

definition attention_of_activation :: "ident \<Rightarrow> database \<Rightarrow> ident option" where
  "attention_of_activation aid d =
     (case find_row aa_id aid (d_activations d) of None \<Rightarrow> None | Some a \<Rightarrow> aa_attention_id a)"

definition of_attention :: "ident option \<Rightarrow> domain_fence_row \<Rightarrow> bool" where
  "of_attention v r \<longleftrightarrow> v = Some (df_attention_id r)"

definition unsettled_nat :: "provider_status \<Rightarrow> nat" where
  "unsettled_nat st = (if unsettled st then 1 else 0)"

definition recount_recovery :: "nat \<Rightarrow> nat \<Rightarrow> recovery_row \<Rightarrow> recovery_row" where
  "recount_recovery gained lost r =
     r\<lparr>rx_unsettled_count := rx_unsettled_count r + gained - lost,
       rx_finished_with_unsettled := (\<not> rx_unfinished r \<and> rx_unsettled_count r + gained - lost > 0)\<rparr>"

definition attention_recovery_provider_insert :: "provider_attempt_row \<Rightarrow> unit kop" where
  "attention_recovery_provider_insert new =
     bindM (query (recovery_exists (pa_activation_id new))) (\<lambda>tracked.
     whenM tracked
       (writeDb (\<lambda>d. bump_recovery (d_recovery_update
          (update_rows (\<lambda>r. rx_activation_id r = pa_activation_id new)
            (recount_recovery (unsettled_nat (pa_status new)) 0)) d))))"

definition attention_domain_provider_insert :: "provider_attempt_row \<Rightarrow> unit kop" where
  "attention_domain_provider_insert new =
     bindM (query (recovery_exists (pa_activation_id new))) (\<lambda>tracked.
     whenM (unsettled (pa_status new) \<and> tracked)
       (bindM (query (attention_of_activation (pa_activation_id new))) (\<lambda>attention.
        bindM (query (\<lambda>d. list_ex (of_attention attention) (d_domain_fences d))) (\<lambda>fenced.
        seqM (guardM fenced InternalError)
             (update_where d_domain_fences_update (of_attention attention)
               (\<lambda>r. r\<lparr>df_unsettled_count := df_unsettled_count r + 1\<rparr>))))))"

text \<open>A count may not become negative: a CHECK of the recovery table, an abort of the fence trigger.\<close>

definition attention_recovery_provider_update ::
  "provider_attempt_row \<Rightarrow> provider_attempt_row \<Rightarrow> unit kop" where
  "attention_recovery_provider_update old new =
     bindM (query (recovery_exists (pa_activation_id new))) (\<lambda>tracked.
     whenM (tracked \<and> (pa_status old \<noteq> pa_status new \<or> pa_detail old \<noteq> pa_detail new \<or>
                        pa_finished_at old \<noteq> pa_finished_at new))
       (bindM (query (\<lambda>d. list_all (\<lambda>r. rx_activation_id r = pa_activation_id new \<longrightarrow>
                 unsettled_nat (pa_status old) \<le>
                   rx_unsettled_count r + unsettled_nat (pa_status new)) (d_recovery d))) (\<lambda>nonnegative.
        seqM (guardM nonnegative InternalError)
             (writeDb (\<lambda>d. bump_recovery (d_recovery_update
               (update_rows (\<lambda>r. rx_activation_id r = pa_activation_id new)
                 (recount_recovery (unsettled_nat (pa_status new))
                    (unsettled_nat (pa_status old)))) d))))))"

definition attention_domain_provider_update ::
  "provider_attempt_row \<Rightarrow> provider_attempt_row \<Rightarrow> unit kop" where
  "attention_domain_provider_update old new =
     bindM (query (recovery_exists (pa_activation_id new))) (\<lambda>tracked.
     whenM (unsettled (pa_status old) \<noteq> unsettled (pa_status new) \<and> tracked)
       (bindM (query (attention_of_activation (pa_activation_id new))) (\<lambda>attention.
        bindM (query (\<lambda>d. list_ex (\<lambda>r. of_attention attention r \<and>
                 (unsettled (pa_status new) \<or> df_unsettled_count r > 0)) (d_domain_fences d))) (\<lambda>changes.
        seqM (guardM changes InternalError)
       (seqM (update_where d_domain_fences_update (of_attention attention)
               (\<lambda>r. r\<lparr>df_unsettled_count :=
                  (if unsettled (pa_status new) then df_unsettled_count r + 1
                   else df_unsettled_count r - 1)\<rparr>))
             (delete_where d_domain_fences_update
               (\<lambda>r. of_attention attention r \<and> df_lease_token r = None \<and>
                     df_unsettled_count r = 0)))))))"

definition insert_provider_attempt :: "provider_attempt_row \<Rightarrow> unit kop" where
  "insert_provider_attempt row =
     seqM (insert_unique d_provider_attempts d_provider_attempts_update provider_attempt_clash row)
    (seqM (attention_recovery_provider_insert row)
          (attention_domain_provider_insert row))"

text \<open>An UPDATE of the one row with the given id.\<close>

definition update_provider_attempt ::
  "ident \<Rightarrow> (provider_attempt_row \<Rightarrow> provider_attempt_row) \<Rightarrow> unit kop" where
  "update_provider_attempt pid f =
     bindM (query (\<lambda>d. find_row pa_id pid (d_provider_attempts d))) (\<lambda>old.
     case old of
       None \<Rightarrow> ret ()
     | Some o' \<Rightarrow>
         seqM (update_where d_provider_attempts_update (\<lambda>r. pa_id r = pid) f)
        (seqM (attention_recovery_provider_update o' (f o'))
              (attention_domain_provider_update o' (f o'))))"

section \<open>Trigger on attentions\<close>

text \<open>\<open>attention_recovery_attention_update\<close>.\<close>

definition attention_changed :: "attention_row \<Rightarrow> attention_row \<Rightarrow> bool" where
  "attention_changed old new \<longleftrightarrow>
     at_status old \<noteq> at_status new \<or> at_revision old \<noteq> at_revision new \<or>
     at_handler_lease_holder old \<noteq> at_handler_lease_holder new \<or>
     at_handler_lease_token old \<noteq> at_handler_lease_token new \<or>
     at_handler_lease_expires_at old \<noteq> at_handler_lease_expires_at new \<or>
     at_resolution_outcome old \<noteq> at_resolution_outcome new \<or>
     at_resolved_by old \<noteq> at_resolved_by new \<or>
     at_resolved_activation_id old \<noteq> at_resolved_activation_id new \<or>
     at_resolved_run_id old \<noteq> at_resolved_run_id new \<or> at_resolved_at old \<noteq> at_resolved_at new"

definition update_attentions ::
  "(attention_row \<Rightarrow> bool) \<Rightarrow> (attention_row \<Rightarrow> attention_row) \<Rightarrow> unit kop" where
  "update_attentions P f =
     bindM (query (\<lambda>d. length (filter (\<lambda>r. P r \<and> attention_changed r (f r)) (d_attentions d)))) (\<lambda>changed.
     seqM (update_where d_attentions_update P f)
          (writeDb (d_recovery_revision_update (\<lambda>n. n + changed))))"

end
