(* ===== verification/Invariants.thy ===== *)
theory Invariants
  imports Triggers "HOL-Library.Char_ord" "HOL-Library.List_Lexorder" "HOL-Library.Product_Lexorder"
begin

text \<open>
  The shared checks and effects of the handlers (\<open>invariants.ts\<close>) and the visibility of
  artifacts and events (\<open>artifact-visibility.ts\<close>): looking up the row a command names, who may
  act through an activation and when an activation is live, the claim of an attention's
  execution domain, the public event log and the outbox.

  An instant inside a JSON payload is its number of milliseconds (the code writes ISO text).
\<close>

section \<open>Looking up a row\<close>

definition requireRow :: "kcode \<Rightarrow> (database \<Rightarrow> 'r option) \<Rightarrow> 'r kop" where
  "requireRow c f = bindM (query f) (needM (err c))"

definition requirePrincipal :: "ident \<Rightarrow> principal_row kop" where
  "requirePrincipal i = requireRow Unauthorized (\<lambda>d. find_row pr_id i (d_principals d))"

definition requireKind :: "principal_row \<Rightarrow> principal_kind \<Rightarrow> unit kop" where
  "requireKind prin kind = guardM (pr_kind prin = kind) (err Forbidden)"

definition requireAgent :: "ident \<Rightarrow> agent_row kop" where
  "requireAgent i = requireRow NotFound (\<lambda>d. find_row ag_id i (d_agents d))"

definition requireMessage :: "ident \<Rightarrow> message_row kop" where
  "requireMessage i = requireRow NotFound (\<lambda>d. find_row ms_id i (d_messages d))"

definition requireProject :: "ident \<Rightarrow> project_row kop" where
  "requireProject i = requireRow NotFound (\<lambda>d. find_row pj_id i (d_projects d))"

definition requireAgentForPrincipal :: "ident \<Rightarrow> agent_row kop" where
  "requireAgentForPrincipal i = requireRow Forbidden (\<lambda>d. find_row ag_principal_id i (d_agents d))"

definition requireThread :: "ident \<Rightarrow> thread_row kop" where
  "requireThread i = requireRow NotFound (\<lambda>d. find_row th_root_message_id i (d_threads d))"

definition requireAttention :: "ident \<Rightarrow> attention_row kop" where
  "requireAttention i = requireRow NotFound (\<lambda>d. find_row at_id i (d_attentions d))"

definition requireRun :: "ident \<Rightarrow> run_row kop" where
  "requireRun i = requireRow NotFound (\<lambda>d. find_row rn_id i (d_runs d))"

definition requireRunInput :: "ident \<Rightarrow> run_input_row kop" where
  "requireRunInput i = requireRow NotFound (\<lambda>d. find_row ri_id i (d_run_inputs d))"

definition requireActivation :: "ident \<Rightarrow> activation_row kop" where
  "requireActivation i = requireRow NotFound (\<lambda>d. find_row aa_id i (d_activations d))"

definition requireLiveActivation :: "ident \<Rightarrow> activation_row kop" where
  "requireLiveActivation i =
     bindM (requireActivation i) (\<lambda>activation.
     seqM (guardM (aa_finished_at activation = None) (err Conflict)) (ret activation))"

definition requireProviderAttempt :: "ident \<Rightarrow> provider_attempt_row kop" where
  "requireProviderAttempt i = requireRow NotFound (\<lambda>d. find_row pa_id i (d_provider_attempts d))"

definition requireOutboxEvent :: "ident \<Rightarrow> outbox_row kop" where
  "requireOutboxEvent i = requireRow NotFound (\<lambda>d. find_row ob_id i (d_outbox d))"

definition threadCursor :: "ident \<Rightarrow> nat kop" where
  "threadCursor root = bindM (requireThread root) (\<lambda>thread. ret (th_cursor thread))"

definition checkRevision :: "nat \<Rightarrow> nat \<Rightarrow> unit kop" where
  "checkRevision actual expected =
     guardM (actual = expected)
       (KernelError StaleRevision
         (Some (JObj [(''expectedRevision'', jnat expected), (''actualRevision'', jnat actual)])))"

definition run_state_text :: "run_state \<Rightarrow> string" where
  "run_state_text st =
     (case st of RunActive \<Rightarrow> ''Active'' | RunWaiting \<Rightarrow> ''Waiting'' | RunCompleted \<Rightarrow> ''Completed''
      | RunFailed \<Rightarrow> ''Failed'' | RunCancelled \<Rightarrow> ''Cancelled'')"

definition requireMutableRun :: "ident \<Rightarrow> nat option \<Rightarrow> run_row kop" where
  "requireMutableRun runId expectedRevision =
     bindM (requireRun runId) (\<lambda>run.
     seqM (guardM (\<not> isTerminalRunState (rn_state run))
             (KernelError TerminalRun (Some (JObj [(''state'', JStr (run_state_text (rn_state run)))]))))
    (seqM (case expectedRevision of None \<Rightarrow> ret () | Some e \<Rightarrow> checkRevision (rn_revision run) e)
          (ret run)))"

section \<open>When an activation is live\<close>

datatype activation_scope_state =
    ScopeRun run_row
  | ScopeAttention attention_row "domain_fence_row option"

datatype validity_reason =
    Finished | Revoked | ExpiredReason | WrongAgent | RunNotActive | StaleRunGeneration
  | AttentionNotOpen | AttentionLeaseStale

definition attentionDomainFenceMatches ::
  "attention_row \<Rightarrow> domain_fence_row option \<Rightarrow> string option \<Rightarrow> bool" where
  "attentionDomainFenceMatches attention fence leaseToken =
     (case fence of
        None \<Rightarrow> False
      | Some f \<Rightarrow>
          at_handler_lease_token attention = leaseToken \<and>
          df_agent_id f = at_target_agent_id attention \<and>
          df_project_id f = at_project_id attention \<and>
          df_channel_id f = at_channel_id attention \<and>
          df_thread_root_id f = at_thread_root_id attention \<and>
          df_lease_token f = leaseToken \<and>
          df_lease_expires_at f = at_handler_lease_expires_at attention \<and>
          df_attention_id f = at_id attention)"

definition fence_of_attention :: "ident \<Rightarrow> database \<Rightarrow> domain_fence_row option" where
  "fence_of_attention i d = find_row df_attention_id i (d_domain_fences d)"

definition loadActivationScopeState :: "activation_row \<Rightarrow> activation_scope_state kop" where
  "loadActivationScopeState activation =
     (case aa_run_id activation of
        Some runId \<Rightarrow> bindM (requireRun runId) (\<lambda>run. ret (ScopeRun run))
      | None \<Rightarrow>
          bindM (needM InternalError (aa_attention_id activation)) (\<lambda>i.
          bindM (requireAttention i) (\<lambda>attention.
          bindM (query (fence_of_attention (at_id attention))) (\<lambda>fence.
            ret (ScopeAttention attention fence)))))"

text \<open>
  \<open>activationValidityAt\<close>: \<open>None\<close> is live. The activation of a run has a generation, by a CHECK of the
  schema; without one the code would throw.
\<close>

definition activationValidityAt ::
  "activation_row \<Rightarrow> activation_scope_state \<Rightarrow> instant \<Rightarrow> validity_reason option" where
  "activationValidityAt activation scope at =
     (if aa_finished_at activation \<noteq> None then Some Finished
      else if aa_revoked_at activation \<noteq> None then Some Revoked
      else if aa_expires_at activation \<le> at then Some ExpiredReason
      else (case scope of
        ScopeRun run \<Rightarrow>
          if aa_agent_id activation \<noteq> rn_owner_agent_id run then Some WrongAgent
          else if rn_state run \<noteq> RunActive then Some RunNotActive
          else if aa_run_activation_generation activation \<noteq> Some (rn_activation_generation run)
          then Some StaleRunGeneration
          else None
      | ScopeAttention attention fence \<Rightarrow>
          if aa_agent_id activation \<noteq> at_target_agent_id attention then Some WrongAgent
          else if at_status attention \<noteq> AttOpen then Some AttentionNotOpen
          else if at_handler_lease_token attention \<noteq> aa_attention_lease_token activation \<or>
                  (case at_handler_lease_expires_at attention of None \<Rightarrow> True | Some e \<Rightarrow> e \<le> at) \<or>
                  \<not> attentionDomainFenceMatches attention fence (at_handler_lease_token attention)
          then Some AttentionLeaseStale
          else None))"

definition validity_error :: "activation_scope_state \<Rightarrow> validity_reason \<Rightarrow> kerror" where
  "validity_error scope reason =
     (case (reason, scope) of
        (RunNotActive, ScopeRun run) \<Rightarrow>
          KernelError (if isTerminalRunState (rn_state run) then TerminalRun else Conflict)
            (Some (JObj [(''state'', JStr (run_state_text (rn_state run)))]))
      | _ \<Rightarrow> err Conflict)"

definition assertActivationScopeCurrent :: "activation_row \<Rightarrow> unit kop" where
  "assertActivationScopeCurrent activation =
     bindM (loadActivationScopeState activation) (\<lambda>scope.
     bindM clock (\<lambda>at.
       (case activationValidityAt activation scope at of
          None \<Rightarrow> ret ()
        | Some reason \<Rightarrow> raise (validity_error scope reason))))"

definition isCurrentRunActivation :: "activation_row \<Rightarrow> run_row \<Rightarrow> bool kop" where
  "isCurrentRunActivation activation run =
     (if aa_run_id activation \<noteq> Some (rn_id run) then ret False
      else bindM clock (\<lambda>at. ret (activationValidityAt activation (ScopeRun run) at = None)))"

definition requireRunActivation ::
  "principal_context \<Rightarrow> principal_row \<Rightarrow> run_row \<Rightarrow> activation_row kop" where
  "requireRunActivation context prin run =
     seqM (requireKind prin Agent)
    (bindM (needM (err Unauthorized) (truthy (pc_activationId context))) (\<lambda>activationId.
     bindM (requireLiveActivation activationId) (\<lambda>activation.
     seqM (guardM (aa_run_id activation = Some (rn_id run) \<and>
                   aa_agent_id activation = rn_owner_agent_id run) (err Forbidden))
    (bindM (requireAgentForPrincipal (pr_id prin)) (\<lambda>agent.
     seqM (guardM (ag_id agent = rn_owner_agent_id run) (err Forbidden))
    (seqM (assertActivationScopeCurrent activation) (ret activation)))))))"

definition authorizeActivationActor ::
  "principal_row \<Rightarrow> principal_context \<Rightarrow> activation_row \<Rightarrow> bool \<Rightarrow> unit kop" where
  "authorizeActivationActor prin context activation allowFinished =
     seqM (guardM (allowFinished \<or> aa_finished_at activation = None) (err Conflict))
    (if pr_kind prin = Runtime then ret ()
     else
       seqM (guardM (pr_kind prin = Agent) (err Forbidden))
      (bindM (requireAgentForPrincipal (pr_id prin)) (\<lambda>agent.
       seqM (guardM (ag_id agent = aa_agent_id activation) (err Forbidden))
      (bindM (needM (err Unauthorized) (truthy (pc_activationId context))) (\<lambda>activationId.
       guardM (activationId = aa_id activation) (err Forbidden))))))"

section \<open>Attention leases and execution domains\<close>

definition isAttentionDomainLeaseCurrent :: "attention_row \<Rightarrow> string \<Rightarrow> bool kop" where
  "isAttentionDomainLeaseCurrent attention leaseToken =
     (if at_handler_lease_expires_at attention = None then ret False
      else bindM (query (fence_of_attention (at_id attention))) (\<lambda>fence.
             ret (attentionDomainFenceMatches attention fence (Some leaseToken))))"

definition assertAttentionLease :: "attention_row \<Rightarrow> string option \<Rightarrow> unit kop" where
  "assertAttentionLease attention leaseToken =
     (case leaseToken of
        None \<Rightarrow> raise (err Forbidden)
      | Some token \<Rightarrow>
          seqM (guardM (token \<noteq> [] \<and> at_handler_lease_token attention = Some token) (err Forbidden))
         (bindM (needM (err Conflict) (at_handler_lease_expires_at attention)) (\<lambda>expiresAt.
          bindM clock (\<lambda>at.
          seqM (guardM (expiresAt > at) (err Conflict))
         (bindM (isAttentionDomainLeaseCurrent attention token) (\<lambda>current.
          guardM current (err Conflict)))))))"

definition markActivationChanges :: "ident list \<Rightarrow> unit kop" where
  "markActivationChanges activationIds =
     writeDb (d_activation_changes_update (\<lambda>cs. cs @ filter (\<lambda>i. i \<notin> set cs) (unique activationIds)))"

definition revoke_set :: "instant \<Rightarrow> revocation_reason \<Rightarrow> activation_row \<Rightarrow> activation_row" where
  "revoke_set at reason r =
     r\<lparr>aa_revoked_at := (case aa_revoked_at r of None \<Rightarrow> Some at | v \<Rightarrow> v),
       aa_revocation_reason := (case aa_revocation_reason r of None \<Rightarrow> Some reason | v \<Rightarrow> v)\<rparr>"

definition revokeRunActivations :: "ident \<Rightarrow> revocation_reason \<Rightarrow> instant \<Rightarrow> unit kop" where
  "revokeRunActivations runId reason revokedAt =
     bindM (update_activations
             (\<lambda>r. aa_run_id r = Some runId \<and> aa_finished_at r = None \<and> aa_revoked_at r = None)
             (revoke_set revokedAt reason)) markActivationChanges"

definition same_domain :: "attention_row \<Rightarrow> domain_fence_row \<Rightarrow> bool" where
  "same_domain attention f \<longleftrightarrow>
     df_agent_id f = at_target_agent_id attention \<and> df_project_id f = at_project_id attention \<and>
     df_channel_id f = at_channel_id attention \<and> df_thread_root_id f = at_thread_root_id attention"

text \<open>The claim of an execution domain, with what the superseded claim was.\<close>

definition supersedeClaim ::
  "domain_fence_row \<Rightarrow> instant \<Rightarrow> (attention_row \<times> nat \<times> ident list) kop" where
  "supersedeClaim existing at =
     bindM (requireAttention (df_attention_id existing)) (\<lambda>previous.
     seqM (guardM (attentionDomainFenceMatches previous (Some existing) (df_lease_token existing))
             InternalError)
    (let previousRevision = at_revision previous + 1 in
     seqM (update_attentions (\<lambda>r. at_id r = at_id previous)
             (\<lambda>r. r\<lparr>at_revision := previousRevision, at_handler_lease_holder := None,
                    at_handler_lease_token := None, at_handler_lease_expires_at := None\<rparr>))
    (bindM (update_activations
             (\<lambda>r. aa_attention_id r = Some (at_id previous) \<and> aa_finished_at r = None \<and>
                  aa_revoked_at r = None)
             (revoke_set at AttentionDomainSuperseded)) (\<lambda>activationIds.
     seqM (markActivationChanges activationIds)
          (ret (previous, previousRevision, activationIds))))))"

definition claimAttentionDomain ::
  "attention_row \<Rightarrow> string \<Rightarrow> instant \<Rightarrow> instant \<Rightarrow>
   (attention_row \<times> nat \<times> ident list) option kop" where
  "claimAttentionDomain attention leaseToken leaseExpiresAt at =
     bindM (query (\<lambda>d. find_first (same_domain attention) (d_domain_fences d))) (\<lambda>found.
     case found of
       None \<Rightarrow>
         seqM (insert_unique d_domain_fences d_domain_fences_update domain_fence_clash
                 \<lparr>df_agent_id = at_target_agent_id attention, df_project_id = at_project_id attention,
                  df_channel_id = at_channel_id attention,
                  df_thread_root_id = at_thread_root_id attention,
                  df_attention_id = at_id attention, df_lease_token = Some leaseToken,
                  df_lease_expires_at = Some leaseExpiresAt, df_unsettled_count = 0\<rparr>)
              (ret None)
     | Some existing \<Rightarrow>
         let hasLiveLease =
               (case df_lease_expires_at existing of None \<Rightarrow> False | Some e \<Rightarrow> e > at);
             hasUnsettledProvider = (df_unsettled_count existing > 0) in
         seqM (guardM (\<not> hasLiveLease \<and> \<not> hasUnsettledProvider)
                 (KernelError DomainBusy (Some (JObj
                   [(''attentionId'', JStr (df_attention_id existing)),
                    (''hasLiveHandlerLease'', JBool hasLiveLease),
                    (''hasUnsettledProviderAttempt'', JBool hasUnsettledProvider)]))))
        (bindM (if df_attention_id existing = at_id attention then ret None
                else bindM (supersedeClaim existing at) (\<lambda>s. ret (Some s))) (\<lambda>superseded.
         bindM (query (\<lambda>d. list_ex (\<lambda>f. \<not> same_domain attention f \<and>
                   df_attention_id f = at_id attention) (d_domain_fences d))) (\<lambda>clash.
         seqM (guardM (\<not> clash) ConstraintError)
        (seqM (update_where d_domain_fences_update (same_domain attention)
                 (\<lambda>f. f\<lparr>df_attention_id := at_id attention, df_lease_token := Some leaseToken,
                        df_lease_expires_at := Some leaseExpiresAt, df_unsettled_count := 0\<rparr>))
              (ret superseded))))))"

definition releaseAttentionDomainLease :: "ident \<Rightarrow> unit kop" where
  "releaseAttentionDomainLease attentionId =
     seqM (update_where d_domain_fences_update (\<lambda>f. df_attention_id f = attentionId)
             (\<lambda>f. f\<lparr>df_lease_token := None, df_lease_expires_at := None\<rparr>))
          (delete_where d_domain_fences_update
             (\<lambda>f. df_attention_id f = attentionId \<and> df_unsettled_count f = 0))"

section \<open>What a principal may read\<close>

record principal_read_scope =
  ps_projectId :: ident
  ps_channelId :: "ident option"
  ps_threadRootId :: "ident option"
  ps_runId :: "ident option"

definition assertProjectChannel :: "ident \<Rightarrow> ident \<Rightarrow> unit kop" where
  "assertProjectChannel projectId channelId =
     bindM (requireRow NotFound (\<lambda>d. find_row ch_id channelId (d_channels d))) (\<lambda>channel.
     guardM (ch_project_id channel = projectId) (err Forbidden))"

definition assertProjectAccess :: "principal_row \<Rightarrow> ident \<Rightarrow> unit kop" where
  "assertProjectAccess prin projectId =
     (if pr_kind prin \<noteq> Agent then ret ()
      else bindM (requireAgentForPrincipal (pr_id prin)) (\<lambda>agent.
             guardM (ag_project_id agent = projectId) (err Forbidden)))"

text \<open>Project, channel and thread of the run or the attention an activation works on.\<close>

definition activationScope :: "activation_row \<Rightarrow> (ident \<times> ident \<times> ident) kop" where
  "activationScope activation =
     (case truthy (aa_run_id activation) of
        Some runId \<Rightarrow> bindM (requireRun runId) (\<lambda>run.
          ret (rn_project_id run, rn_home_channel_id run, rn_thread_root_id run))
      | None \<Rightarrow>
          bindM (needM InternalError (aa_attention_id activation)) (\<lambda>i.
          bindM (requireAttention i) (\<lambda>attention.
            ret (at_project_id attention, at_channel_id attention, at_thread_root_id attention))))"

definition resolvePrincipalReadScope ::
  "principal_row \<Rightarrow> principal_context \<Rightarrow> ident \<Rightarrow> principal_read_scope kop" where
  "resolvePrincipalReadScope prin context projectId =
     bindM (requireProject projectId) (\<lambda>_.
     seqM (assertProjectAccess prin projectId)
    (if pr_kind prin \<noteq> Agent then
       ret \<lparr>ps_projectId = projectId, ps_channelId = None, ps_threadRootId = None, ps_runId = None\<rparr>
     else
       bindM (needM (err Unauthorized) (truthy (pc_activationId context))) (\<lambda>activationId.
       bindM (requireAgentForPrincipal (pr_id prin)) (\<lambda>agent.
       bindM (requireLiveActivation activationId) (\<lambda>activation.
       seqM (guardM (aa_agent_id activation = ag_id agent) (err Forbidden))
      (seqM (assertActivationScopeCurrent activation)
      (bindM (activationScope activation) (\<lambda>(project, channel, root).
       seqM (guardM (project = projectId) (err Forbidden))
            (ret \<lparr>ps_projectId = project, ps_channelId = Some channel,
                  ps_threadRootId = Some root, ps_runId = aa_run_id activation\<rparr>)))))))))"

definition assertAgentQueryScope ::
  "principal_row \<Rightarrow> principal_context \<Rightarrow> ident \<Rightarrow> ident \<Rightarrow> ident option \<Rightarrow> principal_read_scope kop" where
  "assertAgentQueryScope prin context projectId threadRootId runId =
     bindM (resolvePrincipalReadScope prin context projectId) (\<lambda>scope.
     if ps_threadRootId scope = None then ret scope
     else
       seqM (guardM (truthy runId = None \<or> ps_runId scope = runId) (err Forbidden))
      (seqM (guardM (ps_threadRootId scope = Some threadRootId) (err Forbidden))
            (ret scope)))"

record artifact_filter =
  vf_id :: "ident option"
  vf_threadRootId :: "ident option"
  vf_runId :: "ident option"
  vf_snapshotEventSequence :: "nat option"

definition matches :: "'a option \<Rightarrow> 'a \<Rightarrow> bool" where
  "matches v x = (case v of None \<Rightarrow> True | Some y \<Rightarrow> x = y)"

text \<open>\<open>visibleArtifactRows\<close>: an artifact is joined with its producer run and that run's home
  channel; a comparison with NULL is never true.\<close>

definition artifact_visible ::
  "principal_read_scope option \<Rightarrow> artifact_filter \<Rightarrow> database \<Rightarrow> artifact_row \<Rightarrow> bool" where
  "artifact_visible scope flt d artifact =
     (case find_row rn_id (ar_producer_run_id artifact) (d_runs d) of
        None \<Rightarrow> False
      | Some run \<Rightarrow>
          (case find_row ch_id (rn_home_channel_id run) (d_channels d) of
             None \<Rightarrow> False
           | Some channel \<Rightarrow>
               ar_visibility_channel_id artifact = rn_home_channel_id run \<and>
               ar_producer_thread_root_id artifact = rn_thread_root_id run \<and>
               ch_project_id channel = rn_project_id run \<and>
               (case scope of
                  None \<Rightarrow> True
                | Some s \<Rightarrow>
                    ps_threadRootId s = None \<or>
                    rn_project_id run = ps_projectId s \<and>
                    Some (rn_home_channel_id run) = ps_channelId s \<and>
                    Some (rn_thread_root_id run) = ps_threadRootId s \<and>
                    Some (ar_producer_run_id artifact) = ps_runId s) \<and>
               matches (vf_id flt) (ar_id artifact) \<and>
               matches (vf_threadRootId flt) (rn_thread_root_id run) \<and>
               matches (vf_runId flt) (ar_producer_run_id artifact) \<and>
               (case vf_snapshotEventSequence flt of
                  None \<Rightarrow> True
                | Some n \<Rightarrow>
                    (case ar_created_event_sequence artifact of None \<Rightarrow> False | Some m \<Rightarrow> m \<le> n))))"

definition visibleArtifactRows ::
  "principal_read_scope option \<Rightarrow> artifact_filter \<Rightarrow> database \<Rightarrow> artifact_row list" where
  "visibleArtifactRows scope flt d =
     sort_key (\<lambda>r. (ar_created_at r, ar_id r)) (filter (artifact_visible scope flt d) (d_artifacts d))"

definition event_visible :: "principal_read_scope \<Rightarrow> database \<Rightarrow> event_row \<Rightarrow> bool" where
  "event_visible scope d row =
     (if ev_project_id row \<noteq> ps_projectId scope \<or>
         (ps_channelId scope \<noteq> None \<and> ev_channel_id row \<noteq> ps_channelId scope) \<or>
         (ps_threadRootId scope \<noteq> None \<and> ev_thread_root_id row \<noteq> ps_threadRootId scope)
      then False
      else if ev_entity_type row = EntArtifact \<or> ev_type row = EvArtifactPublished then
        length (visibleArtifactRows (Some scope)
          \<lparr>vf_id = Some (ev_entity_id row), vf_threadRootId = None, vf_runId = None,
           vf_snapshotEventSequence = None\<rparr> d) = 1
      else True)"

definition filterVisiblePublicEvents ::
  "principal_read_scope \<Rightarrow> database \<Rightarrow> event_row list \<Rightarrow> event_row list" where
  "filterVisiblePublicEvents scope d rows = filter (event_visible scope d) rows"

section \<open>Events, outbox and histories\<close>

definition event_type_text :: "event_type \<Rightarrow> string" where
  "event_type_text t =
     (case t of
        EvAttentionOpened \<Rightarrow> ''AttentionOpened'' | EvMessagePublished \<Rightarrow> ''MessagePublished''
      | EvMessageEdited \<Rightarrow> ''MessageEdited'' | EvMessageDeleted \<Rightarrow> ''MessageDeleted''
      | EvAgentConfigUpdated \<Rightarrow> ''AgentConfigUpdated'' | EvRunConfigAdopted \<Rightarrow> ''RunConfigAdopted''
      | EvRunInputAdded \<Rightarrow> ''RunInputAdded'' | EvRunInputWithdrawn \<Rightarrow> ''RunInputWithdrawn''
      | EvRunCreated \<Rightarrow> ''RunCreated'' | EvRunActivated \<Rightarrow> ''RunActivated''
      | EvRunWaiting \<Rightarrow> ''RunWaiting'' | EvRunCompleted \<Rightarrow> ''RunCompleted''
      | EvRunFailed \<Rightarrow> ''RunFailed'' | EvRunCancelled \<Rightarrow> ''RunCancelled''
      | EvLateOutputRecorded \<Rightarrow> ''LateOutputRecorded''
      | EvAttentionHandlerLeaseSuperseded \<Rightarrow> ''AttentionHandlerLeaseSuperseded''
      | EvAttentionClaimed \<Rightarrow> ''AttentionClaimed'' | EvAttentionResolved \<Rightarrow> ''AttentionResolved''
      | EvAttentionIgnored \<Rightarrow> ''AttentionIgnored'' | EvActivationStarted \<Rightarrow> ''ActivationStarted''
      | EvActivationFinished \<Rightarrow> ''ActivationFinished''
      | EvProviderAttemptStarted \<Rightarrow> ''ProviderAttemptStarted''
      | EvProviderAttemptAcknowledged \<Rightarrow> ''ProviderAttemptAcknowledged''
      | EvProviderAttemptFinished \<Rightarrow> ''ProviderAttemptFinished''
      | EvRunActivityAppended \<Rightarrow> ''RunActivityAppended'' | EvArtifactPublished \<Rightarrow> ''ArtifactPublished'')"

definition entity_type_text :: "entity_type \<Rightarrow> string" where
  "entity_type_text t =
     (case t of
        EntAgent \<Rightarrow> ''Agent'' | EntMessage \<Rightarrow> ''Message'' | EntAttention \<Rightarrow> ''Attention''
      | EntRun \<Rightarrow> ''Run'' | EntRunInput \<Rightarrow> ''RunInput''
      | EntActivationAttempt \<Rightarrow> ''ActivationAttempt'' | EntProviderAttempt \<Rightarrow> ''ProviderAttempt''
      | EntRunActivityEvent \<Rightarrow> ''RunActivityEvent'' | EntArtifact \<Rightarrow> ''Artifact'')"

definition mapPublicEvent :: "event_row \<Rightarrow> json" where
  "mapPublicEvent row = JObj
     [(''eventId'', JStr (ev_event_id row)), (''type'', JStr (event_type_text (ev_type row))),
      (''projectId'', JStr (ev_project_id row)), (''channelId'', jopt (ev_channel_id row)),
      (''threadRootId'', jopt (ev_thread_root_id row)),
      (''threadCursor'', jnat_opt (ev_thread_cursor row)),
      (''entityType'', JStr (entity_type_text (ev_entity_type row))),
      (''entityId'', JStr (ev_entity_id row)), (''actorPrincipalId'', JStr (ev_actor row)),
      (''activationId'', jopt (ev_activation_id row)),
      (''causationId'', jopt (ev_causation_id row)),
      (''correlationId'', JStr (ev_correlation_id row)), (''payload'', ev_payload row),
      (''occurredAt'', JNum (ev_occurred_at row))]"

definition checkThreadCursor ::
  "thread_row \<Rightarrow> principal_row \<Rightarrow> principal_context \<Rightarrow> nat option \<Rightarrow> unit kop" where
  "checkThreadCursor thread prin context expected =
     (case expected of
        None \<Rightarrow> ret ()
      | Some e \<Rightarrow>
          if th_cursor thread = e then ret ()
          else
            bindM (resolvePrincipalReadScope prin context (th_project_id thread)) (\<lambda>scope.
            bindM (query (\<lambda>d. take 101 (sort_key (\<lambda>r. case ev_thread_cursor r of None \<Rightarrow> 0 | Some n \<Rightarrow> n)
                     (filter (\<lambda>r. ev_thread_root_id r = Some (th_root_message_id thread) \<and>
                        (case ev_thread_cursor r of None \<Rightarrow> False | Some n \<Rightarrow> n > e)) (d_events d))))) (\<lambda>rows.
            bindM (query (\<lambda>d. filterVisiblePublicEvents scope d (take 100 rows))) (\<lambda>events.
            raise (KernelError ConditionalCheckFailed (Some (JObj
              [(''currentCursor'', jnat (th_cursor thread)),
               (''events'', JArr (map mapPublicEvent events)),
               (''scannedThroughEventId'',
                  (if rows = [] then JNull else JStr (ev_event_id (last (take 100 rows))))),
               (''hasMore'', JBool (length rows > 100))])))))))"

record event_input =
  ei_type :: event_type
  ei_projectId :: ident
  ei_channelId :: "ident option"
  ei_threadRootId :: "ident option"
  ei_threadCursor :: "nat option"
  ei_entityType :: entity_type
  ei_entityId :: ident
  ei_actorPrincipalId :: ident
  ei_activationId :: "ident option"
  ei_causationId :: "ident option"
  ei_correlationId :: string
  ei_payload :: json

text \<open>An event object of a handler; \<open>threadCursor\<close> is null.\<close>

definition event_object ::
  "event_type \<Rightarrow> ident \<Rightarrow> ident option \<Rightarrow> ident option \<Rightarrow> entity_type \<Rightarrow> ident \<Rightarrow> ident \<Rightarrow>
   ident option \<Rightarrow> ident option \<Rightarrow> string \<Rightarrow> json \<Rightarrow> event_input" where
  "event_object type projectId channelId threadRootId entityType entityId actorPrincipalId
     activationId causationId correlationId payload =
     \<lparr>ei_type = type, ei_projectId = projectId, ei_channelId = channelId,
      ei_threadRootId = threadRootId, ei_threadCursor = None, ei_entityType = entityType,
      ei_entityId = entityId, ei_actorPrincipalId = actorPrincipalId,
      ei_activationId = activationId, ei_causationId = causationId,
      ei_correlationId = correlationId, ei_payload = payload\<rparr>"

definition emitEvent :: "event_input \<Rightarrow> nat kop" where
  "emitEvent event =
     bindM (idFactory ''event'') (\<lambda>eid.
     bindM clock (\<lambda>at.
     bindM (query (\<lambda>d. next_sequence ev_sequence (d_events d))) (\<lambda>n.
     seqM (insert_unique d_events d_events_update event_clash
             \<lparr>ev_sequence = n, ev_event_id = eid, ev_type = ei_type event,
              ev_project_id = ei_projectId event, ev_channel_id = ei_channelId event,
              ev_thread_root_id = ei_threadRootId event, ev_thread_cursor = ei_threadCursor event,
              ev_entity_type = ei_entityType event, ev_entity_id = ei_entityId event,
              ev_actor = ei_actorPrincipalId event, ev_activation_id = ei_activationId event,
              ev_causation_id = ei_causationId event, ev_correlation_id = ei_correlationId event,
              ev_payload = ei_payload event, ev_occurred_at = at\<rparr>)
          (ret n))))"

definition emitThreadEvent :: "ident \<Rightarrow> event_input \<Rightarrow> nat kop" where
  "emitThreadEvent threadRootId event =
     bindM (threadCursor threadRootId) (\<lambda>current.
     let cursor = current + 1 in
     seqM (update_where d_threads_update (\<lambda>r. th_root_message_id r = threadRootId)
             (\<lambda>r. r\<lparr>th_cursor := cursor\<rparr>))
    (bindM (emitEvent (event\<lparr>ei_threadRootId := Some threadRootId, ei_threadCursor := Some cursor\<rparr>)) (\<lambda>_.
     ret cursor)))"

text \<open>INSERT ... SELECT from \<open>attentions\<close>: the key (attention, event) is unique.\<close>

definition recordAttentionHistory :: "ident \<Rightarrow> nat \<Rightarrow> unit kop" where
  "recordAttentionHistory attentionId eventSequence =
     bindM (query (\<lambda>d. find_row at_id attentionId (d_attentions d))) (\<lambda>found.
     case found of
       None \<Rightarrow> ret ()
     | Some a \<Rightarrow>
         insert_unique d_attention_history d_attention_history_update
           (\<lambda>r q. nh_attention_id r = nh_attention_id q \<and> nh_event_sequence r = nh_event_sequence q)
           \<lparr>nh_attention_id = at_id a, nh_event_sequence = eventSequence, nh_status = at_status a,
            nh_revision = at_revision a, nh_handler_lease_holder = at_handler_lease_holder a,
            nh_handler_lease_expires_at = at_handler_lease_expires_at a,
            nh_resolution_outcome = at_resolution_outcome a,
            nh_resolved_run_id = at_resolved_run_id a, nh_resolved_at = at_resolved_at a\<rparr>)"

definition enqueueOutbox :: "outbox_topic \<Rightarrow> entity_type \<Rightarrow> ident \<Rightarrow> json \<Rightarrow> unit kop" where
  "enqueueOutbox topic aggregateType aggregateId payload =
     bindM (idFactory ''outbox'') (\<lambda>oid.
     bindM clock (\<lambda>at.
     bindM (query (\<lambda>d. next_sequence ob_sequence (d_outbox d))) (\<lambda>n.
       insert_unique d_outbox d_outbox_update outbox_clash
         \<lparr>ob_sequence = n, ob_id = oid, ob_topic = topic, ob_aggregate_type = aggregateType,
          ob_aggregate_id = aggregateId, ob_payload = payload, ob_delivery_attempts = 0,
          ob_lease_holder = None, ob_lease_token = None, ob_lease_expires_at = None,
          ob_created_at = at, ob_acknowledged_at = None, ob_acknowledged_by = None\<rparr>)))"

definition validateDisposition :: "disposition \<Rightarrow> string \<Rightarrow> unit kop" where
  "validateDisposition dispo reason =
     seqM (guardM (dispo \<noteq> Pending \<and> dispo \<noteq> Incorporated \<and> dispo \<noteq> Withdrawn) (err InvalidCommand))
          (requireNonEmpty reason)"

end
