(* ===== verification/Leases.thy ===== *)
theory Leases
  imports Store
begin

text \<open>
  Worktree writer leases (\<open>worktree-writer-leases.ts\<close>): at most one Runtime at a time may write
  to a Worktree. A lease row carries a generation, which grows with every acquisition, and a
  fencing token, which grows with every acquisition and every quarantine; each change of the
  row is recorded in an append-only ledger of lease events.

  The first half translates the handlers. The second half states the ledger as an abstract
  machine (\<open>ledger_step\<close>, \<open>replay\<close>) and proves that the handlers refine it: the ledger of a
  Worktree replays to exactly its row (\<open>lease_inv\<close>).
\<close>

section \<open>Commands\<close>

record lease_authority =
  wa_worktreeId :: ident
  wa_generation :: nat
  wa_fencingToken :: nat
  wa_leaseToken :: string

record acquire_command = idempotent_command +
  aq_worktreeId :: ident
  aq_leaseDurationMs :: jsnum

record renew_command = idempotent_command +
  rw_authority :: lease_authority
  rw_leaseDurationMs :: jsnum

record release_command = idempotent_command +
  rl_authority :: lease_authority

record quarantine_command = idempotent_command +
  qt_worktreeId :: ident
  qt_expectedGeneration :: "nat option"
  qt_expectedFencingToken :: "nat option"
  qt_leaseToken :: "string option"
  qt_reason :: string
  qt_evidence :: "json option"

record resolve_quarantine_command = idempotent_command +
  rq_worktreeId :: ident
  rq_expectedRevision :: nat
  rq_expectedFencingToken :: nat
  rq_quarantineToken :: string
  rq_resolution :: string

section \<open>Reading and checking\<close>

definition getLease :: "ident \<Rightarrow> lease_row option kop" where
  "getLease wid = query (\<lambda>d. find_row wl_worktree_id wid (d_leases d))"

definition requireLease :: "ident \<Rightarrow> lease_row kop" where
  "requireLease wid = bindM (getLease wid) (needM (err NotFound))"

definition requireRuntime :: "principal_row \<Rightarrow> unit kop" where
  "requireRuntime prin = guardM (pr_kind prin = Runtime) (err Forbidden)"

text \<open>The CHECK constraint of the table.\<close>

definition lease_check :: "lease_row \<Rightarrow> bool" where
  "lease_check r \<longleftrightarrow>
     wl_revision r > 0 \<and> wl_fencing_token r > 0 \<and>
     (case wl_status r of
        LeaseActive \<Rightarrow>
          wl_generation r > 0 \<and> wl_holder r \<noteq> None \<and> wl_lease_token r \<noteq> None \<and>
          wl_acquired_at r \<noteq> None \<and> wl_expires_at r \<noteq> None \<and> wl_released_at r = None \<and>
          wl_quarantine_reason r = None \<and> wl_quarantine_token r = None \<and>
          wl_quarantined_at r = None \<and> wl_quarantine_resolved_at r = None \<and>
          wl_quarantine_resolution r = None
      | LeaseQuarantined \<Rightarrow>
          wl_holder r = None \<and> wl_lease_token r = None \<and> wl_expires_at r = None \<and>
          wl_released_at r = None \<and> wl_quarantine_reason r \<noteq> None \<and>
          wl_quarantine_token r \<noteq> None \<and> wl_quarantined_at r \<noteq> None \<and>
          wl_quarantine_resolved_at r = None \<and> wl_quarantine_resolution r = None
      | _ \<Rightarrow>
          wl_holder r = None \<and> wl_lease_token r = None \<and> wl_expires_at r = None \<and>
          wl_quarantine_reason r = None \<and> wl_quarantine_token r = None \<and>
          wl_quarantine_evidence r = None \<and> wl_quarantined_at r = None \<and>
          (wl_quarantine_resolved_at r = None \<and> wl_quarantine_resolution r = None \<or>
           wl_status r = LeaseReleased \<and> wl_quarantine_resolved_at r \<noteq> None \<and>
           wl_quarantine_resolution r \<noteq> None))"

text \<open>UPDATE ... WHERE worktree_id = ?: a row that violates the CHECK constraint aborts.\<close>

definition updateLease :: "ident \<Rightarrow> (lease_row \<Rightarrow> lease_row) \<Rightarrow> unit kop" where
  "updateLease wid f =
     bindM (query d_leases) (\<lambda>rows.
       if list_all (\<lambda>r. wl_worktree_id r = wid \<longrightarrow> lease_check (f r)) rows
       then update_where d_leases_update (\<lambda>r. wl_worktree_id r = wid) f
       else raise InternalError)"

text \<open>INSERT ... ON CONFLICT(worktree_id) DO UPDATE: the CHECK constraint applies to the row to
  insert as well as to the updated one.\<close>

definition upsertLease :: "lease_row \<Rightarrow> (lease_row \<Rightarrow> lease_row) \<Rightarrow> unit kop" where
  "upsertLease excluded f =
     seqM (guardM (lease_check excluded) InternalError)
    (bindM (getLease (wl_worktree_id excluded)) (\<lambda>existing.
       case existing of
         None \<Rightarrow> writeDb (d_leases_update (\<lambda>rs. rs @ [excluded]))
       | Some _ \<Rightarrow> updateLease (wl_worktree_id excluded) f))"

definition lease_event_clash :: "lease_event_row \<Rightarrow> lease_event_row \<Rightarrow> bool" where
  "lease_event_clash r q \<longleftrightarrow> we_id r = we_id q"

definition appendEvent ::
  "lease_row \<Rightarrow> lease_event_type \<Rightarrow> ident \<Rightarrow> string \<Rightarrow> string option \<Rightarrow> json option \<Rightarrow> unit kop" where
  "appendEvent lease ty actor corr reason evidence =
     bindM (idFactory ''worktree_writer_lease_event'') (\<lambda>eid.
     bindM clock (\<lambda>at.
     bindM (query d_lease_events) (\<lambda>evs.
       insert_unique d_lease_events d_lease_events_update lease_event_clash
         \<lparr>we_sequence = next_sequence we_sequence evs, we_id = eid,
          we_worktree_id = wl_worktree_id lease, we_type = ty, we_revision = wl_revision lease,
          we_generation = wl_generation lease, we_fencing_token = wl_fencing_token lease,
          we_actor = actor, we_holder = wl_holder lease, we_expires_at = wl_expires_at lease,
          we_reason = reason, we_evidence = evidence, we_correlation_id = corr,
          we_occurred_at = at\<rparr>)))"

definition lease_expired :: "lease_row \<Rightarrow> instant \<Rightarrow> bool" where
  "lease_expired lease at =
     (wl_status lease = LeaseActive \<and> (case wl_expires_at lease of None \<Rightarrow> False | Some e \<Rightarrow> e \<le> at))"

text \<open>The SET clause of the expiry.\<close>

definition expired_row :: "lease_row \<Rightarrow> instant \<Rightarrow> lease_row" where
  "expired_row r at =
     r\<lparr>wl_revision := wl_revision r + 1, wl_status := LeaseExpired, wl_holder := None,
       wl_lease_token := None, wl_expires_at := None, wl_updated_at := at\<rparr>"

definition expireIfNeeded ::
  "lease_row option \<Rightarrow> ident \<Rightarrow> string \<Rightarrow> instant \<Rightarrow> lease_row option kop" where
  "expireIfNeeded lease actor corr observedAt =
     (case lease of
        None \<Rightarrow> ret None
      | Some l \<Rightarrow>
          if \<not> lease_expired l observedAt then ret (Some l)
          else
            seqM (updateLease (wl_worktree_id l) (\<lambda>r. expired_row r observedAt))
           (bindM (requireLease (wl_worktree_id l)) (\<lambda>expired.
            seqM (appendEvent expired LeaseExpiredEv actor corr (Some ''lease_expired'') None)
                 (ret (Some expired)))))"

text \<open>\<open>staleAuthority\<close>: the error, as a value.\<close>

definition staleAuthority ::
  "nat option \<Rightarrow> nat option \<Rightarrow> lease_row option \<Rightarrow> bool \<Rightarrow> kerror" where
  "staleAuthority expectedGeneration expectedFencingToken lease durable =
     (if durable then DurableKernelError else KernelError) ConditionalCheckFailed
       (Some (JObj
         [(''expectedGeneration'', jnat_opt expectedGeneration),
          (''actualGeneration'', jnat_opt (map_option wl_generation lease)),
          (''expectedFencingToken'', jnat_opt expectedFencingToken),
          (''actualFencingToken'', jnat_opt (map_option wl_fencing_token lease))]))"

definition requireLiveAuthority ::
  "lease_authority \<Rightarrow> principal_row \<Rightarrow> instant \<Rightarrow> string \<Rightarrow> lease_row kop" where
  "requireLiveAuthority command prin observedAt corr =
     seqM (requireNonEmpty (wa_worktreeId command))
    (seqM (requireNonEmpty (wa_leaseToken command))
    (bindM (requireLease (wa_worktreeId command)) (\<lambda>lease.
     if lease_expired lease observedAt then
       bindM (expireIfNeeded (Some lease) (pr_id prin) corr observedAt) (\<lambda>_.
         raise (DurableKernelError Conflict None))
     else if wl_status lease = LeaseExpired then raise (err Conflict)
     else if wl_generation lease \<noteq> wa_generation command \<or>
             wl_fencing_token lease \<noteq> wa_fencingToken command \<or>
             wl_lease_token lease \<noteq> Some (wa_leaseToken command)
     then raise (staleAuthority (Some (wa_generation command)) (Some (wa_fencingToken command))
                   (Some lease) False)
     else if wl_status lease \<noteq> LeaseActive \<or> wl_holder lease \<noteq> Some (pr_id prin)
     then raise (err Conflict)
     else (case wl_expires_at lease of
             None \<Rightarrow> raise (err Conflict)
           | Some e \<Rightarrow> if e \<le> observedAt then raise (err Conflict) else ret lease))))"

definition requireQuarantineAuthority ::
  "quarantine_command \<Rightarrow> lease_row option \<Rightarrow> principal_row \<Rightarrow> instant \<Rightarrow> unit kop" where
  "requireQuarantineAuthority command lease prin observedAt =
     (case lease of
        None \<Rightarrow> ret ()
      | Some l \<Rightarrow>
          if wl_status l \<noteq> LeaseActive then ret ()
          else (case (qt_expectedGeneration command, qt_expectedFencingToken command,
                      qt_leaseToken command) of
             (Some g, Some f, Some t) \<Rightarrow>
               seqM (requireNonEmpty t)
              (if wl_generation l \<noteq> g \<or> wl_fencing_token l \<noteq> f \<or> wl_lease_token l \<noteq> Some t
               then raise (staleAuthority (Some g) (Some f) (Some l) False)
               else if wl_holder l \<noteq> Some (pr_id prin) \<or>
                       (case wl_expires_at l of None \<Rightarrow> True | Some e \<Rightarrow> e \<le> observedAt)
               then raise (err Conflict)
               else ret ())
           | _ \<Rightarrow> raise (err ConditionalCheckFailed)))"

text \<open>\<open>assertPhysicalWorktreeIdle\<close> of \<open>physical-worktrees.ts\<close>: it only reads.\<close>

definition isStopped :: "execution_state \<Rightarrow> bool" where
  "isStopped st \<longleftrightarrow> st = ExStopConfirmed \<or> st = ExForceTerminated"

definition assertPhysicalWorktreeIdle :: "ident \<Rightarrow> bool \<Rightarrow> unit kop" where
  "assertPhysicalWorktreeIdle wid durable =
     bindM (query (\<lambda>d. find_row pw_worktree_id wid (d_worktrees d))) (\<lambda>worktree.
     bindM (query (\<lambda>d. find_first (\<lambda>x. wx_worktree_id x = wid \<and> \<not> isStopped (wx_state x))
                         (d_executions d))) (\<lambda>unsettled_execution.
       if map_option pw_state worktree = Some WtQuarantined \<or> unsettled_execution \<noteq> None
       then raise ((if durable then DurableKernelError else KernelError) DomainBusy None)
       else ret ()))"

section \<open>Results\<close>

definition mapWorktreeWriterLease :: "lease_row \<Rightarrow> lease_view" where
  "mapWorktreeWriterLease r =
     \<lparr>lv_worktreeId = wl_worktree_id r, lv_revision = wl_revision r,
      lv_generation = wl_generation r, lv_fencingToken = wl_fencing_token r,
      lv_status = wl_status r, lv_holderPrincipalId = wl_holder r,
      lv_acquiredAt = wl_acquired_at r, lv_renewedAt = wl_renewed_at r,
      lv_expiresAt = wl_expires_at r, lv_releasedAt = wl_released_at r,
      lv_quarantineReason = wl_quarantine_reason r,
      lv_quarantineEvidence = wl_quarantine_evidence r,
      lv_quarantinedAt = wl_quarantined_at r,
      lv_quarantineResolvedAt = wl_quarantine_resolved_at r,
      lv_quarantineResolution = wl_quarantine_resolution r, lv_updatedAt = wl_updated_at r\<rparr>"

definition authorityResult :: "command_type \<Rightarrow> lease_row \<Rightarrow> instant \<Rightarrow> command_result kop" where
  "authorityResult ct lease observedAt =
     (let view = mapWorktreeWriterLease lease in
      bindM (needM InternalError (wl_lease_token lease)) (\<lambda>token.
      bindM (needM InternalError (wl_expires_at lease)) (\<lambda>expiresAt.
        ret ((command_result_of ct (lv_worktreeId view))
               \<lparr>cr_revision := Some (lv_revision view), cr_leaseToken := Some token,
                cr_leaseExpiresAt := Some expiresAt, cr_authorityObservedAt := Some observedAt,
                cr_leaseGeneration := Some (lv_generation view),
                cr_fencingToken := Some (lv_fencingToken view),
                cr_worktreeWriterLease := Some view\<rparr>))))"

definition stateResult :: "command_type \<Rightarrow> lease_row \<Rightarrow> string option \<Rightarrow> command_result" where
  "stateResult ct lease quarantineToken =
     (let view = mapWorktreeWriterLease lease in
      (command_result_of ct (lv_worktreeId view))
        \<lparr>cr_revision := Some (lv_revision view),
         cr_leaseGeneration := Some (lv_generation view),
         cr_fencingToken := Some (lv_fencingToken view),
         cr_quarantineToken := (if quarantineToken = Some [] then None else quarantineToken),
         cr_worktreeWriterLease := Some view\<rparr>)"

definition secretToken :: "string \<Rightarrow> string kop" where
  "secretToken p = bindM randomToken (\<lambda>r. ret (p @ ''_'' @ r))"

section \<open>Handlers\<close>

text \<open>
  The row of VALUES in the two upserts, with the counters computed from the existing row, and
  the SET clause of their conflict branch.
\<close>

definition acquired_row ::
  "ident \<Rightarrow> principal_row \<Rightarrow> string \<Rightarrow> instant \<Rightarrow> int \<Rightarrow> lease_row option \<Rightarrow> lease_row" where
  "acquired_row wid prin leaseToken observedAt durationMs existing =
     \<lparr>wl_worktree_id = wid,
      wl_revision = (case existing of None \<Rightarrow> 1 | Some l \<Rightarrow> wl_revision l + 1),
      wl_generation = (case existing of None \<Rightarrow> 1 | Some l \<Rightarrow> wl_generation l + 1),
      wl_fencing_token = (case existing of None \<Rightarrow> 1 | Some l \<Rightarrow> wl_fencing_token l + 1),
      wl_status = LeaseActive, wl_holder = Some (pr_id prin),
      wl_lease_token = Some leaseToken, wl_acquired_at = Some observedAt,
      wl_renewed_at = None, wl_expires_at = Some (observedAt + durationMs),
      wl_released_at = None, wl_quarantine_reason = None, wl_quarantine_token = None,
      wl_quarantine_evidence = None, wl_quarantined_at = None,
      wl_quarantine_resolved_at = None, wl_quarantine_resolution = None,
      wl_updated_at = observedAt\<rparr>"

definition set_acquired :: "lease_row \<Rightarrow> lease_row \<Rightarrow> lease_row" where
  "set_acquired excluded r =
     r\<lparr>wl_revision := wl_revision excluded, wl_generation := wl_generation excluded,
       wl_fencing_token := wl_fencing_token excluded, wl_status := wl_status excluded,
       wl_holder := wl_holder excluded, wl_lease_token := wl_lease_token excluded,
       wl_acquired_at := wl_acquired_at excluded, wl_renewed_at := None,
       wl_expires_at := wl_expires_at excluded, wl_released_at := None,
       wl_quarantine_reason := None, wl_quarantine_token := None,
       wl_quarantine_evidence := None, wl_quarantined_at := None,
       wl_quarantine_resolved_at := None, wl_quarantine_resolution := None,
       wl_updated_at := wl_updated_at excluded\<rparr>"

definition quarantined_row ::
  "quarantine_command \<Rightarrow> string \<Rightarrow> instant \<Rightarrow> lease_row option \<Rightarrow> lease_row" where
  "quarantined_row command quarantineToken observedAt existing =
     \<lparr>wl_worktree_id = qt_worktreeId command,
      wl_revision = (case existing of None \<Rightarrow> 1 | Some l \<Rightarrow> wl_revision l + 1),
      wl_generation = (case existing of None \<Rightarrow> 0 | Some l \<Rightarrow> wl_generation l),
      wl_fencing_token = (case existing of None \<Rightarrow> 1 | Some l \<Rightarrow> wl_fencing_token l + 1),
      wl_status = LeaseQuarantined, wl_holder = None, wl_lease_token = None,
      wl_acquired_at = None, wl_renewed_at = None, wl_expires_at = None,
      wl_released_at = None, wl_quarantine_reason = Some (qt_reason command),
      wl_quarantine_token = Some quarantineToken, wl_quarantine_evidence = qt_evidence command,
      wl_quarantined_at = Some observedAt, wl_quarantine_resolved_at = None,
      wl_quarantine_resolution = None, wl_updated_at = observedAt\<rparr>"

definition set_quarantined :: "lease_row \<Rightarrow> lease_row \<Rightarrow> lease_row" where
  "set_quarantined excluded r =
     r\<lparr>wl_revision := wl_revision excluded, wl_generation := wl_generation excluded,
       wl_fencing_token := wl_fencing_token excluded, wl_status := wl_status excluded,
       wl_holder := None, wl_lease_token := None, wl_expires_at := None,
       wl_released_at := None, wl_quarantine_reason := wl_quarantine_reason excluded,
       wl_quarantine_token := wl_quarantine_token excluded,
       wl_quarantine_evidence := wl_quarantine_evidence excluded,
       wl_quarantined_at := wl_quarantined_at excluded, wl_quarantine_resolved_at := None,
       wl_quarantine_resolution := None, wl_updated_at := wl_updated_at excluded\<rparr>"

definition acquireWorktreeWriterLease ::
  "acquire_command \<Rightarrow> principal_row \<Rightarrow> string \<Rightarrow> command_result kop" where
  "acquireWorktreeWriterLease command prin corr =
     seqM (requireRuntime prin)
    (seqM (requireNonEmpty (aq_worktreeId command))
    (bindM (boundedDuration (aq_leaseDurationMs command)) (\<lambda>durationMs.
     bindM clock (\<lambda>observedAt.
     bindM (getLease (aq_worktreeId command)) (\<lambda>previous.
     bindM (expireIfNeeded previous (pr_id prin) corr observedAt) (\<lambda>existing.
     seqM (assertPhysicalWorktreeIdle (aq_worktreeId command)
             (map_option wl_status previous = Some LeaseActive \<and>
              map_option wl_status existing = Some LeaseExpired))
    (seqM (guardM (map_option wl_status existing \<noteq> Some LeaseActive) (err DomainBusy))
    (seqM (guardM (map_option wl_status existing \<noteq> Some LeaseQuarantined) (err DomainBusy))
    (bindM (secretToken ''wlt'') (\<lambda>leaseToken.
     let row = acquired_row (aq_worktreeId command) prin leaseToken observedAt durationMs existing in
     seqM (upsertLease row (set_acquired row))
    (bindM (requireLease (aq_worktreeId command)) (\<lambda>lease.
     seqM (appendEvent lease LeaseAcquiredEv (pr_id prin) corr None None)
          (authorityResult AcquireWorktreeWriterLease lease observedAt)))))))))))))"

text \<open>The SET clauses of renewal, release and quarantine resolution.\<close>

definition set_renewed :: "nat \<Rightarrow> instant \<Rightarrow> instant \<Rightarrow> lease_row \<Rightarrow> lease_row" where
  "set_renewed revision observedAt expiresAt r =
     r\<lparr>wl_revision := revision, wl_renewed_at := Some observedAt,
       wl_expires_at := Some expiresAt, wl_updated_at := observedAt\<rparr>"

definition set_released :: "nat \<Rightarrow> instant \<Rightarrow> lease_row \<Rightarrow> lease_row" where
  "set_released revision observedAt r =
     r\<lparr>wl_revision := revision, wl_status := LeaseReleased, wl_holder := None,
       wl_lease_token := None, wl_expires_at := None, wl_released_at := Some observedAt,
       wl_updated_at := observedAt\<rparr>"

definition set_resolved :: "nat \<Rightarrow> string \<Rightarrow> instant \<Rightarrow> lease_row \<Rightarrow> lease_row" where
  "set_resolved revision resolution observedAt r =
     r\<lparr>wl_revision := revision, wl_status := LeaseReleased, wl_quarantine_reason := None,
       wl_quarantine_token := None, wl_quarantine_evidence := None, wl_quarantined_at := None,
       wl_quarantine_resolved_at := Some observedAt,
       wl_quarantine_resolution := Some resolution, wl_updated_at := observedAt\<rparr>"

definition renewWorktreeWriterLease ::
  "renew_command \<Rightarrow> principal_row \<Rightarrow> string \<Rightarrow> command_result kop" where
  "renewWorktreeWriterLease command prin corr =
     seqM (requireRuntime prin)
    (bindM (boundedDuration (rw_leaseDurationMs command)) (\<lambda>durationMs.
     bindM clock (\<lambda>observedAt.
     bindM (requireLiveAuthority (rw_authority command) prin observedAt corr) (\<lambda>lease.
     let revision = wl_revision lease + 1;
         expiresAt = observedAt + durationMs in
     seqM (updateLease (wa_worktreeId (rw_authority command))
             (set_renewed revision observedAt expiresAt))
    (bindM (requireLease (wa_worktreeId (rw_authority command))) (\<lambda>renewed.
     seqM (appendEvent renewed LeaseRenewedEv (pr_id prin) corr None None)
          (authorityResult RenewWorktreeWriterLease renewed observedAt)))))))"

definition releaseWorktreeWriterLease ::
  "release_command \<Rightarrow> principal_row \<Rightarrow> string \<Rightarrow> command_result kop" where
  "releaseWorktreeWriterLease command prin corr =
     seqM (requireRuntime prin)
    (bindM clock (\<lambda>observedAt.
     bindM (requireLiveAuthority (rl_authority command) prin observedAt corr) (\<lambda>lease.
     seqM (assertPhysicalWorktreeIdle (wa_worktreeId (rl_authority command)) False)
    (seqM (updateLease (wa_worktreeId (rl_authority command))
             (set_released (wl_revision lease + 1) observedAt))
    (bindM (requireLease (wa_worktreeId (rl_authority command))) (\<lambda>released.
     seqM (appendEvent released LeaseReleasedEv (pr_id prin) corr None None)
          (ret (stateResult ReleaseWorktreeWriterLease released None))))))))"

definition quarantineWorktreeWriterLease ::
  "quarantine_command \<Rightarrow> principal_row \<Rightarrow> string \<Rightarrow> command_result kop" where
  "quarantineWorktreeWriterLease command prin corr =
     seqM (requireRuntime prin)
    (seqM (requireNonEmpty (qt_worktreeId command))
    (seqM (requireNonEmpty (qt_reason command))
    (bindM clock (\<lambda>observedAt.
     bindM (getLease (qt_worktreeId command)) (\<lambda>current.
     let materializedExpiry =
           (case current of None \<Rightarrow> False | Some l \<Rightarrow> lease_expired l observedAt) in
     bindM (expireIfNeeded current (pr_id prin) corr observedAt) (\<lambda>existing.
     seqM (guardM (map_option wl_status existing \<noteq> Some LeaseQuarantined) (err Conflict))
    (seqM (requireQuarantineAuthority command existing prin observedAt)
    (seqM (guardM (case qt_expectedGeneration command of None \<Rightarrow> True
                    | Some g \<Rightarrow> map_option wl_generation existing = Some g)
             (staleAuthority (qt_expectedGeneration command) (qt_expectedFencingToken command)
                existing materializedExpiry))
    (seqM (guardM (case qt_expectedFencingToken command of None \<Rightarrow> True
                    | Some f \<Rightarrow> map_option wl_fencing_token existing = Some f)
             (staleAuthority (qt_expectedGeneration command) (qt_expectedFencingToken command)
                existing materializedExpiry))
    (bindM (secretToken ''wqt'') (\<lambda>quarantineToken.
     let row = quarantined_row command quarantineToken observedAt existing in
     seqM (upsertLease row (set_quarantined row))
    (bindM (requireLease (qt_worktreeId command)) (\<lambda>quarantined.
     seqM (appendEvent quarantined LeaseQuarantinedEv (pr_id prin) corr
             (Some (qt_reason command)) (qt_evidence command))
          (ret (stateResult QuarantineWorktreeWriterLease quarantined
                  (Some quarantineToken))))))))))))))))"

definition resolveWorktreeWriterLeaseQuarantine ::
  "resolve_quarantine_command \<Rightarrow> principal_row \<Rightarrow> string \<Rightarrow> command_result kop" where
  "resolveWorktreeWriterLeaseQuarantine command prin corr =
     seqM (requireRuntime prin)
    (seqM (assertPhysicalWorktreeIdle (rq_worktreeId command) False)
    (seqM (requireNonEmpty (rq_worktreeId command))
    (seqM (requireNonEmpty (rq_quarantineToken command))
    (seqM (requireNonEmpty (rq_resolution command))
    (bindM (requireLease (rq_worktreeId command)) (\<lambda>lease.
     seqM (guardM (wl_revision lease = rq_expectedRevision command \<and>
                   wl_fencing_token lease = rq_expectedFencingToken command \<and>
                   wl_quarantine_token lease = Some (rq_quarantineToken command))
             (KernelError ConditionalCheckFailed (Some (JObj
                [(''expectedRevision'', jnat (rq_expectedRevision command)),
                 (''actualRevision'', jnat (wl_revision lease)),
                 (''expectedFencingToken'', jnat (rq_expectedFencingToken command)),
                 (''actualFencingToken'', jnat (wl_fencing_token lease))]))))
    (seqM (guardM (wl_status lease = LeaseQuarantined) (err Conflict))
    (bindM clock (\<lambda>observedAt.
     seqM (updateLease (rq_worktreeId command)
             (set_resolved (wl_revision lease + 1) (rq_resolution command) observedAt))
    (bindM (requireLease (rq_worktreeId command)) (\<lambda>resolved.
     seqM (appendEvent resolved LeaseQuarantineResolvedEv (pr_id prin) corr
             (Some (rq_resolution command)) None)
          (ret (stateResult ResolveWorktreeWriterLeaseQuarantine resolved None)))))))))))))"

section \<open>Queries\<close>

definition getWorktreeWriterLease :: "ident \<Rightarrow> principal_row \<Rightarrow> lease_view kop" where
  "getWorktreeWriterLease wid prin =
     seqM (requireRuntime prin)
    (seqM (requireNonEmpty wid)
    (bindM clock (\<lambda>observedAt.
     bindM (requireLease wid) (\<lambda>stored.
     bindM (idFactory ''corr'') (\<lambda>corr.
     bindM (expireIfNeeded (Some stored) (pr_id prin) corr observedAt) (\<lambda>lease.
     bindM (needM InternalError lease) (\<lambda>l. ret (mapWorktreeWriterLease l))))))))"

record lease_event_view =
  lev_cursor :: nat
  lev_id :: ident
  lev_worktreeId :: ident
  lev_type :: lease_event_type
  lev_revision :: nat
  lev_generation :: nat
  lev_fencingToken :: nat
  lev_actorPrincipalId :: ident
  lev_holderPrincipalId :: "ident option"
  lev_expiresAt :: "instant option"
  lev_reason :: "string option"
  lev_evidence :: "json option"
  lev_correlationId :: string
  lev_occurredAt :: instant

record lease_event_page =
  lep_items :: "lease_event_view list"
  lep_nextCursor :: "nat option"
  lep_hasMore :: bool

definition mapWorktreeWriterLeaseEvent :: "lease_event_row \<Rightarrow> lease_event_view" where
  "mapWorktreeWriterLeaseEvent r =
     \<lparr>lev_cursor = we_sequence r, lev_id = we_id r, lev_worktreeId = we_worktree_id r,
      lev_type = we_type r, lev_revision = we_revision r, lev_generation = we_generation r,
      lev_fencingToken = we_fencing_token r, lev_actorPrincipalId = we_actor r,
      lev_holderPrincipalId = we_holder r, lev_expiresAt = we_expires_at r,
      lev_reason = we_reason r, lev_evidence = we_evidence r,
      lev_correlationId = we_correlation_id r, lev_occurredAt = we_occurred_at r\<rparr>"

definition listWorktreeWriterLeaseEvents ::
  "ident \<Rightarrow> nat \<Rightarrow> nat \<Rightarrow> principal_row \<Rightarrow> lease_event_page kop" where
  "listWorktreeWriterLeaseEvents wid afterCursor limit prin =
     seqM (requireRuntime prin)
    (seqM (requireNonEmpty wid)
    (bindM (query (\<lambda>d. take (limit + 1) (filter (\<lambda>e. we_worktree_id e = wid \<and> we_sequence e > afterCursor)
                          (d_lease_events d)))) (\<lambda>rows.
     let items = map mapWorktreeWriterLeaseEvent (take limit rows) in
     ret \<lparr>lep_items = items,
          lep_nextCursor = (if items = [] then None else Some (lev_cursor (last items))),
          lep_hasMore = (length rows > limit)\<rparr>)))"

section \<open>Replay of an idempotent command\<close>

definition resolveCachedWorktreeWriterLeaseAuthority ::
  "command_type \<Rightarrow> ident \<Rightarrow> command_result \<Rightarrow> principal_row \<Rightarrow> command_result kop" where
  "resolveCachedWorktreeWriterLeaseAuthority ct wid result prin =
     seqM (guardM (cr_worktreeWriterLease result \<noteq> None \<and>
                   cr_leaseToken result \<noteq> None \<and> cr_leaseToken result \<noteq> Some []) (err Conflict))
    (bindM (requireLease wid) (\<lambda>lease.
     bindM clock (\<lambda>observedAt.
     if lease_expired lease observedAt then
       bindM (idFactory ''corr'') (\<lambda>corr.
       bindM (expireIfNeeded (Some lease) (pr_id prin) corr observedAt) (\<lambda>_.
         raise (DurableKernelError Conflict None)))
     else
       seqM (guardM (wl_status lease = LeaseActive \<and>
                     wl_holder lease = Some (pr_id prin) \<and>
                     wl_lease_token lease = cr_leaseToken result \<and>
                     Some (wl_generation lease) = cr_leaseGeneration result \<and>
                     Some (wl_fencing_token lease) = cr_fencingToken result \<and>
                     (case wl_expires_at lease of None \<Rightarrow> False | Some e \<Rightarrow> e > observedAt))
               (err Conflict))
            (authorityResult ct lease observedAt))))"

definition resolveCachedWorktreeWriterLeaseQuarantine ::
  "quarantine_command \<Rightarrow> command_result \<Rightarrow> principal_row \<Rightarrow> command_result kop" where
  "resolveCachedWorktreeWriterLeaseQuarantine command result prin =
     seqM (guardM (cr_quarantineToken result \<noteq> None \<and> cr_quarantineToken result \<noteq> Some [] \<and>
                   cr_revision result \<noteq> None \<and> cr_fencingToken result \<noteq> None) (err Conflict))
    (bindM (requireLease (qt_worktreeId command)) (\<lambda>lease.
     bindM clock (\<lambda>observedAt.
     if lease_expired lease observedAt then
       bindM (idFactory ''corr'') (\<lambda>corr.
       bindM (expireIfNeeded (Some lease) (pr_id prin) corr observedAt) (\<lambda>_.
         raise (DurableKernelError Conflict None)))
     else
       seqM (guardM (wl_status lease = LeaseQuarantined \<and>
                     Some (wl_revision lease) = cr_revision result \<and>
                     Some (wl_fencing_token lease) = cr_fencingToken result \<and>
                     wl_quarantine_token lease = cr_quarantineToken result)
               (err Conflict))
            (ret (stateResult QuarantineWorktreeWriterLease lease (cr_quarantineToken result))))))"

section \<open>The ledger as an abstract machine\<close>

text \<open>
  What a client may know of a lease: its counters, its status, who holds it and until when.
  \<open>ledger_step\<close> is the lease protocol, one transition per event type; an event that the
  protocol does not allow in the current state has no successor.
\<close>

record lease_abs =
  la_revision :: nat
  la_generation :: nat
  la_fence :: nat
  la_status :: "lease_status option"
  la_holder :: "ident option"
  la_expires :: "instant option"

definition lease_abs0 :: lease_abs where
  "lease_abs0 = \<lparr>la_revision = 0, la_generation = 0, la_fence = 0, la_status = None,
                 la_holder = None, la_expires = None\<rparr>"

definition abs_lease :: "lease_row option \<Rightarrow> lease_abs" where
  "abs_lease v =
     (case v of
        None \<Rightarrow> lease_abs0
      | Some r \<Rightarrow> \<lparr>la_revision = wl_revision r, la_generation = wl_generation r,
                   la_fence = wl_fencing_token r, la_status = Some (wl_status r),
                   la_holder = wl_holder r, la_expires = wl_expires_at r\<rparr>)"

definition status_after :: "lease_event_type \<Rightarrow> lease_status" where
  "status_after ty =
     (case ty of
        LeaseAcquiredEv \<Rightarrow> LeaseActive
      | LeaseRenewedEv \<Rightarrow> LeaseActive
      | LeaseReleasedEv \<Rightarrow> LeaseReleased
      | LeaseExpiredEv \<Rightarrow> LeaseExpired
      | LeaseQuarantinedEv \<Rightarrow> LeaseQuarantined
      | LeaseQuarantineResolvedEv \<Rightarrow> LeaseReleased)"

definition ledger_allows :: "lease_abs \<Rightarrow> lease_event_row \<Rightarrow> bool" where
  "ledger_allows a e \<longleftrightarrow>
     we_revision e = la_revision a + 1 \<and>
     (case we_type e of
        LeaseAcquiredEv \<Rightarrow>
          la_status a \<noteq> Some LeaseActive \<and> la_status a \<noteq> Some LeaseQuarantined \<and>
          we_generation e = la_generation a + 1 \<and> we_fencing_token e = la_fence a + 1 \<and>
          we_holder e \<noteq> None \<and> we_expires_at e \<noteq> None
      | LeaseRenewedEv \<Rightarrow>
          la_status a = Some LeaseActive \<and> we_generation e = la_generation a \<and>
          we_fencing_token e = la_fence a \<and> we_holder e = la_holder a \<and> we_expires_at e \<noteq> None
      | LeaseQuarantinedEv \<Rightarrow>
          la_status a \<noteq> Some LeaseQuarantined \<and> we_generation e = la_generation a \<and>
          we_fencing_token e = la_fence a + 1 \<and> we_holder e = None \<and> we_expires_at e = None
      | LeaseQuarantineResolvedEv \<Rightarrow>
          la_status a = Some LeaseQuarantined \<and> we_generation e = la_generation a \<and>
          we_fencing_token e = la_fence a \<and> we_holder e = None \<and> we_expires_at e = None
      | _ \<Rightarrow>
          la_status a = Some LeaseActive \<and> we_generation e = la_generation a \<and>
          we_fencing_token e = la_fence a \<and> we_holder e = None \<and> we_expires_at e = None)"

definition ledger_step :: "lease_abs \<Rightarrow> lease_event_row \<Rightarrow> lease_abs option" where
  "ledger_step a e =
     (if ledger_allows a e then
        Some \<lparr>la_revision = we_revision e, la_generation = we_generation e,
              la_fence = we_fencing_token e, la_status = Some (status_after (we_type e)),
              la_holder = we_holder e, la_expires = we_expires_at e\<rparr>
      else None)"

fun replay :: "lease_abs \<Rightarrow> lease_event_row list \<Rightarrow> lease_abs option" where
  "replay a [] = Some a"
| "replay a (e # es) = (case ledger_step a e of None \<Rightarrow> None | Some b \<Rightarrow> replay b es)"

definition ledger :: "ident \<Rightarrow> database \<Rightarrow> lease_event_row list" where
  "ledger wid d = filter (\<lambda>e. we_worktree_id e = wid) (d_lease_events d)"

definition lease_of :: "ident \<Rightarrow> database \<Rightarrow> lease_row option" where
  "lease_of wid d = find_row wl_worktree_id wid (d_leases d)"

text \<open>
  The invariant: one row per Worktree, every row satisfies the CHECK constraint (and an active
  lease carries no quarantine evidence, which the constraint does not say), the ledger is in
  sequence order, and the ledger of every Worktree replays to its row.
\<close>

definition lease_row_ok :: "lease_row \<Rightarrow> bool" where
  "lease_row_ok r \<longleftrightarrow>
     lease_check r \<and> (wl_status r = LeaseActive \<longrightarrow> wl_quarantine_evidence r = None)"

definition lease_inv :: "database \<Rightarrow> bool" where
  "lease_inv d \<longleftrightarrow>
     distinct (map wl_worktree_id (d_leases d)) \<and>
     list_all lease_row_ok (d_leases d) \<and>
     sorted_wrt (<) (map we_sequence (d_lease_events d)) \<and>
     (\<forall>wid. replay lease_abs0 (ledger wid d) = Some (abs_lease (lease_of wid d)))"

subsection \<open>Facts of the abstract machine\<close>

lemma replay_append:
  "replay a (es @ fs) = (case replay a es of None \<Rightarrow> None | Some b \<Rightarrow> replay b fs)"
  by (induction es arbitrary: a) (auto split: option.split)

lemma ledger_step_Some:
  "ledger_step a e = Some b \<longleftrightarrow>
     ledger_allows a e \<and>
     b = \<lparr>la_revision = we_revision e, la_generation = we_generation e,
          la_fence = we_fencing_token e, la_status = Some (status_after (we_type e)),
          la_holder = we_holder e, la_expires = we_expires_at e\<rparr>"
  by (auto simp: ledger_step_def)

lemma ledger_step_mono:
  "ledger_step a e = Some b \<Longrightarrow>
   la_revision b = la_revision a + 1 \<and> la_generation a \<le> la_generation b \<and> la_fence a \<le> la_fence b"
  by (auto simp: ledger_step_Some ledger_allows_def split: lease_event_type.splits)

lemma replay_mono:
  "replay a es = Some b \<Longrightarrow>
   la_revision b = la_revision a + length es \<and> la_generation a \<le> la_generation b \<and>
   la_fence a \<le> la_fence b"
proof (induction es arbitrary: a)
  case Nil
  then show ?case by simp
next
  case (Cons e es)
  then obtain c where "ledger_step a e = Some c" and "replay c es = Some b"
    by (auto split: option.splits)
  with Cons.IH [of c] ledger_step_mono [of a e c] show ?case by auto
qed

lemma replay_revisions:
  "replay a es = Some b \<Longrightarrow> map we_revision es = [la_revision a + 1..<la_revision b + 1]"
proof (induction es arbitrary: a)
  case Nil
  then show ?case by simp
next
  case (Cons e es)
  then obtain c where c: "ledger_step a e = Some c" and r: "replay c es = Some b"
    by (auto split: option.splits)
  from c have e: "we_revision e = la_revision a + 1" and lc: "la_revision c = la_revision a + 1"
    by (auto simp: ledger_step_Some ledger_allows_def)
  have "la_revision c \<le> la_revision b" using replay_mono [OF r] by simp
  then have "[la_revision a + 1..<la_revision b + 1] =
      (la_revision a + 1) # [la_revision c + 1..<la_revision b + 1]"
    using lc by (simp add: upt_rec)
  with Cons.IH [OF r] e show ?case by simp
qed

subsection \<open>One logged change of a row\<close>

definition put_lease :: "lease_row \<Rightarrow> lease_row list \<Rightarrow> lease_row list" where
  "put_lease row rs =
     (case find_row wl_worktree_id (wl_worktree_id row) rs of
        None \<Rightarrow> rs @ [row]
      | Some _ \<Rightarrow> update_rows (\<lambda>r. wl_worktree_id r = wl_worktree_id row) (\<lambda>_. row) rs)"

definition logged :: "lease_row \<Rightarrow> lease_event_row \<Rightarrow> database \<Rightarrow> database" where
  "logged row e d = d_lease_events_update (\<lambda>es. es @ [e]) (d_leases_update (put_lease row) d)"

definition event_for ::
  "lease_row \<Rightarrow> lease_event_type \<Rightarrow> lease_event_row \<Rightarrow> database \<Rightarrow> bool" where
  "event_for row ty e d \<longleftrightarrow>
     we_worktree_id e = wl_worktree_id row \<and> we_type e = ty \<and> we_revision e = wl_revision row \<and>
     we_generation e = wl_generation row \<and> we_fencing_token e = wl_fencing_token row \<and>
     we_holder e = wl_holder row \<and> we_expires_at e = wl_expires_at row \<and>
     we_sequence e = next_sequence we_sequence (d_lease_events d)"

lemma find_put_lease:
  "find_row wl_worktree_id w (put_lease row rs) =
     (if w = wl_worktree_id row then Some row else find_row wl_worktree_id w rs)"
proof -
  have upd: "find_row wl_worktree_id w (update_rows (\<lambda>r. wl_worktree_id r = wl_worktree_id row) (\<lambda>_. row) rs) =
    (if w = wl_worktree_id row then map_option (\<lambda>_. row) (find_row wl_worktree_id w rs)
     else find_row wl_worktree_id w rs)"
    by (induction rs) (auto simp: find_row_Cons)
  show ?thesis
    by (cases "find_row wl_worktree_id (wl_worktree_id row) rs")
      (auto simp: put_lease_def upd find_row_snoc split: option.splits)
qed

lemma keys_put_lease:
  "distinct (map wl_worktree_id rs) \<Longrightarrow> distinct (map wl_worktree_id (put_lease row rs))"
  by (auto simp: put_lease_def map_key_update find_row_None split: option.split)

lemma set_put_lease: "set (put_lease row rs) \<subseteq> insert row (set rs)"
  by (auto simp: put_lease_def set_update_rows split: option.splits if_splits)

lemma put_lease_update:
  assumes "find_row wl_worktree_id w rs = Some r" and "distinct (map wl_worktree_id rs)"
    and "wl_worktree_id (f r) = w"
  shows "update_rows (\<lambda>q. wl_worktree_id q = w) f rs = put_lease (f r) rs"
proof -
  have "update_rows (\<lambda>q. wl_worktree_id q = w) f rs = update_rows (\<lambda>q. wl_worktree_id q = w) (\<lambda>_. f r) rs"
    unfolding update_rows_def
  proof (rule map_cong [OF HOL.refl])
    fix q assume "q \<in> set rs"
    then show "(if wl_worktree_id q = w then f q else q) = (if wl_worktree_id q = w then f r else q)"
      using assms(1) find_row_member [OF assms(2)] by auto
  qed
  then show ?thesis using assms by (simp add: put_lease_def)
qed

lemma lease_inv_distinct: "lease_inv d \<Longrightarrow> distinct (map wl_worktree_id (d_leases d))"
  by (simp add: lease_inv_def)

lemma lease_inv_row: "lease_inv d \<Longrightarrow> lease_of w d = Some r \<Longrightarrow> lease_row_ok r \<and> wl_worktree_id r = w"
  by (auto simp: lease_inv_def lease_of_def list_all_iff dest!: find_row_Some)

lemma lease_of_logged: "lease_of w (logged row e d) = (if w = wl_worktree_id row then Some row else lease_of w d)"
  by (simp add: lease_of_def logged_def find_put_lease)

lemma ledger_logged:
  "ledger w (logged row e d) = ledger w d @ (if we_worktree_id e = w then [e] else [])"
  by (simp add: ledger_def logged_def)

lemma lease_inv_logged:
  assumes inv: "lease_inv d" and ok: "lease_row_ok row" and e: "event_for row ty e d"
    and step: "ledger_allows (abs_lease (lease_of (wl_worktree_id row) d)) e"
    and status: "wl_status row = status_after ty"
  shows "lease_inv (logged row e d)"
proof -
  from e have id: "we_worktree_id e = wl_worktree_id row" by (simp add: event_for_def)
  have "replay lease_abs0 (ledger w (logged row e d)) = Some (abs_lease (lease_of w (logged row e d)))"
    for w
  proof (cases "w = wl_worktree_id row")
    case True
    have "ledger_step (abs_lease (lease_of w d)) e = Some (abs_lease (Some row))"
      using step status e True by (simp add: ledger_step_def event_for_def abs_lease_def)
    then show ?thesis
      using inv True id by (simp add: lease_inv_def ledger_logged lease_of_logged replay_append)
  next
    case False
    then show ?thesis
      using inv id by (simp add: lease_inv_def ledger_logged lease_of_logged)
  qed
  moreover have "list_all lease_row_ok (put_lease row (d_leases d))"
    using inv ok set_put_lease [of row "d_leases d"] by (auto simp: lease_inv_def list_all_iff)
  moreover have "sorted_wrt (<) (map we_sequence (d_lease_events d @ [e]))"
    using inv e by (intro sorted_snoc_next) (simp_all add: lease_inv_def event_for_def)
  ultimately show ?thesis
    using inv by (simp add: lease_inv_def logged_def keys_put_lease)
qed

subsection \<open>The handlers as logged changes\<close>

lemma getLease_run [run_simps]: "getLease w k = (Inr (lease_of w (k_db k)), k)"
  by (simp add: getLease_def query_run lease_of_def)

lemma wp_getLease [wp_simps]: "wp (getLease w) Q E k = Q (lease_of w (k_db k)) k"
  by (simp add: wp_def getLease_run)

lemma wp_requireLease [wp_simps]:
  "wp (requireLease w) Q E k =
     (case lease_of w (k_db k) of None \<Rightarrow> E (err NotFound) k | Some r \<Rightarrow> Q r k)"
  by (simp add: requireLease_def wp_simps)

lemma wp_requireRuntime [wp_simps]:
  "wp (requireRuntime prin) Q E k = (if pr_kind prin = Runtime then Q () k else E (err Forbidden) k)"
  by (simp add: requireRuntime_def wp_simps)

lemma wp_secretToken [wp_simps]:
  "wp (secretToken p) Q E k =
     Q (p @ ''_'' @ k_random k (k_randoms k)) (k\<lparr>k_randoms := Suc (k_randoms k)\<rparr>)"
  by (simp add: secretToken_def wp_simps)

lemma wp_intro_getLease [wp_intros]: "Q (lease_of w (k_db k)) k \<Longrightarrow> wp (getLease w) Q E k"
  by (simp add: wp_simps)

lemma wp_intro_requireLease [wp_intros]:
  "(lease_of w (k_db k) = None \<Longrightarrow> E (err NotFound) k) \<Longrightarrow>
   (\<And>r. lease_of w (k_db k) = Some r \<Longrightarrow> Q r k) \<Longrightarrow> wp (requireLease w) Q E k"
  by (simp add: wp_simps split: option.split)

lemma wp_intro_requireRuntime [wp_intros]:
  "(pr_kind prin = Runtime \<Longrightarrow> Q () k) \<Longrightarrow> (pr_kind prin \<noteq> Runtime \<Longrightarrow> E (err Forbidden) k) \<Longrightarrow>
   wp (requireRuntime prin) Q E k"
  by (simp add: wp_simps)

lemma wp_intro_secretToken [wp_intros]:
  "Q (p @ ''_'' @ k_random k (k_randoms k)) (k\<lparr>k_randoms := Suc (k_randoms k)\<rparr>) \<Longrightarrow>
   wp (secretToken p) Q E k"
  by (simp add: wp_simps)

lemma wp_appendEvent:
  assumes "\<And>t. k_db t = k_db k \<Longrightarrow> E ConstraintError t"
    and "\<And>e t. event_for row ty e (k_db k) \<Longrightarrow>
           k_db t = d_lease_events_update (\<lambda>es. es @ [e]) (k_db k) \<Longrightarrow> Q () t"
  shows "wp (appendEvent row ty actor corr reason evidence) Q E k"
  unfolding appendEvent_def wp_simps
  by (auto intro!: assms simp: event_for_def)

lemma updateLease_run:
  assumes "lease_inv (k_db k)" and "lease_of w (k_db k) = Some r"
    and "wl_worktree_id (f r) = w" and "lease_check (f r)"
  shows "updateLease w f k = (Inr (), k_db_update (d_leases_update (put_lease (f r))) k)"
proof -
  have d: "distinct (map wl_worktree_id (d_leases (k_db k)))"
    using assms(1) by (rule lease_inv_distinct)
  have r: "find_row wl_worktree_id w (d_leases (k_db k)) = Some r"
    using assms(2) by (simp add: lease_of_def)
  have "list_all (\<lambda>q. wl_worktree_id q = w \<longrightarrow> lease_check (f q)) (d_leases (k_db k))"
    using find_row_member [OF d] r assms(4) by (auto simp: list_all_iff)
  then show ?thesis
    using put_lease_update [of w "d_leases (k_db k)" r f, OF r d assms(3)]
    by (simp add: updateLease_def run_simps update_where_def)
qed

lemma wp_logged:
  assumes "m k = (Inr (), k_db_update (d_leases_update (put_lease row)) k)"
    and "w = wl_worktree_id row"
    and "\<And>t. E ConstraintError t"
    and "\<And>e t. event_for row ty e (k_db k) \<Longrightarrow> k_db t = logged row e (k_db k) \<Longrightarrow> wp (n row) Q E t"
  shows "wp m (\<lambda>_. wp (bindM (requireLease w)
           (\<lambda>l. seqM (appendEvent l ty actor corr reason evidence) (n l))) Q E) E k"
proof -
  have "lease_of w (k_db (k_db_update (d_leases_update (put_lease row)) k)) = Some row"
    using assms(2) by (simp add: lease_of_def find_put_lease)
  then have "wp (bindM (requireLease w)
      (\<lambda>l. seqM (appendEvent l ty actor corr reason evidence) (n l))) Q E
      (k_db_update (d_leases_update (put_lease row)) k)"
    by (auto simp: wp_simps logged_def event_for_def intro!: wp_appendEvent assms(3,4))
  then show ?thesis
    using assms(1) by (simp add: wp_def)
qed

text \<open>The row grants the authority: it is active, unexpired, and held with exactly these credentials.\<close>

definition grants :: "lease_row \<Rightarrow> lease_authority \<Rightarrow> principal_row \<Rightarrow> instant \<Rightarrow> bool" where
  "grants r a prin at \<longleftrightarrow>
     wl_status r = LeaseActive \<and> wl_holder r = Some (pr_id prin) \<and>
     wl_generation r = wa_generation a \<and> wl_fencing_token r = wa_fencingToken a \<and>
     wl_lease_token r = Some (wa_leaseToken a) \<and>
     (case wl_expires_at r of None \<Rightarrow> False | Some e \<Rightarrow> at < e)"

lemma expired_row_ok: "lease_row_ok r \<Longrightarrow> wl_status r = LeaseActive \<Longrightarrow> lease_row_ok (expired_row r at)"
  by (simp add: lease_row_ok_def lease_check_def expired_row_def)

lemma expired_event_allowed:
  assumes "wl_status r = LeaseActive" and "event_for (expired_row r at) LeaseExpiredEv e d"
  shows "ledger_allows (abs_lease (Some r)) e"
  using assms by (simp add: ledger_allows_def event_for_def expired_row_def abs_lease_def)

lemma lease_inv_expired:
  assumes "lease_inv d" and "lease_of w d = Some r" and "lease_expired r at"
    and "event_for (expired_row r at) LeaseExpiredEv e d"
  shows "lease_inv (logged (expired_row r at) e d)"
proof -
  have r: "lease_row_ok r" "wl_worktree_id r = w" using lease_inv_row [OF assms(1,2)] by simp_all
  have a: "wl_status r = LeaseActive" using assms(3) by (simp add: lease_expired_def)
  have id: "wl_worktree_id (expired_row r at) = w" using r by (simp add: expired_row_def)
  show ?thesis
  proof (rule lease_inv_logged [OF assms(1) expired_row_ok [OF r(1) a] assms(4)])
    show "ledger_allows (abs_lease (lease_of (wl_worktree_id (expired_row r at)) d)) e"
      using expired_event_allowed [OF a assms(4)] assms(2) id by simp
    show "wl_status (expired_row r at) = status_after LeaseExpiredEv"
      by (simp add: expired_row_def status_after_def)
  qed
qed

lemma wp_expireIfNeeded:
  assumes inv: "lease_inv (k_db k)" and lease: "lease = lease_of w (k_db k)"
    and live: "\<not> (case lease of None \<Rightarrow> False | Some r \<Rightarrow> lease_expired r at) \<Longrightarrow> Q lease k"
    and expired: "\<And>r e t. lease = Some r \<Longrightarrow> lease_expired r at \<Longrightarrow> lease_row_ok r \<Longrightarrow>
        wl_worktree_id r = w \<Longrightarrow> event_for (expired_row r at) LeaseExpiredEv e (k_db k) \<Longrightarrow>
        k_db t = logged (expired_row r at) e (k_db k) \<Longrightarrow> lease_inv (k_db t) \<Longrightarrow>
        Q (Some (expired_row r at)) t"
    and constraint: "\<And>t. E ConstraintError t"
  shows "wp (expireIfNeeded lease actor corr at) Q E k"
proof (cases lease)
  case None
  then show ?thesis using live by (simp add: expireIfNeeded_def wp_simps)
next
  case (Some r)
  show ?thesis
  proof (cases "lease_expired r at")
    case False
    then show ?thesis using live Some by (simp add: expireIfNeeded_def wp_simps)
  next
    case True
    have r: "lease_of w (k_db k) = Some r" using Some lease by simp
    note ok = lease_inv_row [OF inv r]
    have a: "wl_status r = LeaseActive" using True by (simp add: lease_expired_def)
    have run: "updateLease w (\<lambda>q. expired_row q at) k =
        (Inr (), k_db_update (d_leases_update (put_lease (expired_row r at))) k)"
      using ok expired_row_ok [of r at] a
      by (intro updateLease_run [OF inv r]) (simp_all add: expired_row_def lease_row_ok_def)
    have id: "wl_worktree_id (expired_row r at) = w" using ok by (simp add: expired_row_def)
    have "wp (updateLease w (\<lambda>q. expired_row q at)) (\<lambda>_. wp (bindM (requireLease w)
        (\<lambda>l. seqM (appendEvent l LeaseExpiredEv actor corr (Some ''lease_expired'') None)
               (ret (Some l)))) Q E) E k"
    proof (rule wp_logged [where row = "expired_row r at"])
      fix e and t :: kernel
      assume e: "event_for (expired_row r at) LeaseExpiredEv e (k_db k)"
        and t: "k_db t = logged (expired_row r at) e (k_db k)"
      have "lease_inv (k_db t)" using lease_inv_expired [OF inv r True e] t by simp
      then show "wp (ret (Some (expired_row r at))) Q E t"
        using expired [OF Some True _ _ e t] ok by (simp add: wp_ret)
    qed (use run id constraint in auto)
    then show ?thesis
      using True Some ok by (simp add: expireIfNeeded_def wp_seqM)
  qed
qed

definition worktree_busy :: "ident \<Rightarrow> database \<Rightarrow> bool" where
  "worktree_busy w d \<longleftrightarrow>
     map_option pw_state (find_row pw_worktree_id w (d_worktrees d)) = Some WtQuarantined \<or>
     list_ex (\<lambda>x. wx_worktree_id x = w \<and> \<not> isStopped (wx_state x)) (d_executions d)"

lemma wp_assertPhysicalWorktreeIdle [wp_simps]:
  "wp (assertPhysicalWorktreeIdle w durable) Q E k =
     (if worktree_busy w (k_db k)
      then E ((if durable then DurableKernelError else KernelError) DomainBusy None) k else Q () k)"
  by (auto simp: assertPhysicalWorktreeIdle_def wp_simps worktree_busy_def find_first_None list_ex_iff
      dest!: find_first_Some)

lemma wp_intro_assertPhysicalWorktreeIdle [wp_intros]:
  "(\<not> worktree_busy w (k_db k) \<Longrightarrow> Q () k) \<Longrightarrow>
   (worktree_busy w (k_db k) \<Longrightarrow>
     E ((if durable then DurableKernelError else KernelError) DomainBusy None) k) \<Longrightarrow>
   wp (assertPhysicalWorktreeIdle w durable) Q E k"
  by (simp add: wp_assertPhysicalWorktreeIdle)

text \<open>The database once a lease that ran out at \<open>at\<close> has been expired.\<close>

definition settled_at :: "instant \<Rightarrow> ident \<Rightarrow> database \<Rightarrow> database \<Rightarrow> bool" where
  "settled_at at w d d1 \<longleftrightarrow>
     (case lease_of w d of
        None \<Rightarrow> d1 = d
      | Some r \<Rightarrow>
          if lease_expired r at
          then \<exists>e. event_for (expired_row r at) LeaseExpiredEv e d \<and> d1 = logged (expired_row r at) e d
          else d1 = d)"

lemma settled_cases:
  assumes "settled_at at w d d1" and "lease_inv d"
  obtains (same) "d1 = d" and "\<And>r. lease_of w d = Some r \<Longrightarrow> \<not> lease_expired r at"
  | (expired) r e where "lease_of w d = Some r" and "lease_expired r at"
      and "event_for (expired_row r at) LeaseExpiredEv e d" and "d1 = logged (expired_row r at) e d"
      and "wl_worktree_id r = w"
  using assms lease_inv_row [of d w] by (auto simp: settled_at_def split: option.splits if_splits)

lemma lease_inv_settled: "settled_at at w d d1 \<Longrightarrow> lease_inv d \<Longrightarrow> lease_inv d1"
  by (erule settled_cases) (auto intro: lease_inv_expired)

lemma settled_other:
  assumes "settled_at at w d d1" and "lease_inv d" and "v \<noteq> w"
  shows "lease_of v d1 = lease_of v d"
  using assms(1,2)
  by (cases rule: settled_cases) (use assms(3) in \<open>auto simp: lease_of_logged expired_row_def\<close>)

lemma settled_counters:
  assumes "settled_at at w d d1" and "lease_inv d"
  shows "la_fence (abs_lease (lease_of w d1)) = la_fence (abs_lease (lease_of w d))"
    and "la_generation (abs_lease (lease_of w d1)) = la_generation (abs_lease (lease_of w d))"
  using assms
  by (cases rule: settled_cases; auto simp: lease_of_logged expired_row_def abs_lease_def)+

lemma wp_authorityResult:
  assumes "wl_lease_token row = Some token" and "wl_expires_at row = Some expiry"
  shows "wp (authorityResult ct row at) Q E k =
    Q ((command_result_of ct (wl_worktree_id row))
         \<lparr>cr_revision := Some (wl_revision row), cr_leaseToken := Some token,
          cr_leaseExpiresAt := Some expiry, cr_authorityObservedAt := Some at,
          cr_leaseGeneration := Some (wl_generation row),
          cr_fencingToken := Some (wl_fencing_token row),
          cr_worktreeWriterLease := Some (mapWorktreeWriterLease row)\<rparr>) k"
  using assms by (simp add: authorityResult_def wp_simps mapWorktreeWriterLease_def)

definition result_grants :: "command_result \<Rightarrow> lease_row \<Rightarrow> bool" where
  "result_grants res row \<longleftrightarrow>
     cr_entityId res = wl_worktree_id row \<and> cr_revision res = Some (wl_revision row) \<and>
     cr_leaseToken res = wl_lease_token row \<and> cr_leaseExpiresAt res = wl_expires_at row \<and>
     cr_leaseGeneration res = Some (wl_generation row) \<and>
     cr_fencingToken res = Some (wl_fencing_token row) \<and>
     cr_worktreeWriterLease res = Some (mapWorktreeWriterLease row)"

lemma wp_settle:
  assumes inv: "lease_inv (k_db k)"
    and ok: "\<And>t. settled_at at w (k_db k) (k_db t) \<Longrightarrow> lease_inv (k_db t) \<Longrightarrow> Q (lease_of w (k_db t)) t"
    and constraint: "\<And>t. E ConstraintError t"
  shows "wp (expireIfNeeded (lease_of w (k_db k)) actor corr at) Q E k"
proof (rule wp_expireIfNeeded [OF inv HOL.refl])
  assume "\<not> (case lease_of w (k_db k) of None \<Rightarrow> False | Some r \<Rightarrow> lease_expired r at)"
  then show "Q (lease_of w (k_db k)) k"
    by (intro ok inv) (auto simp: settled_at_def split: option.splits)
next
  fix r e and t :: kernel
  assume "lease_of w (k_db k) = Some r" and "lease_expired r at" and "wl_worktree_id r = w"
    and "event_for (expired_row r at) LeaseExpiredEv e (k_db k)"
    and t: "k_db t = logged (expired_row r at) e (k_db k)" and "lease_inv (k_db t)"
  moreover from this have "lease_of w (k_db t) = Some (expired_row r at)"
    by (simp add: lease_of_logged expired_row_def)
  ultimately show "Q (Some (expired_row r at)) t"
    using ok [of t] by (auto simp: settled_at_def)
qed (rule constraint)

lemma settled_unexpired:
  assumes "settled_at at w d d1" and "lease_inv d"
    and "map_option wl_status (lease_of w d1) \<noteq> Some LeaseExpired \<or>
         map_option wl_status (lease_of w d) \<noteq> Some LeaseActive"
  shows "d1 = d"
  using assms(1,2)
  by (cases rule: settled_cases)
    (use assms(3) in \<open>auto simp: lease_of_logged lease_expired_def expired_row_def\<close>)

lemma settled_worktree_busy:
  assumes "settled_at at w d d1" and "lease_inv d"
  shows "worktree_busy v d1 = worktree_busy v d"
  using assms by (cases rule: settled_cases) (auto simp: worktree_busy_def logged_def)

lemma upsertLease_run:
  assumes inv: "lease_inv (k_db k)" and id: "wl_worktree_id row = w"
    and check: "lease_check row" "lease_check row'" and id': "wl_worktree_id row' = w"
    and f: "\<And>r. lease_of w (k_db k) = Some r \<Longrightarrow> f r = row'"
    and new: "lease_of w (k_db k) = None \<Longrightarrow> row' = row"
  shows "upsertLease row f k = (Inr (), k_db_update (d_leases_update (put_lease row')) k)"
proof (cases "lease_of w (k_db k)")
  case None
  then have "put_lease row' (d_leases (k_db k)) = d_leases (k_db k) @ [row]"
    using new id by (simp add: put_lease_def lease_of_def)
  then show ?thesis
    using None new id check by (simp add: upsertLease_def run_simps)
next
  case (Some r)
  then have "updateLease w f k = (Inr (), k_db_update (d_leases_update (put_lease (f r))) k)"
    using f id' check by (intro updateLease_run [OF inv]) auto
  then show ?thesis
    using Some f id check by (simp add: upsertLease_def run_simps)
qed

lemma acquired_row_ok: "lease_row_ok (acquired_row w prin token at n existing)"
  by (auto simp: lease_row_ok_def lease_check_def acquired_row_def split: option.split)

lemma acquired_row_simps [simp]:
  "wl_worktree_id (acquired_row w prin token at n existing) = w"
  "wl_status (acquired_row w prin token at n existing) = LeaseActive"
  "wl_holder (acquired_row w prin token at n existing) = Some (pr_id prin)"
  "wl_lease_token (acquired_row w prin token at n existing) = Some token"
  "wl_expires_at (acquired_row w prin token at n existing) = Some (at + n)"
  "wl_revision (acquired_row w prin token at n existing) = la_revision (abs_lease existing) + 1"
  "wl_generation (acquired_row w prin token at n existing) = la_generation (abs_lease existing) + 1"
  "wl_fencing_token (acquired_row w prin token at n existing) = la_fence (abs_lease existing) + 1"
  by (simp_all add: acquired_row_def abs_lease_def lease_abs0_def split: option.split)

lemma set_acquired_row:
  "wl_worktree_id r = w \<Longrightarrow>
   set_acquired (acquired_row w prin token at n existing) r = acquired_row w prin token at n existing"
  by (cases r) (simp add: set_acquired_def acquired_row_def)

lemma wp_acquire:
  assumes inv: "lease_inv (k_db k)"
    and same: "\<And>e t. k_db t = k_db k \<Longrightarrow> E e t"
    and busy: "\<And>t. settled_at (k_clock k (k_ticks k)) (aq_worktreeId c) (k_db k) (k_db t) \<Longrightarrow>
        lease_inv (k_db t) \<Longrightarrow> worktree_busy (aq_worktreeId c) (k_db k) \<Longrightarrow>
        E (DurableKernelError DomainBusy None) t"
    and constraint: "\<And>t. E ConstraintError t"
    and success: "\<And>d row e t n res token. aq_leaseDurationMs c = JInt n \<Longrightarrow> pr_kind prin = Runtime \<Longrightarrow>
        settled_at (k_clock k (k_ticks k)) (aq_worktreeId c) (k_db k) d \<Longrightarrow> lease_inv d \<Longrightarrow>
        la_status (abs_lease (lease_of (aq_worktreeId c) d)) \<notin> {Some LeaseActive, Some LeaseQuarantined} \<Longrightarrow>
        \<not> worktree_busy (aq_worktreeId c) (k_db k) \<Longrightarrow>
        row = acquired_row (aq_worktreeId c) prin token (k_clock k (k_ticks k)) n
                (lease_of (aq_worktreeId c) d) \<Longrightarrow>
        event_for row LeaseAcquiredEv e d \<Longrightarrow> k_db t = logged row e d \<Longrightarrow> lease_inv (k_db t) \<Longrightarrow>
        result_grants res row \<Longrightarrow> Q res t"
  shows "wp (acquireWorktreeWriterLease c prin corr) Q E k"
proof -
  let ?w = "aq_worktreeId c" and ?at = "k_clock k (k_ticks k)"
  let ?k1 = "k\<lparr>k_ticks := Suc (k_ticks k)\<rparr>"
  have inv1: "lease_inv (k_db ?k1)" using inv by simp
  have main: "wp (upsertLease row (set_acquired row)) (\<lambda>_. wp (bindM (requireLease ?w) (\<lambda>lease.
        seqM (appendEvent lease LeaseAcquiredEv (pr_id prin) corr None None)
             (authorityResult AcquireWorktreeWriterLease lease ?at))) Q E) E u"
    if n: "aq_leaseDurationMs c = JInt n" and prin: "pr_kind prin = Runtime"
      and s: "settled_at ?at ?w (k_db k) (k_db u)" and i: "lease_inv (k_db u)"
      and free: "map_option wl_status (lease_of ?w (k_db u)) \<noteq> Some LeaseActive"
        "map_option wl_status (lease_of ?w (k_db u)) \<noteq> Some LeaseQuarantined"
      and idle: "\<not> worktree_busy ?w (k_db u)"
      and row: "row = acquired_row ?w prin (the (wl_lease_token row)) ?at n (lease_of ?w (k_db u))"
    for u n row
  proof -
    obtain token where r: "row = acquired_row ?w prin token ?at n (lease_of ?w (k_db u))"
      using row by blast
    have ok: "lease_row_ok row" unfolding r by (rule acquired_row_ok)
    show ?thesis
    proof (rule wp_logged [where row = row])
      show "upsertLease row (set_acquired row) u = (Inr (), k_db_update (d_leases_update (put_lease row)) u)"
        using ok lease_inv_row [OF i]
        by (intro upsertLease_run [OF i, where w = ?w]) (auto simp: r lease_row_ok_def set_acquired_row)
    next
      fix e and t :: kernel
      assume e: "event_for row LeaseAcquiredEv e (k_db u)" and t: "k_db t = logged row e (k_db u)"
      have a: "la_status (abs_lease (lease_of ?w (k_db u))) \<notin> {Some LeaseActive, Some LeaseQuarantined}"
        using free by (auto simp: abs_lease_def lease_abs0_def split: option.splits)
      have "lease_inv (k_db t)"
        unfolding t using e a
        by (intro lease_inv_logged [OF i ok e])
          (auto simp: r ledger_allows_def event_for_def status_after_def)
      then show "wp (authorityResult AcquireWorktreeWriterLease row ?at) Q E t"
        using success [OF n prin s i a _ r e t] idle settled_worktree_busy [OF s inv]
        by (subst wp_authorityResult [of row token "?at + n"])
          (auto simp: r result_grants_def command_result_of_def)
    qed (auto simp: r constraint)
  qed
  show ?thesis
    unfolding acquireWorktreeWriterLease_def
    apply (intro wp_intros)
    apply (rule wp_settle [OF inv1, of ?at ?w])
    apply (intro wp_intros)
         apply (rule main, assumption+)
              apply (simp_all add: same constraint)
      apply (auto intro: same busy simp: settled_worktree_busy [OF _ inv] dest: settled_unexpired [OF _ inv])
    done
qed

lemma wp_requireLiveAuthority:
  assumes inv: "lease_inv (k_db k)"
    and live: "\<And>r. lease_of (wa_worktreeId a) (k_db k) = Some r \<Longrightarrow> grants r a prin at \<Longrightarrow> Q r k"
    and plain: "\<And>e. \<not> is_durable e \<Longrightarrow> E e k"
    and expired: "\<And>t. settled_at at (wa_worktreeId a) (k_db k) (k_db t) \<Longrightarrow> lease_inv (k_db t) \<Longrightarrow>
        E (DurableKernelError Conflict None) t"
    and constraint: "\<And>t. E ConstraintError t"
  shows "wp (requireLiveAuthority a prin at corr) Q E k"
proof (cases "lease_of (wa_worktreeId a) (k_db k)")
  case None
  then show ?thesis
    by (auto simp: requireLiveAuthority_def wp_simps err_def is_durable_def intro!: plain)
next
  case (Some r)
  show ?thesis
  proof (cases "lease_expired r at")
    case True
    have "wp (expireIfNeeded (Some r) (pr_id prin) corr at)
        (\<lambda>_. E (DurableKernelError Conflict None)) E k"
      using wp_settle [OF inv, of at "wa_worktreeId a" "\<lambda>_. E (DurableKernelError Conflict None)" E]
        expired constraint Some by simp
    then show ?thesis
      using Some True
      by (auto simp: requireLiveAuthority_def wp_simps err_def is_durable_def intro!: plain)
  next
    case False
    have "Q r k" if "grants r a prin at" using live [OF Some that] .
    with Some False show ?thesis
      by (auto simp: requireLiveAuthority_def wp_simps err_def is_durable_def staleAuthority_def
          grants_def split: option.splits intro!: plain)
  qed
qed

text \<open>A logged UPDATE of the row of one Worktree.\<close>

lemma wp_logged_update:
  assumes inv: "lease_inv (k_db k)" and r: "lease_of w (k_db k) = Some r"
    and ok: "lease_row_ok (f r)" and id: "wl_worktree_id (f r) = wl_worktree_id r"
    and status: "wl_status (f r) = status_after ty"
    and allowed: "\<And>e. event_for (f r) ty e (k_db k) \<Longrightarrow> ledger_allows (abs_lease (Some r)) e"
    and constraint: "\<And>t. E ConstraintError t"
    and success: "\<And>e t. event_for (f r) ty e (k_db k) \<Longrightarrow> k_db t = logged (f r) e (k_db k) \<Longrightarrow>
        lease_inv (k_db t) \<Longrightarrow> wp (n (f r)) Q E t"
  shows "wp (updateLease w f) (\<lambda>_. wp (bindM (requireLease w)
           (\<lambda>l. seqM (appendEvent l ty actor corr reason evidence) (n l))) Q E) E k"
proof (rule wp_logged [where row = "f r"])
  have w: "wl_worktree_id (f r) = w" using lease_inv_row [OF inv r] id by simp
  then show "w = wl_worktree_id (f r)" by simp
  show "updateLease w f k = (Inr (), k_db_update (d_leases_update (put_lease (f r))) k)"
    using ok w by (intro updateLease_run [OF inv r]) (simp_all add: lease_row_ok_def)
  fix e and t :: kernel
  assume e: "event_for (f r) ty e (k_db k)" and t: "k_db t = logged (f r) e (k_db k)"
  have "lease_inv (k_db t)"
    unfolding t using allowed [OF e] w r by (intro lease_inv_logged [OF inv ok e]) (simp_all add: status)
  with success [OF e t] show "wp (n (f r)) Q E t" .
qed (rule constraint)

lemma wp_renew:
  assumes inv: "lease_inv (k_db k)"
    and plain: "\<And>e t. \<not> is_durable e \<Longrightarrow> k_db t = k_db k \<Longrightarrow> E e t"
    and expired: "\<And>t. settled_at (k_clock k (k_ticks k)) (wa_worktreeId (rw_authority c)) (k_db k) (k_db t) \<Longrightarrow>
        lease_inv (k_db t) \<Longrightarrow> E (DurableKernelError Conflict None) t"
    and constraint: "\<And>t. E ConstraintError t"
    and success: "\<And>r row e t n res. rw_leaseDurationMs c = JInt n \<Longrightarrow> pr_kind prin = Runtime \<Longrightarrow>
        lease_of (wa_worktreeId (rw_authority c)) (k_db k) = Some r \<Longrightarrow>
        grants r (rw_authority c) prin (k_clock k (k_ticks k)) \<Longrightarrow>
        row = set_renewed (wl_revision r + 1) (k_clock k (k_ticks k)) (k_clock k (k_ticks k) + n) r \<Longrightarrow>
        event_for row LeaseRenewedEv e (k_db k) \<Longrightarrow> k_db t = logged row e (k_db k) \<Longrightarrow>
        lease_inv (k_db t) \<Longrightarrow> result_grants res row \<Longrightarrow> Q res t"
  shows "wp (renewWorktreeWriterLease c prin corr) Q E k"
proof -
  let ?w = "wa_worktreeId (rw_authority c)" and ?at = "k_clock k (k_ticks k)"
  let ?k1 = "k\<lparr>k_ticks := Suc (k_ticks k)\<rparr>"
  have main: "wp (updateLease ?w (set_renewed (wl_revision r + 1) ?at (?at + n)))
      (\<lambda>_. wp (bindM (requireLease ?w) (\<lambda>l. seqM (appendEvent l LeaseRenewedEv (pr_id prin) corr None None)
         (authorityResult RenewWorktreeWriterLease l ?at))) Q E) E ?k1"
    if n: "rw_leaseDurationMs c = JInt n" and p: "pr_kind prin = Runtime"
      and r: "lease_of ?w (k_db ?k1) = Some r" and g: "grants r (rw_authority c) prin ?at" for n r
  proof (rule wp_logged_update [OF _ r])
    let ?f = "set_renewed (wl_revision r + 1) ?at (?at + n)"
    have ok: "lease_row_ok r" using lease_inv_row [OF inv] r by simp
    show "lease_inv (k_db ?k1)" using inv by simp
    show "lease_row_ok (?f r)" using ok g by (simp add: set_renewed_def grants_def lease_row_ok_def lease_check_def)
    show "ledger_allows (abs_lease (Some r)) e" if "event_for (?f r) LeaseRenewedEv e (k_db ?k1)" for e
      using that g by (simp add: ledger_allows_def event_for_def set_renewed_def abs_lease_def grants_def)
    show "wl_status (?f r) = status_after LeaseRenewedEv"
      using g by (simp add: set_renewed_def status_after_def grants_def)
    fix e and t :: kernel
    assume "event_for (?f r) LeaseRenewedEv e (k_db ?k1)" and "k_db t = logged (?f r) e (k_db ?k1)"
      and "lease_inv (k_db t)"
    then show "wp (authorityResult RenewWorktreeWriterLease (?f r) ?at) Q E t"
      using success [OF n p _ g HOL.refl, of e t] r g
      by (subst wp_authorityResult [of _ "wa_leaseToken (rw_authority c)" "?at + n"])
        (auto simp: set_renewed_def grants_def result_grants_def command_result_of_def)
  qed (auto simp: set_renewed_def constraint)
  show ?thesis
    unfolding renewWorktreeWriterLease_def
    apply (intro wp_intros)
    apply (rule wp_requireLiveAuthority)
        apply (simp add: inv)
       apply (intro wp_intros, rule main, assumption+)
      apply (auto intro: plain expired constraint)
    done
qed

lemma wp_release:
  assumes inv: "lease_inv (k_db k)"
    and plain: "\<And>e t. \<not> is_durable e \<Longrightarrow> k_db t = k_db k \<Longrightarrow> E e t"
    and expired: "\<And>t. settled_at (k_clock k (k_ticks k)) (wa_worktreeId (rl_authority c)) (k_db k) (k_db t) \<Longrightarrow>
        lease_inv (k_db t) \<Longrightarrow> E (DurableKernelError Conflict None) t"
    and constraint: "\<And>t. E ConstraintError t"
    and success: "\<And>r row e t. pr_kind prin = Runtime \<Longrightarrow>
        lease_of (wa_worktreeId (rl_authority c)) (k_db k) = Some r \<Longrightarrow>
        grants r (rl_authority c) prin (k_clock k (k_ticks k)) \<Longrightarrow>
        \<not> worktree_busy (wa_worktreeId (rl_authority c)) (k_db k) \<Longrightarrow>
        row = set_released (wl_revision r + 1) (k_clock k (k_ticks k)) r \<Longrightarrow>
        event_for row LeaseReleasedEv e (k_db k) \<Longrightarrow> k_db t = logged row e (k_db k) \<Longrightarrow>
        lease_inv (k_db t) \<Longrightarrow> Q (stateResult ReleaseWorktreeWriterLease row None) t"
  shows "wp (releaseWorktreeWriterLease c prin corr) Q E k"
proof -
  let ?w = "wa_worktreeId (rl_authority c)" and ?at = "k_clock k (k_ticks k)"
  let ?k1 = "k\<lparr>k_ticks := Suc (k_ticks k)\<rparr>"
  have main: "wp (updateLease ?w (set_released (wl_revision r + 1) ?at))
      (\<lambda>_. wp (bindM (requireLease ?w) (\<lambda>l. seqM (appendEvent l LeaseReleasedEv (pr_id prin) corr None None)
         (ret (stateResult ReleaseWorktreeWriterLease l None)))) Q E) E ?k1"
    if p: "pr_kind prin = Runtime" and r: "lease_of ?w (k_db ?k1) = Some r"
      and g: "grants r (rl_authority c) prin ?at" and idle: "\<not> worktree_busy ?w (k_db ?k1)" for r
  proof (rule wp_logged_update [OF _ r])
    let ?f = "set_released (wl_revision r + 1) ?at"
    have ok: "lease_row_ok r" using lease_inv_row [OF inv] r by simp
    show "lease_inv (k_db ?k1)" using inv by simp
    show "lease_row_ok (?f r)" using ok g by (simp add: set_released_def grants_def lease_row_ok_def lease_check_def)
    show "ledger_allows (abs_lease (Some r)) e" if "event_for (?f r) LeaseReleasedEv e (k_db ?k1)" for e
      using that g by (simp add: ledger_allows_def event_for_def set_released_def abs_lease_def grants_def)
    fix e and t :: kernel
    assume "event_for (?f r) LeaseReleasedEv e (k_db ?k1)" and "k_db t = logged (?f r) e (k_db ?k1)"
      and "lease_inv (k_db t)"
    then show "wp (ret (stateResult ReleaseWorktreeWriterLease (?f r) None)) Q E t"
      using success [OF p _ g _ HOL.refl, of e t] r idle by (simp add: wp_ret)
  qed (auto simp: set_released_def status_after_def constraint)
  show ?thesis
    unfolding releaseWorktreeWriterLease_def
    apply (intro wp_intros)
    apply (rule wp_requireLiveAuthority)
        apply (simp add: inv)
       apply (intro wp_intros, rule main, assumption+)
       apply (auto intro: plain expired constraint)
    done
qed

lemma wp_resolve:
  assumes inv: "lease_inv (k_db k)"
    and plain: "\<And>e t. \<not> is_durable e \<Longrightarrow> k_db t = k_db k \<Longrightarrow> E e t"
    and constraint: "\<And>t. E ConstraintError t"
    and success: "\<And>r row e t. pr_kind prin = Runtime \<Longrightarrow> lease_of (rq_worktreeId c) (k_db k) = Some r \<Longrightarrow>
        wl_status r = LeaseQuarantined \<Longrightarrow> wl_revision r = rq_expectedRevision c \<Longrightarrow>
        wl_fencing_token r = rq_expectedFencingToken c \<Longrightarrow>
        wl_quarantine_token r = Some (rq_quarantineToken c) \<Longrightarrow>
        \<not> worktree_busy (rq_worktreeId c) (k_db k) \<Longrightarrow>
        row = set_resolved (wl_revision r + 1) (rq_resolution c) (k_clock k (k_ticks k)) r \<Longrightarrow>
        event_for row LeaseQuarantineResolvedEv e (k_db k) \<Longrightarrow> k_db t = logged row e (k_db k) \<Longrightarrow>
        lease_inv (k_db t) \<Longrightarrow> Q (stateResult ResolveWorktreeWriterLeaseQuarantine row None) t"
  shows "wp (resolveWorktreeWriterLeaseQuarantine c prin corr) Q E k"
proof -
  let ?w = "rq_worktreeId c" and ?at = "k_clock k (k_ticks k)"
  let ?k1 = "k\<lparr>k_ticks := Suc (k_ticks k)\<rparr>"
  have main: "wp (updateLease ?w (set_resolved (wl_revision r + 1) (rq_resolution c) ?at))
      (\<lambda>_. wp (bindM (requireLease ?w)
         (\<lambda>l. seqM (appendEvent l LeaseQuarantineResolvedEv (pr_id prin) corr (Some (rq_resolution c)) None)
         (ret (stateResult ResolveWorktreeWriterLeaseQuarantine l None)))) Q E) E ?k1"
    if p: "pr_kind prin = Runtime" and r: "lease_of ?w (k_db k) = Some r"
      and st: "wl_status r = LeaseQuarantined"
      and exp: "wl_revision r = rq_expectedRevision c \<and> wl_fencing_token r = rq_expectedFencingToken c \<and>
        wl_quarantine_token r = Some (rq_quarantineToken c)"
      and idle: "\<not> worktree_busy ?w (k_db k)" for r
  proof (rule wp_logged_update)
    let ?f = "set_resolved (wl_revision r + 1) (rq_resolution c) ?at"
    have ok: "lease_row_ok r" using lease_inv_row [OF inv r] by simp
    show "lease_inv (k_db ?k1)" "lease_of ?w (k_db ?k1) = Some r" using inv r by simp_all
    show "lease_row_ok (?f r)" using ok st by (simp add: set_resolved_def lease_row_ok_def lease_check_def)
    show "ledger_allows (abs_lease (Some r)) e"
      if "event_for (?f r) LeaseQuarantineResolvedEv e (k_db ?k1)" for e
      using that ok st
      by (simp add: ledger_allows_def event_for_def set_resolved_def abs_lease_def lease_row_ok_def lease_check_def)
    fix e and t :: kernel
    assume "event_for (?f r) LeaseQuarantineResolvedEv e (k_db ?k1)" and "k_db t = logged (?f r) e (k_db ?k1)"
      and "lease_inv (k_db t)"
    then show "wp (ret (stateResult ResolveWorktreeWriterLeaseQuarantine (?f r) None)) Q E t"
      using success [OF p r st _ _ _ idle HOL.refl, of e t] exp by (simp add: wp_ret)
  qed (auto simp: set_resolved_def status_after_def constraint)
  show ?thesis
    unfolding resolveWorktreeWriterLeaseQuarantine_def
    by (intro wp_intros; (rule plain | rule main); simp)
qed

definition quarantine_outcome ::
  "quarantine_command \<Rightarrow> string \<Rightarrow> instant \<Rightarrow> lease_row option \<Rightarrow> lease_row" where
  "quarantine_outcome c token at existing =
     (case existing of
        None \<Rightarrow> quarantined_row c token at None
      | Some r \<Rightarrow> set_quarantined (quarantined_row c token at (Some r)) r)"

text \<open>Quarantining an active lease takes exactly its live authority.\<close>

definition may_quarantine ::
  "quarantine_command \<Rightarrow> lease_row option \<Rightarrow> principal_row \<Rightarrow> instant \<Rightarrow> bool" where
  "may_quarantine c existing prin at \<longleftrightarrow>
     (case existing of
        None \<Rightarrow> True
      | Some r \<Rightarrow>
          wl_status r \<noteq> LeaseQuarantined \<and>
          (wl_status r = LeaseActive \<longrightarrow>
             (\<exists>g f t. qt_expectedGeneration c = Some g \<and> qt_expectedFencingToken c = Some f \<and>
                qt_leaseToken c = Some t \<and>
                grants r \<lparr>wa_worktreeId = qt_worktreeId c, wa_generation = g, wa_fencingToken = f,
                          wa_leaseToken = t\<rparr> prin at)))"

lemma wp_requireQuarantineAuthority:
  assumes "map_option wl_status existing \<noteq> Some LeaseQuarantined"
    and "may_quarantine c existing prin at \<Longrightarrow> Q () k"
    and "\<And>e. \<not> is_durable e \<Longrightarrow> map_option wl_status existing = Some LeaseActive \<Longrightarrow> E e k"
  shows "wp (requireQuarantineAuthority c existing prin at) Q E k"
proof (cases existing)
  case None
  then show ?thesis using assms by (simp add: requireQuarantineAuthority_def wp_simps may_quarantine_def)
next
  case (Some r)
  then show ?thesis
    using assms
    by (auto simp: requireQuarantineAuthority_def wp_simps may_quarantine_def grants_def
        staleAuthority_def split: option.splits)
qed

lemma quarantine_outcome_simps [simp]:
  "wl_status (quarantine_outcome c token at existing) = LeaseQuarantined"
  "wl_holder (quarantine_outcome c token at existing) = None"
  "wl_lease_token (quarantine_outcome c token at existing) = None"
  "wl_expires_at (quarantine_outcome c token at existing) = None"
  "wl_quarantine_token (quarantine_outcome c token at existing) = Some token"
  "wl_revision (quarantine_outcome c token at existing) = la_revision (abs_lease existing) + 1"
  "wl_generation (quarantine_outcome c token at existing) = la_generation (abs_lease existing)"
  "wl_fencing_token (quarantine_outcome c token at existing) = la_fence (abs_lease existing) + 1"
  by (simp_all add: quarantine_outcome_def quarantined_row_def set_quarantined_def abs_lease_def
      lease_abs0_def split: option.split)

lemma quarantine_outcome_id:
  "(\<And>r. existing = Some r \<Longrightarrow> wl_worktree_id r = qt_worktreeId c) \<Longrightarrow>
   wl_worktree_id (quarantine_outcome c token at existing) = qt_worktreeId c"
  by (simp add: quarantine_outcome_def quarantined_row_def set_quarantined_def split: option.split)

lemma quarantine_outcome_ok: "lease_row_ok (quarantine_outcome c token at existing)"
  by (simp add: quarantine_outcome_def quarantined_row_def set_quarantined_def lease_row_ok_def
      lease_check_def split: option.split)

lemma quarantined_row_check: "lease_check (quarantined_row c token at existing)"
  by (simp add: quarantined_row_def lease_check_def split: option.split)

lemma wp_quarantine:
  assumes inv: "lease_inv (k_db k)"
    and plain: "\<And>e t. k_db t = k_db k \<Longrightarrow> E e t"
    and expired: "\<And>j t. settled_at (k_clock k (k_ticks k)) (qt_worktreeId c) (k_db k) (k_db t) \<Longrightarrow>
        lease_inv (k_db t) \<Longrightarrow> E (DurableKernelError ConditionalCheckFailed j) t"
    and constraint: "\<And>t. E ConstraintError t"
    and success: "\<And>d row e t token. pr_kind prin = Runtime \<Longrightarrow>
        settled_at (k_clock k (k_ticks k)) (qt_worktreeId c) (k_db k) d \<Longrightarrow> lease_inv d \<Longrightarrow>
        may_quarantine c (lease_of (qt_worktreeId c) d) prin (k_clock k (k_ticks k)) \<Longrightarrow>
        row = quarantine_outcome c token (k_clock k (k_ticks k)) (lease_of (qt_worktreeId c) d) \<Longrightarrow>
        wl_worktree_id row = qt_worktreeId c \<Longrightarrow>
        event_for row LeaseQuarantinedEv e d \<Longrightarrow> k_db t = logged row e d \<Longrightarrow> lease_inv (k_db t) \<Longrightarrow>
        Q (stateResult QuarantineWorktreeWriterLease row (Some token)) t"
  shows "wp (quarantineWorktreeWriterLease c prin corr) Q E k"
proof -
  let ?w = "qt_worktreeId c" and ?at = "k_clock k (k_ticks k)"
  let ?k1 = "k\<lparr>k_ticks := Suc (k_ticks k)\<rparr>"
  have inv1: "lease_inv (k_db ?k1)" using inv by simp
  have main: "wp (upsertLease (quarantined_row c token ?at existing) (set_quarantined (quarantined_row c token ?at existing)))
      (\<lambda>_. wp (bindM (requireLease ?w)
        (\<lambda>l. seqM (appendEvent l LeaseQuarantinedEv (pr_id prin) corr (Some (qt_reason c)) (qt_evidence c))
             (ret (stateResult QuarantineWorktreeWriterLease l (Some token))))) Q E) E u"
    if p: "pr_kind prin = Runtime" and s: "settled_at ?at ?w (k_db k) (k_db u)"
      and i: "lease_inv (k_db u)" and m: "may_quarantine c existing prin ?at"
      and ex: "existing = lease_of ?w (k_db u)"
    for u existing token
  proof (rule wp_logged [where row = "quarantine_outcome c token ?at existing"])
    let ?row = "quarantine_outcome c token ?at existing"
    have id: "wl_worktree_id ?row = ?w"
      using lease_inv_row [OF i] ex by (intro quarantine_outcome_id) auto
    then show "?w = wl_worktree_id ?row" by simp
    show "upsertLease (quarantined_row c token ?at existing) (set_quarantined (quarantined_row c token ?at existing)) u
      = (Inr (), k_db_update (d_leases_update (put_lease ?row)) u)"
    proof (rule upsertLease_run [OF i _ quarantined_row_check _ id])
      show "wl_worktree_id (quarantined_row c token ?at existing) = ?w"
        by (simp add: quarantined_row_def)
      show "lease_check ?row" using quarantine_outcome_ok by (simp add: lease_row_ok_def)
    qed (simp_all add: quarantine_outcome_def ex)
    fix e and t :: kernel
    assume e: "event_for ?row LeaseQuarantinedEv e (k_db u)" and t: "k_db t = logged ?row e (k_db u)"
    have "la_status (abs_lease existing) \<noteq> Some LeaseQuarantined"
      using m by (auto simp: may_quarantine_def abs_lease_def lease_abs0_def split: option.splits)
    then have "lease_inv (k_db t)"
      unfolding t using e id ex
      by (intro lease_inv_logged [OF i quarantine_outcome_ok e])
        (auto simp: ledger_allows_def event_for_def status_after_def)
    then show "wp (ret (stateResult QuarantineWorktreeWriterLease ?row (Some token))) Q E t"
      using success [OF p s i _ _ id e t] m ex by (simp add: wp_ret)
  qed (rule constraint)
  have stale: "E (staleAuthority g f (lease_of ?w (k_db u))
        (case lease_of ?w (k_db k) of None \<Rightarrow> False | Some l \<Rightarrow> lease_expired l ?at)) u"
    if s: "settled_at ?at ?w (k_db k) (k_db u)" and i: "lease_inv (k_db u)" for g f u
    using s inv
  proof (cases rule: settled_cases)
    case same
    then show ?thesis by (intro plain) simp
  next
    case (expired r e)
    then show ?thesis using assms(3) [OF s i] by (simp add: staleAuthority_def)
  qed
  have unexpired: "E e u"
    if s: "settled_at ?at ?w (k_db k) (k_db u)"
      and st: "map_option wl_status (lease_of ?w (k_db u)) = Some LeaseActive \<or>
          map_option wl_status (lease_of ?w (k_db u)) = Some LeaseQuarantined" for e u
    using settled_unexpired [OF s inv] st by (intro plain) auto
  show ?thesis
    unfolding quarantineWorktreeWriterLease_def
    apply (intro wp_intros)
    apply (rule wp_settle [OF inv1, of ?at ?w])
    apply (intro wp_intros)
    apply (rule wp_requireQuarantineAuthority)
    apply assumption
    apply (intro wp_intros)
    apply (rule main)
                apply (simp_all add: stale plain constraint)
      apply (auto intro: unexpired)
    done
qed

lemma wp_getWorktreeWriterLease:
  assumes inv: "lease_inv (k_db k)"
    and plain: "\<And>e t. \<not> is_durable e \<Longrightarrow> k_db t = k_db k \<Longrightarrow> E e t"
    and constraint: "\<And>t. E ConstraintError t"
    and success: "\<And>r t. settled_at (k_clock k (k_ticks k)) w (k_db k) (k_db t) \<Longrightarrow> lease_inv (k_db t) \<Longrightarrow>
        lease_of w (k_db t) = Some r \<Longrightarrow> Q (mapWorktreeWriterLease r) t"
  shows "wp (getWorktreeWriterLease w prin) Q E k"
proof -
  let ?at = "k_clock k (k_ticks k)"
  let ?k2 = "k\<lparr>k_ticks := Suc (k_ticks k), k_drawn := Suc (k_drawn k)\<rparr>"
  have inv2: "lease_inv (k_db ?k2)" using inv by simp
  have main: "wp (expireIfNeeded (Some r) (pr_id prin) corr ?at)
      (\<lambda>x. wp (bindM (needM InternalError x) (\<lambda>l. ret (mapWorktreeWriterLease l))) Q E) E ?k2"
    if r: "lease_of w (k_db k) = Some r" for r corr
  proof -
    have "wp (expireIfNeeded (lease_of w (k_db ?k2)) (pr_id prin) corr ?at)
      (\<lambda>x. wp (bindM (needM InternalError x) (\<lambda>l. ret (mapWorktreeWriterLease l))) Q E) E ?k2"
    proof (rule wp_settle [OF inv2])
      fix t :: kernel
      assume s: "settled_at ?at w (k_db ?k2) (k_db t)" and i: "lease_inv (k_db t)"
      have "lease_of w (k_db t) \<noteq> None"
        using s inv2 by (cases rule: settled_cases) (use r in \<open>auto simp: lease_of_logged expired_row_def\<close>)
      then show "wp (bindM (needM InternalError (lease_of w (k_db t))) (\<lambda>l. ret (mapWorktreeWriterLease l))) Q E t"
        using success [of t] s i by (auto simp: wp_simps)
    qed (rule constraint)
    with r show ?thesis by simp
  qed
  show ?thesis
    unfolding getWorktreeWriterLease_def
    by (intro wp_intros) (use main in \<open>simp_all add: plain\<close>)
qed

lemma lease_handlers_preserve [preserves_rules]:
  "preserves is_kernel_error (on_db lease_inv) (acquireWorktreeWriterLease c1 prin corr)"
  "preserves is_kernel_error (on_db lease_inv) (renewWorktreeWriterLease c2 prin corr)"
  "preserves is_kernel_error (on_db lease_inv) (releaseWorktreeWriterLease c3 prin corr)"
  "preserves is_kernel_error (on_db lease_inv) (quarantineWorktreeWriterLease c4 prin corr)"
  "preserves is_kernel_error (on_db lease_inv) (resolveWorktreeWriterLeaseQuarantine c5 prin corr)"
  "preserves is_kernel_error (on_db lease_inv) (getWorktreeWriterLease w prin)"
  by (rule preservesI, rule wp_acquire wp_renew wp_release wp_quarantine wp_resolve
        wp_getWorktreeWriterLease; auto simp: on_db_def)+

section \<open>Properties\<close>

definition lease_live_at :: "lease_row option \<Rightarrow> instant \<Rightarrow> bool" where
  "lease_live_at v at =
     (case v of None \<Rightarrow> False | Some r \<Rightarrow> wl_status r = LeaseActive \<and> \<not> lease_expired r at)"

definition lease_quarantined :: "lease_row option \<Rightarrow> bool" where
  "lease_quarantined v = (map_option wl_status v = Some LeaseQuarantined)"

definition fence_of :: "ident \<Rightarrow> database \<Rightarrow> nat" where
  "fence_of w d = la_fence (abs_lease (lease_of w d))"

definition generation_of :: "ident \<Rightarrow> database \<Rightarrow> nat" where
  "generation_of w d = la_generation (abs_lease (lease_of w d))"

lemma settled_not_live:
  assumes "settled_at at w d d1" and "lease_inv d"
    and "la_status (abs_lease (lease_of w d1)) \<notin> {Some LeaseActive, Some LeaseQuarantined}"
  shows "\<not> lease_live_at (lease_of w d) at \<and> \<not> lease_quarantined (lease_of w d)"
  using assms(1,2)
proof (cases rule: settled_cases)
  case same
  then show ?thesis
    using assms(3) by (auto simp: lease_live_at_def lease_quarantined_def abs_lease_def split: option.splits)
next
  case (expired r e)
  then show ?thesis by (auto simp: lease_live_at_def lease_quarantined_def lease_expired_def)
qed

lemma lease_inv_empty: "lease_inv empty_database"
  by (simp add: lease_inv_def empty_database_def ledger_def lease_of_def abs_lease_def)

definition sample_acquire :: acquire_command where
  "sample_acquire = \<lparr>idempotencyKey = ''k'', aq_worktreeId = ''w'', aq_leaseDurationMs = JInt 60000\<rparr>"

text \<open>C5: An acquisition that returns found the Worktree free at the instant it read (no
  unexpired active lease, no quarantine, no unsettled execution), made the caller the only
  holder with the next generation and the next fencing token until exactly the requested
  duration later, returned exactly the stored credentials, and left the lease of every other
  Worktree alone.\<close>

theorem acquire_grants_exclusively:
  assumes "lease_inv (k_db k)"
    and "acquireWorktreeWriterLease c prin corr k = (Inr res, t)"
  shows "\<not> lease_live_at (lease_of (aq_worktreeId c) (k_db k)) (k_clock k (k_ticks k)) \<and>
    \<not> lease_quarantined (lease_of (aq_worktreeId c) (k_db k)) \<and>
    \<not> worktree_busy (aq_worktreeId c) (k_db k) \<and>
    (\<exists>row duration. lease_of (aq_worktreeId c) (k_db t) = Some row \<and>
       aq_leaseDurationMs c = JInt duration \<and>
       wl_status row = LeaseActive \<and> wl_holder row = Some (pr_id prin) \<and>
       wl_expires_at row = Some (k_clock k (k_ticks k) + duration) \<and>
       wl_generation row = generation_of (aq_worktreeId c) (k_db k) + 1 \<and>
       wl_fencing_token row = fence_of (aq_worktreeId c) (k_db k) + 1 \<and>
       result_grants res row) \<and>
    (\<forall>v. v \<noteq> aq_worktreeId c \<longrightarrow> lease_of v (k_db t) = lease_of v (k_db k)) \<and>
    lease_inv (k_db t)"
    (is "?P res t")
proof -
  have "wp (acquireWorktreeWriterLease c prin corr) ?P (\<lambda>_ _. True) k"
  proof (rule wp_acquire [OF assms(1)])
    fix d row e n res token and t :: kernel
    assume n: "aq_leaseDurationMs c = JInt n"
      and s: "settled_at (k_clock k (k_ticks k)) (aq_worktreeId c) (k_db k) d"
      and free: "la_status (abs_lease (lease_of (aq_worktreeId c) d)) \<notin> {Some LeaseActive, Some LeaseQuarantined}"
      and idle: "\<not> worktree_busy (aq_worktreeId c) (k_db k)"
      and row: "row = acquired_row (aq_worktreeId c) prin token (k_clock k (k_ticks k)) n
          (lease_of (aq_worktreeId c) d)"
      and t: "k_db t = logged row e d" "lease_inv (k_db t)" and res: "result_grants res row"
    show "?P res t"
      using settled_not_live [OF s assms(1) free] idle n t res settled_counters [OF s assms(1)]
        settled_other [OF s assms(1)]
      by (auto simp: lease_of_logged row generation_of_def fence_of_def)
  qed simp_all
  from wp_returned [OF this assms(2)] show ?thesis .
qed

lemma acquire_grants_exclusively_witness:
  "(\<exists>row. lease_of ''w'' (k_db (snd (acquireWorktreeWriterLease sample_acquire sample_runtime ''c''
      (context_on empty_database)))) = Some row \<and> wl_fencing_token row = 1)"
proof -
  let ?m = "acquireWorktreeWriterLease sample_acquire sample_runtime ''c'' (context_on empty_database)"
  have "isl (fst ?m) = False" by code_simp
  then obtain res t where run: "?m = (Inr res, t)" by (cases ?m; cases "fst ?m") auto
  then show ?thesis
    using acquire_grants_exclusively [OF _ run] lease_inv_empty
    by (auto simp: context_on_def sample_acquire_def fence_of_def abs_lease_def lease_of_def
        empty_database_def lease_abs0_def)
qed

text \<open>C19: While a Worktree has an unexpired active lease or is quarantined, every acquisition is
  refused with an error that is rolled back, and nothing in the database changes.\<close>

theorem busy_lease_refuses_acquisition:
  assumes "lease_live_at (lease_of (aq_worktreeId c) (k_db k)) (k_clock k (k_ticks k)) \<or>
    lease_quarantined (lease_of (aq_worktreeId c) (k_db k))"
  shows "\<exists>e t. acquireWorktreeWriterLease c prin corr k = (Inl e, t) \<and> \<not> is_durable e \<and> k_db t = k_db k"
proof -
  obtain r where r: "lease_of (aq_worktreeId c) (k_db k) = Some r"
    and st: "wl_status r = LeaseActive \<and> \<not> lease_expired r (k_clock k (k_ticks k)) \<or>
             wl_status r = LeaseQuarantined"
    using assms by (auto simp: lease_live_at_def lease_quarantined_def split: option.splits)
  then have "\<not> lease_expired r (k_clock k (k_ticks k))" by (auto simp: lease_expired_def)
  then have "wp (acquireWorktreeWriterLease c prin corr) (\<lambda>_ _. False)
      (\<lambda>e t. \<not> is_durable e \<and> k_db t = k_db k) k"
    unfolding acquireWorktreeWriterLease_def expireIfNeeded_def
    by (intro wp_intros) (use r st in auto)
  then show ?thesis
    by (cases "acquireWorktreeWriterLease c prin corr k"; cases "fst (acquireWorktreeWriterLease c prin corr k)")
      (auto simp: wp_def)
qed

definition sample_leased :: kernel where
  "sample_leased = snd (acquireWorktreeWriterLease sample_acquire sample_runtime ''c'' (context_on empty_database))"

lemma busy_lease_refuses_acquisition_witness:
  "\<exists>e t. acquireWorktreeWriterLease sample_acquire sample_runtime ''d'' sample_leased = (Inl e, t) \<and>
     \<not> is_durable e \<and> k_db t = k_db sample_leased"
proof -
  have "lease_live_at (lease_of (aq_worktreeId sample_acquire) (k_db sample_leased))
      (k_clock sample_leased (k_ticks sample_leased))"
    by code_simp
  then show ?thesis using busy_lease_refuses_acquisition [of sample_acquire sample_leased] by blast
qed

text \<open>The check accepts exactly the authority of the current row.\<close>

lemma requireLiveAuthority_exact:
  "requireLiveAuthority a prin at corr k = (Inr r, t) \<longleftrightarrow>
     js_trim (wa_worktreeId a) \<noteq> [] \<and> js_trim (wa_leaseToken a) \<noteq> [] \<and>
     lease_of (wa_worktreeId a) (k_db k) = Some r \<and> grants r a prin at \<and> t = k"
proof -
  have "expireIfNeeded (Some q) actor corr at k = (Inr x, u) \<or> expireIfNeeded (Some q) actor corr at k = (Inl e, u)
    \<Longrightarrow> bindM (expireIfNeeded (Some q) actor corr at) (\<lambda>_. raise e') k \<noteq> (Inr r, t)" for q actor x e u e'
    by (auto simp: bindM_run raise_run)
  then have raised: "bindM (expireIfNeeded (Some q) actor corr at) (\<lambda>_. raise e') k \<noteq> (Inr r, t)" for q actor e'
    by (cases "expireIfNeeded (Some q) actor corr at k"; cases "fst (expireIfNeeded (Some q) actor corr at k)") auto
  show ?thesis
  proof (cases "lease_of (wa_worktreeId a) (k_db k)")
    case None
    then show ?thesis
      by (simp add: requireLiveAuthority_def requireNonEmpty_def requireLease_def run_simps)
  next
    case (Some q)
    then show ?thesis
      using raised
      by (cases "wl_expires_at q")
        (auto simp: requireLiveAuthority_def requireNonEmpty_def requireLease_def run_simps grants_def
          lease_expired_def)
  qed
qed

lemma wp_live_authority:
  "(\<And>r. lease_of (wa_worktreeId a) (k_db k) = Some r \<Longrightarrow> grants r a prin at \<Longrightarrow> Q r k) \<Longrightarrow>
   (\<And>e t. E e t) \<Longrightarrow> wp (requireLiveAuthority a prin at corr) Q E k"
  by (rule wpI) (simp_all add: requireLiveAuthority_exact)

text \<open>C20: The live-authority check accepts exactly the authority of the current row: it returns
  the row if and only if the row is active, unexpired at the given instant, held by the caller,
  and carries the generation, the fencing token and the secret of the authority; and then it
  changes nothing.\<close>

theorem live_authority_exact:
  "requireLiveAuthority a prin at corr k = (Inr r, t) \<longleftrightarrow>
     js_trim (wa_worktreeId a) \<noteq> [] \<and> js_trim (wa_leaseToken a) \<noteq> [] \<and>
     lease_of (wa_worktreeId a) (k_db k) = Some r \<and> grants r a prin at \<and> t = k"
  by (rule requireLiveAuthority_exact)

text \<open>C21: An expiry that the authority check observes is final: the check throws the durable
  conflict, which is committed, the row becomes expired without holder, secret or deadline, the
  ledger gains the expiry event, and from then on no authority is granted at any instant, even
  if the clock runs backwards. The id the factory draws for the event is taken to be new: a clash
  is a constraint violation, which rolls everything back.\<close>

theorem observed_expiry_is_final:
  assumes inv: "lease_inv (k_db k)" and r: "lease_of (wa_worktreeId a) (k_db k) = Some r"
    and exp: "lease_expired r at"
    and names: "js_trim (wa_worktreeId a) \<noteq> []" "js_trim (wa_leaseToken a) \<noteq> []"
    and run: "requireLiveAuthority a prin at corr k = (res, t)" and ids: "res \<noteq> Inl ConstraintError"
  shows "res = Inl (DurableKernelError Conflict None) \<and>
    lease_of (wa_worktreeId a) (k_db t) = Some (expired_row r at) \<and>
    map we_type (ledger (wa_worktreeId a) (k_db t)) =
      map we_type (ledger (wa_worktreeId a) (k_db k)) @ [LeaseExpiredEv] \<and>
    lease_inv (k_db t) \<and> (\<forall>a' p' at'. \<not> grants (expired_row r at) a' p' at')"
proof -
  let ?E = "\<lambda>e t. e = ConstraintError \<or> e = DurableKernelError Conflict None \<and>
      lease_of (wa_worktreeId a) (k_db t) = Some (expired_row r at) \<and>
      map we_type (ledger (wa_worktreeId a) (k_db t)) =
        map we_type (ledger (wa_worktreeId a) (k_db k)) @ [LeaseExpiredEv] \<and> lease_inv (k_db t)"
  have "wp (expireIfNeeded (Some r) (pr_id prin) corr at) (\<lambda>_. ?E (DurableKernelError Conflict None)) ?E k"
    by (rule wp_expireIfNeeded [OF inv r [symmetric]])
      (use exp in \<open>auto simp: lease_of_logged ledger_logged event_for_def expired_row_def\<close>)
  then have "wp (requireLiveAuthority a prin at corr) (\<lambda>_ _. False) ?E k"
    using exp names r by (simp add: requireLiveAuthority_def wp_simps)
  then show ?thesis
    using run ids by (auto simp: wp_def grants_def expired_row_def split: sum.splits)
qed

lemma preserves_end:
  "preserves ok I m \<Longrightarrow> I s \<Longrightarrow> (\<And>e. fst (m s) = Inl e \<Longrightarrow> ok e) \<Longrightarrow> I (snd (m s))"
  by (cases "m s"; cases "fst (m s)") (auto dest: preserves_returned preserves_threw)

lemma sample_leased_inv: "lease_inv (k_db sample_leased)"
proof -
  have "\<not> isl (fst (acquireWorktreeWriterLease sample_acquire sample_runtime ''c'' (context_on empty_database)))"
    by code_simp
  then have "on_db lease_inv sample_leased"
    unfolding sample_leased_def
    by (intro preserves_end [OF lease_handlers_preserve(1)])
      (auto simp: on_db_def context_on_def lease_inv_empty)
  then show ?thesis by (simp add: on_db_def)
qed

definition sample_authority :: lease_authority where
  "sample_authority = \<lparr>wa_worktreeId = ''w'', wa_generation = 1, wa_fencingToken = 1, wa_leaseToken = ''wlt_''\<rparr>"

lemma observed_expiry_is_final_witness:
  "fst (requireLiveAuthority sample_authority sample_runtime 70000 ''d'' sample_leased) =
     Inl (DurableKernelError Conflict None)"
proof -
  obtain res t where run: "requireLiveAuthority sample_authority sample_runtime 70000 ''d'' sample_leased = (res, t)"
    by fastforce
  have "fst (requireLiveAuthority sample_authority sample_runtime 70000 ''d'' sample_leased) \<noteq> Inl ConstraintError"
    by code_simp
  moreover have "map_option (\<lambda>r. lease_expired r 70000) (lease_of (wa_worktreeId sample_authority) (k_db sample_leased)) = Some True"
    by code_simp
  moreover have "js_trim (wa_worktreeId sample_authority) \<noteq> []" "js_trim (wa_leaseToken sample_authority) \<noteq> []"
    by code_simp+
  ultimately show ?thesis
    using observed_expiry_is_final [OF sample_leased_inv _ _ _ _ run] run by auto
qed

text \<open>C22: A renewal that returns was made with the live authority of the caller and changes
  nothing but the revision, the deadline and the time stamps: generation, fencing token, secret
  and holder stay those the authority names, and the new deadline is the requested duration
  after the instant read.\<close>

theorem renewal_keeps_authority:
  assumes "lease_inv (k_db k)" and "renewWorktreeWriterLease c prin corr k = (Inr res, t)"
  shows "\<exists>r row duration. lease_of (wa_worktreeId (rw_authority c)) (k_db k) = Some r \<and>
    grants r (rw_authority c) prin (k_clock k (k_ticks k)) \<and>
    lease_of (wa_worktreeId (rw_authority c)) (k_db t) = Some row \<and>
    rw_leaseDurationMs c = JInt duration \<and>
    row = r\<lparr>wl_revision := wl_revision r + 1, wl_renewed_at := Some (k_clock k (k_ticks k)),
            wl_expires_at := Some (k_clock k (k_ticks k) + duration),
            wl_updated_at := k_clock k (k_ticks k)\<rparr> \<and>
    grants row (rw_authority c) prin (k_clock k (k_ticks k)) \<and> result_grants res row"
    (is "?P res t")
proof -
  have "wp (renewWorktreeWriterLease c prin corr) (\<lambda>res t. 0 < (case rw_leaseDurationMs c of JInt n \<Rightarrow> n | _ \<Rightarrow> 0) \<longrightarrow> ?P res t)
      (\<lambda>_ _. True) k"
  proof (rule wp_renew [OF assms(1)]; (intro impI TrueI)?)
    fix r row e n res and t :: kernel
    assume n: "rw_leaseDurationMs c = JInt n"
      and r: "lease_of (wa_worktreeId (rw_authority c)) (k_db k) = Some r"
      and g: "grants r (rw_authority c) prin (k_clock k (k_ticks k))"
      and row: "row = set_renewed (wl_revision r + 1) (k_clock k (k_ticks k)) (k_clock k (k_ticks k) + n) r"
      and t: "k_db t = logged row e (k_db k)" and res: "result_grants res row"
      and pos: "0 < (case rw_leaseDurationMs c of JInt n \<Rightarrow> n | _ \<Rightarrow> 0)"
    have "wl_worktree_id row = wa_worktreeId (rw_authority c)"
      using lease_inv_row [OF assms(1) r] row by (simp add: set_renewed_def)
    then have "lease_of (wa_worktreeId (rw_authority c)) (k_db t) = Some row"
      by (simp add: t lease_of_logged)
    moreover have "grants row (rw_authority c) prin (k_clock k (k_ticks k))"
      using g pos n by (auto simp: row grants_def set_renewed_def)
    ultimately show "?P res t"
      using r g n res by (intro exI [of _ r] exI [of _ row] exI [of _ n]) (auto simp: row set_renewed_def)
  qed
  moreover have "wp (renewWorktreeWriterLease c prin corr)
      (\<lambda>res t. 0 < (case rw_leaseDurationMs c of JInt n \<Rightarrow> n | _ \<Rightarrow> 0)) (\<lambda>_ _. True) k"
    unfolding renewWorktreeWriterLease_def
    by (intro wp_intros) (auto simp: wp_def split: prod.splits sum.splits)
  ultimately show ?thesis
    using assms(2) by (simp add: wp_def)
qed

definition sample_renew :: renew_command where
  "sample_renew = \<lparr>idempotencyKey = ''n'', rw_authority = sample_authority, rw_leaseDurationMs = JInt 5000\<rparr>"

lemma renewal_keeps_authority_witness:
  "\<exists>row. lease_of ''w'' (k_db (snd (renewWorktreeWriterLease sample_renew sample_runtime ''n'' sample_leased)))
      = Some row \<and> wl_fencing_token row = 1"
proof -
  let ?m = "renewWorktreeWriterLease sample_renew sample_runtime ''n'' sample_leased"
  have "\<not> isl (fst ?m)" by code_simp
  then obtain res t where run: "?m = (Inr res, t)" by (cases ?m; cases "fst ?m") auto
  from renewal_keeps_authority [OF sample_leased_inv run]
  obtain r row where "grants row (rw_authority sample_renew) sample_runtime (k_clock sample_leased (k_ticks sample_leased))"
    and "lease_of (wa_worktreeId (rw_authority sample_renew)) (k_db t) = Some row"
    by auto
  then show ?thesis using run by (simp add: grants_def sample_renew_def sample_authority_def)
qed




text \<open>C24: The replay of an idempotent acquisition or renewal never hands out dead authority: if it
  returns, the row is still active, unexpired at the instant read, held by the caller under the
  cached secret, generation and fencing token, the result repeats them, and the database is
  unchanged.\<close>

theorem replayed_authority_is_live:
  assumes "resolveCachedWorktreeWriterLeaseAuthority ct w cached prin k = (Inr res, t)"
  shows "\<exists>r. lease_of w (k_db k) = Some r \<and> wl_status r = LeaseActive \<and>
    wl_holder r = Some (pr_id prin) \<and> \<not> lease_expired r (k_clock k (k_ticks k)) \<and>
    wl_lease_token r = cr_leaseToken cached \<and> Some (wl_generation r) = cr_leaseGeneration cached \<and>
    Some (wl_fencing_token r) = cr_fencingToken cached \<and> result_grants res r \<and>
    cr_authorityObservedAt res = Some (k_clock k (k_ticks k)) \<and> k_db t = k_db k"
    (is "?P res t")
proof -
  have "wp (resolveCachedWorktreeWriterLeaseAuthority ct w cached prin) ?P (\<lambda>_ _. True) k"
    unfolding resolveCachedWorktreeWriterLeaseAuthority_def authorityResult_def
    by (intro wp_intros)
      (auto simp: wp_def raise_def result_grants_def mapWorktreeWriterLease_def command_result_of_def
        lease_of_def split: prod.splits sum.splits dest!: find_row_Some)
  from wp_returned [OF this assms] show ?thesis .
qed

definition sample_acquired :: command_result where
  "sample_acquired = (case fst (acquireWorktreeWriterLease sample_acquire sample_runtime ''c''
     (context_on empty_database)) of Inr res \<Rightarrow> res | Inl _ \<Rightarrow> command_result_of StartThread [])"

lemma replayed_authority_is_live_witness:
  "\<exists>r. lease_of ''w'' (k_db sample_leased) = Some r \<and> wl_status r = LeaseActive \<and> wl_holder r = Some ''r''"
proof -
  let ?m = "resolveCachedWorktreeWriterLeaseAuthority AcquireWorktreeWriterLease ''w'' sample_acquired
      sample_runtime sample_leased"
  have "\<not> isl (fst ?m)" by code_simp
  then obtain res t where run: "?m = (Inr res, t)" by (cases ?m; cases "fst ?m") auto
  show ?thesis using replayed_authority_is_live [OF run] by (auto simp: sample_runtime_def)
qed

lemma filter_after_page:
  assumes "sorted_wrt (<) (map f xs)" and "take m xs \<noteq> []"
  shows "filter (\<lambda>x. f x > (f (last (take m xs)) :: nat)) xs = drop m xs"
proof -
  let ?n = "f (last (take m xs))"
  have "sorted_wrt (<) (map f (take m xs) @ map f (drop m xs))"
    using assms(1) by (metis append_take_drop_id map_append)
  then have s: "sorted_wrt (<) (map f (take m xs))"
    and above: "\<And>x y. x \<in> set (take m xs) \<Longrightarrow> y \<in> set (drop m xs) \<Longrightarrow> f x < f y"
    by (auto simp: sorted_wrt_append)
  obtain ys z where ys: "take m xs = ys @ [z]"
    using assms(2) by (cases "take m xs" rule: rev_cases) auto
  have "f x \<le> ?n" if "x \<in> set (take m xs)" for x
    using s that unfolding ys by (auto simp: sorted_wrt_append)
  then have "filter (\<lambda>x. f x > ?n) (take m xs) = []"
    by (auto simp: filter_empty_conv not_less)
  moreover have "filter (\<lambda>x. f x > ?n) (drop m xs) = drop m xs"
    using above [OF last_in_set [OF assms(2)]] by (simp add: filter_id_conv)
  ultimately show ?thesis
    by (metis append.left_neutral append_take_drop_id filter_append)
qed

text \<open>C25: Reading the ledger page by page loses and repeats nothing: a page holds the first
  events of the Worktree after the cursor, at most as many as asked for, and the events after
  its next cursor are exactly the remaining ones; more is announced exactly when some remain.\<close>

theorem ledger_page_is_exact:
  assumes "lease_inv (k_db k)" and "limit > 0"
    and "listWorktreeWriterLeaseEvents w cursor limit prin k = (Inr page, t)"
  shows "lep_items page = map mapWorktreeWriterLeaseEvent
      (take limit (filter (\<lambda>e. we_sequence e > cursor) (ledger w (k_db k)))) \<and>
    t = k \<and>
    (lep_hasMore page \<longleftrightarrow> drop limit (filter (\<lambda>e. we_sequence e > cursor) (ledger w (k_db k))) \<noteq> []) \<and>
    (case lep_nextCursor page of
       None \<Rightarrow> filter (\<lambda>e. we_sequence e > cursor) (ledger w (k_db k)) = []
     | Some n \<Rightarrow> filter (\<lambda>e. we_sequence e > n) (ledger w (k_db k)) =
         drop limit (filter (\<lambda>e. we_sequence e > cursor) (ledger w (k_db k))))"
proof -
  let ?L = "filter (\<lambda>e. we_sequence e > cursor) (ledger w (k_db k))"
  have L: "filter (\<lambda>e. we_worktree_id e = w \<and> we_sequence e > cursor) (d_lease_events (k_db k)) = ?L"
    by (simp add: ledger_def conj_commute)
  have sorted: "sorted_wrt (<) (map we_sequence ?L)"
    using assms(1) by (auto simp: lease_inv_def ledger_def sorted_wrt_map intro: sorted_wrt_filter)
  have rest: "filter (\<lambda>e. we_sequence e > n) (ledger w (k_db k)) = filter (\<lambda>e. we_sequence e > n) ?L"
    if "cursor < n" for n
    using that by (auto intro: filter_cong)
  have page: "t = k \<and> page = \<lparr>lep_items = map mapWorktreeWriterLeaseEvent (take limit (take (limit + 1) ?L)),
      lep_nextCursor = (if map mapWorktreeWriterLeaseEvent (take limit (take (limit + 1) ?L)) = [] then None
         else Some (lev_cursor (last (map mapWorktreeWriterLeaseEvent (take limit (take (limit + 1) ?L)))))),
      lep_hasMore = (length (take (limit + 1) ?L) > limit)\<rparr>"
    using assms(3) by (auto simp: listWorktreeWriterLeaseEvents_def requireRuntime_def requireNonEmpty_def
        run_simps Let_def L split: if_splits)
  show ?thesis
  proof (cases "take limit ?L = []")
    case True
    then show ?thesis using page assms(2) by auto
  next
    case False
    then have c: "lev_cursor (last (map mapWorktreeWriterLeaseEvent (take limit ?L))) = we_sequence (last (take limit ?L))"
      by (simp add: last_map mapWorktreeWriterLeaseEvent_def)
    have "last (take limit ?L) \<in> set ?L" using last_in_set [OF False] by (rule in_set_takeD)
    then have "cursor < we_sequence (last (take limit ?L))" by simp
    then show ?thesis
      using page False c rest filter_after_page [OF sorted False] by (auto simp: min_def)
  qed
qed

lemma ledger_page_is_exact_witness:
  "map lev_type (lep_items (case fst (listWorktreeWriterLeaseEvents ''w'' 0 10 sample_runtime sample_leased) of
      Inr page \<Rightarrow> page)) = [LeaseAcquiredEv]"
proof -
  let ?m = "listWorktreeWriterLeaseEvents ''w'' 0 10 sample_runtime sample_leased"
  have "\<not> isl (fst ?m)" by code_simp
  then obtain page t where run: "?m = (Inr page, t)" by (cases ?m; cases "fst ?m") auto
  have "map we_type (filter (\<lambda>e. we_sequence e > 0) (ledger ''w'' (k_db sample_leased))) = [LeaseAcquiredEv]"
    by code_simp
  then show ?thesis
    using ledger_page_is_exact [OF sample_leased_inv _ run] run
    by (auto simp: mapWorktreeWriterLeaseEvent_def)
qed

end
