(* ===== verification/Evolution.thy ===== *)
theory Evolution
  imports Invariants Leases
begin

text \<open>
  What no handler ever does to the database. Most columns are written once: of a run its
  provenance, of a message revision its text, of an event everything. \<open>extends d e\<close> says that
  \<open>e\<close> came from \<open>d\<close> by appending rows and by changing only the columns that may change;
  \<open>worktree_side\<close> is the part of the database the collaboration handlers leave alone.

  Both are evolutions: proved for the statements once, they hold of every handler by the rules
  of the combinators (\<open>grows_rules\<close>).
\<close>

section \<open>What may change in a row\<close>

named_theorems fixed_defs "the columns of a row that never change"

definition agent_fixed :: "agent_row \<Rightarrow> agent_row" where
  [fixed_defs]: "agent_fixed r = r\<lparr>ag_current_config_revision := 0\<rparr>"

definition thread_fixed :: "thread_row \<Rightarrow> thread_row" where
  [fixed_defs]: "thread_fixed r = r\<lparr>th_created_event_sequence := None, th_cursor := 0\<rparr>"

definition message_fixed :: "message_row \<Rightarrow> message_row" where
  [fixed_defs]: "message_fixed r = r\<lparr>ms_latest_revision := 0, ms_created_event_sequence := None\<rparr>"

definition revision_fixed :: "message_revision_row \<Rightarrow> message_revision_row" where
  [fixed_defs]: "revision_fixed r = r\<lparr>mr_created_event_sequence := None\<rparr>"

definition mention_fixed :: "mention_row \<Rightarrow> mention_row" where
  [fixed_defs]: "mention_fixed r = r\<lparr>mn_created_event_sequence := None\<rparr>"

definition attention_fixed :: "attention_row \<Rightarrow> attention_row" where
  [fixed_defs]: "attention_fixed r =
     r\<lparr>at_status := AttOpen, at_revision := 0, at_handler_lease_holder := None,
       at_handler_lease_token := None, at_handler_lease_expires_at := None,
       at_resolution_outcome := None, at_resolved_by := None, at_resolved_activation_id := None,
       at_resolved_run_id := None, at_created_event_sequence := None, at_resolved_at := None\<rparr>"

definition run_fixed :: "run_row \<Rightarrow> run_row" where
  [fixed_defs]: "run_fixed r =
     r\<lparr>rn_agent_config_revision := 0, rn_state := RunActive, rn_revision := 0,
       rn_activation_generation := 0, rn_next_input_sequence := 0, rn_next_activity_sequence := 0,
       rn_created_event_sequence := None, rn_updated_at := 0, rn_terminal_reason := None\<rparr>"

definition run_input_fixed :: "run_input_row \<Rightarrow> run_input_row" where
  [fixed_defs]: "run_input_fixed r =
     r\<lparr>ri_created_event_sequence := None, ri_disposition := Pending, ri_disposition_revision := 0,
       ri_disposition_reason := None, ri_superseded_by := None\<rparr>"

definition activation_fixed :: "activation_row \<Rightarrow> activation_row" where
  [fixed_defs]: "activation_fixed r =
     r\<lparr>aa_created_event_sequence := None, aa_revoked_at := None, aa_revocation_reason := None,
       aa_finished_at := None, aa_outcome := None, aa_detail := None\<rparr>"

definition attempt_fixed :: "provider_attempt_row \<Rightarrow> provider_attempt_row" where
  [fixed_defs]: "attempt_fixed r =
     r\<lparr>pa_status := ProvStarted, pa_detail := None, pa_created_event_sequence := None,
       pa_finished_at := None\<rparr>"

definition activity_fixed :: "activity_row \<Rightarrow> activity_row" where
  [fixed_defs]: "activity_fixed r = r\<lparr>ra_created_event_sequence := None\<rparr>"

definition artifact_fixed :: "artifact_row \<Rightarrow> artifact_row" where
  [fixed_defs]: "artifact_fixed r = r\<lparr>ar_created_event_sequence := None\<rparr>"

definition outbox_fixed :: "outbox_row \<Rightarrow> outbox_row" where
  [fixed_defs]: "outbox_fixed r =
     r\<lparr>ob_delivery_attempts := 0, ob_lease_holder := None, ob_lease_token := None,
       ob_lease_expires_at := None, ob_acknowledged_at := None, ob_acknowledged_by := None\<rparr>"

definition worktree_fixed :: "physical_row \<Rightarrow> physical_row" where
  [fixed_defs]: "worktree_fixed r = r\<lparr>pw_state := WtReady\<rparr>"

definition execution_fixed :: "execution_row \<Rightarrow> execution_row" where
  [fixed_defs]: "execution_fixed r =
     r\<lparr>wx_state := ExStarting, wx_pid := None, wx_authority_revoked_at := None,
       wx_authority_revocation_reason := None\<rparr>"

definition idempotency_fixed :: "idempotency_row \<Rightarrow> idempotency_row" where
  [fixed_defs]: "idempotency_fixed r = r\<lparr>ir_result := command_result_of StartThread []\<rparr>"

section \<open>Growing databases\<close>

definition extends :: "database \<Rightarrow> database \<Rightarrow> bool" where
  "extends d e \<longleftrightarrow>
     d_storage_identity e = d_storage_identity d \<and> d_causal_limits e = d_causal_limits d \<and> d_principals e = d_principals d \<and>
     d_projects e = d_projects d \<and> d_channels e = d_channels d \<and>
     map agent_fixed (d_agents e) = map agent_fixed (d_agents d) \<and>
     prefix (d_agent_configs d) (d_agent_configs e) \<and>
     prefix (map thread_fixed (d_threads d)) (map thread_fixed (d_threads e)) \<and>
     prefix (map message_fixed (d_messages d)) (map message_fixed (d_messages e)) \<and>
     prefix (map revision_fixed (d_message_revisions d)) (map revision_fixed (d_message_revisions e)) \<and>
     prefix (map mention_fixed (d_mentions d)) (map mention_fixed (d_mentions e)) \<and>
     prefix (map attention_fixed (d_attentions d)) (map attention_fixed (d_attentions e)) \<and>
     prefix (map run_fixed (d_runs d)) (map run_fixed (d_runs e)) \<and>
     prefix (map run_input_fixed (d_run_inputs d)) (map run_input_fixed (d_run_inputs e)) \<and>
     prefix (map activation_fixed (d_activations d)) (map activation_fixed (d_activations e)) \<and>
     prefix (d_activation_inputs d) (d_activation_inputs e) \<and>
     prefix (map attempt_fixed (d_provider_attempts d)) (map attempt_fixed (d_provider_attempts e)) \<and>
     prefix (map activity_fixed (d_activities d)) (map activity_fixed (d_activities e)) \<and>
     prefix (map artifact_fixed (d_artifacts d)) (map artifact_fixed (d_artifacts e)) \<and>
     prefix (map outbox_fixed (d_outbox d)) (map outbox_fixed (d_outbox e)) \<and>
     prefix (map idempotency_fixed (d_idempotency d)) (map idempotency_fixed (d_idempotency e)) \<and>
     prefix (map wl_worktree_id (d_leases d)) (map wl_worktree_id (d_leases e)) \<and>
     prefix (d_lease_events d) (d_lease_events e) \<and>
     prefix (map worktree_fixed (d_worktrees d)) (map worktree_fixed (d_worktrees e)) \<and>
     prefix (map execution_fixed (d_executions d)) (map execution_fixed (d_executions e)) \<and>
     prefix (d_execution_events d) (d_execution_events e) \<and>
     prefix (d_events d) (d_events e) \<and>
     prefix (d_run_history d) (d_run_history e) \<and>
     prefix (d_run_input_history d) (d_run_input_history e) \<and>
     prefix (d_activation_history d) (d_activation_history e) \<and>
     prefix (d_provider_history d) (d_provider_history e) \<and>
     prefix (d_attention_history d) (d_attention_history e)"

lemma extends_refl: "extends d d"
  by (simp add: extends_def)

lemma extends_trans: "extends d e \<Longrightarrow> extends e f \<Longrightarrow> extends d f"
  unfolding extends_def by (auto elim!: prefix_order.trans)

text \<open>The tables of the worktrees, and those only the bootstrap and the transaction write.\<close>

definition worktree_side ::
  "database \<Rightarrow> idempotency_row list \<times> lease_row list \<times> lease_event_row list \<times> physical_row list \<times>
     execution_row list \<times> execution_event_row list" where
  "worktree_side d =
     (d_idempotency d, d_leases d, d_lease_events d, d_worktrees d, d_executions d,
      d_execution_events d)"

text \<open>
  What every handler keeps of the collaboration tables: the event log is numbered without gaps,
  the outbox is a queue, ids are unique, and columns that belong together are set together.
\<close>

definition event_log_ok :: "event_row list \<Rightarrow> bool" where
  "event_log_ok es \<longleftrightarrow>
     map ev_sequence es = [1..<Suc (length es)] \<and> distinct (map ev_event_id es)"

definition outbox_row_ok :: "outbox_row \<Rightarrow> bool" where
  "outbox_row_ok r \<longleftrightarrow>
     (ob_lease_token r = None \<longleftrightarrow> ob_lease_holder r = None) \<and>
     (ob_lease_token r = None \<longleftrightarrow> ob_lease_expires_at r = None) \<and>
     (ob_acknowledged_at r \<noteq> None \<longrightarrow> ob_lease_token r = None)"

definition queue_ok :: "outbox_row list \<Rightarrow> bool" where
  "queue_ok rows \<longleftrightarrow>
     sorted_wrt (<) (map ob_sequence rows) \<and> distinct (map ob_id rows) \<and>
     rows = filter (\<lambda>r. ob_acknowledged_at r \<noteq> None) rows @
       filter (\<lambda>r. ob_acknowledged_at r = None) rows \<and>
     list_all outbox_row_ok rows"

definition attention_ok :: "attention_row \<Rightarrow> bool" where
  "attention_ok r \<longleftrightarrow>
     0 < at_revision r \<and> (at_status r = AttOpen \<longleftrightarrow> at_resolution_outcome r = None) \<and>
     (at_handler_lease_token r = None \<longleftrightarrow> at_handler_lease_holder r = None) \<and>
     (at_handler_lease_token r = None \<longleftrightarrow> at_handler_lease_expires_at r = None)"

definition activation_ok :: "activation_row \<Rightarrow> bool" where
  "activation_ok r \<longleftrightarrow>
     (aa_revoked_at r = None \<longleftrightarrow> aa_revocation_reason r = None) \<and>
     (aa_finished_at r = None \<longleftrightarrow> aa_outcome r = None)"

text \<open>
  The activity of every run is numbered \<open>1, 2, \<dots>\<close> in the order it was recorded, and the run's counter is
  the next number: over the ids and counters of the runs, and the ids, runs and numbers of the activity.
\<close>

definition run_counter :: "run_row \<Rightarrow> ident \<times> nat" where
  "run_counter r = (rn_id r, rn_next_activity_sequence r)"

definition activity_key :: "activity_row \<Rightarrow> ident \<times> ident \<times> nat" where
  "activity_key a = (ra_id a, ra_run_id a, ra_sequence a)"

definition numbered :: "(ident \<times> nat) list \<Rightarrow> (ident \<times> ident \<times> nat) list \<Rightarrow> bool" where
  "numbered counters keys \<longleftrightarrow>
     list_all (\<lambda>(i, n). 0 < n \<and>
       map (\<lambda>(_, _, k). k) (filter (\<lambda>(_, j, _). j = i) keys) = [1..<n]) counters \<and>
     list_all (\<lambda>(_, j, _). j \<in> fst ` set counters) keys \<and> distinct (map fst keys)"

definition well_formed :: "database \<Rightarrow> bool" where
  "well_formed d \<longleftrightarrow>
     event_log_ok (d_events d) \<and> queue_ok (d_outbox d) \<and>
     numbered (map run_counter (d_runs d)) (map activity_key (d_activities d)) \<and>
     list_all attention_ok (d_attentions d) \<and> list_all activation_ok (d_activations d) \<and>
     distinct (map th_root_message_id (d_threads d)) \<and> distinct (map ms_id (d_messages d)) \<and>
     distinct (map at_id (d_attentions d)) \<and> distinct (map rn_id (d_runs d)) \<and>
     distinct (map ri_id (d_run_inputs d)) \<and> distinct (map aa_id (d_activations d)) \<and>
     distinct (map pa_id (d_provider_attempts d)) \<and> distinct (map ar_id (d_artifacts d))"

definition collab :: "kernel \<Rightarrow> kernel \<Rightarrow> bool" where
  "collab s t \<longleftrightarrow>
     extends (k_db s) (k_db t) \<and> worktree_side (k_db t) = worktree_side (k_db s) \<and>
     (well_formed (k_db s) \<longrightarrow> well_formed (k_db t)) \<and>
     k_localWorktreeRevocations t = k_localWorktreeRevocations s \<and> k_cwd t = k_cwd s"

named_theorems grows_rules "collaboration statements and handlers only append"

abbreviation grows :: "'a kop \<Rightarrow> bool" where
  "grows m \<equiv> evolves collab m"

interpretation grow: evolution collab
proof unfold_locales
  show "collab s s" for s by (simp add: collab_def extends_refl)
  show "collab s t \<Longrightarrow> collab t u \<Longrightarrow> collab s u" for s t u
    unfolding collab_def by (metis extends_trans)
qed

lemmas grow_combinators [grows_rules] = grow.rules

lemma grows_reads [grows_rules]:
  "grows clock" "grows (idFactory p)" "grows randomToken" "grows (query f)"
  by (simp_all add: evolves_def collab_def extends_refl clock_run idFactory_run randomToken_run
      query_run)

lemma grows_writeDb:
  "(\<And>d. extends d (f d)) \<Longrightarrow> (\<And>d. worktree_side (f d) = worktree_side d) \<Longrightarrow>
   (\<And>d. well_formed d \<Longrightarrow> well_formed (f d)) \<Longrightarrow> grows (writeDb f)"
  by (simp add: evolves_def collab_def writeDb_run)

lemma grows_insert_unique:
  "(\<And>d. extends d (upd (\<lambda>rs. rs @ [row]) d)) \<Longrightarrow>
   (\<And>h d. worktree_side (upd h d) = worktree_side d) \<Longrightarrow>
   (\<And>d. well_formed d \<Longrightarrow> \<not> list_ex (\<lambda>r. clash r row) (get d) \<Longrightarrow>
      well_formed (upd (\<lambda>rs. rs @ [row]) d)) \<Longrightarrow>
   grows (insert_unique get upd clash row)"
  by (simp add: evolves_def collab_def insert_unique_run extends_refl)

lemma grows_update_where:
  "(\<And>d. extends d (upd (update_rows P f) d)) \<Longrightarrow>
   (\<And>h d. worktree_side (upd h d) = worktree_side d) \<Longrightarrow>
   (\<And>d. well_formed d \<Longrightarrow> well_formed (upd (update_rows P f) d)) \<Longrightarrow> grows (update_where upd P f)"
  by (simp add: evolves_def collab_def update_where_run)

lemma grows_delete_where:
  "(\<And>d. extends d (upd (delete_rows P) d)) \<Longrightarrow>
   (\<And>h d. worktree_side (upd h d) = worktree_side d) \<Longrightarrow>
   (\<And>d. well_formed d \<Longrightarrow> well_formed (upd (delete_rows P) d)) \<Longrightarrow> grows (delete_where upd P)"
  by (simp add: evolves_def collab_def delete_where_run)

lemma map_fixed_update:
  "(\<And>r. P r \<Longrightarrow> fixed (f r) = fixed r) \<Longrightarrow> map fixed (update_rows P f rs) = map fixed rs"
  by (rule map_key_update)

text \<open>The id of a row is one of its fixed columns, so it survives an update of the others.\<close>

lemma ids_of_fixed:
  "map thread_fixed ts' = map thread_fixed ts \<Longrightarrow> map th_root_message_id ts' = map th_root_message_id ts"
  "map message_fixed ms' = map message_fixed ms \<Longrightarrow> map ms_id ms' = map ms_id ms"
  "map attention_fixed ns' = map attention_fixed ns \<Longrightarrow> map at_id ns' = map at_id ns"
  "map run_fixed rs' = map run_fixed rs \<Longrightarrow> map rn_id rs' = map rn_id rs"
  "map run_input_fixed is' = map run_input_fixed is \<Longrightarrow> map ri_id is' = map ri_id is"
  "map activation_fixed as' = map activation_fixed as \<Longrightarrow> map aa_id as' = map aa_id as"
  "map attempt_fixed ps' = map attempt_fixed ps \<Longrightarrow> map pa_id ps' = map pa_id ps"
  "map artifact_fixed fs' = map artifact_fixed fs \<Longrightarrow> map ar_id fs' = map ar_id fs"
  by (drule arg_cong [where f = "map th_root_message_id"] arg_cong [where f = "map ms_id"]
        arg_cong [where f = "map at_id"] arg_cong [where f = "map rn_id"]
        arg_cong [where f = "map ri_id"] arg_cong [where f = "map aa_id"]
        arg_cong [where f = "map pa_id"] arg_cong [where f = "map ar_id"];
      simp add: o_def fixed_defs; fail)+

lemma list_all_update:
  "(\<And>r. P r \<Longrightarrow> ok r \<Longrightarrow> ok (f r)) \<Longrightarrow> list_all ok rs \<Longrightarrow> list_all ok (update_rows P f rs)"
  by (induction rs) auto

text \<open>The numbering survives a new run, new activity of a run with its counter, and other updates.\<close>

lemma numbered_run:
  assumes "numbered (map run_counter rs) ks" "rn_next_activity_sequence r = 1"
    "\<not> (\<exists>x \<in> set rs. run_clash x r)"
  shows "numbered (map run_counter rs @ [run_counter r]) ks"
proof -
  have new: "rn_id r \<notin> fst ` set (map run_counter rs)"
    using assms(3) by (auto simp: run_counter_def run_clash_def)
  then have "filter (\<lambda>(_, j, _). j = rn_id r) ks = []"
    using assms(1) by (auto simp: numbered_def filter_empty_conv list_all_iff)
  then show ?thesis
    using assms(1,2) by (auto simp: numbered_def run_counter_def list_all_iff)
qed

lemma numbered_activity:
  assumes "numbered cs ks" "(i, n) \<in> set cs" "a \<notin> fst ` set ks"
  shows "numbered (map (\<lambda>(j, m). (j, if j = i then n + 1 else m)) cs) (ks @ [(a, i, n)])"
proof -
  have counted: "0 < n" "map (\<lambda>(_, _, k). k) (filter (\<lambda>(_, j, _). j = i) ks) = [1..<n]"
    using assms(1,2) by (auto simp: numbered_def list_all_iff)
  have other: "0 < m \<and> map (\<lambda>(_, _, k). k) (filter (\<lambda>(_, l, _). l = j) ks) = [1..<m]"
    if "(j, m) \<in> set cs" for j m
    using assms(1) that by (auto simp: numbered_def list_all_iff)
  have "0 < (if j = i then n + 1 else m) \<and>
      map (\<lambda>(_, _, k). k) (filter (\<lambda>(_, l, _). l = j) (ks @ [(a, i, n)])) =
      [1..<(if j = i then n + 1 else m)]" if "(j, m) \<in> set cs" for j m
    using other [OF that] counted by auto
  moreover have "fst ` set (map (\<lambda>(j, m). (j, if j = i then n + 1 else m)) cs) = fst ` set cs"
    by force
  moreover have "i \<in> fst ` set cs"
    using assms(2) by force
  ultimately show ?thesis
    using assms(1,3) unfolding numbered_def list_all_iff by auto
qed

lemma fixed_numbering:
  "run_fixed r = run_fixed r' \<Longrightarrow> rn_id r = rn_id r'"
  "activity_fixed a = activity_fixed a' \<Longrightarrow> activity_key a = activity_key a'"
proof -
  show "run_fixed r = run_fixed r' \<Longrightarrow> rn_id r = rn_id r'"
    by (drule arg_cong [where f = rn_id]) (simp add: run_fixed_def)
  show "activity_fixed a = activity_fixed a' \<Longrightarrow> activity_key a = activity_key a'"
    by (drule arg_cong [where f = activity_key]) (simp add: activity_fixed_def activity_key_def)
qed

lemma counters_update:
  "(\<And>r. P r \<Longrightarrow> run_fixed (f r) = run_fixed r) \<Longrightarrow>
   (\<And>r. P r \<Longrightarrow> rn_next_activity_sequence (f r) = rn_next_activity_sequence r) \<Longrightarrow>
   map run_counter (update_rows P f rs) = map run_counter rs"
  by (rule map_key_update) (auto simp: run_counter_def intro: fixed_numbering(1))

lemma keys_update:
  "(\<And>r. P r \<Longrightarrow> activity_fixed (f r) = activity_fixed r) \<Longrightarrow>
   map activity_key (update_rows P f rs) = map activity_key rs"
  by (rule map_key_update) (rule fixed_numbering(2))

section \<open>The statements\<close>

text \<open>Inserting into a collaboration table.\<close>

lemma grows_inserts [grows_rules]:
  "grows (insert_unique d_agent_configs d_agent_configs_update clash1 row1)"
  "grows (insert_unique d_message_revisions d_message_revisions_update clash2 row2)"
  "grows (insert_unique d_mentions d_mentions_update clash3 row3)"
  "grows (insert_unique d_activation_inputs d_activation_inputs_update clash4 row4)"
  "grows (insert_unique d_domain_fences d_domain_fences_update clash5 row5)"
  by (rule grows_insert_unique; simp add: extends_def worktree_side_def well_formed_def)+

lemma grows_keyed_inserts [grows_rules]:
  "grows (insert_unique d_threads d_threads_update thread_clash row1)"
  "grows (insert_unique d_messages d_messages_update message_clash row2)"
  "rn_next_activity_sequence row3 = 1 \<Longrightarrow> grows (insert_unique d_runs d_runs_update run_clash row3)"
  "grows (insert_unique d_run_inputs d_run_inputs_update run_input_clash row4)"
  "grows (insert_unique d_provider_attempts d_provider_attempts_update provider_attempt_clash row5)"
  "grows (insert_unique d_artifacts d_artifacts_update artifact_clash row6)"
  "attention_ok row7 \<Longrightarrow> grows (insert_unique d_attentions d_attentions_update attention_clash row7)"
  "activation_ok row8 \<Longrightarrow> grows (insert_unique d_activations d_activations_update activation_clash row8)"
  by (rule grows_insert_unique;
      force simp: extends_def worktree_side_def well_formed_def numbered_run list_ex_iff thread_clash_def
        message_clash_def run_clash_def run_input_clash_def provider_attempt_clash_def
        artifact_clash_def attention_clash_def activation_clash_def)+

lemma grows_history_inserts [grows_rules]:
  "grows (insert_unique d_run_history d_run_history_update clash1 row1)"
  "grows (insert_unique d_run_input_history d_run_input_history_update clash2 row2)"
  "grows (insert_unique d_activation_history d_activation_history_update clash3 row3)"
  "grows (insert_unique d_provider_history d_provider_history_update clash4 row4)"
  "grows (insert_unique d_attention_history d_attention_history_update clash5 row5)"
  by (rule grows_insert_unique; simp add: extends_def worktree_side_def well_formed_def)+

text \<open>Changing only the columns that may change.\<close>

lemma grows_updates [grows_rules]:
  "(\<And>r. P1 r \<Longrightarrow> agent_fixed (f1 r) = agent_fixed r) \<Longrightarrow> grows (update_where d_agents_update P1 f1)"
  "(\<And>r. P2 r \<Longrightarrow> thread_fixed (f2 r) = thread_fixed r) \<Longrightarrow> grows (update_where d_threads_update P2 f2)"
  "(\<And>r. P3 r \<Longrightarrow> message_fixed (f3 r) = message_fixed r) \<Longrightarrow> grows (update_where d_messages_update P3 f3)"
  "(\<And>r. P4 r \<Longrightarrow> revision_fixed (f4 r) = revision_fixed r) \<Longrightarrow>
   grows (update_where d_message_revisions_update P4 f4)"
  "(\<And>r. P5 r \<Longrightarrow> mention_fixed (f5 r) = mention_fixed r) \<Longrightarrow> grows (update_where d_mentions_update P5 f5)"
  "(\<And>r. P6 r \<Longrightarrow> attention_fixed (f6 r) = attention_fixed r) \<Longrightarrow>
   (\<And>r. P6 r \<Longrightarrow> attention_ok r \<Longrightarrow> attention_ok (f6 r)) \<Longrightarrow>
   grows (update_where d_attentions_update P6 f6)"
  "(\<And>r. P7 r \<Longrightarrow> run_fixed (f7 r) = run_fixed r) \<Longrightarrow>
   (\<And>r. P7 r \<Longrightarrow> rn_next_activity_sequence (f7 r) = rn_next_activity_sequence r) \<Longrightarrow>
   grows (update_where d_runs_update P7 f7)"
  "(\<And>r. P8 r \<Longrightarrow> run_input_fixed (f8 r) = run_input_fixed r) \<Longrightarrow>
   grows (update_where d_run_inputs_update P8 f8)"
  "(\<And>r. P9 r \<Longrightarrow> activation_fixed (f9 r) = activation_fixed r) \<Longrightarrow>
   (\<And>r. P9 r \<Longrightarrow> activation_ok r \<Longrightarrow> activation_ok (f9 r)) \<Longrightarrow>
   grows (update_where d_activations_update P9 f9)"
  "(\<And>r. P10 r \<Longrightarrow> attempt_fixed (f10 r) = attempt_fixed r) \<Longrightarrow>
   grows (update_where d_provider_attempts_update P10 f10)"
  "(\<And>r. P11 r \<Longrightarrow> activity_fixed (f11 r) = activity_fixed r) \<Longrightarrow>
   grows (update_where d_activities_update P11 f11)"
  "(\<And>r. P12 r \<Longrightarrow> artifact_fixed (f12 r) = artifact_fixed r) \<Longrightarrow>
   grows (update_where d_artifacts_update P12 f12)"
  "grows (update_where d_domain_fences_update P14 f14)"
  "grows (delete_where d_domain_fences_update P15)"
  by ((rule grows_update_where grows_delete_where);
      simp add: extends_def worktree_side_def well_formed_def map_fixed_update list_all_update
        ids_of_fixed [OF map_fixed_update] counters_update keys_update)+

section \<open>The triggers\<close>

lemma extends_recovery:
  "extends d (d_recovery_update f e) = extends d e" "extends d (bump_recovery e) = extends d e"
  "worktree_side (d_recovery_update f e) = worktree_side e"
  "worktree_side (bump_recovery e) = worktree_side e"
  "extends d (d_recovery_revision_update g e) = extends d e"
  "worktree_side (d_recovery_revision_update g e) = worktree_side e"
  "well_formed (d_recovery_update f e) = well_formed e" "well_formed (bump_recovery e) = well_formed e"
  "well_formed (d_recovery_revision_update g e) = well_formed e"
  by (simp_all add: extends_def worktree_side_def well_formed_def bump_recovery_def)

lemma extends_on_activation:
  "extends d (on_activation_insert new e) = extends d e"
  "worktree_side (on_activation_insert new e) = worktree_side e"
  "extends d (on_activation_update old new e) = extends d e"
  "worktree_side (on_activation_update old new e) = worktree_side e"
  "well_formed (on_activation_insert new e) = well_formed e"
  "well_formed (on_activation_update old new e) = well_formed e"
  by (simp_all add: on_activation_insert_def on_activation_update_def extends_recovery)

lemma extends_fold_activation:
  "extends d (fold (\<lambda>old. on_activation_update old (f old)) olds e) = extends d e"
  "worktree_side (fold (\<lambda>old. on_activation_update old (f old)) olds e) = worktree_side e"
  "well_formed (fold (\<lambda>old. on_activation_update old (f old)) olds e) = well_formed e"
  by (induction olds arbitrary: e) (simp_all add: extends_on_activation)

lemma grows_insert_activation [grows_rules]: "activation_ok row \<Longrightarrow> grows (insert_activation row)"
  unfolding insert_activation_def
  by (intro grows_rules grows_writeDb) (simp_all add: extends_on_activation extends_refl)

lemma grows_update_activations [grows_rules]:
  "(\<And>r. P r \<Longrightarrow> activation_fixed (f r) = activation_fixed r) \<Longrightarrow>
   (\<And>r. P r \<Longrightarrow> activation_ok r \<Longrightarrow> activation_ok (f r)) \<Longrightarrow> grows (update_activations P f)"
  unfolding update_activations_def
  by (intro grows_rules grows_writeDb)
    (simp_all add: extends_fold_activation, simp_all add: extends_def worktree_side_def well_formed_def
      map_fixed_update list_all_update ids_of_fixed [OF map_fixed_update])

lemma grows_provider_triggers [grows_rules]:
  "grows (attention_recovery_provider_insert new)" "grows (attention_domain_provider_insert new)"
  "grows (attention_recovery_provider_update old new)" "grows (attention_domain_provider_update old new)"
  unfolding attention_recovery_provider_insert_def attention_domain_provider_insert_def
    attention_recovery_provider_update_def attention_domain_provider_update_def
  by (intro grows_rules grows_writeDb; simp add: extends_recovery extends_refl)+

lemma grows_insert_provider_attempt [grows_rules]: "grows (insert_provider_attempt row)"
  unfolding insert_provider_attempt_def by (intro grows_rules)

lemma grows_update_provider_attempt [grows_rules]:
  "(\<And>r. attempt_fixed (f r) = attempt_fixed r) \<Longrightarrow> grows (update_provider_attempt i f)"
  unfolding update_provider_attempt_def by (intro grows_rules) simp_all

lemma grows_update_attentions [grows_rules]:
  "(\<And>r. P r \<Longrightarrow> attention_fixed (f r) = attention_fixed r) \<Longrightarrow>
   (\<And>r. P r \<Longrightarrow> attention_ok r \<Longrightarrow> attention_ok (f r)) \<Longrightarrow> grows (update_attentions P f)"
  unfolding update_attentions_def
  by (intro grows_rules grows_writeDb) (simp_all add: extends_recovery extends_refl)

section \<open>The shared checks and effects\<close>

lemma grows_values [grows_rules]:
  "grows (requireNonEmpty t)" "grows (boundedLimit l)" "grows (boundedDuration n)"
  "grows (requirePositiveRevision r)"
  unfolding requireNonEmpty_def boundedLimit_def boundedDuration_def requirePositiveRevision_def
  by (auto split: option.split jsnum.split intro: grows_rules)

lemma grows_case_jsnum [grows_rules]:
  "(\<And>n. r = JInt n \<Longrightarrow> grows (f n)) \<Longrightarrow> (r = JOther \<Longrightarrow> grows m) \<Longrightarrow>
   grows (case r of JInt n \<Rightarrow> f n | JOther \<Rightarrow> m)"
  by (cases r) simp_all

lemma grows_requireRow [grows_rules]: "grows (requireRow c h)"
  unfolding requireRow_def by (intro grows_rules)

lemma grows_requires [grows_rules]:
  "grows (requirePrincipal i)" "grows (requireAgent i)" "grows (requireMessage i)"
  "grows (requireProject i)" "grows (requireAgentForPrincipal i)" "grows (requireThread i)"
  "grows (requireAttention i)" "grows (requireRun i)" "grows (requireRunInput i)"
  "grows (requireActivation i)" "grows (requireProviderAttempt i)" "grows (requireOutboxEvent i)"
  unfolding requirePrincipal_def requireAgent_def requireMessage_def requireProject_def
    requireAgentForPrincipal_def requireThread_def requireAttention_def requireRun_def
    requireRunInput_def requireActivation_def requireProviderAttempt_def requireOutboxEvent_def
  by (rule grows_requireRow)+

lemma grows_checks [grows_rules]:
  "grows (requireKind p kind)" "grows (checkRevision a e)" "grows (requireLiveActivation i)"
  "grows (threadCursor i)" "grows (requireMutableRun i v)"
  unfolding requireKind_def checkRevision_def requireLiveActivation_def threadCursor_def
    requireMutableRun_def
  by (intro grows_rules; fail)+

lemma grows_activation_checks [grows_rules]:
  "grows (loadActivationScopeState a)" "grows (assertActivationScopeCurrent a)"
  "grows (isCurrentRunActivation a r)" "grows (requireRunActivation c p r)"
  "grows (authorizeActivationActor p c a b)"
  unfolding loadActivationScopeState_def assertActivationScopeCurrent_def
    isCurrentRunActivation_def requireRunActivation_def authorizeActivationActor_def
  by (intro grows_rules; fail)+

lemma grows_leases [grows_rules]:
  "grows (isAttentionDomainLeaseCurrent a t)" "grows (assertAttentionLease a v)"
  unfolding isAttentionDomainLeaseCurrent_def assertAttentionLease_def
  by (intro grows_rules; fail)+

lemma activation_fixed_revoke: "activation_fixed (revoke_set at reason r) = activation_fixed r"
  by (simp add: activation_fixed_def revoke_set_def)

lemma grows_markActivationChanges [grows_rules]: "grows (markActivationChanges ids)"
  unfolding markActivationChanges_def
  by (rule grows_writeDb) (simp_all add: extends_def worktree_side_def well_formed_def)

lemma activation_ok_revoke: "activation_ok r \<Longrightarrow> activation_ok (revoke_set at reason r)"
  by (auto simp: activation_ok_def revoke_set_def split: option.split)

lemma grows_revokeRunActivations [grows_rules]: "grows (revokeRunActivations i reason at)"
  unfolding revokeRunActivations_def
  by (intro grows_rules activation_fixed_revoke activation_ok_revoke)

lemma grows_supersedeClaim [grows_rules]: "grows (supersedeClaim f at)"
  unfolding supersedeClaim_def
  by (intro grows_rules activation_fixed_revoke activation_ok_revoke)
    (simp_all add: attention_fixed_def attention_ok_def)

lemma grows_domains [grows_rules]:
  "grows (claimAttentionDomain a t e at)" "grows (releaseAttentionDomainLease i)"
  unfolding claimAttentionDomain_def releaseAttentionDomainLease_def
  by (intro grows_rules; fail)+

lemma grows_scopes [grows_rules]:
  "grows (assertProjectChannel p c)" "grows (assertProjectAccess pr p)"
  "grows (activationScope a)" "grows (resolvePrincipalReadScope pr cx p)"
  "grows (assertAgentQueryScope pr cx p root v)" "grows (checkThreadCursor thread pr cx e)"
  unfolding assertProjectChannel_def assertProjectAccess_def activationScope_def
    resolvePrincipalReadScope_def assertAgentQueryScope_def checkThreadCursor_def
  by (intro grows_rules; fail)+

lemma next_event: "event_log_ok es \<Longrightarrow> next_sequence ev_sequence es = Suc (length es)"
  by (cases es rule: rev_cases) (auto simp: next_sequence_def event_log_ok_def)

lemma well_formed_append_event:
  assumes "well_formed d" and "ev_sequence e = next_sequence ev_sequence (d_events d)"
    and "\<not> list_ex (\<lambda>r. event_clash r e) (d_events d)"
  shows "well_formed (d_events_update (\<lambda>es. es @ [e]) d)"
  using assms events_table.fresh_key [OF assms(3)] next_event [of "d_events d"]
  by (simp add: well_formed_def event_log_ok_def)

lemma well_formed_append_outbox:
  assumes "well_formed d" and "ob_sequence e = next_sequence ob_sequence (d_outbox d)"
    and "\<not> list_ex (\<lambda>r. outbox_clash r e) (d_outbox d)"
    and "ob_acknowledged_at e = None" and "outbox_row_ok e"
  shows "well_formed (d_outbox_update (\<lambda>es. es @ [e]) d)"
  using assms outbox_table.fresh_key [OF assms(3)] sorted_snoc_next [of ob_sequence "d_outbox d" e]
  by (simp add: well_formed_def queue_ok_def)

text \<open>New activity of a run takes the number of the run's counter, which moves on.\<close>

lemma well_formed_append_activity:
  assumes "well_formed d" "find_row rn_id i (d_runs d) = Some run" "ra_run_id a = i"
    "ra_sequence a = rn_next_activity_sequence run"
    "\<not> list_ex (\<lambda>r. activity_clash r a) (d_activities d)"
  shows "well_formed (d_runs_update (update_rows (\<lambda>r. rn_id r = i)
      (\<lambda>r. r\<lparr>rn_next_activity_sequence := Suc (rn_next_activity_sequence run)\<rparr>))
    (d_activities_update (\<lambda>as. as @ [a]) d))"
proof -
  let ?f = "\<lambda>r. r\<lparr>rn_next_activity_sequence := Suc (rn_next_activity_sequence run)\<rparr>"
  let ?g = "\<lambda>(j, m). (j, if j = i then rn_next_activity_sequence run + 1 else m)"
  have "(i, rn_next_activity_sequence run) \<in> set (map run_counter (d_runs d))"
    using assms(2) find_row_Some [of rn_id i "d_runs d" run]
    by (force simp: run_counter_def)
  moreover have "ra_id a \<notin> fst ` set (map activity_key (d_activities d))"
    using assms(5) by (auto simp: list_ex_iff activity_clash_def activity_key_def)
  ultimately have "numbered (map ?g (map run_counter (d_runs d)))
      (map activity_key (d_activities d) @ [(ra_id a, i, rn_next_activity_sequence run)])"
    using assms(1) by (intro numbered_activity) (simp_all add: well_formed_def)
  moreover have "map ?g (map run_counter rs) =
      map run_counter (update_rows (\<lambda>r. rn_id r = i) ?f rs)" for rs :: "run_row list"
    by (induction rs) (auto simp: run_counter_def)
  moreover have "map rn_id (update_rows (\<lambda>r. rn_id r = i) ?f rs) = map rn_id rs" for rs :: "run_row list"
    by (rule map_key_update) simp
  ultimately show ?thesis
    using assms(1,3,4) by (simp add: well_formed_def activity_key_def)
qed

lemma grows_emitEvent [grows_rules]: "grows (emitEvent ev)"
  by (auto simp: evolves_def emitEvent_def run_simps collab_def extends_refl
      intro!: well_formed_append_event) (simp_all add: extends_def worktree_side_def)

lemma grows_enqueueOutbox [grows_rules]: "grows (enqueueOutbox t ty i j)"
  by (auto simp: evolves_def enqueueOutbox_def run_simps collab_def extends_refl outbox_row_ok_def
      intro!: well_formed_append_outbox) (simp_all add: extends_def worktree_side_def)

lemma grows_events [grows_rules]:
  "grows (recordAttentionHistory i n)" "grows (validateDisposition dispo reason)"
  unfolding recordAttentionHistory_def validateDisposition_def
  by (intro grows_rules; fail)+

lemma grows_emitThreadEvent [grows_rules]: "grows (emitThreadEvent root ev)"
  unfolding emitThreadEvent_def by (intro grows_rules) (simp add: thread_fixed_def)

section \<open>Reading only\<close>

text \<open>The checks that write nothing; every evolution of the database contains them.\<close>

definition same_db :: "kernel \<Rightarrow> kernel \<Rightarrow> bool" where
  "same_db s t \<longleftrightarrow>
     k_db t = k_db s \<and> k_localWorktreeRevocations t = k_localWorktreeRevocations s \<and> k_cwd t = k_cwd s \<and>
     k_clock t = k_clock s \<and> k_ticks s \<le> k_ticks t"

named_theorems reads_rules "operations that write nothing"

abbreviation reads :: "'a kop \<Rightarrow> bool" where
  "reads m \<equiv> evolves same_db m"

interpretation readonly: evolution same_db
  by unfold_locales (simp_all add: same_db_def)

lemmas reads_combinators [reads_rules] = readonly.rules

lemma reads_env [reads_rules]:
  "reads clock" "reads (idFactory p)" "reads randomToken" "reads (query f)"
  by (simp_all add: evolves_def same_db_def clock_run idFactory_run randomToken_run query_run)

lemma reads_values [reads_rules]:
  "reads (requireNonEmpty t)" "reads (boundedDuration n)" "reads (requireRow c h)"
  unfolding requireNonEmpty_def boundedDuration_def requireRow_def
  by (auto split: jsnum.split intro!: reads_rules)

lemma reads_requires [reads_rules]:
  "reads (requirePrincipal i)" "reads (requireAttention i)" "reads (requireRun i)"
  "reads (requireActivation i)" "reads (requireProviderAttempt i)" "reads (requireAgentForPrincipal i)"
  unfolding requirePrincipal_def requireAttention_def requireRun_def requireActivation_def
    requireProviderAttempt_def requireAgentForPrincipal_def
  by (rule reads_values)+

lemma reads_checks [reads_rules]:
  "reads (requireKind p kind)" "reads (requireLiveActivation i)" "reads (loadActivationScopeState a)"
  "reads (assertActivationScopeCurrent a)" "reads (authorizeActivationActor p c a b)"
  unfolding requireKind_def requireLiveActivation_def loadActivationScopeState_def
    assertActivationScopeCurrent_def authorizeActivationActor_def
  by (intro reads_rules; fail)+

lemma reads_lease_checks [reads_rules]:
  "reads (getLease w)" "reads (requireLease w)" "reads (requireRuntime p)" "reads (secretToken t)"
  "reads (requireQuarantineAuthority c l p at)" "reads (assertPhysicalWorktreeIdle w b)"
  "reads (authorityResult ct row at)"
  unfolding getLease_def requireLease_def requireRuntime_def secretToken_def
    requireQuarantineAuthority_def assertPhysicalWorktreeIdle_def authorityResult_def
  by (intro reads_rules; fail)+

section \<open>Worktree operations\<close>

text \<open>
  The other half: the operations of the leases and of the physical worktrees leave the
  collaboration tables alone and only append too. A revocation stays as it was written.
\<close>

definition collaboration_side :: "database \<Rightarrow> database" where
  "collaboration_side d =
     d\<lparr>d_leases := [], d_lease_events := [], d_worktrees := [], d_executions := [],
       d_execution_events := []\<rparr>"

definition seals :: "execution_row list \<Rightarrow> execution_row list \<Rightarrow> bool" where
  "seals xs ys \<longleftrightarrow>
     length xs \<le> length ys \<and>
     (\<forall>i < length xs. wx_authority_revoked_at (xs ! i) \<noteq> None \<longrightarrow>
        wx_authority_revoked_at (ys ! i) = wx_authority_revoked_at (xs ! i) \<and>
        wx_authority_revocation_reason (ys ! i) = wx_authority_revocation_reason (xs ! i))"

lemma seals_refl: "seals xs xs"
  by (simp add: seals_def)

lemma seals_trans: "seals xs ys \<Longrightarrow> seals ys zs \<Longrightarrow> seals xs zs"
  by (auto simp: seals_def)

lemma seals_append: "seals xs (xs @ zs)"
  by (simp add: seals_def nth_append)

lemma seals_update:
  "(\<And>r. r \<in> set xs \<Longrightarrow> P r \<Longrightarrow> wx_authority_revoked_at r \<noteq> None \<Longrightarrow>
      wx_authority_revoked_at (f r) = wx_authority_revoked_at r \<and>
      wx_authority_revocation_reason (f r) = wx_authority_revocation_reason r) \<Longrightarrow>
   seals xs (update_rows P f xs)"
  by (simp add: seals_def update_rows_def)

definition worktree_step :: "kernel \<Rightarrow> kernel \<Rightarrow> bool" where
  "worktree_step s t \<longleftrightarrow>
     extends (k_db s) (k_db t) \<and> collaboration_side (k_db t) = collaboration_side (k_db s) \<and>
     seals (d_executions (k_db s)) (d_executions (k_db t)) \<and>
     k_localWorktreeRevocations t = k_localWorktreeRevocations s \<and> k_cwd t = k_cwd s"

named_theorems works_rules "worktree operations only append"

abbreviation works :: "'a kop \<Rightarrow> bool" where
  "works m \<equiv> evolves worktree_step m"

interpretation work: evolution worktree_step
proof unfold_locales
  show "worktree_step s s" for s by (simp add: worktree_step_def extends_refl seals_refl)
  show "worktree_step s t \<Longrightarrow> worktree_step t u \<Longrightarrow> worktree_step s u" for s t u
    unfolding worktree_step_def by (metis extends_trans seals_trans)
qed

lemmas works_combinators [works_rules] = work.rules

lemma reads_works: "reads m \<Longrightarrow> works m"
  by (simp add: evolves_def same_db_def worktree_step_def extends_refl seals_refl)

lemmas works_reads [works_rules] =
  reads_env [THEN reads_works] reads_values [THEN reads_works] reads_requires [THEN reads_works]
  reads_checks [THEN reads_works] reads_lease_checks [THEN reads_works]

lemma works_writeDb:
  "(\<And>d. extends d (f d)) \<Longrightarrow> (\<And>d. collaboration_side (f d) = collaboration_side d) \<Longrightarrow>
   (\<And>d. seals (d_executions d) (d_executions (f d))) \<Longrightarrow> works (writeDb f)"
  by (simp add: evolves_def worktree_step_def writeDb_run)

lemma works_lease_events [works_rules]:
  "works (insert_unique d_lease_events d_lease_events_update clash row)"
  by (simp add: evolves_def worktree_step_def insert_unique_run extends_refl seals_refl,
      simp add: extends_def collaboration_side_def)

lemma works_appendEvent [works_rules]: "works (appendEvent l ty actor corr reason evidence)"
  unfolding appendEvent_def by (intro works_rules)

lemma works_updateLease [works_rules]:
  "(\<And>r. wl_worktree_id (f r) = wl_worktree_id r) \<Longrightarrow> works (updateLease w f)"
  unfolding updateLease_def update_where_def
  by (intro works_rules works_writeDb)
    (simp_all add: extends_def collaboration_side_def map_key_update seals_refl)

lemma works_upsertLease [works_rules]:
  "(\<And>r. wl_worktree_id (f r) = wl_worktree_id r) \<Longrightarrow> works (upsertLease row f)"
  unfolding upsertLease_def
  by (intro works_rules works_writeDb) (simp_all add: extends_def collaboration_side_def seals_refl)

lemma works_expireIfNeeded [works_rules]: "works (expireIfNeeded l actor corr at)"
  unfolding expireIfNeeded_def by (intro works_rules) (simp add: expired_row_def)

lemma works_requireLiveAuthority [works_rules]: "works (requireLiveAuthority a prin at corr)"
  unfolding requireLiveAuthority_def by (intro works_rules)

lemma works_lease_handlers [works_rules]:
  "works (acquireWorktreeWriterLease c1 prin corr)" "works (renewWorktreeWriterLease c2 prin corr)"
  "works (releaseWorktreeWriterLease c3 prin corr)" "works (quarantineWorktreeWriterLease c4 prin corr)"
  "works (resolveWorktreeWriterLeaseQuarantine c5 prin corr)"
  "works (resolveCachedWorktreeWriterLeaseAuthority ct w result prin)"
  "works (resolveCachedWorktreeWriterLeaseQuarantine c4 result prin)"
  unfolding acquireWorktreeWriterLease_def renewWorktreeWriterLease_def
    releaseWorktreeWriterLease_def quarantineWorktreeWriterLease_def
    resolveWorktreeWriterLeaseQuarantine_def resolveCachedWorktreeWriterLeaseAuthority_def
    resolveCachedWorktreeWriterLeaseQuarantine_def
  by (intro works_rules;
      simp add: set_acquired_def set_renewed_def set_released_def set_quarantined_def
        set_resolved_def)+

section \<open>Lease operations\<close>

text \<open>What the lease operations, which the worktree operations call, may change at all.\<close>

definition leases_only :: "kernel \<Rightarrow> kernel \<Rightarrow> bool" where
  "leases_only s t \<longleftrightarrow>
     (k_db t)\<lparr>d_leases := [], d_lease_events := []\<rparr> = (k_db s)\<lparr>d_leases := [], d_lease_events := []\<rparr> \<and>
     k_localWorktreeRevocations t = k_localWorktreeRevocations s \<and> k_cwd t = k_cwd s"

named_theorems lease_rules "lease operations change the leases only"

abbreviation leasing :: "'a kop \<Rightarrow> bool" where
  "leasing m \<equiv> evolves leases_only m"

interpretation lease: evolution leases_only
  by unfold_locales (simp_all add: leases_only_def)

lemmas leasing_combinators [lease_rules] = lease.rules

lemma reads_leasing: "reads m \<Longrightarrow> leasing m"
  by (simp add: evolves_def same_db_def leases_only_def)

lemmas leasing_reads [lease_rules] =
  reads_env [THEN reads_leasing] reads_values [THEN reads_leasing]
  reads_lease_checks [THEN reads_leasing]

lemma leasing_appendEvent [lease_rules]: "leasing (appendEvent l ty actor corr reason evidence)"
  unfolding appendEvent_def insert_unique_def
  by (intro lease_rules) (simp add: evolves_def leases_only_def writeDb_run)

lemma leasing_updateLease [lease_rules]: "leasing (updateLease w f)"
  unfolding updateLease_def update_where_def
  by (intro lease_rules) (simp add: evolves_def leases_only_def writeDb_run)

lemma leasing_upsertLease [lease_rules]: "leasing (upsertLease row f)"
  unfolding upsertLease_def
  by (intro lease_rules) (simp add: evolves_def leases_only_def writeDb_run)

lemma leasing_expireIfNeeded [lease_rules]: "leasing (expireIfNeeded l actor corr at)"
  unfolding expireIfNeeded_def by (intro lease_rules)

lemma leasing_requireLiveAuthority [lease_rules]: "leasing (requireLiveAuthority a prin at corr)"
  unfolding requireLiveAuthority_def by (intro lease_rules)

lemma leasing_handlers [lease_rules]:
  "leasing (acquireWorktreeWriterLease c1 prin corr)" "leasing (renewWorktreeWriterLease c2 prin corr)"
  "leasing (releaseWorktreeWriterLease c3 prin corr)"
  "leasing (quarantineWorktreeWriterLease c4 prin corr)"
  "leasing (resolveWorktreeWriterLeaseQuarantine c5 prin corr)"
  "leasing (resolveCachedWorktreeWriterLeaseAuthority ct w result prin)"
  "leasing (resolveCachedWorktreeWriterLeaseQuarantine c4 result prin)"
  unfolding acquireWorktreeWriterLease_def renewWorktreeWriterLease_def
    releaseWorktreeWriterLease_def quarantineWorktreeWriterLease_def
    resolveWorktreeWriterLeaseQuarantine_def resolveCachedWorktreeWriterLeaseAuthority_def
    resolveCachedWorktreeWriterLeaseQuarantine_def
  by (intro lease_rules; fail)+

lemma leases_only_views:
  assumes "leases_only s t"
  shows "d_executions (k_db t) = d_executions (k_db s)" and "d_worktrees (k_db t) = d_worktrees (k_db s)"
    and "k_cwd t = k_cwd s"
proof -
  from assms have erased: "(k_db t)\<lparr>d_leases := [], d_lease_events := []\<rparr> =
      (k_db s)\<lparr>d_leases := [], d_lease_events := []\<rparr>" by (simp add: leases_only_def)
  show "d_executions (k_db t) = d_executions (k_db s)" using arg_cong [OF erased, of d_executions] by simp
  show "d_worktrees (k_db t) = d_worktrees (k_db s)" using arg_cong [OF erased, of d_worktrees] by simp
  show "k_cwd t = k_cwd s" using assms by (simp add: leases_only_def)
qed

text \<open>An invariant of the rest of the state is kept by them.\<close>

lemma leasing_keeps: "leasing m \<Longrightarrow> (\<And>s t. leases_only s t \<Longrightarrow> I t = I s) \<Longrightarrow> keeps I m"
  unfolding evolves_def keeps_def by metis

section \<open>Weakest preconditions of the checks\<close>

lemma wp_intro_requireRow [wp_intros]:
  "(f (k_db k) = None \<Longrightarrow> E (err c) k) \<Longrightarrow> (\<And>r. f (k_db k) = Some r \<Longrightarrow> Q r k) \<Longrightarrow>
   wp (requireRow c f) Q E k"
  unfolding requireRow_def by (intro wp_intros)

lemma wp_requireRow [wp_simps]:
  "wp (requireRow c f) Q E k = (case f (k_db k) of None \<Rightarrow> E (err c) k | Some r \<Rightarrow> Q r k)"
  by (simp add: requireRow_def wp_simps)

lemma wp_intro_checkRevision [wp_intros]:
  "(a = e \<Longrightarrow> Q () k) \<Longrightarrow> (\<And>j. a \<noteq> e \<Longrightarrow> E (KernelError StaleRevision j) k) \<Longrightarrow>
   wp (checkRevision a e) Q E k"
  by (simp add: checkRevision_def wp_simps)

lemma wp_forM_requireNonEmpty [wp_intros]:
  "Q () k \<Longrightarrow> E (err InvalidCommand) k \<Longrightarrow> wp (forM xs requireNonEmpty) Q E k"
  by (induction xs) (simp_all add: wp_simps)

text \<open>An operation that only reads: the state after has the same database.\<close>

lemma wp_reads:
  assumes "reads m" and "\<And>x t. same_db k t \<Longrightarrow> Q x t" and "\<And>e t. same_db k t \<Longrightarrow> E e t"
  shows "wp m Q E k"
proof (rule wpI)
  fix x t assume "m k = (Inr x, t)"
  then show "Q x t" using assms(1) by (intro assms(2)) (metis evolves_def snd_conv)
next
  fix e t assume "m k = (Inl e, t)"
  then show "E e t" using assms(1) by (intro assms(3)) (metis evolves_def snd_conv)
qed

end
