(* ===== verification/Outbox.thy ===== *)
theory Outbox
  imports Evolution
begin

text \<open>
  The transactional outbox (\<open>outbox.ts\<close>): runtimes claim the oldest pending events under a
  lease, acknowledge exactly the oldest pending prefix, and use a live claim of the frontier
  event as the authority to start work for a run. The table is the queue itself: its rows are
  in sequence order, the acknowledged ones first.
\<close>

section \<open>Commands\<close>

record claim_outbox_command = idempotent_command +
  co_limit :: "jsnum option"
  co_leaseDurationMs :: jsnum

record acknowledge_outbox_command = idempotent_command +
  ak_outboxEventIds :: "ident list"
  ak_leaseToken :: string

record outbox_authority_command =
  oa_outboxEventId :: "ident option"
  oa_outboxLeaseToken :: "string option"

section \<open>Claiming\<close>

text \<open>\<open>WHERE acknowledged_at IS NULL ORDER BY sequence\<close>.\<close>

definition pending :: "database \<Rightarrow> outbox_row list" where
  "pending d = filter (\<lambda>r. ob_acknowledged_at r = None) (d_outbox d)"

definition leased_rows :: "ident \<Rightarrow> string \<Rightarrow> database \<Rightarrow> outbox_row list" where
  "leased_rows holder token d =
     filter (\<lambda>r. ob_lease_holder r = Some holder \<and> ob_lease_token r = Some token) (pending d)"

definition outbox_leased :: "instant \<Rightarrow> outbox_row \<Rightarrow> bool" where
  "outbox_leased at r = (case ob_lease_expires_at r of None \<Rightarrow> False | Some e \<Rightarrow> e > at)"

definition mapOutboxEvent :: "outbox_row \<Rightarrow> outbox_view" where
  "mapOutboxEvent row =
     \<lparr>ov_cursor = ob_sequence row, ov_id = ob_id row, ov_topic = ob_topic row,
      ov_aggregateType = ob_aggregate_type row, ov_aggregateId = ob_aggregate_id row,
      ov_payload = ob_payload row, ov_deliveryAttempts = ob_delivery_attempts row,
      ov_leaseHolderPrincipalId = ob_lease_holder row,
      ov_leaseExpiresAt = ob_lease_expires_at row,
      ov_acknowledgedAt = ob_acknowledged_at row, ov_createdAt = ob_created_at row\<rparr>"

definition set_claimed :: "ident \<Rightarrow> string \<Rightarrow> instant \<Rightarrow> outbox_row \<Rightarrow> outbox_row" where
  "set_claimed holder leaseToken leaseExpiresAt r =
     r\<lparr>ob_lease_holder := Some holder, ob_lease_token := Some leaseToken,
       ob_lease_expires_at := Some leaseExpiresAt,
       ob_delivery_attempts := ob_delivery_attempts r + 1\<rparr>"

definition set_acknowledged :: "instant \<Rightarrow> ident \<Rightarrow> outbox_row \<Rightarrow> outbox_row" where
  "set_acknowledged at by r =
     r\<lparr>ob_acknowledged_at := Some at, ob_acknowledged_by := Some by, ob_lease_holder := None,
       ob_lease_token := None, ob_lease_expires_at := None\<rparr>"

definition update_outbox_event :: "(outbox_row \<Rightarrow> outbox_row) \<Rightarrow> ident \<Rightarrow> unit kop" where
  "update_outbox_event f i = update_where d_outbox_update (\<lambda>r. ob_id r = i) f"

definition read_outbox_event :: "ident \<Rightarrow> outbox_view kop" where
  "read_outbox_event i = bindM (requireOutboxEvent i) (\<lambda>r. ret (mapOutboxEvent r))"

definition claimOutboxEvents ::
  "claim_outbox_command \<Rightarrow> principal_row \<Rightarrow> string \<Rightarrow> command_result kop" where
  "claimOutboxEvents command prin corr =
     seqM (requireKind prin Runtime)
    (bindM (boundedLimit (co_limit command)) (\<lambda>limit.
     bindM (boundedDuration (co_leaseDurationMs command)) (\<lambda>leaseDurationMs.
     bindM clock (\<lambda>at.
     bindM (idFactory ''outbox_lease'') (\<lambda>leaseToken.
     let leaseExpiresAt = at + leaseDurationMs in
     bindM (query (\<lambda>d. take limit (pending d))) (\<lambda>candidates.
     let claimable = map ob_id (takeWhile (\<lambda>r. \<not> outbox_leased at r) candidates) in
     seqM (forM claimable (update_outbox_event (set_claimed (pr_id prin) leaseToken leaseExpiresAt)))
    (bindM (mapM claimable read_outbox_event) (\<lambda>outboxEvents.
     ret ((command_result_of ClaimOutboxEvents leaseToken)
            \<lparr>cr_leaseToken := Some leaseToken,
             cr_leaseExpiresAt := (if outboxEvents = [] then None else Some leaseExpiresAt),
             cr_outboxEvents := Some outboxEvents\<rparr>)))))))))"

section \<open>Acknowledging\<close>

text \<open>The check of one event in the acknowledgement loop: the clock is read last.\<close>

definition check_acknowledged :: "ident \<Rightarrow> string \<Rightarrow> outbox_row \<Rightarrow> unit kop" where
  "check_acknowledged holder leaseToken event =
     seqM (guardM (ob_acknowledged_at event = None) (err Conflict))
    (seqM (guardM (ob_lease_holder event = Some holder \<and> ob_lease_token event = Some leaseToken)
             (err Conflict))
    (bindM (needM (err Conflict) (ob_lease_expires_at event)) (\<lambda>expiresAt.
     bindM clock (\<lambda>at.
     guardM (expiresAt > at) (err Conflict)))))"

definition acknowledgeOutboxEvents ::
  "acknowledge_outbox_command \<Rightarrow> principal_row \<Rightarrow> string \<Rightarrow> command_result kop" where
  "acknowledgeOutboxEvents command prin corr =
     seqM (requireKind prin Runtime)
    (seqM (guardM (ak_outboxEventIds command \<noteq> []) (err InvalidCommand))
    (let ids = unique (ak_outboxEventIds command) in
     seqM (guardM (length ids = length (ak_outboxEventIds command)) (err InvalidCommand))
    (seqM (requireNonEmpty (ak_leaseToken command))
    (bindM clock (\<lambda>at.
     bindM (query (leased_rows (pr_id prin) (ak_leaseToken command))) (\<lambda>leasedRows.
     seqM (guardM (map ob_id leasedRows = ids) (err InvalidCommand))
    (bindM (query (\<lambda>d. take (length leasedRows) (pending d))) (\<lambda>pendingPrefix.
     seqM (guardM (map (\<lambda>r. (ob_id r, ob_sequence r)) pendingPrefix =
                   map (\<lambda>r. (ob_id r, ob_sequence r)) leasedRows) (err Conflict))
    (bindM (mapM ids requireOutboxEvent) (\<lambda>events.
     seqM (forM events (check_acknowledged (pr_id prin) (ak_leaseToken command)))
    (seqM (forM (map ob_id events) (update_outbox_event (set_acknowledged at (pr_id prin))))
    (ret ((command_result_of AcknowledgeOutboxEvents (ak_leaseToken command))
            \<lparr>cr_relatedIds := Some [(''acknowledgedCount'', show_nat (length ids)),
                                   (''correlationId'', corr)]\<rparr>)))))))))))))"

section \<open>The claim as an authority\<close>

definition requireOutboxDeliveryAuthority ::
  "outbox_authority_command \<Rightarrow> principal_row \<Rightarrow> ident \<Rightarrow> (instant \<times> instant \<times> ident) kop" where
  "requireOutboxDeliveryAuthority command prin runId =
     seqM (requireKind prin Runtime)
    (let eventId = (case oa_outboxEventId command of None \<Rightarrow> [] | Some i \<Rightarrow> i);
         token = (case oa_outboxLeaseToken command of None \<Rightarrow> [] | Some t \<Rightarrow> t) in
     seqM (requireNonEmpty eventId)
    (seqM (requireNonEmpty token)
    (bindM (requireOutboxEvent eventId) (\<lambda>event.
     bindM clock (\<lambda>observed.
     seqM (guardM (ob_acknowledged_at event = None \<and> ob_lease_holder event = Some (pr_id prin) \<and>
                   ob_lease_token event = Some token \<and> outbox_leased observed event) (err Conflict))
    (seqM (guardM (ob_aggregate_type event = EntRun \<and> ob_aggregate_id event = runId \<and>
                   (ob_topic event = TopicRunActivationRequested \<or>
                    ob_topic event = TopicRunInputAvailable)) (err Conflict))
    (bindM (query (leased_rows (pr_id prin) token)) (\<lambda>leasedRows.
     seqM (guardM (map ob_id leasedRows = [eventId]) (err Conflict))
    (bindM (query (\<lambda>d. take 1 (pending d))) (\<lambda>frontier.
     seqM (guardM (map ob_id frontier = [eventId]) (err Conflict))
    (bindM (needM (err Conflict) (json_string_member ''runInputId'' (ob_payload event))) (\<lambda>runInputId.
     bindM (needM InternalError (ob_lease_expires_at event)) (\<lambda>leaseExpiresAt.
     ret (leaseExpiresAt, observed, runInputId))))))))))))))"

definition requireOutboxActivationAuthority ::
  "outbox_authority_command \<Rightarrow> principal_row \<Rightarrow> ident \<Rightarrow> (instant \<times> instant \<times> ident) kop" where
  "requireOutboxActivationAuthority command prin runId =
     bindM (requireOutboxDeliveryAuthority command prin runId) (\<lambda>(leaseExpiresAt, observedAt, runInputId).
     bindM (query (\<lambda>d. find_row ri_id runInputId (d_run_inputs d))) (\<lambda>runInput.
     seqM (guardM (case runInput of None \<Rightarrow> False
                   | Some i \<Rightarrow> ri_run_id i = runId \<and> ri_disposition i = Pending) (err Conflict))
          (ret (leaseExpiresAt, observedAt, runInputId))))"

definition requireOutboxProviderAuthority ::
  "outbox_authority_command \<Rightarrow> principal_row \<Rightarrow> ident \<Rightarrow> ident list \<Rightarrow> (instant \<times> instant \<times> ident) kop" where
  "requireOutboxProviderAuthority command prin runId runInputIds =
     bindM (requireOutboxDeliveryAuthority command prin runId) (\<lambda>(leaseExpiresAt, observedAt, runInputId).
     seqM (guardM (runInputId \<in> set runInputIds) (err Conflict))
          (ret (leaseExpiresAt, observedAt, runInputId)))"

section \<open>Replaying a claim\<close>

definition resolveCachedOutboxClaim ::
  "claim_outbox_command \<Rightarrow> command_result \<Rightarrow> principal_row \<Rightarrow> command_result kop" where
  "resolveCachedOutboxClaim command result prin =
     (case (truthy (cr_leaseToken result), cr_outboxEvents result) of
        (Some cachedToken, Some (cachedEvent # cachedEvents)) \<Rightarrow>
          bindM clock (\<lambda>at.
          let originalIds = map ov_id (cachedEvent # cachedEvents) in
          bindM (query (\<lambda>d. map (\<lambda>i. find_row ob_id i (d_outbox d)) originalIds)) (\<lambda>found.
          seqM (guardM (list_all (\<lambda>r. case r of None \<Rightarrow> False
                                        | Some row \<Rightarrow> ob_acknowledged_at row = None) found)
                  (err Conflict))
         (let rows = map the found;
              held = (\<lambda>row. ob_lease_holder row = Some (pr_id prin) \<and>
                            ob_lease_token row = Some cachedToken) in
          if list_all (\<lambda>row. held row \<and> outbox_leased at row) rows then
            let persistedExpiry = ob_lease_expires_at (hd rows) in
            seqM (guardM (list_all (\<lambda>row. ob_lease_expires_at row = persistedExpiry) rows) InternalError)
                 (ret (result\<lparr>cr_leaseExpiresAt := persistedExpiry,
                             cr_outboxEvents := Some (map mapOutboxEvent rows)\<rparr>))
          else
            seqM (guardM (list_all held rows) (err Conflict))
           (seqM (guardM (\<not> list_ex (outbox_leased at) rows) (err Conflict))
           (bindM (query (\<lambda>d. map ob_id (take (length originalIds) (pending d)))) (\<lambda>frontier.
            seqM (guardM (frontier = originalIds) (err Conflict))
           (bindM (boundedDuration (co_leaseDurationMs command)) (\<lambda>leaseDurationMs.
            bindM (idFactory ''outbox_lease'') (\<lambda>leaseToken.
            let leaseExpiresAt = at + leaseDurationMs in
            seqM (forM originalIds (update_outbox_event (set_claimed (pr_id prin) leaseToken leaseExpiresAt)))
           (bindM (mapM originalIds read_outbox_event) (\<lambda>outboxEvents.
            ret (result\<lparr>cr_entityId := leaseToken, cr_leaseToken := Some leaseToken,
                        cr_leaseExpiresAt := Some leaseExpiresAt,
                        cr_outboxEvents := Some outboxEvents\<rparr>))))))))))))
      | _ \<Rightarrow> ret result)"

section \<open>The queue\<close>

text \<open>
  The abstract queue: the ids acknowledged so far and the ids still pending, in order. The
  invariant: sequence numbers grow, ids are unique, acknowledged rows come first and carry no
  lease, and the lease columns of a row are set together.
\<close>

definition outbox_inv :: "database \<Rightarrow> bool" where
  "outbox_inv d \<longleftrightarrow>
     sorted_wrt (<) (map ob_sequence (d_outbox d)) \<and> distinct (map ob_id (d_outbox d)) \<and>
     d_outbox d = filter (\<lambda>r. ob_acknowledged_at r \<noteq> None) (d_outbox d) @ pending d \<and>
     list_all outbox_row_ok (d_outbox d)"

definition queue_of :: "database \<Rightarrow> ident list \<times> ident list" where
  "queue_of d = (map ob_id (filter (\<lambda>r. ob_acknowledged_at r \<noteq> None) (d_outbox d)),
                 map ob_id (pending d))"

definition event_of :: "ident \<Rightarrow> database \<Rightarrow> outbox_row option" where
  "event_of i d = find_row ob_id i (d_outbox d)"

lemma outbox_inv_queue: "outbox_inv d \<longleftrightarrow> queue_ok (d_outbox d)"
  by (simp add: outbox_inv_def queue_ok_def pending_def)

lemma keyed_outbox: "outbox_inv d \<Longrightarrow> distinct (map ob_id (d_outbox d))"
  by (simp add: outbox_inv_def)

lemma set_claimed_simps [simp]:
  "ob_id (set_claimed h t e r) = ob_id r" "ob_sequence (set_claimed h t e r) = ob_sequence r"
  "ob_acknowledged_at (set_claimed h t e r) = ob_acknowledged_at r"
  "ob_lease_holder (set_claimed h t e r) = Some h" "ob_lease_token (set_claimed h t e r) = Some t"
  "ob_lease_expires_at (set_claimed h t e r) = Some e"
  by (simp_all add: set_claimed_def)

lemma set_acknowledged_simps [simp]:
  "ob_id (set_acknowledged a b r) = ob_id r"
  "ob_sequence (set_acknowledged a b r) = ob_sequence r"
  "ob_acknowledged_at (set_acknowledged a b r) = Some a"
  "ob_lease_token (set_acknowledged a b r) = None"
  "ob_lease_holder (set_acknowledged a b r) = None"
  "ob_lease_expires_at (set_acknowledged a b r) = None"
  by (simp_all add: set_acknowledged_def)

lemma update_outbox_each:
  assumes "\<And>r. ob_id (f r) = ob_id r" and "distinct ks"
  shows "forM ks (update_outbox_event f) k =
     (Inr (), k_db_update (d_outbox_update (update_rows (\<lambda>r. ob_id r \<in> set ks) f)) k)"
  using outbox_table.update_each [of f ks k, OF assms]
  by (simp add: update_outbox_event_def [abs_def])

lemma requireOutboxEvent_run:
  "requireOutboxEvent i k =
     (case event_of i (k_db k) of None \<Rightarrow> (Inl (err NotFound), k) | Some r \<Rightarrow> (Inr r, k))"
  by (simp add: requireOutboxEvent_def requireRow_def run_simps event_of_def split: option.split)

lemma mapM_requireOutboxEvent:
  assumes "distinct (map ob_id (d_outbox (k_db k)))" and "set rows \<subseteq> set (d_outbox (k_db k))"
  shows "mapM (map ob_id rows) requireOutboxEvent k = (Inr rows, k)"
  using assms(2)
  by (induction rows)
     (simp_all add: run_simps requireOutboxEvent_run event_of_def find_row_member [OF assms(1)])

lemma mapM_read_outbox_event:
  assumes "distinct (map ob_id (d_outbox (k_db k)))" and "set rows \<subseteq> set (d_outbox (k_db k))"
  shows "mapM (map ob_id rows) read_outbox_event k = (Inr (map mapOutboxEvent rows), k)"
  using assms(2)
  by (induction rows)
     (simp_all add: run_simps read_outbox_event_def requireOutboxEvent_run event_of_def
       find_row_member [OF assms(1)])

lemma pending_subset: "set (pending d) \<subseteq> set (d_outbox d)"
  by (auto simp: pending_def)

lemma distinct_pending: "outbox_inv d \<Longrightarrow> distinct (map ob_id (pending d))"
  by (auto simp: outbox_inv_def pending_def distinct_map_filter)

lemma event_of_update:
  "(\<And>r. ob_id (f r) = ob_id r) \<Longrightarrow>
   event_of i (d_outbox_update (update_rows (\<lambda>r. ob_id r \<in> A) f) d) =
     map_option (\<lambda>r. if i \<in> A then f r else r) (event_of i d)"
  by (auto simp: event_of_def find_row_update dest: find_row_Some
      intro!: option.map_cong split: option.splits)

subsection \<open>What the handlers do to the queue\<close>

definition asked_limit :: "jsnum option \<Rightarrow> nat \<Rightarrow> bool" where
  "asked_limit l n \<longleftrightarrow> (l = None \<and> n = 100 \<or> (\<exists>m. l = Some (JInt m) \<and> 1 \<le> m \<and> m \<le> 500 \<and> n = nat m))"

lemma wp_intro_boundedLimit [wp_intros]:
  "(\<And>n. asked_limit l n \<Longrightarrow> Q n s) \<Longrightarrow> E (err InvalidCommand) s \<Longrightarrow> wp (boundedLimit l) Q E s"
  by (auto simp: wp_boundedLimit asked_limit_def split: option.split jsnum.split)

lemma wp_intro_requireKind [wp_intros]:
  "(pr_kind prin = kind \<Longrightarrow> Q () s) \<Longrightarrow> E (err Forbidden) s \<Longrightarrow> wp (requireKind prin kind) Q E s"
  by (simp add: requireKind_def wp_simps)

lemma wp_update_each:
  assumes "\<And>r. ob_id (f r) = ob_id r" and "distinct ks"
    and "Q () (k_db_update (d_outbox_update (update_rows (\<lambda>r. ob_id r \<in> set ks) f)) k)"
  shows "wp (forM ks (update_outbox_event f)) Q E k"
  using assms(3) by (simp add: wp_def update_outbox_each [of f, OF assms(1,2)])

lemma wp_read_each:
  assumes "distinct (map ob_id (d_outbox (k_db k)))" and "set ks \<subseteq> ob_id ` set (d_outbox (k_db k))"
    and "\<And>rows. map ob_id rows = ks \<Longrightarrow> set rows \<subseteq> set (d_outbox (k_db k)) \<Longrightarrow>
           Q (map mapOutboxEvent rows) k"
  shows "wp (mapM ks read_outbox_event) Q E k"
proof -
  define rows where "rows = map (\<lambda>i. the (event_of i (k_db k))) ks"
  have found: "ob_id (the (event_of i (k_db k))) = i \<and> the (event_of i (k_db k)) \<in> set (d_outbox (k_db k))"
    if "i \<in> set ks" for i
    using that assms(2) find_row_member [OF assms(1)] by (auto simp: event_of_def)
  then have ids: "map ob_id rows = ks" and sub: "set rows \<subseteq> set (d_outbox (k_db k))"
    unfolding rows_def by (auto simp: map_idI)
  show ?thesis
    using assms(3) [OF ids sub] mapM_read_outbox_event [OF assms(1) sub] ids by (simp add: wp_def)
qed

text \<open>The prefix a claim takes, and the database after it.\<close>

definition free_prefix :: "nat \<Rightarrow> instant \<Rightarrow> database \<Rightarrow> ident list" where
  "free_prefix limit at d = map ob_id (takeWhile (\<lambda>r. \<not> outbox_leased at r) (take limit (pending d)))"

definition claim_rows :: "ident list \<Rightarrow> ident \<Rightarrow> string \<Rightarrow> instant \<Rightarrow> database \<Rightarrow> database" where
  "claim_rows ids holder token expiresAt =
     d_outbox_update (update_rows (\<lambda>r. ob_id r \<in> set ids) (set_claimed holder token expiresAt))"

lemma free_prefix_facts:
  assumes "outbox_inv d"
  shows "distinct (free_prefix n at d)" "set (free_prefix n at d) \<subseteq> ob_id ` set (d_outbox d)"
    "free_prefix n at d = take (length (free_prefix n at d)) (map ob_id (pending d))"
proof -
  let ?tw = "takeWhile (\<lambda>r. \<not> outbox_leased at r) (take n (pending d))"
  have p: "?tw = take (length ?tw) (pending d)"
    by (metis (no_types, lifting) append_eq_conv_conj takeWhile_dropWhile_id append_take_drop_id append_assoc)
  then show "free_prefix n at d = take (length (free_prefix n at d)) (map ob_id (pending d))"
    unfolding free_prefix_def by (metis length_map take_map)
  then show "distinct (free_prefix n at d)"
    using distinct_take [OF distinct_pending [OF assms]] by metis
  have "set ?tw \<subseteq> set (pending d)"
    using p by (metis set_take_subset)
  then show "set (free_prefix n at d) \<subseteq> ob_id ` set (d_outbox d)"
    unfolding free_prefix_def using pending_subset [of d] by auto
qed

lemma ids_claim_rows: "map ob_id (d_outbox (claim_rows ids h t e d)) = map ob_id (d_outbox d)"
  by (simp add: claim_rows_def map_key_update)

lemma wp_claim_loop:
  assumes "outbox_inv (k_db k)" and "distinct ids" and "set ids \<subseteq> ob_id ` set (d_outbox (k_db k))"
    and "\<And>rows k'. k_db k' = claim_rows ids h t e (k_db k) \<Longrightarrow> map ob_id rows = ids \<Longrightarrow>
           set rows \<subseteq> set (d_outbox (k_db k')) \<Longrightarrow> wp (g (map mapOutboxEvent rows)) Q E k'"
  shows "wp (forM ids (update_outbox_event (set_claimed h t e)))
           (\<lambda>_. wp (bindM (mapM ids read_outbox_event) g) Q E) E k"
proof (rule wp_update_each [OF _ assms(2)])
  let ?k' = "k_db_update (d_outbox_update (update_rows (\<lambda>r. ob_id r \<in> set ids) (set_claimed h t e))) k"
  have db: "k_db ?k' = claim_rows ids h t e (k_db k)"
    by (simp add: claim_rows_def)
  show "wp (bindM (mapM ids read_outbox_event) g) Q E ?k'"
    unfolding wp_bindM
  proof (rule wp_read_each)
    show "distinct (map ob_id (d_outbox (k_db ?k')))"
      unfolding db ids_claim_rows by (rule keyed_outbox [OF assms(1)])
    show "set ids \<subseteq> ob_id ` set (d_outbox (k_db ?k'))"
      unfolding db using assms(3) ids_claim_rows [of ids h t e "k_db k"] by (metis list.set_map)
    show "wp (g (map mapOutboxEvent rows)) Q E ?k'"
      if "map ob_id rows = ids" "set rows \<subseteq> set (d_outbox (k_db ?k'))" for rows
      by (rule assms(4) [OF db that])
  qed
qed simp

lemma wp_claim:
  assumes "outbox_inv (k_db k)"
    and "\<And>n dur rows k'. pr_kind prin = Runtime \<Longrightarrow> asked_limit (co_limit c) n \<Longrightarrow>
       co_leaseDurationMs c = JInt dur \<Longrightarrow> 1000 \<le> dur \<Longrightarrow>
       k_db k' = claim_rows (free_prefix n (k_clock k (k_ticks k)) (k_db k)) (pr_id prin)
         (k_ids k ''outbox_lease'' (k_drawn k)) (k_clock k (k_ticks k) + dur) (k_db k) \<Longrightarrow>
       map ob_id rows = free_prefix n (k_clock k (k_ticks k)) (k_db k) \<Longrightarrow>
       set rows \<subseteq> set (d_outbox (k_db k')) \<Longrightarrow>
       Q ((command_result_of ClaimOutboxEvents (k_ids k ''outbox_lease'' (k_drawn k)))
            \<lparr>cr_leaseToken := Some (k_ids k ''outbox_lease'' (k_drawn k)),
             cr_leaseExpiresAt := (if rows = [] then None else Some (k_clock k (k_ticks k) + dur)),
             cr_outboxEvents := Some (map mapOutboxEvent rows)\<rparr>) k'"
    and "\<And>e. E (err e) k"
  shows "wp (claimOutboxEvents c prin corr) Q E k"
proof -
  have fp: "distinct (free_prefix n at (k_db k))"
    "set (free_prefix n at (k_db k)) \<subseteq> ob_id ` set (d_outbox (k_db k))" for n at
    using free_prefix_facts [OF assms(1)] by blast+
  show ?thesis
    unfolding claimOutboxEvents_def Let_def
    by (intro wp_intros assms(3), fold free_prefix_def, rule wp_claim_loop)
       (simp_all add: assms(1) fp wp_ret assms(2) split del: if_split)
qed

text \<open>How the two updates move the queue.\<close>

lemma queue_claim_rows: "queue_of (claim_rows ids h t e d) = queue_of d"
  by (induction "d_outbox d" arbitrary: d)
     (simp_all add: queue_of_def pending_def claim_rows_def update_rows_def filter_map o_def)

lemma outbox_inv_claim_rows:
  assumes "outbox_inv d" and "set ids \<subseteq> set (map ob_id (pending d))"
  shows "outbox_inv (claim_rows ids h t e d)"
proof -
  let ?g = "\<lambda>r. if ob_id r \<in> set ids then set_claimed h t e r else r"
  have rows: "d_outbox (claim_rows ids h t e d) = map ?g (d_outbox d)"
    by (simp add: claim_rows_def update_rows_def)
  have "d_outbox d = filter (\<lambda>r. ob_acknowledged_at r \<noteq> None) (d_outbox d) @ pending d"
    using assms(1) by (simp add: outbox_inv_def)
  then have "map ?g (d_outbox d) =
      map ?g (filter (\<lambda>r. ob_acknowledged_at r \<noteq> None) (d_outbox d)) @ map ?g (pending d)"
    by (metis map_append)
  then have order: "map ?g (d_outbox d) = filter (\<lambda>r. ob_acknowledged_at r \<noteq> None) (map ?g (d_outbox d)) @
      filter (\<lambda>r. ob_acknowledged_at r = None) (map ?g (d_outbox d))"
    by (auto simp: filter_map o_def pending_def if_distrib filter_empty_conv cong: if_cong)
  have unacked: "ob_acknowledged_at r = None"
    if "r \<in> set (d_outbox d)" and "ob_id r \<in> set ids" for r
  proof -
    from that(2) assms(2) obtain q
      where "q \<in> set (d_outbox d)" "ob_id q = ob_id r" "ob_acknowledged_at q = None"
      by (auto simp: pending_def)
    then show "ob_acknowledged_at r = None"
      using that(1) keyed_outbox [OF assms(1)] by (metis find_row_member option.inject)
  qed
  have same: "map ob_id (map ?g (d_outbox d)) = map ob_id (d_outbox d)"
    "map ob_sequence (map ?g (d_outbox d)) = map ob_sequence (d_outbox d)"
    by simp_all
  have "list_all outbox_row_ok (map ?g (d_outbox d))"
    unfolding list_all_iff
  proof
    fix r assume "r \<in> set (map ?g (d_outbox d))"
    then obtain q where q: "q \<in> set (d_outbox d)" "r = ?g q" by auto
    then have "outbox_row_ok q" using assms(1) by (auto simp: outbox_inv_def list_all_iff)
    then show "outbox_row_ok r" using q unacked [of q] by (auto simp: outbox_row_ok_def)
  qed
  moreover have "sorted_wrt (<) (map ob_sequence (d_outbox d))" "distinct (map ob_id (d_outbox d))"
    using assms(1) by (simp_all add: outbox_inv_def)
  ultimately show ?thesis
    unfolding outbox_inv_def pending_def rows same using order by blast
qed

definition ack_rows :: "ident list \<Rightarrow> ident \<Rightarrow> instant \<Rightarrow> database \<Rightarrow> database" where
  "ack_rows ids by at =
     d_outbox_update (update_rows (\<lambda>r. ob_id r \<in> set ids) (set_acknowledged at by))"

definition held_row :: "ident \<Rightarrow> string \<Rightarrow> outbox_row \<Rightarrow> bool" where
  "held_row holder token r \<longleftrightarrow>
     ob_acknowledged_at r = None \<and> ob_lease_holder r = Some holder \<and> ob_lease_token r = Some token"

lemma check_acknowledged_run:
  "check_acknowledged h t r k =
     (if held_row h t r then
        (case ob_lease_expires_at r of
           None \<Rightarrow> (Inl (err Conflict), k)
         | Some e \<Rightarrow> (if e > k_clock k (k_ticks k) then Inr () else Inl (err Conflict),
                      k\<lparr>k_ticks := Suc (k_ticks k)\<rparr>))
      else (Inl (err Conflict), k))"
  by (auto simp: check_acknowledged_def held_row_def run_simps split: option.split)

lemma check_loop_returned:
  assumes "forM events (check_acknowledged h t) k = (Inr u, k')"
  shows "k_db k' = k_db k \<and>
    (\<forall>r \<in> set events. held_row h t r \<and> (\<exists>n \<ge> k_ticks k. outbox_leased (k_clock k n) r))"
  using assms
proof (induction events arbitrary: k)
  case Nil
  then show ?case by (simp add: run_simps)
next
  case (Cons r rs)
  from Cons.prems obtain k1 where one: "check_acknowledged h t r k = (Inr (), k1)"
    and rest: "forM rs (check_acknowledged h t) k1 = (Inr u, k')"
    by (auto elim: seqM_returned)
  from one have k1: "k1 = k\<lparr>k_ticks := Suc (k_ticks k)\<rparr>" and r: "held_row h t r"
    "outbox_leased (k_clock k (k_ticks k)) r"
    by (auto simp: check_acknowledged_run outbox_leased_def split: if_splits option.splits)
  from Cons.IH [OF rest] k1 have "k_db k' = k_db k"
    "\<forall>q \<in> set rs. held_row h t q \<and> (\<exists>n \<ge> k_ticks k. outbox_leased (k_clock k n) q)"
    by (auto dest: Suc_leD)
  with r show ?case by auto
qed

lemma check_loop_live:
  assumes "\<forall>r \<in> set events. held_row h t r \<and>
     (\<forall>n \<in> {k_ticks k ..< k_ticks k + length events}. outbox_leased (k_clock k n) r)"
  shows "\<exists>k'. forM events (check_acknowledged h t) k = (Inr (), k') \<and> k_db k' = k_db k"
  using assms
proof (induction events arbitrary: k)
  case Nil
  then show ?case by (simp add: run_simps)
next
  case (Cons r rs)
  let ?k1 = "k\<lparr>k_ticks := Suc (k_ticks k)\<rparr>"
  have "outbox_leased (k_clock k (k_ticks k)) r" "held_row h t r"
    using Cons.prems by simp_all
  then have "check_acknowledged h t r k = (Inr (), ?k1)"
    by (auto simp: check_acknowledged_run outbox_leased_def split: option.splits)
  moreover have "\<exists>k'. forM rs (check_acknowledged h t) ?k1 = (Inr (), k') \<and> k_db k' = k_db ?k1"
    by (rule Cons.IH) (use Cons.prems in auto)
  ultimately show ?case by (auto simp: seqM_run)
qed

lemma frames_check_loop: "frames (on_db g) (forM events (check_acknowledged h t))"
  unfolding check_acknowledged_def by (intro frame_rules)

lemma wp_check_loop:
  assumes "\<And>k'. k_db k' = k_db k \<Longrightarrow>
     (\<forall>r \<in> set events. held_row h t r \<and> (\<exists>n \<ge> k_ticks k. outbox_leased (k_clock k n) r)) \<Longrightarrow> Q () k'"
    and "\<And>e k'. k_db k' = k_db k \<Longrightarrow> E e k'"
  shows "wp (forM events (check_acknowledged h t)) Q E k"
  using assms check_loop_returned [of events h t k]
    frames_run [OF frames_check_loop [of "\<lambda>d. d" events h t]]
  by (auto simp: on_db_def intro!: wpI)

lemma leased_rows_subset: "set (leased_rows h t d) \<subseteq> set (pending d)"
  by (auto simp: leased_rows_def)

lemma wp_require_each:
  assumes "outbox_inv (k_db k)" and "ks = map ob_id rows" and "set rows \<subseteq> set (d_outbox (k_db k))"
    and "Q rows k"
  shows "wp (mapM ks requireOutboxEvent) Q E k"
  using assms mapM_requireOutboxEvent [OF keyed_outbox [OF assms(1)] assms(3)] by (simp add: wp_def)

lemma rows_by_id:
  "outbox_inv d \<Longrightarrow> set rs \<subseteq> set (d_outbox d) \<Longrightarrow> set qs \<subseteq> set (d_outbox d) \<Longrightarrow>
   map ob_id rs = map ob_id qs \<Longrightarrow> rs = qs"
  using keyed_outbox [of d] by (auto simp: distinct_map intro: map_inj_on inj_on_subset)

lemma wp_acknowledge:
  assumes "outbox_inv (k_db k)"
    and "\<And>batch k'. pr_kind prin = Runtime \<Longrightarrow> distinct (ak_outboxEventIds c) \<Longrightarrow> batch \<noteq> [] \<Longrightarrow>
       map ob_id batch = ak_outboxEventIds c \<Longrightarrow>
       leased_rows (pr_id prin) (ak_leaseToken c) (k_db k) = batch \<Longrightarrow>
       batch = take (length batch) (pending (k_db k)) \<Longrightarrow>
       (\<forall>r \<in> set batch. held_row (pr_id prin) (ak_leaseToken c) r \<and>
          (\<exists>n \<ge> k_ticks k. outbox_leased (k_clock k n) r)) \<Longrightarrow>
       k_db k' = ack_rows (ak_outboxEventIds c) (pr_id prin) (k_clock k (k_ticks k)) (k_db k) \<Longrightarrow>
       Q ((command_result_of AcknowledgeOutboxEvents (ak_leaseToken c))
            \<lparr>cr_relatedIds := Some [(''acknowledgedCount'', show_nat (length batch)),
                                   (''correlationId'', corr)]\<rparr>) k'"
    and "\<And>e k'. k_db k' = k_db k \<Longrightarrow> E e k'"
  shows "wp (acknowledgeOutboxEvents c prin corr) Q E k"
proof -
  let ?batch = "leased_rows (pr_id prin) (ak_leaseToken c) (k_db k)" and ?ids = "ak_outboxEventIds c"
  let ?k1 = "k\<lparr>k_ticks := Suc (k_ticks k)\<rparr>"
  have sub: "set ?batch \<subseteq> set (d_outbox (k_db k))"
    using leased_rows_subset pending_subset by blast
  have tail: "wp (seqM (forM ?batch (check_acknowledged (pr_id prin) (ak_leaseToken c)))
           (seqM (forM (map ob_id ?batch) (update_outbox_event (set_acknowledged (k_clock k (k_ticks k)) (pr_id prin))))
           (ret ((command_result_of AcknowledgeOutboxEvents (ak_leaseToken c))
              \<lparr>cr_relatedIds := Some [(''acknowledgedCount'', show_nat (length ?ids)),
                                     (''correlationId'', corr)]\<rparr>)))) Q E ?k1"
    if "pr_kind prin = Runtime" "distinct ?ids" "?ids \<noteq> []" "map ob_id ?batch = ?ids"
      "take (length ?batch) (pending (k_db k)) = ?batch"
  proof (intro wp_intros wp_check_loop)
    fix k' :: kernel assume db: "k_db k' = k_db ?k1" and held: "\<forall>r \<in> set ?batch. held_row (pr_id prin) (ak_leaseToken c) r \<and>
        (\<exists>n \<ge> k_ticks ?k1. outbox_leased (k_clock ?k1 n) r)"
    show "wp (forM (map ob_id ?batch) (update_outbox_event (set_acknowledged (k_clock k (k_ticks k)) (pr_id prin))))
       (\<lambda>_. wp (ret ((command_result_of AcknowledgeOutboxEvents (ak_leaseToken c))
              \<lparr>cr_relatedIds := Some [(''acknowledgedCount'', show_nat (length ?ids)),
                                     (''correlationId'', corr)]\<rparr>)) Q E) E k'"
      unfolding that(4)
      by (rule wp_update_each, simp, rule that(2), rule wp_intro_ret, subst that(4) [symmetric], subst length_map,
          rule assms(2) [OF that(1,2) _ that(4)])
         (use that held db in \<open>auto simp: ack_rows_def dest: Suc_leD\<close>)
  qed (simp add: assms(3))
  have prefix: "take (length ?batch) (pending (k_db k)) = ?batch"
    if "map (\<lambda>r. (ob_id r, ob_sequence r)) (take (length ?batch) (pending (k_db k))) =
        map (\<lambda>r. (ob_id r, ob_sequence r)) ?batch"
  proof (rule rows_by_id [OF assms(1) _ sub])
    show "set (take (length ?batch) (pending (k_db k))) \<subseteq> set (d_outbox (k_db k))"
      using set_take_subset pending_subset by fast
    show "map ob_id (take (length ?batch) (pending (k_db k))) = map ob_id ?batch"
      using arg_cong [OF that, of "map fst"] by (simp add: o_def)
  qed
  show ?thesis
    unfolding acknowledgeOutboxEvents_def Let_def
  proof (intro wp_intros assms(3))
    assume "pr_kind prin = Runtime" "?ids \<noteq> []" and d: "length (unique ?ids) = length ?ids"
      and ids: "map ob_id (leased_rows (pr_id prin) (ak_leaseToken c) (k_db ?k1)) = unique ?ids"
      and pre: "map (\<lambda>r. (ob_id r, ob_sequence r))
         (take (length (leased_rows (pr_id prin) (ak_leaseToken c) (k_db ?k1))) (pending (k_db ?k1))) =
         map (\<lambda>r. (ob_id r, ob_sequence r)) (leased_rows (pr_id prin) (ak_leaseToken c) (k_db ?k1))"
    then show "wp (mapM (unique ?ids) requireOutboxEvent)
       (\<lambda>events. wp (seqM (forM events (check_acknowledged (pr_id prin) (ak_leaseToken c)))
           (seqM (forM (map ob_id events) (update_outbox_event (set_acknowledged (k_clock k (k_ticks k)) (pr_id prin))))
           (ret ((command_result_of AcknowledgeOutboxEvents (ak_leaseToken c))
              \<lparr>cr_relatedIds := Some [(''acknowledgedCount'', show_nat (length (unique ?ids))),
                                     (''correlationId'', corr)]\<rparr>)))) Q E) E ?k1"
      using tail prefix sub
      by (intro wp_require_each [where rows = ?batch]) (simp_all add: assms(1) unique_eq_length unique_id)
  qed simp_all
qed

lemma acknowledge_prefix:
  assumes "outbox_inv d" and "ids = map ob_id (take n (pending d))"
  shows "outbox_inv (ack_rows ids actor at d)" and "pending (ack_rows ids actor at d) = drop n (pending d)"
    and "queue_of (ack_rows ids actor at d) = (fst (queue_of d) @ ids, drop n (snd (queue_of d)))"
proof -
  let ?acked = "\<lambda>r. ob_acknowledged_at r \<noteq> None" and ?g = "\<lambda>r. if ob_id r \<in> set ids then set_acknowledged at actor r else r"
  define A where "A = filter ?acked (d_outbox d)"
  define B where "B = take n (pending d)"
  define C where "C = drop n (pending d)"
  have split: "d_outbox d = A @ B @ C" and pen: "pending d = B @ C"
    using assms(1) by (simp_all add: outbox_inv_def A_def B_def C_def)
  have "distinct (map ob_id (A @ B @ C))"
    using keyed_outbox [OF assms(1)] unfolding split .
  then have "ob_id r \<notin> set ids" if "r \<in> set A \<or> r \<in> set C" for r
    using that assms(2) by (auto simp: B_def [symmetric])
  then have g: "map ?g A = A" "map ?g C = C" "map ?g B = map (set_acknowledged at actor) B"
    using assms(2) by (auto simp: B_def [symmetric] intro!: map_idI)
  have rows: "d_outbox (ack_rows ids actor at d) = A @ map (set_acknowledged at actor) B @ C"
    by (simp add: ack_rows_def update_rows_def split g)
  have fA: "filter ?acked A = A" "filter (\<lambda>r. ob_acknowledged_at r = None) A = []"
    by (auto simp: A_def filter_empty_conv)
  have "set C \<subseteq> set (pending d)" by (simp add: pen)
  then have fC: "filter ?acked C = []" "filter (\<lambda>r. ob_acknowledged_at r = None) C = C"
    by (auto simp: pending_def filter_empty_conv filter_id_conv)
  have pend: "pending (ack_rows ids actor at d) = C"
    using fA fC by (auto simp: pending_def rows filter_map o_def)
  then show "pending (ack_rows ids actor at d) = drop n (pending d)" by (simp add: C_def)
  have acked: "filter ?acked (d_outbox (ack_rows ids actor at d)) = A @ map (set_acknowledged at actor) B"
    using fA fC by (auto simp: rows filter_map o_def)
  show "queue_of (ack_rows ids actor at d) = (fst (queue_of d) @ ids, drop n (snd (queue_of d)))"
    unfolding queue_of_def acked pend A_def [symmetric]
    by (simp add: assms(2) B_def C_def drop_map o_def)
  show "outbox_inv (ack_rows ids actor at d)"
    unfolding outbox_inv_def acked pend
  proof (intro conjI)
    show "sorted_wrt (<) (map ob_sequence (d_outbox (ack_rows ids actor at d)))"
      "distinct (map ob_id (d_outbox (ack_rows ids actor at d)))"
      using assms(1) unfolding outbox_inv_def rows split by (simp_all add: o_def)
    show "list_all outbox_row_ok (d_outbox (ack_rows ids actor at d))"
      using assms(1) unfolding outbox_inv_def rows split
      by (auto simp: list.pred_map o_def outbox_row_ok_def list_all_iff [of _ B])
  qed (simp add: rows)
qed

text \<open>The operations of the queue keep the invariant.\<close>

lemma append_queue:
  assumes "outbox_inv d" and "ob_sequence r = next_sequence ob_sequence (d_outbox d)"
    and "\<not> list_ex (\<lambda>q. outbox_clash q r) (d_outbox d)"
    and "ob_acknowledged_at r = None" and "outbox_row_ok r"
  shows "outbox_inv (d_outbox_update (\<lambda>rs. rs @ [r]) d)"
    and "queue_of (d_outbox_update (\<lambda>rs. rs @ [r]) d) = (fst (queue_of d), snd (queue_of d) @ [ob_id r])"
proof -
  have "sorted_wrt (<) (map ob_sequence (d_outbox d @ [r]))"
    using assms(1,2) by (intro sorted_snoc_next) (simp_all add: outbox_inv_def)
  moreover have "distinct (map ob_id (d_outbox d @ [r]))"
    using keyed_outbox [OF assms(1)] outbox_table.fresh_key [OF assms(3)] by simp
  moreover have "d_outbox d = filter (\<lambda>r. ob_acknowledged_at r \<noteq> None) (d_outbox d) @ pending d"
    and "list_all outbox_row_ok (d_outbox d)"
    using assms(1) by (simp_all add: outbox_inv_def)
  ultimately show "outbox_inv (d_outbox_update (\<lambda>rs. rs @ [r]) d)"
    using assms(4,5) unfolding outbox_inv_def by (simp add: pending_def)
  show "queue_of (d_outbox_update (\<lambda>rs. rs @ [r]) d) = (fst (queue_of d), snd (queue_of d) @ [ob_id r])"
    using assms(4) by (simp add: queue_of_def pending_def)
qed

lemma wp_enqueueOutbox:
  assumes "outbox_inv (k_db k)"
    and "\<And>k'. outbox_inv (k_db k') \<Longrightarrow>
       queue_of (k_db k') = (fst (queue_of (k_db k)), snd (queue_of (k_db k)) @ [k_ids k ''outbox'' (k_drawn k)]) \<Longrightarrow>
       Q () k'"
    and "\<And>k'. k_db k' = k_db k \<Longrightarrow> E ConstraintError k'"
  shows "wp (enqueueOutbox topic aty aid payload) Q E k"
  unfolding enqueueOutbox_def
  by (intro wp_intros; (rule assms(2))?)
     (simp_all add: assms(3) append_queue(1) [OF assms(1)] append_queue(2) [OF assms(1)] outbox_row_ok_def)

definition result_ids :: "command_result \<Rightarrow> ident list" where
  "result_ids res = (case cr_outboxEvents res of None \<Rightarrow> [] | Some es \<Rightarrow> map ov_id es)"

lemma claim_returned:
  assumes "outbox_inv (k_db k)" and "claimOutboxEvents c prin corr k = (Inr res, t)"
  obtains n dur token where "asked_limit (co_limit c) n" and "1000 \<le> dur" and "pr_kind prin = Runtime"
    and "result_ids res = free_prefix n (k_clock k (k_ticks k)) (k_db k)"
    and "cr_leaseToken res = Some token"
    and "result_ids res \<noteq> [] \<Longrightarrow> cr_leaseExpiresAt res = Some (k_clock k (k_ticks k) + dur)"
    and "k_db t = claim_rows (result_ids res) (pr_id prin) token (k_clock k (k_ticks k) + dur) (k_db k)"
proof -
  let ?at = "k_clock k (k_ticks k)"
  let ?Q = "\<lambda>res t. \<exists>n dur token. asked_limit (co_limit c) n \<and> 1000 \<le> dur \<and> pr_kind prin = Runtime \<and>
    result_ids res = free_prefix n ?at (k_db k) \<and> cr_leaseToken res = Some token \<and>
    (result_ids res \<noteq> [] \<longrightarrow> cr_leaseExpiresAt res = Some (?at + dur)) \<and>
    k_db t = claim_rows (result_ids res) (pr_id prin) token (?at + dur) (k_db k)"
  have "wp (claimOutboxEvents c prin corr) ?Q (\<lambda>_ _. True) k"
  proof (rule wp_claim [OF assms(1)])
    fix n dur rows and t :: kernel
    let ?token = "k_ids k ''outbox_lease'' (k_drawn k)"
    define res' where "res' = (command_result_of ClaimOutboxEvents ?token)\<lparr>cr_leaseToken := Some ?token,
       cr_leaseExpiresAt := (if rows = [] then None else Some (?at + dur)),
       cr_outboxEvents := Some (map mapOutboxEvent rows)\<rparr>"
    assume n: "pr_kind prin = Runtime" "asked_limit (co_limit c) n" "1000 \<le> dur"
      and t: "k_db t = claim_rows (free_prefix n ?at (k_db k)) (pr_id prin) ?token (?at + dur) (k_db k)"
      and rows: "map ob_id rows = free_prefix n ?at (k_db k)"
    have "rows = [] \<longleftrightarrow> free_prefix n ?at (k_db k) = []" using rows by (metis map_is_Nil_conv)
    then have "result_ids res' = free_prefix n ?at (k_db k)" "cr_leaseToken res' = Some ?token"
      "result_ids res' \<noteq> [] \<longrightarrow> cr_leaseExpiresAt res' = Some (?at + dur)"
      using rows by (simp_all add: res'_def result_ids_def o_def mapOutboxEvent_def)
    with n t have "?Q res' t" by auto
    then show "?Q ((command_result_of ClaimOutboxEvents ?token)\<lparr>cr_leaseToken := Some ?token,
       cr_leaseExpiresAt := (if rows = [] then None else Some (?at + dur)),
       cr_outboxEvents := Some (map mapOutboxEvent rows)\<rparr>) t" by (simp add: res'_def)
  qed simp_all
  from wp_returned [OF this assms(2)] show ?thesis by (elim exE conjE) (rule that, auto)
qed

subsection \<open>When an acknowledgement succeeds\<close>

lemma acknowledge_succeeds:
  assumes "outbox_inv (k_db k)" and "pr_kind prin = Runtime" and "js_trim (ak_leaseToken c) \<noteq> []"
    and batch: "batch = take (length batch) (pending (k_db k))" "batch \<noteq> []"
    and leased: "leased_rows (pr_id prin) (ak_leaseToken c) (k_db k) = batch"
    and ids: "ak_outboxEventIds c = map ob_id batch"
    and live: "\<forall>r \<in> set batch. \<forall>n \<in> {Suc (k_ticks k) ..< Suc (k_ticks k + length batch)}.
       outbox_leased (k_clock k n) r"
  shows "\<not> isl (fst (acknowledgeOutboxEvents c prin corr k))"
proof -
  let ?k1 = "k\<lparr>k_ticks := Suc (k_ticks k)\<rparr>"
  have sub: "set batch \<subseteq> set (d_outbox (k_db k))"
    using leased_rows_subset pending_subset leased by blast
  have d: "distinct (map ob_id batch)"
    using distinct_take [OF distinct_pending [OF assms(1)]] batch(1) by (metis take_map)
  have held: "\<forall>r \<in> set batch. held_row (pr_id prin) (ak_leaseToken c) r"
    unfolding leased [symmetric] by (auto simp: leased_rows_def pending_def held_row_def)
  have req: "mapM (map ob_id batch) requireOutboxEvent ?k1 = (Inr batch, ?k1)"
    by (rule mapM_requireOutboxEvent) (simp_all add: keyed_outbox [OF assms(1)] sub)
  have "\<forall>r \<in> set batch. held_row (pr_id prin) (ak_leaseToken c) r \<and>
      (\<forall>n \<in> {k_ticks ?k1 ..< k_ticks ?k1 + length batch}. outbox_leased (k_clock ?k1 n) r)"
    using held live by simp
  from check_loop_live [OF this] obtain k2
    where checks: "forM batch (check_acknowledged (pr_id prin) (ak_leaseToken c)) ?k1 = (Inr (), k2)" by blast
  show ?thesis
    unfolding acknowledgeOutboxEvents_def Let_def ids unique_id [OF d] requireNonEmpty_def requireKind_def
    using batch assms(2,3)
    by (simp add: run_simps leased req checks update_outbox_each [OF _ d] flip: batch(1))
qed

subsection \<open>What a delivery authority rests on\<close>

definition authorizes ::
  "outbox_row \<Rightarrow> outbox_authority_command \<Rightarrow> principal_row \<Rightarrow> ident \<Rightarrow> instant \<Rightarrow> instant \<Rightarrow> ident \<Rightarrow> database \<Rightarrow> bool" where
  "authorizes ev c prin run expiresAt at inputId d \<longleftrightarrow>
     event_of (ob_id ev) d = Some ev \<and> oa_outboxEventId c = Some (ob_id ev) \<and>
     oa_outboxLeaseToken c = ob_lease_token ev \<and> ob_lease_token ev \<noteq> None \<and>
     ob_lease_holder ev = Some (pr_id prin) \<and> ob_lease_expires_at ev = Some expiresAt \<and>
     at < expiresAt \<and> ob_aggregate_id ev = run \<and>
     json_string_member ''runInputId'' (ob_payload ev) = Some inputId \<and>
     map ob_id (take 1 (pending d)) = [ob_id ev] \<and>
     map ob_id (leased_rows (pr_id prin) (the (ob_lease_token ev)) d) = [ob_id ev]"

lemma wp_intro_requireOutboxEvent:
  "(\<And>r. event_of i (k_db k) = Some r \<Longrightarrow> ob_id r = i \<Longrightarrow> Q r k) \<Longrightarrow> E (err NotFound) k \<Longrightarrow>
   wp (requireOutboxEvent i) Q E k"
  using find_row_Some [of ob_id i "d_outbox (k_db k)"]
  by (auto simp: wp_def requireOutboxEvent_run event_of_def split: option.split)

lemma wp_delivery:
  assumes "\<And>ev e i k'. k_db k' = k_db k \<Longrightarrow>
      authorizes ev c prin run e (k_clock k (k_ticks k)) i (k_db k) \<Longrightarrow>
      Q (e, k_clock k (k_ticks k), i) k'"
    and "\<And>e k'. k_db k' = k_db k \<Longrightarrow> E e k'"
  shows "wp (requireOutboxDeliveryAuthority c prin run) Q E k"
proof -
  have id: "oa_outboxEventId c = Some (case oa_outboxEventId c of None \<Rightarrow> [] | Some i \<Rightarrow> i)"
    if "js_trim (case oa_outboxEventId c of None \<Rightarrow> [] | Some i \<Rightarrow> i) \<noteq> []"
    using that by (auto simp: js_trim_def split: option.splits)
  have token: "oa_outboxLeaseToken c = Some (case oa_outboxLeaseToken c of None \<Rightarrow> [] | Some i \<Rightarrow> i)"
    if "js_trim (case oa_outboxLeaseToken c of None \<Rightarrow> [] | Some i \<Rightarrow> i) \<noteq> []"
    using that by (auto simp: js_trim_def split: option.splits)
  show ?thesis
    unfolding requireOutboxDeliveryAuthority_def Let_def
    by (intro wp_intros wp_intro_requireOutboxEvent)
       (use id token in \<open>auto simp: assms(2) authorizes_def outbox_leased_def split: option.splits
          intro!: assms(1)\<close>)
qed

subsection \<open>What a replayed claim does\<close>

text \<open>The rows of the given events, all present.\<close>

definition rows_of :: "ident list \<Rightarrow> database \<Rightarrow> outbox_row list" where
  "rows_of ids d = map (\<lambda>i. the (event_of i d)) ids"

lemma wp_cached_claim:
  assumes "outbox_inv (k_db k)" and "truthy (cr_leaseToken cached) = Some tok"
    and "result_ids cached = ids" and "ids \<noteq> []"
    and found: "\<And>rows. rows = rows_of ids (k_db k) \<Longrightarrow> \<forall>i \<in> set ids. event_of i (k_db k) \<noteq> None \<Longrightarrow>
       \<forall>r \<in> set rows. held_row (pr_id prin) tok r \<Longrightarrow>
       (\<forall>r \<in> set rows. outbox_leased (k_clock k (k_ticks k)) r) \<Longrightarrow>
       (\<forall>r \<in> set rows. ob_lease_expires_at r = ob_lease_expires_at (hd rows)) \<Longrightarrow>
       Q (cached\<lparr>cr_leaseExpiresAt := ob_lease_expires_at (hd rows),
                 cr_outboxEvents := Some (map mapOutboxEvent rows)\<rparr>) (k\<lparr>k_ticks := Suc (k_ticks k)\<rparr>)"
    and renewed: "\<And>rows dur token k'. ids = map ob_id (take (length ids) (pending (k_db k))) \<Longrightarrow>
       \<forall>i \<in> set ids. event_of i (k_db k) \<noteq> None \<Longrightarrow> \<forall>r \<in> set (rows_of ids (k_db k)). held_row (pr_id prin) tok r \<Longrightarrow>
       \<forall>r \<in> set (rows_of ids (k_db k)). \<not> outbox_leased (k_clock k (k_ticks k)) r \<Longrightarrow>
       1000 \<le> dur \<Longrightarrow> k_db k' = claim_rows ids (pr_id prin) token (k_clock k (k_ticks k) + dur) (k_db k) \<Longrightarrow>
       map ob_id rows = ids \<Longrightarrow> set rows \<subseteq> set (d_outbox (k_db k')) \<Longrightarrow>
       Q (cached\<lparr>cr_entityId := token, cr_leaseToken := Some token,
                 cr_leaseExpiresAt := Some (k_clock k (k_ticks k) + dur),
                 cr_outboxEvents := Some (map mapOutboxEvent rows)\<rparr>) k'"
    and "\<And>e k'. k_db k' = k_db k \<Longrightarrow> E e k'"
  shows "wp (resolveCachedOutboxClaim c cached prin) Q E k"
proof -
  obtain e0 es where ev: "cr_outboxEvents cached = Some (e0 # es)" and ids: "map ov_id (e0 # es) = ids"
    using assms(3,4) by (auto simp: result_ids_def neq_Nil_conv split: option.splits)
  let ?rows = "rows_of ids (k_db k)"
  have rows: "map the (map (\<lambda>i. find_row ob_id i (d_outbox (k_db k))) ids) = ?rows"
    by (simp add: rows_of_def event_of_def)
  have present: "(\<forall>i \<in> set ids. event_of i (k_db k) \<noteq> None) \<and> (\<forall>r \<in> set ?rows. ob_acknowledged_at r = None)"
    if "list_all (case_option False (\<lambda>row. ob_acknowledged_at row = None))
      (map (\<lambda>i. find_row ob_id i (d_outbox (k_db k))) ids)"
    using that by (auto simp: list_all_iff rows_of_def event_of_def split: option.splits)
  have head: "distinct ids \<and> set ids \<subseteq> ob_id ` set (d_outbox (k_db k))"
    if "map ob_id (take (length ids) (pending (k_db k))) = ids"
  proof -
    have t: "take (length ids) (map ob_id (pending (k_db k))) = ids" using that by (simp add: take_map)
    have "set ids \<subseteq> set (map ob_id (pending (k_db k)))" by (subst t [symmetric]) (rule set_take_subset)
    moreover have "distinct ids" by (subst t [symmetric]) (intro distinct_take distinct_pending assms(1))
    ultimately show ?thesis using pending_subset [of "k_db k"] by auto
  qed
  have tick: "k_db (k\<lparr>k_ticks := m\<rparr>) = k_db k" "k_db (k\<lparr>k_ticks := m, k_drawn := m'\<rparr>) = k_db k" for m m'
    by simp_all
  show ?thesis
    unfolding resolveCachedOutboxClaim_def Let_def assms(2) ev prod.case option.case list.case ids
    by (intro wp_intros assms(7) wp_claim_loop; unfold tick rows; (rule found renewed)?;
        use present head in \<open>auto simp: assms(1) held_row_def list_all_iff list_ex_iff\<close>)
qed

section \<open>Properties\<close>

definition sample_outbox_row :: "nat \<Rightarrow> ident \<Rightarrow> outbox_row" where
  "sample_outbox_row n i =
     \<lparr>ob_sequence = n, ob_id = i, ob_topic = TopicRunActivationRequested, ob_aggregate_type = EntRun,
      ob_aggregate_id = ''run'', ob_payload = JObj [(''runInputId'', JStr ''in'')],
      ob_delivery_attempts = 0, ob_lease_holder = None, ob_lease_token = None,
      ob_lease_expires_at = None, ob_created_at = 0, ob_acknowledged_at = None,
      ob_acknowledged_by = None\<rparr>"

definition sample_queue :: kernel where
  "sample_queue = context_on (empty_database
     \<lparr>d_outbox := [sample_outbox_row 1 ''a'', sample_outbox_row 2 ''b'', sample_outbox_row 3 ''c'']\<rparr>)"

definition sample_claim :: claim_outbox_command where
  "sample_claim = \<lparr>idempotencyKey = ''k'', co_limit = Some (JInt 2), co_leaseDurationMs = JInt 300000\<rparr>"

lemma sample_queue_inv: "outbox_inv (k_db sample_queue)"
  by code_simp

text \<open>C6: A claim takes exactly the free head of the queue: the ids it returns are a prefix of the
  pending ids, at most as many as asked for, none of them under a live lease at the instant read;
  it stops early only at the end of the queue or at an event under a live lease, which it never
  skips. Afterwards these events, and no others, carry the caller's lease with the returned token
  until the returned deadline, and the order of the queue is unchanged.\<close>

theorem claim_takes_free_head:
  assumes "outbox_inv (k_db k)" and "claimOutboxEvents c prin corr k = (Inr res, t)"
  shows "\<exists>n e token. asked_limit (co_limit c) n \<and> cr_leaseToken res = Some token \<and>
    length (result_ids res) \<le> n \<and>
    result_ids res = take (length (result_ids res)) (snd (queue_of (k_db k))) \<and>
    (\<forall>r \<in> set (take (length (result_ids res)) (pending (k_db k))).
       \<not> outbox_leased (k_clock k (k_ticks k)) r) \<and>
    (length (result_ids res) < n \<longrightarrow> length (result_ids res) < length (pending (k_db k)) \<longrightarrow>
       outbox_leased (k_clock k (k_ticks k)) (pending (k_db k) ! length (result_ids res))) \<and>
    (result_ids res \<noteq> [] \<longrightarrow> cr_leaseExpiresAt res = Some e \<and> k_clock k (k_ticks k) < e) \<and>
    (\<forall>i. event_of i (k_db t) = map_option (\<lambda>r. if i \<in> set (result_ids res)
       then set_claimed (pr_id prin) token e r else r) (event_of i (k_db k))) \<and>
    queue_of (k_db t) = queue_of (k_db k) \<and> outbox_inv (k_db t)"
proof -
  let ?at = "k_clock k (k_ticks k)"
  from claim_returned [OF assms] obtain n dur token where n: "asked_limit (co_limit c) n" "1000 \<le> dur"
    and ids: "result_ids res = free_prefix n ?at (k_db k)" and token: "cr_leaseToken res = Some token"
    and e: "result_ids res \<noteq> [] \<Longrightarrow> cr_leaseExpiresAt res = Some (?at + dur)"
    and t: "k_db t = claim_rows (result_ids res) (pr_id prin) token (?at + dur) (k_db k)"
    by metis
  let ?tw = "takeWhile (\<lambda>r. \<not> outbox_leased ?at r) (take n (pending (k_db k)))"
  have len: "length (result_ids res) = length ?tw" by (simp add: ids free_prefix_def)
  have "take (length (result_ids res)) (pending (k_db k)) = ?tw"
    unfolding len by (metis (no_types, lifting) append_eq_conv_conj append_take_drop_id
        append_assoc takeWhile_dropWhile_id)
  then have free: "\<forall>r \<in> set (take (length (result_ids res)) (pending (k_db k))). \<not> outbox_leased ?at r"
    by (auto dest: set_takeWhileD)
  have stop: "outbox_leased ?at (pending (k_db k) ! length (result_ids res))"
    if "length (result_ids res) < n" "length (result_ids res) < length (pending (k_db k))"
    using nth_length_takeWhile [of "\<lambda>r. \<not> outbox_leased ?at r" "take n (pending (k_db k))"] that
    by (simp add: len)
  have le: "length (result_ids res) \<le> n"
    using length_takeWhile_le [of "\<lambda>r. \<not> outbox_leased ?at r" "take n (pending (k_db k))"] len by simp
  have pre: "result_ids res = take (length (result_ids res)) (snd (queue_of (k_db k)))"
    unfolding ids queue_of_def snd_conv by (rule free_prefix_facts(3) [OF assms(1)])
  then have "set (result_ids res) \<subseteq> set (map ob_id (pending (k_db k)))"
    by (metis queue_of_def snd_conv set_take_subset)
  then have after: "queue_of (k_db t) = queue_of (k_db k)" "outbox_inv (k_db t)"
    unfolding t by (simp_all add: queue_claim_rows outbox_inv_claim_rows [OF assms(1)])
  have "\<forall>i. event_of i (k_db t) = map_option (\<lambda>r. if i \<in> set (result_ids res)
       then set_claimed (pr_id prin) token (?at + dur) r else r) (event_of i (k_db k))"
    by (simp add: t claim_rows_def event_of_update)
  moreover have "?at < ?at + dur" using n(2) by simp
  ultimately show ?thesis using n(1) token e le pre free stop after by blast
qed

lemma claim_takes_free_head_witness:
  "case fst (claimOutboxEvents sample_claim sample_runtime ''c'' sample_queue) of
     Inl _ \<Rightarrow> False | Inr res \<Rightarrow> result_ids res = take (length (result_ids res)) [''a'', ''b'', ''c'']"
proof -
  let ?m = "claimOutboxEvents sample_claim sample_runtime ''c'' sample_queue"
  have "\<not> isl (fst ?m)" by code_simp
  then obtain res t where run: "?m = (Inr res, t)" by (rule returned_run)
  have "snd (queue_of (k_db sample_queue)) = [''a'', ''b'', ''c'']" by code_simp
  then show ?thesis using claim_takes_free_head [OF sample_queue_inv run] run by auto
qed

text \<open>C14: An acknowledgement that returns advances the queue by exactly the acknowledged batch: the
  ids are distinct, they are the oldest pending events, every one was held by the caller under the
  token and a lease that was live when checked, they move in order from pending to acknowledged,
  the caller holds nothing more under the token, and no other event changes.\<close>

theorem acknowledgement_advances_frontier:
  assumes "outbox_inv (k_db k)" and "acknowledgeOutboxEvents c prin corr k = (Inr res, t)"
  shows "let ids = ak_outboxEventIds c; n = length ids; token = ak_leaseToken c in
    ids \<noteq> [] \<and> distinct ids \<and> ids = take n (snd (queue_of (k_db k))) \<and>
    (\<forall>r \<in> set (take n (pending (k_db k))). held_row (pr_id prin) token r \<and>
       (\<exists>m \<ge> k_ticks k. outbox_leased (k_clock k m) r)) \<and>
    queue_of (k_db t) = (fst (queue_of (k_db k)) @ ids, drop n (snd (queue_of (k_db k)))) \<and>
    leased_rows (pr_id prin) token (k_db t) = [] \<and>
    (\<forall>i. event_of i (k_db t) = map_option (\<lambda>r. if i \<in> set ids
       then set_acknowledged (k_clock k (k_ticks k)) (pr_id prin) r else r) (event_of i (k_db k))) \<and>
    outbox_inv (k_db t)"
    (is "?P res t")
proof -
  have "wp (acknowledgeOutboxEvents c prin corr) ?P (\<lambda>_ _. True) k"
  proof (rule wp_acknowledge [OF assms(1)])
    fix batch and t :: kernel
    let ?ids = "ak_outboxEventIds c" and ?at = "k_clock k (k_ticks k)"
    assume d: "distinct ?ids" "batch \<noteq> []" and ids: "map ob_id batch = ?ids"
      and leased: "leased_rows (pr_id prin) (ak_leaseToken c) (k_db k) = batch"
      and pre: "batch = take (length batch) (pending (k_db k))"
      and held: "\<forall>r \<in> set batch. held_row (pr_id prin) (ak_leaseToken c) r \<and>
          (\<exists>n \<ge> k_ticks k. outbox_leased (k_clock k n) r)"
      and t: "k_db t = ack_rows ?ids (pr_id prin) ?at (k_db k)"
    have n: "length ?ids = length batch" by (simp flip: ids)
    have ids': "?ids = map ob_id (take (length ?ids) (pending (k_db k)))"
      using pre ids n by metis
    note moved = acknowledge_prefix [OF assms(1) ids', where actor = "pr_id prin" and at = ?at, folded t]
    have "leased_rows (pr_id prin) (ak_leaseToken c) (k_db k) = batch @
        filter (\<lambda>r. ob_lease_holder r = Some (pr_id prin) \<and> ob_lease_token r = Some (ak_leaseToken c))
          (drop (length batch) (pending (k_db k)))"
      unfolding leased_rows_def
      by (subst append_take_drop_id [of "length batch" "pending (k_db k)", symmetric])
         (use pre held in \<open>auto simp: held_row_def filter_id_conv simp flip: pre\<close>)
    then have rest: "leased_rows (pr_id prin) (ak_leaseToken c) (k_db t) = []"
      using leased n by (simp add: leased_rows_def moved(2))
    have "?ids = take (length ?ids) (snd (queue_of (k_db k)))"
      using ids' by (simp add: queue_of_def take_map)
    moreover have "\<forall>i. event_of i (k_db t) = map_option (\<lambda>r. if i \<in> set ?ids
        then set_acknowledged ?at (pr_id prin) r else r) (event_of i (k_db k))"
      by (simp add: t ack_rows_def event_of_update)
    ultimately show "?P ((command_result_of AcknowledgeOutboxEvents (ak_leaseToken c))
         \<lparr>cr_relatedIds := Some [(''acknowledgedCount'', show_nat (length batch)),
                                (''correlationId'', corr)]\<rparr>) t"
      using d n held pre rest moved(1,3) ids unfolding Let_def
      by (metis map_is_Nil_conv)
  qed simp_all
  from wp_returned [OF this assms(2)] show ?thesis .
qed

definition sample_claimed :: kernel where
  "sample_claimed = snd (claimOutboxEvents sample_claim sample_runtime ''c'' sample_queue)"

definition sample_acknowledge :: acknowledge_outbox_command where
  "sample_acknowledge =
     \<lparr>idempotencyKey = ''k2'', ak_outboxEventIds = [''a'', ''b''], ak_leaseToken = ''outbox_lease''\<rparr>"

lemma sample_claimed_inv: "outbox_inv (k_db sample_claimed)"
  by code_simp

lemma acknowledgement_advances_frontier_witness:
  "queue_of (k_db (snd (acknowledgeOutboxEvents sample_acknowledge sample_runtime ''c'' sample_claimed)))
     = ([''a'', ''b''], [''c''])"
proof -
  let ?m = "acknowledgeOutboxEvents sample_acknowledge sample_runtime ''c'' sample_claimed"
  have "\<not> isl (fst ?m)" by code_simp
  then obtain res t where run: "?m = (Inr res, t)" by (rule returned_run)
  have "queue_of (k_db sample_claimed) = ([], [''a'', ''b'', ''c''])" by code_simp
  then show ?thesis
    using acknowledgement_advances_frontier [OF sample_claimed_inv run] run
    by (auto simp: Let_def sample_acknowledge_def)
qed

text \<open>C26: A claimed batch can always be acknowledged: if the claim drew a token that no event of the
  queue carried before, then in any later state with the same database, while the lease has not
  run out at the instants it reads, acknowledging exactly the claimed ids with the returned token succeeds and moves them
  from pending to acknowledged.\<close>

theorem claimed_batch_can_be_acknowledged:
  assumes "outbox_inv (k_db k)" and "claimOutboxEvents c prin corr k = (Inr res, t)"
    and "result_ids res \<noteq> []"
    and "\<forall>r \<in> set (d_outbox (k_db k)). ob_lease_token r \<noteq> cr_leaseToken res"
    and "cr_leaseToken res = Some (ak_leaseToken a)" and "js_trim (ak_leaseToken a) \<noteq> []"
    and "ak_outboxEventIds a = result_ids res"
    and "k_db k2 = k_db t" and "cr_leaseExpiresAt res = Some e"
    and "\<forall>n \<in> {Suc (k_ticks k2) ..< Suc (k_ticks k2 + length (result_ids res))}. k_clock k2 n < e"
  shows "\<exists>r t2. acknowledgeOutboxEvents a prin corr' k2 = (Inr r, t2) \<and>
    queue_of (k_db t2) = (fst (queue_of (k_db k)) @ result_ids res,
                          drop (length (result_ids res)) (snd (queue_of (k_db k))))"
proof -
  let ?ids = "result_ids res" and ?m = "length (result_ids res)"
  let ?g = "\<lambda>r. if ob_id r \<in> set (result_ids res) then set_claimed (pr_id prin) (ak_leaseToken a) e r else r"
  from claim_returned [OF assms(1,2)] obtain n where rt: "pr_kind prin = Runtime"
    and ids: "?ids = free_prefix n (k_clock k (k_ticks k)) (k_db k)"
    and db: "k_db k2 = claim_rows ?ids (pr_id prin) (ak_leaseToken a) e (k_db k)"
    using assms(3,5,8,9) by (metis option.inject)
  have pre: "?ids = take ?m (map ob_id (pending (k_db k)))"
    unfolding ids by (rule free_prefix_facts(3) [OF assms(1)])
  then have inv: "outbox_inv (k_db k2)"
    unfolding db by (metis outbox_inv_claim_rows [OF assms(1)] set_take_subset)
  have pend: "pending (k_db k2) = map ?g (pending (k_db k))"
    by (simp add: db claim_rows_def pending_def update_rows_def filter_map o_def if_distrib cong: if_cong)
  define head where "head = take ?m (pending (k_db k))"
  define rest where "rest = drop ?m (pending (k_db k))"
  have split: "pending (k_db k) = head @ rest" and hd_ids: "map ob_id head = ?ids"
    using pre by (simp_all add: head_def rest_def take_map)
  have "distinct (map ob_id head @ map ob_id rest)"
    using distinct_pending [OF assms(1)] split by simp
  then have out: "ob_id r \<notin> set ?ids" if "r \<in> set rest" for r
    using that hd_ids by force
  have hd_in: "ob_id r \<in> set ?ids" if "r \<in> set head" for r
    using that by (simp flip: hd_ids)
  have g_head: "map ?g head = map (set_claimed (pr_id prin) (ak_leaseToken a) e) head"
    and g_rest: "map ?g rest = rest"
    using hd_in out by (simp_all add: map_idI)
  let ?batch = "map (set_claimed (pr_id prin) (ak_leaseToken a) e) head"
  have pend2: "pending (k_db k2) = ?batch @ rest"
    unfolding pend split by (simp only: map_append g_head g_rest)
  have "ob_lease_token r \<noteq> Some (ak_leaseToken a)" if "r \<in> set rest" for r
    using assms(4,5) that split pending_subset [of "k_db k"] by auto
  then have leased: "leased_rows (pr_id prin) (ak_leaseToken a) (k_db k2) = ?batch"
    unfolding leased_rows_def pend2 by (simp add: filter_id_conv filter_empty_conv)
  have batch_ids: "ak_outboxEventIds a = map ob_id ?batch"
    using hd_ids assms(7) by (simp add: o_def)
  have "\<not> isl (fst (acknowledgeOutboxEvents a prin corr' k2))"
  proof (rule acknowledge_succeeds [OF inv rt assms(6) _ _ leased batch_ids])
    show "?batch \<noteq> []" using assms(3) hd_ids by auto
    have "length ?batch = ?m" using hd_ids by (metis length_map)
    then show "\<forall>r \<in> set ?batch. \<forall>n \<in> {Suc (k_ticks k2) ..< Suc (k_ticks k2 + length ?batch)}.
        outbox_leased (k_clock k2 n) r"
      using assms(10) by (simp add: outbox_leased_def)
  qed (simp add: pend2)
  then obtain r t2 where run: "acknowledgeOutboxEvents a prin corr' k2 = (Inr r, t2)"
    by (rule returned_run)
  have "wp (acknowledgeOutboxEvents a prin corr')
      (\<lambda>_ t2. queue_of (k_db t2) = (fst (queue_of (k_db k)) @ ?ids, drop ?m (snd (queue_of (k_db k))))) (\<lambda>_ _. True) k2"
  proof (rule wp_acknowledge [OF inv])
    fix b and u :: kernel
    assume u: "k_db u = ack_rows (ak_outboxEventIds a) (pr_id prin) (k_clock k2 (k_ticks k2)) (k_db k2)"
    have "ak_outboxEventIds a = map ob_id (take ?m (pending (k_db k2)))"
      using pend2 hd_ids batch_ids by (metis append_eq_conv_conj assms(7) length_map)
    from acknowledge_prefix(3) [OF inv this, of "pr_id prin" "k_clock k2 (k_ticks k2)"]
    show "queue_of (k_db u) = (fst (queue_of (k_db k)) @ ?ids, drop ?m (snd (queue_of (k_db k))))"
      by (simp add: u db queue_claim_rows assms(7))
  qed simp_all
  from wp_returned [OF this run] run show ?thesis by blast
qed

lemma claimed_batch_can_be_acknowledged_witness:
  "\<exists>r t2. acknowledgeOutboxEvents sample_acknowledge sample_runtime ''c'' sample_claimed = (Inr r, t2) \<and>
     queue_of (k_db t2) = ([''a'', ''b''], [''c''])"
proof -
  let ?m = "claimOutboxEvents sample_claim sample_runtime ''c'' sample_queue"
  have "\<not> isl (fst ?m)" by code_simp
  then obtain res t where run: "?m = (Inr res, t)" by (rule returned_run)
  have "(case fst ?m of Inl _ \<Rightarrow> None | Inr r \<Rightarrow> Some (result_ids r, cr_leaseToken r, cr_leaseExpiresAt r))
      = Some ([''a'', ''b''], Some ''outbox_lease'', Some 300000)"
    by code_simp
  then have res: "result_ids res = [''a'', ''b'']" "cr_leaseToken res = Some ''outbox_lease''"
    "cr_leaseExpiresAt res = Some 300000"
    using run by auto
  have ack: "js_trim (ak_leaseToken sample_acknowledge) \<noteq> []" "ak_leaseToken sample_acknowledge = ''outbox_lease''"
    "ak_outboxEventIds sample_acknowledge = [''a'', ''b'']"
    by code_simp+
  have fresh: "\<forall>r \<in> set (d_outbox (k_db sample_queue)). ob_lease_token r \<noteq> Some ''outbox_lease''"
    "queue_of (k_db sample_queue) = ([], [''a'', ''b'', ''c''])"
    by code_simp+
  have clock: "\<forall>n \<in> {Suc (k_ticks sample_claimed) ..< Suc (k_ticks sample_claimed + 2)}. k_clock sample_claimed n < 300000"
    by code_simp
  have "k_db sample_claimed = k_db t" using run by (simp add: sample_claimed_def)
  from claimed_batch_can_be_acknowledged [OF sample_queue_inv run _ _ _ ack(1) _ this res(3), where corr' = "''c''"]
  show ?thesis using res ack fresh clock by simp
qed

text \<open>C27: At most one runtime holds the authority to start work from the outbox: whenever two
  activation authorities are granted on the same database, whatever the two clocks read, they name
  the same event, token, holder, run and run input. The authority rests on the oldest pending
  event, under a lease live at the instant read, and on a run input of that run that is still
  pending; granting it changes nothing in the database.\<close>

theorem activation_authority_is_unique:
  assumes "requireOutboxActivationAuthority c1 p1 run1 k1 = (Inr (e1, at1, i1), t1)"
    and "requireOutboxActivationAuthority c2 p2 run2 k2 = (Inr (e2, at2, i2), t2)"
    and "k_db k1 = k_db k2"
  shows "oa_outboxEventId c1 = oa_outboxEventId c2 \<and> oa_outboxLeaseToken c1 = oa_outboxLeaseToken c2 \<and>
    pr_id p1 = pr_id p2 \<and> run1 = run2 \<and> e1 = e2 \<and> i1 = i2 \<and> at1 < e1 \<and>
    (\<exists>ev rest. pending (k_db k1) = ev # rest \<and> oa_outboxEventId c1 = Some (ob_id ev)) \<and>
    (\<exists>input. find_row ri_id i1 (d_run_inputs (k_db k1)) = Some input \<and> ri_run_id input = run1 \<and>
       ri_disposition input = Pending) \<and>
    k_db t1 = k_db k1"
proof -
  have granted: "\<exists>ev. authorizes ev c p run e at i (k_db k) \<and> k_db t = k_db k \<and>
      (\<exists>input. find_row ri_id i (d_run_inputs (k_db k)) = Some input \<and> ri_run_id input = run \<and>
         ri_disposition input = Pending)"
    if run: "requireOutboxActivationAuthority c p run k = (Inr (e, at, i), t)" for c p run k e at i t
  proof -
    have "wp (requireOutboxActivationAuthority c p run) (\<lambda>(e, at, i) t. \<exists>ev. authorizes ev c p run e at i (k_db k) \<and>
        k_db t = k_db k \<and> (\<exists>input. find_row ri_id i (d_run_inputs (k_db k)) = Some input \<and>
           ri_run_id input = run \<and> ri_disposition input = Pending)) (\<lambda>_ _. True) k"
      unfolding requireOutboxActivationAuthority_def
      by (intro wp_intros wp_delivery) (auto split: option.splits)
    from wp_returned [OF this run] show ?thesis by simp
  qed
  obtain v1 where v1: "authorizes v1 c1 p1 run1 e1 at1 i1 (k_db k1)" and t: "k_db t1 = k_db k1"
    and input: "\<exists>input. find_row ri_id i1 (d_run_inputs (k_db k1)) = Some input \<and>
      ri_run_id input = run1 \<and> ri_disposition input = Pending"
    using granted [OF assms(1)] by blast
  obtain v2 where v2: "authorizes v2 c2 p2 run2 e2 at2 i2 (k_db k1)"
    using granted [OF assms(2)] assms(3) by auto
  have "ob_id v1 = ob_id v2" using v1 v2 unfolding authorizes_def by (metis list.inject)
  then have "v2 = v1" using v1 v2 unfolding authorizes_def by (metis option.inject)
  with v2 have v2': "authorizes v1 c2 p2 run2 e2 at2 i2 (k_db k1)" by simp
  have same: "oa_outboxEventId c1 = oa_outboxEventId c2" "oa_outboxLeaseToken c1 = oa_outboxLeaseToken c2"
    "Some (pr_id p1) = Some (pr_id p2)" "run1 = run2" "Some e1 = Some e2" "Some i1 = Some i2" "at1 < e1"
    "oa_outboxEventId c1 = Some (ob_id v1)"
    using v1 v2' unfolding authorizes_def by metis+
  have "map ob_id (take 1 (pending (k_db k1))) = [ob_id v1]"
    using v1 unfolding authorizes_def by blast
  then obtain ev rest where "pending (k_db k1) = ev # rest" "ob_id ev = ob_id v1"
    by (cases "pending (k_db k1)") simp_all
  with same t input show ?thesis by auto
qed

definition sample_held :: kernel where
  "sample_held = snd (claimOutboxEvents (sample_claim\<lparr>co_limit := Some (JInt 1)\<rparr>) sample_runtime ''c''
     (context_on (k_db sample_queue\<lparr>d_run_inputs :=
        [\<lparr>ri_id = ''in'', ri_run_id = ''run'', ri_message_revision_id = ''m'', ri_run_input_sequence = 1,
          ri_assigned_by_principal_id = ''h'', ri_assigned_by_activation_id = None,
          ri_source_attention_id = None, ri_created_event_sequence = None, ri_created_at = 0,
          ri_disposition = Pending, ri_disposition_revision = 1, ri_disposition_reason = None,
          ri_superseded_by = None\<rparr>]\<rparr>)))"

definition sample_authority_command :: outbox_authority_command where
  "sample_authority_command =
     \<lparr>oa_outboxEventId = Some ''a'', oa_outboxLeaseToken = Some ''outbox_lease''\<rparr>"

lemma activation_authority_is_unique_witness:
  "case fst (requireOutboxActivationAuthority sample_authority_command sample_runtime ''run'' sample_held) of
     Inl _ \<Rightarrow> False | Inr (e, at, i) \<Rightarrow> at < e"
proof -
  let ?m = "requireOutboxActivationAuthority sample_authority_command sample_runtime ''run'' sample_held"
  have "\<not> isl (fst ?m)" by code_simp
  then obtain res t where run: "?m = (Inr res, t)" by (rule returned_run)
  obtain e at i where "res = (e, at, i)" by (cases res) auto
  with run have run': "?m = (Inr (e, at, i), t)" by simp
  show ?thesis using activation_authority_is_unique [OF run' run' refl] run' by simp
qed

text \<open>C28: The replay of an idempotent claim hands out only events the caller holds: if it returns, the
  ids are those of the first claim, every one is still pending and carries the caller's lease with
  the returned token, and the returned deadline is that of every row and later than the instant
  read. A replay that had to take a new lease did so only while the ids were the head of the queue
  and none was under a live lease; in every case the order of the queue is unchanged.\<close>

theorem replayed_claim_is_held:
  assumes "outbox_inv (k_db k)" and "resolveCachedOutboxClaim c cached prin k = (Inr res, t)"
    and "truthy (cr_leaseToken cached) \<noteq> None" and "result_ids cached \<noteq> []"
  shows "result_ids res = result_ids cached \<and>
    (\<exists>e. cr_leaseExpiresAt res = Some e \<and> k_clock k (k_ticks k) < e \<and>
      (\<forall>i \<in> set (result_ids res). \<exists>r. event_of i (k_db t) = Some r \<and> ob_acknowledged_at r = None \<and>
         ob_lease_holder r = Some (pr_id prin) \<and> ob_lease_token r = cr_leaseToken res \<and>
         ob_lease_expires_at r = Some e)) \<and>
    (k_db t = k_db k \<or>
       result_ids res = take (length (result_ids res)) (snd (queue_of (k_db k))) \<and>
       (\<forall>i \<in> set (result_ids res). \<forall>r. event_of i (k_db k) = Some r \<longrightarrow>
          \<not> outbox_leased (k_clock k (k_ticks k)) r)) \<and>
    queue_of (k_db t) = queue_of (k_db k) \<and> outbox_inv (k_db t)"
    (is "?P res t")
proof -
  let ?ids = "result_ids cached" and ?at = "k_clock k (k_ticks k)"
  obtain tok where tok: "truthy (cr_leaseToken cached) = Some tok" using assms(3) by auto
  then have tok': "cr_leaseToken cached = Some tok" by (auto simp: truthy_def split: if_splits)
  have row: "event_of i (k_db k) = Some (the (event_of i (k_db k))) \<and> ob_id (the (event_of i (k_db k))) = i"
    if "event_of i (k_db k) \<noteq> None" for i
    using that find_row_Some [of ob_id i "d_outbox (k_db k)"] by (auto simp: event_of_def)
  have "wp (resolveCachedOutboxClaim c cached prin) ?P (\<lambda>_ _. True) k"
  proof (rule wp_cached_claim [OF assms(1) tok refl assms(4)])
    fix rows
    let ?t = "k\<lparr>k_ticks := Suc (k_ticks k)\<rparr>"
    define r' where "r' = cached\<lparr>cr_leaseExpiresAt := ob_lease_expires_at (hd rows),
       cr_outboxEvents := Some (map mapOutboxEvent rows)\<rparr>"
    assume rows: "rows = rows_of ?ids (k_db k)" and all: "\<forall>i \<in> set ?ids. event_of i (k_db k) \<noteq> None"
      and held: "\<forall>r \<in> set rows. held_row (pr_id prin) tok r" "\<forall>r \<in> set rows. outbox_leased ?at r"
      and expiry: "\<forall>r \<in> set rows. ob_lease_expires_at r = ob_lease_expires_at (hd rows)"
    have ids: "result_ids r' = ?ids"
      using all row by (auto simp: r'_def result_ids_def rows rows_of_def mapOutboxEvent_def o_def intro: map_idI)
    have "hd rows \<in> set rows" using assms(4) by (intro hd_in_set) (simp add: rows rows_of_def)
    then obtain e where e: "ob_lease_expires_at (hd rows) = Some e" "?at < e"
      using held(2) by (auto simp: outbox_leased_def split: option.splits)
    have "\<forall>i \<in> set ?ids. \<exists>r. event_of i (k_db k) = Some r \<and> r \<in> set rows"
      using all row by (force simp: rows rows_of_def)
    then have "\<forall>i \<in> set ?ids. \<exists>r. event_of i (k_db ?t) = Some r \<and> ob_acknowledged_at r = None \<and>
        ob_lease_holder r = Some (pr_id prin) \<and> ob_lease_token r = cr_leaseToken r' \<and> ob_lease_expires_at r = Some e"
      using held(1) expiry e(1) by (fastforce simp: held_row_def r'_def tok')
    moreover have "cr_leaseExpiresAt r' = Some e" by (simp add: r'_def e)
    ultimately have "?P r' ?t" using e(2) assms(1) unfolding ids by simp
    then show "?P (cached\<lparr>cr_leaseExpiresAt := ob_lease_expires_at (hd rows),
       cr_outboxEvents := Some (map mapOutboxEvent rows)\<rparr>) ?t" unfolding r'_def .
  next
    fix rows dur token and t :: kernel
    define r' where "r' = cached\<lparr>cr_entityId := token, cr_leaseToken := Some token,
       cr_leaseExpiresAt := Some (?at + dur), cr_outboxEvents := Some (map mapOutboxEvent rows)\<rparr>"
    assume head: "?ids = map ob_id (take (length ?ids) (pending (k_db k)))"
      and all: "\<forall>i \<in> set ?ids. event_of i (k_db k) \<noteq> None"
      and held: "\<forall>r \<in> set (rows_of ?ids (k_db k)). held_row (pr_id prin) tok r"
      and free: "\<forall>r \<in> set (rows_of ?ids (k_db k)). \<not> outbox_leased ?at r" and dur: "1000 \<le> dur"
      and t: "k_db t = claim_rows ?ids (pr_id prin) token (?at + dur) (k_db k)"
      and rows: "map ob_id rows = ?ids"
    have ids: "result_ids r' = ?ids"
      using rows by (simp add: r'_def result_ids_def mapOutboxEvent_def o_def)
    have pre: "?ids = take (length ?ids) (snd (queue_of (k_db k)))"
      using head by (simp add: queue_of_def take_map)
    then have "set ?ids \<subseteq> set (map ob_id (pending (k_db k)))"
      by (metis queue_of_def snd_conv set_take_subset)
    then have after: "queue_of (k_db t) = queue_of (k_db k)" "outbox_inv (k_db t)"
      unfolding t by (simp_all add: queue_claim_rows outbox_inv_claim_rows [OF assms(1)])
    have now: "\<forall>i \<in> set ?ids. \<exists>r. event_of i (k_db t) = Some r \<and> ob_acknowledged_at r = None \<and>
        ob_lease_holder r = Some (pr_id prin) \<and> ob_lease_token r = cr_leaseToken r' \<and>
        ob_lease_expires_at r = Some (?at + dur)"
    proof
      fix i assume i: "i \<in> set ?ids"
      then obtain q where q: "event_of i (k_db k) = Some q" using all by auto
      then have "held_row (pr_id prin) tok q" using held i by (force simp: rows_of_def)
      with q i show "\<exists>r. event_of i (k_db t) = Some r \<and> ob_acknowledged_at r = None \<and>
          ob_lease_holder r = Some (pr_id prin) \<and> ob_lease_token r = cr_leaseToken r' \<and>
          ob_lease_expires_at r = Some (?at + dur)"
        by (simp add: t claim_rows_def event_of_update r'_def held_row_def)
    qed
    have "\<forall>i \<in> set ?ids. \<forall>r. event_of i (k_db k) = Some r \<longrightarrow> \<not> outbox_leased ?at r"
      using free by (force simp: rows_of_def)
    moreover have "cr_leaseExpiresAt r' = Some (?at + dur)" "?at < ?at + dur"
      using dur by (simp_all add: r'_def)
    ultimately have "?P r' t" using pre now after unfolding ids by blast
    then show "?P (cached\<lparr>cr_entityId := token, cr_leaseToken := Some token,
       cr_leaseExpiresAt := Some (?at + dur), cr_outboxEvents := Some (map mapOutboxEvent rows)\<rparr>) t"
      unfolding r'_def .
  qed simp
  from wp_returned [OF this assms(2)] show ?thesis .
qed

lemma replayed_claim_is_held_witness:
  "case fst (resolveCachedOutboxClaim sample_claim
       ((command_result_of ClaimOutboxEvents ''outbox_lease'')\<lparr>cr_leaseToken := Some ''outbox_lease'',
          cr_outboxEvents := Some (map mapOutboxEvent (take 2 (d_outbox (k_db sample_claimed))))\<rparr>)
       sample_runtime sample_claimed) of
     Inl _ \<Rightarrow> False | Inr res \<Rightarrow> result_ids res = [''a'', ''b'']"
proof -
  let ?cached = "(command_result_of ClaimOutboxEvents ''outbox_lease'')\<lparr>cr_leaseToken := Some ''outbox_lease'',
      cr_outboxEvents := Some (map mapOutboxEvent (take 2 (d_outbox (k_db sample_claimed))))\<rparr>"
  let ?m = "resolveCachedOutboxClaim sample_claim ?cached sample_runtime sample_claimed"
  have "\<not> isl (fst ?m)" by code_simp
  then obtain res t where run: "?m = (Inr res, t)" by (rule returned_run)
  have "result_ids ?cached = [''a'', ''b'']" "truthy (cr_leaseToken ?cached) \<noteq> None" by code_simp+
  then show ?thesis using replayed_claim_is_held [OF sample_claimed_inv run] run by simp
qed

section \<open>Evolution\<close>

text \<open>A statement that changes the delivery columns of the outbox and nothing else.\<close>

definition redelivers :: "kernel \<Rightarrow> kernel \<Rightarrow> bool" where
  "redelivers s t \<longleftrightarrow>
     (k_db t)\<lparr>d_outbox := []\<rparr> = (k_db s)\<lparr>d_outbox := []\<rparr> \<and>
     map outbox_fixed (d_outbox (k_db t)) = map outbox_fixed (d_outbox (k_db s)) \<and>
     k_localWorktreeRevocations t = k_localWorktreeRevocations s \<and> k_cwd t = k_cwd s"

interpretation redelivery: evolution redelivers
  by unfold_locales (simp_all add: redelivers_def)

lemma redelivers_statements:
  "evolves redelivers clock" "evolves redelivers (idFactory p)" "evolves redelivers (query g)"
  "(\<And>r. outbox_fixed (f r) = outbox_fixed r) \<Longrightarrow> evolves redelivers (update_outbox_event f i)"
  by (simp_all add: evolves_def redelivers_def run_simps update_outbox_event_def map_fixed_update)

lemma outbox_fixed_sets:
  "outbox_fixed (set_claimed h t e r) = outbox_fixed r"
  "outbox_fixed (set_acknowledged at who r) = outbox_fixed r"
  by (simp_all add: outbox_fixed_def set_claimed_def set_acknowledged_def)

lemma redelivers_values:
  "evolves redelivers (boundedLimit l)" "evolves redelivers (boundedDuration n)"
  "evolves redelivers (requireNonEmpty v)" "evolves redelivers (requireKind prin kind)"
  "evolves redelivers (requireOutboxEvent i)" "evolves redelivers (read_outbox_event i)"
  unfolding boundedLimit_def boundedDuration_def requireNonEmpty_def requireKind_def
    requireOutboxEvent_def requireRow_def read_outbox_event_def
  by (auto split: option.split jsnum.split intro!: redelivery.rules redelivers_statements)

lemmas redelivers_rules =
  redelivery.rules redelivers_statements redelivers_values outbox_fixed_sets

lemma redelivers_handlers:
  "evolves redelivers (claimOutboxEvents c1 prin corr)"
  "evolves redelivers (acknowledgeOutboxEvents c2 prin corr)"
  "evolves redelivers (resolveCachedOutboxClaim c3 result prin)"
  unfolding claimOutboxEvents_def acknowledgeOutboxEvents_def check_acknowledged_def
    resolveCachedOutboxClaim_def
  by (intro redelivers_rules; fail)+

lemma keeps_queue:
  "keeps (on_db outbox_inv) (claimOutboxEvents c1 prin corr)"
  "keeps (on_db outbox_inv) (acknowledgeOutboxEvents c2 prin corr)"
  "keeps (on_db outbox_inv) (resolveCachedOutboxClaim c3 result prin)"
proof -
  have head: "set (map ob_id (take n (pending d))) \<subseteq> set (map ob_id (pending d))" for n d
    by (metis set_take_subset take_map)
  have renewed: "k_db t = claim_rows ids h tok e (k_db k) \<Longrightarrow> outbox_inv (k_db t)"
    if "outbox_inv (k_db k)" "ids = map ob_id (take (length ids) (pending (k_db k)))" for k ids h tok e t
    using outbox_inv_claim_rows [OF that(1), of ids] head [of "length ids" "k_db k"]
    unfolding that(2) [symmetric] by simp
  have acked: "outbox_inv (ack_rows ids actor at d)"
    if "outbox_inv d" "map ob_id batch = ids" "batch = take (length batch) (pending d)" for d batch ids actor at
    using that by (intro acknowledge_prefix(1) [where n = "length batch"]) simp_all
  show "keeps (on_db outbox_inv) (claimOutboxEvents c1 prin corr)"
  proof (rule keeps_wpI)
    fix k assume inv: "on_db outbox_inv k"
    then have "set (free_prefix n at (k_db k)) \<subseteq> set (map ob_id (pending (k_db k)))" for n at
      using free_prefix_facts [of "k_db k"] unfolding on_db_def by (metis set_take_subset)
    with inv show "wp (claimOutboxEvents c1 prin corr) (\<lambda>_. on_db outbox_inv) (\<lambda>_. on_db outbox_inv) k"
      by (intro wp_claim) (simp_all add: on_db_def outbox_inv_claim_rows)
  qed
  show "keeps (on_db outbox_inv) (acknowledgeOutboxEvents c2 prin corr)"
  proof (rule keeps_wpI)
    fix k assume inv: "on_db outbox_inv k"
    then show "wp (acknowledgeOutboxEvents c2 prin corr) (\<lambda>_. on_db outbox_inv) (\<lambda>_. on_db outbox_inv) k"
      by (intro wp_acknowledge) (simp_all add: on_db_def acked)
  qed
  show "keeps (on_db outbox_inv) (resolveCachedOutboxClaim c3 result prin)"
  proof (rule keeps_wpI)
    fix k assume inv: "on_db outbox_inv k"
    show "wp (resolveCachedOutboxClaim c3 result prin) (\<lambda>_. on_db outbox_inv) (\<lambda>_. on_db outbox_inv) k"
    proof (cases "truthy (cr_leaseToken result) = None \<or> result_ids result = []")
      case True
      then show ?thesis
        using inv by (auto simp: resolveCachedOutboxClaim_def result_ids_def wp_ret
            split: option.splits list.splits)
    next
      case False
      then obtain tok where tok: "truthy (cr_leaseToken result) = Some tok" and ids: "result_ids result \<noteq> []"
        by auto
      have "outbox_inv (k_db k)" using inv by (simp add: on_db_def)
      then show ?thesis
      proof (rule wp_cached_claim [OF _ tok refl ids])
        fix rows dur token and k' :: kernel
        assume "result_ids result = map ob_id (take (length (result_ids result)) (pending (k_db k)))"
          and "k_db k' = claim_rows (result_ids result) (pr_id prin) token (k_clock k (k_ticks k) + dur) (k_db k)"
        with inv show "on_db outbox_inv k'"
          unfolding on_db_def by (rule renewed)
      qed (use inv in \<open>simp_all add: on_db_def\<close>)
    qed
  qed
qed

lemma grows_redelivers:
  assumes "evolves redelivers m" and "keeps (on_db outbox_inv) m"
  shows "grows m"
  unfolding evolves_def
proof
  fix k
  define t where "t = snd (m k)"
  have t: "redelivers k t" using assms(1) by (simp add: evolves_def t_def)
  then have db: "k_db t = (k_db k)\<lparr>d_outbox := d_outbox (k_db t)\<rparr>"
    unfolding redelivers_def by (cases "k_db t"; cases "k_db k") simp
  have "extends (k_db k) ((k_db k)\<lparr>d_outbox := d_outbox (k_db t)\<rparr>)"
    using t by (simp add: extends_def redelivers_def)
  moreover have "worktree_side (k_db t) = worktree_side (k_db k)"
    by (subst db) (simp add: worktree_side_def)
  moreover have "well_formed (k_db t)" if "well_formed (k_db k)"
  proof -
    have "queue_ok (d_outbox (k_db t))"
      using keepsD [OF assms(2), of k] that by (simp add: on_db_def outbox_inv_queue well_formed_def t_def)
    with that have "well_formed ((k_db k)\<lparr>d_outbox := d_outbox (k_db t)\<rparr>)"
      by (simp add: well_formed_def)
    then show ?thesis by (subst db)
  qed
  ultimately show "collab k (snd (m k))"
    using t db by (simp add: collab_def redelivers_def t_def)
qed

lemmas grows_outbox_handlers [grows_rules] =
  grows_redelivers [OF redelivers_handlers(1) keeps_queue(1)]
  grows_redelivers [OF redelivers_handlers(2) keeps_queue(2)]
  grows_redelivers [OF redelivers_handlers(3) keeps_queue(3)]

lemma grows_outbox_authority [grows_rules]:
  "grows (requireOutboxDeliveryAuthority c prin i)" "grows (requireOutboxActivationAuthority c prin i)"
  "grows (requireOutboxProviderAuthority c prin i js)"
  unfolding requireOutboxDeliveryAuthority_def requireOutboxActivationAuthority_def
    requireOutboxProviderAuthority_def
  by (intro grows_rules; fail)+

end
