(* ===== verification/CausalLimits.thy ===== *)
theory CausalLimits
  imports Evolution
begin

text \<open>
  Causal limits (\<open>causal-limits.ts\<close>): a command may not name a field the server owns, and a run
  is admitted from an attention only with trustworthy provenance (a human message, or an agent
  message caused by a run of that agent in the same thread), within the depth limit and the limit
  of non-terminal runs per causal root.
\<close>

definition serverOwnedFields :: "string list" where
  "serverOwnedFields =
     [''causalRootId'', ''parentAttentionId'', ''parentRunId'', ''delegationDepth'',
      ''causalLimits'', ''maxDepth'', ''maxNonTerminalRunsPerRoot'',
      ''causal_root_id'', ''parent_attention_id'', ''parent_run_id'', ''delegation_depth'',
      ''causal_limits'', ''max_depth'', ''max_non_terminal_runs_per_root'',
      ''causedByRunId'', ''causedByAttentionId'', ''caused_by_run_id'', ''caused_by_attention_id'']"

text \<open>The argument lists the property names of the command object and of its final reply, if any.\<close>

definition rejectCausalOverrides :: "string list list \<Rightarrow> ('s, kerror, unit) op" where
  "rejectCausalOverrides inputs =
     forM inputs (\<lambda>fields. forM serverOwnedFields (\<lambda>field.
       guardM (field \<notin> set fields) (err InvalidCommand)))"

record causal_capacity =
  cc_causalRootId :: ident
  cc_maxDepth :: nat
  cc_maxNonTerminalRunsPerRoot :: nat
  cc_nonTerminalRunCount :: nat

record causal_admission = causal_capacity +
  ca_parentAttentionId :: ident
  ca_parentRunId :: "ident option"
  ca_delegationDepth :: nat

definition non_terminal_runs :: "ident \<Rightarrow> database \<Rightarrow> run_row list" where
  "non_terminal_runs root d =
     filter (\<lambda>r. rn_causal_root_id r = root \<and> \<not> isTerminalRunState (rn_state r)) (d_runs d)"

definition causalCapacity :: "ident \<Rightarrow> causal_capacity kop" where
  "causalCapacity causalRootId =
     bindM (query d_causal_limits) (\<lambda>found.
     bindM (needM (err Conflict) found) (\<lambda>limits.
     bindM (query (\<lambda>d. length (non_terminal_runs causalRootId d))) (\<lambda>count.
     ret \<lparr>cc_causalRootId = causalRootId, cc_maxDepth = cl_max_depth limits,
          cc_maxNonTerminalRunsPerRoot = cl_max_non_terminal limits,
          cc_nonTerminalRunCount = count\<rparr>)))"

text \<open>The message of a revision with its author, or nothing when a join finds no row.\<close>

definition source_message :: "ident \<Rightarrow> database \<Rightarrow> (message_row \<times> principal_kind) option" where
  "source_message revisionId d =
     (case find_row mr_id revisionId (d_message_revisions d) of
        None \<Rightarrow> None
      | Some revision \<Rightarrow>
          (case find_row ms_id (mr_message_id revision) (d_messages d) of
             None \<Rightarrow> None
           | Some message \<Rightarrow>
               (case find_row pr_id (ms_author_principal_id message) (d_principals d) of
                  None \<Rightarrow> None
                | Some author \<Rightarrow> Some (message, pr_kind author))))"

definition provenance_of :: "attention_row \<Rightarrow> message_row \<Rightarrow> principal_kind \<Rightarrow> (ident \<times> nat) kop" where
  "provenance_of attention source author_kind =
     (case (author_kind, ms_caused_by_run_id source) of
        (Human, None) \<Rightarrow> ret (ms_id source, 0)
      | (Agent, Some parentRunId) \<Rightarrow>
          bindM (requireRun parentRunId) (\<lambda>parent.
          seqM (guardM (rn_project_id parent = at_project_id attention \<and>
                        rn_home_channel_id parent = at_channel_id attention \<and>
                        rn_thread_root_id parent = at_thread_root_id attention \<and>
                        Some (rn_owner_agent_id parent) = ms_author_agent_id source) (err Conflict))
               (ret (rn_causal_root_id parent, rn_delegation_depth parent + 1)))
      | _ \<Rightarrow> raise (err Conflict))"

definition capacity_json :: "causal_capacity \<Rightarrow> (string \<times> json) list" where
  "capacity_json c =
     [(''causalRootId'', JStr (cc_causalRootId c)), (''maxDepth'', jnat (cc_maxDepth c)),
      (''maxNonTerminalRunsPerRoot'', jnat (cc_maxNonTerminalRunsPerRoot c)),
      (''nonTerminalRunCount'', jnat (cc_nonTerminalRunCount c))]"

definition admitRunFromAttention :: "attention_row \<Rightarrow> causal_admission kop" where
  "admitRunFromAttention attention =
     bindM (query (source_message (at_message_revision_id attention))) (\<lambda>found.
     bindM (needM (err Conflict) found) (\<lambda>(source, author_kind).
     bindM (provenance_of attention source author_kind) (\<lambda>(causalRootId, delegationDepth).
     bindM (causalCapacity causalRootId) (\<lambda>capacity.
     let dimension =
           (if delegationDepth > cc_maxDepth capacity then Some ''depth''
            else if cc_nonTerminalRunCount capacity \<ge> cc_maxNonTerminalRunsPerRoot capacity
            then Some ''nonTerminalRuns''
            else None) in
     case dimension of
       Some dim \<Rightarrow>
         raise (KernelError CausalLimitExceeded (Some (JObj (capacity_json capacity @
           [(''delegationDepth'', jnat delegationDepth), (''dimension'', JStr dim)]))))
     | None \<Rightarrow>
         ret \<lparr>cc_causalRootId = causalRootId, cc_maxDepth = cc_maxDepth capacity,
              cc_maxNonTerminalRunsPerRoot = cc_maxNonTerminalRunsPerRoot capacity,
              cc_nonTerminalRunCount = cc_nonTerminalRunCount capacity + 1,
              ca_parentAttentionId = at_id attention,
              ca_parentRunId = ms_caused_by_run_id source,
              ca_delegationDepth = delegationDepth\<rparr>))))"

section \<open>Evolution\<close>

lemma grows_causal [grows_rules]:
  "grows (causalCapacity i)" "grows (provenance_of a source kind)" "grows (admitRunFromAttention a)"
  unfolding causalCapacity_def provenance_of_def admitRunFromAttention_def
  by (auto split: principal_kind.split option.split intro!: grows_rules)

end
