(* ===== verification/Collaboration.thy ===== *)
theory Collaboration
  imports Evolution
begin

text \<open>
  Messages, threads and mentions (\<open>collaboration.ts\<close>): starting a thread, replying, editing and
  deleting a message. A message is a chain of revisions; a mention in a new message or a revision
  opens an attention for the mentioned agent.
\<close>

section \<open>Commands\<close>

record start_thread_command = idempotent_command +
  st_projectId :: ident
  st_channelId :: ident
  st_body :: string
  st_targetAgentIds :: "ident list option"

record reply_command = idempotent_command +
  rp_threadRootId :: ident
  rp_expectedThreadCursor :: "nat option"
  rp_body :: string
  rp_targetAgentIds :: "ident list option"

record edit_message_command = idempotent_command +
  ed_messageId :: ident
  ed_expectedMessageRevision :: jsnum
  ed_body :: string
  ed_targetAgentIds :: "ident list option"

record delete_message_command = idempotent_command +
  dl_messageId :: ident
  dl_expectedMessageRevision :: jsnum

section \<open>Attentions for mentions\<close>

text \<open>
  The statements of one mention, shared by a new message and a new revision: the row of the
  mention, and the attention with its event and history.
\<close>

definition insertMention :: "ident \<Rightarrow> ident \<Rightarrow> instant \<Rightarrow> unit kop" where
  "insertMention revisionId targetAgentId at =
     bindM (idFactory ''mention'') (\<lambda>mentionId.
     insert_unique d_mentions d_mentions_update mention_clash
       \<lparr>mn_id = mentionId, mn_message_revision_id = revisionId, mn_target_agent_id = targetAgentId,
        mn_created_event_sequence = None, mn_created_at = at\<rparr>)"

definition openAttention ::
  "ident \<Rightarrow> ident \<Rightarrow> ident \<Rightarrow> ident \<Rightarrow> ident \<Rightarrow> ident \<Rightarrow> ident option \<Rightarrow> string \<Rightarrow> instant \<Rightarrow> unit kop" where
  "openAttention projectId channelId threadRootId revisionId targetAgentId actorId activationId corr at =
     bindM (idFactory ''attention'') (\<lambda>attentionId.
     bindM (query (\<lambda>d. next_sequence at_sequence (d_attentions d))) (\<lambda>n.
     seqM (insert_unique d_attentions d_attentions_update attention_clash
             \<lparr>at_sequence = n, at_id = attentionId, at_project_id = projectId,
              at_channel_id = channelId, at_thread_root_id = threadRootId,
              at_message_revision_id = revisionId, at_target_agent_id = targetAgentId,
              at_trigger_kind = Mention, at_status = AttOpen, at_revision = 1,
              at_handler_lease_holder = None, at_handler_lease_token = None,
              at_handler_lease_expires_at = None, at_resolution_outcome = None,
              at_resolved_by = None, at_resolved_activation_id = None, at_resolved_run_id = None,
              at_created_event_sequence = None, at_created_at = at, at_resolved_at = None\<rparr>)
    (bindM (emitEvent (event_object EvAttentionOpened projectId (Some channelId) (Some threadRootId)
               EntAttention attentionId actorId activationId (Some revisionId) corr
               (JObj [(''targetAgentId'', JStr targetAgentId), (''triggerKind'', JStr ''Mention'')]))) (\<lambda>sequence.
     seqM (update_where d_attentions_update (\<lambda>r. at_id r = attentionId)
             (\<lambda>r. r\<lparr>at_created_event_sequence := Some sequence\<rparr>))
          (recordAttentionHistory attentionId sequence)))))"

definition requireMentionable :: "ident \<Rightarrow> ident \<Rightarrow> unit kop" where
  "requireMentionable targetAgentId projectId =
     bindM (requireAgent targetAgentId) (\<lambda>agent.
     guardM (ag_project_id agent = projectId) (err Forbidden))"

section \<open>Creating a message\<close>

record create_message_input =
  cm_projectId :: ident
  cm_channelId :: ident
  cm_threadRootId :: "ident option"
  cm_replyToMessageId :: "ident option"
  cm_author :: principal_row
  cm_activationId :: "ident option"
  cm_authorAgentId :: "ident option"
  cm_causedByAttentionId :: "ident option"
  cm_causedByRunId :: "ident option"
  cm_body :: string
  cm_targetAgentIds :: "ident list option"
  cm_suppressedAttentionAgentIds :: "ident list option"
  cm_correlationId :: string

definition or_empty :: "'a list option \<Rightarrow> 'a list" where
  "or_empty v = (case v of None \<Rightarrow> [] | Some xs \<Rightarrow> xs)"

definition enterThread :: "create_message_input \<Rightarrow> ident \<Rightarrow> unit kop" where
  "enterThread input threadRootId =
     (case truthy (cm_threadRootId input) of
        None \<Rightarrow>
          insert_unique d_threads d_threads_update thread_clash
            \<lparr>th_root_message_id = threadRootId, th_project_id = cm_projectId input,
             th_channel_id = cm_channelId input, th_created_event_sequence = None, th_cursor = 0\<rparr>
      | Some root \<Rightarrow>
          bindM (requireThread root) (\<lambda>thread.
          guardM (th_project_id thread = cm_projectId input \<and>
                  th_channel_id thread = cm_channelId input) (err Forbidden)))"

definition mentionAgent :: "create_message_input \<Rightarrow> ident \<Rightarrow> ident \<Rightarrow> instant \<Rightarrow> ident \<Rightarrow> unit kop" where
  "mentionAgent input threadRootId revisionId at targetAgentId =
     seqM (requireMentionable targetAgentId (cm_projectId input))
    (seqM (insertMention revisionId targetAgentId at)
    (whenM (Some targetAgentId \<noteq> cm_authorAgentId input \<and>
            targetAgentId \<notin> set (or_empty (cm_suppressedAttentionAgentIds input)))
       (openAttention (cm_projectId input) (cm_channelId input) threadRootId revisionId
          targetAgentId (pr_id (cm_author input)) (cm_activationId input)
          (cm_correlationId input) at)))"

text \<open>The result is the message id, the revision id and the thread cursor.\<close>

definition createMessage :: "create_message_input \<Rightarrow> (ident \<times> ident \<times> nat) kop" where
  "createMessage input =
     seqM (requireNonEmpty (cm_body input))
    (seqM (assertProjectChannel (cm_projectId input) (cm_channelId input))
    (bindM (idFactory ''message'') (\<lambda>messageId.
     let threadRootId = (case cm_threadRootId input of None \<Rightarrow> messageId | Some r \<Rightarrow> r) in
     bindM (idFactory ''message_revision'') (\<lambda>revisionId.
     bindM clock (\<lambda>at.
     seqM (enterThread input threadRootId)
    (bindM (threadCursor threadRootId) (\<lambda>cursor.
     seqM (insert_unique d_messages d_messages_update message_clash
             \<lparr>ms_id = messageId, ms_project_id = cm_projectId input,
              ms_channel_id = cm_channelId input, ms_thread_root_id = threadRootId,
              ms_reply_to_message_id = cm_replyToMessageId input,
              ms_author_principal_id = pr_id (cm_author input),
              ms_author_agent_id = cm_authorAgentId input,
              ms_caused_by_attention_id = cm_causedByAttentionId input,
              ms_caused_by_run_id = cm_causedByRunId input, ms_thread_sequence = cursor + 1,
              ms_latest_revision = 1, ms_created_event_sequence = None, ms_created_at = at\<rparr>)
    (seqM (insert_unique d_message_revisions d_message_revisions_update message_revision_clash
             \<lparr>mr_id = revisionId, mr_message_id = messageId, mr_revision = 1,
              mr_body = js_trim (cm_body input), mr_tombstone = False,
              mr_created_event_sequence = None, mr_created_at = at\<rparr>)
    (let targetAgentIds = unique (or_empty (cm_targetAgentIds input)) in
     seqM (forM targetAgentIds (mentionAgent input threadRootId revisionId at))
    (bindM (emitThreadEvent threadRootId
              (event_object EvMessagePublished (cm_projectId input) (Some (cm_channelId input)) None
                 EntMessage messageId (pr_id (cm_author input)) (cm_activationId input)
                 (case cm_causedByRunId input of None \<Rightarrow> cm_causedByAttentionId input | Some r \<Rightarrow> Some r)
                 (cm_correlationId input)
                 (JObj [(''messageRevisionId'', JStr revisionId),
                        (''targetAgentIds'', jstrs targetAgentIds),
                        (''authorAgentId'', jopt (cm_authorAgentId input))]))) (\<lambda>threadCursor.
     seqM (enqueueOutbox TopicMessagePublished EntMessage messageId
             (JObj [(''messageRevisionId'', JStr revisionId), (''threadRootId'', JStr threadRootId)]))
          (ret (messageId, revisionId, threadCursor)))))))))))))"

section \<open>Revisions\<close>

definition appendMessageRevision ::
  "message_row \<Rightarrow> nat \<Rightarrow> string \<Rightarrow> bool \<Rightarrow> ident list \<Rightarrow> principal_row \<Rightarrow> ident option \<Rightarrow> string \<Rightarrow> ident kop" where
  "appendMessageRevision message revision body tombstone targetAgentIds actor activationId corr =
     bindM (idFactory ''message_revision'') (\<lambda>revisionId.
     bindM clock (\<lambda>at.
     seqM (insert_unique d_message_revisions d_message_revisions_update message_revision_clash
             \<lparr>mr_id = revisionId, mr_message_id = ms_id message, mr_revision = revision,
              mr_body = body, mr_tombstone = tombstone, mr_created_event_sequence = None,
              mr_created_at = at\<rparr>)
    (seqM (update_where d_messages_update (\<lambda>r. ms_id r = ms_id message)
             (\<lambda>r. r\<lparr>ms_latest_revision := revision\<rparr>))
    (seqM (forM targetAgentIds (\<lambda>targetAgentId.
             seqM (requireMentionable targetAgentId (ms_project_id message))
            (seqM (insertMention revisionId targetAgentId at)
                  (openAttention (ms_project_id message) (ms_channel_id message)
                     (ms_thread_root_id message) revisionId targetAgentId (pr_id actor)
                     activationId corr at))))
          (ret revisionId)))))"

definition latestMessageRevision :: "message_row \<Rightarrow> message_revision_row kop" where
  "latestMessageRevision message =
     bindM (query (\<lambda>d. find_first (\<lambda>r. mr_message_id r = ms_id message \<and>
                         mr_revision r = ms_latest_revision message) (d_message_revisions d)))
       (needM InternalError)"

definition requireOriginalAuthor :: "message_row \<Rightarrow> principal_row \<Rightarrow> unit kop" where
  "requireOriginalAuthor message prin =
     guardM (ms_author_principal_id message = pr_id prin) (err Forbidden)"

definition validateTargetAgentIds :: "ident list option \<Rightarrow> ident list kop" where
  "validateTargetAgentIds targetAgentIds =
     seqM (guardM (list_all (\<lambda>t. t \<noteq> []) (or_empty targetAgentIds)) (err InvalidCommand))
          (ret (sort (unique (or_empty targetAgentIds))))"

section \<open>Handlers\<close>

definition message_result :: "command_type \<Rightarrow> ident \<Rightarrow> nat \<Rightarrow> nat \<Rightarrow> ident \<Rightarrow> command_result" where
  "message_result ct messageId revision cursor revisionId =
     (command_result_of ct messageId)\<lparr>cr_revision := Some revision, cr_threadCursor := Some cursor,
        cr_relatedIds := Some [(''messageRevisionId'', revisionId)]\<rparr>"

definition startThread :: "start_thread_command \<Rightarrow> principal_row \<Rightarrow> string \<Rightarrow> command_result kop" where
  "startThread command prin corr =
     seqM (requireKind prin Human)
    (seqM (assertProjectChannel (st_projectId command) (st_channelId command))
    (bindM (createMessage
              \<lparr>cm_projectId = st_projectId command, cm_channelId = st_channelId command,
               cm_threadRootId = None, cm_replyToMessageId = None, cm_author = prin,
               cm_activationId = None, cm_authorAgentId = None, cm_causedByAttentionId = None,
               cm_causedByRunId = None, cm_body = st_body command,
               cm_targetAgentIds = st_targetAgentIds command,
               cm_suppressedAttentionAgentIds = None, cm_correlationId = corr\<rparr>)
       (\<lambda>(messageId, revisionId, cursor).
        ret (message_result StartThread messageId 1 cursor revisionId))))"

definition replyToThread ::
  "reply_command \<Rightarrow> principal_row \<Rightarrow> principal_context \<Rightarrow> string \<Rightarrow> command_result kop" where
  "replyToThread command prin context corr =
     seqM (requireKind prin Human)
    (bindM (requireThread (rp_threadRootId command)) (\<lambda>thread.
     seqM (checkThreadCursor thread prin context (rp_expectedThreadCursor command))
    (bindM (createMessage
              \<lparr>cm_projectId = th_project_id thread, cm_channelId = th_channel_id thread,
               cm_threadRootId = Some (rp_threadRootId command),
               cm_replyToMessageId = Some (rp_threadRootId command), cm_author = prin,
               cm_activationId = None, cm_authorAgentId = None, cm_causedByAttentionId = None,
               cm_causedByRunId = None, cm_body = rp_body command,
               cm_targetAgentIds = rp_targetAgentIds command,
               cm_suppressedAttentionAgentIds = None, cm_correlationId = corr\<rparr>)
       (\<lambda>(messageId, revisionId, cursor).
        ret (message_result ReplyToThread messageId 1 cursor revisionId)))))"

definition editMessage :: "edit_message_command \<Rightarrow> principal_row \<Rightarrow> string \<Rightarrow> command_result kop" where
  "editMessage command prin corr =
     seqM (requireKind prin Human)
    (bindM (requirePositiveRevision (ed_expectedMessageRevision command)) (\<lambda>expected.
     bindM (requireMessage (ed_messageId command)) (\<lambda>message.
     seqM (requireOriginalAuthor message prin)
    (bindM (latestMessageRevision message) (\<lambda>latest.
     seqM (checkRevision (ms_latest_revision message) expected)
    (seqM (guardM (\<not> mr_tombstone latest) (err Conflict))
    (seqM (requireNonEmpty (ed_body command))
    (bindM (validateTargetAgentIds (ed_targetAgentIds command)) (\<lambda>targetAgentIds.
     let revision = ms_latest_revision message + 1 in
     bindM (appendMessageRevision message revision (js_trim (ed_body command)) False targetAgentIds
              prin None corr) (\<lambda>revisionId.
     bindM (emitThreadEvent (ms_thread_root_id message)
              (event_object EvMessageEdited (ms_project_id message) (Some (ms_channel_id message)) None
                 EntMessage (ed_messageId command) (pr_id prin) None (Some revisionId) corr
                 (JObj [(''messageRevisionId'', JStr revisionId), (''revision'', jnat revision),
                        (''targetAgentIds'', jstrs targetAgentIds)]))) (\<lambda>cursor.
     seqM (enqueueOutbox TopicMessageRevised EntMessage (ed_messageId command)
             (JObj [(''messageRevisionId'', JStr revisionId),
                    (''threadRootId'', JStr (ms_thread_root_id message)),
                    (''tombstone'', JBool False)]))
          (ret (message_result EditMessage (ed_messageId command) revision cursor revisionId)))))))))))))"

definition deleteMessage :: "delete_message_command \<Rightarrow> principal_row \<Rightarrow> string \<Rightarrow> command_result kop" where
  "deleteMessage command prin corr =
     seqM (requireKind prin Human)
    (bindM (requirePositiveRevision (dl_expectedMessageRevision command)) (\<lambda>expected.
     bindM (requireMessage (dl_messageId command)) (\<lambda>message.
     seqM (requireOriginalAuthor message prin)
    (bindM (latestMessageRevision message) (\<lambda>latest.
     seqM (checkRevision (ms_latest_revision message) expected)
    (seqM (guardM (\<not> mr_tombstone latest) (err Conflict))
    (let revision = ms_latest_revision message + 1 in
     bindM (appendMessageRevision message revision [] True [] prin None corr) (\<lambda>revisionId.
     bindM (emitThreadEvent (ms_thread_root_id message)
              (event_object EvMessageDeleted (ms_project_id message) (Some (ms_channel_id message)) None
                 EntMessage (dl_messageId command) (pr_id prin) None (Some revisionId) corr
                 (JObj [(''messageRevisionId'', JStr revisionId), (''revision'', jnat revision),
                        (''tombstone'', JBool True)]))) (\<lambda>cursor.
     seqM (enqueueOutbox TopicMessageRevised EntMessage (dl_messageId command)
             (JObj [(''messageRevisionId'', JStr revisionId),
                    (''threadRootId'', JStr (ms_thread_root_id message)),
                    (''tombstone'', JBool True)]))
          (ret (message_result DeleteMessage (dl_messageId command) revision cursor revisionId)))))))))))"

section \<open>Evolution\<close>

lemma grows_openAttention [grows_rules]: "grows (openAttention p c t r a actor v corr at)"
  unfolding openAttention_def
  by (intro grows_rules) (auto simp: attention_fixed_def attention_ok_def)

lemma grows_message_parts [grows_rules]:
  "grows (insertMention r a at)" "grows (requireMentionable a p)" "grows (enterThread inp root)"
  unfolding insertMention_def requireMentionable_def enterThread_def
  by (intro grows_rules; fail)+

lemma grows_mentionAgent [grows_rules]: "grows (mentionAgent inp root r at a)"
  unfolding mentionAgent_def by (intro grows_rules)

lemma grows_createMessage [grows_rules]: "grows (createMessage inp)"
  unfolding createMessage_def by (intro grows_rules)

lemma grows_appendMessageRevision [grows_rules]:
  "grows (appendMessageRevision m n body tomb targets actor v corr)"
  unfolding appendMessageRevision_def by (intro grows_rules) (simp add: message_fixed_def)

lemma grows_revision_checks [grows_rules]:
  "grows (latestMessageRevision m)" "grows (requireOriginalAuthor m prin)"
  "grows (validateTargetAgentIds ids)"
  unfolding latestMessageRevision_def requireOriginalAuthor_def validateTargetAgentIds_def
  by (intro grows_rules; fail)+

lemma grows_startThread [grows_rules]: "grows (startThread command prin corr)"
  unfolding startThread_def by (intro grows_rules)

lemma grows_replyToThread [grows_rules]: "grows (replyToThread command prin context corr)"
  unfolding replyToThread_def by (intro grows_rules)

lemma grows_editMessage [grows_rules]: "grows (editMessage command prin corr)"
  unfolding editMessage_def by (intro grows_rules)

lemma grows_deleteMessage [grows_rules]: "grows (deleteMessage command prin corr)"
  unfolding deleteMessage_def by (intro grows_rules)

end
