(* ===== verification/Execution.thy ===== *)
theory Execution
  imports Outbox Collaboration
begin

text \<open>
  Activations, provider attempts and run activity (\<open>execution.ts\<close>): starting an activation for a
  run (under the authority of its outbox event) or for an attention (under its handler lease),
  finishing it, delivering inputs to a provider and settling the attempt, parking a run after a
  failed attempt, and appending activity.
\<close>

section \<open>Commands\<close>

record start_activation_command = idempotent_command +
  sa_runId :: "ident option"
  sa_attentionId :: "ident option"
  sa_handlerLeaseToken :: "string option"
  sa_expectedRunRevision :: "nat option"
  sa_outbox :: outbox_authority_command
  sa_durationMs :: "jsnum option"

record finish_activation_command = idempotent_command +
  fa_activationId :: ident
  fa_outcome :: activation_outcome
  fa_detail :: "string option"

record start_provider_command = idempotent_command +
  sp_activationId :: ident
  sp_outbox :: outbox_authority_command
  sp_adapter :: string
  sp_adapterVersion :: string
  sp_capabilitySnapshot :: json
  sp_runInputIds :: "ident list"
  sp_requestIdempotencyKey :: string

record finish_provider_command = idempotent_command +
  fp_providerAttemptId :: ident
  fp_status :: provider_status
  fp_detail :: "string option"

record fail_provider_command = idempotent_command +
  xp_providerAttemptId :: ident
  xp_error :: string

record park_command = idempotent_command +
  pk_runId :: ident
  pk_providerAttemptId :: ident
  pk_expectedRunRevision :: nat
  pk_expectedActivationGeneration :: jsnum
  pk_reason :: string

record append_activity_command = idempotent_command +
  apv_runId :: ident
  apv_activationId :: "ident option"
  apv_providerAttemptId :: "ident option"
  apv_kind :: string
  apv_payload :: json
  apv_retentionClass :: retention_class

definition provider_status_text :: "provider_status \<Rightarrow> string" where
  "provider_status_text st =
     (case st of ProvStarted \<Rightarrow> ''Started'' | ProvAcknowledged \<Rightarrow> ''Acknowledged''
      | ProvCompleted \<Rightarrow> ''Completed'' | ProvFailed \<Rightarrow> ''Failed'' | ProvUnknown \<Rightarrow> ''Unknown'')"

definition activation_outcome_text :: "activation_outcome \<Rightarrow> string" where
  "activation_outcome_text o' =
     (case o' of ActCompleted \<Rightarrow> ''Completed'' | ActFailed \<Rightarrow> ''Failed''
      | ActCancelled \<Rightarrow> ''Cancelled'' | ActExpired \<Rightarrow> ''Expired'')"

section \<open>Starting an activation\<close>

text \<open>The local variables of \<open>startActivation\<close> after its two branches.\<close>

record activation_plan =
  pl_agent :: agent_row
  pl_runId :: "ident option"
  pl_attentionId :: "ident option"
  pl_attentionLeaseToken :: "string option"
  pl_runActivationGeneration :: "nat option"
  pl_resultRunRevision :: "nat option"
  pl_configRevision :: nat
  pl_projectId :: ident
  pl_channelId :: ident
  pl_threadRootId :: ident
  pl_runAuthority :: "(instant \<times> instant) option"
  pl_expiresAt :: instant

text \<open>The run becomes (or stays) active under the next generation; the result is its revision.\<close>

definition activateRun :: "run_row \<Rightarrow> nat \<Rightarrow> instant \<Rightarrow> principal_row \<Rightarrow> string \<Rightarrow> nat kop" where
  "activateRun run generation at prin corr =
     (if rn_state run = RunWaiting then
        let revision = rn_revision run + 1 in
        seqM (update_where d_runs_update (\<lambda>r. rn_id r = rn_id run)
                (\<lambda>r. r\<lparr>rn_state := RunActive, rn_revision := revision,
                       rn_activation_generation := generation, rn_updated_at := at\<rparr>))
       (bindM (emitThreadEvent (rn_thread_root_id run)
                 (event_object EvRunActivated (rn_project_id run) (Some (rn_home_channel_id run)) None
                    EntRun (rn_id run) (pr_id prin) None (Some (rn_id run)) corr
                    (JObj [(''revision'', jnat revision)]))) (\<lambda>_.
        seqM (enqueueOutbox TopicRunActivated EntRun (rn_id run) (JObj [(''revision'', jnat revision)]))
             (ret revision)))
      else
        seqM (update_where d_runs_update (\<lambda>r. rn_id r = rn_id run)
                (\<lambda>r. r\<lparr>rn_activation_generation := generation, rn_updated_at := at\<rparr>))
             (ret (rn_revision run)))"

definition planRunActivation ::
  "start_activation_command \<Rightarrow> ident \<Rightarrow> principal_row \<Rightarrow> string \<Rightarrow> instant \<Rightarrow> instant \<Rightarrow> activation_plan kop" where
  "planRunActivation command runId prin corr at expiresAt =
     bindM (needM (err InvalidCommand) (sa_expectedRunRevision command)) (\<lambda>expected.
     bindM (requireMutableRun runId (Some expected)) (\<lambda>run.
     bindM (requireOutboxActivationAuthority (sa_outbox command) prin runId) (\<lambda>(leaseExpiresAt, observedAt, _).
     bindM (requireAgent (rn_owner_agent_id run)) (\<lambda>agent.
     let generation = rn_activation_generation run + 1 in
     seqM (revokeRunActivations runId SupersededActivation at)
    (bindM (activateRun run generation at prin corr) (\<lambda>revision.
     ret \<lparr>pl_agent = agent, pl_runId = Some runId, pl_attentionId = None,
          pl_attentionLeaseToken = None, pl_runActivationGeneration = Some generation,
          pl_resultRunRevision = Some revision, pl_configRevision = rn_agent_config_revision run,
          pl_projectId = rn_project_id run, pl_channelId = rn_home_channel_id run,
          pl_threadRootId = rn_thread_root_id run,
          pl_runAuthority = Some (leaseExpiresAt, observedAt), pl_expiresAt = expiresAt\<rparr>))))))"

text \<open>\<open>Inl\<close> is the early return: the activation of this lease exists already.\<close>

definition planAttentionActivation ::
  "start_activation_command \<Rightarrow> ident \<Rightarrow> instant \<Rightarrow> instant \<Rightarrow> ((ident \<times> attention_row) + activation_plan) kop" where
  "planAttentionActivation command attentionId at expiresAt =
     bindM (requireAttention attentionId) (\<lambda>attention.
     seqM (guardM (at_status attention = AttOpen) (err Conflict))
    (seqM (assertAttentionLease attention (sa_handlerLeaseToken command))
    (bindM (needM InternalError (sa_handlerLeaseToken command)) (\<lambda>leaseToken.
     bindM (needM InternalError (at_handler_lease_expires_at attention)) (\<lambda>leaseExpiry.
     bindM (query (\<lambda>d. find_first (\<lambda>a. aa_attention_id a = Some attentionId \<and>
              aa_attention_lease_token a = Some leaseToken) (d_activations d))) (\<lambda>existing.
     case existing of
       Some a \<Rightarrow> ret (Inl (aa_id a, attention))
     | None \<Rightarrow>
         bindM (requireAgent (at_target_agent_id attention)) (\<lambda>agent.
         ret (Inr \<lparr>pl_agent = agent, pl_runId = None, pl_attentionId = Some attentionId,
                   pl_attentionLeaseToken = Some leaseToken, pl_runActivationGeneration = None,
                   pl_resultRunRevision = None, pl_configRevision = ag_current_config_revision agent,
                   pl_projectId = at_project_id attention, pl_channelId = at_channel_id attention,
                   pl_threadRootId = at_thread_root_id attention, pl_runAuthority = None,
                   pl_expiresAt = (if leaseExpiry < expiresAt then leaseExpiry else expiresAt)\<rparr>))))))))"

text \<open>A run activation is supplied with the inputs the run has now, in sequence order.\<close>

definition run_inputs_of :: "ident \<Rightarrow> database \<Rightarrow> run_input_row list" where
  "run_inputs_of runId d =
     sort_key ri_run_input_sequence (filter (\<lambda>r. ri_run_id r = runId) (d_run_inputs d))"

definition supplyInputs :: "ident \<Rightarrow> ident \<Rightarrow> unit kop" where
  "supplyInputs activationId runId =
     bindM (query (run_inputs_of runId)) (\<lambda>inputs.
     forM inputs (\<lambda>input.
       insert_unique d_activation_inputs d_activation_inputs_update activation_input_clash
         \<lparr>ai_activation_id = activationId, ai_run_input_id = ri_id input,
          ai_run_input_sequence = ri_run_input_sequence input\<rparr>))"

definition createActivation ::
  "activation_plan \<Rightarrow> instant \<Rightarrow> principal_row \<Rightarrow> string \<Rightarrow> command_result kop" where
  "createActivation plan at prin corr =
     bindM (idFactory ''activation'') (\<lambda>activationId.
     seqM (insert_activation
             \<lparr>aa_id = activationId, aa_agent_id = ag_id (pl_agent plan), aa_run_id = pl_runId plan,
              aa_attention_id = pl_attentionId plan,
              aa_attention_lease_token = pl_attentionLeaseToken plan,
              aa_run_activation_generation = pl_runActivationGeneration plan,
              aa_cause = (if truthy (pl_runId plan) \<noteq> None then CauseRun else CauseAttention),
              aa_config_revision = pl_configRevision plan, aa_created_event_sequence = None,
              aa_started_at = at, aa_expires_at = pl_expiresAt plan, aa_revoked_at = None,
              aa_revocation_reason = None, aa_finished_at = None, aa_outcome = None,
              aa_detail = None\<rparr>)
    (seqM (case truthy (pl_runId plan) of None \<Rightarrow> ret () | Some runId \<Rightarrow> supplyInputs activationId runId)
    (bindM (emitEvent (event_object EvActivationStarted (pl_projectId plan) (Some (pl_channelId plan))
               (Some (pl_threadRootId plan)) EntActivationAttempt activationId (pr_id prin)
               (Some activationId)
               (case pl_runId plan of None \<Rightarrow> pl_attentionId plan | Some r \<Rightarrow> Some r) corr
               (JObj [(''runId'', jopt (pl_runId plan)), (''attentionId'', jopt (pl_attentionId plan)),
                      (''agentId'', JStr (ag_id (pl_agent plan))),
                      (''configRevision'', jnat (pl_configRevision plan)),
                      (''runActivationGeneration'', jnat_opt (pl_runActivationGeneration plan)),
                      (''expiresAt'', JNum (pl_expiresAt plan))]))) (\<lambda>_.
     ret ((command_result_of StartActivation activationId)
            \<lparr>cr_leaseExpiresAt := map_option fst (pl_runAuthority plan),
             cr_authorityObservedAt := map_option snd (pl_runAuthority plan),
             cr_revision := pl_resultRunRevision plan,
             cr_relatedIds := Some ((''agentId'', ag_id (pl_agent plan)) #
               (case truthy (pl_runId plan) of
                  Some r \<Rightarrow> [(''runId'', r)]
                | None \<Rightarrow> [(''attentionId'', or_empty (pl_attentionId plan))]))\<rparr>)))))"

definition startActivation ::
  "start_activation_command \<Rightarrow> principal_row \<Rightarrow> string \<Rightarrow> command_result kop" where
  "startActivation command prin corr =
     seqM (requireKind prin Runtime)
    (seqM (guardM ((truthy (sa_runId command) \<noteq> None) \<noteq> (truthy (sa_attentionId command) \<noteq> None))
             (err InvalidCommand))
    (bindM (gets k_activationDurationMs) (\<lambda>defaultMs.
     bindM (boundedDuration (case sa_durationMs command of None \<Rightarrow> JInt defaultMs | Some n \<Rightarrow> n)) (\<lambda>durationMs.
     bindM clock (\<lambda>at.
     let expiresAt = at + durationMs in
     (case truthy (sa_runId command) of
        Some runId \<Rightarrow>
          bindM (planRunActivation command runId prin corr at expiresAt) (\<lambda>plan.
            createActivation plan at prin corr)
      | None \<Rightarrow>
          bindM (needM InternalError (sa_attentionId command)) (\<lambda>attentionId.
          bindM (planAttentionActivation command attentionId at expiresAt) (\<lambda>found.
          if isl found then
            ret ((command_result_of StartActivation (fst (projl found)))
                   \<lparr>cr_relatedIds := Some [(''agentId'', at_target_agent_id (snd (projl found))),
                                          (''attentionId'', attentionId)]\<rparr>)
          else createActivation (projr found) at prin corr))))))))"

definition resolveCachedActivation ::
  "start_activation_command \<Rightarrow> command_result \<Rightarrow> principal_row \<Rightarrow> command_result kop" where
  "resolveCachedActivation command result prin =
     (case truthy (sa_runId command) of
        None \<Rightarrow> ret result
      | Some runId \<Rightarrow>
          bindM (requireLiveActivation (cr_entityId result)) (\<lambda>activation.
          seqM (assertActivationScopeCurrent activation)
         (seqM (guardM (aa_run_id activation = Some runId) InternalError)
         (bindM (requireOutboxActivationAuthority (sa_outbox command) prin runId) (\<lambda>(leaseExpiresAt, observedAt, _).
          ret (result\<lparr>cr_leaseExpiresAt := Some leaseExpiresAt,
                      cr_authorityObservedAt := Some observedAt\<rparr>))))))"

section \<open>Finishing an activation\<close>

definition finishActivation ::
  "finish_activation_command \<Rightarrow> principal_row \<Rightarrow> principal_context \<Rightarrow> string \<Rightarrow> command_result kop" where
  "finishActivation command prin context corr =
     bindM (requireActivation (fa_activationId command)) (\<lambda>activation.
     seqM (authorizeActivationActor prin context activation False)
    (seqM (whenM (pr_kind prin = Agent) (assertActivationScopeCurrent activation))
    (seqM (guardM (aa_finished_at activation = None) (err Conflict))
    (bindM clock (\<lambda>at.
     bindM (update_activations (\<lambda>r. aa_id r = fa_activationId command)
             (\<lambda>r. r\<lparr>aa_finished_at := Some at, aa_outcome := Some (fa_outcome command),
                    aa_detail := fa_detail command\<rparr>)) (\<lambda>changed.
     seqM (markActivationChanges changed)
    (bindM (activationScope activation) (\<lambda>(projectId, channelId, threadRootId).
     bindM (emitEvent (event_object EvActivationFinished projectId (Some channelId) (Some threadRootId)
               EntActivationAttempt (fa_activationId command) (pr_id prin)
               (Some (fa_activationId command))
               (case aa_run_id activation of None \<Rightarrow> aa_attention_id activation | Some r \<Rightarrow> Some r) corr
               (JObj [(''outcome'', JStr (activation_outcome_text (fa_outcome command)))]))) (\<lambda>_.
     ret ((command_result_of FinishActivation (fa_activationId command))
            \<lparr>cr_relatedIds := Some [(''outcome'', activation_outcome_text (fa_outcome command))]\<rparr>))))))))))"

section \<open>Provider attempts\<close>

definition providerAttemptAuthority ::
  "start_provider_command \<Rightarrow> principal_row \<Rightarrow> ident option \<Rightarrow> ident list \<Rightarrow> (instant \<times> instant) kop" where
  "providerAttemptAuthority command prin runId runInputIds =
     (case runId of
        Some rid \<Rightarrow>
          bindM (requireOutboxProviderAuthority (sp_outbox command) prin rid runInputIds)
            (\<lambda>(leaseExpiresAt, observedAt, _). ret (leaseExpiresAt, observedAt))
      | None \<Rightarrow>
          seqM (guardM (oa_outboxEventId (sp_outbox command) = None \<and>
                        oa_outboxLeaseToken (sp_outbox command) = None) (err InvalidCommand))
         (bindM clock (\<lambda>observed.
          bindM (requireActivation (sp_activationId command)) (\<lambda>activation.
            ret (aa_expires_at activation, observed)))))"

definition checkProviderInput :: "ident \<Rightarrow> ident option \<Rightarrow> ident \<Rightarrow> unit kop" where
  "checkProviderInput activationId runId inputId =
     bindM (query (\<lambda>d. find_row ri_id inputId (d_run_inputs d))) (\<lambda>found.
     bindM (needM (err NotFound) found) (\<lambda>input.
     seqM (guardM (truthy runId \<noteq> None \<and> Some (ri_run_id input) = runId) (err Forbidden))
    (seqM (guardM (ri_disposition input = Pending) (err Conflict))
    (bindM (query (\<lambda>d. list_ex (\<lambda>r. ai_activation_id r = activationId \<and> ai_run_input_id r = inputId)
              (d_activation_inputs d))) (\<lambda>supplied.
     guardM supplied (err Forbidden))))))"

definition startProviderAttempt ::
  "start_provider_command \<Rightarrow> principal_row \<Rightarrow> principal_context \<Rightarrow> string \<Rightarrow> command_result kop" where
  "startProviderAttempt command prin context corr =
     bindM (requireLiveActivation (sp_activationId command)) (\<lambda>activation.
     seqM (authorizeActivationActor prin context activation False)
    (seqM (assertActivationScopeCurrent activation)
    (let runId = aa_run_id activation; runInputIds = unique (sp_runInputIds command) in
     bindM (providerAttemptAuthority command prin runId runInputIds) (\<lambda>(leaseExpiresAt, observedAt).
     seqM (forM runInputIds (checkProviderInput (sp_activationId command) runId))
    (bindM (idFactory ''provider'') (\<lambda>providerAttemptId.
     bindM clock (\<lambda>at.
     seqM (insert_provider_attempt
             \<lparr>pa_id = providerAttemptId, pa_activation_id = sp_activationId command,
              pa_run_id = runId, pa_adapter = sp_adapter command,
              pa_adapter_version = sp_adapterVersion command,
              pa_capability_snapshot = sp_capabilitySnapshot command,
              pa_run_input_ids = runInputIds,
              pa_request_idempotency_key = sp_requestIdempotencyKey command,
              pa_status = ProvStarted, pa_detail = None, pa_created_event_sequence = None,
              pa_started_at = at, pa_finished_at = None\<rparr>)
    (bindM (activationScope activation) (\<lambda>(projectId, channelId, threadRootId).
     bindM (emitEvent (event_object EvProviderAttemptStarted projectId (Some channelId)
               (Some threadRootId) EntProviderAttempt providerAttemptId (pr_id prin)
               (Some (sp_activationId command)) (Some (sp_activationId command)) corr
               (JObj [(''adapter'', JStr (sp_adapter command)),
                      (''adapterVersion'', JStr (sp_adapterVersion command)),
                      (''runInputIds'', jstrs runInputIds)]))) (\<lambda>_.
     ret ((command_result_of StartProviderAttempt providerAttemptId)
            \<lparr>cr_leaseExpiresAt := Some leaseExpiresAt, cr_authorityObservedAt := Some observedAt,
             cr_relatedIds := Some [(''activationId'', sp_activationId command)]\<rparr>)))))))))))"

definition resolveCachedProviderAttempt ::
  "start_provider_command \<Rightarrow> command_result \<Rightarrow> principal_row \<Rightarrow> principal_context \<Rightarrow> command_result kop" where
  "resolveCachedProviderAttempt command result prin context =
     bindM (requireLiveActivation (sp_activationId command)) (\<lambda>activation.
     seqM (authorizeActivationActor prin context activation False)
    (seqM (assertActivationScopeCurrent activation)
    (bindM (providerAttemptAuthority command prin (aa_run_id activation)
              (unique (sp_runInputIds command))) (\<lambda>(leaseExpiresAt, observedAt).
     bindM (requireProviderAttempt (cr_entityId result)) (\<lambda>attempt.
     seqM (guardM (pa_activation_id attempt = sp_activationId command \<and>
                   pa_request_idempotency_key attempt = sp_requestIdempotencyKey command) InternalError)
          (ret (result\<lparr>cr_leaseExpiresAt := Some leaseExpiresAt,
                       cr_authorityObservedAt := Some observedAt\<rparr>)))))))"

definition setProviderAttemptStatus ::
  "ident \<Rightarrow> provider_status \<Rightarrow> string option \<Rightarrow> command_type \<Rightarrow> principal_row \<Rightarrow> principal_context \<Rightarrow>
   string \<Rightarrow> command_result kop" where
  "setProviderAttemptStatus providerAttemptId status detail ct prin context corr =
     bindM (requireProviderAttempt providerAttemptId) (\<lambda>attempt.
     bindM (requireActivation (pa_activation_id attempt)) (\<lambda>activation.
     seqM (whenM (pr_kind prin = Agent)
             (seqM (guardM (aa_finished_at activation = None) (err Forbidden))
                   (assertActivationScopeCurrent activation)))
    (seqM (authorizeActivationActor prin context activation True)
    (seqM (guardM (unsettled (pa_status attempt)) (err Conflict))
    (seqM (guardM (\<not> (pa_status attempt = ProvAcknowledged \<and> status = ProvAcknowledged)) (err Conflict))
    (seqM (whenM (status = ProvUnknown) (requireNonEmpty (or_empty detail)))
    (bindM (if status = ProvAcknowledged then ret None else bindM clock (\<lambda>at. ret (Some at))) (\<lambda>finishedAt.
     seqM (update_provider_attempt providerAttemptId
             (\<lambda>r. r\<lparr>pa_status := status, pa_detail := detail, pa_finished_at := finishedAt\<rparr>))
    (bindM (activationScope activation) (\<lambda>(projectId, channelId, threadRootId).
     bindM (emitEvent (event_object
               (if status = ProvAcknowledged then EvProviderAttemptAcknowledged
                else EvProviderAttemptFinished)
               projectId (Some channelId) (Some threadRootId) EntProviderAttempt providerAttemptId
               (pr_id prin) (Some (pa_activation_id attempt)) (Some (pa_activation_id attempt)) corr
               (JObj [(''status'', JStr (provider_status_text status)), (''detail'', jopt detail)]))) (\<lambda>_.
     ret ((command_result_of ct providerAttemptId)
            \<lparr>cr_relatedIds := Some [(''status'', provider_status_text status)]\<rparr>))))))))))))"

definition finishProviderAttempt ::
  "finish_provider_command \<Rightarrow> principal_row \<Rightarrow> principal_context \<Rightarrow> string \<Rightarrow> command_result kop" where
  "finishProviderAttempt command prin context corr =
     seqM (guardM (fp_status command \<in> {ProvAcknowledged, ProvCompleted, ProvUnknown}) (err InvalidCommand))
          (setProviderAttemptStatus (fp_providerAttemptId command) (fp_status command)
             (fp_detail command) FinishProviderAttempt prin context corr)"

definition failProviderAttempt ::
  "fail_provider_command \<Rightarrow> principal_row \<Rightarrow> principal_context \<Rightarrow> string \<Rightarrow> command_result kop" where
  "failProviderAttempt command prin context corr =
     setProviderAttemptStatus (xp_providerAttemptId command) ProvFailed (Some (xp_error command))
       FailProviderAttempt prin context corr"

section \<open>Run activity\<close>

definition insertActivity ::
  "ident \<Rightarrow> ident \<Rightarrow> ident option \<Rightarrow> string \<Rightarrow> json \<Rightarrow> retention_class \<Rightarrow> (ident \<times> nat) kop" where
  "insertActivity runId activationId providerAttemptId kind payload retentionClass =
     seqM (requireNonEmpty kind)
    (bindM (requireRun runId) (\<lambda>run.
     let sequence = rn_next_activity_sequence run in
     bindM (idFactory ''activity'') (\<lambda>activityId.
     bindM clock (\<lambda>at.
     seqM (insert_unique d_activities d_activities_update activity_clash
             \<lparr>ra_id = activityId, ra_run_id = runId, ra_activation_id = Some activationId,
              ra_provider_attempt_id = providerAttemptId, ra_sequence = sequence, ra_kind = kind,
              ra_payload = payload, ra_retention_class = retentionClass,
              ra_created_event_sequence = None, ra_created_at = at\<rparr>)
    (seqM (update_where d_runs_update (\<lambda>r. rn_id r = runId)
             (\<lambda>r. r\<lparr>rn_next_activity_sequence := sequence + 1\<rparr>))
          (ret (activityId, sequence)))))))"

definition validateActivityProvenance ::
  "ident \<Rightarrow> ident option \<Rightarrow> ident option \<Rightarrow> principal_row \<Rightarrow> principal_context \<Rightarrow> bool \<Rightarrow> ident kop" where
  "validateActivityProvenance runId activationId providerAttemptId prin context allowFinished =
     seqM (guardM (truthy activationId \<noteq> None \<or> truthy providerAttemptId \<noteq> None) (err InvalidCommand))
    (bindM (case truthy providerAttemptId of
              None \<Rightarrow> needM InternalError activationId
            | Some pid \<Rightarrow>
                bindM (requireProviderAttempt pid) (\<lambda>providerAttempt.
                seqM (guardM (pa_run_id providerAttempt = Some runId) (err Forbidden))
               (seqM (guardM (truthy activationId = None \<or>
                              activationId = Some (pa_activation_id providerAttempt)) (err InvalidCommand))
                     (ret (pa_activation_id providerAttempt))))) (\<lambda>resolved.
     bindM (if allowFinished then requireActivation resolved else requireLiveActivation resolved) (\<lambda>activation.
     seqM (guardM (aa_run_id activation = Some runId) (err Forbidden))
    (seqM (authorizeActivationActor prin context activation allowFinished)
    (seqM (whenM (\<not> allowFinished) (assertActivationScopeCurrent activation))
          (ret resolved))))))"

definition appendRunActivity ::
  "append_activity_command \<Rightarrow> principal_row \<Rightarrow> principal_context \<Rightarrow> string \<Rightarrow> command_result kop" where
  "appendRunActivity command prin context corr =
     bindM (validateActivityProvenance (apv_runId command) (apv_activationId command)
              (apv_providerAttemptId command) prin context False) (\<lambda>activationId.
     bindM (insertActivity (apv_runId command) activationId (apv_providerAttemptId command)
              (apv_kind command) (apv_payload command) (apv_retentionClass command)) (\<lambda>(activityId, sequence).
     bindM (requireRun (apv_runId command)) (\<lambda>run.
     bindM (emitEvent (event_object EvRunActivityAppended (rn_project_id run)
               (Some (rn_home_channel_id run)) (Some (rn_thread_root_id run)) EntRunActivityEvent
               activityId (pr_id prin) (Some activationId)
               (case apv_providerAttemptId command of None \<Rightarrow> Some activationId | Some p \<Rightarrow> Some p) corr
               (JObj [(''runId'', JStr (apv_runId command)), (''sequence'', jnat sequence),
                      (''kind'', JStr (apv_kind command))]))) (\<lambda>_.
     ret ((command_result_of AppendRunActivity activityId)
            \<lparr>cr_revision := Some sequence,
             cr_relatedIds := Some [(''runId'', apv_runId command)]\<rparr>)))))"

section \<open>Parking a run\<close>

definition parkRunAfterProviderAttemptFailure ::
  "park_command \<Rightarrow> principal_row \<Rightarrow> string \<Rightarrow> command_result kop" where
  "parkRunAfterProviderAttemptFailure command prin corr =
     seqM (requireKind prin Runtime)
    (seqM (requireNonEmpty (pk_reason command))
    (bindM (requirePositiveRevision (pk_expectedActivationGeneration command)) (\<lambda>expectedGeneration.
     bindM (requireRun (pk_runId command)) (\<lambda>run.
     seqM (checkRevision (rn_revision run) (pk_expectedRunRevision command))
    (seqM (guardM (rn_state run = RunActive)
             (KernelError (if isTerminalRunState (rn_state run) then TerminalRun else Conflict)
                (Some (JObj [(''state'', JStr (run_state_text (rn_state run)))]))))
    (seqM (guardM (rn_activation_generation run = expectedGeneration)
             (KernelError Conflict (Some (JObj
                [(''expectedActivationGeneration'', jnat expectedGeneration),
                 (''actualActivationGeneration'', jnat (rn_activation_generation run))]))))
    (bindM (requireProviderAttempt (pk_providerAttemptId command)) (\<lambda>attempt.
     seqM (guardM (pa_run_id attempt = Some (pk_runId command)) (err Forbidden))
    (bindM (requireActivation (pa_activation_id attempt)) (\<lambda>activation.
     seqM (guardM (aa_run_id activation = Some (pk_runId command) \<and>
                   aa_agent_id activation = rn_owner_agent_id run) (err Forbidden))
    (bindM (needM InternalError (aa_run_activation_generation activation)) (\<lambda>generation.
     seqM (guardM (generation = expectedGeneration) (err Conflict))
    (seqM (guardM (pa_status attempt = ProvFailed \<or> pa_status attempt = ProvUnknown)
             (KernelError Conflict (Some (JObj
                [(''status'', JStr (provider_status_text (pa_status attempt)))]))))
    (bindM clock (\<lambda>at.
     let revision = rn_revision run + 1; reason = js_trim (pk_reason command) in
     seqM (update_where d_runs_update (\<lambda>r. rn_id r = pk_runId command)
             (\<lambda>r. r\<lparr>rn_state := RunWaiting, rn_revision := revision, rn_updated_at := at\<rparr>))
    (seqM (revokeRunActivations (pk_runId command) ProviderFailureParked at)
    (bindM (insertActivity (pk_runId command) (aa_id activation) (Some (pk_providerAttemptId command))
              ''provider_attempt_failure_parked''
              (JObj [(''providerAttemptStatus'', JStr (provider_status_text (pa_status attempt))),
                     (''reason'', JStr reason), (''runRevision'', jnat revision)]) Durable) (\<lambda>(activityId, _).
     bindM (emitThreadEvent (rn_thread_root_id run)
              (event_object EvRunWaiting (rn_project_id run) (Some (rn_home_channel_id run)) None EntRun
                 (pk_runId command) (pr_id prin) (Some (aa_id activation))
                 (Some (pk_providerAttemptId command)) corr
                 (JObj [(''revision'', jnat revision), (''reason'', JStr reason),
                        (''providerAttemptId'', JStr (pk_providerAttemptId command)),
                        (''providerAttemptStatus'', JStr (provider_status_text (pa_status attempt))),
                        (''activityId'', JStr activityId)]))) (\<lambda>cursor.
     seqM (enqueueOutbox TopicRunWaiting EntRun (pk_runId command)
             (JObj [(''revision'', jnat revision), (''reason'', JStr reason),
                    (''providerAttemptId'', JStr (pk_providerAttemptId command)),
                    (''providerAttemptStatus'', JStr (provider_status_text (pa_status attempt)))]))
          (ret ((command_result_of ParkRunAfterProviderAttemptFailure (pk_runId command))
            \<lparr>cr_revision := Some revision, cr_threadCursor := Some cursor,
             cr_relatedIds := Some [(''activationId'', aa_id activation),
               (''providerAttemptId'', pk_providerAttemptId command),
               (''activityId'', activityId)]\<rparr>)))))))))))))))))))))"

section \<open>Evolution\<close>

lemma grows_activateRun [grows_rules]: "grows (activateRun run g at prin corr)"
  unfolding activateRun_def by (intro grows_rules) (simp_all add: run_fixed_def)

lemma grows_planRunActivation [grows_rules]: "grows (planRunActivation command i prin corr at obs)"
  unfolding planRunActivation_def by (intro grows_rules)

lemma grows_planAttentionActivation [grows_rules]: "grows (planAttentionActivation command i at obs)"
  unfolding planAttentionActivation_def by (intro grows_rules)

lemma grows_supplyInputs [grows_rules]: "grows (supplyInputs a i)"
  unfolding supplyInputs_def by (intro grows_rules)

lemma grows_createActivation [grows_rules]: "grows (createActivation plan at prin corr)"
  unfolding createActivation_def by (intro grows_rules) (simp add: activation_ok_def)

lemma grows_startActivation [grows_rules]: "grows (startActivation command prin corr)"
  unfolding startActivation_def by (intro grows_rules)

lemma grows_resolveCachedActivation [grows_rules]:
  "grows (resolveCachedActivation command result prin)"
  unfolding resolveCachedActivation_def by (intro grows_rules)

lemma grows_finishActivation [grows_rules]: "grows (finishActivation command prin context corr)"
  unfolding finishActivation_def
  by (intro grows_rules) (simp_all add: activation_fixed_def activation_ok_def)

lemma grows_providerAttemptAuthority [grows_rules]:
  "grows (providerAttemptAuthority command prin v js)" "grows (checkProviderInput a v i)"
  unfolding providerAttemptAuthority_def checkProviderInput_def by (intro grows_rules; fail)+

lemma grows_startProviderAttempt [grows_rules]:
  "grows (startProviderAttempt command prin context corr)"
  unfolding startProviderAttempt_def by (intro grows_rules)

lemma grows_resolveCachedProviderAttempt [grows_rules]:
  "grows (resolveCachedProviderAttempt command result prin context)"
  unfolding resolveCachedProviderAttempt_def by (intro grows_rules)

lemma grows_setProviderAttemptStatus [grows_rules]:
  "grows (setProviderAttemptStatus i status detail ct prin context corr)"
  unfolding setProviderAttemptStatus_def by (intro grows_rules) (simp_all add: attempt_fixed_def)

lemma grows_provider_ends [grows_rules]:
  "grows (finishProviderAttempt c1 prin context corr)" "grows (failProviderAttempt c2 prin context corr)"
  unfolding finishProviderAttempt_def failProviderAttempt_def by (intro grows_rules; fail)+

lemma grows_insertActivity [grows_rules]: "grows (insertActivity i a v kind payload ret_class)"
  by (auto simp: evolves_def insertActivity_def requireRun_def requireRow_def requireNonEmpty_def Let_def
      run_simps collab_def extends_refl split: option.split intro!: well_formed_append_activity)
    (simp_all add: extends_def worktree_side_def map_fixed_update run_fixed_def)

lemma grows_validateActivityProvenance [grows_rules]:
  "grows (validateActivityProvenance i a v prin context b)"
  unfolding validateActivityProvenance_def by (intro grows_rules)

lemma grows_appendRunActivity [grows_rules]: "grows (appendRunActivity command prin context corr)"
  unfolding appendRunActivity_def by (intro grows_rules)

lemma grows_park [grows_rules]: "grows (parkRunAfterProviderAttemptFailure command prin corr)"
  unfolding parkRunAfterProviderAttemptFailure_def by (intro grows_rules) (simp_all add: run_fixed_def)

end
