(* ===== verification/Runs.thy ===== *)
theory Runs
  imports CausalLimits Execution "HOL-Library.AList"
begin

text \<open>
  Runs (\<open>runs.ts\<close>): sending an input to a run, withdrawing one, replying in the thread, and the
  transitions to Waiting, Completed, Failed and Cancelled. A run completes only when every input
  has a disposition and the supersession references have no cycle.
\<close>

section \<open>Commands\<close>

record send_to_run_command = idempotent_command +
  sr_runId :: ident
  sr_expectedRunRevision :: "nat option"
  sr_body :: string
  sr_targetAgentIds :: "ident list option"

record cancel_run_command = idempotent_command +
  cn_runId :: ident
  cn_expectedRunRevision :: nat
  cn_reason :: string

record withdraw_command = idempotent_command +
  wd_runInputId :: ident
  wd_expectedRunRevision :: nat
  wd_expectedDispositionRevision :: nat
  wd_reason :: string

record run_reply_command = idempotent_command +
  rr_runId :: ident
  rr_expectedRunRevision :: nat
  rr_expectedThreadCursor :: "nat option"
  rr_body :: string
  rr_targetAgentIds :: "ident list option"

record completion_exception =
  ce_runInputId :: ident
  ce_disposition :: disposition
  ce_reason :: string
  ce_supersededByRunInputId :: "ident option"

record final_reply =
  fr_expectedThreadCursor :: "nat option"
  fr_body :: string
  fr_targetAgentIds :: "ident list option"

record complete_run_command = idempotent_command +
  cp_runId :: ident
  cp_expectedRunRevision :: nat
  cp_incorporatedThroughInputSequence :: jsnum
  cp_exceptions :: "completion_exception list option"
  cp_finalReply :: "final_reply option"

record wait_run_command = idempotent_command +
  wt_runId :: ident
  wt_expectedRunRevision :: nat
  wt_reason :: string

record fail_run_command = idempotent_command +
  fl_runId :: ident
  fl_expectedRunRevision :: nat
  fl_reason :: string

record late_output_command = idempotent_command +
  lo_runId :: ident
  lo_activationId :: "ident option"
  lo_providerAttemptId :: "ident option"
  lo_payload :: json

section \<open>Inputs\<close>

definition createRunInput ::
  "run_row \<Rightarrow> ident \<Rightarrow> ident \<Rightarrow> ident option \<Rightarrow> ident option \<Rightarrow> (ident \<times> nat) kop" where
  "createRunInput run messageRevisionId assignedBy assignedByActivation sourceAttentionId =
     (let sequence = rn_next_input_sequence run in
      bindM (idFactory ''run_input'') (\<lambda>inputId.
      bindM clock (\<lambda>at.
      seqM (insert_unique d_run_inputs d_run_inputs_update run_input_clash
              \<lparr>ri_id = inputId, ri_run_id = rn_id run, ri_message_revision_id = messageRevisionId,
               ri_run_input_sequence = sequence, ri_assigned_by_principal_id = assignedBy,
               ri_assigned_by_activation_id = assignedByActivation,
               ri_source_attention_id = sourceAttentionId, ri_created_event_sequence = None,
               ri_created_at = at, ri_disposition = Pending, ri_disposition_revision = 1,
               ri_disposition_reason = None, ri_superseded_by = None\<rparr>)
           (ret (inputId, sequence)))))"

definition update_run :: "ident \<Rightarrow> (run_row \<Rightarrow> run_row) \<Rightarrow> unit kop" where
  "update_run runId f = update_where d_runs_update (\<lambda>r. rn_id r = runId) f"

definition emitRunEvent ::
  "event_type \<Rightarrow> run_row \<Rightarrow> entity_type \<Rightarrow> ident \<Rightarrow> principal_row \<Rightarrow> ident option \<Rightarrow> ident option \<Rightarrow> string \<Rightarrow> json \<Rightarrow> nat kop" where
  "emitRunEvent ty run entityType entityId prin activationId causationId corr payload =
     emitThreadEvent (rn_thread_root_id run)
       (event_object ty (rn_project_id run) (Some (rn_home_channel_id run)) None entityType entityId
          (pr_id prin) activationId causationId corr payload)"

definition sendToRun :: "send_to_run_command \<Rightarrow> principal_row \<Rightarrow> string \<Rightarrow> command_result kop" where
  "sendToRun command prin corr =
     seqM (requireKind prin Human)
    (bindM (needM (err InvalidCommand) (sr_expectedRunRevision command)) (\<lambda>expected.
     bindM (requireMutableRun (sr_runId command) (Some expected)) (\<lambda>run.
     bindM (createMessage
              \<lparr>cm_projectId = rn_project_id run, cm_channelId = rn_home_channel_id run,
               cm_threadRootId = Some (rn_thread_root_id run),
               cm_replyToMessageId = Some (rn_thread_root_id run), cm_author = prin,
               cm_activationId = None, cm_authorAgentId = None, cm_causedByAttentionId = None,
               cm_causedByRunId = None, cm_body = sr_body command,
               cm_targetAgentIds = sr_targetAgentIds command,
               cm_suppressedAttentionAgentIds = Some [rn_owner_agent_id run],
               cm_correlationId = corr\<rparr>) (\<lambda>(messageId, revisionId, _).
     bindM (createRunInput run revisionId (pr_id prin) None None) (\<lambda>(inputId, sequence).
     let revision = rn_revision run + 1 in
     bindM clock (\<lambda>at.
     seqM (update_run (sr_runId command)
             (\<lambda>r. r\<lparr>rn_revision := revision, rn_next_input_sequence := sequence + 1, rn_updated_at := at\<rparr>))
    (bindM (emitRunEvent EvRunInputAdded run EntRunInput inputId prin None (Some revisionId) corr
              (JObj [(''runId'', JStr (sr_runId command)), (''sequence'', jnat sequence)])) (\<lambda>_.
     seqM (enqueueOutbox TopicRunInputAvailable EntRun (sr_runId command)
             (JObj [(''runInputId'', JStr inputId), (''runRevision'', jnat revision)]))
    (bindM (threadCursor (rn_thread_root_id run)) (\<lambda>cursor.
     ret ((command_result_of SendToRun messageId)
            \<lparr>cr_revision := Some revision, cr_threadCursor := Some cursor,
             cr_relatedIds := Some [(''messageRevisionId'', revisionId), (''runInputId'', inputId),
               (''runId'', sr_runId command)]\<rparr>)))))))))))"

definition withdrawRunInput ::
  "withdraw_command \<Rightarrow> principal_row \<Rightarrow> principal_context \<Rightarrow> string \<Rightarrow> command_result kop" where
  "withdrawRunInput command prin context corr =
     bindM (requireRunInput (wd_runInputId command)) (\<lambda>input.
     bindM (requireMutableRun (ri_run_id input) (Some (wd_expectedRunRevision command))) (\<lambda>run.
     seqM (checkRevision (ri_disposition_revision input) (wd_expectedDispositionRevision command))
    (seqM (guardM (ri_disposition input = Pending) (err Conflict))
    (seqM (guardM (ri_assigned_by_principal_id input = pr_id prin) (err Forbidden))
    (bindM (if pr_kind prin = Agent then
              bindM (requireRunActivation context prin run) (\<lambda>a. ret (Some (aa_id a)))
            else seqM (guardM (pr_kind prin = Human) (err Forbidden)) (ret None)) (\<lambda>activationId.
     seqM (requireNonEmpty (wd_reason command))
    (let runRevision = rn_revision run + 1;
         dispositionRevision = ri_disposition_revision input + 1 in
     seqM (update_where d_run_inputs_update (\<lambda>r. ri_id r = wd_runInputId command)
             (\<lambda>r. r\<lparr>ri_disposition := Withdrawn, ri_disposition_revision := dispositionRevision,
                    ri_disposition_reason := Some (wd_reason command), ri_superseded_by := None\<rparr>))
    (bindM clock (\<lambda>at.
     seqM (update_run (rn_id run) (\<lambda>r. r\<lparr>rn_revision := runRevision, rn_updated_at := at\<rparr>))
    (bindM (emitRunEvent EvRunInputWithdrawn run EntRunInput (wd_runInputId command) prin activationId
              (Some (wd_runInputId command)) corr
              (JObj [(''runId'', JStr (rn_id run)), (''runRevision'', jnat runRevision),
                     (''dispositionRevision'', jnat dispositionRevision),
                     (''reason'', JStr (wd_reason command))])) (\<lambda>cursor.
     seqM (enqueueOutbox TopicRunInputWithdrawn EntRunInput (wd_runInputId command)
             (JObj [(''runId'', JStr (rn_id run)), (''runRevision'', jnat runRevision),
                    (''dispositionRevision'', jnat dispositionRevision)]))
          (ret ((command_result_of WithdrawRunInput (wd_runInputId command))
            \<lparr>cr_revision := Some dispositionRevision, cr_threadCursor := Some cursor,
             cr_relatedIds := Some [(''runId'', rn_id run),
               (''runRevision'', show_nat runRevision)]\<rparr>)))))))))))))"

section \<open>Replying\<close>

text \<open>The message of an activation of the run, as a reply in the run's thread.\<close>

definition run_message ::
  "run_row \<Rightarrow> activation_row \<Rightarrow> principal_row \<Rightarrow> ident \<Rightarrow> string \<Rightarrow> ident list option \<Rightarrow> string \<Rightarrow> create_message_input" where
  "run_message run activation prin runId body targets corr =
     \<lparr>cm_projectId = rn_project_id run, cm_channelId = rn_home_channel_id run,
      cm_threadRootId = Some (rn_thread_root_id run),
      cm_replyToMessageId = Some (rn_thread_root_id run), cm_author = prin,
      cm_activationId = Some (aa_id activation), cm_authorAgentId = Some (rn_owner_agent_id run),
      cm_causedByAttentionId = None, cm_causedByRunId = Some runId, cm_body = body,
      cm_targetAgentIds = targets, cm_suppressedAttentionAgentIds = None, cm_correlationId = corr\<rparr>"

definition publishRunReply ::
  "run_reply_command \<Rightarrow> principal_row \<Rightarrow> principal_context \<Rightarrow> string \<Rightarrow> command_result kop" where
  "publishRunReply command prin context corr =
     bindM (requireMutableRun (rr_runId command) (Some (rr_expectedRunRevision command))) (\<lambda>run.
     bindM (requireRunActivation context prin run) (\<lambda>activation.
     bindM (requireThread (rn_thread_root_id run)) (\<lambda>thread.
     seqM (checkThreadCursor thread prin context (rr_expectedThreadCursor command))
    (bindM (createMessage (run_message run activation prin (rr_runId command) (rr_body command)
              (rr_targetAgentIds command) corr)) (\<lambda>(messageId, revisionId, cursor).
     ret ((command_result_of PublishRunReply messageId)
            \<lparr>cr_revision := Some (rn_revision run), cr_threadCursor := Some cursor,
             cr_relatedIds := Some [(''messageRevisionId'', revisionId),
               (''activationId'', aa_id activation)]\<rparr>))))))"

section \<open>Completing\<close>

text \<open>
  Following the supersession references from one input. The visited set only grows within the
  keys of the map, so the walk ends; \<open>True\<close> means that it came back to a visited input.
\<close>

function follow :: "(ident \<times> ident) list \<Rightarrow> ident list \<Rightarrow> ident \<Rightarrow> bool" where
  "follow refs visited current =
     (case (if current = [] then None else map_of refs current) of
        None \<Rightarrow> False
      | Some nxt \<Rightarrow>
          if current \<in> set visited then True
          else follow refs (current # visited) nxt)"
  by pat_completeness auto
termination
proof (relation "measure (\<lambda>(refs, visited, _). card (fst ` set refs - set visited))", simp)
  fix refs :: "(ident \<times> ident) list" and visited :: "ident list" and current nxt :: ident
  assume "(if current = [] then None else map_of refs current) = Some nxt" and "current \<notin> set visited"
  then have "current \<in> fst ` set refs - set visited"
    by (force dest: map_of_SomeD split: if_splits)
  then have "card (fst ` set refs - set (current # visited)) < card (fst ` set refs - set visited)"
    by (intro psubset_card_mono) auto
  then show "((refs, current # visited, nxt), (refs, visited, current))
      \<in> measure (\<lambda>(refs, visited, _). card (fst ` set refs - set visited))" by simp
qed

declare follow.simps [simp del]

definition supersession_cyclic :: "(ident \<times> ident) list \<Rightarrow> bool" where
  "supersession_cyclic refs = list_ex (\<lambda>start. follow refs [] start) (map fst refs)"

definition stored_supersession :: "run_input_row list \<Rightarrow> (ident \<times> ident) list" where
  "stored_supersession inputs =
     fold (\<lambda>input refs. case (ri_disposition input, truthy (ri_superseded_by input)) of
              (Superseded, Some target) \<Rightarrow> AList.update (ri_id input) target refs
            | _ \<Rightarrow> refs) inputs []"

text \<open>The checks of one completion exception; the result is the supersession map after it.\<close>

definition checkException ::
  "run_input_row list \<Rightarrow> int \<Rightarrow> completion_exception \<Rightarrow> (ident \<times> ident) list \<Rightarrow> (ident \<times> ident) list kop" where
  "checkException inputs through exc refs =
     bindM (needM (err InvalidCommand) (find_row ri_id (ce_runInputId exc) inputs)) (\<lambda>input.
     seqM (guardM (int (ri_run_input_sequence input) \<le> through) (err InvalidCommand))
    (seqM (validateDisposition (ce_disposition exc) (ce_reason exc))
    (if ce_disposition exc \<noteq> Superseded then
       seqM (guardM (truthy (ce_supersededByRunInputId exc) = None) (err InvalidCommand))
            (ret (AList.delete (ce_runInputId exc) refs))
     else
       bindM (needM (err InvalidCommand) (truthy (ce_supersededByRunInputId exc))) (\<lambda>targetId.
       bindM (needM (err InvalidCommand) (find_row ri_id targetId inputs)) (\<lambda>_.
       seqM (guardM (targetId \<noteq> ce_runInputId exc) (err InvalidCommand))
            (ret (AList.update (ce_runInputId exc) targetId refs)))))))"

fun checkExceptions ::
  "run_input_row list \<Rightarrow> int \<Rightarrow> completion_exception list \<Rightarrow> (ident \<times> ident) list \<Rightarrow> (ident \<times> ident) list kop" where
  "checkExceptions inputs through [] refs = ret refs"
| "checkExceptions inputs through (exc # excs) refs =
     bindM (checkException inputs through exc refs) (checkExceptions inputs through excs)"

definition set_excepted :: "completion_exception \<Rightarrow> run_input_row \<Rightarrow> run_input_row" where
  "set_excepted exc r =
     r\<lparr>ri_disposition := ce_disposition exc,
       ri_disposition_revision := ri_disposition_revision r + 1,
       ri_disposition_reason := Some (ce_reason exc),
       ri_superseded_by :=
         (if ce_disposition exc = Superseded then ce_supersededByRunInputId exc else None)\<rparr>"

definition set_incorporated :: "run_input_row \<Rightarrow> run_input_row" where
  "set_incorporated r =
     r\<lparr>ri_disposition := Incorporated, ri_disposition_revision := ri_disposition_revision r + 1,
       ri_disposition_reason := None\<rparr>"

definition disposeInput ::
  "completion_exception list \<Rightarrow> int \<Rightarrow> ident list \<Rightarrow> run_input_row \<Rightarrow> unit kop" where
  "disposeInput exceptions through supplied input =
     whenM (ri_disposition input = Pending \<and> int (ri_run_input_sequence input) \<le> through)
       (seqM (guardM (ri_id input \<in> set supplied)
                (KernelError Forbidden (Some (JObj [(''runInputId'', JStr (ri_id input)),
                   (''sequence'', jnat (ri_run_input_sequence input))]))))
             (update_where d_run_inputs_update (\<lambda>r. ri_id r = ri_id input)
                (case find_row ce_runInputId (ri_id input) exceptions of
                   Some exc \<Rightarrow> set_excepted exc
                 | None \<Rightarrow> set_incorporated)))"

definition pending_inputs :: "ident \<Rightarrow> database \<Rightarrow> run_input_row list" where
  "pending_inputs runId d =
     filter (\<lambda>r. ri_run_id r = runId \<and> ri_disposition r = Pending) (d_run_inputs d)"

definition supplied_inputs :: "ident \<Rightarrow> database \<Rightarrow> ident list" where
  "supplied_inputs activationId d =
     map ai_run_input_id (filter (\<lambda>r. ai_activation_id r = activationId) (d_activation_inputs d))"

text \<open>The part of \<open>completeRun\<close> that gives every input of the run its disposition.\<close>

definition disposeInputs :: "complete_run_command \<Rightarrow> activation_row \<Rightarrow> unit kop" where
  "disposeInputs command activation =
     bindM (case cp_incorporatedThroughInputSequence command of
              JOther \<Rightarrow> raise (err InvalidCommand)
            | JInt n \<Rightarrow> if n < 0 then raise (err InvalidCommand) else ret n) (\<lambda>through.
     let exceptions = or_empty (cp_exceptions command) in
     seqM (guardM (distinct (map ce_runInputId exceptions)) (err InvalidCommand))
    (bindM (query (run_inputs_of (cp_runId command))) (\<lambda>inputs.
     bindM (query (supplied_inputs (aa_id activation))) (\<lambda>supplied.
     bindM (checkExceptions inputs through exceptions (stored_supersession inputs)) (\<lambda>refs.
     seqM (guardM (\<not> supersession_cyclic refs) (err InvalidCommand))
    (seqM (forM inputs (disposeInput exceptions through supplied))
    (bindM (query (\<lambda>d. length (pending_inputs (cp_runId command) d))) (\<lambda>pendingCount.
     guardM (pendingCount = 0)
       (KernelError PendingRunInputs (Some (JObj [(''pendingCount'', jnat pendingCount)])))))))))))"

definition publishFinalReply ::
  "complete_run_command \<Rightarrow> run_row \<Rightarrow> activation_row \<Rightarrow> principal_row \<Rightarrow> principal_context \<Rightarrow> string \<Rightarrow> ident option kop" where
  "publishFinalReply command run activation prin context corr =
     (case cp_finalReply command of
        None \<Rightarrow> ret None
      | Some reply \<Rightarrow>
          bindM (requireThread (rn_thread_root_id run)) (\<lambda>thread.
          seqM (checkThreadCursor thread prin context (fr_expectedThreadCursor reply))
         (bindM (createMessage (run_message run activation prin (cp_runId command) (fr_body reply)
                   (fr_targetAgentIds reply) corr)) (\<lambda>(messageId, _, _).
          ret (Some messageId)))))"

definition completeRun ::
  "complete_run_command \<Rightarrow> principal_row \<Rightarrow> principal_context \<Rightarrow> string \<Rightarrow> command_result kop" where
  "completeRun command prin context corr =
     bindM (requireMutableRun (cp_runId command) (Some (cp_expectedRunRevision command))) (\<lambda>run.
     bindM (requireRunActivation context prin run) (\<lambda>activation.
     seqM (disposeInputs command activation)
    (bindM (publishFinalReply command run activation prin context corr) (\<lambda>finalMessageId.
     let revision = rn_revision run + 1 in
     bindM clock (\<lambda>at.
     seqM (update_run (cp_runId command)
             (\<lambda>r. r\<lparr>rn_state := RunCompleted, rn_revision := revision, rn_updated_at := at,
                    rn_terminal_reason := None\<rparr>))
    (bindM clock (\<lambda>revokedAt.
     seqM (revokeRunActivations (cp_runId command) RunCompletedReason revokedAt)
    (bindM (causalCapacity (rn_causal_root_id run)) (\<lambda>capacity.
     bindM (emitRunEvent EvRunCompleted run EntRun (cp_runId command) prin (Some (aa_id activation))
              (Some (aa_id activation)) corr
              (JObj ([(''revision'', jnat revision), (''finalMessageId'', jopt finalMessageId)] @
                     capacity_json capacity))) (\<lambda>cursor.
     seqM (enqueueOutbox TopicRunCompleted EntRun (cp_runId command)
             (JObj [(''revision'', jnat revision), (''finalMessageId'', jopt finalMessageId)]))
          (ret ((command_result_of CompleteRun (cp_runId command))
            \<lparr>cr_revision := Some revision, cr_threadCursor := Some cursor,
             cr_relatedIds := (case truthy finalMessageId of None \<Rightarrow> None
                               | Some m \<Rightarrow> Some [(''finalMessageId'', m)])\<rparr>))))))))))))"

section \<open>Waiting, failing, cancelling\<close>

definition waitRun ::
  "wait_run_command \<Rightarrow> principal_row \<Rightarrow> principal_context \<Rightarrow> string \<Rightarrow> command_result kop" where
  "waitRun command prin context corr =
     bindM (requireMutableRun (wt_runId command) (Some (wt_expectedRunRevision command))) (\<lambda>run.
     bindM (requireRunActivation context prin run) (\<lambda>activation.
     seqM (guardM (rn_state run = RunActive) (err Conflict))
    (seqM (requireNonEmpty (wt_reason command))
    (let revision = rn_revision run + 1 in
     bindM clock (\<lambda>at.
     seqM (update_run (wt_runId command)
             (\<lambda>r. r\<lparr>rn_state := RunWaiting, rn_revision := revision, rn_updated_at := at\<rparr>))
    (bindM clock (\<lambda>revokedAt.
     seqM (revokeRunActivations (wt_runId command) RunWaitingReason revokedAt)
    (bindM (emitRunEvent EvRunWaiting run EntRun (wt_runId command) prin (Some (aa_id activation))
              (Some (aa_id activation)) corr
              (JObj [(''revision'', jnat revision), (''reason'', JStr (wt_reason command))])) (\<lambda>cursor.
     seqM (enqueueOutbox TopicRunWaiting EntRun (wt_runId command)
             (JObj [(''revision'', jnat revision), (''reason'', JStr (wt_reason command))]))
          (ret ((command_result_of WaitRun (wt_runId command))
            \<lparr>cr_revision := Some revision, cr_threadCursor := Some cursor\<rparr>)))))))))))"

text \<open>\<open>state\<close> is Failed or Cancelled.\<close>

definition terminateRun ::
  "run_row \<Rightarrow> run_state \<Rightarrow> string \<Rightarrow> principal_row \<Rightarrow> ident option \<Rightarrow> string \<Rightarrow> command_type \<Rightarrow> command_result kop" where
  "terminateRun run state reason prin activationId corr ct =
     seqM (requireNonEmpty reason)
    (let runId = rn_id run; revision = rn_revision run + 1; failed = (state = RunFailed) in
     seqM (update_where d_run_inputs_update (\<lambda>r. ri_run_id r = runId \<and> ri_disposition r = Pending)
             (\<lambda>r. r\<lparr>ri_disposition := Abandoned,
                    ri_disposition_revision := ri_disposition_revision r + 1,
                    ri_disposition_reason := Some (if failed then ''run_failed'' else ''run_cancelled'')\<rparr>))
    (bindM clock (\<lambda>at.
     seqM (update_run runId
             (\<lambda>r. r\<lparr>rn_state := state, rn_revision := revision, rn_updated_at := at,
                    rn_terminal_reason := Some reason\<rparr>))
    (bindM clock (\<lambda>revokedAt.
     seqM (revokeRunActivations runId (if failed then RunFailedReason else RunCancelledReason) revokedAt)
    (bindM (causalCapacity (rn_causal_root_id run)) (\<lambda>capacity.
     bindM (emitRunEvent (if failed then EvRunFailed else EvRunCancelled) run EntRun runId prin activationId
              (case activationId of None \<Rightarrow> Some runId | Some a \<Rightarrow> Some a) corr
              (JObj ([(''revision'', jnat revision), (''reason'', JStr reason)] @
                     capacity_json capacity))) (\<lambda>cursor.
     seqM (enqueueOutbox (if failed then TopicRunFailed else TopicRunCancelled) EntRun runId
             (JObj [(''revision'', jnat revision), (''reason'', JStr reason)]))
          (ret ((command_result_of ct runId)
            \<lparr>cr_revision := Some revision, cr_threadCursor := Some cursor\<rparr>))))))))))"

definition cancelRun :: "cancel_run_command \<Rightarrow> principal_row \<Rightarrow> string \<Rightarrow> command_result kop" where
  "cancelRun command prin corr =
     seqM (requireKind prin Human)
    (bindM (requireMutableRun (cn_runId command) (Some (cn_expectedRunRevision command))) (\<lambda>run.
     terminateRun run RunCancelled (cn_reason command) prin None corr CancelRun))"

definition failRun ::
  "fail_run_command \<Rightarrow> principal_row \<Rightarrow> principal_context \<Rightarrow> string \<Rightarrow> command_result kop" where
  "failRun command prin context corr =
     bindM (requireMutableRun (fl_runId command) (Some (fl_expectedRunRevision command))) (\<lambda>run.
     bindM (requireRunActivation context prin run) (\<lambda>activation.
     terminateRun run RunFailed (fl_reason command) prin (Some (aa_id activation)) corr FailRun))"

section \<open>Late output\<close>

definition recordLateOutput ::
  "late_output_command \<Rightarrow> principal_row \<Rightarrow> principal_context \<Rightarrow> string \<Rightarrow> command_result kop" where
  "recordLateOutput command prin context corr =
     bindM (requireRun (lo_runId command)) (\<lambda>run.
     bindM (validateActivityProvenance (lo_runId command) (lo_activationId command)
              (lo_providerAttemptId command) prin context True) (\<lambda>activationId.
     bindM (requireActivation activationId) (\<lambda>activation.
     bindM (if isTerminalRunState (rn_state run) then ret False
            else isCurrentRunActivation activation run) (\<lambda>current.
     seqM (guardM (\<not> current) (err Conflict))
    (bindM (insertActivity (lo_runId command) activationId (lo_providerAttemptId command)
              ''late_output'' (lo_payload command) Durable) (\<lambda>(activityId, sequence).
     bindM (emitEvent (event_object EvLateOutputRecorded (rn_project_id run)
               (Some (rn_home_channel_id run)) (Some (rn_thread_root_id run)) EntRunActivityEvent
               activityId (pr_id prin) (Some activationId)
               (case lo_providerAttemptId command of None \<Rightarrow> Some activationId | Some p \<Rightarrow> Some p) corr
               (JObj [(''runId'', JStr (lo_runId command)), (''sequence'', jnat sequence),
                      (''runState'', JStr (run_state_text (rn_state run)))]))) (\<lambda>_.
     ret ((command_result_of RecordLateOutput activityId)
            \<lparr>cr_revision := Some sequence,
             cr_relatedIds := Some [(''runId'', lo_runId command)]\<rparr>))))))))"

section \<open>Evolution\<close>

lemma grows_update_run [grows_rules]:
  "(\<And>r. run_fixed (f r) = run_fixed r) \<Longrightarrow>
   (\<And>r. rn_next_activity_sequence (f r) = rn_next_activity_sequence r) \<Longrightarrow> grows (update_run i f)"
  unfolding update_run_def by (intro grows_rules)

lemma grows_run_parts [grows_rules]:
  "grows (createRunInput run m p v w)" "grows (emitRunEvent ty run ety i prin v w corr payload)"
  unfolding createRunInput_def emitRunEvent_def by (intro grows_rules; fail)+

lemma grows_sendToRun [grows_rules]: "grows (sendToRun command prin corr)"
  unfolding sendToRun_def by (intro grows_rules) (simp_all add: run_fixed_def)

lemma grows_withdrawRunInput [grows_rules]: "grows (withdrawRunInput command prin context corr)"
  unfolding withdrawRunInput_def
  by (intro grows_rules) (simp_all add: run_fixed_def run_input_fixed_def)

lemma grows_publishRunReply [grows_rules]: "grows (publishRunReply command prin context corr)"
  unfolding publishRunReply_def by (intro grows_rules)

lemma grows_checkException [grows_rules]: "grows (checkException inputs n exc refs)"
  unfolding checkException_def by (intro grows_rules)

lemma grows_checkExceptions [grows_rules]: "grows (checkExceptions inputs n excs refs)"
  by (induction inputs n excs refs rule: checkExceptions.induct) (simp_all add: grows_rules)

lemma grows_disposeInput [grows_rules]: "grows (disposeInput excs n ids inp)"
  unfolding disposeInput_def
  by (intro grows_rules)
    (simp_all add: run_input_fixed_def set_excepted_def set_incorporated_def split: option.split)

lemma grows_disposeInputs [grows_rules]: "grows (disposeInputs command activation)"
  unfolding disposeInputs_def by (intro grows_rules)

lemma grows_publishFinalReply [grows_rules]:
  "grows (publishFinalReply command run activation prin context corr)"
  unfolding publishFinalReply_def by (intro grows_rules)

lemma grows_completeRun [grows_rules]: "grows (completeRun command prin context corr)"
  unfolding completeRun_def by (intro grows_rules) (simp_all add: run_fixed_def)

lemma grows_waitRun [grows_rules]: "grows (waitRun command prin context corr)"
  unfolding waitRun_def by (intro grows_rules) (simp_all add: run_fixed_def)

lemma grows_terminateRun [grows_rules]: "grows (terminateRun run st reason prin v corr ct)"
  unfolding terminateRun_def
  by (intro grows_rules) (simp_all add: run_fixed_def run_input_fixed_def)

lemma grows_run_ends [grows_rules]:
  "grows (cancelRun c1 prin corr)" "grows (failRun c2 prin context corr)"
  "grows (recordLateOutput c3 prin context corr)"
  unfolding cancelRun_def failRun_def recordLateOutput_def by (intro grows_rules; fail)+

end
