(* ===== verification/Attentions.thy ===== *)
theory Attentions
  imports Runs
begin

text \<open>
  Deciding an attention (\<open>attentions.ts\<close>): a runtime claims it (taking the execution domain and
  superseding a stale claim of another attention there), and the target agent resolves it with a
  new run, with an existing run, or ignores it, from the activation of its claim.
\<close>

section \<open>Commands\<close>

record claim_attention_command = idempotent_command +
  cl_attentionId :: ident
  cl_expectedAttentionRevision :: nat
  cl_leaseDurationMs :: jsnum

text \<open>The members the three decisions share.\<close>

record decision_command = idempotent_command +
  dc_attentionId :: ident
  dc_expectedAttentionRevision :: nat
  dc_handlerLeaseToken :: string

record ignore_command = decision_command +
  ig_reason :: string

record existing_run_command = decision_command +
  xr_runId :: ident
  xr_expectedRunRevision :: nat

definition requireAttentionDecisionContext ::
  "'a decision_command_scheme \<Rightarrow> principal_row \<Rightarrow> principal_context \<Rightarrow>
   (agent_row \<times> attention_row \<times> activation_row) kop" where
  "requireAttentionDecisionContext command prin context =
     seqM (requireKind prin Agent)
    (bindM (requireAgentForPrincipal (pr_id prin)) (\<lambda>agent.
     bindM (requireAttention (dc_attentionId command)) (\<lambda>attention.
     seqM (guardM (ag_id agent = at_target_agent_id attention) (err Forbidden))
    (seqM (guardM (at_status attention = AttOpen) (err Conflict))
    (seqM (checkRevision (at_revision attention) (dc_expectedAttentionRevision command))
    (seqM (assertAttentionLease attention (Some (dc_handlerLeaseToken command)))
    (bindM (needM (err Unauthorized) (truthy (pc_activationId context))) (\<lambda>activationId.
     bindM (requireLiveActivation activationId) (\<lambda>activation.
     seqM (guardM (aa_attention_id activation = Some (dc_attentionId command) \<and>
                   aa_agent_id activation = ag_id agent) (err Forbidden))
    (seqM (assertActivationScopeCurrent activation)
          (ret (agent, attention, activation))))))))))))"

text \<open>The revocation reason is also the detail of the finished activation.\<close>

definition revocation_reason_text :: "revocation_reason \<Rightarrow> string" where
  "revocation_reason_text reason =
     (case reason of
        SupersededActivation \<Rightarrow> ''superseded_activation'' | RunCompletedReason \<Rightarrow> ''run_completed''
      | RunWaitingReason \<Rightarrow> ''run_waiting'' | RunFailedReason \<Rightarrow> ''run_failed''
      | RunCancelledReason \<Rightarrow> ''run_cancelled''
      | ProviderFailureParked \<Rightarrow> ''provider_attempt_failure_parked''
      | AttentionDomainSuperseded \<Rightarrow> ''attention_domain_superseded''
      | AttentionLeaseReplaced \<Rightarrow> ''attention_lease_replaced''
      | AttentionResolvedReason \<Rightarrow> ''attention_resolved''
      | AttentionIgnoredReason \<Rightarrow> ''attention_ignored''
      | AttentionResolvedWithExistingRun \<Rightarrow> ''attention_resolved_with_existing_run'')"

definition set_decided :: "instant \<Rightarrow> revocation_reason \<Rightarrow> activation_row \<Rightarrow> activation_row" where
  "set_decided at reason r =
     r\<lparr>aa_revoked_at := Some at, aa_revocation_reason := Some reason, aa_finished_at := Some at,
       aa_outcome := Some ActCompleted, aa_detail := Some (revocation_reason_text reason)\<rparr>"

definition finishAttentionActivation :: "ident \<Rightarrow> instant \<Rightarrow> revocation_reason \<Rightarrow> unit kop" where
  "finishAttentionActivation activationId at reason =
     bindM (update_activations (\<lambda>r. aa_id r = activationId) (set_decided at reason)) markActivationChanges"

section \<open>Claiming\<close>

definition set_claim :: "nat \<Rightarrow> ident \<Rightarrow> string \<Rightarrow> instant \<Rightarrow> attention_row \<Rightarrow> attention_row" where
  "set_claim revision holder leaseToken expiresAt r =
     r\<lparr>at_revision := revision, at_handler_lease_holder := Some holder,
       at_handler_lease_token := Some leaseToken, at_handler_lease_expires_at := Some expiresAt\<rparr>"

text \<open>The event of the claim that lost its domain.\<close>

definition recordSupersededClaim ::
  "(attention_row \<times> nat \<times> ident list) option \<Rightarrow> ident \<Rightarrow> principal_row \<Rightarrow> string \<Rightarrow> unit kop" where
  "recordSupersededClaim superseded attentionId prin corr =
     (case superseded of
        None \<Rightarrow> ret ()
      | Some (previous, revision, activationIds) \<Rightarrow>
          bindM (emitEvent (event_object EvAttentionHandlerLeaseSuperseded (at_project_id previous)
                   (Some (at_channel_id previous)) (Some (at_thread_root_id previous)) EntAttention
                   (at_id previous) (pr_id prin) None (Some attentionId) corr
                   (JObj [(''revision'', jnat revision),
                          (''supersededByAttentionId'', JStr attentionId),
                          (''revokedActivationIds'', jstrs activationIds)])))
            (recordAttentionHistory (at_id previous)))"

definition claimAttention :: "claim_attention_command \<Rightarrow> principal_row \<Rightarrow> string \<Rightarrow> command_result kop" where
  "claimAttention command prin corr =
     seqM (requireKind prin Runtime)
    (bindM (boundedDuration (cl_leaseDurationMs command)) (\<lambda>leaseDurationMs.
     bindM (requireAttention (cl_attentionId command)) (\<lambda>attention.
     seqM (guardM (at_status attention = AttOpen) (err Conflict))
    (seqM (checkRevision (at_revision attention) (cl_expectedAttentionRevision command))
    (bindM clock (\<lambda>at.
     seqM (guardM (case at_handler_lease_expires_at attention of None \<Rightarrow> True | Some e \<Rightarrow> \<not> e > at) (err Conflict))
    (bindM (idFactory ''lease'') (\<lambda>leaseToken.
     let revision = at_revision attention + 1; expiresAt = at + leaseDurationMs in
     bindM (claimAttentionDomain attention leaseToken expiresAt at) (\<lambda>superseded.
     seqM (recordSupersededClaim superseded (cl_attentionId command) prin corr)
    (bindM (update_activations
              (\<lambda>r. aa_attention_id r = Some (cl_attentionId command) \<and> aa_revoked_at r = None)
              (revoke_set at AttentionLeaseReplaced)) (\<lambda>changed.
     seqM (markActivationChanges changed)
    (seqM (update_attentions (\<lambda>r. at_id r = cl_attentionId command)
             (set_claim revision (pr_id prin) leaseToken expiresAt))
    (bindM (emitEvent (event_object EvAttentionClaimed (at_project_id attention)
               (Some (at_channel_id attention)) (Some (at_thread_root_id attention)) EntAttention
               (cl_attentionId command) (pr_id prin) None (Some (at_message_revision_id attention)) corr
               (JObj [(''revision'', jnat revision), (''expiresAt'', JNum expiresAt)]))) (\<lambda>eventSequence.
     seqM (recordAttentionHistory (cl_attentionId command) eventSequence)
          (ret ((command_result_of ClaimAttention (cl_attentionId command))
            \<lparr>cr_revision := Some revision, cr_leaseExpiresAt := Some expiresAt,
             cr_relatedIds := Some [(''handlerLeaseToken'', leaseToken)]\<rparr>))))))))))))))))"

section \<open>Deciding\<close>

text \<open>The SET clause of a decision: the handler lease is gone with it.\<close>

definition set_resolution ::
  "attention_status \<Rightarrow> nat \<Rightarrow> attention_outcome \<Rightarrow> ident \<Rightarrow> ident \<Rightarrow> ident option \<Rightarrow> instant \<Rightarrow> attention_row \<Rightarrow> attention_row" where
  "set_resolution status revision outcome resolver activationId runId at r =
     r\<lparr>at_status := status, at_revision := revision, at_resolution_outcome := Some outcome,
       at_resolved_by := Some resolver, at_resolved_activation_id := Some activationId,
       at_resolved_run_id := runId, at_resolved_at := Some at, at_handler_lease_holder := None,
       at_handler_lease_token := None, at_handler_lease_expires_at := None\<rparr>"

definition decide ::
  "attention_row \<Rightarrow> attention_status \<Rightarrow> nat \<Rightarrow> attention_outcome \<Rightarrow> principal_row \<Rightarrow> ident \<Rightarrow> ident option \<Rightarrow> instant \<Rightarrow> unit kop" where
  "decide attention status revision outcome prin activationId runId at =
     seqM (update_attentions (\<lambda>r. at_id r = at_id attention)
             (set_resolution status revision outcome (pr_id prin) activationId runId at))
          (releaseAttentionDomainLease (at_id attention))"

definition admission_json :: "causal_admission \<Rightarrow> (string \<times> json) list" where
  "admission_json a =
     [(''causalRootId'', JStr (cc_causalRootId a)), (''maxDepth'', jnat (cc_maxDepth a)),
      (''maxNonTerminalRunsPerRoot'', jnat (cc_maxNonTerminalRunsPerRoot a)),
      (''nonTerminalRunCount'', jnat (cc_nonTerminalRunCount a)),
      (''parentAttentionId'', JStr (ca_parentAttentionId a)),
      (''parentRunId'', jopt (ca_parentRunId a)),
      (''delegationDepth'', jnat (ca_delegationDepth a))]"

definition new_run ::
  "ident \<Rightarrow> attention_row \<Rightarrow> agent_row \<Rightarrow> causal_admission \<Rightarrow> instant \<Rightarrow> run_row" where
  "new_run runId attention agent admission at =
     \<lparr>rn_id = runId, rn_project_id = at_project_id attention,
      rn_home_channel_id = at_channel_id attention, rn_thread_root_id = at_thread_root_id attention,
      rn_owner_agent_id = ag_id agent, rn_agent_config_revision = ag_current_config_revision agent,
      rn_causal_root_id = cc_causalRootId admission,
      rn_parent_attention_id = ca_parentAttentionId admission,
      rn_parent_run_id = ca_parentRunId admission,
      rn_delegation_depth = ca_delegationDepth admission, rn_state = RunActive, rn_revision = 1,
      rn_activation_generation = 0, rn_next_input_sequence = 1, rn_next_activity_sequence = 1,
      rn_created_event_sequence = None, rn_created_at = at, rn_updated_at = at,
      rn_terminal_reason = None\<rparr>"

definition resolveAttentionWithRun ::
  "decision_command \<Rightarrow> principal_row \<Rightarrow> principal_context \<Rightarrow> string \<Rightarrow> command_result kop" where
  "resolveAttentionWithRun command prin context corr =
     bindM (requireAttentionDecisionContext command prin context) (\<lambda>(agent, attention, activation).
     bindM (admitRunFromAttention attention) (\<lambda>admission.
     bindM (idFactory ''run'') (\<lambda>runId.
     bindM clock (\<lambda>at.
     seqM (insert_unique d_runs d_runs_update run_clash (new_run runId attention agent admission at))
    (bindM (requireRun runId) (\<lambda>run.
     bindM (createRunInput run (at_message_revision_id attention) (pr_id prin)
              (Some (aa_id activation)) (Some (dc_attentionId command))) (\<lambda>(inputId, _).
     seqM (finishAttentionActivation (aa_id activation) at AttentionResolvedReason)
    (seqM (update_run runId (\<lambda>r. r\<lparr>rn_next_input_sequence := 2\<rparr>))
    (let revision = at_revision attention + 1 in
     seqM (decide attention AttResolved revision OutRunCreated prin (aa_id activation) (Some runId) at)
    (bindM (emitThreadEvent (at_thread_root_id attention)
              (event_object EvRunCreated (at_project_id attention) (Some (at_channel_id attention)) None
                 EntRun runId (pr_id prin) (Some (aa_id activation)) (Some (dc_attentionId command)) corr
                 (JObj ([(''state'', JStr ''Active''), (''ownerAgentId'', JStr (ag_id agent))] @
                        admission_json admission)))) (\<lambda>cursor.
     bindM (emitEvent (event_object EvAttentionResolved (at_project_id attention)
               (Some (at_channel_id attention)) (Some (at_thread_root_id attention)) EntAttention
               (dc_attentionId command) (pr_id prin) (Some (aa_id activation))
               (Some (at_message_revision_id attention)) corr
               (JObj [(''outcome'', JStr ''RunCreated''), (''revision'', jnat revision),
                      (''runId'', JStr runId), (''runInputId'', JStr inputId)]))) (\<lambda>eventSequence.
     seqM (recordAttentionHistory (dc_attentionId command) eventSequence)
    (seqM (enqueueOutbox TopicRunActivationRequested EntRun runId
             (JObj [(''runInputId'', JStr inputId), (''sourceAttentionId'', JStr (dc_attentionId command))]))
          (ret ((command_result_of ResolveAttentionWithRun runId)
            \<lparr>cr_revision := Some 1, cr_threadCursor := Some cursor,
             cr_relatedIds := Some [(''attentionId'', dc_attentionId command),
               (''runInputId'', inputId)]\<rparr>)))))))))))))))"

definition ignoreAttention ::
  "ignore_command \<Rightarrow> principal_row \<Rightarrow> principal_context \<Rightarrow> string \<Rightarrow> command_result kop" where
  "ignoreAttention command prin context corr =
     bindM (requireAttentionDecisionContext command prin context) (\<lambda>(agent, attention, activation).
     seqM (requireNonEmpty (ig_reason command))
    (bindM clock (\<lambda>at.
     let revision = at_revision attention + 1 in
     seqM (finishAttentionActivation (aa_id activation) at AttentionIgnoredReason)
    (seqM (decide attention AttIgnored revision OutIgnored prin (aa_id activation) None at)
    (bindM (emitEvent (event_object EvAttentionIgnored (at_project_id attention)
               (Some (at_channel_id attention)) (Some (at_thread_root_id attention)) EntAttention
               (dc_attentionId command) (pr_id prin) (Some (aa_id activation))
               (Some (at_message_revision_id attention)) corr
               (JObj [(''outcome'', JStr ''Ignored''), (''reason'', JStr (js_trim (ig_reason command))),
                      (''revision'', jnat revision)]))) (\<lambda>eventSequence.
     seqM (recordAttentionHistory (dc_attentionId command) eventSequence)
          (ret ((command_result_of IgnoreAttention (dc_attentionId command))
            \<lparr>cr_revision := Some revision,
             cr_relatedIds := Some [(''activationId'', aa_id activation)]\<rparr>))))))))"

definition resolveAttentionWithExistingRun ::
  "existing_run_command \<Rightarrow> principal_row \<Rightarrow> principal_context \<Rightarrow> string \<Rightarrow> command_result kop" where
  "resolveAttentionWithExistingRun command prin context corr =
     bindM (requireAttentionDecisionContext command prin context) (\<lambda>(agent, attention, activation).
     bindM (requireRun (xr_runId command)) (\<lambda>run.
     seqM (guardM (rn_owner_agent_id run = ag_id agent) (err Forbidden))
    (seqM (guardM (rn_project_id run = at_project_id attention \<and>
                   rn_home_channel_id run = at_channel_id attention \<and>
                   rn_thread_root_id run = at_thread_root_id attention) (err Forbidden))
    (seqM (guardM (\<not> isTerminalRunState (rn_state run))
             (KernelError TerminalRun (Some (JObj [(''state'', JStr (run_state_text (rn_state run)))]))))
    (seqM (checkRevision (rn_revision run) (xr_expectedRunRevision command))
    (bindM clock (\<lambda>at.
     bindM (createRunInput run (at_message_revision_id attention) (pr_id prin)
              (Some (aa_id activation)) (Some (dc_attentionId command))) (\<lambda>(inputId, sequence).
     let runRevision = rn_revision run + 1 in
     seqM (update_run (xr_runId command)
             (\<lambda>r. r\<lparr>rn_revision := runRevision, rn_next_input_sequence := sequence + 1, rn_updated_at := at\<rparr>))
    (seqM (finishAttentionActivation (aa_id activation) at AttentionResolvedWithExistingRun)
    (let revision = at_revision attention + 1 in
     seqM (decide attention AttResolved revision OutExistingRunContinued prin (aa_id activation)
             (Some (xr_runId command)) at)
    (bindM (emitRunEvent EvRunInputAdded run EntRunInput inputId prin (Some (aa_id activation))
              (Some (dc_attentionId command)) corr
              (JObj [(''runId'', JStr (xr_runId command)), (''sequence'', jnat sequence),
                     (''runRevision'', jnat runRevision),
                     (''sourceAttentionId'', JStr (dc_attentionId command))])) (\<lambda>cursor.
     bindM (emitEvent (event_object EvAttentionResolved (at_project_id attention)
               (Some (at_channel_id attention)) (Some (at_thread_root_id attention)) EntAttention
               (dc_attentionId command) (pr_id prin) (Some (aa_id activation))
               (Some (at_message_revision_id attention)) corr
               (JObj [(''outcome'', JStr ''ExistingRunContinued''), (''revision'', jnat revision),
                      (''runId'', JStr (xr_runId command)), (''runInputId'', JStr inputId),
                      (''runRevision'', jnat runRevision)]))) (\<lambda>eventSequence.
     seqM (recordAttentionHistory (dc_attentionId command) eventSequence)
    (seqM (enqueueOutbox TopicRunInputAvailable EntRun (xr_runId command)
             (JObj [(''runInputId'', JStr inputId), (''runRevision'', jnat runRevision),
                    (''sourceAttentionId'', JStr (dc_attentionId command))]))
          (ret ((command_result_of ResolveAttentionWithExistingRun (xr_runId command))
            \<lparr>cr_revision := Some runRevision, cr_threadCursor := Some cursor,
             cr_relatedIds := Some [(''attentionId'', dc_attentionId command),
               (''attentionRevision'', show_nat revision), (''runInputId'', inputId),
               (''activationId'', aa_id activation)]\<rparr>))))))))))))))))"

section \<open>Replaying a claim\<close>

definition resolveCachedAttentionClaim :: "command_result \<Rightarrow> principal_row \<Rightarrow> command_result kop" where
  "resolveCachedAttentionClaim result prin =
     bindM (needM (err Conflict)
              (truthy (case cr_relatedIds result of None \<Rightarrow> None | Some ms \<Rightarrow> map_of ms ''handlerLeaseToken''))) (\<lambda>leaseToken.
     bindM (requireAttention (cr_entityId result)) (\<lambda>attention.
     seqM (guardM (at_status attention = AttOpen \<and> at_handler_lease_holder attention = Some (pr_id prin) \<and>
                   at_handler_lease_token attention = Some leaseToken) (err Conflict))
    (bindM (needM (err Conflict) (at_handler_lease_expires_at attention)) (\<lambda>expiresAt.
     bindM clock (\<lambda>at.
     seqM (guardM (expiresAt > at) (err Conflict))
    (bindM (isAttentionDomainLeaseCurrent attention leaseToken) (\<lambda>current.
     seqM (guardM current (err Conflict))
          (ret (result\<lparr>cr_leaseExpiresAt := Some expiresAt\<rparr>)))))))))"

section \<open>Evolution\<close>

lemma grows_requireAttentionDecisionContext [grows_rules]:
  "grows (requireAttentionDecisionContext command prin context)"
  unfolding requireAttentionDecisionContext_def by (intro grows_rules)

lemma grows_finishAttentionActivation [grows_rules]: "grows (finishAttentionActivation i at reason)"
  unfolding finishAttentionActivation_def
  by (intro grows_rules) (simp_all add: activation_fixed_def activation_ok_def set_decided_def)

lemma grows_recordSupersededClaim [grows_rules]:
  "grows (recordSupersededClaim sc a prin corr)"
  unfolding recordSupersededClaim_def by (intro grows_rules)

lemma grows_claimAttention [grows_rules]: "grows (claimAttention command prin corr)"
  unfolding claimAttention_def
  by (intro grows_rules activation_fixed_revoke activation_ok_revoke)
    (auto simp: attention_fixed_def attention_ok_def set_claim_def)

lemma grows_decide [grows_rules]:
  "st \<noteq> AttOpen \<Longrightarrow> 0 < n \<Longrightarrow> grows (decide a st n out prin i v at)"
  unfolding decide_def
  by (intro grows_rules) (simp_all add: attention_fixed_def attention_ok_def set_resolution_def)

lemma grows_resolveAttentionWithRun [grows_rules]:
  "grows (resolveAttentionWithRun command prin context corr)"
  unfolding resolveAttentionWithRun_def by (intro grows_rules) (simp_all add: run_fixed_def new_run_def)

lemma grows_ignoreAttention [grows_rules]: "grows (ignoreAttention command prin context corr)"
  unfolding ignoreAttention_def by (intro grows_rules) simp_all

lemma grows_resolveAttentionWithExistingRun [grows_rules]:
  "grows (resolveAttentionWithExistingRun command prin context corr)"
  unfolding resolveAttentionWithExistingRun_def by (intro grows_rules) (simp_all add: run_fixed_def)

lemma grows_resolveCachedAttentionClaim [grows_rules]:
  "grows (resolveCachedAttentionClaim result prin)"
  unfolding resolveCachedAttentionClaim_def by (intro grows_rules)

end
