(* ===== verification/Artifacts.thy ===== *)
theory Artifacts
  imports Runs "HOL-Library.Word"
begin

text \<open>
  Artifacts (\<open>artifacts.ts\<close>): the bounds of a report's bytes, who may finalize a report of a run,
  publishing the artifact of a run and reading one.
\<close>

section \<open>Collecting a report\<close>

definition MAX_REPORT_BYTES :: nat where "MAX_REPORT_BYTES = 1048576"

definition MAX_REPORT_CHUNKS :: nat where "MAX_REPORT_CHUNKS = 4096"

text \<open>A chunk is a byte array or another value; the content is one byte array, a stream, or neither.\<close>

datatype report_chunk = ByteChunk "8 word list" | NotBytes

datatype report_content = WholeReport "8 word list" | ReportStream "report_chunk list" | NotContent

fun appendChunks :: "report_chunk list \<Rightarrow> nat \<Rightarrow> 8 word list \<Rightarrow> kerror + 8 word list" where
  "appendChunks [] count acc = Inr acc"
| "appendChunks (NotBytes # cs) count acc = Inl (err InvalidCommand)"
| "appendChunks (ByteChunk bs # cs) count acc =
     (if count \<ge> MAX_REPORT_CHUNKS \<or> length acc + length bs > MAX_REPORT_BYTES
      then Inl (err InvalidCommand)
      else appendChunks cs (count + 1) (acc @ bs))"

definition collectReport :: "report_content \<Rightarrow> kerror + 8 word list" where
  "collectReport content =
     (case content of
        WholeReport bs \<Rightarrow> appendChunks [ByteChunk bs] 0 []
      | ReportStream cs \<Rightarrow> appendChunks cs 0 []
      | NotContent \<Rightarrow> Inl (err InvalidCommand))"

text \<open>\<open>validateReportInput\<close>: the property names of the input, its run, key and expected revision.\<close>

definition validateReportInput :: "string list \<Rightarrow> ident \<Rightarrow> string \<Rightarrow> jsnum \<Rightarrow> ('s, kerror, unit) op" where
  "validateReportInput names runId key expectedRunRevision =
     seqM (guardM (set names \<subseteq> {''runId'', ''expectedRunRevision'', ''idempotencyKey'', ''content''})
             (err InvalidCommand))
    (seqM (requireNonEmpty runId)
    (seqM (requireNonEmpty key)
          (guardM (length key \<le> 256 \<and>
                   (case expectedRunRevision of JOther \<Rightarrow> False
                    | JInt n \<Rightarrow> 1 \<le> n \<and> n \<le> MAX_SAFE_INTEGER)) (err InvalidCommand))))"

section \<open>Reading and publishing\<close>

definition authorizeRunRead :: "run_row \<Rightarrow> principal_row \<Rightarrow> principal_context \<Rightarrow> unit kop" where
  "authorizeRunRead run prin context =
     seqM (assertProjectChannel (rn_project_id run) (rn_home_channel_id run))
    (bindM (resolvePrincipalReadScope prin context (rn_project_id run)) (\<lambda>scope.
     guardM (\<not> ((ps_channelId scope \<noteq> None \<and> ps_channelId scope \<noteq> Some (rn_home_channel_id run)) \<or>
                (ps_threadRootId scope \<noteq> None \<and> ps_threadRootId scope \<noteq> Some (rn_thread_root_id run)) \<or>
                (pr_kind prin = Agent \<and> ps_runId scope \<noteq> Some (rn_id run)))) (err Forbidden)))"

definition authorizeReport :: "ident \<Rightarrow> principal_context \<Rightarrow> activation_row kop" where
  "authorizeReport runId context =
     bindM (requirePrincipal (pc_principalId context)) (\<lambda>prin.
     bindM (requireRun runId) (\<lambda>run.
     bindM (requireRunActivation context prin run) (\<lambda>activation.
     seqM (authorizeRunRead run prin context) (ret activation))))"

record artifact_view =
  av_id :: ident
  av_contentDigest :: string
  av_producerRunId :: ident
  av_producerActivationId :: ident
  av_producerThreadRootId :: ident
  av_baseRevision :: string
  av_mediaType :: string
  av_byteLength :: nat
  av_visibilityChannelId :: ident
  av_metadata :: "json option"
  av_createdAt :: instant

definition mapArtifact :: "artifact_row \<Rightarrow> artifact_view" where
  "mapArtifact r =
     \<lparr>av_id = ar_id r, av_contentDigest = ar_content_digest r,
      av_producerRunId = ar_producer_run_id r, av_producerActivationId = ar_producer_activation_id r,
      av_producerThreadRootId = ar_producer_thread_root_id r, av_baseRevision = ar_base_revision r,
      av_mediaType = ar_media_type r, av_byteLength = ar_byte_length r,
      av_visibilityChannelId = ar_visibility_channel_id r, av_metadata = ar_metadata r,
      av_createdAt = ar_created_at r\<rparr>"

definition getArtifact :: "ident \<Rightarrow> principal_context \<Rightarrow> artifact_view kop" where
  "getArtifact artifactId context =
     bindM (requirePrincipal (pc_principalId context)) (\<lambda>prin.
     bindM (if pr_kind prin = Agent then
              bindM (requireAgentForPrincipal (pc_principalId context)) (\<lambda>agent.
              bindM (resolvePrincipalReadScope prin context (ag_project_id agent)) (\<lambda>s. ret (Some s)))
            else ret None) (\<lambda>scope.
     seqM (requireNonEmpty artifactId)
    (bindM (query (visibleArtifactRows scope
              \<lparr>vf_id = Some artifactId, vf_threadRootId = None, vf_runId = None,
               vf_snapshotEventSequence = None\<rparr>)) (\<lambda>rows.
     case rows of
       [] \<Rightarrow> raise (err NotFound)
     | row # _ \<Rightarrow> ret (mapArtifact row)))))"

record publish_artifact_command = idempotent_command +
  pub_runId :: ident
  pub_expectedRunRevision :: nat
  pub_contentDigest :: string
  pub_byteLength :: nat

definition publishArtifact ::
  "publish_artifact_command \<Rightarrow> principal_row \<Rightarrow> principal_context \<Rightarrow> string \<Rightarrow> command_result kop" where
  "publishArtifact command prin context corr =
     bindM (requireMutableRun (pub_runId command) (Some (pub_expectedRunRevision command))) (\<lambda>run.
     bindM (authorizeReport (pub_runId command) context) (\<lambda>activation.
     bindM (idFactory ''artifact'') (\<lambda>artifactId.
     let baseRevision = ''run:'' @ pub_runId command @ ''@'' @ show_nat (pub_expectedRunRevision command) in
     bindM clock (\<lambda>at.
     seqM (insert_unique d_artifacts d_artifacts_update artifact_clash
             \<lparr>ar_id = artifactId, ar_content_digest = pub_contentDigest command,
              ar_producer_run_id = pub_runId command, ar_producer_activation_id = aa_id activation,
              ar_producer_thread_root_id = rn_thread_root_id run, ar_base_revision = baseRevision,
              ar_media_type = ''text/plain; charset=utf-8'', ar_byte_length = pub_byteLength command,
              ar_visibility_channel_id = rn_home_channel_id run, ar_metadata = None,
              ar_created_event_sequence = None, ar_created_at = at\<rparr>)
    (bindM (emitRunEvent EvArtifactPublished run EntArtifact artifactId prin (Some (aa_id activation))
              (Some (pub_runId command)) corr
              (JObj [(''runId'', JStr (pub_runId command)),
                     (''contentDigest'', JStr (pub_contentDigest command)),
                     (''baseRevision'', JStr baseRevision),
                     (''byteLength'', jnat (pub_byteLength command))])) (\<lambda>cursor.
     seqM (enqueueOutbox TopicArtifactPublished EntArtifact artifactId
             (JObj [(''runId'', JStr (pub_runId command)),
                    (''contentDigest'', JStr (pub_contentDigest command))]))
          (ret ((command_result_of PublishArtifact artifactId)
            \<lparr>cr_revision := Some (rn_revision run), cr_threadCursor := Some cursor,
             cr_relatedIds := Some [(''activationId'', aa_id activation),
               (''runId'', pub_runId command)]\<rparr>))))))))"

section \<open>Evolution\<close>

lemma grows_report_reads [grows_rules]:
  "grows (authorizeRunRead run prin context)" "grows (authorizeReport i context)"
  "grows (getArtifact i context)"
  unfolding authorizeRunRead_def authorizeReport_def getArtifact_def
  by (auto split: list.split intro!: grows_rules)

lemma grows_publishArtifact [grows_rules]: "grows (publishArtifact command prin context corr)"
  unfolding publishArtifact_def by (intro grows_rules)

end
