(* ===== verification/Configuration.thy ===== *)
theory Configuration
  imports Runs
begin

text \<open>
  Agent configurations (\<open>configuration.ts\<close>): a human appends a configuration revision to an agent
  and moves a run to a newer one. A configuration is an arbitrary JavaScript value of which only
  finite JSON trees are accepted.
\<close>

text \<open>
  A JavaScript value as \<open>isJsonValue\<close> walks it. \<open>VNumber None\<close> is a number that is not finite,
  \<open>VOther\<close> a value of any other type, \<open>VBack\<close> a reference back to an enclosing object or array.
\<close>

datatype js_value =
    VNull
  | VString string
  | VBool bool
  | VNumber "json option"
  | VArray "js_value list"
  | VObject "(string \<times> js_value) list"
  | VOther
  | VBack

fun isJsonValue :: "js_value \<Rightarrow> bool" where
  "isJsonValue VNull = True"
| "isJsonValue (VString t) = True"
| "isJsonValue (VBool b) = True"
| "isJsonValue (VNumber n) = (n \<noteq> None)"
| "isJsonValue (VArray vs) = list_all isJsonValue vs"
| "isJsonValue (VObject ms) = list_all (\<lambda>(_, v). isJsonValue v) ms"
| "isJsonValue VOther = False"
| "isJsonValue VBack = False"

fun to_json :: "js_value \<Rightarrow> json" where
  "to_json (VString t) = JStr t"
| "to_json (VBool b) = JBool b"
| "to_json (VNumber (Some n)) = n"
| "to_json (VArray vs) = JArr (map to_json vs)"
| "to_json (VObject ms) = JObj (map (\<lambda>(k, v). (k, to_json v)) ms)"
| "to_json _ = JNull"

definition serializeJsonValue :: "js_value \<Rightarrow> json kop" where
  "serializeJsonValue v = seqM (guardM (isJsonValue v) (err InvalidCommand)) (ret (to_json v))"

record update_config_command = idempotent_command +
  uc_agentId :: ident
  uc_expectedAgentConfigRevision :: jsnum
  uc_config :: js_value

record adopt_config_command = idempotent_command +
  ad_runId :: ident
  ad_expectedRunRevision :: jsnum
  ad_expectedAgentConfigRevision :: jsnum
  ad_targetAgentConfigRevision :: jsnum

definition updateAgentConfig :: "update_config_command \<Rightarrow> principal_row \<Rightarrow> string \<Rightarrow> command_result kop" where
  "updateAgentConfig command prin corr =
     seqM (requireKind prin Human)
    (bindM (requirePositiveRevision (uc_expectedAgentConfigRevision command)) (\<lambda>expected.
     bindM (requireAgent (uc_agentId command)) (\<lambda>agent.
     seqM (checkRevision (ag_current_config_revision agent) expected)
    (bindM (serializeJsonValue (uc_config command)) (\<lambda>config.
     let revision = ag_current_config_revision agent + 1 in
     bindM clock (\<lambda>at.
     seqM (insert_unique d_agent_configs d_agent_configs_update agent_config_clash
             \<lparr>ac_agent_id = uc_agentId command, ac_revision = revision, ac_config = config,
              ac_created_at = at\<rparr>)
    (seqM (update_where d_agents_update (\<lambda>r. ag_id r = uc_agentId command)
             (\<lambda>r. r\<lparr>ag_current_config_revision := revision\<rparr>))
    (bindM (emitEvent (event_object EvAgentConfigUpdated (ag_project_id agent) None None EntAgent
               (uc_agentId command) (pr_id prin) None None corr
               (JObj [(''previousRevision'', jnat expected), (''revision'', jnat revision)]))) (\<lambda>_.
     ret ((command_result_of UpdateAgentConfig (uc_agentId command))
            \<lparr>cr_revision := Some revision,
             cr_relatedIds := Some [(''previousAgentConfigRevision'', show_nat expected)]\<rparr>))))))))))"

definition config_exists :: "ident \<Rightarrow> nat \<Rightarrow> database \<Rightarrow> bool" where
  "config_exists agentId revision d =
     list_ex (\<lambda>c. ac_agent_id c = agentId \<and> ac_revision c = revision) (d_agent_configs d)"

definition adoptRunConfig :: "adopt_config_command \<Rightarrow> principal_row \<Rightarrow> string \<Rightarrow> command_result kop" where
  "adoptRunConfig command prin corr =
     seqM (requireKind prin Human)
    (bindM (requirePositiveRevision (ad_expectedRunRevision command)) (\<lambda>expectedRun.
     bindM (requirePositiveRevision (ad_expectedAgentConfigRevision command)) (\<lambda>expectedAgent.
     bindM (requirePositiveRevision (ad_targetAgentConfigRevision command)) (\<lambda>target.
     bindM (requireMutableRun (ad_runId command) (Some expectedRun)) (\<lambda>run.
     bindM (requireAgent (rn_owner_agent_id run)) (\<lambda>agent.
     seqM (checkRevision (ag_current_config_revision agent) expectedAgent)
    (let previous = rn_agent_config_revision run in
     seqM (guardM (\<not> (target \<le> previous \<or> target > expectedAgent)) (err InvalidCommand))
    (bindM (query (config_exists (ag_id agent) target)) (\<lambda>present.
     seqM (guardM present (err InvalidCommand))
    (let revision = rn_revision run + 1 in
     bindM clock (\<lambda>at.
     seqM (update_run (ad_runId command)
             (\<lambda>r. r\<lparr>rn_agent_config_revision := target, rn_revision := revision, rn_updated_at := at\<rparr>))
    (bindM (emitEvent (event_object EvRunConfigAdopted (rn_project_id run)
               (Some (rn_home_channel_id run)) (Some (rn_thread_root_id run)) EntRun
               (ad_runId command) (pr_id prin) None None corr
               (JObj [(''agentId'', JStr (ag_id agent)),
                      (''previousAgentConfigRevision'', jnat previous),
                      (''agentConfigRevision'', jnat target), (''runRevision'', jnat revision)]))) (\<lambda>_.
     ret ((command_result_of AdoptRunConfig (ad_runId command))
            \<lparr>cr_revision := Some revision,
             cr_relatedIds := Some [(''agentId'', ag_id agent),
               (''agentConfigRevision'', show_nat target)]\<rparr>))))))))))))))"

section \<open>Evolution\<close>

lemma grows_serializeJsonValue [grows_rules]: "grows (serializeJsonValue v)"
  unfolding serializeJsonValue_def by (intro grows_rules)

lemma grows_updateAgentConfig [grows_rules]: "grows (updateAgentConfig command prin corr)"
  unfolding updateAgentConfig_def by (intro grows_rules) (simp_all add: agent_fixed_def)

lemma grows_adoptRunConfig [grows_rules]: "grows (adoptRunConfig command prin corr)"
  unfolding adoptRunConfig_def by (intro grows_rules) (simp_all add: run_fixed_def)

end
