(* ===== verification/Samples.thy ===== *)
theory Samples
  imports Store
begin

text \<open>
  One small database that the witnesses run the handlers on: a channel with a thread of one
  message that mentions an agent, the run that came of it with one pending input and a live
  activation, and a Worktree of the run with an active lease and a stopped execution.
\<close>

definition sample_human :: principal_row where
  "sample_human = \<lparr>pr_id = ''h'', pr_kind = Human, pr_display_name = ''H''\<rparr>"

definition sample_agent_principal :: principal_row where
  "sample_agent_principal = \<lparr>pr_id = ''ap'', pr_kind = Agent, pr_display_name = ''A''\<rparr>"

definition sample_run :: run_row where
  "sample_run =
     \<lparr>rn_id = ''run'', rn_project_id = ''p'', rn_home_channel_id = ''ch'',
      rn_thread_root_id = ''m'', rn_owner_agent_id = ''ag'', rn_agent_config_revision = 1,
      rn_causal_root_id = ''m'', rn_parent_attention_id = ''at'', rn_parent_run_id = None,
      rn_delegation_depth = 0, rn_state = RunActive, rn_revision = 2,
      rn_activation_generation = 1, rn_next_input_sequence = 2, rn_next_activity_sequence = 1,
      rn_created_event_sequence = None, rn_created_at = 0, rn_updated_at = 0,
      rn_terminal_reason = None\<rparr>"

definition sample_input :: run_input_row where
  "sample_input =
     \<lparr>ri_id = ''in'', ri_run_id = ''run'', ri_message_revision_id = ''mr'',
      ri_run_input_sequence = 1, ri_assigned_by_principal_id = ''ap'',
      ri_assigned_by_activation_id = None, ri_source_attention_id = Some ''at'',
      ri_created_event_sequence = None, ri_created_at = 0, ri_disposition = Pending,
      ri_disposition_revision = 1, ri_disposition_reason = None, ri_superseded_by = None\<rparr>"

definition sample_activation :: activation_row where
  "sample_activation =
     \<lparr>aa_id = ''act'', aa_agent_id = ''ag'', aa_run_id = Some ''run'', aa_attention_id = None,
      aa_attention_lease_token = None, aa_run_activation_generation = Some 1,
      aa_cause = CauseRun, aa_config_revision = 1, aa_created_event_sequence = None,
      aa_started_at = 0, aa_expires_at = 300000, aa_revoked_at = None,
      aa_revocation_reason = None, aa_finished_at = None, aa_outcome = None, aa_detail = None\<rparr>"

definition sample_attention :: attention_row where
  "sample_attention =
     \<lparr>at_sequence = 1, at_id = ''at'', at_project_id = ''p'', at_channel_id = ''ch'',
      at_thread_root_id = ''m'', at_message_revision_id = ''mr'', at_target_agent_id = ''ag'',
      at_trigger_kind = Mention, at_status = AttResolved, at_revision = 2,
      at_handler_lease_holder = None, at_handler_lease_token = None,
      at_handler_lease_expires_at = None, at_resolution_outcome = Some OutRunCreated,
      at_resolved_by = Some ''ap'', at_resolved_activation_id = None,
      at_resolved_run_id = Some ''run'', at_created_event_sequence = None, at_created_at = 0,
      at_resolved_at = Some 0\<rparr>"

definition sample_lease :: lease_row where
  "sample_lease =
     \<lparr>wl_worktree_id = ''w'', wl_revision = 1, wl_generation = 1, wl_fencing_token = 1,
      wl_status = LeaseActive, wl_holder = Some ''r'', wl_lease_token = Some ''secret'',
      wl_acquired_at = Some 0, wl_renewed_at = Some 0, wl_expires_at = Some 300000,
      wl_released_at = None, wl_quarantine_reason = None, wl_quarantine_token = None,
      wl_quarantine_evidence = None, wl_quarantined_at = None,
      wl_quarantine_resolved_at = None, wl_quarantine_resolution = None, wl_updated_at = 0\<rparr>"

definition sample_worktree :: physical_row where
  "sample_worktree =
     \<lparr>pw_worktree_id = ''w'', pw_run_id = ''run'', pw_repository_id = ''repo'',
      pw_repository_path = ''/repo'', pw_base_revision = replicate 40 (CHR ''0''),
      pw_directory_path = ''/work/a'', pw_directory_identity = ''i'', pw_state = WtReady,
      pw_created_at = 0\<rparr>"

definition sample_execution :: execution_row where
  "sample_execution =
     \<lparr>wx_sequence = 1, wx_id = ''x'', wx_worktree_id = ''w'', wx_activation_id = ''act'',
      wx_runtime_principal_id = ''r'', wx_executor_id = ''e'', wx_execution_token = ''token'',
      wx_generation = 1, wx_fencing_token = 1, wx_operation = WriteProbe,
      wx_provider_attempt_id = None, wx_permission_mode = None, wx_state = ExStopConfirmed,
      wx_pid = None, wx_authority_revoked_at = None, wx_authority_revocation_reason = None,
      wx_created_at = 0\<rparr>"

definition sample_database :: database where
  "sample_database = empty_database
     \<lparr>d_causal_limits := Some \<lparr>cl_max_depth = 2, cl_max_non_terminal = 4\<rparr>,
      d_principals := [sample_human, sample_agent_principal, sample_runtime],
      d_projects := [\<lparr>pj_id = ''p'', pj_name = ''P''\<rparr>],
      d_channels := [\<lparr>ch_id = ''ch'', ch_project_id = ''p'', ch_name = ''C''\<rparr>],
      d_agents := [\<lparr>ag_id = ''ag'', ag_principal_id = ''ap'', ag_project_id = ''p'',
        ag_name = ''A'', ag_current_config_revision = 1\<rparr>],
      d_agent_configs := [\<lparr>ac_agent_id = ''ag'', ac_revision = 1, ac_config = JObj [],
        ac_created_at = 0\<rparr>],
      d_threads := [\<lparr>th_root_message_id = ''m'', th_project_id = ''p'', th_channel_id = ''ch'',
        th_created_event_sequence = None, th_cursor = 0\<rparr>],
      d_messages := [\<lparr>ms_id = ''m'', ms_project_id = ''p'', ms_channel_id = ''ch'',
        ms_thread_root_id = ''m'', ms_reply_to_message_id = None,
        ms_author_principal_id = ''h'', ms_author_agent_id = None,
        ms_caused_by_attention_id = None, ms_caused_by_run_id = None, ms_thread_sequence = 1,
        ms_latest_revision = 1, ms_created_event_sequence = None, ms_created_at = 0\<rparr>],
      d_message_revisions := [\<lparr>mr_id = ''mr'', mr_message_id = ''m'', mr_revision = 1,
        mr_body = ''b'', mr_tombstone = False, mr_created_event_sequence = None,
        mr_created_at = 0\<rparr>],
      d_attentions := [sample_attention], d_runs := [sample_run], d_run_inputs := [sample_input],
      d_activations := [sample_activation],
      d_activation_inputs := [\<lparr>ai_activation_id = ''act'', ai_run_input_id = ''in'',
        ai_run_input_sequence = 1\<rparr>],
      d_leases := [sample_lease],
      d_lease_events := [\<lparr>we_sequence = 1, we_id = ''le'', we_worktree_id = ''w'',
        we_type = LeaseAcquiredEv, we_revision = 1, we_generation = 1, we_fencing_token = 1,
        we_actor = ''r'', we_holder = Some ''r'', we_expires_at = Some 300000, we_reason = None,
        we_evidence = None, we_correlation_id = ''c'', we_occurred_at = 0\<rparr>],
      d_worktrees := [sample_worktree],
      d_executions := [sample_execution]\<rparr>"

definition sample_kernel :: kernel where
  "sample_kernel = context_on sample_database"

end
