(* ===== verification/PhysicalWorktrees.thy ===== *)
theory PhysicalWorktrees
  imports Leases Configuration Samples
begin

text \<open>
  Physical Worktrees and their executions (\<open>physical-worktrees.ts\<close>): a Runtime registers a
  directory for a run, records the executions that write to it, and every writer check asks
  whether the executions of an activation still hold their publication authority. A lost
  authority is revoked durably, and a revocation is never undone.
\<close>

section \<open>Paths\<close>

text \<open>
  \<open>relative\<close> of \<open>node:path\<close> on POSIX: both paths are resolved against the working directory
  of the process into lists of names, and the result climbs from the one to the other.
\<close>

fun split_slash :: "string \<Rightarrow> string list" where
  "split_slash [] = [[]]"
| "split_slash (c # cs) =
     (if c = CHR ''/'' then [] # split_slash cs
      else (case split_slash cs of [] \<Rightarrow> [[c]] | s # ss \<Rightarrow> (c # s) # ss))"

fun normalize_names :: "string list \<Rightarrow> string list \<Rightarrow> string list" where
  "normalize_names acc [] = rev acc"
| "normalize_names acc (s # ss) =
     normalize_names (if s = [] \<or> s = ''.'' then acc else if s = ''..'' then tl acc else s # acc) ss"

definition isAbsolute :: "string \<Rightarrow> bool" where
  "isAbsolute path = (case path of [] \<Rightarrow> False | c # _ \<Rightarrow> c = CHR ''/'')"

definition resolve_path :: "string \<Rightarrow> string \<Rightarrow> string list" where
  "resolve_path cwd path =
     normalize_names [] (split_slash (if isAbsolute path then path else cwd @ ''/'' @ path))"

fun relative_names :: "string list \<Rightarrow> string list \<Rightarrow> string list" where
  "relative_names [] ts = ts"
| "relative_names (s # ss) [] = replicate (Suc (length ss)) ''..''"
| "relative_names (s # ss) (t # ts) =
     (if s = t then relative_names ss ts else replicate (Suc (length ss)) ''..'' @ t # ts)"

fun join_slash :: "string list \<Rightarrow> string" where
  "join_slash [] = []"
| "join_slash [s] = s"
| "join_slash (s # ss) = s @ ''/'' @ join_slash ss"

definition relative_path :: "string \<Rightarrow> string \<Rightarrow> string \<Rightarrow> string" where
  "relative_path cwd parent child =
     join_slash (relative_names (resolve_path cwd parent) (resolve_path cwd child))"

definition contains :: "string \<Rightarrow> string \<Rightarrow> string \<Rightarrow> bool" where
  "contains cwd parent child =
     (let path = relative_path cwd parent child in
      path = [] \<or> (\<not> isAbsolute path \<and> path \<noteq> ''..'' \<and> take 3 path \<noteq> ''../''))"

section \<open>Commands\<close>

record physical_worktree_binding = idempotent_command +
  pb_worktreeId :: ident
  pb_runId :: ident
  pb_repositoryId :: string
  pb_repositoryPath :: string
  pb_baseRevision :: string
  pb_directoryPath :: string
  pb_directoryIdentity :: string

record provider_binding =
  wp_providerAttemptId :: ident
  wp_permissionMode :: permission_mode

record start_execution_command = idempotent_command +
  se_authority :: lease_authority
  se_activationId :: ident
  se_executorId :: string
  se_provider :: "provider_binding option"

record execution_receipt =
  er_executionId :: ident
  er_executorId :: string
  er_executionToken :: string

record record_execution_command = idempotent_command +
  re_receipt :: execution_receipt
  re_state :: execution_state
  re_pid :: "jsnum option"
  re_evidence :: string
  re_preservePublicationAuthority :: "bool option"

record revoke_authority_command = idempotent_command +
  rv_receipt :: execution_receipt
  rv_reason :: string

record recover_execution_command = idempotent_command +
  rc_executionId :: ident
  rc_reason :: string

datatype physical_command =
    RegisterCommand physical_worktree_binding
  | StartExecutionCommand start_execution_command
  | RecordExecutionCommand record_execution_command
  | RevokeAuthorityCommand revoke_authority_command
  | RecoverExecutionCommand recover_execution_command

text \<open>A lease authority together with an execution receipt.\<close>

record mutation_authority =
  ma_lease :: lease_authority
  ma_receipt :: execution_receipt

section \<open>Reading and checking\<close>

definition requireWorktree :: "ident \<Rightarrow> physical_row kop" where
  "requireWorktree i = requireRow NotFound (\<lambda>d. find_row pw_worktree_id i (d_worktrees d))"

definition requireExecution :: "ident \<Rightarrow> execution_row kop" where
  "requireExecution i = requireRow NotFound (\<lambda>d. find_row wx_id i (d_executions d))"

definition requireReceipt :: "execution_row \<Rightarrow> execution_receipt \<Rightarrow> principal_row \<Rightarrow> unit kop" where
  "requireReceipt execution receipt prin =
     guardM (wx_executor_id execution = er_executorId receipt \<and>
             wx_execution_token execution = er_executionToken receipt \<and>
             wx_runtime_principal_id execution = pr_id prin) (err Forbidden)"

definition requireSourceActivation :: "ident \<Rightarrow> ident \<Rightarrow> unit kop" where
  "requireSourceActivation runId activationId =
     bindM (requireLiveActivation activationId) (\<lambda>activation.
     seqM (guardM (aa_run_id activation = Some runId) (err Forbidden))
          (assertActivationScopeCurrent activation))"

definition requireExecutingProvider :: "provider_binding \<Rightarrow> ident \<Rightarrow> unit kop" where
  "requireExecutingProvider provider activationId =
     bindM (requireProviderAttempt (wp_providerAttemptId provider)) (\<lambda>attempt.
     seqM (guardM (pa_activation_id attempt = activationId) (err Forbidden))
          (guardM (unsettled (pa_status attempt)) (err Conflict)))"

text \<open>\<open>validateWorktreeProviderBinding\<close>: the members of an arbitrary value, by name.\<close>

definition string_member :: "(string \<times> js_value) list \<Rightarrow> string \<Rightarrow> string option" where
  "string_member ms key = (case map_of ms key of Some (VString t) \<Rightarrow> Some t | _ \<Rightarrow> None)"

definition validateWorktreeProviderBinding :: "js_value \<Rightarrow> ('s, kerror, unit) op" where
  "validateWorktreeProviderBinding v =
     (case v of
        VObject ms \<Rightarrow>
          guardM (length ms = 3 \<and>
              set (map fst ms) \<subseteq> {''providerAttemptId'', ''policy'', ''permissionMode''} \<and>
              (case string_member ms ''providerAttemptId'' of None \<Rightarrow> False
               | Some i \<Rightarrow> js_trim i \<noteq> [] \<and> length i \<le> 256) \<and>
              string_member ms ''policy'' = Some ''trusted-local'' \<and>
              (string_member ms ''permissionMode'' = Some ''provider-default'' \<or>
               string_member ms ''permissionMode'' = Some ''allow-all'')) (err InvalidCommand)
      | _ \<Rightarrow> raise (err InvalidCommand))"

text \<open>The value of a binding of the type.\<close>

definition binding_value :: "provider_binding \<Rightarrow> js_value" where
  "binding_value b = VObject
     [(''providerAttemptId'', VString (wp_providerAttemptId b)),
      (''policy'', VString ''trusted-local''),
      (''permissionMode'', VString (case wp_permissionMode b of
          ProviderDefault \<Rightarrow> ''provider-default'' | AllowAll \<Rightarrow> ''allow-all''))]"

section \<open>Recording\<close>

definition execution_clash :: "execution_row \<Rightarrow> execution_row \<Rightarrow> bool" where
  "execution_clash r q \<longleftrightarrow>
     wx_id r = wx_id q \<or>
     wx_worktree_id r = wx_worktree_id q \<and> \<not> isStopped (wx_state r) \<and> \<not> isStopped (wx_state q)"

interpretation executions_table: table d_executions d_executions_update wx_id execution_clash
  by unfold_locales (auto simp: execution_clash_def)

text \<open>The worktrees of the unsettled executions, which \<open>worktree_unsettled_execution_idx\<close> keeps apart.\<close>

definition unsettled_worktrees :: "execution_row list \<Rightarrow> ident list" where
  "unsettled_worktrees rows = map wx_worktree_id (filter (\<lambda>r. \<not> isStopped (wx_state r)) rows)"

definition set_execution_state :: "ident \<Rightarrow> execution_state \<Rightarrow> unit kop" where
  "set_execution_state i st =
     bindM (query (\<lambda>d. update_rows (\<lambda>r. wx_id r = i) (\<lambda>r. r\<lparr>wx_state := st\<rparr>) (d_executions d))) (\<lambda>after.
     seqM (guardM (distinct (unsettled_worktrees after)) ConstraintError)
          (update_where d_executions_update (\<lambda>r. wx_id r = i) (\<lambda>r. r\<lparr>wx_state := st\<rparr>)))"

text \<open>An UPDATE of the revocation columns; the trigger aborts a change of a stored revocation.\<close>

definition update_revocation ::
  "(execution_row \<Rightarrow> bool) \<Rightarrow> instant \<Rightarrow> string \<Rightarrow> unit kop" where
  "update_revocation P at reason =
     bindM (query (\<lambda>d. list_all (\<lambda>r. P r \<and> wx_authority_revoked_at r \<noteq> None \<longrightarrow>
               wx_authority_revoked_at r = Some at \<and> wx_authority_revocation_reason r = Some reason)
             (d_executions d))) (\<lambda>unchanged.
     seqM (guardM unchanged InternalError)
          (update_where d_executions_update P
             (\<lambda>r. r\<lparr>wx_authority_revoked_at := Some at, wx_authority_revocation_reason := Some reason\<rparr>)))"

definition revokePublication :: "execution_row \<Rightarrow> string \<Rightarrow> unit kop" where
  "revokePublication execution reason =
     bindM clock (\<lambda>at.
       update_revocation (\<lambda>r. wx_id r = wx_id execution \<and> wx_authority_revoked_at r = None) at reason)"

definition append_execution_event :: "ident \<Rightarrow> execution_state \<Rightarrow> string \<Rightarrow> unit kop" where
  "append_execution_event i st evidence =
     bindM clock (\<lambda>at.
       writeDb (d_execution_events_update (\<lambda>es. es @
         [\<lparr>xe_sequence = next_sequence xe_sequence es, xe_execution_id = i, xe_state = st,
           xe_evidence = evidence, xe_occurred_at = at\<rparr>])))"

definition recordState :: "execution_row \<Rightarrow> execution_state \<Rightarrow> string \<Rightarrow> unit kop" where
  "recordState execution st evidence =
     seqM (whenM (st = ExUncertain \<or> st = ExForceTerminated)
             (revokePublication execution
                ''Physical execution did not finish normally under confirmed authority.''))
    (seqM (set_execution_state (wx_id execution) st)
    (seqM (whenM (st = ExUncertain \<or> isStopped st)
             (update_where d_worktrees_update (\<lambda>w. pw_worktree_id w = wx_worktree_id execution)
                (\<lambda>w. w\<lparr>pw_state := (if st = ExUncertain then WtQuarantined else WtReady)\<rparr>)))
          (append_execution_event (wx_id execution) st evidence)))"

section \<open>Writer authority\<close>

definition settled_state :: "revocation_reason option \<Rightarrow> run_state option" where
  "settled_state reason =
     (case reason of
        Some RunCompletedReason \<Rightarrow> Some RunCompleted
      | Some RunFailedReason \<Rightarrow> Some RunFailed
      | Some RunWaitingReason \<Rightarrow> Some RunWaiting
      | _ \<Rightarrow> None)"

definition decision_event :: "ident \<Rightarrow> ident \<Rightarrow> event_row \<Rightarrow> bool" where
  "decision_event activationId runId e \<longleftrightarrow>
     ev_activation_id e = Some activationId \<and> ev_entity_id e = runId \<and>
     ev_type e \<in> {EvRunCompleted, EvRunFailed, EvRunWaiting}"

text \<open>
  Whether the activation has committed the decision that settled its run; the four conditions
  short-circuit, and reading the generation of an activation without one is an internal error.
\<close>

definition committed_decision :: "activation_row \<Rightarrow> run_row \<Rightarrow> bool \<Rightarrow> bool kop" where
  "committed_decision activation sourceRun allowCommittedDecision =
     (if \<not> allowCommittedDecision then ret False
      else
        bindM clock (\<lambda>at.
        if \<not> (aa_expires_at activation > at) \<or> aa_finished_at activation \<noteq> None then ret False
        else
          bindM (needM InternalError (aa_run_activation_generation activation)) (\<lambda>generation.
          if generation \<noteq> rn_activation_generation sourceRun \<or>
             settled_state (aa_revocation_reason activation) \<noteq> Some (rn_state sourceRun) then ret False
          else query (\<lambda>d. list_ex (decision_event (aa_id activation) (rn_id sourceRun)) (d_events d)))))"

text \<open>The body of the try statement, for one execution.\<close>

definition checkExecutionAuthority ::
  "ident \<Rightarrow> bool \<Rightarrow> bool \<Rightarrow> execution_row \<Rightarrow> physical_row \<Rightarrow> lease_row option \<Rightarrow> unit kop" where
  "checkExecutionAuthority activationId requireStopped allowCommittedDecision execution worktree lease =
     seqM (case wx_provider_attempt_id execution of
             None \<Rightarrow> ret ()
           | Some i \<Rightarrow>
               bindM (query (\<lambda>d. find_row pa_id i (d_provider_attempts d))) (\<lambda>attempt.
                 guardM (case attempt of None \<Rightarrow> False
                         | Some a \<Rightarrow> pa_activation_id a = activationId \<and>
                             (pa_status a = ProvStarted \<or> pa_status a = ProvAcknowledged \<or>
                              allowCommittedDecision \<and> pa_status a = ProvCompleted))
                   (err WriterAuthorityLost)))
    (bindM (gets k_localWorktreeRevocations) (\<lambda>revoked_here.
     seqM (guardM (activationId \<notin> set revoked_here \<and>
                   wx_authority_revoked_at execution = None \<and> pw_state worktree = WtReady \<and>
                   lease \<noteq> None \<and>
                   wx_state execution \<in> {ExStarting, ExRunning, ExStopRequested, ExStopConfirmed} \<and>
                   (requireStopped \<longrightarrow> wx_state execution = ExStopConfirmed))
             (err WriterAuthorityLost))
    (bindM (needM (err WriterAuthorityLost) lease) (\<lambda>l.
     bindM (requirePrincipal (wx_runtime_principal_id execution)) (\<lambda>runtime.
     bindM clock (\<lambda>at.
     bindM (idFactory ''corr'') (\<lambda>corr.
     bindM (requireLiveAuthority
              \<lparr>wa_worktreeId = wx_worktree_id execution, wa_generation = wx_generation execution,
               wa_fencingToken = wx_fencing_token execution,
               wa_leaseToken = (case wl_lease_token l of None \<Rightarrow> ''revoked'' | Some t \<Rightarrow> t)\<rparr>
              runtime at corr) (\<lambda>_.
     bindM (requireActivation activationId) (\<lambda>activation.
     bindM (requireRun (pw_run_id worktree)) (\<lambda>sourceRun.
     bindM (committed_decision activation sourceRun allowCommittedDecision) (\<lambda>decision.
       if decision then ret () else requireSourceActivation (pw_run_id worktree) activationId)))))))))))"

definition assertExecutionAuthority :: "ident \<Rightarrow> bool \<Rightarrow> bool \<Rightarrow> execution_row \<Rightarrow> unit kop" where
  "assertExecutionAuthority activationId requireStopped allowCommittedDecision execution =
     bindM (requireWorktree (wx_worktree_id execution)) (\<lambda>worktree.
     bindM (getLease (wx_worktree_id execution)) (\<lambda>lease.
       catchM (checkExecutionAuthority activationId requireStopped allowCommittedDecision
                 execution worktree lease)
         (\<lambda>e. if \<not> is_kernel_error e then raise e
              else seqM (revokePublication execution
                           ''Controlled Worktree publication authority was lost.'')
                        (raise (DurableKernelError WriterAuthorityLost None)))))"

definition executions_of :: "ident \<Rightarrow> database \<Rightarrow> execution_row list" where
  "executions_of activationId d = filter (\<lambda>x. wx_activation_id x = activationId) (d_executions d)"

definition assertActivationWriterAuthority :: "ident \<Rightarrow> bool \<Rightarrow> bool \<Rightarrow> unit kop" where
  "assertActivationWriterAuthority activationId requireStopped allowCommittedDecision =
     bindM (query (executions_of activationId)) (\<lambda>executions.
       forM executions (assertExecutionAuthority activationId requireStopped allowCommittedDecision))"

definition assertWriterContextAuthority ::
  "principal_row \<Rightarrow> principal_context \<Rightarrow> bool \<Rightarrow> unit kop" where
  "assertWriterContextAuthority prin context requireStopped =
     (case (if pr_kind prin = Agent then truthy (pc_activationId context) else None) of
        None \<Rightarrow> ret ()
      | Some activationId \<Rightarrow>
          bindM (query (\<lambda>d. executions_of activationId d \<noteq> [])) (\<lambda>writes.
          whenM writes
            (bindM (requireActivation activationId) (\<lambda>activation.
             seqM (authorizeActivationActor prin context activation True)
                  (assertActivationWriterAuthority activationId requireStopped False)))))"

definition granted_to :: "mutation_authority \<Rightarrow> execution_row \<Rightarrow> bool" where
  "granted_to authority execution \<longleftrightarrow>
     wx_worktree_id execution = wa_worktreeId (ma_lease authority) \<and>
     wx_generation execution = wa_generation (ma_lease authority) \<and>
     wx_fencing_token execution = wa_fencingToken (ma_lease authority)"

definition assertWorktreeMutation :: "mutation_authority \<Rightarrow> principal_row \<Rightarrow> unit kop" where
  "assertWorktreeMutation authority prin =
     seqM (requireRuntime prin)
    (bindM (requireExecution (er_executionId (ma_receipt authority))) (\<lambda>execution.
     seqM (requireReceipt execution (ma_receipt authority) prin)
    (bindM (requireWorktree (wa_worktreeId (ma_lease authority))) (\<lambda>worktree.
     seqM (guardM (granted_to authority execution \<and>
                   wx_state execution \<in> {ExStarting, ExRunning} \<and> pw_state worktree = WtReady)
             (err Conflict))
    (seqM (assertActivationWriterAuthority (wx_activation_id execution) False False)
    (bindM clock (\<lambda>at.
     bindM (idFactory ''corr'') (\<lambda>corr.
     bindM (requireLiveAuthority (ma_lease authority) prin at corr) (\<lambda>_. ret ())))))))))"

definition assertWorktreePublication :: "mutation_authority \<Rightarrow> principal_row \<Rightarrow> unit kop" where
  "assertWorktreePublication authority prin =
     seqM (requireRuntime prin)
    (bindM (requireExecution (er_executionId (ma_receipt authority))) (\<lambda>execution.
     seqM (requireReceipt execution (ma_receipt authority) prin)
    (seqM (guardM (granted_to authority execution) (err WriterAuthorityLost))
    (seqM (assertActivationWriterAuthority (wx_activation_id execution) True False)
    (bindM clock (\<lambda>at.
     bindM (idFactory ''corr'') (\<lambda>corr.
     bindM (requireLiveAuthority (ma_lease authority) prin at corr) (\<lambda>_. ret ()))))))))"

section \<open>Handlers\<close>

definition commit_id :: "string \<Rightarrow> bool" where
  "commit_id t \<longleftrightarrow>
     (length t = 40 \<or> length t = 64) \<and>
     list_all (\<lambda>c. of_char c \<in> {97 :: nat..102} \<or> of_char c \<in> {48 :: nat..57}) t"

definition registerPhysicalWorktree :: "physical_worktree_binding \<Rightarrow> command_result kop" where
  "registerPhysicalWorktree command =
     seqM (forM [pb_worktreeId command, pb_repositoryId command, pb_repositoryPath command,
                 pb_directoryPath command, pb_directoryIdentity command] requireNonEmpty)
    (seqM (guardM (commit_id (pb_baseRevision command)) (err InvalidCommand))
    (bindM (requireRun (pb_runId command)) (\<lambda>_.
     bindM (gets k_cwd) (\<lambda>cwd.
     bindM (query (\<lambda>d. list_ex (\<lambda>w.
              contains cwd (pw_directory_path w) (pb_directoryPath command) \<or>
              contains cwd (pb_directoryPath command) (pw_directory_path w)) (d_worktrees d))) (\<lambda>overlaps.
     seqM (guardM (\<not> overlaps) (err Conflict))
    (bindM clock (\<lambda>at.
     seqM (insert_unique d_worktrees d_worktrees_update worktree_clash
             \<lparr>pw_worktree_id = pb_worktreeId command, pw_run_id = pb_runId command,
              pw_repository_id = pb_repositoryId command,
              pw_repository_path = pb_repositoryPath command,
              pw_base_revision = pb_baseRevision command,
              pw_directory_path = pb_directoryPath command,
              pw_directory_identity = pb_directoryIdentity command, pw_state = WtReady,
              pw_created_at = at\<rparr>)
          (ret (command_result_of RegisterPhysicalWorktree (pb_worktreeId command))))))))))"

definition startWorktreeExecution ::
  "start_execution_command \<Rightarrow> principal_row \<Rightarrow> string \<Rightarrow> command_result kop" where
  "startWorktreeExecution command prin corr =
     (let wid = wa_worktreeId (se_authority command) in
      seqM (requireNonEmpty (se_executorId command))
     (seqM (assertPhysicalWorktreeIdle wid False)
     (bindM (requireWorktree wid) (\<lambda>worktree.
      seqM (requireSourceActivation (pw_run_id worktree) (se_activationId command))
     (seqM (case se_provider command of
              None \<Rightarrow> ret ()
            | Some provider \<Rightarrow> requireExecutingProvider provider (se_activationId command))
     (seqM (assertActivationWriterAuthority (se_activationId command) False False)
     (bindM clock (\<lambda>observedAt.
      bindM (requireLiveAuthority (se_authority command) prin observedAt corr) (\<lambda>_.
      bindM (idFactory ''worktree_execution'') (\<lambda>i.
      bindM randomToken (\<lambda>token.
      bindM clock (\<lambda>at.
      bindM (query (\<lambda>d. next_sequence wx_sequence (d_executions d))) (\<lambda>n.
      seqM (insert_unique d_executions d_executions_update execution_clash
              \<lparr>wx_sequence = n, wx_id = i, wx_worktree_id = wid,
               wx_activation_id = se_activationId command, wx_runtime_principal_id = pr_id prin,
               wx_executor_id = se_executorId command, wx_execution_token = token,
               wx_generation = wa_generation (se_authority command),
               wx_fencing_token = wa_fencingToken (se_authority command),
               wx_operation = (if se_provider command = None then WriteProbe else NativeProvider),
               wx_provider_attempt_id = map_option wp_providerAttemptId (se_provider command),
               wx_permission_mode = map_option wp_permissionMode (se_provider command),
               wx_state = ExStarting, wx_pid = None, wx_authority_revoked_at = None,
               wx_authority_revocation_reason = None, wx_created_at = at\<rparr>)
     (seqM (append_execution_event i ExStarting
              ''Durable intent before any file or process effect.'')
           (ret ((command_result_of StartWorktreeExecution i)
                   \<lparr>cr_executionToken := Some token\<rparr>))))))))))))))))"

definition recoverWorktreeExecution :: "recover_execution_command \<Rightarrow> command_result kop" where
  "recoverWorktreeExecution command =
     bindM (requireExecution (rc_executionId command)) (\<lambda>execution.
     seqM (requireNonEmpty (rc_reason command))
    (seqM (revokePublication execution (rc_reason command))
    (seqM (whenM (\<not> isStopped (wx_state execution) \<and> wx_state execution \<noteq> ExUncertain)
             (recordState execution ExUncertain (rc_reason command)))
          (ret (command_result_of RecoverWorktreeExecution (rc_executionId command))))))"

definition revokeWorktreeExecutionAuthority ::
  "revoke_authority_command \<Rightarrow> principal_row \<Rightarrow> command_result kop" where
  "revokeWorktreeExecutionAuthority command prin =
     bindM (requireExecution (er_executionId (rv_receipt command))) (\<lambda>execution.
     seqM (requireReceipt execution (rv_receipt command) prin)
    (seqM (requireNonEmpty (rv_reason command))
    (seqM (revokePublication execution (rv_reason command))
          (ret (command_result_of RevokeWorktreeExecutionAuthority
                  (er_executionId (rv_receipt command)))))))"

text \<open>The transitions an executor may record.\<close>

definition allowed :: "execution_state \<Rightarrow> execution_state set" where
  "allowed st =
     (case st of
        ExStarting \<Rightarrow> {ExRunning, ExStopRequested, ExStopConfirmed, ExUncertain}
      | ExRunning \<Rightarrow> {ExStopRequested, ExStopConfirmed, ExUncertain}
      | ExStopRequested \<Rightarrow> {ExStopConfirmed, ExForceTerminated, ExUncertain}
      | ExUncertain \<Rightarrow> {ExStopConfirmed, ExForceTerminated}
      | ExStopConfirmed \<Rightarrow> {}
      | ExForceTerminated \<Rightarrow> {})"

definition record_pid :: "execution_row \<Rightarrow> jsnum option \<Rightarrow> unit kop" where
  "record_pid execution pid =
     (case pid of
        None \<Rightarrow> ret ()
      | Some JOther \<Rightarrow> raise (err Conflict)
      | Some (JInt n) \<Rightarrow>
          seqM (guardM (1 \<le> n \<and> n \<le> MAX_SAFE_INTEGER \<and>
                        (wx_pid execution = None \<or> wx_pid execution = Some (nat n))) (err Conflict))
               (update_where d_executions_update (\<lambda>r. wx_id r = wx_id execution)
                  (\<lambda>r. r\<lparr>wx_pid := Some (nat n)\<rparr>)))"

definition recordWorktreeExecution ::
  "record_execution_command \<Rightarrow> principal_row \<Rightarrow> command_result kop" where
  "recordWorktreeExecution command prin =
     bindM (requireExecution (er_executionId (re_receipt command))) (\<lambda>execution.
     seqM (requireReceipt execution (re_receipt command) prin)
    (seqM (requireNonEmpty (re_evidence command))
    (seqM (guardM (re_state command \<in> allowed (wx_state execution)) (err Conflict))
    (seqM (record_pid execution (re_pid command))
    (seqM (whenM (re_state command = ExStopRequested \<and>
                  re_preservePublicationAuthority command \<noteq> Some True)
             (revokePublication execution ''Execution stop revoked publication authority.''))
    (seqM (recordState execution (re_state command) (re_evidence command))
          (ret (command_result_of RecordWorktreeExecution
                  (er_executionId (re_receipt command))))))))))"

definition physicalWorktreeCommand ::
  "physical_command \<Rightarrow> principal_row \<Rightarrow> string \<Rightarrow> command_result kop" where
  "physicalWorktreeCommand command prin corr =
     seqM (requireRuntime prin)
       (case command of
          RegisterCommand c \<Rightarrow> registerPhysicalWorktree c
        | StartExecutionCommand c \<Rightarrow> startWorktreeExecution c prin corr
        | RecordExecutionCommand c \<Rightarrow> recordWorktreeExecution c prin
        | RevokeAuthorityCommand c \<Rightarrow> revokeWorktreeExecutionAuthority c prin
        | RecoverExecutionCommand c \<Rightarrow> recoverWorktreeExecution c)"

definition resolveCachedWorktreeExecution ::
  "start_execution_command \<Rightarrow> command_result \<Rightarrow> principal_row \<Rightarrow> command_result kop" where
  "resolveCachedWorktreeExecution command result prin =
     seqM (case se_provider command of
             None \<Rightarrow> ret ()
           | Some provider \<Rightarrow> requireExecutingProvider provider (se_activationId command))
    (seqM (assertWorktreeMutation
             \<lparr>ma_lease = se_authority command,
              ma_receipt = \<lparr>er_executionId = cr_entityId result,
                er_executorId = se_executorId command,
                er_executionToken =
                  (case cr_executionToken result of None \<Rightarrow> [] | Some t \<Rightarrow> t)\<rparr>\<rparr> prin)
          (ret result))"

section \<open>View\<close>

record worktree_execution_view =
  xv_id :: ident
  xv_activationId :: ident
  xv_executorId :: string
  xv_runtimePrincipalId :: ident
  xv_generation :: nat
  xv_fencingToken :: nat
  xv_provider :: "provider_binding option"
  xv_state :: execution_state
  xv_pid :: "nat option"
  xv_authorityRevokedAt :: "instant option"
  xv_authorityRevocationReason :: "string option"
  xv_events :: "(execution_state \<times> string \<times> instant) list"

text \<open>The columns of the worktree itself are the row's.\<close>

record physical_worktree_view =
  pv_worktree :: physical_row
  pv_latestExecution :: "worktree_execution_view option"

definition execution_provider :: "execution_row \<Rightarrow> provider_binding option" where
  "execution_provider x =
     (case (wx_provider_attempt_id x, wx_permission_mode x) of
        (Some i, Some mode) \<Rightarrow> Some \<lparr>wp_providerAttemptId = i, wp_permissionMode = mode\<rparr>
      | _ \<Rightarrow> None)"

definition execution_view :: "database \<Rightarrow> execution_row \<Rightarrow> worktree_execution_view" where
  "execution_view d x =
     \<lparr>xv_id = wx_id x, xv_activationId = wx_activation_id x, xv_executorId = wx_executor_id x,
      xv_runtimePrincipalId = wx_runtime_principal_id x, xv_generation = wx_generation x,
      xv_fencingToken = wx_fencing_token x, xv_provider = execution_provider x,
      xv_state = wx_state x, xv_pid = wx_pid x,
      xv_authorityRevokedAt = wx_authority_revoked_at x,
      xv_authorityRevocationReason = wx_authority_revocation_reason x,
      xv_events = map (\<lambda>e. (xe_state e, xe_evidence e, xe_occurred_at e))
        (filter (\<lambda>e. xe_execution_id e = wx_id x) (d_execution_events d))\<rparr>"

definition getPhysicalWorktree :: "ident \<Rightarrow> principal_row \<Rightarrow> physical_worktree_view kop" where
  "getPhysicalWorktree wid prin =
     seqM (requireRuntime prin)
    (bindM (requireWorktree wid) (\<lambda>row.
     bindM (query (\<lambda>d. map_option (execution_view d)
              (find_first (\<lambda>x. wx_worktree_id x = wid) (rev (d_executions d))))) (\<lambda>latest.
       ret \<lparr>pv_worktree = row, pv_latestExecution = latest\<rparr>)))"

section \<open>Evolution\<close>

lemma reads_worktree_checks [reads_rules]:
  "reads (requireWorktree i)" "reads (requireExecution i)" "reads (requireReceipt x r prin)"
  "reads (requireSourceActivation j i)" "reads (requireExecutingProvider b i)"
  "reads (committed_decision a run b')"
  unfolding requireWorktree_def requireExecution_def requireReceipt_def requireSourceActivation_def
    requireExecutingProvider_def committed_decision_def
  by (intro reads_rules; fail)+

lemmas works_worktree_checks [works_rules] = reads_worktree_checks [THEN reads_works]

lemma works_set_execution_state [works_rules]: "works (set_execution_state i st)"
  unfolding set_execution_state_def update_where_def
  by (intro works_rules works_writeDb)
    (simp_all add: extends_def collaboration_side_def execution_fixed_def map_key_update seals_update)

lemma extends_update_executions:
  "(\<And>r. execution_fixed (f r) = execution_fixed r) \<Longrightarrow>
   extends d (d_executions_update (update_rows P f) d)"
  by (simp add: extends_def map_key_update)

text \<open>A revocation is written only where none is stored, or over itself.\<close>

lemma works_update_revocation [works_rules]: "works (update_revocation P at reason)"
proof -
  have "seals (d_executions d) (update_rows P
      (\<lambda>r. r\<lparr>wx_authority_revoked_at := Some at, wx_authority_revocation_reason := Some reason\<rparr>)
      (d_executions d))"
    if "list_all (\<lambda>r. P r \<and> wx_authority_revoked_at r \<noteq> None \<longrightarrow>
          wx_authority_revoked_at r = Some at \<and> wx_authority_revocation_reason r = Some reason)
        (d_executions d)" for d
    using that by (intro seals_update) (auto simp: list_all_iff)
  then show ?thesis
    unfolding evolves_def update_revocation_def
    by (auto simp: run_simps worktree_step_def extends_refl seals_refl collaboration_side_def
        extends_update_executions execution_fixed_def)
qed

lemma works_records [works_rules]:
  "works (revokePublication x reason)" "works (append_execution_event i st evidence)"
  "works (record_pid x pid)"
proof -
  show "works (revokePublication x reason)"
    unfolding revokePublication_def by (intro works_rules)
  show "works (append_execution_event i st evidence)"
    unfolding append_execution_event_def
    by (intro works_rules works_writeDb) (simp_all add: extends_def collaboration_side_def seals_refl)
  show "works (record_pid x pid)"
    unfolding record_pid_def update_where_def
    by (auto split: option.split jsnum.split intro!: works_rules works_writeDb
        simp: extends_update_executions execution_fixed_def collaboration_side_def seals_update)
qed

lemma works_recordState [works_rules]: "works (recordState x st evidence)"
  unfolding recordState_def update_where_def
  by (intro works_rules works_writeDb)
    (simp_all add: extends_def collaboration_side_def worktree_fixed_def map_key_update seals_refl)

lemma works_authority [works_rules]:
  "works (checkExecutionAuthority i b1 b2 x w l)" "works (assertExecutionAuthority i b1 b2 x)"
  "works (assertActivationWriterAuthority i b1 b2)" "works (assertWriterContextAuthority prin cx b1)"
  "works (assertWorktreeMutation a prin)" "works (assertWorktreePublication a prin)"
proof -
  show check: "works (checkExecutionAuthority i b1 b2 x w l)" for x w l b1 b2 i
    unfolding checkExecutionAuthority_def by (intro works_rules)
  show assert: "works (assertExecutionAuthority i b1 b2 x)" for x b1 b2 i
    unfolding assertExecutionAuthority_def by (intro works_rules check)
  show assert_all: "works (assertActivationWriterAuthority i b1 b2)" for i b1 b2
    unfolding assertActivationWriterAuthority_def by (intro works_rules assert)
  show "works (assertWriterContextAuthority prin cx b1)"
    unfolding assertWriterContextAuthority_def by (intro works_rules assert_all)
  show "works (assertWorktreeMutation a prin)"
    unfolding assertWorktreeMutation_def by (intro works_rules assert_all)
  show "works (assertWorktreePublication a prin)"
    unfolding assertWorktreePublication_def by (intro works_rules assert_all)
qed

lemma works_inserts [works_rules]:
  "works (insert_unique d_worktrees d_worktrees_update clash1 row1)"
  "works (insert_unique d_executions d_executions_update clash2 row2)"
  unfolding insert_unique_def
  by (intro works_rules works_writeDb;
      simp add: extends_def collaboration_side_def seals_refl seals_append)+

lemma works_physicalWorktreeCommand [works_rules]:
  "works (physicalWorktreeCommand command prin corr)"
proof -
  have "works (registerPhysicalWorktree c)" for c
    unfolding registerPhysicalWorktree_def by (intro works_rules)
  moreover have "works (startWorktreeExecution c prin corr)" for c
    unfolding startWorktreeExecution_def by (intro works_rules)
  moreover have "works (recordWorktreeExecution c prin)" for c
    unfolding recordWorktreeExecution_def by (intro works_rules)
  moreover have "works (revokeWorktreeExecutionAuthority c prin)" for c
    unfolding revokeWorktreeExecutionAuthority_def by (intro works_rules)
  moreover have "works (recoverWorktreeExecution c)" for c
    unfolding recoverWorktreeExecution_def by (intro works_rules)
  moreover have "works (requireRuntime prin)" by (intro works_rules)
  ultimately show ?thesis
    unfolding physicalWorktreeCommand_def
    by (cases command) (auto intro!: work.seqM)
qed

lemma works_resolveCachedWorktreeExecution [works_rules]:
  "works (resolveCachedWorktreeExecution command result prin)"
  unfolding resolveCachedWorktreeExecution_def by (intro works_rules)

section \<open>Paths, exactly\<close>

text \<open>The names of a resolved path are not empty, hold no slash and are not dots.\<close>

definition plain_name :: "string \<Rightarrow> bool" where
  "plain_name s \<longleftrightarrow> s \<noteq> [] \<and> CHR ''/'' \<notin> set s \<and> s \<noteq> ''..''"

lemma split_slash_names: "s \<in> set (split_slash t) \<Longrightarrow> CHR ''/'' \<notin> set s"
  by (induction t arbitrary: s rule: split_slash.induct) (auto split: if_splits list.splits)

lemma normalize_names_plain:
  "(\<And>s. s \<in> set ss \<Longrightarrow> CHR ''/'' \<notin> set s) \<Longrightarrow> list_all plain_name acc \<Longrightarrow>
   list_all plain_name (normalize_names acc ss)"
proof (induction acc ss rule: normalize_names.induct)
  case (1 acc)
  then show ?case by (simp add: list_all_iff)
next
  case (2 acc s ss)
  have "list_all plain_name (tl acc)" using 2(3) by (cases acc) simp_all
  moreover have "plain_name s" if "\<not> (s = [] \<or> s = ''.'')" and "s \<noteq> ''..''"
    using that 2(2) [of s] by (simp add: plain_name_def)
  ultimately have "list_all plain_name
      (if s = [] \<or> s = ''.'' then acc else if s = ''..'' then tl acc else s # acc)"
    using 2(3) by simp
  with 2(1) 2(2) show ?case by simp
qed

lemma resolve_path_plain: "list_all plain_name (resolve_path cwd path)"
  unfolding resolve_path_def by (rule normalize_names_plain) (auto dest: split_slash_names)

lemma relative_names_prefix: "prefix ss ts \<Longrightarrow> relative_names ss ts = drop (length ss) ts"
  by (induction ss ts rule: relative_names.induct) auto

lemma relative_names_climbs:
  "\<not> prefix ss ts \<Longrightarrow> \<exists>us. relative_names ss ts = ''..'' # us"
  by (induction ss ts rule: relative_names.induct) auto

lemma join_slash_Cons: "join_slash (s # ss) = (if ss = [] then s else s @ ''/'' @ join_slash ss)"
  by (cases ss) simp_all

lemma join_climbs: "join_slash (''..'' # us) = ''..'' \<or> take 3 (join_slash (''..'' # us)) = ''../''"
  by (simp add: join_slash_Cons)

lemma join_plain:
  assumes "plain_name u"
  shows "join_slash (u # us) \<noteq> []" and "\<not> isAbsolute (join_slash (u # us))"
    and "join_slash (u # us) \<noteq> ''..''" and "take 3 (join_slash (u # us)) \<noteq> ''../''"
proof -
  obtain rest where j: "join_slash (u # us) = u \<or> join_slash (u # us) = u @ CHR ''/'' # rest"
    using that [of "join_slash us"] by (cases "us = []") (simp_all add: join_slash_Cons)
  obtain c v where u: "u = c # v" "c \<noteq> CHR ''/''" "CHR ''/'' \<notin> set v"
    using assms by (cases u) (auto simp: plain_name_def)
  have u2: "u \<noteq> ''..''" using assms by (simp add: plain_name_def)
  show "join_slash (u # us) \<noteq> []" and "\<not> isAbsolute (join_slash (u # us))"
    using j u by (auto simp: isAbsolute_def)
  show "join_slash (u # us) \<noteq> ''..''"
    using j u u2 by (auto simp: append_eq_Cons_conv)
  show "take 3 (join_slash (u # us)) \<noteq> ''../''"
  proof
    assume "take 3 (join_slash (u # us)) = ''../''"
    then obtain w where w: "join_slash (u # us) = ''../'' @ w"
      using append_take_drop_id [of 3 "join_slash (u # us)"] by metis
    from j show False
    proof
      assume "join_slash (u # us) = u"
      with w have "CHR ''/'' \<in> set u" by simp
      with assms show False by (simp add: plain_name_def)
    next
      assume "join_slash (u # us) = u @ CHR ''/'' # rest"
      with w have eq: "u @ CHR ''/'' # rest = ''../'' @ w" by simp
      have "takeWhile (\<lambda>x. x \<noteq> CHR ''/'') (u @ CHR ''/'' # rest) = u"
        using assms by (auto simp: takeWhile_append plain_name_def)
      moreover have "takeWhile (\<lambda>x. x \<noteq> CHR ''/'') (''../'' @ w) = ''..''" by simp
      ultimately show False using u2 unfolding eq by simp
    qed
  qed
qed

lemma contains_prefix:
  "contains cwd parent child \<longleftrightarrow> prefix (resolve_path cwd parent) (resolve_path cwd child)"
proof (cases "prefix (resolve_path cwd parent) (resolve_path cwd child)")
  case True
  let ?us = "drop (length (resolve_path cwd parent)) (resolve_path cwd child)"
  have plain: "list_all plain_name ?us"
    using resolve_path_plain [of cwd child] by (auto simp: list_all_iff dest: in_set_dropD)
  have path: "relative_path cwd parent child = join_slash ?us"
    by (simp add: relative_path_def relative_names_prefix [OF True])
  show ?thesis
  proof (cases ?us)
    case Nil
    then show ?thesis using True path by (simp add: contains_def)
  next
    case (Cons u us)
    then have "plain_name u" using plain by simp
    from join_plain [OF this] show ?thesis using True path Cons by (simp add: contains_def)
  qed
next
  case False
  then obtain us where "relative_names (resolve_path cwd parent) (resolve_path cwd child) = ''..'' # us"
    using relative_names_climbs by blast
  then have "relative_path cwd parent child = join_slash (''..'' # us)"
    by (simp add: relative_path_def)
  with join_climbs [of us] False show ?thesis by (auto simp: contains_def)
qed

text \<open>C32: The overlap test on directories, which works on the text of a relative path, decides
  exactly containment of the resolved paths: a directory contains another if and only if the
  names of its resolved path are a prefix of the other's. So a sibling such as
  \<open>/work/a-b\<close> never counts as inside \<open>/work/a\<close>, and dots or repeated slashes do not hide an
  overlap.\<close>

theorem contains_is_path_prefix:
  "contains cwd parent child \<longleftrightarrow> prefix (resolve_path cwd parent) (resolve_path cwd child)"
  by (rule contains_prefix)

section \<open>Invariants\<close>

text \<open>
  The ids of executions are distinct, and a Worktree has at most one execution that is not
  known to have stopped.
\<close>

definition execution_inv :: "database \<Rightarrow> bool" where
  "execution_inv d \<longleftrightarrow>
     distinct (map wx_id (d_executions d)) \<and> distinct (unsettled_worktrees (d_executions d))"

lemma keeps_execution_leasing: "leasing m \<Longrightarrow> keeps (on_db execution_inv) m"
  by (rule leasing_keeps) (auto simp: on_db_def execution_inv_def dest!: leases_only_views(1))

lemmas leasing_worktree_checks [lease_rules] =
  reads_requires [THEN reads_leasing] reads_checks [THEN reads_leasing]
  reads_worktree_checks [THEN reads_leasing]

lemma leasing_checkExecutionAuthority [lease_rules]:
  "leasing (checkExecutionAuthority i b1 b2 x w l)"
  unfolding checkExecutionAuthority_def by (intro lease_rules)

lemma unsettled_worktrees_append:
  "unsettled_worktrees (rs @ [x]) =
     unsettled_worktrees rs @ (if isStopped (wx_state x) then [] else [wx_worktree_id x])"
  by (simp add: unsettled_worktrees_def)

lemma unsettled_worktrees_update:
  "(\<And>r. wx_worktree_id (f r) = wx_worktree_id r) \<Longrightarrow> (\<And>r. wx_state (f r) = wx_state r) \<Longrightarrow>
   unsettled_worktrees (update_rows P f rs) = unsettled_worktrees rs"
  by (induction rs) (auto simp: unsettled_worktrees_def)

lemma keeps_execution_insert:
  "keeps (on_db execution_inv) (insert_unique d_executions d_executions_update execution_clash x)"
  by (auto simp: keeps_def insert_unique_run on_db_def execution_inv_def unsettled_worktrees_append
      list_ex_iff execution_clash_def unsettled_worktrees_def)

lemma keeps_execution_frame:
  "frames (on_db d_executions) m \<Longrightarrow> keeps (on_db execution_inv) m"
  unfolding frames_def keeps_def on_db_def execution_inv_def by metis

lemma keeps_set_execution_state: "keeps (on_db execution_inv) (set_execution_state i st)"
  by (auto simp: keeps_def set_execution_state_def run_simps on_db_def execution_inv_def map_key_update)

lemma keeps_execution_columns:
  "(\<And>r. wx_id (f r) = wx_id r) \<Longrightarrow> (\<And>r. wx_worktree_id (f r) = wx_worktree_id r) \<Longrightarrow>
   (\<And>r. wx_state (f r) = wx_state r) \<Longrightarrow>
   keeps (on_db execution_inv) (update_where d_executions_update P f)"
  by (simp add: keeps_def update_where_run on_db_def execution_inv_def map_key_update
      unsettled_worktrees_update)

lemmas keeps_execution_reads =
  lease_rules [THEN keeps_execution_leasing]

lemma keeps_execution_records:
  "keeps (on_db execution_inv) (revokePublication x reason)"
  "keeps (on_db execution_inv) (append_execution_event i st evidence)"
  "keeps (on_db execution_inv) (record_pid x pid)"
proof -
  have clock: "keeps (on_db execution_inv) clock" by (rule keeps_execution_leasing) (rule lease_rules)
  have query: "keeps (on_db execution_inv) (query g)" for g :: "database \<Rightarrow> 'g"
    by (rule keeps_execution_leasing) (rule lease_rules)
  show "keeps (on_db execution_inv) (revokePublication x reason)"
    unfolding revokePublication_def update_revocation_def
    by (intro keeps_rules clock query keeps_execution_columns) simp_all
  show "keeps (on_db execution_inv) (append_execution_event i st evidence)"
    unfolding append_execution_event_def
    by (intro keeps_rules clock keeps_execution_frame frames_writeDb) simp
  show "keeps (on_db execution_inv) (record_pid x pid)"
    unfolding record_pid_def
    by (auto split: option.split jsnum.split intro!: keeps_rules keeps_execution_columns)
qed

lemma keeps_recordState: "keeps (on_db execution_inv) (recordState x st evidence)"
  unfolding recordState_def
  by (intro keeps_rules keeps_execution_records keeps_set_execution_state keeps_execution_frame
      frames_update_where) simp

lemma keeps_execution_authority:
  "keeps (on_db execution_inv) (assertExecutionAuthority i b1 b2 x)"
  "keeps (on_db execution_inv) (assertActivationWriterAuthority i b1 b2)"
proof -
  show single: "keeps (on_db execution_inv) (assertExecutionAuthority i b1 b2 x)" for x
    unfolding assertExecutionAuthority_def
    by (intro keeps_rules keeps_execution_records keeps_execution_leasing
        leasing_worktree_checks leasing_reads leasing_checkExecutionAuthority)
  show "keeps (on_db execution_inv) (assertActivationWriterAuthority i b1 b2)"
    unfolding assertActivationWriterAuthority_def
    by (intro keeps_rules single) (rule keeps_execution_leasing, rule lease_rules)
qed

lemmas keeps_execution_leaves =
  leasing_worktree_checks [THEN keeps_execution_leasing] leasing_reads [THEN keeps_execution_leasing]
  leasing_requireLiveAuthority [THEN keeps_execution_leasing]

lemma keeps_physicalWorktreeCommand:
  "keeps (on_db execution_inv) (physicalWorktreeCommand command prin corr)"
proof -
  have "keeps (on_db execution_inv) (registerPhysicalWorktree c)" for c
    unfolding registerPhysicalWorktree_def
    by (intro keeps_rules keeps_execution_leaves keeps_execution_frame frames_insert_unique) simp
  moreover have "keeps (on_db execution_inv) (startWorktreeExecution c prin corr)" for c
    unfolding startWorktreeExecution_def
    by (intro keeps_rules keeps_execution_leaves keeps_execution_authority keeps_execution_insert
        keeps_execution_records)
  moreover have "keeps (on_db execution_inv) (recordWorktreeExecution c prin)" for c
    unfolding recordWorktreeExecution_def
    by (intro keeps_rules keeps_execution_leaves keeps_execution_records keeps_recordState)
  moreover have "keeps (on_db execution_inv) (revokeWorktreeExecutionAuthority c prin)" for c
    unfolding revokeWorktreeExecutionAuthority_def
    by (intro keeps_rules keeps_execution_leaves keeps_execution_records)
  moreover have "keeps (on_db execution_inv) (recoverWorktreeExecution c)" for c
    unfolding recoverWorktreeExecution_def
    by (intro keeps_rules keeps_execution_leaves keeps_execution_records keeps_recordState)
  moreover have "keeps (on_db execution_inv) (requireRuntime prin)"
    by (rule keeps_execution_leaves)
  ultimately show ?thesis
    unfolding physicalWorktreeCommand_def by (cases command) (auto intro!: keeps_seqM)
qed

text \<open>Directories of registered Worktrees do not overlap.\<close>

definition apart :: "string \<Rightarrow> string \<Rightarrow> string \<Rightarrow> bool" where
  "apart cwd p q \<longleftrightarrow>
     \<not> prefix (resolve_path cwd p) (resolve_path cwd q) \<and>
     \<not> prefix (resolve_path cwd q) (resolve_path cwd p)"

definition directories_apart :: "kernel \<Rightarrow> bool" where
  "directories_apart k \<longleftrightarrow>
     sorted_wrt (apart (k_cwd k)) (map pw_directory_path (d_worktrees (k_db k)))"

lemma directories_apart_cong:
  "k_cwd t = k_cwd s \<Longrightarrow> d_worktrees (k_db t) = d_worktrees (k_db s) \<Longrightarrow>
   directories_apart t = directories_apart s"
  by (simp add: directories_apart_def)

lemma keeps_directories_leasing: "leasing m \<Longrightarrow> keeps directories_apart m"
  by (erule leasing_keeps) (rule directories_apart_cong; simp add: leases_only_views)

definition directories :: "kernel \<Rightarrow> string \<times> string list" where
  "directories k = (k_cwd k, map pw_directory_path (d_worktrees (k_db k)))"

lemma keeps_directories_frame: "frames directories m \<Longrightarrow> keeps directories_apart m"
  unfolding frames_def keeps_def directories_apart_def directories_def by (metis Pair_inject)

lemmas keeps_directories_leaves =
  leasing_worktree_checks [THEN keeps_directories_leasing] leasing_reads [THEN keeps_directories_leasing]
  leasing_requireLiveAuthority [THEN keeps_directories_leasing]
  leasing_checkExecutionAuthority [THEN keeps_directories_leasing]

lemma keeps_directories_writes:
  "keeps directories_apart (update_where d_executions_update P1 f1)"
  "keeps directories_apart (insert_unique d_executions d_executions_update clash x)"
  "keeps directories_apart (append_execution_event i st evidence)"
  "(\<And>w. pw_directory_path (f2 w) = pw_directory_path w) \<Longrightarrow>
   keeps directories_apart (update_where d_worktrees_update P2 f2)"
  by (rule keeps_directories_frame;
      simp add: frames_def directories_def run_simps append_execution_event_def map_key_update)+

lemma keeps_directories_records:
  "keeps directories_apart (set_execution_state i st)" "keeps directories_apart (revokePublication x reason)"
  "keeps directories_apart (record_pid x pid)"
proof -
  show "keeps directories_apart (set_execution_state i st)"
    unfolding set_execution_state_def
    by (intro keeps_rules keeps_directories_leaves keeps_directories_writes)
  show "keeps directories_apart (revokePublication x reason)"
    unfolding revokePublication_def update_revocation_def
    by (intro keeps_rules keeps_directories_leaves keeps_directories_writes)
  show "keeps directories_apart (record_pid x pid)"
    unfolding record_pid_def
    by (auto split: option.split jsnum.split intro!: keeps_rules keeps_directories_writes)
qed

lemma keeps_directories_recordState: "keeps directories_apart (recordState x st evidence)"
  unfolding recordState_def
  by (intro keeps_rules keeps_directories_records keeps_directories_writes) simp

lemma keeps_directories_authority:
  "keeps directories_apart (assertActivationWriterAuthority i b1 b2)"
  unfolding assertActivationWriterAuthority_def assertExecutionAuthority_def
  by (intro keeps_rules keeps_directories_leaves keeps_directories_records)

lemma apart_iff: "apart cwd p q \<longleftrightarrow> \<not> contains cwd p q \<and> \<not> contains cwd q p"
proof -
  have prefixes: "contains cwd a b = prefix (resolve_path cwd a) (resolve_path cwd b)" for a b
    by (rule contains_prefix)
  show ?thesis by (auto simp: apart_def prefixes)
qed

lemma directories_apart_append:
  assumes "directories_apart k" and "k_cwd t = k_cwd k" and "k_db t = k_db k"
    and "\<not> list_ex (\<lambda>w. contains (k_cwd k) (pw_directory_path w) p \<or>
            contains (k_cwd k) p (pw_directory_path w)) (d_worktrees (k_db k))"
    and "pw_directory_path row = p"
  shows "directories_apart (k_db_update (d_worktrees_update (\<lambda>rs. rs @ [row])) t)"
  using assms by (auto simp: directories_apart_def sorted_wrt_append apart_iff list_ex_iff)

lemma keeps_directories_register: "keeps directories_apart (registerPhysicalWorktree c)"
proof (rule keeps_wpI)
  fix k assume inv: "directories_apart k"
  have same: "directories_apart (k_ticks_update f k)" for f
    using inv by (simp add: directories_apart_def)
  show "wp (registerPhysicalWorktree c) (\<lambda>_. directories_apart) (\<lambda>_. directories_apart) k"
    unfolding registerPhysicalWorktree_def requireRun_def wp_gets
    by (intro wp_intros wp_gets [THEN iffD2])
      (simp_all add: inv same directories_apart_append [OF inv])
qed

lemma keeps_directories_physical:
  "keeps directories_apart (physicalWorktreeCommand command prin corr)"
proof -
  have "keeps directories_apart (startWorktreeExecution c prin corr)" for c
    unfolding startWorktreeExecution_def
    by (intro keeps_rules keeps_directories_leaves keeps_directories_authority keeps_directories_writes)
  moreover have "keeps directories_apart (recordWorktreeExecution c prin)" for c
    unfolding recordWorktreeExecution_def
    by (intro keeps_rules keeps_directories_leaves keeps_directories_records keeps_directories_recordState)
  moreover have "keeps directories_apart (revokeWorktreeExecutionAuthority c prin)" for c
    unfolding revokeWorktreeExecutionAuthority_def
    by (intro keeps_rules keeps_directories_leaves keeps_directories_records)
  moreover have "keeps directories_apart (recoverWorktreeExecution c)" for c
    unfolding recoverWorktreeExecution_def
    by (intro keeps_rules keeps_directories_leaves keeps_directories_records keeps_directories_recordState)
  moreover have "keeps directories_apart (requireRuntime prin)"
    by (rule keeps_directories_leaves)
  ultimately show ?thesis
    unfolding physicalWorktreeCommand_def
    by (cases command) (auto intro!: keeps_seqM keeps_directories_register)
qed

section \<open>What a passed check establishes\<close>

text \<open>The lease row backs the execution: it is live for the execution's Runtime and fence.\<close>

definition lease_backs :: "lease_row \<Rightarrow> execution_row \<Rightarrow> instant \<Rightarrow> bool" where
  "lease_backs l x at \<longleftrightarrow>
     wl_status l = LeaseActive \<and> wl_holder l = Some (wx_runtime_principal_id x) \<and>
     wl_generation l = wx_generation x \<and> wl_fencing_token l = wx_fencing_token x \<and>
     (case wl_expires_at l of None \<Rightarrow> False | Some e \<Rightarrow> at < e)"

definition upheld :: "bool \<Rightarrow> kernel \<Rightarrow> ident \<Rightarrow> execution_row \<Rightarrow> instant \<Rightarrow> bool" where
  "upheld stopped k i x at \<longleftrightarrow>
     i \<notin> set (k_localWorktreeRevocations k) \<and> wx_authority_revoked_at x = None \<and>
     map_option pw_state (find_row pw_worktree_id (wx_worktree_id x) (d_worktrees (k_db k))) = Some WtReady \<and>
     wx_state x \<in> {ExStarting, ExRunning, ExStopRequested, ExStopConfirmed} \<and>
     (stopped \<longrightarrow> wx_state x = ExStopConfirmed) \<and>
     (\<exists>l. lease_of (wx_worktree_id x) (k_db k) = Some l \<and> lease_backs l x at)"

text \<open>Upheld at an instant that the check read, from \<open>k\<close> to \<open>t\<close>.\<close>

definition upheld_between :: "bool \<Rightarrow> kernel \<Rightarrow> kernel \<Rightarrow> ident \<Rightarrow> execution_row \<Rightarrow> bool" where
  "upheld_between stopped k t i x \<longleftrightarrow>
     (\<exists>n. k_ticks k \<le> n \<and> n < k_ticks t \<and> upheld stopped k i x (k_clock k n))"

lemma same_dbD:
  assumes "same_db s t"
  shows "k_db t = k_db s" and "k_localWorktreeRevocations t = k_localWorktreeRevocations s"
    and "k_cwd t = k_cwd s" and "k_clock t = k_clock s" and "k_ticks s \<le> k_ticks t"
  using assms by (simp_all add: same_db_def)

lemma upheld_same: "same_db k t \<Longrightarrow> upheld stopped t i x at = upheld stopped k i x at"
  by (simp add: upheld_def same_db_def)

lemma upheld_between_later:
  "same_db k s \<Longrightarrow> same_db t u \<Longrightarrow> upheld_between b s t i x \<Longrightarrow> upheld_between b k u i x"
  unfolding upheld_between_def
  by (elim exE conjE, rule_tac x = n in exI)
    (simp add: upheld_same same_dbD(4), meson le_trans less_le_trans same_dbD(5))

lemma wp_intro_requirePrincipal [wp_intros]:
  "(\<And>p. find_row pr_id i (d_principals (k_db k)) = Some p \<Longrightarrow> pr_id p = i \<Longrightarrow> Q p k) \<Longrightarrow>
   E (err Unauthorized) k \<Longrightarrow> wp (requirePrincipal i) Q E k"
  unfolding requirePrincipal_def by (intro wp_intros) (auto dest: find_row_Some)

lemma wp_intro_requireExecution [wp_intros]:
  "(\<And>x. find_row wx_id i (d_executions (k_db k)) = Some x \<Longrightarrow> Q x k) \<Longrightarrow>
   E (err NotFound) k \<Longrightarrow> wp (requireExecution i) Q E k"
  unfolding requireExecution_def by (intro wp_intros)

lemma wp_intro_requireWorktree [wp_intros]:
  "(\<And>w. find_row pw_worktree_id i (d_worktrees (k_db k)) = Some w \<Longrightarrow> Q w k) \<Longrightarrow>
   (find_row pw_worktree_id i (d_worktrees (k_db k)) = None \<Longrightarrow> E (err NotFound) k) \<Longrightarrow>
   wp (requireWorktree i) Q E k"
  unfolding requireWorktree_def by (intro wp_intros)

lemmas wp_reads_tail =
  wp_reads [OF reads_requires(3)] wp_reads [OF reads_requires(4)]
  wp_reads [OF reads_worktree_checks(4)] wp_reads [OF reads_worktree_checks(6)]

lemma wp_checkExecutionAuthority:
  "wp (checkExecutionAuthority i b1 b2 x w l)
     (\<lambda>_ t. same_db k t \<and> k_ticks k < k_ticks t \<and>
        (find_row pw_worktree_id (wx_worktree_id x) (d_worktrees (k_db k)) = Some w \<longrightarrow>
         upheld b1 k i x (k_clock k (k_ticks k)))) (\<lambda>_ _. True) k"
  unfolding checkExecutionAuthority_def
  by (intro wp_intros wp_gets [THEN iffD2] wp_live_authority wp_reads_tail)
    (auto simp: same_db_def lease_backs_def grants_def upheld_def)

lemma wp_any: "(\<And>x t. Q x t) \<Longrightarrow> (\<And>e t. E e t) \<Longrightarrow> wp m Q E k"
  by (simp add: wpI)

lemma upheld_between_now:
  "k_ticks k < k_ticks t \<Longrightarrow> upheld b k i x (k_clock k (k_ticks k)) \<Longrightarrow> upheld_between b k t i x"
  by (auto simp: upheld_between_def)

lemma wp_assertExecutionAuthority:
  assumes "\<And>t. same_db k t \<Longrightarrow> upheld_between b1 k t i x \<Longrightarrow> Q () t" and "\<And>e t. E e t"
  shows "wp (assertExecutionAuthority i b1 b2 x) Q E k"
proof -
  have "wp (if \<not> is_kernel_error e then raise e
      else seqM (revokePublication x why) (raise e')) Q E t" for e e' why and t :: kernel
    by (intro wp_intros wp_any) (rule assms(2))+
  then show ?thesis
    unfolding assertExecutionAuthority_def
    by (intro wp_intros wp_catchM [THEN iffD2])
      (auto intro!: assms upheld_between_now wp_mono [OF wp_checkExecutionAuthority])
qed

lemma assert_each_returned:
  "wp (forM xs (assertExecutionAuthority i b1 b2))
     (\<lambda>_ t. same_db k t \<and> (\<forall>x \<in> set xs. upheld_between b1 k t i x)) (\<lambda>_ _. True) k"
proof (induction xs arbitrary: k)
  case Nil
  then show ?case by (simp add: wp_ret readonly.refl)
next
  case (Cons x xs)
  show ?case
    unfolding forM.simps
  proof (intro wp_intros wp_assertExecutionAuthority)
    fix t assume t: "same_db k t" and x: "upheld_between b1 k t i x"
    from Cons.IH [of t]
    show "wp (forM xs (assertExecutionAuthority i b1 b2))
        (\<lambda>_ u. same_db k u \<and> (\<forall>y \<in> set (x # xs). upheld_between b1 k u i y)) (\<lambda>_ _. True) t"
    proof (rule wp_mono)
      fix u assume "same_db t u \<and> (\<forall>y \<in> set xs. upheld_between b1 t u i y)"
      with t x show "same_db k u \<and> (\<forall>y \<in> set (x # xs). upheld_between b1 k u i y)"
        by (auto intro: readonly.trans upheld_between_later [OF t readonly.refl]
            upheld_between_later [OF readonly.refl])
    qed simp
  qed simp
qed

text \<open>Every execution of the activation is upheld at an instant from now on.\<close>

definition activation_upheld :: "bool \<Rightarrow> ident \<Rightarrow> kernel \<Rightarrow> bool" where
  "activation_upheld stopped i k \<longleftrightarrow>
     (\<forall>x \<in> set (executions_of i (k_db k)). \<exists>n \<ge> k_ticks k. upheld stopped k i x (k_clock k n))"

lemma activation_upheld_from:
  assumes "activation_upheld b i s" and "k_db s = k_db k" and "k_clock s = k_clock k"
    and "k_localWorktreeRevocations s = k_localWorktreeRevocations k" and "k_ticks k \<le> k_ticks s"
  shows "activation_upheld b i k"
proof -
  have "upheld b s i x at = upheld b k i x at" for x at using assms by (simp add: upheld_def)
  with assms show ?thesis unfolding activation_upheld_def by (metis le_trans)
qed

lemma wp_assertActivationWriterAuthority [wp_intros]:
  assumes "\<And>t. same_db k t \<Longrightarrow> activation_upheld b1 i k \<Longrightarrow> Q () t" and "\<And>e t. E e t"
  shows "wp (assertActivationWriterAuthority i b1 b2) Q E k"
  unfolding assertActivationWriterAuthority_def
proof (intro wp_intros, rule wp_mono [OF assert_each_returned])
  fix u t assume t: "same_db k t \<and>
      (\<forall>x \<in> set (executions_of i (k_db k)). upheld_between b1 k t i x)"
  then have "activation_upheld b1 i k"
    unfolding activation_upheld_def upheld_between_def by blast
  with t show "Q u t" using assms(1) by simp
qed (rule assms(2))

text \<open>C7: Publishing from a Worktree is allowed only when its work is over and still
  authorized. The check returns only for the Runtime that holds the execution's token and whose
  live lease the execution was started under; every execution of the activation has a confirmed
  stop, no revocation, a ready Worktree and a lease that was live for it at an instant of the
  kernel's clock from the start of the check on; the activation is not revoked in this process; and the check writes nothing.\<close>

theorem publication_needs_stopped_work:
  assumes "assertWorktreePublication a prin k = (Inr u, t)"
  shows "k_db t = k_db k \<and> pr_kind prin = Runtime \<and>
    (\<exists>x. find_row wx_id (er_executionId (ma_receipt a)) (d_executions (k_db k)) = Some x \<and>
       wx_execution_token x = er_executionToken (ma_receipt a) \<and>
       wx_runtime_principal_id x = pr_id prin \<and> granted_to a x \<and>
       activation_upheld True (wx_activation_id x) k) \<and>
    (\<exists>l. \<exists>n \<ge> k_ticks k. lease_of (wa_worktreeId (ma_lease a)) (k_db k) = Some l \<and>
       grants l (ma_lease a) prin (k_clock k n))"
    (is "?P t")
proof -
  have "wp (assertWorktreePublication a prin) (\<lambda>_. ?P) (\<lambda>_ _. True) k"
    unfolding assertWorktreePublication_def requireReceipt_def
    by (intro wp_intros wp_live_authority)
      (auto simp: same_db_def)
  from wp_returned [OF this assms] show ?thesis .
qed

lemma revoked_blocks:
  assumes "x \<in> set (d_executions (k_db k))" and "wx_authority_revoked_at x \<noteq> None"
  shows "\<exists>e t. assertActivationWriterAuthority (wx_activation_id x) b1 b2 k = (Inl e, t)"
proof -
  have "wp (assertActivationWriterAuthority (wx_activation_id x) b1 b2) (\<lambda>_ _. False) (\<lambda>_ _. True) k"
    by (intro wp_intros) (use assms in \<open>auto simp: activation_upheld_def executions_of_def upheld_def\<close>)
  then show ?thesis
    by (auto simp: wp_def split: prod.splits sum.splits)
qed

section \<open>What a failed check leaves\<close>

text \<open>Some execution of the activation is revoked.\<close>

definition activation_revoked :: "ident \<Rightarrow> database \<Rightarrow> bool" where
  "activation_revoked i d \<longleftrightarrow>
     list_ex (\<lambda>x. wx_activation_id x = i \<and> wx_authority_revoked_at x \<noteq> None) (d_executions d)"

lemma wp_evolves: "evolves R m \<Longrightarrow> wp m (\<lambda>_. R k) (\<lambda>_. R k) k"
  unfolding evolves_def wp_def by (auto split: prod.splits sum.splits) (metis snd_conv)+

lemma revoked_update:
  "x \<in> set rows \<Longrightarrow> list_ex (\<lambda>y. wx_activation_id y = wx_activation_id x \<and> wx_authority_revoked_at y \<noteq> None)
     (update_rows (\<lambda>r. wx_id r = wx_id x \<and> wx_authority_revoked_at r = None)
       (\<lambda>r. r\<lparr>wx_authority_revoked_at := Some at, wx_authority_revocation_reason := Some why\<rparr>) rows)"
  by (induction rows) auto

lemma wp_revokePublication:
  assumes "x \<in> set (d_executions (k_db k))"
  shows "wp (revokePublication x why) (\<lambda>_ t. activation_revoked (wx_activation_id x) (k_db t))
     (\<lambda>e _. e = InternalError) k"
  unfolding revokePublication_def update_revocation_def
  by (intro wp_intros)
    (use assms in \<open>simp_all add: activation_revoked_def revoked_update [simplified]\<close>)

definition lost_authority :: "ident \<Rightarrow> kerror \<Rightarrow> kernel \<Rightarrow> bool" where
  "lost_authority i e t \<longleftrightarrow>
     is_kernel_error e \<longrightarrow>
       e = DurableKernelError WriterAuthorityLost None \<and> activation_revoked i (k_db t)"

lemma wp_assertExecutionAuthority_failed:
  assumes x: "x \<in> set (d_executions (k_db k))"
    and worktree: "find_row pw_worktree_id (wx_worktree_id x) (d_worktrees (k_db k)) \<noteq> None"
  shows "wp (assertExecutionAuthority i b1 b2 x) (\<lambda>_ _. True) (lost_authority (wx_activation_id x)) k"
proof -
  have failed: "wp (if \<not> is_kernel_error e then raise e
      else seqM (revokePublication x why) (raise (DurableKernelError WriterAuthorityLost None)))
      (\<lambda>_ _. True) (lost_authority (wx_activation_id x)) t"
    if "leases_only k t" for e why and t :: kernel
  proof -
    have "x \<in> set (d_executions (k_db t))" using x leases_only_views(1) [OF that] by simp
    then show ?thesis
      by (intro wp_intros wp_mono [OF wp_revokePublication]) (auto simp: lost_authority_def)
  qed
  have check: "wp (checkExecutionAuthority i b1 b2 x w l) (\<lambda>_ _. True) (\<lambda>_. leases_only k) k" for w l
    by (rule wp_mono [OF wp_evolves [OF leasing_checkExecutionAuthority]]) simp_all
  then show ?thesis
    unfolding assertExecutionAuthority_def
    by (intro wp_intro_bindM wp_intro_requireWorktree wp_intro_getLease wp_catchM [THEN iffD2]
        wp_mono [OF check] failed) (use worktree in auto)
qed

lemma wp_assert_each_failed:
  assumes "set xs \<subseteq> set (executions_of i (k_db k))"
    and "\<forall>x \<in> set xs. find_row pw_worktree_id (wx_worktree_id x) (d_worktrees (k_db k)) \<noteq> None"
  shows "wp (forM xs (assertExecutionAuthority i b1 b2)) (\<lambda>_ _. True) (lost_authority i) k"
  using assms
proof (induction xs arbitrary: k)
  case Nil
  then show ?case by (simp add: wp_ret)
next
  case (Cons x xs)
  have "wp (assertExecutionAuthority i b1 b2 x) (\<lambda>_. same_db k) (lost_authority i) k"
  proof (rule wpI)
    fix u t assume run: "assertExecutionAuthority i b1 b2 x k = (Inr u, t)"
    have "wp (assertExecutionAuthority i b1 b2 x) (\<lambda>_. same_db k) (\<lambda>_ _. True) k"
      by (rule wp_assertExecutionAuthority) simp_all
    from wp_returned [OF this run] show "same_db k t" .
  next
    fix e t assume run: "assertExecutionAuthority i b1 b2 x k = (Inl e, t)"
    have "wp (assertExecutionAuthority i b1 b2 x) (\<lambda>_ _. True) (lost_authority (wx_activation_id x)) k"
      using Cons.prems by (intro wp_assertExecutionAuthority_failed) (auto simp: executions_of_def)
    from wp_threw [OF this run] show "lost_authority i e t"
      using Cons.prems by (auto simp: executions_of_def)
  qed
  then show ?case
    unfolding forM.simps wp_seqM
    by (rule wp_mono) (use Cons in \<open>auto simp: same_db_def\<close>)
qed

text \<open>C30: A lost authority is written down before it is reported. When a writer check of an
  activation fails with an error of the kernel, the error is the durable
  \<open>WRITER_AUTHORITY_LOST\<close>, which the transaction commits, and an execution of the activation
  is revoked in the database; the collaboration tables are as they were. The Worktrees of the
  activation's executions are taken to exist, which the schema's foreign key ensures.\<close>

theorem lost_authority_is_recorded:
  assumes "assertActivationWriterAuthority i b1 b2 k = (Inl e, t)" and "is_kernel_error e"
    and "\<forall>x \<in> set (executions_of i (k_db k)).
      find_row pw_worktree_id (wx_worktree_id x) (d_worktrees (k_db k)) \<noteq> None"
  shows "e = DurableKernelError WriterAuthorityLost None \<and> is_durable e \<and>
    activation_revoked i (k_db t) \<and> collaboration_side (k_db t) = collaboration_side (k_db k)"
proof -
  have "wp (assertActivationWriterAuthority i b1 b2) (\<lambda>_ _. True) (lost_authority i) k"
    unfolding assertActivationWriterAuthority_def
    by (intro wp_intros wp_assert_each_failed) (use assms in auto)
  from wp_threw [OF this assms(1)] have "lost_authority i e t" .
  moreover have "worktree_step k t"
    using works_authority(3) [of i b1 b2] assms(1) unfolding evolves_def by (metis snd_conv)
  ultimately show ?thesis using assms(2) by (simp add: lost_authority_def worktree_step_def)
qed

section \<open>Witnesses\<close>

definition sample_mutation :: mutation_authority where
  "sample_mutation =
     \<lparr>ma_lease = \<lparr>wa_worktreeId = ''w'', wa_generation = 1, wa_fencingToken = 1,
                  wa_leaseToken = ''secret''\<rparr>,
      ma_receipt = \<lparr>er_executionId = ''x'', er_executorId = ''e'', er_executionToken = ''token''\<rparr>\<rparr>"

lemma publication_needs_stopped_work_witness: "map wx_state (d_executions (k_db sample_kernel)) = [ExStopConfirmed]"
proof -
  let ?m = "assertWorktreePublication sample_mutation sample_runtime sample_kernel"
  have "\<not> isl (fst ?m)" by code_simp
  then obtain u t where run: "?m = (Inr u, t)" by (rule returned_run)
  have rows: "d_executions (k_db sample_kernel) = [sample_execution]"
    by (simp add: sample_kernel_def sample_database_def context_on_def)
  have act: "wx_activation_id sample_execution = ''act''" by (simp add: sample_execution_def)
  have "find_row wx_id (er_executionId (ma_receipt sample_mutation)) (d_executions (k_db sample_kernel)) =
      Some sample_execution"
    by (simp add: rows find_row_Cons) (simp add: sample_mutation_def sample_execution_def)
  then have "wx_state sample_execution = ExStopConfirmed"
    using publication_needs_stopped_work [OF run] act rows
    by (auto simp: activation_upheld_def executions_of_def upheld_def)
  then show ?thesis by (simp add: rows)
qed

definition sample_lapsed :: kernel where
  "sample_lapsed = sample_kernel\<lparr>k_clock := (\<lambda>n. 400000)\<rparr>"

lemma lost_authority_is_recorded_witness:
  "activation_revoked ''act'' (k_db (snd (assertActivationWriterAuthority ''act'' False False sample_lapsed)))"
proof -
  let ?m = "assertActivationWriterAuthority ''act'' False False sample_lapsed"
  have "case fst ?m of Inl e \<Rightarrow> is_kernel_error e | Inr u \<Rightarrow> False" by code_simp
  then obtain e t where run: "?m = (Inl e, t)" "is_kernel_error e"
    by (cases ?m) (auto split: sum.splits)
  have "\<forall>x \<in> set (executions_of ''act'' (k_db sample_lapsed)).
      find_row pw_worktree_id (wx_worktree_id x) (d_worktrees (k_db sample_lapsed)) \<noteq> None"
    by (simp add: executions_of_def sample_lapsed_def sample_kernel_def sample_database_def
        context_on_def sample_execution_def sample_worktree_def find_row_Cons)
  from lost_authority_is_recorded [OF run this] run show ?thesis by simp
qed


section \<open>Recording and starting\<close>

lemma wp_intro_requireReceipt [wp_intros]:
  "(wx_executor_id x = er_executorId receipt \<Longrightarrow> wx_execution_token x = er_executionToken receipt \<Longrightarrow>
    wx_runtime_principal_id x = pr_id prin \<Longrightarrow> Q () k) \<Longrightarrow> E (err Forbidden) k \<Longrightarrow>
   wp (requireReceipt x receipt prin) Q E k"
  unfolding requireReceipt_def by (intro wp_intros) auto

lemma wp_intro_record_pid [wp_intros]:
  assumes "\<And>p. Q () (k_db_update (d_executions_update
      (update_rows (\<lambda>r. wx_id r = wx_id x) (\<lambda>r. r\<lparr>wx_pid := p r\<rparr>))) k)" and "\<And>e t. E e t"
  shows "wp (record_pid x pid) Q E k"
proof -
  have "d_executions_update (\<lambda>rs. rs) = (\<lambda>d :: database. d)"
    by (rule ext) (rule executions_table.upd_id)
  moreover have "update_rows P (\<lambda>r :: execution_row. r\<lparr>wx_pid := wx_pid r\<rparr>) = (\<lambda>rs. rs)" for P
    by (rule ext) (induct_tac rs, simp_all)
  ultimately have "k_db_update (d_executions_update (update_rows P (\<lambda>r. r\<lparr>wx_pid := wx_pid r\<rparr>))) k = k" for P
    by simp
  with assms(1) [of wx_pid] have "Q () k" by simp
  with assms show ?thesis
    by (auto simp: record_pid_def wp_simps split: option.split jsnum.split)
qed

lemma wp_intro_revokePublication [wp_intros]:
  "(\<And>at. Q () (k_db_update (d_executions_update
      (update_rows (\<lambda>r. wx_id r = wx_id x \<and> wx_authority_revoked_at r = None)
        (\<lambda>r. r\<lparr>wx_authority_revoked_at := Some at, wx_authority_revocation_reason := Some why\<rparr>)))
      (k\<lparr>k_ticks := Suc (k_ticks k)\<rparr>))) \<Longrightarrow> (\<And>e t. E e t) \<Longrightarrow> wp (revokePublication x why) Q E k"
  unfolding revokePublication_def update_revocation_def by (intro wp_intros)

lemma find_row_update_other:
  "(\<And>r. key (f r) = key r) \<Longrightarrow> i \<noteq> j \<Longrightarrow>
   find_row key i (update_rows (\<lambda>r. key r = j) f rs) = find_row key i rs"
  "(\<And>r. key (f r) = key r) \<Longrightarrow> i \<noteq> j \<Longrightarrow>
   find_row key i (update_rows (\<lambda>r. key r = j \<and> P r) f rs) = find_row key i rs"
  by (induction rs) (auto simp: find_row_Cons)

lemma set_state_of_found:
  "map_option pw_state (map_option (\<lambda>w. if pw_worktree_id w = i then w\<lparr>pw_state := st\<rparr> else w)
     (find_row pw_worktree_id i ws)) = map_option (\<lambda>_. st) (find_row pw_worktree_id i ws)"
  by (cases "find_row pw_worktree_id i ws") (auto dest: find_row_Some)

text \<open>Whether recording the state revokes the publication authority.\<close>

definition revoking :: "record_execution_command \<Rightarrow> bool" where
  "revoking c \<longleftrightarrow> re_state c = ExUncertain \<or> re_state c = ExForceTerminated \<or>
     re_state c = ExStopRequested \<and> re_preservePublicationAuthority c \<noteq> Some True"

text \<open>C31: An executor's report follows the state machine of an execution. A report that returns
  came with the receipt of the stored execution (its token, its executor and its runtime) and from
  a state that allows the reported one;
  the execution then has the reported state and otherwise the identity it had, a revocation it
  had stays as it was, an unusual end or a stop request without preserved authority has revoked
  it, the report is the last event, an uncertain end quarantines the Worktree and a stop makes
  it ready, and no other execution changes.\<close>

theorem report_follows_state_machine:
  assumes "recordWorktreeExecution c prin k = (Inr res, t)"
  shows "\<exists>x y. find_row wx_id (er_executionId (re_receipt c)) (d_executions (k_db k)) = Some x \<and>
      find_row wx_id (er_executionId (re_receipt c)) (d_executions (k_db t)) = Some y \<and>
      wx_execution_token x = er_executionToken (re_receipt c) \<and>
      wx_executor_id x = er_executorId (re_receipt c) \<and> wx_runtime_principal_id x = pr_id prin \<and>
      re_state c \<in> allowed (wx_state x) \<and> wx_state y = re_state c \<and>
      execution_fixed y = execution_fixed x \<and>
      (wx_authority_revoked_at x \<noteq> None \<longrightarrow> wx_authority_revoked_at y = wx_authority_revoked_at x) \<and>
      (wx_authority_revoked_at y \<noteq> None \<longleftrightarrow> wx_authority_revoked_at x \<noteq> None \<or> revoking c) \<and>
      (\<exists>e. d_execution_events (k_db t) = d_execution_events (k_db k) @ [e] \<and>
         xe_execution_id e = wx_id x \<and> xe_state e = re_state c \<and> xe_evidence e = re_evidence c) \<and>
      map_option pw_state (find_row pw_worktree_id (wx_worktree_id x) (d_worktrees (k_db t))) =
        map_option (\<lambda>w. if re_state c = ExUncertain then WtQuarantined
             else if isStopped (re_state c) then WtReady else pw_state w)
          (find_row pw_worktree_id (wx_worktree_id x) (d_worktrees (k_db k))) \<and>
      (\<forall>i. i \<noteq> wx_id x \<longrightarrow> find_row wx_id i (d_executions (k_db t)) = find_row wx_id i (d_executions (k_db k)))"
    (is "?P t")
proof -
  have id: "find_row wx_id i rows = Some x \<Longrightarrow> wx_id x = i" for i x and rows :: "execution_row list"
    by (rule find_row_Some [THEN conjunct2])
  have "wp (recordWorktreeExecution c prin) (\<lambda>_. ?P) (\<lambda>_ _. True) k"
    unfolding recordWorktreeExecution_def recordState_def set_execution_state_def
      append_execution_event_def
    by (intro wp_intros TrueI)
      (auto simp: find_row_update_other find_row_update [where key = pw_worktree_id] revoking_def
        find_row_update [where key = wx_id and k = "er_executionId (re_receipt c)"] isStopped_def id
        execution_fixed_def set_state_of_found)
  from wp_returned [OF this assms] show ?thesis .
qed

definition sample_running :: kernel where
  "sample_running = context_on (sample_database
     \<lparr>d_executions := [sample_execution\<lparr>wx_state := ExRunning\<rparr>]\<rparr>)"

definition sample_report :: record_execution_command where
  "sample_report =
     \<lparr>idempotencyKey = ''k'', re_receipt = ma_receipt sample_mutation, re_state = ExUncertain,
      re_pid = None, re_evidence = ''lost contact'', re_preservePublicationAuthority = None\<rparr>"

lemma report_follows_state_machine_witness:
  "map_option pw_state (find_row pw_worktree_id ''w'' (d_worktrees (k_db
     (snd (recordWorktreeExecution sample_report sample_runtime sample_running))))) = Some WtQuarantined"
proof -
  let ?m = "recordWorktreeExecution sample_report sample_runtime sample_running"
  have "\<not> isl (fst ?m)" by code_simp
  then obtain u t where run: "?m = (Inr u, t)" by (rule returned_run)
  have "find_row wx_id (er_executionId (re_receipt sample_report)) (d_executions (k_db sample_running)) =
      Some (sample_execution\<lparr>wx_state := ExRunning\<rparr>)"
    by (simp add: sample_report_def sample_mutation_def sample_running_def sample_database_def
        sample_execution_def context_on_def find_row_Cons)
  moreover have "find_row pw_worktree_id ''w'' (d_worktrees (k_db sample_running)) = Some sample_worktree"
    by (simp add: sample_running_def sample_database_def context_on_def find_row_Cons sample_worktree_def)
  moreover have "wx_worktree_id sample_execution = ''w''" by (simp add: sample_execution_def)
  moreover have "re_state sample_report = ExUncertain" by (simp add: sample_report_def)
  ultimately show ?thesis
    using report_follows_state_machine [OF run] run by auto
qed

text \<open>C18: An execution starts only on a Worktree that is free for it. A start that returns found
  no quarantine and no unsettled execution on the Worktree and every earlier execution of the
  activation still upheld, the lease credentials were live at an instant of the kernel's clock from
  the start on, and it
  recorded exactly one new execution, in the starting state, unrevoked, bound to the lease's
  generation and fence, with the id and secret it returned, before anything runs.\<close>

theorem start_requires_free_worktree:
  assumes "startWorktreeExecution c prin corr k = (Inr res, t)"
  shows "\<not> worktree_busy (wa_worktreeId (se_authority c)) (k_db k) \<and>
    activation_upheld False (se_activationId c) k \<and>
    (\<exists>l. \<exists>n \<ge> k_ticks k. lease_of (wa_worktreeId (se_authority c)) (k_db k) = Some l \<and>
       grants l (se_authority c) prin (k_clock k n)) \<and>
    (\<exists>x. d_executions (k_db t) = d_executions (k_db k) @ [x] \<and>
       wx_id x = cr_entityId res \<and> cr_executionToken res = Some (wx_execution_token x) \<and>
       wx_worktree_id x = wa_worktreeId (se_authority c) \<and>
       wx_activation_id x = se_activationId c \<and> wx_runtime_principal_id x = pr_id prin \<and>
       wx_executor_id x = se_executorId c \<and>
       wx_generation x = wa_generation (se_authority c) \<and>
       wx_fencing_token x = wa_fencingToken (se_authority c) \<and>
       wx_state x = ExStarting \<and> wx_authority_revoked_at x = None) \<and>
    d_leases (k_db t) = d_leases (k_db k) \<and> d_worktrees (k_db t) = d_worktrees (k_db k)"
    (is "?P res t")
proof -
  have "wp (startWorktreeExecution c prin corr) ?P (\<lambda>_ _. True) k"
    unfolding startWorktreeExecution_def append_execution_event_def
    by (intro wp_intros wp_live_authority wp_reads [OF reads_worktree_checks(4)]
        wp_reads [OF reads_worktree_checks(5)])
      (auto simp: same_db_def command_result_of_def intro: activation_upheld_from,
        (meson le_trans)+)
  from wp_returned [OF this assms] show ?thesis .
qed

definition sample_start :: start_execution_command where
  "sample_start =
     \<lparr>idempotencyKey = ''k'', se_authority = ma_lease sample_mutation, se_activationId = ''act'',
      se_executorId = ''e'', se_provider = None\<rparr>"

lemma start_requires_free_worktree_witness:
  "length (d_executions (k_db (snd (startWorktreeExecution sample_start sample_runtime ''c'' sample_kernel)))) = 2"
proof -
  let ?m = "startWorktreeExecution sample_start sample_runtime ''c'' sample_kernel"
  have "\<not> isl (fst ?m)" by code_simp
  then obtain u t where run: "?m = (Inr u, t)" by (rule returned_run)
  have "length (d_executions (k_db sample_kernel)) = 1"
    by (simp add: sample_kernel_def sample_database_def context_on_def)
  then show ?thesis using start_requires_free_worktree [OF run] run by auto
qed

end
