(* ===== verification/History.thy ===== *)
theory History
  imports Runs
begin

text \<open>
  The projection versions a command leaves behind (\<open>history.ts\<close>): after a command has written,
  every component its events touched is marked with the command's last event, and a version of
  each touched run, run input, activation and provider attempt is appended to its history when
  it differs from the latest one. A snapshot at an event reads the latest version up to it.
\<close>

section \<open>What the events of a correlation touch\<close>

definition events_of :: "string \<Rightarrow> database \<Rightarrow> event_row list" where
  "events_of corr d = filter (\<lambda>e. ev_correlation_id e = corr) (d_events d)"

text \<open>\<open>MAX(sequence)\<close>, which is null without a row.\<close>

definition last_sequence :: "event_row list \<Rightarrow> nat option" where
  "last_sequence es = (if es = [] then None else Some (foldr (\<lambda>e n. max (ev_sequence e) n) es 0))"

definition eventEntityIds :: "string \<Rightarrow> entity_type \<Rightarrow> database \<Rightarrow> ident list" where
  "eventEntityIds corr ty d =
     unique (map ev_entity_id (filter (\<lambda>e. ev_entity_type e = ty) (events_of corr d)))"

definition correlationHasEvent :: "string \<Rightarrow> event_type list \<Rightarrow> database \<Rightarrow> bool" where
  "correlationHasEvent corr types d = list_ex (\<lambda>e. ev_type e \<in> set types) (events_of corr d)"

definition opt_list :: "'a option \<Rightarrow> 'a list" where
  "opt_list v = (case v of None \<Rightarrow> [] | Some x \<Rightarrow> [x])"

text \<open>The runs, each once; the order of a UNION is not specified.\<close>

definition affectedRuns :: "string \<Rightarrow> database \<Rightarrow> ident list" where
  "affectedRuns corr d = unique
     (eventEntityIds corr EntRun d @
      map ri_run_id (filter (\<lambda>i. ri_id i \<in> set (eventEntityIds corr EntRunInput d)) (d_run_inputs d)) @
      map ar_producer_run_id
        (filter (\<lambda>a. ar_id a \<in> set (eventEntityIds corr EntArtifact d)) (d_artifacts d)) @
      concat (map (\<lambda>a. opt_list (aa_run_id a))
        (filter (\<lambda>a. aa_id a \<in> set (eventEntityIds corr EntActivationAttempt d)) (d_activations d))) @
      concat (map (\<lambda>p. opt_list (pa_run_id p))
        (filter (\<lambda>p. pa_id p \<in> set (eventEntityIds corr EntProviderAttempt d))
          (d_provider_attempts d))) @
      map ra_run_id
        (filter (\<lambda>a. ra_id a \<in> set (eventEntityIds corr EntRunActivityEvent d)) (d_activities d)))"

definition affectedRunInputs :: "string \<Rightarrow> nat \<Rightarrow> ident list \<Rightarrow> database \<Rightarrow> ident list" where
  "affectedRunInputs corr boundary runIds d = unique
     (eventEntityIds corr EntRunInput d @
      (if runIds \<noteq> [] \<and> correlationHasEvent corr [EvRunCompleted, EvRunFailed, EvRunCancelled] d
       then map ri_id (filter (\<lambda>i. ri_run_id i \<in> set runIds) (d_run_inputs d)) else []) @
      concat (map (\<lambda>runId. map ri_id
        (filter (\<lambda>i. ri_run_id i = runId \<and> ri_created_event_sequence i = Some boundary)
          (d_run_inputs d))) runIds))"

definition affectedActivations :: "string \<Rightarrow> database \<Rightarrow> ident list" where
  "affectedActivations corr d =
     unique (eventEntityIds corr EntActivationAttempt d @ d_activation_changes d)"

section \<open>Marking\<close>

definition coalesce :: "nat option \<Rightarrow> nat \<Rightarrow> nat option" where
  "coalesce v n = (case v of None \<Rightarrow> Some n | Some m \<Rightarrow> Some m)"

definition markThreads :: "string \<Rightarrow> nat \<Rightarrow> unit kop" where
  "markThreads corr n =
     bindM (query (\<lambda>d. map ev_thread_root_id (events_of corr d))) (\<lambda>roots.
       update_where d_threads_update (\<lambda>r. Some (th_root_message_id r) \<in> set roots)
         (\<lambda>r. r\<lparr>th_created_event_sequence := coalesce (th_created_event_sequence r) n\<rparr>))"

definition markMessages :: "string \<Rightarrow> nat \<Rightarrow> unit kop" where
  "markMessages corr n =
     bindM (query (eventEntityIds corr EntMessage)) (\<lambda>ids.
     seqM (update_where d_messages_update (\<lambda>r. ms_id r \<in> set ids)
             (\<lambda>r. r\<lparr>ms_created_event_sequence := coalesce (ms_created_event_sequence r) n\<rparr>))
    (seqM (update_where d_message_revisions_update (\<lambda>r. mr_message_id r \<in> set ids)
             (\<lambda>r. r\<lparr>mr_created_event_sequence := coalesce (mr_created_event_sequence r) n\<rparr>))
    (bindM (query (\<lambda>d. map mr_id (filter (\<lambda>r. mr_message_id r \<in> set ids) (d_message_revisions d)))) (\<lambda>revisions.
       update_where d_mentions_update (\<lambda>r. mn_message_revision_id r \<in> set revisions)
         (\<lambda>r. r\<lparr>mn_created_event_sequence := coalesce (mn_created_event_sequence r) n\<rparr>)))))"

text \<open>\<open>markEventEntities\<close>, for a table with its key and its marking.\<close>

definition markEventEntities ::
  "(('r list \<Rightarrow> 'r list) \<Rightarrow> database \<Rightarrow> database) \<Rightarrow> ('r \<Rightarrow> ident) \<Rightarrow> (nat \<Rightarrow> 'r \<Rightarrow> 'r) \<Rightarrow>
   string \<Rightarrow> nat \<Rightarrow> entity_type \<Rightarrow> unit kop" where
  "markEventEntities upd key mark corr n ty =
     bindM (query (eventEntityIds corr ty)) (\<lambda>ids. update_where upd (\<lambda>r. key r \<in> set ids) (mark n))"

definition mark_run_input :: "nat \<Rightarrow> run_input_row \<Rightarrow> run_input_row" where
  "mark_run_input n r = r\<lparr>ri_created_event_sequence := coalesce (ri_created_event_sequence r) n\<rparr>"

definition mark_activation :: "nat \<Rightarrow> activation_row \<Rightarrow> activation_row" where
  "mark_activation n r = r\<lparr>aa_created_event_sequence := coalesce (aa_created_event_sequence r) n\<rparr>"

definition mark_provider_attempt :: "nat \<Rightarrow> provider_attempt_row \<Rightarrow> provider_attempt_row" where
  "mark_provider_attempt n r = r\<lparr>pa_created_event_sequence := coalesce (pa_created_event_sequence r) n\<rparr>"

definition mark_activity :: "nat \<Rightarrow> activity_row \<Rightarrow> activity_row" where
  "mark_activity n r = r\<lparr>ra_created_event_sequence := coalesce (ra_created_event_sequence r) n\<rparr>"

definition mark_artifact :: "nat \<Rightarrow> artifact_row \<Rightarrow> artifact_row" where
  "mark_artifact n r = r\<lparr>ar_created_event_sequence := coalesce (ar_created_event_sequence r) n\<rparr>"

definition mark_run :: "nat \<Rightarrow> run_row \<Rightarrow> run_row" where
  "mark_run n r = r\<lparr>rn_created_event_sequence := coalesce (rn_created_event_sequence r) n\<rparr>"

definition markImmutableComponents :: "string \<Rightarrow> nat \<Rightarrow> unit kop" where
  "markImmutableComponents corr n =
     seqM (markThreads corr n)
    (seqM (markMessages corr n)
    (seqM (markEventEntities d_run_inputs_update ri_id mark_run_input corr n EntRunInput)
    (seqM (markEventEntities d_activations_update aa_id mark_activation corr n EntActivationAttempt)
    (seqM (markEventEntities d_provider_attempts_update pa_id mark_provider_attempt corr n EntProviderAttempt)
    (seqM (markEventEntities d_activities_update ra_id mark_activity corr n EntRunActivityEvent)
          (markEventEntities d_artifacts_update ar_id mark_artifact corr n EntArtifact))))))"

section \<open>Versions\<close>

text \<open>\<open>latestHistory\<close>: the version with the greatest event sequence.\<close>

definition latestHistory :: "('h \<Rightarrow> ident) \<Rightarrow> ('h \<Rightarrow> nat) \<Rightarrow> ident \<Rightarrow> 'h list \<Rightarrow> 'h option" where
  "latestHistory key sq i hs =
     (case sort_key sq (filter (\<lambda>h. key h = i) hs) of [] \<Rightarrow> None | h # t \<Rightarrow> Some (last (h # t)))"

text \<open>
  A version of the current row is appended unless the latest version equals it but for the
  event sequence; a missing row is a TypeError.
\<close>

definition recordVersion ::
  "(database \<Rightarrow> 'r option) \<Rightarrow> (nat \<Rightarrow> 'r \<Rightarrow> 'h) \<Rightarrow> (database \<Rightarrow> 'h list) \<Rightarrow>
   (('h list \<Rightarrow> 'h list) \<Rightarrow> database \<Rightarrow> database) \<Rightarrow> ('h \<Rightarrow> ident) \<Rightarrow> ('h \<Rightarrow> nat) \<Rightarrow>
   ident \<Rightarrow> nat \<Rightarrow> unit kop" where
  "recordVersion lookup version get upd key sq i n =
     bindM (query lookup) (\<lambda>found.
     bindM (needM InternalError found) (\<lambda>current.
     bindM (query (\<lambda>d. latestHistory key sq i (get d))) (\<lambda>previous.
       if (case previous of None \<Rightarrow> False | Some p \<Rightarrow> p = version (sq p) current) then ret ()
       else insert_unique get upd (\<lambda>h q. key h = key q \<and> sq h = sq q) (version n current))))"

definition run_version :: "nat \<Rightarrow> run_row \<Rightarrow> run_history_row" where
  "run_version n r =
     \<lparr>rh_run_id = rn_id r, rh_event_sequence = n, rh_state = rn_state r, rh_revision = rn_revision r,
      rh_agent_config_revision = rn_agent_config_revision r,
      rh_activation_generation = rn_activation_generation r, rh_updated_at = rn_updated_at r,
      rh_terminal_reason = rn_terminal_reason r\<rparr>"

definition run_input_version :: "nat \<Rightarrow> run_input_row \<Rightarrow> run_input_history_row" where
  "run_input_version n r =
     \<lparr>ih_run_input_id = ri_id r, ih_event_sequence = n, ih_disposition = ri_disposition r,
      ih_disposition_revision = ri_disposition_revision r,
      ih_disposition_reason = ri_disposition_reason r, ih_superseded_by = ri_superseded_by r\<rparr>"

definition activation_version :: "nat \<Rightarrow> activation_row \<Rightarrow> activation_history_row" where
  "activation_version n r =
     \<lparr>ah_activation_id = aa_id r, ah_event_sequence = n, ah_revoked_at = aa_revoked_at r,
      ah_revocation_reason = aa_revocation_reason r, ah_finished_at = aa_finished_at r,
      ah_outcome = aa_outcome r, ah_detail = aa_detail r\<rparr>"

definition provider_version :: "nat \<Rightarrow> provider_attempt_row \<Rightarrow> provider_history_row" where
  "provider_version n r =
     \<lparr>ph_provider_attempt_id = pa_id r, ph_event_sequence = n, ph_status = pa_status r,
      ph_detail = pa_detail r, ph_finished_at = pa_finished_at r\<rparr>"

definition recordRunVersion :: "ident \<Rightarrow> nat \<Rightarrow> unit kop" where
  "recordRunVersion i n =
     recordVersion (\<lambda>d. find_row rn_id i (d_runs d)) run_version d_run_history d_run_history_update
       rh_run_id rh_event_sequence i n"

definition recordRunInputVersion :: "ident \<Rightarrow> nat \<Rightarrow> unit kop" where
  "recordRunInputVersion i n =
     recordVersion (\<lambda>d. find_row ri_id i (d_run_inputs d)) run_input_version d_run_input_history
       d_run_input_history_update ih_run_input_id ih_event_sequence i n"

definition recordActivationVersion :: "ident \<Rightarrow> nat \<Rightarrow> unit kop" where
  "recordActivationVersion i n =
     recordVersion (\<lambda>d. find_row aa_id i (d_activations d)) activation_version d_activation_history
       d_activation_history_update ah_activation_id ah_event_sequence i n"

definition recordProviderAttemptVersion :: "ident \<Rightarrow> nat \<Rightarrow> unit kop" where
  "recordProviderAttemptVersion i n =
     recordVersion (\<lambda>d. find_row pa_id i (d_provider_attempts d)) provider_version d_provider_history
       d_provider_history_update ph_provider_attempt_id ph_event_sequence i n"

text \<open>The three updates and the version of one affected run.\<close>

definition recordRunComponents :: "nat \<Rightarrow> ident \<Rightarrow> unit kop" where
  "recordRunComponents n runId =
     seqM (update_where d_runs_update (\<lambda>r. rn_id r = runId) (mark_run n))
    (seqM (update_where d_run_inputs_update
             (\<lambda>r. ri_run_id r = runId \<and> ri_created_event_sequence r = None) (mark_run_input n))
    (seqM (update_where d_activities_update
             (\<lambda>r. ra_run_id r = runId \<and> ra_created_event_sequence r = None) (mark_activity n))
          (recordRunVersion runId n)))"

definition recordProjectionVersions :: "string \<Rightarrow> unit kop" where
  "recordProjectionVersions corr =
     bindM (query (\<lambda>d. last_sequence (events_of corr d))) (\<lambda>boundary.
     case boundary of
       None \<Rightarrow> ret ()
     | Some n \<Rightarrow>
         seqM (markImmutableComponents corr n)
        (bindM (query (affectedRuns corr)) (\<lambda>runIds.
         seqM (forM runIds (recordRunComponents n))
        (bindM (query (affectedRunInputs corr n runIds)) (\<lambda>inputIds.
         seqM (forM inputIds (\<lambda>i. recordRunInputVersion i n))
        (bindM (query (affectedActivations corr)) (\<lambda>activationIds.
         seqM (forM activationIds (\<lambda>i. recordActivationVersion i n))
        (bindM (query (eventEntityIds corr EntProviderAttempt)) (\<lambda>attemptIds.
         seqM (forM attemptIds (\<lambda>i. recordProviderAttemptVersion i n))
              (writeDb (d_activation_changes_update (\<lambda>_. []))))))))))))"

section \<open>Evolution\<close>

lemma grows_markThreads [grows_rules]: "grows (markThreads corr n)"
  unfolding markThreads_def by (intro grows_rules) (simp add: thread_fixed_def)

lemma grows_markMessages [grows_rules]: "grows (markMessages corr n)"
  unfolding markMessages_def
  by (intro grows_rules) (simp_all add: message_fixed_def revision_fixed_def mention_fixed_def)

lemma fixed_marks:
  "run_input_fixed (mark_run_input n i) = run_input_fixed i"
  "activation_fixed (mark_activation n a) = activation_fixed a"
  "attempt_fixed (mark_provider_attempt n p) = attempt_fixed p"
  "activity_fixed (mark_activity n v) = activity_fixed v"
  "artifact_fixed (mark_artifact n r) = artifact_fixed r"
  "run_fixed (mark_run n q) = run_fixed q"
  "rn_next_activity_sequence (mark_run n q) = rn_next_activity_sequence q"
  by (simp_all add: fixed_defs mark_run_input_def mark_activation_def mark_provider_attempt_def
      mark_activity_def mark_artifact_def mark_run_def)

lemma activation_ok_mark: "activation_ok r \<Longrightarrow> activation_ok (mark_activation n r)"
  by (simp add: activation_ok_def mark_activation_def)

lemma grows_markImmutableComponents [grows_rules]: "grows (markImmutableComponents corr n)"
  unfolding markImmutableComponents_def markEventEntities_def
  by (intro grows_rules fixed_marks activation_ok_mark)

lemma grows_versions [grows_rules]:
  "grows (recordRunVersion i n)" "grows (recordRunInputVersion i n)"
  "grows (recordActivationVersion i n)" "grows (recordProviderAttemptVersion i n)"
  unfolding recordRunVersion_def recordRunInputVersion_def recordActivationVersion_def
    recordProviderAttemptVersion_def recordVersion_def
  by (intro grows_rules; fail)+

lemma grows_recordRunComponents [grows_rules]: "grows (recordRunComponents n i)"
  unfolding recordRunComponents_def by (intro grows_rules fixed_marks)

lemma grows_recordProjectionVersions [grows_rules]: "grows (recordProjectionVersions corr)"
  unfolding recordProjectionVersions_def
  by (intro grows_rules grows_writeDb) (simp_all add: extends_def worktree_side_def well_formed_def)

end
