(* ===== verification/Transactions.thy ===== *)
theory Transactions
  imports Outbox Attentions Artifacts PhysicalWorktrees History
begin

text \<open>
  The kernel itself (\<open>kernel.ts\<close>): a command runs in one transaction, which checks the writer's
  authority, replays a command whose idempotency key is known, or dispatches it, records the
  projection versions and its result, and commits. A durable error commits what the command
  wrote, every other error rolls it back.
\<close>

section \<open>Commands\<close>

datatype kernel_command =
    CmdStartThread start_thread_command
  | CmdReplyToThread reply_command
  | CmdEditMessage edit_message_command
  | CmdDeleteMessage delete_message_command
  | CmdUpdateAgentConfig update_config_command
  | CmdAdoptRunConfig adopt_config_command
  | CmdSendToRun send_to_run_command
  | CmdCancelRun cancel_run_command
  | CmdWithdrawRunInput withdraw_command
  | CmdClaimAttention claim_attention_command
  | CmdResolveAttentionWithRun decision_command
  | CmdIgnoreAttention ignore_command
  | CmdResolveAttentionWithExistingRun existing_run_command
  | CmdStartActivation start_activation_command
  | CmdFinishActivation finish_activation_command
  | CmdStartProviderAttempt start_provider_command
  | CmdFinishProviderAttempt finish_provider_command
  | CmdFailProviderAttempt fail_provider_command
  | CmdPark park_command
  | CmdClaimOutboxEvents claim_outbox_command
  | CmdAcknowledgeOutboxEvents acknowledge_outbox_command
  | CmdAppendRunActivity append_activity_command
  | CmdPublishRunReply run_reply_command
  | CmdPublishArtifact publish_artifact_command
  | CmdCompleteRun complete_run_command
  | CmdWaitRun wait_run_command
  | CmdFailRun fail_run_command
  | CmdRecordLateOutput late_output_command
  | CmdPhysical physical_command
  | CmdAcquireLease acquire_command
  | CmdRenewLease renew_command
  | CmdReleaseLease release_command
  | CmdQuarantineLease quarantine_command
  | CmdResolveLeaseQuarantine resolve_quarantine_command

definition physical_type :: "physical_command \<Rightarrow> command_type" where
  "physical_type c =
     (case c of
        RegisterCommand _ \<Rightarrow> RegisterPhysicalWorktree
      | StartExecutionCommand _ \<Rightarrow> StartWorktreeExecution
      | RecordExecutionCommand _ \<Rightarrow> RecordWorktreeExecution
      | RevokeAuthorityCommand _ \<Rightarrow> RevokeWorktreeExecutionAuthority
      | RecoverExecutionCommand _ \<Rightarrow> RecoverWorktreeExecution)"

definition physical_key :: "physical_command \<Rightarrow> string" where
  "physical_key c =
     (case c of
        RegisterCommand x \<Rightarrow> idempotencyKey x
      | StartExecutionCommand x \<Rightarrow> idempotencyKey x
      | RecordExecutionCommand x \<Rightarrow> idempotencyKey x
      | RevokeAuthorityCommand x \<Rightarrow> idempotencyKey x
      | RecoverExecutionCommand x \<Rightarrow> idempotencyKey x)"

text \<open>\<open>command.type\<close> and \<open>command.idempotencyKey\<close>.\<close>

definition type_of_command :: "kernel_command \<Rightarrow> command_type" where
  "type_of_command c =
     (case c of
        CmdStartThread _ \<Rightarrow> StartThread
      | CmdReplyToThread _ \<Rightarrow> ReplyToThread
      | CmdEditMessage _ \<Rightarrow> EditMessage
      | CmdDeleteMessage _ \<Rightarrow> DeleteMessage
      | CmdUpdateAgentConfig _ \<Rightarrow> UpdateAgentConfig
      | CmdAdoptRunConfig _ \<Rightarrow> AdoptRunConfig
      | CmdSendToRun _ \<Rightarrow> SendToRun
      | CmdCancelRun _ \<Rightarrow> CancelRun
      | CmdWithdrawRunInput _ \<Rightarrow> WithdrawRunInput
      | CmdClaimAttention _ \<Rightarrow> ClaimAttention
      | CmdResolveAttentionWithRun _ \<Rightarrow> ResolveAttentionWithRun
      | CmdIgnoreAttention _ \<Rightarrow> IgnoreAttention
      | CmdResolveAttentionWithExistingRun _ \<Rightarrow> ResolveAttentionWithExistingRun
      | CmdStartActivation _ \<Rightarrow> StartActivation
      | CmdFinishActivation _ \<Rightarrow> FinishActivation
      | CmdStartProviderAttempt _ \<Rightarrow> StartProviderAttempt
      | CmdFinishProviderAttempt _ \<Rightarrow> FinishProviderAttempt
      | CmdFailProviderAttempt _ \<Rightarrow> FailProviderAttempt
      | CmdPark _ \<Rightarrow> ParkRunAfterProviderAttemptFailure
      | CmdClaimOutboxEvents _ \<Rightarrow> ClaimOutboxEvents
      | CmdAcknowledgeOutboxEvents _ \<Rightarrow> AcknowledgeOutboxEvents
      | CmdAppendRunActivity _ \<Rightarrow> AppendRunActivity
      | CmdPublishRunReply _ \<Rightarrow> PublishRunReply
      | CmdPublishArtifact _ \<Rightarrow> PublishArtifact
      | CmdCompleteRun _ \<Rightarrow> CompleteRun
      | CmdWaitRun _ \<Rightarrow> WaitRun
      | CmdFailRun _ \<Rightarrow> FailRun
      | CmdRecordLateOutput _ \<Rightarrow> RecordLateOutput
      | CmdPhysical p \<Rightarrow> physical_type p
      | CmdAcquireLease _ \<Rightarrow> AcquireWorktreeWriterLease
      | CmdRenewLease _ \<Rightarrow> RenewWorktreeWriterLease
      | CmdReleaseLease _ \<Rightarrow> ReleaseWorktreeWriterLease
      | CmdQuarantineLease _ \<Rightarrow> QuarantineWorktreeWriterLease
      | CmdResolveLeaseQuarantine _ \<Rightarrow> ResolveWorktreeWriterLeaseQuarantine)"

definition key_of_command :: "kernel_command \<Rightarrow> string" where
  "key_of_command c =
     (case c of
        CmdStartThread x \<Rightarrow> idempotencyKey x
      | CmdReplyToThread x \<Rightarrow> idempotencyKey x
      | CmdEditMessage x \<Rightarrow> idempotencyKey x
      | CmdDeleteMessage x \<Rightarrow> idempotencyKey x
      | CmdUpdateAgentConfig x \<Rightarrow> idempotencyKey x
      | CmdAdoptRunConfig x \<Rightarrow> idempotencyKey x
      | CmdSendToRun x \<Rightarrow> idempotencyKey x
      | CmdCancelRun x \<Rightarrow> idempotencyKey x
      | CmdWithdrawRunInput x \<Rightarrow> idempotencyKey x
      | CmdClaimAttention x \<Rightarrow> idempotencyKey x
      | CmdResolveAttentionWithRun x \<Rightarrow> idempotencyKey x
      | CmdIgnoreAttention x \<Rightarrow> idempotencyKey x
      | CmdResolveAttentionWithExistingRun x \<Rightarrow> idempotencyKey x
      | CmdStartActivation x \<Rightarrow> idempotencyKey x
      | CmdFinishActivation x \<Rightarrow> idempotencyKey x
      | CmdStartProviderAttempt x \<Rightarrow> idempotencyKey x
      | CmdFinishProviderAttempt x \<Rightarrow> idempotencyKey x
      | CmdFailProviderAttempt x \<Rightarrow> idempotencyKey x
      | CmdPark x \<Rightarrow> idempotencyKey x
      | CmdClaimOutboxEvents x \<Rightarrow> idempotencyKey x
      | CmdAcknowledgeOutboxEvents x \<Rightarrow> idempotencyKey x
      | CmdAppendRunActivity x \<Rightarrow> idempotencyKey x
      | CmdPublishRunReply x \<Rightarrow> idempotencyKey x
      | CmdPublishArtifact x \<Rightarrow> idempotencyKey x
      | CmdCompleteRun x \<Rightarrow> idempotencyKey x
      | CmdWaitRun x \<Rightarrow> idempotencyKey x
      | CmdFailRun x \<Rightarrow> idempotencyKey x
      | CmdRecordLateOutput x \<Rightarrow> idempotencyKey x
      | CmdPhysical p \<Rightarrow> physical_key p
      | CmdAcquireLease x \<Rightarrow> idempotencyKey x
      | CmdRenewLease x \<Rightarrow> idempotencyKey x
      | CmdReleaseLease x \<Rightarrow> idempotencyKey x
      | CmdQuarantineLease x \<Rightarrow> idempotencyKey x
      | CmdResolveLeaseQuarantine x \<Rightarrow> idempotencyKey x)"

section \<open>Writer authority of a command\<close>

text \<open>The activation of a provider attempt, when it exists.\<close>

definition attempt_activation :: "ident \<Rightarrow> database \<Rightarrow> ident option" where
  "attempt_activation i d = map_option pa_activation_id (find_row pa_id i (d_provider_attempts d))"

text \<open>\<open>activationId ?? (providerAttemptId and its activation)\<close>, when not empty.\<close>

definition named_activation :: "ident option \<Rightarrow> ident option \<Rightarrow> database \<Rightarrow> ident option" where
  "named_activation activationId providerAttemptId d =
     truthy (case activationId of
               Some a \<Rightarrow> Some a
             | None \<Rightarrow> (case truthy providerAttemptId of None \<Rightarrow> None | Some p \<Rightarrow> attempt_activation p d))"

definition assert_if :: "ident option \<Rightarrow> bool \<Rightarrow> bool \<Rightarrow> unit kop" where
  "assert_if activationId requireStopped allowCommittedDecision =
     (case activationId of
        None \<Rightarrow> ret ()
      | Some a \<Rightarrow> assertActivationWriterAuthority a requireStopped allowCommittedDecision)"

definition assertWriterCommandAuthority ::
  "kernel_command \<Rightarrow> principal_row \<Rightarrow> principal_context \<Rightarrow> unit kop" where
  "assertWriterCommandAuthority command prin context =
     seqM (assertWriterContextAuthority prin context (type_of_command command = CompleteRun))
    (if pr_kind prin \<noteq> Runtime then ret ()
     else (case command of
        CmdFinishActivation c \<Rightarrow>
          whenM (fa_outcome c = ActCompleted)
            (assertActivationWriterAuthority (fa_activationId c) True True)
      | CmdFinishProviderAttempt c \<Rightarrow>
          whenM (fp_status c \<noteq> ProvUnknown)
            (bindM (query (attempt_activation (fp_providerAttemptId c))) (\<lambda>a.
               assert_if a (fp_status c = ProvCompleted) True))
      | CmdAppendRunActivity c \<Rightarrow>
          bindM (query (named_activation (apv_activationId c) (apv_providerAttemptId c))) (\<lambda>a.
            assert_if a False False)
      | CmdRecordLateOutput c \<Rightarrow>
          bindM (query (named_activation (lo_activationId c) (lo_providerAttemptId c))) (\<lambda>a.
            assert_if a False False)
      | CmdStartProviderAttempt c \<Rightarrow>
          bindM (query (named_activation (Some (sp_activationId c)) None)) (\<lambda>a.
            assert_if a False False)
      | _ \<Rightarrow> ret ()))"

section \<open>Dispatch\<close>

definition dispatchCommand ::
  "kernel_command \<Rightarrow> principal_context \<Rightarrow> principal_row \<Rightarrow> string \<Rightarrow> command_result kop" where
  "dispatchCommand command context prin corr =
     (case command of
        CmdStartThread c \<Rightarrow> startThread c prin corr
      | CmdReplyToThread c \<Rightarrow> replyToThread c prin context corr
      | CmdEditMessage c \<Rightarrow> editMessage c prin corr
      | CmdDeleteMessage c \<Rightarrow> deleteMessage c prin corr
      | CmdUpdateAgentConfig c \<Rightarrow> updateAgentConfig c prin corr
      | CmdAdoptRunConfig c \<Rightarrow> adoptRunConfig c prin corr
      | CmdSendToRun c \<Rightarrow> sendToRun c prin corr
      | CmdCancelRun c \<Rightarrow> cancelRun c prin corr
      | CmdWithdrawRunInput c \<Rightarrow> withdrawRunInput c prin context corr
      | CmdClaimAttention c \<Rightarrow> claimAttention c prin corr
      | CmdResolveAttentionWithRun c \<Rightarrow> resolveAttentionWithRun c prin context corr
      | CmdIgnoreAttention c \<Rightarrow> ignoreAttention c prin context corr
      | CmdResolveAttentionWithExistingRun c \<Rightarrow> resolveAttentionWithExistingRun c prin context corr
      | CmdStartActivation c \<Rightarrow> startActivation c prin corr
      | CmdFinishActivation c \<Rightarrow> finishActivation c prin context corr
      | CmdStartProviderAttempt c \<Rightarrow> startProviderAttempt c prin context corr
      | CmdFinishProviderAttempt c \<Rightarrow> finishProviderAttempt c prin context corr
      | CmdFailProviderAttempt c \<Rightarrow> failProviderAttempt c prin context corr
      | CmdPark c \<Rightarrow> parkRunAfterProviderAttemptFailure c prin corr
      | CmdClaimOutboxEvents c \<Rightarrow> claimOutboxEvents c prin corr
      | CmdAcknowledgeOutboxEvents c \<Rightarrow> acknowledgeOutboxEvents c prin corr
      | CmdAppendRunActivity c \<Rightarrow> appendRunActivity c prin context corr
      | CmdPublishRunReply c \<Rightarrow> publishRunReply c prin context corr
      | CmdPublishArtifact c \<Rightarrow> publishArtifact c prin context corr
      | CmdCompleteRun c \<Rightarrow> completeRun c prin context corr
      | CmdWaitRun c \<Rightarrow> waitRun c prin context corr
      | CmdFailRun c \<Rightarrow> failRun c prin context corr
      | CmdRecordLateOutput c \<Rightarrow> recordLateOutput c prin context corr
      | CmdPhysical c \<Rightarrow> physicalWorktreeCommand c prin corr
      | CmdAcquireLease c \<Rightarrow> acquireWorktreeWriterLease c prin corr
      | CmdRenewLease c \<Rightarrow> renewWorktreeWriterLease c prin corr
      | CmdReleaseLease c \<Rightarrow> releaseWorktreeWriterLease c prin corr
      | CmdQuarantineLease c \<Rightarrow> quarantineWorktreeWriterLease c prin corr
      | CmdResolveLeaseQuarantine c \<Rightarrow> resolveWorktreeWriterLeaseQuarantine c prin corr)"

section \<open>Replay\<close>

text \<open>The stored result replaced when the refreshed one differs.\<close>

definition idempotency_key :: "kernel_command \<Rightarrow> principal_row \<Rightarrow> ident \<times> command_type \<times> string" where
  "idempotency_key command prin = (pr_id prin, type_of_command command, key_of_command command)"

definition record_key :: "idempotency_row \<Rightarrow> ident \<times> command_type \<times> string" where
  "record_key r = (ir_principal_id r, ir_command_name r, ir_idempotency_key r)"

definition refreshing ::
  "kernel_command \<Rightarrow> principal_row \<Rightarrow> command_result \<Rightarrow> command_result kop \<Rightarrow> command_result kop" where
  "refreshing command prin result resolve =
     bindM resolve (\<lambda>current.
     seqM (whenM (current \<noteq> result)
             (update_where d_idempotency_update (\<lambda>r. record_key r = idempotency_key command prin)
                (\<lambda>r. r\<lparr>ir_result := current\<rparr>)))
          (ret current))"

definition replay_result ::
  "kernel_command \<Rightarrow> principal_row \<Rightarrow> principal_context \<Rightarrow> command_result \<Rightarrow> command_result kop" where
  "replay_result command prin context result =
     (case command of
        CmdPhysical (StartExecutionCommand c) \<Rightarrow> resolveCachedWorktreeExecution c result prin
      | CmdPublishArtifact c \<Rightarrow>
          bindM (getArtifact (cr_entityId result) context) (\<lambda>_. ret result)
      | CmdClaimAttention c \<Rightarrow>
          refreshing command prin result (resolveCachedAttentionClaim result prin)
      | CmdClaimOutboxEvents c \<Rightarrow>
          refreshing command prin result (resolveCachedOutboxClaim c result prin)
      | CmdStartActivation c \<Rightarrow>
          refreshing command prin result (resolveCachedActivation c result prin)
      | CmdStartProviderAttempt c \<Rightarrow>
          refreshing command prin result (resolveCachedProviderAttempt c result prin context)
      | CmdAcquireLease c \<Rightarrow>
          refreshing command prin result
            (resolveCachedWorktreeWriterLeaseAuthority AcquireWorktreeWriterLease (aq_worktreeId c)
               result prin)
      | CmdRenewLease c \<Rightarrow>
          refreshing command prin result
            (resolveCachedWorktreeWriterLeaseAuthority RenewWorktreeWriterLease
               (wa_worktreeId (rw_authority c)) result prin)
      | CmdQuarantineLease c \<Rightarrow>
          refreshing command prin result (resolveCachedWorktreeWriterLeaseQuarantine c result prin)
      | _ \<Rightarrow> ret result)"

definition replay_cached ::
  "kernel_command \<Rightarrow> string \<Rightarrow> principal_row \<Rightarrow> principal_context \<Rightarrow> idempotency_row \<Rightarrow> command_result kop" where
  "replay_cached command payloadHash prin context cached =
     seqM (case command of
             CmdPublishArtifact c \<Rightarrow>
               bindM (authorizeReport (pub_runId c) context) (\<lambda>_. ret ())
           | _ \<Rightarrow> ret ())
    (seqM (guardM (ir_payload_hash cached = payloadHash) (err Conflict))
          (replay_result command prin context (ir_result cached)))"

section \<open>The transaction\<close>

definition translateError :: "kerror \<Rightarrow> kerror" where
  "translateError e = (case e of ConstraintError \<Rightarrow> err Conflict | _ \<Rightarrow> e)"

text \<open>BEGIN IMMEDIATE, then COMMIT when the body returns or throws a durable error, else ROLLBACK.\<close>

definition transaction :: "'a kop \<Rightarrow> 'a kop" where
  "transaction body = (\<lambda>k.
     case body k of
       (Inr x, t) \<Rightarrow> (Inr x, t)
     | (Inl e, t) \<Rightarrow>
         if is_durable e then (Inl e, t) else (Inl (translateError e), t\<lparr>k_db := k_db k\<rparr>))"

text \<open>The same where no error is durable: the body commits only when it returns.\<close>

definition atomically :: "'a kop \<Rightarrow> 'a kop" where
  "atomically body = (\<lambda>k.
     case body k of
       (Inr x, t) \<Rightarrow> (Inr x, t)
     | (Inl e, t) \<Rightarrow> (Inl (translateError e), t\<lparr>k_db := k_db k\<rparr>))"

lemma atomically_run [code]:
  "atomically body k =
     (case body k of
       (Inr x, t) \<Rightarrow> (Inr x, t)
     | (Inl e, t) \<Rightarrow> (Inl (translateError e), t\<lparr>k_db := k_db k\<rparr>))"
  by (simp add: atomically_def)

text \<open>BEGIN, then ROLLBACK whatever the body does.\<close>

definition observation :: "'a kop \<Rightarrow> 'a kop" where
  "observation body = (\<lambda>k. case body k of (r, t) \<Rightarrow> (r, t\<lparr>k_db := k_db k\<rparr>))"

lemma transaction_run [code]:
  "transaction body k =
     (case body k of
       (Inr x, t) \<Rightarrow> (Inr x, t)
     | (Inl e, t) \<Rightarrow>
         if is_durable e then (Inl e, t) else (Inl (translateError e), t\<lparr>k_db := k_db k\<rparr>))"
  by (simp add: transaction_def)

lemma observation_run [code]:
  "observation body k = (case body k of (r, t) \<Rightarrow> (r, t\<lparr>k_db := k_db k\<rparr>))"
  by (simp add: observation_def)

definition alphanumeric :: "char \<Rightarrow> bool" where
  "alphanumeric c \<longleftrightarrow>
     of_char c \<in> {65 :: nat..90} \<or> of_char c \<in> {97 :: nat..122} \<or> of_char c \<in> {48 :: nat..57}"

definition correlation_id_ok :: "string \<Rightarrow> bool" where
  "correlation_id_ok t =
     (case t of
        [] \<Rightarrow> False
      | c # cs \<Rightarrow> alphanumeric c \<and> length cs \<le> 127 \<and>
          list_all (\<lambda>x. alphanumeric x \<or> x \<in> {CHR ''.'', CHR ''_'', CHR ''-''}) cs)"

definition effective_context :: "principal_row \<Rightarrow> principal_context \<Rightarrow> principal_context" where
  "effective_context prin context =
     (if pr_kind prin = Human then context\<lparr>pc_activationId := None\<rparr> else context)"

definition runtime_only :: "command_type \<Rightarrow> bool" where
  "runtime_only ct \<longleftrightarrow>
     ct = ClaimAttention \<or> ct = StartActivation \<or> ct = ParkRunAfterProviderAttemptFailure"

definition provider_of_command :: "kernel_command \<Rightarrow> provider_binding option" where
  "provider_of_command command =
     (case command of CmdPhysical (StartExecutionCommand c) \<Rightarrow> se_provider c | _ \<Rightarrow> None)"

text \<open>The part of the body that runs a command for the first time.\<close>

definition run_command ::
  "kernel_command \<Rightarrow> string \<Rightarrow> string option \<Rightarrow> principal_row \<Rightarrow> principal_context \<Rightarrow> command_result kop" where
  "run_command command payloadHash operation prin context =
     bindM (case operation of Some corr \<Rightarrow> ret corr | None \<Rightarrow> idFactory ''corr'') (\<lambda>corr.
     bindM (dispatchCommand command context prin corr) (\<lambda>dispatched.
     let result = dispatched\<lparr>cr_correlationId := Some corr\<rparr> in
     seqM (recordProjectionVersions corr)
    (bindM clock (\<lambda>at.
     seqM (insert_unique d_idempotency d_idempotency_update idempotency_clash
             \<lparr>ir_principal_id = pr_id prin, ir_command_name = type_of_command command,
              ir_idempotency_key = key_of_command command, ir_payload_hash = payloadHash,
              ir_result = result, ir_created_at = at\<rparr>)
          (ret result)))))"

definition transaction_body ::
  "kernel_command \<Rightarrow> string \<Rightarrow> string option \<Rightarrow> principal_row \<Rightarrow> principal_context \<Rightarrow> command_result kop" where
  "transaction_body command payloadHash operation prin context =
     seqM (assertWriterCommandAuthority command prin context)
    (bindM (query (\<lambda>d. find_row record_key (idempotency_key command prin) (d_idempotency d))) (\<lambda>cached.
     case cached of
       Some c \<Rightarrow> replay_cached command payloadHash prin context c
     | None \<Rightarrow> run_command command payloadHash operation prin context))"

text \<open>
  \<open>executeTransaction\<close> after its check that the kernel is open, on the context alone. \<open>hashPayload\<close>
  and the property names of the command object (and of its final reply) are arguments: the hash
  is SHA-256 of the canonical JSON of the object the client sent.
\<close>

definition command_transaction ::
  "(kernel_command \<Rightarrow> string) \<Rightarrow> string list list \<Rightarrow> kernel_command \<Rightarrow> principal_context \<Rightarrow>
   string option \<Rightarrow> command_result kop" where
  "command_transaction hashPayload inputs command principalContext operation =
     seqM (guardM (case operation of None \<Rightarrow> True | Some corr \<Rightarrow> correlation_id_ok corr)
             (err InvalidCommand))
    (bindM (requirePrincipal (pc_principalId principalContext)) (\<lambda>prin.
     let context = effective_context prin principalContext in
     seqM (whenM (runtime_only (type_of_command command)) (requireKind prin Runtime))
    (seqM (rejectCausalOverrides inputs)
    (seqM (case provider_of_command command of
             None \<Rightarrow> ret ()
           | Some b \<Rightarrow> validateWorktreeProviderBinding (binding_value b))
          (transaction
             (transaction_body command (hashPayload command) operation prin context))))))"

section \<open>The kernel object\<close>

record local_execution =
  le_receipt :: execution_receipt
  le_principalId :: ident
  le_activationId :: ident

record torsor_kernel =
  tk_context :: kernel
  tk_closed :: bool
  tk_localWorktreeExecutions :: "(ident \<times> local_execution) list"

type_synonym 'a top = "(torsor_kernel, kerror, 'a) op"

definition on_context :: "'a kop \<Rightarrow> 'a top" where
  "on_context m = (\<lambda>t. case m (tk_context t) of (r, k) \<Rightarrow> (r, t\<lparr>tk_context := k\<rparr>))"

lemma on_context_run [code]:
  "on_context m t = (case m (tk_context t) of (r, k) \<Rightarrow> (r, t\<lparr>tk_context := k\<rparr>))"
  by (simp add: on_context_def)

definition assertOpen :: "unit top" where
  "assertOpen = bindM (gets tk_closed) (\<lambda>closed. guardM (\<not> closed) (err Conflict))"

text \<open>\<open>withDatabaseAccess\<close>; the busy timeout of the connection is not modelled.\<close>

definition withDatabaseAccess :: "'a kop \<Rightarrow> 'a top" where
  "withDatabaseAccess operation = seqM assertOpen (on_context operation)"

definition close :: "unit top" where
  "close = modify (\<lambda>t. t\<lparr>tk_closed := True\<rparr>)"

definition writerCheck :: "unit kop \<Rightarrow> unit top" where
  "writerCheck check = withDatabaseAccess (transaction check)"

text \<open>
  The effect is the executor's code: it threw an error, or it returned a value that is
  undefined or not.
\<close>

definition performWorktreeMutation ::
  "mutation_authority \<Rightarrow> principal_context \<Rightarrow> kerror + bool \<Rightarrow> unit top" where
  "performWorktreeMutation authority context effect =
     writerCheck
       (bindM (requirePrincipal (pc_principalId context)) (\<lambda>prin.
        seqM (assertWorktreeMutation authority prin)
       (bindM (liftE effect) (\<lambda>returned_undefined. guardM returned_undefined InternalError))))"

definition checkWorktreeAuthority :: "mutation_authority \<Rightarrow> principal_context \<Rightarrow> unit top" where
  "checkWorktreeAuthority authority context =
     withDatabaseAccess (observation
       (bindM (requirePrincipal (pc_principalId context)) (assertWorktreeMutation authority)))"

definition checkWorktreePublication :: "mutation_authority \<Rightarrow> principal_context \<Rightarrow> unit top" where
  "checkWorktreePublication authority context =
     writerCheck
       (bindM (requirePrincipal (pc_principalId context)) (assertWorktreePublication authority))"

text \<open>
  \<open>#executeTransaction\<close>, \<open>#execute\<close> and \<open>execute\<close>. The kernel is checked to be open twice, by
  \<open>#withDatabaseAccess\<close> and inside it.
\<close>

definition executeTransaction ::
  "(kernel_command \<Rightarrow> string) \<Rightarrow> string list list \<Rightarrow> kernel_command \<Rightarrow> principal_context \<Rightarrow>
   string option \<Rightarrow> command_result top" where
  "executeTransaction hashPayload inputs command principalContext operation =
     seqM assertOpen
          (on_context (command_transaction hashPayload inputs command principalContext operation))"

definition execute_inner ::
  "(kernel_command \<Rightarrow> string) \<Rightarrow> string list list \<Rightarrow> kernel_command \<Rightarrow> principal_context \<Rightarrow>
   string option \<Rightarrow> command_result top" where
  "execute_inner hashPayload inputs command principalContext operation =
     seqM assertOpen (executeTransaction hashPayload inputs command principalContext operation)"

lemma execute_inner_once:
  "execute_inner hashPayload inputs command principalContext operation =
     withDatabaseAccess (command_transaction hashPayload inputs command principalContext operation)"
  by (rule ext) (simp add: execute_inner_def executeTransaction_def withDatabaseAccess_def assertOpen_def
      run_simps)

definition remember_execution ::
  "kernel_command \<Rightarrow> principal_context \<Rightarrow> command_result \<Rightarrow> unit top" where
  "remember_execution command context result =
     (case (command, truthy (cr_executionToken result)) of
        (CmdPhysical (StartExecutionCommand c), Some token) \<Rightarrow>
          modify (tk_localWorktreeExecutions_update (AList.update (cr_entityId result)
            \<lparr>le_receipt = \<lparr>er_executionId = cr_entityId result, er_executorId = se_executorId c,
                           er_executionToken = token\<rparr>,
             le_principalId = pc_principalId context, le_activationId = se_activationId c\<rparr>))
      | _ \<Rightarrow> ret ())"

definition execute ::
  "(kernel_command \<Rightarrow> string) \<Rightarrow> string list list \<Rightarrow> kernel_command \<Rightarrow> principal_context \<Rightarrow>
   string option \<Rightarrow> command_result top" where
  "execute hashPayload inputs command principalContext operation =
     seqM (guardM (type_of_command command \<noteq> PublishArtifact) (err Forbidden))
    (bindM (execute_inner hashPayload inputs command principalContext operation) (\<lambda>result.
     seqM (remember_execution command principalContext result) (ret result)))"

text \<open>
  A command whose type is no command type at all: it gets as far as the lookup of its idempotency
  key, where the database refuses the type.
\<close>

definition unsupported_command ::
  "string list list \<Rightarrow> principal_context \<Rightarrow> string option \<Rightarrow> command_result top" where
  "unsupported_command inputs principalContext operation =
     withDatabaseAccess
       (seqM (guardM (case operation of None \<Rightarrow> True | Some corr \<Rightarrow> correlation_id_ok corr)
                (err InvalidCommand))
       (bindM (requirePrincipal (pc_principalId principalContext)) (\<lambda>prin.
        seqM (rejectCausalOverrides inputs)
             (transaction
               (seqM (assertWriterContextAuthority prin (effective_context prin principalContext) False)
                     (raise InternalError))))))"

definition revokeLocalWorktreeAuthority :: "execution_receipt \<Rightarrow> principal_context \<Rightarrow> unit top" where
  "revokeLocalWorktreeAuthority receipt context =
     bindM (gets (\<lambda>t. map_of (tk_localWorktreeExecutions t) (er_executionId receipt))) (\<lambda>binding.
     case binding of
       None \<Rightarrow> raise (err Forbidden)
     | Some b \<Rightarrow>
         seqM (guardM (le_principalId b = pc_principalId context \<and>
                       er_executorId (le_receipt b) = er_executorId receipt \<and>
                       er_executionToken (le_receipt b) = er_executionToken receipt) (err Forbidden))
              (modify (tk_context_update (k_localWorktreeRevocations_update
                 (List.insert (le_activationId b))))))"

section \<open>Finalizing a report\<close>

text \<open>\<open>JSON.stringify\<close> of a pair of strings.\<close>

definition hex_digit :: "nat \<Rightarrow> char" where
  "hex_digit n = (if n < 10 then char_of (48 + n) else char_of (87 + n))"

definition json_escape :: "char \<Rightarrow> string" where
  "json_escape c =
     (let n = of_char c :: nat in
      if n = 34 then [char_of (92 :: nat), char_of (34 :: nat)]
      else if n = 92 then [char_of (92 :: nat), char_of (92 :: nat)]
      else if n = 8 then char_of (92 :: nat) # ''b''
      else if n = 9 then char_of (92 :: nat) # ''t''
      else if n = 10 then char_of (92 :: nat) # ''n''
      else if n = 12 then char_of (92 :: nat) # ''f''
      else if n = 13 then char_of (92 :: nat) # ''r''
      else if n < 32 then char_of (92 :: nat) # ''u00'' @ [hex_digit (n div 16), hex_digit (n mod 16)]
      else [c])"

definition json_quote :: "string \<Rightarrow> string" where
  "json_quote t = char_of (34 :: nat) # concat (map json_escape t) @ [char_of (34 :: nat)]"

definition json_pair :: "string \<Rightarrow> string \<Rightarrow> string" where
  "json_pair a b = ''['' @ json_quote a @ '','' @ json_quote b @ '']''"

record report_input =
  fi_names :: "string list"
  fi_runId :: ident
  fi_expectedRunRevision :: jsnum
  fi_idempotencyKey :: string
  fi_content :: report_content

definition checkWriter :: "principal_context \<Rightarrow> unit kop" where
  "checkWriter actor =
     bindM (requirePrincipal (pc_principalId actor)) (\<lambda>prin.
       assertWriterContextAuthority prin actor False)"

definition report_command :: "report_input \<Rightarrow> nat \<Rightarrow> string \<Rightarrow> nat \<Rightarrow> kernel_command" where
  "report_command inp revision contentDigest byteLength =
     CmdPublishArtifact
       \<lparr>idempotencyKey = json_pair (fi_runId inp) (fi_idempotencyKey inp),
        pub_runId = fi_runId inp, pub_expectedRunRevision = revision,
        pub_contentDigest = contentDigest, pub_byteLength = byteLength\<rparr>"

definition authorize_actor :: "report_input \<Rightarrow> principal_context \<Rightarrow> unit top" where
  "authorize_actor inp actor =
     seqM (writerCheck (checkWriter actor))
          (withDatabaseAccess (bindM (authorizeReport (fi_runId inp) actor) (\<lambda>_. ret ())))"

text \<open>
  \<open>finalizeReport\<close> awaits twice: while it reads the stream and while the storage puts the
  bytes. \<open>reading\<close> and \<open>put\<close> are what happens meanwhile: arbitrary operations of other
  callers on the kernel, and the storage's failure. The digest is SHA-256 of the bytes.
\<close>

definition finalizeReport ::
  "(8 word list \<Rightarrow> string) \<Rightarrow> (string \<Rightarrow> 8 word list \<Rightarrow> unit top) option \<Rightarrow> unit top \<Rightarrow>
   (kernel_command \<Rightarrow> string) \<Rightarrow> report_input \<Rightarrow> principal_context \<Rightarrow> string option \<Rightarrow>
   command_result top" where
  "finalizeReport artifactDigest storage reading hashPayload inp actor operation =
     seqM assertOpen
    (seqM (validateReportInput (fi_names inp) (fi_runId inp) (fi_idempotencyKey inp)
             (fi_expectedRunRevision inp))
    (bindM (needM (err InvalidCommand) storage) (\<lambda>put.
     seqM (authorize_actor inp actor)
    (seqM reading
    (bindM (liftE (collectReport (fi_content inp))) (\<lambda>content.
     seqM (authorize_actor inp actor)
    (seqM (put (artifactDigest content) content)
          (execute_inner hashPayload
             [[''type'', ''idempotencyKey'', ''runId'', ''expectedRunRevision'', ''contentDigest'',
               ''byteLength'']]
             (report_command inp (case fi_expectedRunRevision inp of JInt n \<Rightarrow> nat n | JOther \<Rightarrow> 0)
                (artifactDigest content) (length content))
             actor operation))))))))"

end
