(* ===== verification/Mappings.thy ===== *)
theory Mappings
  imports Invariants
begin

text \<open>
  The views of the stored rows (\<open>mappings.ts\<close> and the view interfaces of \<open>types.ts\<close>), except
  those of the leases, the outbox and the artifacts, which stand with their components. A view
  drops the secrets (lease tokens) and the bookkeeping columns of its row.
\<close>

record bootstrap_project =
  bp_id :: ident
  bp_name :: string

record bootstrap_channel =
  bc_id :: ident
  bc_projectId :: ident
  bc_name :: string

record bootstrap_agent =
  ba_id :: ident
  ba_principalId :: ident
  ba_projectId :: ident
  ba_name :: string
  ba_configRevision :: nat
  ba_config :: json

record message_revision_view =
  mrv_id :: ident
  mrv_revision :: nat
  mrv_body :: string
  mrv_tombstone :: bool
  mrv_targetAgentIds :: "ident list"
  mrv_createdAt :: instant

record message_view =
  msv_id :: ident
  msv_threadRootId :: ident
  msv_replyToMessageId :: "ident option"
  msv_authorPrincipalId :: ident
  msv_authorAgentId :: "ident option"
  msv_causedByAttentionId :: "ident option"
  msv_causedByRunId :: "ident option"
  msv_threadCursor :: nat
  msv_latestRevision :: nat
  msv_revisions :: "message_revision_view list"
  msv_targetAgentIds :: "ident list"
  msv_createdAt :: instant

record attention_view =
  atv_cursor :: nat
  atv_id :: ident
  atv_projectId :: ident
  atv_channelId :: ident
  atv_threadRootId :: ident
  atv_messageRevisionId :: ident
  atv_targetAgentId :: ident
  atv_triggerKind :: trigger_kind
  atv_status :: attention_status
  atv_revision :: nat
  atv_handlerLeaseHolderPrincipalId :: "ident option"
  atv_handlerLeaseExpiresAt :: "instant option"
  atv_resolutionOutcome :: "attention_outcome option"
  atv_resolvedRunId :: "ident option"
  atv_createdAt :: instant
  atv_resolvedAt :: "instant option"

record run_view =
  rnv_id :: ident
  rnv_projectId :: ident
  rnv_homeChannelId :: ident
  rnv_threadRootId :: ident
  rnv_ownerAgentId :: ident
  rnv_agentConfigRevision :: nat
  rnv_causalRootId :: ident
  rnv_parentAttentionId :: ident
  rnv_parentRunId :: "ident option"
  rnv_delegationDepth :: nat
  rnv_state :: run_state
  rnv_revision :: nat
  rnv_activationGeneration :: nat
  rnv_createdAt :: instant
  rnv_updatedAt :: instant
  rnv_terminalReason :: "string option"

record run_input_view =
  riv_id :: ident
  riv_runId :: ident
  riv_messageRevisionId :: ident
  riv_sequence :: nat
  riv_assignedByPrincipalId :: ident
  riv_assignedByActivationId :: "ident option"
  riv_sourceAttentionId :: "ident option"
  riv_disposition :: disposition
  riv_dispositionRevision :: nat
  riv_dispositionReason :: "string option"
  riv_supersededByRunInputId :: "ident option"
  riv_createdAt :: instant

record activation_view =
  aav_id :: ident
  aav_agentId :: ident
  aav_runId :: "ident option"
  aav_attentionId :: "ident option"
  aav_configRevision :: nat
  aav_runActivationGeneration :: "nat option"
  aav_runInputIds :: "ident list"
  aav_startedAt :: instant
  aav_expiresAt :: instant
  aav_revokedAt :: "instant option"
  aav_revocationReason :: "revocation_reason option"
  aav_finishedAt :: "instant option"
  aav_outcome :: "activation_outcome option"
  aav_detail :: "string option"

record provider_attempt_view =
  pav_id :: ident
  pav_activationId :: ident
  pav_runId :: "ident option"
  pav_adapter :: string
  pav_adapterVersion :: string
  pav_capabilitySnapshot :: json
  pav_runInputIds :: "ident list"
  pav_requestIdempotencyKey :: string
  pav_status :: provider_status
  pav_detail :: "string option"
  pav_startedAt :: instant
  pav_finishedAt :: "instant option"

record activity_view =
  rav_id :: ident
  rav_runId :: ident
  rav_activationId :: "ident option"
  rav_providerAttemptId :: "ident option"
  rav_sequence :: nat
  rav_kind :: string
  rav_payload :: json
  rav_retentionClass :: retention_class
  rav_createdAt :: instant

definition mapProject :: "project_row \<Rightarrow> bootstrap_project" where
  "mapProject row = \<lparr>bp_id = pj_id row, bp_name = pj_name row\<rparr>"

definition mapChannel :: "channel_row \<Rightarrow> bootstrap_channel" where
  "mapChannel row = \<lparr>bc_id = ch_id row, bc_projectId = ch_project_id row, bc_name = ch_name row\<rparr>"

text \<open>The row of an agent is joined with one of its configuration revisions.\<close>

definition mapAgent :: "agent_row \<Rightarrow> agent_config_row \<Rightarrow> bootstrap_agent" where
  "mapAgent row config =
     \<lparr>ba_id = ag_id row, ba_principalId = ag_principal_id row, ba_projectId = ag_project_id row,
      ba_name = ag_name row, ba_configRevision = ac_revision config, ba_config = ac_config config\<rparr>"

definition mapMessageRevision :: "message_revision_row \<Rightarrow> ident list \<Rightarrow> message_revision_view" where
  "mapMessageRevision row targetAgentIds =
     \<lparr>mrv_id = mr_id row, mrv_revision = mr_revision row, mrv_body = mr_body row,
      mrv_tombstone = mr_tombstone row, mrv_targetAgentIds = targetAgentIds,
      mrv_createdAt = mr_created_at row\<rparr>"

text \<open>
  \<open>latest_revision\<close> is a column of the row, or the largest revision a snapshot knows.
\<close>

definition mapMessage ::
  "message_row \<Rightarrow> nat \<Rightarrow> message_revision_view list \<Rightarrow> ident list \<Rightarrow> message_view" where
  "mapMessage row latestRevision revisions targetAgentIds =
     \<lparr>msv_id = ms_id row, msv_threadRootId = ms_thread_root_id row,
      msv_replyToMessageId = ms_reply_to_message_id row,
      msv_authorPrincipalId = ms_author_principal_id row,
      msv_authorAgentId = ms_author_agent_id row,
      msv_causedByAttentionId = ms_caused_by_attention_id row,
      msv_causedByRunId = ms_caused_by_run_id row, msv_threadCursor = ms_thread_sequence row,
      msv_latestRevision = latestRevision, msv_revisions = revisions,
      msv_targetAgentIds = targetAgentIds, msv_createdAt = ms_created_at row\<rparr>"

definition mapAttention :: "attention_row \<Rightarrow> attention_view" where
  "mapAttention row =
     \<lparr>atv_cursor = at_sequence row, atv_id = at_id row, atv_projectId = at_project_id row,
      atv_channelId = at_channel_id row, atv_threadRootId = at_thread_root_id row,
      atv_messageRevisionId = at_message_revision_id row,
      atv_targetAgentId = at_target_agent_id row, atv_triggerKind = at_trigger_kind row,
      atv_status = at_status row, atv_revision = at_revision row,
      atv_handlerLeaseHolderPrincipalId = at_handler_lease_holder row,
      atv_handlerLeaseExpiresAt = at_handler_lease_expires_at row,
      atv_resolutionOutcome = at_resolution_outcome row,
      atv_resolvedRunId = at_resolved_run_id row, atv_createdAt = at_created_at row,
      atv_resolvedAt = at_resolved_at row\<rparr>"

definition mapRun :: "run_row \<Rightarrow> run_view" where
  "mapRun row =
     \<lparr>rnv_id = rn_id row, rnv_projectId = rn_project_id row,
      rnv_homeChannelId = rn_home_channel_id row, rnv_threadRootId = rn_thread_root_id row,
      rnv_ownerAgentId = rn_owner_agent_id row,
      rnv_agentConfigRevision = rn_agent_config_revision row,
      rnv_causalRootId = rn_causal_root_id row, rnv_parentAttentionId = rn_parent_attention_id row,
      rnv_parentRunId = rn_parent_run_id row, rnv_delegationDepth = rn_delegation_depth row,
      rnv_state = rn_state row, rnv_revision = rn_revision row,
      rnv_activationGeneration = rn_activation_generation row, rnv_createdAt = rn_created_at row,
      rnv_updatedAt = rn_updated_at row, rnv_terminalReason = rn_terminal_reason row\<rparr>"

definition mapRunInput :: "run_input_row \<Rightarrow> run_input_view" where
  "mapRunInput row =
     \<lparr>riv_id = ri_id row, riv_runId = ri_run_id row,
      riv_messageRevisionId = ri_message_revision_id row, riv_sequence = ri_run_input_sequence row,
      riv_assignedByPrincipalId = ri_assigned_by_principal_id row,
      riv_assignedByActivationId = ri_assigned_by_activation_id row,
      riv_sourceAttentionId = ri_source_attention_id row, riv_disposition = ri_disposition row,
      riv_dispositionRevision = ri_disposition_revision row,
      riv_dispositionReason = ri_disposition_reason row,
      riv_supersededByRunInputId = ri_superseded_by row, riv_createdAt = ri_created_at row\<rparr>"

definition mapActivation :: "activation_row \<Rightarrow> ident list \<Rightarrow> activation_view" where
  "mapActivation row runInputIds =
     \<lparr>aav_id = aa_id row, aav_agentId = aa_agent_id row, aav_runId = aa_run_id row,
      aav_attentionId = aa_attention_id row, aav_configRevision = aa_config_revision row,
      aav_runActivationGeneration = aa_run_activation_generation row,
      aav_runInputIds = runInputIds, aav_startedAt = aa_started_at row,
      aav_expiresAt = aa_expires_at row, aav_revokedAt = aa_revoked_at row,
      aav_revocationReason = aa_revocation_reason row, aav_finishedAt = aa_finished_at row,
      aav_outcome = aa_outcome row, aav_detail = aa_detail row\<rparr>"

definition mapProviderAttempt :: "provider_attempt_row \<Rightarrow> provider_attempt_view" where
  "mapProviderAttempt row =
     \<lparr>pav_id = pa_id row, pav_activationId = pa_activation_id row, pav_runId = pa_run_id row,
      pav_adapter = pa_adapter row, pav_adapterVersion = pa_adapter_version row,
      pav_capabilitySnapshot = pa_capability_snapshot row, pav_runInputIds = pa_run_input_ids row,
      pav_requestIdempotencyKey = pa_request_idempotency_key row, pav_status = pa_status row,
      pav_detail = pa_detail row, pav_startedAt = pa_started_at row,
      pav_finishedAt = pa_finished_at row\<rparr>"

definition mapActivity :: "activity_row \<Rightarrow> activity_view" where
  "mapActivity row =
     \<lparr>rav_id = ra_id row, rav_runId = ra_run_id row, rav_activationId = ra_activation_id row,
      rav_providerAttemptId = ra_provider_attempt_id row, rav_sequence = ra_sequence row,
      rav_kind = ra_kind row, rav_payload = ra_payload row,
      rav_retentionClass = ra_retention_class row, rav_createdAt = ra_created_at row\<rparr>"

end
