(* ===== verification/Projections.thy ===== *)
theory Projections
  imports History Mappings Artifacts Outbox
begin

text \<open>
  The read side of the kernel (\<open>projections.ts\<close>): the projections of a thread and of a run, now and at
  an event of the past, the pages of events, attentions, activity and outbox rows, the status
  of the agents, and the recovery of attention work whose activation expired. A projection at
  an event reads, of every component, the newest version up to that event.

  A statement's ORDER BY is a stable sort of its rows, LIMIT a prefix, and a JOIN the pairs that
  meet its condition; an index hint changes nothing.
\<close>

section \<open>Snapshots\<close>

text \<open>\<open>created_event_sequence <= n\<close>, which a null column never meets.\<close>

definition created_by :: "nat \<Rightarrow> nat option \<Rightarrow> bool" where
  "created_by n v = (case v of None \<Rightarrow> False | Some m \<Rightarrow> m \<le> n)"

text \<open>The version with the greatest event sequence up to \<open>n\<close>.\<close>

definition version_at :: "('h \<Rightarrow> ident) \<Rightarrow> ('h \<Rightarrow> nat) \<Rightarrow> nat \<Rightarrow> ident \<Rightarrow> 'h list \<Rightarrow> 'h option" where
  "version_at key sq n i hs = latestHistory key sq i (filter (\<lambda>h. sq h \<le> n) hs)"

definition attention_at :: "nat \<Rightarrow> database \<Rightarrow> attention_row \<Rightarrow> attention_row option" where
  "attention_at n d a =
     map_option
       (\<lambda>h. a\<lparr>at_status := nh_status h, at_revision := nh_revision h,
              at_handler_lease_holder := nh_handler_lease_holder h,
              at_handler_lease_expires_at := nh_handler_lease_expires_at h,
              at_resolution_outcome := nh_resolution_outcome h,
              at_resolved_run_id := nh_resolved_run_id h, at_resolved_at := nh_resolved_at h\<rparr>)
       (version_at nh_attention_id nh_event_sequence n (at_id a) (d_attention_history d))"

definition run_at :: "nat \<Rightarrow> database \<Rightarrow> run_row \<Rightarrow> run_row option" where
  "run_at n d r =
     map_option
       (\<lambda>h. r\<lparr>rn_agent_config_revision := rh_agent_config_revision h, rn_state := rh_state h,
              rn_revision := rh_revision h, rn_activation_generation := rh_activation_generation h,
              rn_updated_at := rh_updated_at h, rn_terminal_reason := rh_terminal_reason h\<rparr>)
       (version_at rh_run_id rh_event_sequence n (rn_id r) (d_run_history d))"

definition run_input_at :: "nat \<Rightarrow> database \<Rightarrow> run_input_row \<Rightarrow> run_input_row option" where
  "run_input_at n d r =
     map_option
       (\<lambda>h. r\<lparr>ri_disposition := ih_disposition h, ri_disposition_revision := ih_disposition_revision h,
              ri_disposition_reason := ih_disposition_reason h, ri_superseded_by := ih_superseded_by h\<rparr>)
       (version_at ih_run_input_id ih_event_sequence n (ri_id r) (d_run_input_history d))"

definition activation_at :: "nat \<Rightarrow> database \<Rightarrow> activation_row \<Rightarrow> activation_row option" where
  "activation_at n d a =
     map_option
       (\<lambda>h. a\<lparr>aa_revoked_at := ah_revoked_at h, aa_revocation_reason := ah_revocation_reason h,
              aa_finished_at := ah_finished_at h, aa_outcome := ah_outcome h, aa_detail := ah_detail h\<rparr>)
       (version_at ah_activation_id ah_event_sequence n (aa_id a) (d_activation_history d))"

definition provider_attempt_at ::
  "nat \<Rightarrow> database \<Rightarrow> provider_attempt_row \<Rightarrow> provider_attempt_row option" where
  "provider_attempt_at n d p =
     map_option
       (\<lambda>h. p\<lparr>pa_status := ph_status h, pa_detail := ph_detail h, pa_finished_at := ph_finished_at h\<rparr>)
       (version_at ph_provider_attempt_id ph_event_sequence n (pa_id p) (d_provider_history d))"

text \<open>
  The event a snapshot id stands for: the last one of the command that wrote it, of the project
  or of all. The snapshot is absent (the latest event), null (before all events) or an event id.
\<close>

record snapshot =
  sn_sequence :: nat
  sn_eventId :: "ident option"

definition no_snapshot :: snapshot where
  "no_snapshot = \<lparr>sn_sequence = 0, sn_eventId = None\<rparr>"

definition last_event :: "(event_row \<Rightarrow> bool) \<Rightarrow> database \<Rightarrow> event_row option" where
  "last_event P d =
     (case sort_key ev_sequence (filter P (d_events d)) of [] \<Rightarrow> None | e # es \<Rightarrow> Some (last (e # es)))"

definition event_snapshot :: "event_row \<Rightarrow> snapshot" where
  "event_snapshot e = \<lparr>sn_sequence = ev_sequence e, sn_eventId = Some (ev_event_id e)\<rparr>"

definition resolve_snapshot :: "(event_row \<Rightarrow> bool) \<Rightarrow> ident option option \<Rightarrow> snapshot kop" where
  "resolve_snapshot among snapshotEventId =
     (case snapshotEventId of
        Some None \<Rightarrow> ret no_snapshot
      | Some (Some i) \<Rightarrow>
          bindM (query (\<lambda>d. find_first (\<lambda>e. among e \<and> ev_event_id e = i) (d_events d))) (\<lambda>found.
          bindM (needM (err NotFound) found) (\<lambda>event.
          bindM (query (last_event (\<lambda>e. among e \<and> ev_correlation_id e = ev_correlation_id event))) (\<lambda>boundary.
          bindM (needM InternalError boundary) (\<lambda>b. ret (event_snapshot b)))))
      | None \<Rightarrow>
          bindM (query (last_event among)) (\<lambda>latest.
          ret (case latest of None \<Rightarrow> no_snapshot | Some e \<Rightarrow> event_snapshot e)))"

definition resolvePublicSnapshot :: "ident \<Rightarrow> ident option option \<Rightarrow> snapshot kop" where
  "resolvePublicSnapshot projectId = resolve_snapshot (\<lambda>e. ev_project_id e = projectId)"

definition resolveAttentionSnapshot :: "ident option option \<Rightarrow> snapshot kop" where
  "resolveAttentionSnapshot = resolve_snapshot (\<lambda>e. True)"

definition eventSequence :: "ident \<Rightarrow> nat kop" where
  "eventSequence eventId =
     bindM (query (\<lambda>d. find_row ev_event_id eventId (d_events d))) (\<lambda>found.
     bindM (needM (err NotFound) found) (\<lambda>e. ret (ev_sequence e)))"

definition projectEventSequence :: "ident \<Rightarrow> ident \<Rightarrow> nat kop" where
  "projectEventSequence projectId eventId =
     bindM (query (\<lambda>d. find_first (\<lambda>e. ev_project_id e = projectId \<and> ev_event_id e = eventId)
              (d_events d))) (\<lambda>found.
     bindM (needM (err NotFound) found) (\<lambda>e. ret (ev_sequence e)))"

section \<open>Pages\<close>

text \<open>\<open>rows.slice(0, limit)\<close> and \<open>rows.length > limit\<close> of a statement with LIMIT \<open>limit + 1\<close>.\<close>

definition fetch :: "nat \<Rightarrow> 'r list \<Rightarrow> 'r list" where
  "fetch limit rows = take (limit + 1) rows"

definition page_rows :: "nat \<Rightarrow> 'r list \<Rightarrow> 'r list" where
  "page_rows limit rows = take limit (fetch limit rows)"

definition has_more :: "nat \<Rightarrow> 'r list \<Rightarrow> bool" where
  "has_more limit rows \<longleftrightarrow> length (fetch limit rows) > limit"

definition last_of :: "('r \<Rightarrow> 'c) \<Rightarrow> 'r list \<Rightarrow> 'c option" where
  "last_of f rows = (if rows = [] then None else Some (f (last rows)))"

definition next_cursor :: "nat \<Rightarrow> ('r \<Rightarrow> 'c) \<Rightarrow> 'r list \<Rightarrow> 'c option" where
  "next_cursor limit f rows = (if has_more limit rows then last_of f (page_rows limit rows) else None)"

record attention_page =
  atp_items :: "attention_view list"
  atp_nextCursor :: "nat option"
  atp_hasMore :: bool
  atp_snapshotEventId :: "ident option"

record activity_page =
  acp_items :: "activity_view list"
  acp_nextCursor :: "nat option"
  acp_hasMore :: bool

record activity_window =
  aw_items :: "activity_view list"
  aw_hasEarlier :: bool
  aw_earliestSequence :: "nat option"
  aw_latestSequence :: "nat option"

record outbox_page =
  obp_items :: "outbox_view list"
  obp_nextCursor :: "nat option"
  obp_hasMore :: bool

record event_page =
  evp_events :: "event_row list"
  evp_scannedThroughEventId :: "ident option"
  evp_hasMore :: bool

definition open_attention_rows ::
  "ident option \<Rightarrow> ident option \<Rightarrow> nat \<Rightarrow> nat \<Rightarrow> database \<Rightarrow> attention_row list" where
  "open_attention_rows projectId targetAgentId afterCursor n d =
     map (\<lambda>a. a\<lparr>at_resolution_outcome := None\<rparr>)
       (sort_key at_sequence
         (filter (\<lambda>a. at_status a = AttOpen \<and> at_sequence a > afterCursor \<and>
                      created_by n (at_created_event_sequence a) \<and>
                      matches (truthy projectId) (at_project_id a) \<and>
                      matches (truthy targetAgentId) (at_target_agent_id a))
           (List.map_filter (attention_at n d) (d_attentions d))))"

definition listOpenAttentions ::
  "ident option \<Rightarrow> ident option \<Rightarrow> nat \<Rightarrow> nat \<Rightarrow> ident option \<Rightarrow> nat \<Rightarrow> database \<Rightarrow> attention_page" where
  "listOpenAttentions projectId targetAgentId afterCursor n snapshotEventId limit d =
     (let rows = open_attention_rows projectId targetAgentId afterCursor n d in
      \<lparr>atp_items = map mapAttention (page_rows limit rows),
       atp_nextCursor = next_cursor limit at_sequence rows,
       atp_hasMore = has_more limit rows, atp_snapshotEventId = snapshotEventId\<rparr>)"

definition listOutboxEvents :: "nat \<Rightarrow> nat \<Rightarrow> bool \<Rightarrow> database \<Rightarrow> outbox_page" where
  "listOutboxEvents afterCursor limit includeAcknowledged d =
     (let rows = sort_key ob_sequence
            (filter (\<lambda>r. ob_sequence r > afterCursor \<and>
                         (includeAcknowledged \<or> ob_acknowledged_at r = None)) (d_outbox d)) in
      \<lparr>obp_items = map mapOutboxEvent (page_rows limit rows),
       obp_nextCursor = next_cursor limit ob_sequence rows,
       obp_hasMore = has_more limit rows\<rparr>)"

definition readAuthorizedPublicEvents ::
  "ident \<Rightarrow> ident option \<Rightarrow> nat \<Rightarrow> nat \<Rightarrow> principal_read_scope \<Rightarrow> database \<Rightarrow> event_page" where
  "readAuthorizedPublicEvents projectId afterEventId afterEventSequence limit scope d =
     (let rows = sort_key ev_sequence
            (filter (\<lambda>e. ev_project_id e = projectId \<and> ev_sequence e > afterEventSequence) (d_events d));
          scannedRows = page_rows limit rows in
      \<lparr>evp_events = filterVisiblePublicEvents scope d scannedRows,
       evp_scannedThroughEventId =
         (case last_of ev_event_id scannedRows of None \<Rightarrow> afterEventId | Some i \<Rightarrow> Some i),
       evp_hasMore = has_more limit rows\<rparr>)"

text \<open>Sequence bounds are safe integers, the upper one positive and above the lower one.\<close>

definition activity_bounds :: "jsnum option \<Rightarrow> jsnum option \<Rightarrow> (nat \<times> nat option) kop" where
  "activity_bounds afterSequence beforeSequence =
     (case (afterSequence, beforeSequence) of
        (Some JOther, _) \<Rightarrow> raise (err InvalidCommand)
      | (_, Some JOther) \<Rightarrow> raise (err InvalidCommand)
      | (None, None) \<Rightarrow> ret (0, None)
      | (Some (JInt a), None) \<Rightarrow>
          if 0 \<le> a \<and> a \<le> MAX_SAFE_INTEGER then ret (nat a, None) else raise (err InvalidCommand)
      | (None, Some (JInt b)) \<Rightarrow>
          if 1 \<le> b \<and> b \<le> MAX_SAFE_INTEGER then ret (0, Some (nat b)) else raise (err InvalidCommand)
      | (Some (JInt a), Some (JInt b)) \<Rightarrow>
          if 0 \<le> a \<and> a \<le> MAX_SAFE_INTEGER \<and> 1 \<le> b \<and> b \<le> MAX_SAFE_INTEGER \<and> a < b
          then ret (nat a, Some (nat b)) else raise (err InvalidCommand))"

definition activity_rows :: "ident \<Rightarrow> nat \<Rightarrow> nat option \<Rightarrow> database \<Rightarrow> activity_row list" where
  "activity_rows runId after before d =
     sort_key ra_sequence
       (filter (\<lambda>r. ra_run_id r = runId \<and> ra_sequence r > after \<and>
                    (case before of None \<Rightarrow> True | Some b \<Rightarrow> ra_sequence r < b)) (d_activities d))"

definition listActivity :: "ident \<Rightarrow> jsnum option \<Rightarrow> nat \<Rightarrow> jsnum option \<Rightarrow> activity_page kop" where
  "listActivity runId afterSequence limit beforeSequence =
     bindM (activity_bounds afterSequence beforeSequence) (\<lambda>(after, before).
     let backwards = (beforeSequence \<noteq> None \<and> afterSequence = None) in
     bindM (query (\<lambda>d. let rows = activity_rows runId after before d in if backwards then rev rows else rows))
       (\<lambda>rows.
        let items = map mapActivity (page_rows limit rows) in
        ret \<lparr>acp_items = (if backwards then rev items else items),
             acp_nextCursor = next_cursor limit ra_sequence rows,
             acp_hasMore = has_more limit rows\<rparr>))"

text \<open>The newest \<open>limit\<close> rows, oldest first.\<close>

definition activity_window_of :: "nat \<Rightarrow> activity_row list \<Rightarrow> activity_window" where
  "activity_window_of limit rows =
     (let newest = rev (sort_key ra_sequence rows);
          items = map mapActivity (rev (page_rows limit newest)) in
      \<lparr>aw_items = items, aw_hasEarlier = has_more limit newest,
       aw_earliestSequence = map_option rav_sequence (if items = [] then None else Some (hd items)),
       aw_latestSequence = last_of rav_sequence items\<rparr>)"

definition latestActivityWindow :: "ident \<Rightarrow> nat \<Rightarrow> database \<Rightarrow> activity_window" where
  "latestActivityWindow runId limit d =
     activity_window_of limit (filter (\<lambda>r. ra_run_id r = runId) (d_activities d))"

definition latestActivityWindowAt :: "ident \<Rightarrow> nat \<Rightarrow> nat \<Rightarrow> database \<Rightarrow> activity_window" where
  "latestActivityWindowAt runId n limit d =
     activity_window_of limit
       (filter (\<lambda>r. ra_run_id r = runId \<and> created_by n (ra_created_event_sequence r)) (d_activities d))"

section \<open>Projections\<close>

record bootstrap_projection =
  bpr_project :: bootstrap_project
  bpr_channels :: "bootstrap_channel list"
  bpr_agents :: "bootstrap_agent list"
  bpr_openAttentions :: attention_page
  bpr_latestEventId :: "ident option"

record thread_projection =
  tp_projectId :: ident
  tp_channelId :: ident
  tp_threadRootId :: ident
  tp_cursor :: nat
  tp_messages :: "message_view list"
  tp_attentions :: "attention_view list"
  tp_runs :: "run_view list"
  tp_artifacts :: "artifact_view list"

record run_projection =
  rp_run :: run_view
  rp_inputs :: "run_input_view list"
  rp_activations :: "activation_view list"
  rp_providerAttempts :: "provider_attempt_view list"
  rp_activity :: activity_window
  rp_artifacts :: "artifact_view list"

text \<open>An agent joined with a revision of its configuration.\<close>

definition agent_with_config :: "database \<Rightarrow> nat \<Rightarrow> agent_row \<Rightarrow> bootstrap_agent option" where
  "agent_with_config d revision a =
     map_option (mapAgent a)
       (find_first (\<lambda>c. ac_agent_id c = ag_id a \<and> ac_revision c = revision) (d_agent_configs d))"

definition getBootstrap :: "ident \<Rightarrow> ident option \<Rightarrow> bootstrap_projection kop" where
  "getBootstrap projectId attentionTargetAgentId =
     bindM (requireProject projectId) (\<lambda>project.
     bindM (query (\<lambda>d. map mapChannel (sort_key (\<lambda>c. (ch_name c, ch_id c))
              (filter (\<lambda>c. ch_project_id c = projectId) (d_channels d))))) (\<lambda>channels.
     bindM (query (\<lambda>d. List.map_filter (\<lambda>a. agent_with_config d (ag_current_config_revision a) a)
              (sort_key (\<lambda>a. (ag_name a, ag_id a))
                (filter (\<lambda>a. ag_project_id a = projectId) (d_agents d))))) (\<lambda>agents.
     bindM (resolvePublicSnapshot projectId None) (\<lambda>snapshot.
     bindM (query (listOpenAttentions (Some projectId) attentionTargetAgentId 0 (sn_sequence snapshot)
              (sn_eventId snapshot) 100)) (\<lambda>attentions.
     ret \<lparr>bpr_project = mapProject project, bpr_channels = channels, bpr_agents = agents,
          bpr_openAttentions = attentions, bpr_latestEventId = sn_eventId snapshot\<rparr>)))))"

definition getActivationAgentConfig :: "ident \<Rightarrow> bootstrap_agent kop" where
  "getActivationAgentConfig activationId =
     bindM (query (\<lambda>d.
       case find_row aa_id activationId (d_activations d) of
         None \<Rightarrow> None
       | Some activation \<Rightarrow>
           (case find_row ag_id (aa_agent_id activation) (d_agents d) of
              None \<Rightarrow> None
            | Some a \<Rightarrow> agent_with_config d (aa_config_revision activation) a))) (\<lambda>found.
     needM (err NotFound) found)"

definition revisionMentionTargets :: "ident \<Rightarrow> nat option \<Rightarrow> database \<Rightarrow> ident list" where
  "revisionMentionTargets messageRevisionId snapshotEventSequence d =
     sort (map mn_target_agent_id
       (filter (\<lambda>r. mn_message_revision_id r = messageRevisionId \<and>
                    (case snapshotEventSequence of
                       None \<Rightarrow> True | Some n \<Rightarrow> created_by n (mn_created_event_sequence r)))
         (d_mentions d)))"

text \<open>A message with its revisions (those of a snapshot), of which one is the latest.\<close>

definition message_with_revisions ::
  "nat option \<Rightarrow> database \<Rightarrow> message_row \<Rightarrow> nat \<Rightarrow> message_view" where
  "message_with_revisions n d message latestRevision =
     (let revisions = map (\<lambda>r. mapMessageRevision r (revisionMentionTargets (mr_id r) n d))
            (sort_key mr_revision (filter (\<lambda>r. mr_message_id r = ms_id message \<and>
               (case n of None \<Rightarrow> True | Some m \<Rightarrow> created_by m (mr_created_event_sequence r)))
               (d_message_revisions d)));
          latest = find_first (\<lambda>r. mrv_revision r = latestRevision) revisions in
      mapMessage message latestRevision revisions
        (case latest of None \<Rightarrow> [] | Some r \<Rightarrow> mrv_targetAgentIds r))"

definition thread_filter :: "ident \<Rightarrow> nat option \<Rightarrow> artifact_filter" where
  "thread_filter threadRootId n =
     \<lparr>vf_id = None, vf_threadRootId = Some threadRootId, vf_runId = None, vf_snapshotEventSequence = n\<rparr>"

definition run_filter :: "ident \<Rightarrow> nat option \<Rightarrow> artifact_filter" where
  "run_filter runId n =
     \<lparr>vf_id = None, vf_threadRootId = None, vf_runId = Some runId, vf_snapshotEventSequence = n\<rparr>"

definition getThreadProjection :: "ident \<Rightarrow> principal_read_scope \<Rightarrow> thread_projection kop" where
  "getThreadProjection threadRootId scope =
     bindM (requireThread threadRootId) (\<lambda>thread.
     query (\<lambda>d.
       \<lparr>tp_projectId = th_project_id thread, tp_channelId = th_channel_id thread,
        tp_threadRootId = threadRootId, tp_cursor = th_cursor thread,
        tp_messages = map (\<lambda>m. message_with_revisions None d m (ms_latest_revision m))
          (sort_key ms_thread_sequence
            (filter (\<lambda>m. ms_thread_root_id m = threadRootId) (d_messages d))),
        tp_attentions = map mapAttention (sort_key (\<lambda>a. (at_created_at a, at_id a))
          (filter (\<lambda>a. at_thread_root_id a = threadRootId) (d_attentions d))),
        tp_runs = map mapRun (sort_key (\<lambda>r. (rn_created_at r, rn_id r))
          (filter (\<lambda>r. rn_thread_root_id r = threadRootId) (d_runs d))),
        tp_artifacts = map mapArtifact
          (visibleArtifactRows (Some scope) (thread_filter threadRootId None) d)\<rparr>))"

text \<open>The inputs an activation was started with, in their order.\<close>

definition activation_input_ids :: "database \<Rightarrow> ident \<Rightarrow> ident list" where
  "activation_input_ids d activationId =
     map ai_run_input_id (sort_key ai_run_input_sequence
       (filter (\<lambda>r. ai_activation_id r = activationId) (d_activation_inputs d)))"

definition activation_with_inputs :: "database \<Rightarrow> activation_row \<Rightarrow> activation_view" where
  "activation_with_inputs d a = mapActivation a (activation_input_ids d (aa_id a))"

definition getRunProjection :: "ident \<Rightarrow> run_projection kop" where
  "getRunProjection runId =
     bindM (requireRun runId) (\<lambda>run.
     query (\<lambda>d.
       \<lparr>rp_run = mapRun run,
        rp_inputs = map mapRunInput (sort_key ri_run_input_sequence
          (filter (\<lambda>r. ri_run_id r = runId) (d_run_inputs d))),
        rp_activations = map (activation_with_inputs d) (sort_key (\<lambda>a. (aa_started_at a, aa_id a))
          (filter (\<lambda>a. aa_run_id a = Some runId) (d_activations d))),
        rp_providerAttempts = map mapProviderAttempt (sort_key (\<lambda>p. (pa_started_at p, pa_id p))
          (filter (\<lambda>p. pa_run_id p = Some runId) (d_provider_attempts d))),
        rp_activity = latestActivityWindow runId 100 d,
        rp_artifacts = map mapArtifact (visibleArtifactRows None (run_filter runId None) d)\<rparr>))"

text \<open>The greatest revision of the message a snapshot knows; without one \<open>integer\<close> throws.\<close>

definition latest_revision_at :: "nat \<Rightarrow> database \<Rightarrow> message_row \<Rightarrow> nat option" where
  "latest_revision_at n d m =
     (let revisions = map mr_revision (filter (\<lambda>r. mr_message_id r = ms_id m \<and>
            created_by n (mr_created_event_sequence r)) (d_message_revisions d)) in
      if revisions = [] then None else Some (foldr max revisions 0))"

definition getThreadProjectionAt :: "ident \<Rightarrow> nat \<Rightarrow> principal_read_scope \<Rightarrow> thread_projection kop" where
  "getThreadProjectionAt threadRootId n scope =
     bindM (requireThread threadRootId) (\<lambda>thread.
     bindM (query (last_event (\<lambda>e. ev_thread_root_id e = Some threadRootId \<and> ev_sequence e \<le> n \<and>
              ev_thread_cursor e \<noteq> None))) (\<lambda>cursorRow.
     bindM (query (\<lambda>d. sort_key ms_thread_sequence
              (filter (\<lambda>m. ms_thread_root_id m = threadRootId \<and>
                           created_by n (ms_created_event_sequence m)) (d_messages d)))) (\<lambda>messageRows.
     bindM (mapM messageRows (\<lambda>m.
              bindM (query (\<lambda>d. latest_revision_at n d m)) (\<lambda>v.
              bindM (needM InternalError v) (\<lambda>latestRevision.
              query (\<lambda>d. message_with_revisions (Some n) d m latestRevision))))) (\<lambda>messages.
     query (\<lambda>d.
       \<lparr>tp_projectId = th_project_id thread, tp_channelId = th_channel_id thread,
        tp_threadRootId = threadRootId,
        tp_cursor = (case cursorRow of None \<Rightarrow> 0
                     | Some e \<Rightarrow> (case ev_thread_cursor e of None \<Rightarrow> 0 | Some c \<Rightarrow> c)),
        tp_messages = messages,
        tp_attentions = map mapAttention (List.map_filter (attention_at n d)
          (sort_key (\<lambda>a. (at_created_at a, at_id a))
            (filter (\<lambda>a. at_thread_root_id a = threadRootId \<and>
                         created_by n (at_created_event_sequence a)) (d_attentions d)))),
        tp_runs = map mapRun (List.map_filter (run_at n d)
          (sort_key (\<lambda>r. (rn_created_at r, rn_id r))
            (filter (\<lambda>r. rn_thread_root_id r = threadRootId \<and>
                         created_by n (rn_created_event_sequence r)) (d_runs d)))),
        tp_artifacts = map mapArtifact
          (visibleArtifactRows (Some scope) (thread_filter threadRootId (Some n)) d)\<rparr>)))))"

definition getRunProjectionAt :: "ident \<Rightarrow> nat \<Rightarrow> run_projection kop" where
  "getRunProjectionAt runId n =
     bindM (query (\<lambda>d.
       case find_first (\<lambda>r. rn_id r = runId \<and> created_by n (rn_created_event_sequence r)) (d_runs d) of
         None \<Rightarrow> None | Some r \<Rightarrow> run_at n d r)) (\<lambda>found.
     bindM (needM (err NotFound) found) (\<lambda>run.
     query (\<lambda>d.
       \<lparr>rp_run = mapRun run,
        rp_inputs = map mapRunInput (List.map_filter (run_input_at n d)
          (sort_key ri_run_input_sequence (filter (\<lambda>r. ri_run_id r = runId \<and>
             created_by n (ri_created_event_sequence r)) (d_run_inputs d)))),
        rp_activations = map (activation_with_inputs d) (List.map_filter (activation_at n d)
          (sort_key (\<lambda>a. (aa_started_at a, aa_id a)) (filter (\<lambda>a. aa_run_id a = Some runId \<and>
             created_by n (aa_created_event_sequence a)) (d_activations d)))),
        rp_providerAttempts = map mapProviderAttempt (List.map_filter (provider_attempt_at n d)
          (sort_key (\<lambda>p. (pa_started_at p, pa_id p)) (filter (\<lambda>p. pa_run_id p = Some runId \<and>
             created_by n (pa_created_event_sequence p)) (d_provider_attempts d)))),
        rp_activity = latestActivityWindowAt runId n 100 d,
        rp_artifacts = map mapArtifact (visibleArtifactRows None (run_filter runId (Some n)) d)\<rparr>)))"

record 'p projection_page =
  pp_items :: "'p list"
  pp_nextAfterEventId :: "ident option"
  pp_hasMore :: bool
  pp_snapshotEventId :: "ident option"

text \<open>A thread or run joined with the event that created it.\<close>

definition created_in ::
  "nat \<Rightarrow> nat \<Rightarrow> ('r \<Rightarrow> nat option) \<Rightarrow> ('r \<Rightarrow> ident) \<Rightarrow> ('r \<Rightarrow> bool) \<Rightarrow> database \<Rightarrow> 'r list \<Rightarrow> (ident \<times> ident) list" where
  "created_in after n created key P d rows =
     List.map_filter (\<lambda>r. case created r of None \<Rightarrow> None
         | Some m \<Rightarrow> map_option (\<lambda>e. (key r, ev_event_id e)) (find_row ev_sequence m (d_events d)))
       (sort_key (\<lambda>r. (case created r of None \<Rightarrow> 0 | Some m \<Rightarrow> m, key r))
         (filter (\<lambda>r. P r \<and> created_by n (created r) \<and> \<not> created_by after (created r)) rows))"

definition projection_page_of ::
  "(ident \<Rightarrow> 'p kop) \<Rightarrow> nat \<Rightarrow> ident option \<Rightarrow> (ident \<times> ident) list \<Rightarrow> 'p projection_page kop" where
  "projection_page_of project limit snapshotEventId rows =
     bindM (mapM (page_rows limit rows) (\<lambda>(i, _). project i)) (\<lambda>items.
     ret \<lparr>pp_items = items, pp_nextAfterEventId = next_cursor limit snd rows,
          pp_hasMore = has_more limit rows, pp_snapshotEventId = snapshotEventId\<rparr>)"

definition listThreadProjections ::
  "ident \<Rightarrow> ident option \<Rightarrow> nat \<Rightarrow> nat \<Rightarrow> ident option \<Rightarrow> nat \<Rightarrow> principal_read_scope \<Rightarrow>
   thread_projection projection_page kop" where
  "listThreadProjections projectId channelId after n snapshotEventId limit scope =
     bindM (query (\<lambda>d. created_in after n th_created_event_sequence th_root_message_id
              (\<lambda>t. th_project_id t = projectId \<and> matches (truthy channelId) (th_channel_id t) \<and>
                   matches (truthy (ps_threadRootId scope)) (th_root_message_id t)) d (d_threads d)))
       (projection_page_of (\<lambda>i. getThreadProjectionAt i n scope) limit snapshotEventId)"

definition listRunProjections ::
  "ident \<Rightarrow> ident option \<Rightarrow> nat \<Rightarrow> nat \<Rightarrow> ident option \<Rightarrow> nat \<Rightarrow> principal_read_scope \<Rightarrow>
   run_projection projection_page kop" where
  "listRunProjections projectId channelId after n snapshotEventId limit scope =
     bindM (query (\<lambda>d. created_in after n rn_created_event_sequence rn_id
              (\<lambda>r. rn_project_id r = projectId \<and> matches (truthy channelId) (rn_home_channel_id r) \<and>
                   (case truthy (ps_runId scope) of
                      Some i \<Rightarrow> rn_id r = i
                    | None \<Rightarrow> truthy (ps_threadRootId scope) = None)) d (d_runs d)))
       (projection_page_of (\<lambda>i. getRunProjectionAt i n) limit snapshotEventId)"

end
