(* ===== verification/Recovery.thy ===== *)
theory Recovery
  imports Projections Execution Samples "HOL-Library.Multiset"
begin

text \<open>
  Who works and what was left behind (\<open>projections.ts\<close>, the predicates of \<open>invariants.ts\<close>): the
  SQL predicates for a live activation and the status of the agents they give, and the
  recovery of attention activations that expired before they settled, with its revision and
  its pages.
\<close>

section \<open>Live activations in SQL\<close>

text \<open>A comparison with NULL is not true.\<close>

definition sql_eq :: "'a option \<Rightarrow> 'a option \<Rightarrow> bool" where
  "sql_eq v w \<longleftrightarrow> v \<noteq> None \<and> v = w"

definition sql_after :: "instant option \<Rightarrow> instant \<Rightarrow> bool" where
  "sql_after v at = (case v of None \<Rightarrow> False | Some e \<Rightarrow> e > at)"

definition attentionDomainOwnershipPredicate :: "attention_row \<Rightarrow> domain_fence_row \<Rightarrow> bool" where
  "attentionDomainOwnershipPredicate attention fence \<longleftrightarrow>
     df_attention_id fence = at_id attention \<and>
     df_agent_id fence = at_target_agent_id attention \<and>
     df_project_id fence = at_project_id attention \<and>
     df_channel_id fence = at_channel_id attention \<and>
     df_thread_root_id fence = at_thread_root_id attention"

definition liveRunActivationPredicate :: "instant \<Rightarrow> activation_row \<Rightarrow> run_row \<Rightarrow> bool" where
  "liveRunActivationPredicate at activation run \<longleftrightarrow>
     aa_cause activation = CauseRun \<and> aa_finished_at activation = None \<and>
     aa_revoked_at activation = None \<and> aa_expires_at activation > at \<and>
     rn_state run = RunActive \<and>
     aa_run_activation_generation activation = Some (rn_activation_generation run) \<and>
     aa_agent_id activation = rn_owner_agent_id run"

definition liveAttentionActivationPredicate ::
  "instant \<Rightarrow> activation_row \<Rightarrow> attention_row \<Rightarrow> domain_fence_row \<Rightarrow> bool" where
  "liveAttentionActivationPredicate at activation attention fence \<longleftrightarrow>
     aa_cause activation = CauseAttention \<and> aa_finished_at activation = None \<and>
     aa_revoked_at activation = None \<and> aa_expires_at activation > at \<and>
     at_status attention = AttOpen \<and>
     sql_eq (at_handler_lease_token attention) (aa_attention_lease_token activation) \<and>
     sql_after (at_handler_lease_expires_at attention) at \<and>
     aa_agent_id activation = at_target_agent_id attention \<and>
     attentionDomainOwnershipPredicate attention fence \<and>
     sql_eq (df_lease_token fence) (at_handler_lease_token attention) \<and>
     sql_eq (df_lease_expires_at fence) (at_handler_lease_expires_at attention)"

section \<open>The status of the agents\<close>

datatype agent_status = StatusActive | StatusWaiting | StatusIdle

record agent_status_view =
  as_agentId :: ident
  as_liveRunActivationCount :: nat
  as_liveAttentionActivationCount :: nat
  as_liveActivationCount :: nat
  as_nonterminalRunCount :: nat
  as_status :: agent_status

definition nonterminal_run_count :: "ident \<Rightarrow> ident \<Rightarrow> database \<Rightarrow> nat" where
  "nonterminal_run_count projectId agentId d =
     length (filter (\<lambda>r. rn_project_id r = projectId \<and> rn_owner_agent_id r = agentId \<and>
                         (rn_state r = RunActive \<or> rn_state r = RunWaiting)) (d_runs d))"

definition live_run_count :: "instant \<Rightarrow> ident \<Rightarrow> ident \<Rightarrow> database \<Rightarrow> nat" where
  "live_run_count at projectId agentId d =
     length [a. a \<leftarrow> d_activations d, aa_agent_id a = agentId,
                r \<leftarrow> d_runs d, Some (rn_id r) = aa_run_id a, liveRunActivationPredicate at a r,
                rn_project_id r = projectId]"

definition live_attention_count :: "instant \<Rightarrow> ident \<Rightarrow> ident \<Rightarrow> database \<Rightarrow> nat" where
  "live_attention_count at projectId agentId d =
     length [a. a \<leftarrow> d_activations d, aa_agent_id a = agentId,
                t \<leftarrow> d_attentions d, Some (at_id t) = aa_attention_id a,
                f \<leftarrow> d_domain_fences d, df_attention_id f = at_id t,
                liveAttentionActivationPredicate at a t f, at_project_id t = projectId]"

definition agent_status_of :: "instant \<Rightarrow> ident \<Rightarrow> database \<Rightarrow> ident \<Rightarrow> agent_status_view" where
  "agent_status_of at projectId d i =
     (let run = live_run_count at projectId i d;
          attention = live_attention_count at projectId i d;
          live = run + attention;
          nonterminal = nonterminal_run_count projectId i d in
      \<lparr>as_agentId = i, as_liveRunActivationCount = run, as_liveAttentionActivationCount = attention,
       as_liveActivationCount = live, as_nonterminalRunCount = nonterminal,
       as_status = (if live > 0 then StatusActive else if nonterminal > 0 then StatusWaiting
                    else StatusIdle)\<rparr>)"

definition getProjectAgentStatus :: "ident \<Rightarrow> ident option \<Rightarrow> agent_status_view list kop" where
  "getProjectAgentStatus projectId agentId =
     bindM (query (\<lambda>d. map ag_id (sort_key (\<lambda>a. (ag_name a, ag_id a))
              (filter (\<lambda>a. ag_project_id a = projectId \<and> matches (truthy agentId) (ag_id a))
                (d_agents d))))) (\<lambda>agents.
     seqM (case truthy agentId of
             None \<Rightarrow> ret ()
           | Some i \<Rightarrow>
               whenM (agents = [])
                 (bindM (query (\<lambda>d. find_row ag_id i (d_agents d))) (\<lambda>existing.
                  raise (err (if existing = None then NotFound else Forbidden)))))
    (bindM clock (\<lambda>at.
     query (\<lambda>d. map (agent_status_of at projectId d) agents))))"

definition getProviderAttempt ::
  "ident \<Rightarrow> principal_row \<Rightarrow> principal_context \<Rightarrow> provider_attempt_view kop" where
  "getProviderAttempt providerAttemptId prin context =
     bindM (requireProviderAttempt providerAttemptId) (\<lambda>attempt.
     bindM (requireActivation (pa_activation_id attempt)) (\<lambda>activation.
     if pr_kind prin = Runtime then ret (mapProviderAttempt attempt)
     else
       seqM (guardM (pr_kind prin = Agent) (err Forbidden))
      (seqM (authorizeActivationActor prin context activation False)
      (seqM (assertActivationScopeCurrent activation)
            (ret (mapProviderAttempt attempt))))))"

section \<open>Recoverable attention work\<close>

definition recoverableUnfinishedAttentionPredicate ::
  "activation_row \<Rightarrow> attention_row \<Rightarrow> domain_fence_row \<Rightarrow> bool" where
  "recoverableUnfinishedAttentionPredicate activation attention fence \<longleftrightarrow>
     aa_cause activation = CauseAttention \<and> aa_finished_at activation = None \<and>
     aa_revoked_at activation = None \<and> aa_agent_id activation = at_target_agent_id attention \<and>
     at_status attention = AttOpen \<and>
     sql_eq (at_handler_lease_token attention) (aa_attention_lease_token activation) \<and>
     sql_eq (df_lease_token fence) (at_handler_lease_token attention) \<and>
     sql_eq (df_lease_expires_at fence) (at_handler_lease_expires_at attention) \<and>
     attentionDomainOwnershipPredicate attention fence"

definition recoverableFinishedAttentionPredicate ::
  "activation_row \<Rightarrow> attention_row \<Rightarrow> domain_fence_row \<Rightarrow> bool" where
  "recoverableFinishedAttentionPredicate activation attention fence \<longleftrightarrow>
     aa_cause activation = CauseAttention \<and> aa_finished_at activation \<noteq> None \<and>
     aa_agent_id activation = at_target_agent_id attention \<and>
     attentionDomainOwnershipPredicate attention fence"

text \<open>A recovery row joined with its activation, the attention and the domain fence.\<close>

definition recovery_join ::
  "(activation_row \<Rightarrow> attention_row \<Rightarrow> domain_fence_row \<Rightarrow> bool) \<Rightarrow> database \<Rightarrow> recovery_row \<Rightarrow> bool" where
  "recovery_join P d rec =
     list_ex (\<lambda>a. aa_id a = rx_activation_id rec \<and>
       list_ex (\<lambda>t. Some (at_id t) = aa_attention_id a \<and>
         list_ex (\<lambda>f. df_attention_id f = at_id t \<and> P a t f) (d_domain_fences d)) (d_attentions d))
       (d_activations d)"

definition recoverable :: "database \<Rightarrow> recovery_row \<Rightarrow> bool" where
  "recoverable d rec \<longleftrightarrow>
     rx_unfinished rec \<and> recovery_join recoverableUnfinishedAttentionPredicate d rec \<or>
     rx_finished_with_unsettled rec \<and> recovery_join recoverableFinishedAttentionPredicate d rec"

definition due :: "instant \<Rightarrow> database \<Rightarrow> recovery_row \<Rightarrow> bool" where
  "due at d rec \<longleftrightarrow>
     \<not> rx_expired_recoverable rec \<and> rx_expires_at rec \<le> at \<and> recoverable d rec"

record recovery_snapshot =
  rs_revision :: nat
  rs_observedAt :: instant
  rs_nextExpiryAt :: "instant option"

definition least :: "instant list \<Rightarrow> instant option" where
  "least ts = (case sort ts of [] \<Rightarrow> None | t # _ \<Rightarrow> Some t)"

definition readAttentionRecoverySnapshot :: "instant \<Rightarrow> recovery_snapshot kop" where
  "readAttentionRecoverySnapshot observedAt =
     query (\<lambda>d. \<lparr>rs_revision = d_recovery_revision d, rs_observedAt = observedAt,
                 rs_nextExpiryAt = least (map rx_expires_at
                   (filter (\<lambda>rec. \<not> rx_expired_recoverable rec \<and> rx_expires_at rec > observedAt \<and>
                                  recoverable d rec) (d_recovery d)))\<rparr>)"

definition getAttentionRecoverySnapshot :: "recovery_snapshot kop" where
  "getAttentionRecoverySnapshot =
     bindM clock (\<lambda>observedAt.
     bindM (query (\<lambda>d. map rx_activation_id (filter (due observedAt d) (d_recovery d)))) (\<lambda>promoted.
     seqM (update_where d_recovery_update (\<lambda>rec. rx_activation_id rec \<in> set promoted)
             (\<lambda>rec. rec\<lparr>rx_expired_recoverable := True\<rparr>))
    (seqM (whenM (promoted \<noteq> []) (writeDb (d_recovery_revision_update Suc)))
          (readAttentionRecoverySnapshot observedAt))))"

definition resolveAttentionRecoverySnapshot :: "jsnum option \<Rightarrow> recovery_snapshot kop" where
  "resolveAttentionRecoverySnapshot requestedRevision =
     (case requestedRevision of
        None \<Rightarrow> getAttentionRecoverySnapshot
      | Some JOther \<Rightarrow> raise (err InvalidCommand)
      | Some (JInt requested) \<Rightarrow>
          seqM (guardM (0 \<le> requested) (err InvalidCommand))
         (bindM clock (\<lambda>observedAt.
          bindM (readAttentionRecoverySnapshot observedAt) (\<lambda>current.
          bindM (query (\<lambda>d. list_ex (due observedAt d) (d_recovery d))) (\<lambda>pending.
          seqM (guardM (int (rs_revision current) = requested \<and> \<not> pending)
                  (KernelError StaleRevision (Some (JObj
                    [(''expectedRevision'', JNum requested),
                     (''actualRevision'', jnat (rs_revision current)),
                     (''observedAt'', JNum (rs_observedAt current)),
                     (''nextExpiryAt'', (case rs_nextExpiryAt current of None \<Rightarrow> JNull | Some t \<Rightarrow> JNum t))]))))
               (ret current))))))"

text \<open>
  The two ordered lists merged: the start and the activation of an expired and of an unsettled
  execution, as many as \<open>limit\<close>.
\<close>

type_synonym recovery_key = "instant \<times> ident"

fun mergeRecoveryRows :: "nat \<Rightarrow> recovery_key list \<Rightarrow> recovery_key list \<Rightarrow> recovery_key list" where
  "mergeRecoveryRows 0 expired finished = []"
| "mergeRecoveryRows (Suc limit) [] [] = []"
| "mergeRecoveryRows (Suc limit) [] (u # us) = u # mergeRecoveryRows limit [] us"
| "mergeRecoveryRows (Suc limit) (e # es) [] = e # mergeRecoveryRows limit es []"
| "mergeRecoveryRows (Suc limit) (e # es) (u # us) =
     (if fst e < fst u \<or> (fst e = fst u \<and> snd e < snd u)
      then e # mergeRecoveryRows limit es (u # us)
      else u # mergeRecoveryRows limit (e # es) us)"

record recoverable_view =
  rxv_cursor :: recovery_key
  rxv_attention :: attention_view
  rxv_activation :: activation_view
  rxv_providerAttempts :: "provider_attempt_view list"

record recoverable_page =
  rxp_items :: "recoverable_view list"
  rxp_nextCursor :: "recovery_key option"
  rxp_hasMore :: bool
  rxp_recoverySnapshot :: recovery_snapshot

definition recovery_keys ::
  "(database \<Rightarrow> recovery_row \<Rightarrow> bool) \<Rightarrow> recovery_key option \<Rightarrow> database \<Rightarrow> recovery_key list" where
  "recovery_keys P afterCursor d =
     sort (map (\<lambda>rec. (rx_started_at rec, rx_activation_id rec))
       (filter (\<lambda>rec. rx_expired_recoverable rec \<and> P d rec \<and>
                      (case afterCursor of None \<Rightarrow> True
                       | Some c \<Rightarrow> (rx_started_at rec, rx_activation_id rec) > c)) (d_recovery d)))"

definition expired_keys :: "recovery_key option \<Rightarrow> database \<Rightarrow> recovery_key list" where
  "expired_keys = recovery_keys (recovery_join recoverableUnfinishedAttentionPredicate)"

definition unsettled_keys :: "recovery_key option \<Rightarrow> database \<Rightarrow> recovery_key list" where
  "unsettled_keys = recovery_keys (\<lambda>d rec. rx_finished_with_unsettled rec \<and>
     recovery_join recoverableFinishedAttentionPredicate d rec)"

definition hydrate :: "recovery_key \<Rightarrow> recoverable_view kop" where
  "hydrate key =
     bindM (query (\<lambda>d. find_row aa_id (snd key) (d_activations d))) (\<lambda>found.
     bindM (needM InternalError found) (\<lambda>activation.
     bindM (needM InternalError (aa_attention_id activation)) (\<lambda>attentionId.
     bindM (query (\<lambda>d. find_row at_id attentionId (d_attentions d))) (\<lambda>found.
     bindM (needM InternalError found) (\<lambda>attention.
     query (\<lambda>d. \<lparr>rxv_cursor = (aa_started_at activation, snd key),
                 rxv_attention = mapAttention attention, rxv_activation = mapActivation activation [],
                 rxv_providerAttempts = map mapProviderAttempt
                   (sort_key (\<lambda>p. (pa_started_at p, pa_id p))
                     (filter (\<lambda>p. pa_activation_id p = snd key) (d_provider_attempts d)))\<rparr>))))))"

definition listRecoverableAttentionExecutions ::
  "recovery_key option \<Rightarrow> jsnum option \<Rightarrow> nat \<Rightarrow> recoverable_page kop" where
  "listRecoverableAttentionExecutions afterCursor requestedRevision limit =
     bindM (resolveAttentionRecoverySnapshot requestedRevision) (\<lambda>recoverySnapshot.
     seqM (case afterCursor of None \<Rightarrow> ret () | Some c \<Rightarrow> requireNonEmpty (snd c))
    (bindM (query (\<lambda>d. mergeRecoveryRows (limit + 1) (fetch limit (expired_keys afterCursor d))
              (fetch limit (unsettled_keys afterCursor d)))) (\<lambda>rows.
     bindM (mapM (take limit rows) hydrate) (\<lambda>items.
     ret \<lparr>rxp_items = items,
          rxp_nextCursor = (if length rows > limit then last_of rxv_cursor items else None),
          rxp_hasMore = length rows > limit, rxp_recoverySnapshot = recoverySnapshot\<rparr>))))"

section \<open>Properties\<close>

lemma sort_least: "(\<And>x. x \<in> set xs \<Longrightarrow> a \<le> x) \<Longrightarrow> sort (a # xs) = (a :: recovery_key) # sort xs"
  by (simp add: insort_is_Cons)

lemma merge_order: "(fst e < fst u \<or> fst e = fst u \<and> snd e < snd u) \<longleftrightarrow> (e :: recovery_key) < u"
  by (cases e; cases u) auto

lemma merge_is_sort:
  "sorted es \<Longrightarrow> sorted us \<Longrightarrow> mergeRecoveryRows n es us = take n (sort (es @ us))"
proof (induction n es us rule: mergeRecoveryRows.induct)
  case (3 n u us)
  then show ?case by (simp add: sorted_sort_id insort_is_Cons)
next
  case (4 n e es)
  then show ?case by (simp add: sorted_sort_id insort_is_Cons)
next
  case (5 n e es u us)
  show ?case
  proof (cases "e < u")
    case True
    then have "e \<le> x" if "x \<in> set (es @ u # us)" for x
      using that "5.prems" by (simp, metis order.strict_implies_order order.trans)
    then have "sort ((e # es) @ u # us) = e # sort (es @ u # us)"
      unfolding append_Cons by (rule sort_least)
    then show ?thesis using True 5 merge_order [of e u] by simp
  next
    case False
    then have "sort (u # e # es @ us) = u # sort (e # es @ us)"
      using "5.prems" by (intro sort_least) auto
    moreover have "sort ((e # es) @ u # us) = sort (u # e # es @ us)"
      by (rule properties_for_sort) (simp, rule sorted_sort)
    ultimately show ?thesis using False 5 merge_order [of e u] by (simp, blast)
  qed
qed simp_all

lemma merge_take:
  "n \<le> m \<Longrightarrow> n \<le> l \<Longrightarrow> mergeRecoveryRows n (take m es) (take l us) = mergeRecoveryRows n es us"
proof (induction n es us arbitrary: m l rule: mergeRecoveryRows.induct)
  case (3 n u us)
  then show ?case by (cases l) auto
next
  case (4 n e es)
  then show ?case by (cases m) auto
next
  case (5 n e es u us)
  then show ?case using "5.IH"(1) [of "m - 1" l] "5.IH"(2) [of m "l - 1"] by (cases m; cases l) auto
qed simp_all

lemma sorted_recovery_keys: "sorted (expired_keys c d)" "sorted (unsettled_keys c d)"
  by (simp_all add: expired_keys_def unsettled_keys_def recovery_keys_def)

text \<open>C34: A recovery page is in order and complete. The rows that merging the two bounded lists
  gives are the first rows of all recoverable executions after the cursor, the expired and the
  unsettled ones together, ordered by start and activation.\<close>

theorem recovery_page_is_sorted_union:
  "mergeRecoveryRows (limit + 1) (fetch limit (expired_keys c d)) (fetch limit (unsettled_keys c d)) =
   fetch limit (sort (expired_keys c d @ unsettled_keys c d))"
proof -
  have "mergeRecoveryRows (limit + 1) (fetch limit (expired_keys c d)) (fetch limit (unsettled_keys c d)) =
      mergeRecoveryRows (limit + 1) (expired_keys c d) (unsettled_keys c d)"
    unfolding fetch_def by (rule merge_take) simp_all
  also have "\<dots> = fetch limit (sort (expired_keys c d @ unsettled_keys c d))"
    unfolding fetch_def by (rule merge_is_sort [OF sorted_recovery_keys])
  finally show ?thesis .
qed

text \<open>C35: The SQL that counts live activations and the check a command makes agree. For a stored
  activation of a run or of an attention, whose lease columns are set together, the predicate
  holds exactly when the check finds no reason against the activation at that instant.\<close>

theorem live_predicates_agree:
  assumes "at_handler_lease_token attention = None \<longleftrightarrow> at_handler_lease_expires_at attention = None"
  shows "(aa_cause activation = CauseRun \<longrightarrow>
      liveRunActivationPredicate at activation run =
      (activationValidityAt activation (ScopeRun run) at = None)) \<and>
    (aa_cause activation = CauseAttention \<longrightarrow>
      liveAttentionActivationPredicate at activation attention fence =
      (activationValidityAt activation (ScopeAttention attention (Some fence)) at = None))"
  using assms
  by (auto simp: liveRunActivationPredicate_def liveAttentionActivationPredicate_def
      activationValidityAt_def attentionDomainFenceMatches_def attentionDomainOwnershipPredicate_def
      sql_eq_def sql_after_def split: option.splits)

lemma live_predicates_agree_witness:
  "liveRunActivationPredicate 1000 sample_activation sample_run \<and>
   \<not> liveRunActivationPredicate 300000 sample_activation sample_run"
proof -
  have lease: "at_handler_lease_token sample_attention = None \<longleftrightarrow>
      at_handler_lease_expires_at sample_attention = None"
    and cause: "aa_cause sample_activation = CauseRun"
    by (simp_all add: sample_attention_def sample_activation_def)
  moreover have "activationValidityAt sample_activation (ScopeRun sample_run) 1000 = None"
    "activationValidityAt sample_activation (ScopeRun sample_run) 300000 \<noteq> None"
    by (simp_all add: sample_activation_def sample_run_def activationValidityAt_def)
  ultimately show ?thesis
    using live_predicates_agree [OF lease, of sample_activation 1000 sample_run]
      live_predicates_agree [OF lease, of sample_activation 300000 sample_run] cause by simp
qed

end
