(* ===== verification/ArtifactStorage.thy ===== *)
theory ArtifactStorage
  imports Artifacts
begin

text \<open>
  The content-addressed storage of report bytes (\<open>artifact-storage.ts\<close>). The directory
  \<open>sha256\<close> of the storage is a map from file names to bytes: publishing links a synced temporary
  file under the digest's name, which never replaces a file that is there, and every read is
  verified against the digest. SHA-256 is the parameter \<open>sha\<close> (the hexadecimal digest). Not
  modelled are the checks of the directories and of the file's inode, syncing, and I/O errors.
\<close>

type_synonym bytes = "8 word list"
type_synonym storage = "string \<rightharpoonup> bytes"

definition hex_digit :: "char \<Rightarrow> bool" where
  "hex_digit c \<longleftrightarrow> c \<in> set ''0123456789abcdef''"

text \<open>\<open>/^sha256:[0-9a-f]{64}$/\<close>, and the part after the colon.\<close>

definition canonical_digest :: "string \<Rightarrow> bool" where
  "canonical_digest digest \<longleftrightarrow>
     take 7 digest = ''sha256:'' \<and> length (drop 7 digest) = 64 \<and> list_all hex_digit (drop 7 digest)"

definition digestHex :: "string \<Rightarrow> kerror + string" where
  "digestHex digest = (if canonical_digest digest then Inr (drop 7 digest) else Inl InternalError)"

definition artifactDigest :: "(bytes \<Rightarrow> string) \<Rightarrow> bytes \<Rightarrow> string" where
  "artifactDigest sha content = ''sha256:'' @ sha content"

definition verifyArtifactContent :: "(bytes \<Rightarrow> string) \<Rightarrow> bytes \<Rightarrow> string \<Rightarrow> nat \<Rightarrow> ('s, kerror, unit) op" where
  "verifyArtifactContent sha content digest byteLength =
     bindM (liftE (digestHex digest)) (\<lambda>_.
     guardM (byteLength \<le> MAX_REPORT_BYTES \<and> length content = byteLength \<and>
             artifactDigest sha content = digest) InternalError)"

definition read_file :: "(bytes \<Rightarrow> string) \<Rightarrow> string \<Rightarrow> nat \<Rightarrow> (storage, kerror, bytes) op" where
  "read_file sha digest byteLength =
     bindM (liftE (digestHex digest)) (\<lambda>hex.
     seqM (guardM (byteLength \<le> MAX_REPORT_BYTES) InternalError)
    (bindM (gets (\<lambda>fs. fs hex)) (\<lambda>found.
     bindM (needM InternalError found) (\<lambda>file.
     seqM (guardM (length file = byteLength) InternalError)
    (let content = take (byteLength + 1) file in
     seqM (verifyArtifactContent sha content digest byteLength)
          (ret content))))))"

definition link_file :: "string \<Rightarrow> bytes \<Rightarrow> storage \<Rightarrow> storage" where
  "link_file hex content fs = (if fs hex = None then fs(hex \<mapsto> content) else fs)"

definition put_file :: "(bytes \<Rightarrow> string) \<Rightarrow> string \<Rightarrow> bytes \<Rightarrow> (storage, kerror, unit) op" where
  "put_file sha digest content =
     seqM (guardM (length content \<le> MAX_REPORT_BYTES) InternalError)
    (seqM (verifyArtifactContent sha content digest (length content))
    (bindM (liftE (digestHex digest)) (\<lambda>hex.
     seqM (modify (link_file hex content))
    (bindM (read_file sha digest (length content)) (\<lambda>existing.
     guardM (existing = content) InternalError)))))"

section \<open>What the storage promises\<close>

text \<open>The contract the kernel relies on: a put that returns makes the bytes readable for good.\<close>

locale content_store =
  fixes put :: "string \<Rightarrow> bytes \<Rightarrow> ('s, kerror, unit) op"
    and get :: "string \<Rightarrow> nat \<Rightarrow> ('s, kerror, bytes) op"
    and holds :: "'s \<Rightarrow> string \<Rightarrow> bytes \<Rightarrow> bool"
  assumes put_holds: "put digest content s = (Inr u, t) \<Longrightarrow> holds t digest content"
    and put_keeps: "put digest content s = (r, t) \<Longrightarrow> holds s other bs \<Longrightarrow> holds t other bs"
    and get_holds: "holds s digest bs \<Longrightarrow> get digest (length bs) s = (Inr bs, s)"
    and get_frame: "get digest n s = (q, t) \<Longrightarrow> t = s"
begin

lemma get_after_put:
  assumes "put digest content s = (Inr u, t)"
  shows "get digest (length content) t = (Inr content, t)"
  using get_holds [OF put_holds [OF assms]] .

text \<open>Any number of further puts and reads.\<close>

inductive later :: "'s \<Rightarrow> 's \<Rightarrow> bool" where
  now: "later s s"
| puts: "later s t \<Longrightarrow> put digest content t = (r, u) \<Longrightarrow> later s u"
| gets: "later s t \<Longrightarrow> get digest n t = (q, u) \<Longrightarrow> later s u"

lemma later_holds: "later s t \<Longrightarrow> holds s digest bs \<Longrightarrow> holds t digest bs"
proof (induction rule: later.induct)
  case (puts s t digest' content r u)
  then show ?case using put_keeps [OF puts.hyps(2)] by simp
next
  case (gets s t digest' n q u)
  then show ?case using get_frame [OF gets.hyps(2)] by simp
qed

lemma readable_for_good:
  assumes "put digest content s = (Inr u, t)" and "later t v"
  shows "get digest (length content) v = (Inr content, v)"
  using get_holds [OF later_holds [OF assms(2) put_holds [OF assms(1)]]] .

end

definition stored :: "(bytes \<Rightarrow> string) \<Rightarrow> storage \<Rightarrow> string \<Rightarrow> bytes \<Rightarrow> bool" where
  "stored sha fs digest bs \<longleftrightarrow>
     canonical_digest digest \<and> artifactDigest sha bs = digest \<and> length bs \<le> MAX_REPORT_BYTES \<and>
     fs (drop 7 digest) = Some bs"

lemma read_file_stored: "stored sha fs digest bs \<Longrightarrow> read_file sha digest (length bs) fs = (Inr bs, fs)"
  by (simp add: stored_def read_file_def verifyArtifactContent_def digestHex_def run_simps)

lemma read_file_frame: "read_file sha digest n fs = (r, gs) \<Longrightarrow> gs = fs"
  by (auto simp: read_file_def verifyArtifactContent_def run_simps split: sum.splits option.splits if_splits)

lemma read_file_verified:
  assumes "read_file sha digest n fs = (Inr bs, gs)"
  shows "gs = fs \<and> stored sha fs digest bs \<and> length bs = n"
  using assms
  by (auto simp: read_file_def verifyArtifactContent_def digestHex_def run_simps stored_def
      split: sum.splits option.splits if_splits)

lemma link_keeps: "stored sha fs digest bs \<Longrightarrow> stored sha (link_file hex content fs) digest bs"
  by (auto simp: stored_def link_file_def)

lemma put_file_state:
  "put_file sha digest content fs = (r, gs) \<Longrightarrow> gs = fs \<or> (\<exists>hex. gs = link_file hex content fs)"
  by (auto simp: put_file_def verifyArtifactContent_def run_simps
      split: sum.splits option.splits if_splits prod.splits dest!: read_file_frame)

interpretation files: content_store "put_file sha" "read_file sha" "stored sha" for sha
proof
  fix digest content fs u gs
  assume "put_file sha digest content fs = (Inr u, gs)"
  then show "stored sha gs digest content"
    by (auto simp: put_file_def run_simps split: sum.splits if_splits prod.splits
        dest!: read_file_verified)
next
  fix digest content fs r gs other bs
  assume "put_file sha digest content fs = (r, gs)" "stored sha fs other bs"
  then show "stored sha gs other bs" using put_file_state link_keeps by metis
qed (simp_all add: read_file_stored read_file_frame)

text \<open>C36: The storage keeps what it accepted. When putting bytes under a digest returned, reading
  the digest returns exactly those bytes, after any number of further puts and reads, failed ones
  included: no put replaces a stored file, and what is read has the digest asked for.\<close>

theorem stored_report_stays_readable:
  assumes "put_file sha digest content fs = (Inr u, gs)" and "files.later sha gs hs"
  shows "read_file sha digest (length content) hs = (Inr content, hs) \<and>
    artifactDigest sha content = digest"
  using files.readable_for_good [OF assms] files.put_holds [OF assms(1)] by (simp add: stored_def)

definition sample_sha :: "bytes \<Rightarrow> string" where
  "sample_sha bs = replicate 64 (if bs = [] then CHR ''0'' else CHR ''a'')"

lemma stored_report_stays_readable_witness:
  "read_file sample_sha (''sha256:'' @ replicate 64 (CHR ''a'')) 1
     (snd (put_file sample_sha (''sha256:'' @ replicate 64 (CHR ''a'')) [2]
       (snd (put_file sample_sha (''sha256:'' @ replicate 64 (CHR ''a'')) [1] Map.empty)))) =
   (Inr [1], snd (put_file sample_sha (''sha256:'' @ replicate 64 (CHR ''a'')) [2]
       (snd (put_file sample_sha (''sha256:'' @ replicate 64 (CHR ''a'')) [1] Map.empty))))"
proof -
  let ?d = "''sha256:'' @ replicate 64 (CHR ''a'')"
  let ?m = "put_file sample_sha ?d [1] Map.empty"
  have "hex_digit (CHR ''a'')" by (simp add: hex_digit_def)
  then have "\<not> isl (fst ?m)"
    by (simp add: put_file_def read_file_def verifyArtifactContent_def digestHex_def canonical_digest_def
        artifactDigest_def sample_sha_def link_file_def MAX_REPORT_BYTES_def run_simps list_all_iff)
  then obtain u t where run: "?m = (Inr u, t)" by (rule returned_run)
  have "files.later sample_sha t (snd (put_file sample_sha ?d [2] t))"
    by (rule files.later.puts [OF files.later.now]) (rule prod.collapse [symmetric])
  from stored_report_stays_readable [OF run this] show ?thesis using run by simp
qed

end
