(* ===== verification/Queries.thy ===== *)
theory Queries
  imports Transactions Recovery ArtifactStorage
begin

text \<open>
  The queries of the kernel (\<open>kernel.ts\<close>): one constructor per query of the interface, the
  transaction that answers it, the internal event feed, and the reading of an artifact's bytes.
  A query that advances the recovery clock or expires a lease commits what it wrote; every
  failing query is rolled back, whatever its error.
\<close>

datatype kernel_query =
    GetWorktreeStorageIdentity
  | ListPhysicalWorktrees "ident option" "ident option" "jsnum option"
  | GetPhysicalWorktree ident
  | GetArtifact ident
  | GetBootstrap ident
  | GetActivationAgentConfig ident
  | GetThreadProjection ident
  | GetRunProjection ident
  | ListActivity ident "jsnum option" "jsnum option" "jsnum option"
  | ListOpenAttentions "ident option" "ident option" "nat option" "ident option option" "jsnum option"
  | ListOutboxEvents "nat option" "jsnum option" bool
  | GetProviderAttempt ident
  | GetOperationalCorrelation entity_type ident
  | GetAttentionRecoverySnapshot
  | ListRecoverableAttentionExecutions "recovery_key option" "jsnum option" "jsnum option"
  | ListThreadProjections ident "ident option" "ident option" "ident option option" "jsnum option"
  | ListRunProjections ident "ident option" "ident option" "ident option option" "jsnum option"
  | ReadPublicEvents ident "ident option" "jsnum option"
  | GetProjectAgentStatus ident "ident option"
  | GetWorktreeWriterLease ident
  | ListWorktreeWriterLeaseEvents ident "nat option" "jsnum option"

datatype query_result =
    StorageIdentity string
  | PhysicalWorktrees "physical_worktree_view list" bool
  | PhysicalWorktree physical_worktree_view
  | Artifact artifact_view
  | Bootstrap bootstrap_projection
  | AgentConfig bootstrap_agent
  | ThreadProjection thread_projection
  | RunProjection run_projection
  | ActivityPage activity_page
  | AttentionPage attention_page
  | OutboxPage outbox_page
  | ProviderAttempt provider_attempt_view
  | OperationalCorrelation string
  | RecoverySnapshot recovery_snapshot
  | RecoverablePage recoverable_page
  | ThreadPage "thread_projection projection_page"
  | RunPage "run_projection projection_page"
  | EventPage event_page
  | AgentStatus "agent_status_view list"
  | WriterLease lease_view
  | LeaseEventPage lease_event_page

definition or_zero :: "nat option \<Rightarrow> nat" where
  "or_zero v = (case v of None \<Rightarrow> 0 | Some n \<Rightarrow> n)"

definition answer :: "('a \<Rightarrow> query_result) \<Rightarrow> 'a kop \<Rightarrow> query_result kop" where
  "answer wrap m = bindM m (\<lambda>x. ret (wrap x))"

section \<open>The queries\<close>

definition query_worktrees ::
  "ident option \<Rightarrow> ident option \<Rightarrow> jsnum option \<Rightarrow> principal_row \<Rightarrow> query_result kop" where
  "query_worktrees runId afterWorktreeId limit prin =
     seqM (requireKind prin Runtime)
    (seqM (case runId of None \<Rightarrow> ret () | Some i \<Rightarrow> bindM (requireRun i) (\<lambda>_. ret ()))
    (bindM (boundedLimit limit) (\<lambda>n.
     bindM (query (\<lambda>d. fetch n (sort (map pw_worktree_id
              (filter (\<lambda>w. pw_worktree_id w > (case afterWorktreeId of None \<Rightarrow> [] | Some a \<Rightarrow> a) \<and>
                           matches runId (pw_run_id w)) (d_worktrees d)))))) (\<lambda>rows.
     bindM (mapM (take n rows) (\<lambda>i. getPhysicalWorktree i prin)) (\<lambda>items.
     ret (PhysicalWorktrees items (length rows > n)))))))"

definition query_bootstrap :: "ident \<Rightarrow> principal_row \<Rightarrow> query_result kop" where
  "query_bootstrap projectId prin =
     seqM (assertProjectAccess prin projectId)
    (bindM (if pr_kind prin = Agent
            then bindM (requireAgentForPrincipal (pr_id prin)) (\<lambda>agent. ret (Some (ag_id agent)))
            else ret None) (\<lambda>target.
     answer Bootstrap (getBootstrap projectId target)))"

definition query_thread :: "ident \<Rightarrow> principal_row \<Rightarrow> principal_context \<Rightarrow> query_result kop" where
  "query_thread threadRootId prin context =
     bindM (requireThread threadRootId) (\<lambda>thread.
     seqM (assertProjectAccess prin (th_project_id thread))
    (bindM (assertAgentQueryScope prin context (th_project_id thread) threadRootId None) (\<lambda>scope.
     answer ThreadProjection (getThreadProjection threadRootId scope))))"

text \<open>What \<open>GetRunProjection\<close> and \<open>ListActivity\<close> check.\<close>

definition query_run_access :: "ident \<Rightarrow> principal_row \<Rightarrow> principal_context \<Rightarrow> unit kop" where
  "query_run_access runId prin context =
     bindM (requireRun runId) (\<lambda>run.
     seqM (assertProjectAccess prin (rn_project_id run))
    (bindM (assertAgentQueryScope prin context (rn_project_id run) (rn_thread_root_id run) (Some runId)) (\<lambda>_.
     ret ())))"

definition query_attentions ::
  "ident option \<Rightarrow> ident option \<Rightarrow> nat option \<Rightarrow> ident option option \<Rightarrow> jsnum option \<Rightarrow> principal_row \<Rightarrow>
   query_result kop" where
  "query_attentions projectId targetAgentId afterCursor snapshotEventId limit prin =
     (if pr_kind prin = Agent then
        bindM (requireAgentForPrincipal (pr_id prin)) (\<lambda>agent.
        seqM (guardM (matches (truthy projectId) (ag_project_id agent)) (err Forbidden))
       (seqM (guardM (matches (truthy targetAgentId) (ag_id agent)) (err Forbidden))
       (bindM (resolvePublicSnapshot (ag_project_id agent) snapshotEventId) (\<lambda>snapshot.
        bindM (boundedLimit limit) (\<lambda>n.
        answer AttentionPage (query (listOpenAttentions (Some (ag_project_id agent)) (Some (ag_id agent))
          (or_zero afterCursor) (sn_sequence snapshot) (sn_eventId snapshot) n)))))))
      else
        seqM (case truthy projectId of None \<Rightarrow> ret () | Some p \<Rightarrow> assertProjectAccess prin p)
       (bindM (case truthy projectId of
                 Some p \<Rightarrow> resolvePublicSnapshot p snapshotEventId
               | None \<Rightarrow> resolveAttentionSnapshot snapshotEventId) (\<lambda>snapshot.
        bindM (boundedLimit limit) (\<lambda>n.
        answer AttentionPage (query (listOpenAttentions projectId targetAgentId
          (or_zero afterCursor) (sn_sequence snapshot) (sn_eventId snapshot) n))))))"

text \<open>The correlation of the first event of the entity, or of its run for a run input.\<close>

definition first_correlation :: "entity_type \<Rightarrow> ident \<Rightarrow> database \<Rightarrow> string option" where
  "first_correlation ty i d =
     (case sort_key ev_sequence (filter (\<lambda>e. ev_entity_type e = ty \<and> ev_entity_id e = i) (d_events d)) of
        [] \<Rightarrow> None | e # _ \<Rightarrow> Some (ev_correlation_id e))"

definition query_correlation :: "entity_type \<Rightarrow> ident \<Rightarrow> principal_row \<Rightarrow> query_result kop" where
  "query_correlation entityType entityId prin =
     seqM (requireKind prin Runtime)
    (bindM (query (\<lambda>d.
       case first_correlation entityType entityId d of
         Some c \<Rightarrow> Some c
       | None \<Rightarrow>
           if entityType = EntRunInput then
             (case find_row ri_id entityId (d_run_inputs d) of
                None \<Rightarrow> None | Some r \<Rightarrow> first_correlation EntRun (ri_run_id r) d)
           else None)) (\<lambda>found.
     answer OperationalCorrelation (needM (err NotFound) found)))"

text \<open>The scope, the snapshot and the position a page of projections starts from.\<close>

definition query_page_start ::
  "ident \<Rightarrow> ident option \<Rightarrow> ident option \<Rightarrow> ident option option \<Rightarrow> principal_row \<Rightarrow> principal_context \<Rightarrow>
   (principal_read_scope \<times> snapshot \<times> snapshot) kop" where
  "query_page_start projectId channelId afterEventId snapshotEventId prin context =
     seqM (case truthy channelId of None \<Rightarrow> ret () | Some c \<Rightarrow> assertProjectChannel projectId c)
    (bindM (resolvePrincipalReadScope prin context projectId) (\<lambda>scope.
     seqM (guardM (\<not> (truthy channelId \<noteq> None \<and> truthy (ps_channelId scope) \<noteq> None \<and>
                       channelId \<noteq> ps_channelId scope)) (err Forbidden))
    (bindM (resolvePublicSnapshot projectId snapshotEventId) (\<lambda>snapshot.
     bindM (resolvePublicSnapshot projectId (Some afterEventId)) (\<lambda>after.
     seqM (guardM (\<not> sn_sequence after > sn_sequence snapshot) (err InvalidCommand))
          (ret (scope, snapshot, after)))))))"

definition query_threads ::
  "ident \<Rightarrow> ident option \<Rightarrow> ident option \<Rightarrow> ident option option \<Rightarrow> jsnum option \<Rightarrow> principal_row \<Rightarrow>
   principal_context \<Rightarrow> query_result kop" where
  "query_threads projectId channelId afterEventId snapshotEventId limit prin context =
     bindM (query_page_start projectId channelId afterEventId snapshotEventId prin context)
       (\<lambda>(scope, snapshot, after).
        bindM (boundedLimit limit) (\<lambda>n.
        answer ThreadPage (listThreadProjections projectId channelId (sn_sequence after)
          (sn_sequence snapshot) (sn_eventId snapshot) n scope)))"

definition query_runs ::
  "ident \<Rightarrow> ident option \<Rightarrow> ident option \<Rightarrow> ident option option \<Rightarrow> jsnum option \<Rightarrow> principal_row \<Rightarrow>
   principal_context \<Rightarrow> query_result kop" where
  "query_runs projectId channelId afterEventId snapshotEventId limit prin context =
     bindM (query_page_start projectId channelId afterEventId snapshotEventId prin context)
       (\<lambda>(scope, snapshot, after).
        bindM (boundedLimit limit) (\<lambda>n.
        answer RunPage (listRunProjections projectId channelId (sn_sequence after)
          (sn_sequence snapshot) (sn_eventId snapshot) n scope)))"

definition query_events ::
  "ident \<Rightarrow> ident option \<Rightarrow> jsnum option \<Rightarrow> principal_row \<Rightarrow> principal_context \<Rightarrow> query_result kop" where
  "query_events projectId afterEventId limit prin context =
     bindM (resolvePrincipalReadScope prin context projectId) (\<lambda>scope.
     bindM (case truthy afterEventId of
              None \<Rightarrow> ret 0 | Some i \<Rightarrow> projectEventSequence projectId i) (\<lambda>after.
     bindM (boundedLimit limit) (\<lambda>n.
     answer EventPage (query (readAuthorizedPublicEvents projectId afterEventId after n scope)))))"

definition query_body ::
  "kernel_query \<Rightarrow> principal_row \<Rightarrow> principal_context \<Rightarrow> query_result kop" where
  "query_body q prin context =
     (case q of
        GetWorktreeStorageIdentity \<Rightarrow>
          seqM (requireKind prin Runtime) (answer StorageIdentity (query d_storage_identity))
      | ListPhysicalWorktrees runId afterWorktreeId limit \<Rightarrow>
          query_worktrees runId afterWorktreeId limit prin
      | GetPhysicalWorktree i \<Rightarrow> answer PhysicalWorktree (getPhysicalWorktree i prin)
      | GetArtifact i \<Rightarrow> answer Artifact (getArtifact i context)
      | GetBootstrap projectId \<Rightarrow> query_bootstrap projectId prin
      | GetActivationAgentConfig i \<Rightarrow>
          seqM (requireKind prin Runtime) (answer AgentConfig (getActivationAgentConfig i))
      | GetThreadProjection i \<Rightarrow> query_thread i prin context
      | GetRunProjection i \<Rightarrow>
          seqM (query_run_access i prin context) (answer RunProjection (getRunProjection i))
      | ListActivity i afterSequence beforeSequence limit \<Rightarrow>
          seqM (query_run_access i prin context)
         (bindM (boundedLimit limit) (\<lambda>n.
          answer ActivityPage (listActivity i afterSequence n beforeSequence)))
      | ListOpenAttentions projectId targetAgentId afterCursor snapshotEventId limit \<Rightarrow>
          query_attentions projectId targetAgentId afterCursor snapshotEventId limit prin
      | ListOutboxEvents afterCursor limit includeAcknowledged \<Rightarrow>
          seqM (requireKind prin Runtime)
         (bindM (boundedLimit limit) (\<lambda>n.
          answer OutboxPage (query (listOutboxEvents (or_zero afterCursor) n includeAcknowledged))))
      | GetProviderAttempt i \<Rightarrow> answer ProviderAttempt (getProviderAttempt i prin context)
      | GetOperationalCorrelation ty i \<Rightarrow> query_correlation ty i prin
      | GetAttentionRecoverySnapshot \<Rightarrow>
          seqM (requireKind prin Runtime) (answer RecoverySnapshot getAttentionRecoverySnapshot)
      | ListRecoverableAttentionExecutions afterCursor recoveryRevision limit \<Rightarrow>
          seqM (requireKind prin Runtime)
         (bindM (boundedLimit limit) (\<lambda>n.
          answer RecoverablePage (listRecoverableAttentionExecutions afterCursor recoveryRevision n)))
      | ListThreadProjections projectId channelId afterEventId snapshotEventId limit \<Rightarrow>
          query_threads projectId channelId afterEventId snapshotEventId limit prin context
      | ListRunProjections projectId channelId afterEventId snapshotEventId limit \<Rightarrow>
          query_runs projectId channelId afterEventId snapshotEventId limit prin context
      | ReadPublicEvents projectId afterEventId limit \<Rightarrow>
          query_events projectId afterEventId limit prin context
      | GetProjectAgentStatus projectId agentId \<Rightarrow>
          bindM (requireProject projectId) (\<lambda>_.
          seqM (assertProjectAccess prin projectId)
               (answer AgentStatus (getProjectAgentStatus projectId agentId)))
      | GetWorktreeWriterLease i \<Rightarrow> answer WriterLease (getWorktreeWriterLease i prin)
      | ListWorktreeWriterLeaseEvents i afterCursor limit \<Rightarrow>
          bindM (boundedLimit limit) (\<lambda>n.
          answer LeaseEventPage (listWorktreeWriterLeaseEvents i (or_zero afterCursor) n prin)))"

section \<open>The query transaction\<close>

text \<open>
  \<open>#queryTransaction\<close> repeats the check that the kernel is open, which \<open>#withDatabaseAccess\<close> has just
  made; on the context alone it begins after it.
\<close>

definition queryTransaction :: "kernel_query \<Rightarrow> principal_context \<Rightarrow> query_result kop" where
  "queryTransaction q context =
     bindM (requirePrincipal (pc_principalId context)) (\<lambda>prin.
     atomically (query_body q prin context))"

definition query_kernel :: "kernel_query \<Rightarrow> principal_context \<Rightarrow> query_result top" where
  "query_kernel q context = withDatabaseAccess (queryTransaction q context)"

text \<open>The trusted event feed; \<open>mapPublicEvent\<close> gives its envelopes.\<close>

definition readEvents :: "ident option \<Rightarrow> jsnum \<Rightarrow> json list top" where
  "readEvents afterEventId limit =
     withDatabaseAccess
       (bindM (case truthy afterEventId of None \<Rightarrow> ret 0 | Some i \<Rightarrow> eventSequence i) (\<lambda>after.
        bindM (boundedLimit (Some limit)) (\<lambda>n.
        query (\<lambda>d. map mapPublicEvent (take n (sort_key ev_sequence
          (filter (\<lambda>e. ev_sequence e > after) (d_events d))))))))"

text \<open>
  \<open>readArtifact\<close> asks for the artifact, reads its bytes from the storage, checks them and asks
  again. What the storage does meanwhile is \<open>fetch_bytes\<close>; SHA-256 is \<open>sha\<close>.
\<close>

definition artifact_of :: "ident \<Rightarrow> principal_context \<Rightarrow> artifact_view top" where
  "artifact_of artifactId actor =
     bindM (query_kernel (GetArtifact artifactId) actor) (\<lambda>r.
     case r of Artifact a \<Rightarrow> ret a | _ \<Rightarrow> raise InternalError)"

definition readArtifact ::
  "(string \<Rightarrow> nat \<Rightarrow> bytes top) option \<Rightarrow> (bytes \<Rightarrow> string) \<Rightarrow> ident \<Rightarrow> principal_context \<Rightarrow>
   (artifact_view \<times> bytes) top" where
  "readArtifact storage sha artifactId actor =
     bindM (artifact_of artifactId actor) (\<lambda>artifact.
     bindM (needM (err InvalidCommand) storage) (\<lambda>fetch_bytes.
     bindM (fetch_bytes (av_contentDigest artifact) (av_byteLength artifact)) (\<lambda>content.
     seqM (verifyArtifactContent sha content (av_contentDigest artifact) (av_byteLength artifact))
    (bindM (artifact_of artifactId actor) (\<lambda>_.
     ret (artifact, content))))))"

end
