(* ===== verification/Bootstrap.thy ===== *)
theory Bootstrap
  imports Queries
begin

text \<open>
  Opening the kernel (\<open>database.ts\<close>): the checks of an existing file, the creation of the schema
  in an empty one with its causal limits and its bootstrap rows, all in one transaction. A
  file is its \<open>user_version\<close>, whether it has any object, and its tables. The comparison of
  the schema's fingerprint (\<open>schema-contract.ts\<close>) is the parameter \<open>contract\<close>.
\<close>

definition CURRENT_SCHEMA_VERSION :: nat where "CURRENT_SCHEMA_VERSION = 19"

record bootstrap_principal =
  bo_id :: ident
  bo_kind :: principal_kind
  bo_displayName :: string

record kernel_bootstrap =
  kb_principals :: "bootstrap_principal list option"
  kb_projects :: "bootstrap_project list option"
  kb_channels :: "bootstrap_channel list option"
  kb_agents :: "bootstrap_agent list option"

text \<open>The limits an operator asks for, as JavaScript numbers.\<close>

record causal_limits_option =
  lo_maxDepth :: jsnum
  lo_maxNonTerminalRunsPerRoot :: jsnum

section \<open>Causal limits\<close>

definition safe_from :: "int \<Rightarrow> jsnum \<Rightarrow> nat option" where
  "safe_from lo n =
     (case n of JOther \<Rightarrow> None
      | JInt i \<Rightarrow> if lo \<le> i \<and> i \<le> MAX_SAFE_INTEGER then Some (nat i) else None)"

definition limits_of :: "causal_limits_option \<Rightarrow> causal_limits_row option" where
  "limits_of l =
     (case (safe_from 0 (lo_maxDepth l), safe_from 1 (lo_maxNonTerminalRunsPerRoot l)) of
        (Some depth, Some most) \<Rightarrow> Some \<lparr>cl_max_depth = depth, cl_max_non_terminal = most\<rparr>
      | _ \<Rightarrow> None)"

definition default_limits :: causal_limits_option where
  "default_limits = \<lparr>lo_maxDepth = JInt 4, lo_maxNonTerminalRunsPerRoot = JInt 50\<rparr>"

definition initializeCausalLimits :: "causal_limits_option option \<Rightarrow> bool \<Rightarrow> unit kop" where
  "initializeCausalLimits requested newDatabase =
     bindM (needM (err InvalidCommand)
       (limits_of (case requested of None \<Rightarrow> default_limits | Some r \<Rightarrow> r))) (\<lambda>configured.
     if newDatabase then writeDb (d_causal_limits_update (\<lambda>_. Some configured))
     else
       bindM (query d_causal_limits) (\<lambda>found.
       bindM (needM (err Conflict) found) (\<lambda>existing.
       guardM (\<not> (requested \<noteq> None \<and>
                   (cl_max_depth existing \<noteq> cl_max_depth configured \<or>
                    cl_max_non_terminal existing \<noteq> cl_max_non_terminal configured))) (err Conflict))))"

section \<open>Bootstrap\<close>

text \<open>
  INSERT OR IGNORE skips a row that violates a UNIQUE or CHECK constraint; a missing foreign key is
  an error all the same.
\<close>

definition insert_or_ignore ::
  "(database \<Rightarrow> 'r list) \<Rightarrow> (('r list \<Rightarrow> 'r list) \<Rightarrow> database \<Rightarrow> database) \<Rightarrow>
   ('r \<Rightarrow> 'r \<Rightarrow> bool) \<Rightarrow> bool \<Rightarrow> (database \<Rightarrow> bool) \<Rightarrow> 'r \<Rightarrow> unit kop" where
  "insert_or_ignore get upd clash check references row =
     bindM (query (\<lambda>d. \<not> check \<or> list_ex (\<lambda>r. clash r row) (get d))) (\<lambda>skip.
     if skip then ret ()
     else bindM (query references) (\<lambda>found.
          seqM (guardM found ConstraintError) (writeDb (upd (\<lambda>rs. rs @ [row])))))"

definition insert_principal :: "bootstrap_principal \<Rightarrow> unit kop" where
  "insert_principal p =
     insert_or_ignore d_principals d_principals_update (\<lambda>r q. pr_id r = pr_id q) True (\<lambda>d. True)
       \<lparr>pr_id = bo_id p, pr_kind = bo_kind p, pr_display_name = bo_displayName p\<rparr>"

definition insert_project :: "bootstrap_project \<Rightarrow> unit kop" where
  "insert_project p =
     insert_or_ignore d_projects d_projects_update (\<lambda>r q. pj_id r = pj_id q) True (\<lambda>d. True)
       \<lparr>pj_id = bp_id p, pj_name = bp_name p\<rparr>"

definition insert_channel :: "bootstrap_channel \<Rightarrow> unit kop" where
  "insert_channel c =
     insert_or_ignore d_channels d_channels_update channel_clash True
       (\<lambda>d. find_row pj_id (bc_projectId c) (d_projects d) \<noteq> None)
       \<lparr>ch_id = bc_id c, ch_project_id = bc_projectId c, ch_name = bc_name c\<rparr>"

definition agent_clash :: "agent_row \<Rightarrow> agent_row \<Rightarrow> bool" where
  "agent_clash r q \<longleftrightarrow> ag_id r = ag_id q \<or> ag_principal_id r = ag_principal_id q"

definition insert_agent :: "bootstrap_agent \<Rightarrow> unit kop" where
  "insert_agent a =
     seqM (insert_or_ignore d_agents d_agents_update agent_clash (ba_configRevision a > 0)
             (\<lambda>d. find_row pr_id (ba_principalId a) (d_principals d) \<noteq> None \<and>
                  find_row pj_id (ba_projectId a) (d_projects d) \<noteq> None)
             \<lparr>ag_id = ba_id a, ag_principal_id = ba_principalId a, ag_project_id = ba_projectId a,
              ag_name = ba_name a, ag_current_config_revision = ba_configRevision a\<rparr>)
    (bindM clock (\<lambda>at.
     insert_or_ignore d_agent_configs d_agent_configs_update agent_config_clash (ba_configRevision a > 0)
       (\<lambda>d. find_row ag_id (ba_id a) (d_agents d) \<noteq> None)
       \<lparr>ac_agent_id = ba_id a, ac_revision = ba_configRevision a, ac_config = ba_config a,
        ac_created_at = at\<rparr>))"

definition applyBootstrap :: "kernel_bootstrap option \<Rightarrow> unit kop" where
  "applyBootstrap bootstrap =
     (case bootstrap of
        None \<Rightarrow> ret ()
      | Some b \<Rightarrow>
          seqM (forM (or_empty (kb_principals b)) insert_principal)
         (seqM (forM (or_empty (kb_projects b)) insert_project)
         (seqM (forM (or_empty (kb_channels b)) insert_channel)
               (forM (or_empty (kb_agents b)) insert_agent))))"

section \<open>Opening\<close>

definition assertEmptySchema :: "bool \<Rightarrow> unit kop" where
  "assertEmptySchema objects = guardM (\<not> objects) (err Conflict)"

definition validateExistingSchema ::
  "(database \<Rightarrow> kerror + unit) \<Rightarrow> nat \<Rightarrow> causal_limits_option option \<Rightarrow> unit kop" where
  "validateExistingSchema contract version limits =
     seqM (guardM (version = CURRENT_SCHEMA_VERSION) (err Conflict))
    (bindM (query contract) (\<lambda>r.
     seqM (liftE r) (initializeCausalLimits limits False)))"

text \<open>The empty tables of \<open>schemaSql\<close>, with the random identity it stores.\<close>

definition create_schema :: "string \<Rightarrow> unit kop" where
  "create_schema identity = writeDb (\<lambda>_. empty_database\<lparr>d_storage_identity := identity\<rparr>)"

definition initializeSchema ::
  "(database \<Rightarrow> kerror + unit) \<Rightarrow> string \<Rightarrow> nat \<Rightarrow> bool \<Rightarrow> causal_limits_option option \<Rightarrow>
   kernel_bootstrap option \<Rightarrow> unit kop" where
  "initializeSchema contract identity version objects limits bootstrap =
     atomically
       (if version \<noteq> 0 then validateExistingSchema contract version limits
        else
          seqM (assertEmptySchema objects)
         (seqM (create_schema identity)
         (seqM (initializeCausalLimits limits True)
               (applyBootstrap bootstrap))))"

text \<open>
  The read-only probe of an existing file, then the initialization. The kernel starts with the
  clock and the id factory of the options and with the file's tables.
\<close>

definition probe ::
  "(database \<Rightarrow> kerror + unit) \<Rightarrow> nat \<Rightarrow> bool \<Rightarrow> causal_limits_option option \<Rightarrow> unit kop" where
  "probe contract version objects limits =
     (if version = 0 then assertEmptySchema objects else validateExistingSchema contract version limits)"

definition openKernelContext ::
  "(database \<Rightarrow> kerror + unit) \<Rightarrow> string \<Rightarrow> bool \<Rightarrow> nat \<Rightarrow> bool \<Rightarrow> jsnum option \<Rightarrow>
   causal_limits_option option \<Rightarrow> kernel_bootstrap option \<Rightarrow> unit kop" where
  "openKernelContext contract identity exists version objects activationDurationMs limits bootstrap =
     bindM (boundedDuration (case activationDurationMs of None \<Rightarrow> JInt 300000 | Some n \<Rightarrow> n)) (\<lambda>duration.
     seqM (whenM exists (probe contract version objects limits))
    (seqM (initializeSchema contract identity version objects limits bootstrap)
          (modify (\<lambda>k. k\<lparr>k_activationDurationMs := duration, k_localWorktreeRevocations := []\<rparr>))))"

end
