(* ===== verification/Soundness.thy ===== *)
theory Soundness
  imports Bootstrap
begin

text \<open>
  What each operation contributes to the whole: every handler, every query and every check only
  appends (\<open>advances\<close>) and keeps the worktrees consistent (\<open>consistent\<close>). The evolution and
  preservation lemmas of the components are put together here along the transaction.
\<close>

section \<open>Every operation only appends\<close>

text \<open>No two stored results have the same key.\<close>

definition keys_ok :: "database \<Rightarrow> bool" where
  "keys_ok d \<longleftrightarrow> distinct (map record_key (d_idempotency d))"

text \<open>
  A replay may store a refreshed result for these commands; every other stored result stays.
\<close>

definition refreshable :: "command_type \<Rightarrow> bool" where
  "refreshable ct \<longleftrightarrow>
     ct \<in> {ClaimAttention, ClaimOutboxEvents, StartActivation, StartProviderAttempt,
           AcquireWorktreeWriterLease, RenewWorktreeWriterLease, QuarantineWorktreeWriterLease}"

definition same_record :: "idempotency_row \<Rightarrow> idempotency_row \<Rightarrow> bool" where
  "same_record r q \<longleftrightarrow>
     record_key q = record_key r \<and> ir_payload_hash q = ir_payload_hash r \<and>
     (refreshable (ir_command_name r) \<or> ir_result q = ir_result r)"

definition results_kept :: "idempotency_row list \<Rightarrow> idempotency_row list \<Rightarrow> bool" where
  "results_kept rs qs \<longleftrightarrow> (\<exists>ps ws. qs = ps @ ws \<and> list_all2 same_record rs ps)"

lemma same_record_refl: "same_record r r"
  by (simp add: same_record_def)

lemma same_record_trans: "same_record r q \<Longrightarrow> same_record q p \<Longrightarrow> same_record r p"
  by (auto simp: same_record_def record_key_def)

lemma results_kept_append: "results_kept rs (rs @ qs)"
  unfolding results_kept_def by (intro exI conjI) (auto intro: list.rel_refl same_record_refl)

lemma results_kept_refl: "results_kept rs rs"
  using results_kept_append [of rs "[]"] by simp

lemma results_kept_trans:
  assumes "results_kept rs qs" and "results_kept qs us"
  shows "results_kept rs us"
proof -
  obtain ps ws where qs: "qs = ps @ ws" and ps: "list_all2 same_record rs ps"
    using assms(1) by (auto simp: results_kept_def)
  obtain vs xs where us: "us = vs @ xs" and "list_all2 same_record (ps @ ws) vs"
    using assms(2) by (auto simp: results_kept_def qs)
  then obtain as bs where vs: "vs = as @ bs" and "list_all2 same_record ps as"
    by (auto simp: list_all2_append1)
  then have "list_all2 same_record rs as"
    using ps by (auto intro: list_all2_trans [OF same_record_trans])
  then show ?thesis unfolding results_kept_def us vs by auto
qed

lemma results_kept_update:
  "(\<And>r. P r \<Longrightarrow> same_record r (f r)) \<Longrightarrow> results_kept rs (update_rows P f rs)"
  unfolding results_kept_def
  by (rule exI [of _ "update_rows P f rs"], rule exI [of _ "[]"])
    (induction rs, simp_all add: same_record_refl)

lemma results_kept_find:
  assumes "results_kept rs qs" and "find_row record_key q rs = Some r"
  shows "\<exists>p. find_row record_key q qs = Some p \<and> same_record r p"
proof -
  obtain ps ws where qs: "qs = ps @ ws" and "list_all2 same_record rs ps"
    using assms(1) by (auto simp: results_kept_def)
  from this(2) assms(2) have "\<exists>p. find_row record_key q ps = Some p \<and> same_record r p"
    by (induction rs ps rule: list_all2_induct)
      (auto simp: find_row_Cons same_record_def split: if_splits)
  then show ?thesis by (auto simp: qs find_row_append)
qed

definition advances :: "kernel \<Rightarrow> kernel \<Rightarrow> bool" where
  "advances s t \<longleftrightarrow>
     extends (k_db s) (k_db t) \<and> seals (d_executions (k_db s)) (d_executions (k_db t)) \<and>
     (well_formed (k_db s) \<longrightarrow> well_formed (k_db t)) \<and>
     (keys_ok (k_db s) \<longrightarrow> keys_ok (k_db t)) \<and>
     results_kept (d_idempotency (k_db s)) (d_idempotency (k_db t)) \<and> k_cwd t = k_cwd s"

named_theorems advance_rules "operations of the kernel only append"

interpretation advance: evolution advances
proof unfold_locales
  show "advances s s" for s by (simp add: advances_def extends_refl seals_refl results_kept_refl)
  show "advances s t \<Longrightarrow> advances t u \<Longrightarrow> advances s u" for s t u
    unfolding advances_def by (metis extends_trans seals_trans results_kept_trans)
qed

lemmas advance_combinators [advance_rules] = advance.rules

lemma collab_advances: "collab s t \<Longrightarrow> advances s t"
  by (simp add: collab_def advances_def worktree_side_def seals_refl keys_ok_def results_kept_refl)

lemma worktree_step_advances: "worktree_step s t \<Longrightarrow> advances s t"
proof -
  have "well_formed (collaboration_side d) = well_formed d" for d
    by (simp add: well_formed_def collaboration_side_def)
  moreover have "keys_ok (collaboration_side d) = keys_ok d" for d
    by (simp add: keys_ok_def collaboration_side_def)
  moreover have "d_idempotency (collaboration_side d) = d_idempotency d" for d
    by (simp add: collaboration_side_def)
  ultimately show "worktree_step s t \<Longrightarrow> advances s t"
    unfolding worktree_step_def advances_def by (metis results_kept_refl)
qed

lemma grows_advances: "grows m \<Longrightarrow> evolves advances m"
  by (simp add: evolves_def collab_advances)

lemma works_advances: "works m \<Longrightarrow> evolves advances m"
  by (simp add: evolves_def worktree_step_advances)

lemma advances_dispatchCommand [advance_rules]:
  "evolves advances (dispatchCommand command context prin corr)"
  unfolding dispatchCommand_def
  by (cases command) (simp_all, (rule grows_advances works_advances, (rule grows_rules works_rules))+)

lemma works_assertWriterCommandAuthority [works_rules]:
  "works (assertWriterCommandAuthority command prin context)"
  unfolding assertWriterCommandAuthority_def assert_if_def
  by (cases command; simp only: kernel_command.simps; intro works_rules)

lemma advances_insert_idempotency:
  "evolves advances (insert_unique d_idempotency d_idempotency_update idempotency_clash row)"
  by (force simp: evolves_def advances_def insert_unique_run extends_refl seals_refl extends_def
      well_formed_def keys_ok_def record_key_def idempotency_clash_def list_ex_iff
      results_kept_refl results_kept_append)

lemma advances_update_idempotency:
  assumes "\<And>r. idempotency_fixed (f r) = idempotency_fixed r"
    and "\<And>r. P r \<Longrightarrow> refreshable (ir_command_name r)"
  shows "evolves advances (update_where d_idempotency_update P f)"
proof -
  have key: "record_key (f r) = record_key r" for r
    using arg_cong [OF assms(1) [of r], of record_key] by (simp add: idempotency_fixed_def record_key_def)
  have hash: "ir_payload_hash (f r) = ir_payload_hash r" for r
    using arg_cong [OF assms(1) [of r], of ir_payload_hash] by (simp add: idempotency_fixed_def)
  show ?thesis
    by (auto simp: evolves_def advances_def update_where_run seals_refl extends_def well_formed_def
        keys_ok_def map_fixed_update assms key same_record_def hash intro!: results_kept_update)
qed

lemmas advances_idempotency = advances_insert_idempotency advances_update_idempotency

lemma advances_refreshing [advance_rules]:
  "refreshable (type_of_command command) \<Longrightarrow> evolves advances m \<Longrightarrow>
   evolves advances (refreshing command prin result m)"
  unfolding refreshing_def
  by (intro advance_rules advances_idempotency)
    (auto simp: idempotency_fixed_def record_key_def idempotency_key_def)

lemma advances_cached [advance_rules]:
  "evolves advances (resolveCachedWorktreeExecution c1 result prin)"
  "evolves advances (getArtifact i context)" "evolves advances (authorizeReport i context)"
  "evolves advances (resolveCachedAttentionClaim result prin)"
  "evolves advances (resolveCachedOutboxClaim c2 result prin)"
  "evolves advances (resolveCachedActivation c3 result prin)"
  "evolves advances (resolveCachedProviderAttempt c4 result prin context)"
  "evolves advances (resolveCachedWorktreeWriterLeaseAuthority ct w result prin)"
  "evolves advances (resolveCachedWorktreeWriterLeaseQuarantine c5 result prin)"
  by (rule grows_advances works_advances, (rule grows_rules works_rules; fail))+

lemma advances_replay_cached [advance_rules]:
  "evolves advances (replay_cached command h prin context c)"
  unfolding replay_cached_def replay_result_def
  by (cases command)
    (auto split: physical_command.split intro!: advance_rules simp: refreshable_def type_of_command_def)

lemma advances_transaction_body [advance_rules]:
  "evolves advances (transaction_body command h operation prin context)"
proof -
  have "evolves advances (run_command command h operation prin context)"
    unfolding run_command_def
    by (intro advance_rules advances_idempotency grows_advances [OF grows_recordProjectionVersions]
        grows_advances [OF grows_reads(1)] grows_advances [OF grows_reads(2)])
  then show ?thesis
    unfolding transaction_body_def
    by (intro advance_rules works_advances [OF works_assertWriterCommandAuthority]
        grows_advances [OF grows_reads(4)])
qed

lemma advances_transaction [advance_rules]:
  assumes "evolves advances m"
  shows "evolves advances (transaction m)" and "evolves advances (observation m)"
    and "evolves advances (atomically m)"
proof -
  have step: "advances k (snd (m k))" for k using assms by (simp add: evolves_def)
  have "advances k (t\<lparr>k_db := k_db k\<rparr>)" if "m k = (r, t)" for k r t
    using step [of k] that by (simp add: advances_def extends_refl seals_refl results_kept_refl)
  then show "evolves advances (transaction m)" and "evolves advances (observation m)"
    and "evolves advances (atomically m)"
    using step
    by (auto simp: evolves_def transaction_def observation_def atomically_def split: prod.splits sum.splits)
      (metis snd_conv)+
qed

section \<open>Every transaction keeps the worktrees consistent\<close>

text \<open>
  The leases agree with their ledger, a Worktree has at most one execution that is not known to
  have stopped, and no registered directory lies in another.
\<close>

definition worktree_inv :: "kernel \<Rightarrow> bool" where
  "worktree_inv k \<longleftrightarrow>
     on_db lease_inv k \<and> on_db execution_inv k \<and> directories_apart k"

lemma lease_inv_cong:
  "d_leases e = d_leases d \<Longrightarrow> d_lease_events e = d_lease_events d \<Longrightarrow> lease_inv e = lease_inv d"
  by (simp add: lease_inv_def lease_of_def ledger_def)

lemma worktree_inv_cong:
  "worktree_side (k_db t) = worktree_side (k_db s) \<Longrightarrow> k_cwd t = k_cwd s \<Longrightarrow>
   worktree_inv t = worktree_inv s"
  using lease_inv_cong [of "k_db t" "k_db s"]
  by (simp add: worktree_inv_def worktree_side_def on_db_def execution_inv_def directories_apart_def)

lemma grows_keeps_worktrees: "grows m \<Longrightarrow> keeps worktree_inv m"
  unfolding evolves_def keeps_def collab_def by (metis worktree_inv_cong)

lemma reads_keeps_worktrees: "reads m \<Longrightarrow> keeps worktree_inv m"
  unfolding evolves_def keeps_def same_db_def by (metis worktree_inv_cong)

lemma preserves_weaken: "preserves ok I m \<Longrightarrow> (\<And>e. ok' e \<Longrightarrow> ok e) \<Longrightarrow> preserves ok' I m"
  by (rule preservesI, erule wp_mono [OF preservesD]) auto

lemma durable_is_kernel_error: "is_durable e \<Longrightarrow> is_kernel_error e"
  by (simp add: is_durable_def is_kernel_error_def split: kerror.splits)

lemma preserves_conj: "preserves ok I m \<Longrightarrow> preserves ok J m \<Longrightarrow> preserves ok (\<lambda>s. I s \<and> J s) m"
  by (rule preservesI, rule wpI) (auto dest: preserves_returned preserves_threw)

text \<open>The operations that change leases only.\<close>

lemma leasing_preserves_worktrees:
  assumes "preserves is_kernel_error (on_db lease_inv) m" and "leasing m"
  shows "preserves is_kernel_error worktree_inv m"
  unfolding worktree_inv_def
  by (intro preserves_conj assms(1) keeps_preserves keeps_execution_leasing [OF assms(2)]
      keeps_directories_leasing [OF assms(2)])

lemma wp_settle_row:
  assumes "lease_inv (k_db k)" and "lease_of w (k_db k) = Some r"
    and "\<And>x t. lease_inv (k_db t) \<Longrightarrow> Q x t" and "\<And>t. E ConstraintError t"
  shows "wp (expireIfNeeded (Some r) actor corr at) Q E k"
  using wp_settle [OF assms(1), of at w Q E actor corr] assms by simp

lemma leases_preserved [preserves_rules]:
  "preserves is_kernel_error (on_db lease_inv) (requireLiveAuthority a prin at corr)"
  "preserves is_kernel_error (on_db lease_inv)
     (resolveCachedWorktreeWriterLeaseAuthority ct w result prin)"
  "preserves is_kernel_error (on_db lease_inv)
     (resolveCachedWorktreeWriterLeaseQuarantine c result prin)"
proof -
  show "preserves is_kernel_error (on_db lease_inv) (requireLiveAuthority a prin at corr)"
    by (rule preservesI, rule wp_requireLiveAuthority) (auto simp: on_db_def)
  show "preserves is_kernel_error (on_db lease_inv)
      (resolveCachedWorktreeWriterLeaseAuthority ct w result prin)"
    unfolding resolveCachedWorktreeWriterLeaseAuthority_def authorityResult_def
    by (rule preservesI, intro wp_intros; (rule wp_settle_row)?) (auto simp: on_db_def wp_raise)
  show "preserves is_kernel_error (on_db lease_inv)
      (resolveCachedWorktreeWriterLeaseQuarantine c result prin)"
    unfolding resolveCachedWorktreeWriterLeaseQuarantine_def
    by (rule preservesI, intro wp_intros; (rule wp_settle_row)?) (auto simp: on_db_def wp_raise)
qed

text \<open>The operations of the physical worktrees touch the leases only through the authority check.\<close>

definition lease_tables :: "database \<Rightarrow> lease_row list \<times> lease_event_row list" where
  "lease_tables d = (d_leases d, d_lease_events d)"

lemma lease_frames_preserve: "frames (on_db lease_tables) m \<Longrightarrow> preserves ok (on_db lease_inv) m"
  unfolding frames_def preserves_def wp_def on_db_def lease_tables_def
  by (auto split: prod.splits sum.splits) (metis lease_inv_cong snd_conv)+

lemma reads_preserve_leases: "reads m \<Longrightarrow> preserves ok (on_db lease_inv) m"
  by (rule lease_frames_preserve) (simp add: evolves_def frames_def same_db_def on_db_def)

lemmas reads_preserved =
  reads_env [THEN reads_preserve_leases] reads_values [THEN reads_preserve_leases]
  reads_requires [THEN reads_preserve_leases] reads_checks [THEN reads_preserve_leases]
  reads_lease_checks [THEN reads_preserve_leases] reads_worktree_checks [THEN reads_preserve_leases]

lemma lease_frames_records:
  "frames (on_db lease_tables) (revokePublication x why)"
  "frames (on_db lease_tables) (append_execution_event i st evidence)"
  "frames (on_db lease_tables) (record_pid x pid)"
  "frames (on_db lease_tables) (recordState x st evidence)"
  "frames (on_db lease_tables) (insert_unique d_executions d_executions_update clash1 row1)"
  "frames (on_db lease_tables) (insert_unique d_worktrees d_worktrees_update clash2 row2)"
proof -
  show revoke: "frames (on_db lease_tables) (revokePublication x why)" for why
    unfolding revokePublication_def update_revocation_def
    by (intro frame_rules) (simp add: lease_tables_def)
  show event: "frames (on_db lease_tables) (append_execution_event i st evidence)" for i
    unfolding append_execution_event_def
    by (intro frame_rules frames_writeDb) (simp add: lease_tables_def)
  show "frames (on_db lease_tables) (record_pid x pid)"
    unfolding record_pid_def
    by (auto split: option.split jsnum.split intro!: frame_rules simp: lease_tables_def)
  show "frames (on_db lease_tables) (recordState x st evidence)"
    unfolding recordState_def set_execution_state_def
    by (intro frame_rules revoke event) (simp_all add: lease_tables_def)
  show "frames (on_db lease_tables) (insert_unique d_executions d_executions_update clash1 row1)"
    "frames (on_db lease_tables) (insert_unique d_worktrees d_worktrees_update clash2 row2)"
    by (intro frame_rules; simp add: lease_tables_def)+
qed

lemmas records_preserved = lease_frames_records [THEN lease_frames_preserve]

lemma checks_preserved:
  "preserves is_kernel_error (on_db lease_inv) (assertExecutionAuthority i b1 b2 x)"
  "preserves is_kernel_error (on_db lease_inv) (assertActivationWriterAuthority i b1 b2)"
proof -
  have check: "preserves is_kernel_error (on_db lease_inv) (checkExecutionAuthority i b1 b2 x w l)" for x w l
    unfolding checkExecutionAuthority_def
    by (intro preserves_rules reads_preserved)
  show each: "preserves is_kernel_error (on_db lease_inv) (assertExecutionAuthority i b1 b2 x)" for x
    unfolding assertExecutionAuthority_def
    by (intro preserves_rules reads_preserved preserves_catchM check records_preserved) simp_all
  show "preserves is_kernel_error (on_db lease_inv) (assertActivationWriterAuthority i b1 b2)"
    unfolding assertActivationWriterAuthority_def
    by (intro preserves_rules reads_preserved each)
qed

lemma physical_preserved:
  "preserves is_kernel_error (on_db lease_inv) (physicalWorktreeCommand command prin corr)"
proof -
  have "preserves is_kernel_error (on_db lease_inv) (registerPhysicalWorktree c)" for c
    unfolding registerPhysicalWorktree_def
    by (intro preserves_rules reads_preserved records_preserved)
  moreover have "preserves is_kernel_error (on_db lease_inv) (startWorktreeExecution c prin corr)" for c
    unfolding startWorktreeExecution_def
    by (intro preserves_rules reads_preserved records_preserved checks_preserved)
  moreover have "preserves is_kernel_error (on_db lease_inv) (recordWorktreeExecution c prin)" for c
    unfolding recordWorktreeExecution_def
    by (intro preserves_rules reads_preserved records_preserved)
  moreover have "preserves is_kernel_error (on_db lease_inv) (revokeWorktreeExecutionAuthority c prin)" for c
    unfolding revokeWorktreeExecutionAuthority_def
    by (intro preserves_rules reads_preserved records_preserved)
  moreover have "preserves is_kernel_error (on_db lease_inv) (recoverWorktreeExecution c)" for c
    unfolding recoverWorktreeExecution_def
    by (intro preserves_rules reads_preserved records_preserved)
  moreover have "preserves is_kernel_error (on_db lease_inv) (requireRuntime prin)"
    by (rule reads_preserved)
  ultimately show ?thesis
    unfolding physicalWorktreeCommand_def by (cases command) (auto intro!: preserves_seqM)
qed

text \<open>All three invariants, along the transaction.\<close>

named_theorems consistent_rules "operations keep the worktrees consistent"

abbreviation consistent :: "'a kop \<Rightarrow> bool" where
  "consistent m \<equiv> preserves is_kernel_error worktree_inv m"

lemmas consistent_combinators [consistent_rules] =
  preserves_bindM [of is_kernel_error worktree_inv] preserves_seqM [of is_kernel_error worktree_inv]
  preserves_atoms [of is_kernel_error worktree_inv] preserves_whenM [of _ is_kernel_error worktree_inv]
  preserves_cases [of _ is_kernel_error worktree_inv]

lemma grows_consistent: "grows m \<Longrightarrow> consistent m"
  by (intro keeps_preserves grows_keeps_worktrees)

lemma reads_consistent: "reads m \<Longrightarrow> consistent m"
  by (intro keeps_preserves reads_keeps_worktrees)

lemmas consistent_reads [consistent_rules] =
  reads_env [THEN reads_consistent] reads_values [THEN reads_consistent]
  reads_requires [THEN reads_consistent] reads_checks [THEN reads_consistent]
  reads_lease_checks [THEN reads_consistent] reads_worktree_checks [THEN reads_consistent]

lemma consistent_authority [consistent_rules]: "consistent (assertActivationWriterAuthority i b1 b2)"
  unfolding worktree_inv_def
  by (intro preserves_conj checks_preserved keeps_preserves keeps_execution_authority
      keeps_directories_authority)

lemma consistent_physical [consistent_rules]: "consistent (physicalWorktreeCommand command prin corr)"
  unfolding worktree_inv_def
  by (intro preserves_conj physical_preserved keeps_preserves keeps_physicalWorktreeCommand
      keeps_directories_physical)

lemma consistent_leases [consistent_rules]:
  "consistent (requireLiveAuthority a prin at corr)"
  "consistent (acquireWorktreeWriterLease c1 prin corr)" "consistent (renewWorktreeWriterLease c2 prin corr)"
  "consistent (releaseWorktreeWriterLease c3 prin corr)"
  "consistent (quarantineWorktreeWriterLease c4 prin corr)"
  "consistent (resolveWorktreeWriterLeaseQuarantine c5 prin corr)"
  "consistent (resolveCachedWorktreeWriterLeaseAuthority ct w result prin)"
  "consistent (resolveCachedWorktreeWriterLeaseQuarantine c4 result prin)"
  by (rule leasing_preserves_worktrees, rule preserves_rules, rule lease_rules)+

lemma consistent_checks [consistent_rules]:
  "consistent (assertWriterContextAuthority prin context b)"
  "consistent (assertWorktreeMutation a prin)" "consistent (assertWorktreePublication a prin)"
  "consistent (resolveCachedWorktreeExecution c result prin)"
proof -
  show "consistent (assertWriterContextAuthority prin context b)"
    unfolding assertWriterContextAuthority_def by (intro consistent_rules)
  show mutation: "consistent (assertWorktreeMutation a prin)" for a
    unfolding assertWorktreeMutation_def by (intro consistent_rules)
  show "consistent (assertWorktreePublication a prin)"
    unfolding assertWorktreePublication_def by (intro consistent_rules)
  show "consistent (resolveCachedWorktreeExecution c result prin)"
    unfolding resolveCachedWorktreeExecution_def by (intro consistent_rules mutation)
qed

lemma consistent_assertWriterCommandAuthority [consistent_rules]:
  "consistent (assertWriterCommandAuthority command prin context)"
  unfolding assertWriterCommandAuthority_def assert_if_def
  by (cases command; simp only: kernel_command.simps; intro consistent_rules)

lemma consistent_dispatchCommand [consistent_rules]:
  "consistent (dispatchCommand command context prin corr)"
  unfolding dispatchCommand_def
  by (cases command) (simp_all, (rule consistent_rules | rule grows_consistent, rule grows_rules)+)

lemma consistent_idempotency:
  "consistent (insert_unique d_idempotency d_idempotency_update clash row)"
  "consistent (update_where d_idempotency_update P f)"
proof -
  have "worktree_inv (k_db_update (d_idempotency_update h) k) = worktree_inv k" for h k
    using lease_inv_cong [of "d_idempotency_update h (k_db k)" "k_db k"]
    by (simp add: worktree_inv_def on_db_def execution_inv_def directories_apart_def)
  then show "consistent (insert_unique d_idempotency d_idempotency_update clash row)"
    and "consistent (update_where d_idempotency_update P f)"
    by (simp_all add: preserves_def wp_insert_unique wp_update_where)
qed

lemma consistent_refreshing [consistent_rules]:
  "consistent m \<Longrightarrow> consistent (refreshing command prin result m)"
  unfolding refreshing_def by (intro consistent_rules consistent_idempotency)

lemma consistent_cached [consistent_rules]:
  "consistent (getArtifact i context)" "consistent (authorizeReport i context)"
  "consistent (resolveCachedAttentionClaim result prin)"
  "consistent (resolveCachedOutboxClaim c2 result prin)"
  "consistent (resolveCachedActivation c3 result prin)"
  "consistent (resolveCachedProviderAttempt c4 result prin context)"
  "consistent (recordProjectionVersions corr)"
  by (rule grows_consistent, (rule grows_rules; fail))+

lemma consistent_transaction_body:
  "consistent (transaction_body command h operation prin context)"
proof -
  have "consistent (replay_cached command h prin context c)" for c
    unfolding replay_cached_def replay_result_def
    by (cases command) (auto split: physical_command.split intro!: consistent_rules)
  moreover have "consistent (run_command command h operation prin context)"
    unfolding run_command_def by (intro consistent_rules consistent_idempotency)
  ultimately show ?thesis
    unfolding transaction_body_def by (intro consistent_rules)
qed

lemma restored:
  "advances k t \<Longrightarrow> worktree_inv k \<Longrightarrow> worktree_inv (t\<lparr>k_db := k_db k\<rparr>)"
  using worktree_inv_cong [of "t\<lparr>k_db := k_db k\<rparr>" k] by (simp add: advances_def)

lemma keeps_transaction:
  assumes "consistent m" and "evolves advances m"
  shows "keeps worktree_inv (transaction m)" and "keeps worktree_inv (observation m)"
    and "keeps worktree_inv (atomically m)"
proof -
  have step: "advances k t" if "m k = (r, t)" for k r t
    using assms(2) that unfolding evolves_def by (metis snd_conv)
  show "keeps worktree_inv (transaction m)"
  proof (rule keepsI)
    fix k assume inv: "worktree_inv k"
    obtain r t where run: "m k = (r, t)" by (cases "m k")
    with inv show "worktree_inv (snd (transaction m k))"
      using restored [OF step [OF run] inv] preserves_returned [OF assms(1) inv]
        preserves_threw [OF assms(1) inv] durable_is_kernel_error
      by (auto simp: transaction_def split: sum.split)
  qed
  show "keeps worktree_inv (observation m)"
    by (auto simp: keeps_def observation_def split: prod.split intro!: restored step)
  show "keeps worktree_inv (atomically m)"
  proof (rule keepsI)
    fix k assume inv: "worktree_inv k"
    obtain r t where run: "m k = (r, t)" by (cases "m k")
    with inv show "worktree_inv (snd (atomically m k))"
      using restored [OF step [OF run] inv] preserves_returned [OF assms(1) inv]
      by (auto simp: atomically_def split: sum.split)
  qed
qed

section \<open>A command\<close>

lemma reads_entry:
  "reads (rejectCausalOverrides inputs)" "reads (validateWorktreeProviderBinding v)"
proof -
  show "reads (rejectCausalOverrides inputs)"
    unfolding rejectCausalOverrides_def by (intro reads_rules)
  show "reads (validateWorktreeProviderBinding v)"
    unfolding validateWorktreeProviderBinding_def
    by (cases v; simp only: js_value.simps; intro reads_rules)
qed

text \<open>What a command does before its transaction: it only reads.\<close>

definition command_entry ::
  "string list list \<Rightarrow> kernel_command \<Rightarrow> principal_context \<Rightarrow> string option \<Rightarrow> principal_row kop" where
  "command_entry inputs command principalContext operation =
     seqM (guardM (case operation of None \<Rightarrow> True | Some corr \<Rightarrow> correlation_id_ok corr)
             (err InvalidCommand))
    (bindM (requirePrincipal (pc_principalId principalContext)) (\<lambda>prin.
     seqM (whenM (runtime_only (type_of_command command)) (requireKind prin Runtime))
    (seqM (rejectCausalOverrides inputs)
    (seqM (case provider_of_command command of
             None \<Rightarrow> ret ()
           | Some b \<Rightarrow> validateWorktreeProviderBinding (binding_value b))
          (ret prin)))))"

lemma reads_command_entry: "reads (command_entry inputs command context operation)"
  unfolding command_entry_def by (intro reads_rules reads_entry)

lemma command_transaction_split:
  "command_transaction h inputs command context operation =
     bindM (command_entry inputs command context operation) (\<lambda>prin.
       transaction (transaction_body command (h command) operation prin (effective_context prin context)))"
  by (rule ext) (simp add: command_transaction_def command_entry_def Let_def run_simps
      split: prod.split sum.split)

lemma advances_command_transaction: "evolves advances (command_transaction h inputs command context operation)"
  unfolding command_transaction_split
  by (intro advance_rules works_advances reads_works reads_command_entry)

lemma keeps_command_transaction: "keeps worktree_inv (command_transaction h inputs command context operation)"
  unfolding command_transaction_split
  by (intro keeps_rules reads_keeps_worktrees reads_command_entry keeps_transaction
      consistent_transaction_body advance_rules)

section \<open>What a query does\<close>

lemma grows_resolve_snapshot [grows_rules]:
  "grows (resolve_snapshot P v)" "grows (resolvePublicSnapshot p v)" "grows (resolveAttentionSnapshot v)"
proof -
  show snapshot: "grows (resolve_snapshot P v)" for P
    unfolding resolve_snapshot_def by (intro grows_rules)
  then show "grows (resolvePublicSnapshot p v)" "grows (resolveAttentionSnapshot v)"
    by (simp_all add: resolvePublicSnapshot_def resolveAttentionSnapshot_def)
qed

lemma grows_projections [grows_rules]:
  "grows (eventSequence i)" "grows (projectEventSequence p i)" "grows (activity_bounds a b)"
  "grows (listActivity r a limit b)" "grows (getBootstrap p target)" "grows (getActivationAgentConfig i)"
  "grows (getThreadProjection i scope)" "grows (getRunProjection i)"
  "grows (getThreadProjectionAt i n scope)" "grows (getRunProjectionAt i n)"
proof -
  show bounds: "grows (activity_bounds a b)"
    unfolding activity_bounds_def
    by (cases a; cases b) (auto split: jsnum.split intro!: grows_rules)
  show "grows (listActivity r a limit b)"
    unfolding listActivity_def by (intro grows_rules bounds)
qed (unfold eventSequence_def projectEventSequence_def getBootstrap_def getActivationAgentConfig_def
      getThreadProjection_def getRunProjection_def getThreadProjectionAt_def getRunProjectionAt_def,
    (intro grows_rules; fail)+)

lemma grows_pages [grows_rules]:
  "(\<And>i. grows (project i)) \<Longrightarrow> grows (projection_page_of project limit v rows)"
  "grows (listThreadProjections p c after n v limit scope)"
  "grows (listRunProjections p c after n v limit scope)"
proof -
  show page: "grows (projection_page_of project limit v rows)" if "\<And>i. grows (project i)"
    for project :: "ident \<Rightarrow> 'p kop" and rows
    unfolding projection_page_of_def by (intro grows_rules that)
  show "grows (listThreadProjections p c after n v limit scope)"
    "grows (listRunProjections p c after n v limit scope)"
    unfolding listThreadProjections_def listRunProjections_def by (intro grows_rules page)+
qed

lemma grows_recovery_update [grows_rules]:
  "grows (update_where d_recovery_update P f)" "grows (writeDb (d_recovery_revision_update g))"
  unfolding update_where_def
  by (intro grows_writeDb; simp add: extends_def worktree_side_def well_formed_def)+

lemma grows_recovery [grows_rules]:
  "grows (readAttentionRecoverySnapshot at)" "grows getAttentionRecoverySnapshot"
  "grows (resolveAttentionRecoverySnapshot v)" "grows (hydrate key)"
  "grows (listRecoverableAttentionExecutions c v limit)"
  "grows (getProjectAgentStatus p a)" "grows (getProviderAttempt i prin context)"
proof -
  show snapshot: "grows (readAttentionRecoverySnapshot at)" for at
    unfolding readAttentionRecoverySnapshot_def by (intro grows_rules)
  show current: "grows getAttentionRecoverySnapshot"
    unfolding getAttentionRecoverySnapshot_def by (intro grows_rules snapshot)
  show resolve: "grows (resolveAttentionRecoverySnapshot v)"
    unfolding resolveAttentionRecoverySnapshot_def by (intro grows_rules snapshot current)
  show hydrate: "grows (hydrate key)" for key
    unfolding hydrate_def by (intro grows_rules)
  show "grows (listRecoverableAttentionExecutions c v limit)"
    unfolding listRecoverableAttentionExecutions_def by (intro grows_rules resolve hydrate)
qed (unfold getProjectAgentStatus_def getProviderAttempt_def, (intro grows_rules; fail)+)

lemma grows_query_parts [grows_rules]:
  "grows m \<Longrightarrow> grows (answer wrap m)"
  "grows (getPhysicalWorktree i prin)" "grows (listWorktreeWriterLeaseEvents i c limit prin)"
  "grows (query_run_access i prin context)"
  unfolding answer_def getPhysicalWorktree_def listWorktreeWriterLeaseEvents_def query_run_access_def
    requireWorktree_def requireRuntime_def
  by (intro grows_rules; assumption?; fail)+

lemma grows_query_parts2 [grows_rules]:
  "grows (query_worktrees r a l prin)" "grows (query_bootstrap p prin)"
  "grows (query_thread i prin context)" "grows (query_attentions p1 tg c v l prin)"
  "grows (query_correlation ty i prin)"
  "grows (query_page_start p ch a v prin context)" "grows (query_threads p ch a v l prin context)"
  "grows (query_runs p ch a v l prin context)" "grows (query_events p a l prin context)"
proof -
  show page: "grows (query_page_start p ch a v prin context)"
    unfolding query_page_start_def by (intro grows_rules)
  show "grows (query_threads p ch a v l prin context)" "grows (query_runs p ch a v l prin context)"
    unfolding query_threads_def query_runs_def by (intro grows_rules page)+
qed (unfold query_worktrees_def query_bootstrap_def query_thread_def query_attentions_def
      query_correlation_def query_events_def, (intro grows_rules; fail)+)

lemma works_getWorktreeWriterLease: "works (getWorktreeWriterLease i prin)"
  unfolding getWorktreeWriterLease_def requireRuntime_def requireLease_def getLease_def
  by (intro works_rules)

lemma leasing_getWorktreeWriterLease: "leasing (getWorktreeWriterLease i prin)"
  unfolding getWorktreeWriterLease_def requireRuntime_def requireLease_def getLease_def
  by (intro lease_rules)

lemma query_body_sound:
  "evolves advances (query_body q prin context)" "consistent (query_body q prin context)"
proof -
  have lease: "evolves advances (answer WriterLease (getWorktreeWriterLease i prin))"
    "consistent (answer WriterLease (getWorktreeWriterLease i prin))" for i
    unfolding answer_def
    by (intro advance_rules works_advances works_getWorktreeWriterLease)
      (intro consistent_rules leasing_preserves_worktrees preserves_rules
        leasing_getWorktreeWriterLease)
  show "evolves advances (query_body q prin context)"
    unfolding query_body_def
    by (cases q) (simp_all add: lease, (rule grows_advances, intro grows_rules)+)
  show "consistent (query_body q prin context)"
    unfolding query_body_def
    by (cases q) (simp_all add: lease, (rule grows_consistent, intro grows_rules)+)
qed

lemma queryTransaction_sound:
  "evolves advances (queryTransaction q context)" "keeps worktree_inv (queryTransaction q context)"
proof -
  show "evolves advances (queryTransaction q context)"
    unfolding queryTransaction_def
    by (intro advance_rules works_advances reads_works reads_requires query_body_sound)
  show "keeps worktree_inv (queryTransaction q context)"
    unfolding queryTransaction_def
    by (intro keeps_rules keeps_transaction(3) query_body_sound reads_keeps_worktrees reads_requires)
qed

end
