(* ===== verification/Reachability.thy ===== *)
theory Reachability
  imports Soundness
begin

text \<open>
  What holds of the kernel as a whole, whatever its callers run in whatever order: a step
  relation on the kernel object, the invariants of every reachable state, append-only history,
  and what failing, retrying and reusing an idempotency key do.
\<close>

section \<open>The kernel object\<close>

text \<open>
  Any call of a client, the steps of \<open>finalizeReport\<close> and \<open>readArtifact\<close> included, and whatever
  leaves the database alone: time passing, closing and opening the kernel again.
\<close>

inductive kernel_step :: "torsor_kernel \<Rightarrow> torsor_kernel \<Rightarrow> bool" where
  execute: "kernel_step t (snd (execute h inputs command context operation t))"
| publish: "kernel_step t (snd (execute_inner h inputs command context operation t))"
| unsupported: "kernel_step t (snd (unsupported_command inputs context operation t))"
| authorize: "kernel_step t (snd (authorize_actor inp actor t))"
| mutate: "kernel_step t (snd (performWorktreeMutation authority context effect t))"
| check_authority: "kernel_step t (snd (checkWorktreeAuthority authority context t))"
| check_publication: "kernel_step t (snd (checkWorktreePublication authority context t))"
| revoke_local: "kernel_step t (snd (revokeLocalWorktreeAuthority receipt context t))"
| query: "kernel_step t (snd (query_kernel q context t))"
| feed: "kernel_step t (snd (readEvents afterEventId limit t))"
| ambient: "k_db (tk_context u) = k_db (tk_context t) \<Longrightarrow>
    k_cwd (tk_context u) = k_cwd (tk_context t) \<Longrightarrow> kernel_step t u"

abbreviation kernel_steps :: "torsor_kernel \<Rightarrow> torsor_kernel \<Rightarrow> bool" where
  "kernel_steps \<equiv> kernel_step\<^sup>*\<^sup>*"

definition outer_advances :: "torsor_kernel \<Rightarrow> torsor_kernel \<Rightarrow> bool" where
  "outer_advances t u \<longleftrightarrow> advances (tk_context t) (tk_context u)"

definition outer_inv :: "torsor_kernel \<Rightarrow> bool" where
  "outer_inv t = worktree_inv (tk_context t)"

named_theorems outer_rules "operations of the kernel object"

interpretation outer: evolution outer_advances
  by unfold_locales (auto simp: outer_advances_def intro: advance.refl advance.trans)

lemmas outer_combinators [outer_rules] = outer.rules

lemma outer_context:
  "evolves advances m \<Longrightarrow> evolves outer_advances (on_context m)"
  "keeps worktree_inv n \<Longrightarrow> keeps outer_inv (on_context n)"
  by (simp_all add: evolves_def keeps_def outer_advances_def outer_inv_def on_context_def
      split: prod.splits) (metis snd_conv)+

lemma outer_database [outer_rules]:
  "evolves advances m \<Longrightarrow> evolves outer_advances (withDatabaseAccess m)"
  "keeps worktree_inv n \<Longrightarrow> keeps outer_inv (withDatabaseAccess n)"
  unfolding withDatabaseAccess_def assertOpen_def
  by (intro outer_rules keeps_rules outer_context; assumption)+

text \<open>Both at once, for an operation of the kernel object.\<close>

definition sound_step :: "'a top \<Rightarrow> bool" where
  "sound_step m \<longleftrightarrow> evolves outer_advances m \<and> keeps outer_inv m"

lemma sound_transaction:
  assumes "consistent m" and "evolves advances m"
  shows "sound_step (withDatabaseAccess (transaction m))" and "sound_step (withDatabaseAccess (observation m))"
  by (simp_all add: sound_step_def outer_database advances_transaction keeps_transaction assms)

lemma sound_combinators:
  "sound_step (ret x)" "sound_step (raise e)" "sound_step (guardM c e)" "sound_step (gets f)"
  "sound_step m \<Longrightarrow> (\<And>y. sound_step (g y)) \<Longrightarrow> sound_step (bindM m g)"
  "sound_step n \<Longrightarrow> sound_step n' \<Longrightarrow> sound_step (seqM n n')"
  "(\<And>y. v = Some y \<Longrightarrow> sound_step (h y)) \<Longrightarrow> (v = None \<Longrightarrow> sound_step p) \<Longrightarrow>
   sound_step (case v of None \<Rightarrow> p | Some y \<Rightarrow> h y)"
  unfolding sound_step_def by (auto intro!: outer_rules keeps_rules)

lemma sound_unchanged:
  assumes "k_db (tk_context u) = k_db (tk_context t)" and "k_cwd (tk_context u) = k_cwd (tk_context t)"
  shows "outer_advances t u" and "outer_inv u = outer_inv t"
  using assms worktree_inv_cong [of "tk_context u" "tk_context t"]
  by (simp_all add: outer_advances_def outer_inv_def advances_def extends_refl seals_refl results_kept_refl)

lemma sound_modify:
  assumes "\<And>t. k_db (tk_context (f t)) = k_db (tk_context t)"
    and "\<And>t. k_cwd (tk_context (f t)) = k_cwd (tk_context t)"
  shows "sound_step (modify f)"
proof -
  have "outer_advances t (f t)" "outer_inv (f t) = outer_inv t" for t
    by (rule sound_unchanged; simp add: assms)+
  then show ?thesis by (simp add: sound_step_def evolves_def keeps_def modify_def)
qed

lemma sound_check:
  "evolves advances m \<Longrightarrow> consistent m \<Longrightarrow> sound_step (writerCheck m)"
  unfolding writerCheck_def by (rule sound_transaction)

lemmas advances_checks =
  works_advances [OF works_authority(4)] works_advances [OF works_authority(5)]
  works_advances [OF works_authority(6)] works_advances [OF reads_works [OF reads_requires(1)]]

lemma sound_operations:
  "sound_step (execute_inner h inputs command context operation)"
  "sound_step (execute h inputs command context operation)"
  "sound_step (unsupported_command inputs context operation)"
  "sound_step (authorize_actor inp actor)"
  "sound_step (performWorktreeMutation authority context effect)"
  "sound_step (checkWorktreeAuthority authority context)"
  "sound_step (checkWorktreePublication authority context)"
  "sound_step (revokeLocalWorktreeAuthority receipt context)"
  "sound_step (query_kernel q context)" "sound_step (readEvents afterEventId limit)"
proof -
  show inner: "sound_step (execute_inner h inputs command context operation)"
    unfolding execute_inner_once sound_step_def
    by (intro conjI outer_database advances_command_transaction keeps_command_transaction)
  have "sound_step (remember_execution command context result)" for result
    unfolding remember_execution_def
    by (auto split: kernel_command.split physical_command.split option.split prod.split
        intro!: sound_combinators sound_modify)
  then show "sound_step (execute h inputs command context operation)"
    unfolding execute_def by (intro sound_combinators inner)
  show "sound_step (unsupported_command inputs context operation)"
    unfolding unsupported_command_def sound_step_def
    by (intro conjI outer_database)
      (intro advance_rules advances_checks consistent_rules keeps_rules keeps_transaction
        works_advances reads_works reads_keeps_worktrees reads_entry reads_rules)+
  have report: "evolves advances (bindM (authorizeReport i actor) (\<lambda>_. ret ()))"
    "keeps worktree_inv (bindM (authorizeReport i actor) (\<lambda>_. ret ()))" for i
    by (intro advance_rules) (intro keeps_rules grows_keeps_worktrees grows_rules)
  show "sound_step (authorize_actor inp actor)"
    unfolding authorize_actor_def checkWriter_def
    by (intro sound_combinators sound_check advance_rules advances_checks consistent_rules)
      (simp add: sound_step_def outer_database report)
  show "sound_step (performWorktreeMutation authority context effect)"
    unfolding performWorktreeMutation_def
    by (intro sound_check advance_rules advances_checks consistent_rules)
  show "sound_step (checkWorktreeAuthority authority context)"
    unfolding checkWorktreeAuthority_def
    by (intro sound_transaction advance_rules advances_checks consistent_rules)
  show "sound_step (checkWorktreePublication authority context)"
    unfolding checkWorktreePublication_def
    by (intro sound_check advance_rules advances_checks consistent_rules)
  show "sound_step (revokeLocalWorktreeAuthority receipt context)"
    unfolding revokeLocalWorktreeAuthority_def
    by (intro sound_combinators sound_modify) simp_all
  show "sound_step (query_kernel q context)"
    unfolding query_kernel_def sound_step_def by (intro conjI outer_database queryTransaction_sound)
  show "sound_step (readEvents afterEventId limit)"
    unfolding readEvents_def sound_step_def
    by (intro conjI outer_database grows_advances grows_keeps_worktrees grows_rules)
qed

lemma step_sound:
  assumes "kernel_step t u"
  shows "outer_advances t u" and "outer_inv t \<Longrightarrow> outer_inv u"
proof -
  have sound: "outer_advances s (snd (m s)) \<and> (outer_inv s \<longrightarrow> outer_inv (snd (m s)))"
    if "sound_step m" for s and m :: "'b top"
    using that by (simp add: sound_step_def evolves_def keeps_def)
  from assms have "outer_advances t u \<and> (outer_inv t \<longrightarrow> outer_inv u)"
  proof cases
    case ambient
    then show ?thesis using sound_unchanged [of u t] by simp
  qed (simp_all add: sound sound_operations)
  then show "outer_advances t u" and "outer_inv t \<Longrightarrow> outer_inv u" by blast+
qed

lemma steps_sound:
  assumes "kernel_steps t u"
  shows "outer_advances t u" and "outer_inv t \<Longrightarrow> outer_inv u"
proof -
  from assms have "outer_advances t u \<and> (outer_inv t \<longrightarrow> outer_inv u)"
  proof (induction rule: rtranclp_induct)
    case base
    then show ?case by (simp add: outer.refl)
  next
    case (step v w)
    then show ?case using step_sound [OF step.hyps(2)] outer.trans by blast
  qed
  then show "outer_advances t u" and "outer_inv t \<Longrightarrow> outer_inv u" by blast+
qed

text \<open>\<open>finalizeReport\<close> is such a sequence of steps when what happens meanwhile is one.\<close>

lemma steps_bindM:
  assumes "kernel_steps t (snd (m t))" and "\<And>x u. m t = (Inr x, u) \<Longrightarrow> kernel_steps u (snd (f x u))"
  shows "kernel_steps t (snd (bindM m f t))"
proof (cases "m t")
  case (Pair r u)
  show ?thesis
  proof (cases r)
    case (Inl e)
    then show ?thesis using Pair assms(1) by (simp add: bindM_run)
  next
    case (Inr x)
    then have "kernel_steps t u" "kernel_steps u (snd (f x u))" using Pair assms by auto
    then show ?thesis using Pair Inr by (simp add: bindM_run)
  qed
qed

lemma steps_seqM:
  "kernel_steps t (snd (m t)) \<Longrightarrow> (\<And>u. kernel_steps u (snd (n u))) \<Longrightarrow> kernel_steps t (snd (seqM m n t))"
  unfolding seqM_def by (rule steps_bindM)

lemma steps_pure:
  "kernel_steps t (snd (guardM c e t))" "kernel_steps t (snd (needM e v t))"
  "kernel_steps t (snd (liftE r t))" "kernel_steps t (snd (gets g t))"
  by (simp_all add: guardM_run needM_run liftE_run gets_run split: option.split)

lemma finalize_steps:
  assumes reading: "\<And>t. kernel_steps t (snd (reading t))"
    and puts: "\<And>put d bs t. storage = Some put \<Longrightarrow> kernel_steps t (snd (put d bs t))"
  shows "kernel_steps t (snd (finalizeReport digest storage reading h inp actor operation t))"
proof -
  have validate: "kernel_steps t (snd (validateReportInput names i key rev t))" for names i key rev t
    unfolding validateReportInput_def requireNonEmpty_def by (intro steps_seqM steps_pure)
  have authorize: "kernel_steps t (snd (authorize_actor inp actor t))" for t
    by (rule r_into_rtranclp) (rule kernel_step.authorize)
  have publish: "kernel_steps t (snd (execute_inner h inputs command actor operation t))" for t inputs command
    by (rule r_into_rtranclp) (rule kernel_step.publish)
  have stored: "kernel_steps t (snd (bindM (needM e storage) f t))"
    if "\<And>put u. storage = Some put \<Longrightarrow> kernel_steps u (snd (f put u))" for e t and f :: "_ \<Rightarrow> 'c top"
    using that by (cases storage) (simp_all add: bindM_run needM_run)
  show ?thesis
    unfolding finalizeReport_def assertOpen_def
    by (intro steps_seqM steps_bindM [where m = "liftE _"] steps_bindM [where m = "gets _"] stored
        steps_pure validate authorize publish reading puts)
qed

section \<open>Failing, retrying and reusing a key\<close>

lemma transaction_failed:
  "transaction m k = (Inl e, t) \<Longrightarrow> \<not> is_durable e \<Longrightarrow> k_db t = k_db k"
  by (auto simp: transaction_def translateError_def split: prod.splits sum.splits if_splits kerror.splits)

lemma evolves_run: "evolves R m \<Longrightarrow> m k = (r, t) \<Longrightarrow> R k t"
  unfolding evolves_def by (metis snd_conv)

lemma reads_db: "reads m \<Longrightarrow> m k = (r, t) \<Longrightarrow> k_db t = k_db k"
  unfolding evolves_def same_db_def by (metis snd_conv)

lemma command_transaction_failed:
  assumes "command_transaction h inputs command context operation k = (Inl e, t)" and "\<not> is_durable e"
  shows "k_db t = k_db k"
  using assms unfolding command_transaction_split bindM_run
  by (auto split: prod.splits sum.splits dest!: transaction_failed reads_db [OF reads_command_entry])

lemma execute_steps: "kernel_steps t (snd (execute h inputs command context operation t))"
  by (rule r_into_rtranclp) (rule kernel_step.execute)

text \<open>What the witnesses run: a message of a human and the renewal of a lease.\<close>

definition sample_object :: torsor_kernel where
  "sample_object = \<lparr>tk_context = sample_kernel, tk_closed = False, tk_localWorktreeExecutions = []\<rparr>"

definition sample_message :: "ident list \<Rightarrow> kernel_command" where
  "sample_message targets = CmdStartThread
     \<lparr>idempotencyKey = ''k'', st_projectId = ''p'', st_channelId = ''ch'', st_body = ''b'',
      st_targetAgentIds = Some targets\<rparr>"

definition sample_renewal :: kernel_command where
  "sample_renewal = CmdRenewLease
     \<lparr>idempotencyKey = ''k'', rw_authority = ma_lease sample_mutation, rw_leaseDurationMs = JInt 5000\<rparr>"

definition human_context :: principal_context where
  "human_context = \<lparr>pc_principalId = ''h'', pc_activationId = None\<rparr>"

definition runtime_context :: principal_context where
  "runtime_context = \<lparr>pc_principalId = ''r'', pc_activationId = None\<rparr>"

definition sample_hash :: "kernel_command \<Rightarrow> string" where
  "sample_hash command = (case command of CmdStartThread c \<Rightarrow> concat (or_empty (st_targetAgentIds c)) | _ \<Rightarrow> [])"

text \<open>C2: A command that fails changes nothing, unless its error is one of the durable ones: for every
  command, caller and state, when execute throws an error that is not durable, the database is
  exactly what it was, however far the handler had come.\<close>

theorem failed_command_changes_nothing:
  assumes "execute h inputs command context operation t = (Inl e, u)" and "\<not> is_durable e"
  shows "k_db (tk_context u) = k_db (tk_context t)"
proof -
  have "remember_execution command context result v \<noteq> (Inl e, u)" for result v
    by (auto simp: remember_execution_def modify_run ret_run
        split: kernel_command.split physical_command.split option.split prod.split)
  then show ?thesis
    using assms
    by (auto simp: execute_def execute_inner_once withDatabaseAccess_def assertOpen_def on_context_def
        run_simps split: if_splits prod.splits sum.splits dest: command_transaction_failed)
qed

lemma failed_command_changes_nothing_witness:
  "k_db (tk_context (snd (execute sample_hash [] (sample_message [''nobody'']) human_context None
     sample_object))) = sample_database"
proof -
  let ?m = "execute sample_hash [] (sample_message [''nobody'']) human_context None sample_object"
  have "fst ?m = Inl (err NotFound)" by code_simp
  then obtain u where run: "?m = (Inl (err NotFound), u)" by (cases ?m) simp
  have "k_db (tk_context sample_object) = sample_database"
    by (simp add: sample_object_def sample_kernel_def context_on_def)
  then show ?thesis using failed_command_changes_nothing [OF run] run by simp
qed

text \<open>The checks before the transaction depend on the principals only.\<close>

definition stateless :: "'a kop \<Rightarrow> bool" where
  "stateless m \<longleftrightarrow> (\<exists>r. \<forall>k. m k = (r, k))"

lemma stateless_rules:
  "stateless (ret x)" "stateless (raise e)" "stateless (guardM c e)"
  "stateless m \<Longrightarrow> stateless n \<Longrightarrow> stateless (seqM m n)"
proof -
  show "stateless m \<Longrightarrow> stateless n \<Longrightarrow> stateless (seqM m n)"
    unfolding stateless_def seqM_run by (metis (no_types, lifting) case_prod_conv sum.case_eq_if)
qed (simp_all add: stateless_def run_simps)

lemma stateless_forM: "(\<And>x. stateless (f x)) \<Longrightarrow> stateless (forM xs f)"
  by (induction xs) (simp_all add: stateless_rules)

lemma stateless_entry:
  "stateless (rejectCausalOverrides inputs)" "stateless (validateWorktreeProviderBinding v)"
  unfolding rejectCausalOverrides_def validateWorktreeProviderBinding_def
  by (intro stateless_forM stateless_rules) (auto split: js_value.split intro!: stateless_rules)

lemma command_entry_principals:
  assumes "command_entry inputs command context operation k = (Inr p, k')"
    and "d_principals (k_db u) = d_principals (k_db k)"
  shows "command_entry inputs command context operation u = (Inr p, u)"
    and "k' = k" and "find_row pr_id (pc_principalId context) (d_principals (k_db k)) = Some p"
proof -
  obtain r where reject: "rejectCausalOverrides inputs v = (r, v)" for v :: kernel
    using stateless_entry(1) unfolding stateless_def by metis
  have "\<forall>b. \<exists>r. \<forall>v :: kernel. validateWorktreeProviderBinding (binding_value b) v = (r, v)"
    using stateless_entry(2) unfolding stateless_def by blast
  then obtain q where validate: "validateWorktreeProviderBinding (binding_value b) v = (q b, v)"
    for v :: kernel and b
    by (auto dest!: choice)
  show "command_entry inputs command context operation u = (Inr p, u)"
    and "k' = k" and "find_row pr_id (pc_principalId context) (d_principals (k_db k)) = Some p"
    using assms
    by (auto simp: command_entry_def run_simps requirePrincipal_def requireRow_def requireKind_def
        reject validate split: if_splits option.splits sum.splits prod.splits)
qed

text \<open>A command whose replay neither refreshes its result nor checks anything again.\<close>

definition replays_result :: "kernel_command \<Rightarrow> bool" where
  "replays_result command \<longleftrightarrow>
     \<not> refreshable (type_of_command command) \<and>
     type_of_command command \<noteq> StartWorktreeExecution \<and> type_of_command command \<noteq> PublishArtifact"

lemma replay_cached_result:
  "replays_result command \<Longrightarrow> ir_payload_hash c = h \<Longrightarrow>
   replay_cached command h prin context c k = (Inr (ir_result c), k)"
  by (auto simp: replays_result_def refreshable_def replay_cached_def replay_result_def run_simps
      type_of_command_def physical_type_def split: kernel_command.splits physical_command.splits)

definition stored_result :: "kernel_command \<Rightarrow> principal_row \<Rightarrow> string \<Rightarrow> command_result \<Rightarrow> database \<Rightarrow> bool" where
  "stored_result command prin h result d \<longleftrightarrow>
     (\<exists>r. find_row record_key (idempotency_key command prin) (d_idempotency d) = Some r \<and>
          ir_payload_hash r = h \<and> ir_result r = result)"

lemma record_key_table:
  "(\<lambda>r. (ir_principal_id r, ir_command_name r, ir_idempotency_key r)) = record_key"
  by (rule ext) (simp add: record_key_def)

lemma run_command_stores:
  assumes "run_command command h operation prin context k = (Inr result, t)"
  shows "stored_result command prin h result (k_db t)"
proof -
  from assms obtain corr k1 d k2 k3 at k4 where
    ins: "insert_unique d_idempotency d_idempotency_update idempotency_clash
      \<lparr>ir_principal_id = pr_id prin, ir_command_name = type_of_command command,
       ir_idempotency_key = key_of_command command, ir_payload_hash = h,
       ir_result = result, ir_created_at = at\<rparr> k4 = (Inr (), t)"
    unfolding run_command_def
    by (auto simp: Let_def ret_run elim!: bindM_returned seqM_returned)
  from idempotency_table.find_after_insert [OF ins] show ?thesis
    by (auto simp: stored_result_def record_key_table idempotency_key_def record_key_def)
qed

lemma transaction_body_stores:
  assumes "transaction_body command h operation prin context k = (Inr result, t)"
    and "replays_result command"
  shows "stored_result command prin h result (k_db t)"
proof -
  from assms(1) obtain k1 where
    tail: "(case find_row record_key (idempotency_key command prin) (d_idempotency (k_db k1)) of
        Some c \<Rightarrow> replay_cached command h prin context c
      | None \<Rightarrow> run_command command h operation prin context) k1 = (Inr result, t)"
    unfolding transaction_body_def
    by (auto simp: query_run elim!: bindM_returned seqM_returned)
  show ?thesis
  proof (cases "find_row record_key (idempotency_key command prin) (d_idempotency (k_db k1))")
    case None
    with tail show ?thesis by (simp add: run_command_stores)
  next
    case (Some c)
    then have run: "replay_cached command h prin context c k1 = (Inr result, t)" using tail by simp
    then have "ir_payload_hash c = h"
      unfolding replay_cached_def by (auto simp: guardM_run split: if_splits elim!: seqM_returned)
    with run replay_cached_result [OF assms(2), of c h prin _ k1] Some show ?thesis
      by (simp add: stored_result_def)
  qed
qed

lemma stored_result_kept:
  assumes "stored_result command prin h result d" and "results_kept (d_idempotency d) (d_idempotency e)"
    and "replays_result command"
  shows "stored_result command prin h result e"
proof -
  from assms(1) obtain r where
    r: "find_row record_key (idempotency_key command prin) (d_idempotency d) = Some r"
      "ir_payload_hash r = h" "ir_result r = result"
    by (auto simp: stored_result_def)
  moreover have "ir_command_name r = type_of_command command"
    using find_row_Some [OF r(1)] by (simp add: record_key_def idempotency_key_def)
  ultimately show ?thesis
    using results_kept_find [OF assms(2) r(1)] assms(3)
    by (auto simp: stored_result_def same_record_def replays_result_def)
qed

lemma execute_returned:
  assumes "execute h inputs command context operation t = (Inr result, u)"
  shows "\<exists>k. command_transaction h inputs command context operation (tk_context t) = (Inr result, k) \<and>
    tk_context u = k"
proof -
  have "remember_execution command context r v = (Inr (), w) \<Longrightarrow> tk_context w = tk_context v" for r v w
    by (auto simp: remember_execution_def modify_run ret_run
        split: kernel_command.splits physical_command.splits option.splits)
  then show ?thesis
    using assms
    by (auto simp: execute_def execute_inner_once withDatabaseAccess_def assertOpen_def on_context_def
        run_simps split: if_splits prod.splits sum.splits)
qed

lemma execute_repeated:
  assumes "command_transaction h inputs command context operation (tk_context u) = (Inr result, tk_context u)"
    and "type_of_command command \<noteq> PublishArtifact" and "type_of_command command \<noteq> StartWorktreeExecution"
  shows "execute h inputs command context operation u =
    (if tk_closed u then Inl (err Conflict) else Inr result, u)"
proof -
  have "remember_execution command context result v = (Inr (), v)" for v
    using assms(3)
    by (auto simp: remember_execution_def ret_run type_of_command_def physical_type_def
        split: kernel_command.splits physical_command.splits option.splits)
  then show ?thesis
    using assms(1,2)
    by (simp add: execute_def execute_inner_once withDatabaseAccess_def assertOpen_def on_context_def run_simps)
qed

text \<open>C1: Executing a command again is safe. Take any command of a human that returned once and whose
  replay returns the stored result as it is (every command but the claims of attentions and
  outbox events, the starts of activations, provider attempts and executions, the acquisition,
  renewal and quarantine of a writer lease, and the publication of an artifact), and let
  anything happen to the kernel afterwards: other commands of any callers, restarts, the clock
  moving either way. The same command with the same key and payload then returns the same
  result, whenever the kernel is open, and nothing of the kernel changes; a kernel that is closed
  answers with a conflict.\<close>

theorem retry_returns_first_result:
  assumes first: "execute h inputs command context operation t = (Inr result, t')"
    and human: "map_option pr_kind (find_row pr_id (pc_principalId context)
      (d_principals (k_db (tk_context t)))) = Some Human"
    and stable: "replays_result command"
    and later: "kernel_steps t' u"
  shows "execute h inputs command context operation u =
    (if tk_closed u then Inl (err Conflict) else Inr result, u)"
proof -
  obtain k where ran: "command_transaction h inputs command context operation (tk_context t) = (Inr result, k)"
      and k: "tk_context t' = k"
    using execute_returned [OF first] by blast
  obtain p k0 where entry: "command_entry inputs command context operation (tk_context t) = (Inr p, k0)"
    and body: "transaction (transaction_body command (h command) operation p (effective_context p context)) k0
      = (Inr result, k)"
    using ran unfolding command_transaction_split by (elim bindM_returned) blast
  have p: "find_row pr_id (pc_principalId context) (d_principals (k_db (tk_context t))) = Some p"
    using command_entry_principals(3) [OF entry refl] .
  have kind: "pr_kind p = Human" using human p by simp
  have "transaction_body command (h command) operation p (effective_context p context) k0 = (Inr result, k)"
    using body by (auto simp: transaction_def split: prod.splits sum.splits if_splits)
  then have stored: "stored_result command p (h command) result (k_db k)"
    by (rule transaction_body_stores [OF _ stable])
  have moved: "advances k (tk_context u)"
    using steps_sound(1) [OF later] by (simp add: outer_advances_def k)
  then have "results_kept (d_idempotency (k_db k)) (d_idempotency (k_db (tk_context u)))"
    by (simp add: advances_def)
  from stored_result_kept [OF stored this stable] obtain r where
    r: "find_row record_key (idempotency_key command p) (d_idempotency (k_db (tk_context u))) = Some r"
      "ir_payload_hash r = h command" "ir_result r = result"
    by (auto simp: stored_result_def)
  have "advances (tk_context t) k"
    using evolves_run [OF advances_command_transaction ran] .
  then have "d_principals (k_db (tk_context u)) = d_principals (k_db (tk_context t))"
    using moved by (simp add: advances_def extends_def)
  then have entry': "command_entry inputs command context operation (tk_context u) = (Inr p, tk_context u)"
    by (rule command_entry_principals(1) [OF entry])
  have "transaction_body command (h command) operation p (effective_context p context) (tk_context u) =
      (Inr result, tk_context u)"
    using kind r replay_cached_result [OF stable r(2)]
    by (simp add: transaction_body_def assertWriterCommandAuthority_def assertWriterContextAuthority_def
        run_simps)
  then have "command_transaction h inputs command context operation (tk_context u) = (Inr result, tk_context u)"
    by (simp add: command_transaction_split bindM_run entry' transaction_def)
  then show ?thesis
    using stable by (intro execute_repeated) (simp_all add: replays_result_def)
qed

lemma retry_returns_first_result_witness:
  "\<exists>result t u. execute sample_hash [] (sample_message [''ag'']) human_context None sample_object = (Inr result, t) \<and>
    snd (execute sample_hash [] sample_renewal runtime_context None t) = u \<and>
    execute sample_hash [] (sample_message [''ag'']) human_context None u =
      (if tk_closed u then Inl (err Conflict) else Inr result, u)"
proof -
  let ?m = "execute sample_hash [] (sample_message [''ag'']) human_context None sample_object"
  let ?u = "\<lambda>t. snd (execute sample_hash [] sample_renewal runtime_context None t)"
  have "\<not> isl (fst ?m)" by code_simp
  then obtain result t where run: "?m = (Inr result, t)" by (rule returned_run)
  have human: "map_option pr_kind (find_row pr_id (pc_principalId human_context)
      (d_principals (k_db (tk_context sample_object)))) = Some Human"
    by code_simp
  have stable: "replays_result (sample_message [''ag''])" by code_simp
  have "kernel_steps t (?u t)"
    by (rule execute_steps)
  from retry_returns_first_result [OF run human stable this] show ?thesis using run by blast
qed

lemma reads_authorizeReport: "reads (authorizeReport i context)"
  unfolding authorizeReport_def requireRunActivation_def authorizeRunRead_def
    assertProjectChannel_def resolvePrincipalReadScope_def activationScope_def
    assertProjectAccess_def requireProject_def
  by (intro reads_rules)

lemma wp_refused_replay:
  assumes "ir_payload_hash r \<noteq> h"
  shows "wp (replay_cached command h prin context r) (\<lambda>_ _. False) (\<lambda>_ t. k_db t = k_db k) k"
proof -
  have "reads (seqM (case command of CmdPublishArtifact c \<Rightarrow>
        bindM (authorizeReport (pub_runId c) context) (\<lambda>_. ret ()) | _ \<Rightarrow> ret ())
      (guardM False (err Conflict) :: unit kop))"
    by (cases command; simp only: kernel_command.simps; intro reads_rules reads_authorizeReport)
  then show ?thesis
    using assms unfolding replay_cached_def
    by (auto simp: evolves_def same_db_def wp_def seqM_run guardM_run split: prod.splits sum.splits)
qed

text \<open>C4: An idempotency key names one payload. A command whose key was used by the same
  caller for the same kind of command with another payload is refused, whatever its handler
  would do, and nothing of the collaboration tables changes.\<close>

theorem reused_key_is_refused:
  assumes "find_row pr_id (pc_principalId context) (d_principals (k_db k)) = Some prin"
    and "find_row record_key (idempotency_key command prin) (d_idempotency (k_db k)) = Some r"
    and "ir_payload_hash r \<noteq> h command"
  shows "\<exists>e t. command_transaction h inputs command context operation k = (Inl e, t) \<and>
    collaboration_side (k_db t) = collaboration_side (k_db k)"
proof -
  let ?side = "\<lambda>t. collaboration_side (k_db t) = collaboration_side (k_db k)"
  have body: "wp (transaction_body command (h command) operation prin (effective_context prin context))
      (\<lambda>_ _. False) (\<lambda>_. ?side) k"
    unfolding transaction_body_def
  proof (intro wp_intro_seqM wp_mono [OF wp_evolves [OF works_assertWriterCommandAuthority]])
    fix t assume step: "worktree_step k t"
    then have side: "?side t" by (simp add: worktree_step_def)
    then have "d_idempotency (k_db t) = d_idempotency (k_db k)"
      by (auto simp: collaboration_side_def dest: arg_cong [where f = d_idempotency])
    moreover have "wp (replay_cached command (h command) prin (effective_context prin context) r)
        (\<lambda>_ _. False) (\<lambda>_. ?side) t"
      by (rule wp_mono [OF wp_refused_replay [OF assms(3)]]) (simp_all add: side)
    ultimately show "wp (bindM (query (\<lambda>d. find_row record_key (idempotency_key command prin) (d_idempotency d)))
        (\<lambda>cached. case cached of
          Some c \<Rightarrow> replay_cached command (h command) prin (effective_context prin context) c
        | None \<Rightarrow> run_command command (h command) operation prin (effective_context prin context)))
        (\<lambda>_ _. False) (\<lambda>_. ?side) t"
      using assms(2) by (simp add: wp_bindM wp_query)
  qed (simp add: worktree_step_def)
  have "wp (command_transaction h inputs command context operation) (\<lambda>_ _. False) (\<lambda>_. ?side) k"
    unfolding command_transaction_split wp_bindM
  proof (rule wpI)
    fix p k0 assume "command_entry inputs command context operation k = (Inr p, k0)"
    from command_entry_principals(2,3) [OF this refl] assms(1) have "k0 = k" "p = prin" by simp_all
    then show "wp (transaction (transaction_body command (h command) operation p (effective_context p context)))
        (\<lambda>_ _. False) (\<lambda>_. ?side) k0"
      using body by (auto simp: wp_def transaction_def split: prod.splits sum.splits)
  next
    fix e t assume "command_entry inputs command context operation k = (Inl e, t)"
    then show "?side t" by (simp add: reads_db [OF reads_command_entry])
  qed
  then show ?thesis by (auto simp: wp_def split: prod.splits sum.splits)
qed

lemma reused_key_is_refused_witness:
  "\<exists>result k e t. command_transaction sample_hash [] (sample_message [''ag'']) human_context None
      sample_kernel = (Inr result, k) \<and>
    command_transaction sample_hash [] (sample_message []) human_context None k = (Inl e, t)"
proof -
  let ?m = "command_transaction sample_hash [] (sample_message [''ag'']) human_context None sample_kernel"
  have "case ?m of (Inl _, _) \<Rightarrow> False | (Inr _, k) \<Rightarrow>
      find_row pr_id (pc_principalId human_context) (d_principals (k_db k)) = Some sample_human \<and>
      (case find_row record_key (idempotency_key (sample_message []) sample_human)
         (d_idempotency (k_db k)) of
         None \<Rightarrow> False | Some r \<Rightarrow> ir_payload_hash r \<noteq> sample_hash (sample_message []))"
    by code_simp
  then obtain result k r where run: "?m = (Inr result, k)"
    and found: "find_row pr_id (pc_principalId human_context) (d_principals (k_db k)) = Some sample_human"
      "find_row record_key (idempotency_key (sample_message []) sample_human) (d_idempotency (k_db k)) = Some r"
      "ir_payload_hash r \<noteq> sample_hash (sample_message [])"
    by (auto split: prod.splits sum.splits option.splits)
  from reused_key_is_refused [where h = sample_hash and inputs = "[]" and operation = None, OF found] run show ?thesis by blast
qed

section \<open>What holds in every reachable state\<close>

lemma execution_fixed_activation: "wx_activation_id x = wx_activation_id (execution_fixed x)"
  by (simp add: execution_fixed_def)

abbreviation sample_later :: torsor_kernel where
  "sample_later \<equiv> snd (execute sample_hash [] sample_renewal runtime_context None
     (snd (execute sample_hash [] (sample_message [''ag'']) human_context None sample_object)))"

lemma sample_later_steps: "kernel_steps sample_object sample_later"
  by (rule rtranclp_trans; rule execute_steps)

lemma sample_worktree_inv: "worktree_inv (tk_context sample_object)"
proof -
  have "replay lease_abs0 (ledger wid sample_database) = Some (abs_lease (lease_of wid sample_database))" for wid
    by (cases "wid = ''w''")
      (simp_all add: sample_database_def sample_lease_def ledger_def lease_of_def empty_database_def
        abs_lease_def lease_abs0_def find_row_Cons find_row_Nil ledger_step_def
        ledger_allows_def status_after_def)
  moreover have "distinct (map wl_worktree_id (d_leases sample_database)) \<and>
      list_all lease_row_ok (d_leases sample_database) \<and>
      sorted_wrt (<) (map we_sequence (d_lease_events sample_database))"
    by code_simp
  ultimately have "lease_inv sample_database" by (simp add: lease_inv_def)
  moreover have "execution_inv sample_database" "directories_apart sample_kernel"
    by (simp_all add: execution_inv_def directories_apart_def) code_simp+
  ultimately show ?thesis
    by (simp add: worktree_inv_def sample_object_def on_db_def sample_kernel_def context_on_def)
qed

text \<open>C9: History is append-only, for every sequence of calls by any callers. Apart from the bookkeeping
  of the runtimes' recovery (its index, its revision, the fences of attention domains) and the
  temporary list of changed activations, whose rows come and go, no table loses or reorders a
  row: rows are only appended, each row keeps the columns that identify it, the event log, the
  lease and execution events and all history tables keep their rows as they were written, and the
  principals, projects, channels, causal limits and the storage identity never change.\<close>

theorem history_is_append_only:
  assumes "kernel_steps t u"
  shows "extends (k_db (tk_context t)) (k_db (tk_context u)) \<and>
    prefix (d_events (k_db (tk_context t))) (d_events (k_db (tk_context u))) \<and>
    seals (d_executions (k_db (tk_context t))) (d_executions (k_db (tk_context u)))"
  using steps_sound(1) [OF assms] by (simp add: outer_advances_def advances_def extends_def)

lemma history_is_append_only_witness:
  "map we_id (take 1 (d_lease_events (k_db (tk_context sample_later)))) = [''le'']"
proof -
  have "extends (k_db (tk_context sample_object)) (k_db (tk_context sample_later))"
    using history_is_append_only [OF sample_later_steps] by blast
  then have "prefix (d_lease_events (k_db (tk_context sample_object)))
      (d_lease_events (k_db (tk_context sample_later)))"
    by (simp add: extends_def)
  then show ?thesis
    by (auto simp: prefix_def sample_object_def sample_kernel_def sample_database_def context_on_def)
qed

text \<open>C10: The collaboration tables stay well-formed in every reachable state: the event log is
  numbered from one without a gap, and so is the activity of every run, up to the run's counter; the
  acknowledged events of the outbox come before the pending ones and its lease columns are set
  together, ids are unique, an attention is open exactly while it has no outcome, and every stored
  command result has its own key.\<close>

theorem collaboration_stays_well_formed:
  assumes "kernel_steps t u" and "well_formed (k_db (tk_context t))" and "keys_ok (k_db (tk_context t))"
  shows "well_formed (k_db (tk_context u)) \<and> keys_ok (k_db (tk_context u))"
  using steps_sound(1) [OF assms(1)] assms(2,3) by (simp add: outer_advances_def advances_def)

lemma collaboration_stays_well_formed_witness: "well_formed (k_db (tk_context sample_later))"
proof -
  have "well_formed (k_db (tk_context sample_object))" by code_simp
  moreover have "keys_ok (k_db (tk_context sample_object))" by code_simp
  ultimately show ?thesis using collaboration_stays_well_formed [OF sample_later_steps] by blast
qed

text \<open>C29: The worktrees stay consistent in every reachable state, whatever is interleaved: the
  ledger of every lease replays to its row, a Worktree has at most one execution that is not
  known to have stopped, and no registered directory contains another.\<close>

theorem worktrees_stay_consistent:
  assumes "kernel_steps t u" and "worktree_inv (tk_context t)"
  shows "lease_inv (k_db (tk_context u)) \<and>
    distinct (unsettled_worktrees (d_executions (k_db (tk_context u)))) \<and>
    directories_apart (tk_context u)"
  using steps_sound(2) [OF assms(1)] assms(2)
  by (simp add: outer_inv_def worktree_inv_def on_db_def execution_inv_def)

lemma worktrees_stay_consistent_witness:
  "distinct (unsettled_worktrees (d_executions (k_db (tk_context sample_later))))"
  using worktrees_stay_consistent [OF sample_later_steps sample_worktree_inv] by blast

text \<open>C13: The lease table implements the lease protocol. From a consistent state, whatever calls
  follow, the ledger of a Worktree grows by events each of which the abstract protocol allows
  in its turn, and they take the abstraction of the old row to that of the new one.\<close>

theorem leases_refine_protocol:
  assumes "kernel_steps t u" and "worktree_inv (tk_context t)"
  shows "\<exists>es. ledger w (k_db (tk_context u)) = ledger w (k_db (tk_context t)) @ es \<and>
    replay (abs_lease (lease_of w (k_db (tk_context t)))) es =
      Some (abs_lease (lease_of w (k_db (tk_context u))))"
proof -
  have "prefix (d_lease_events (k_db (tk_context t))) (d_lease_events (k_db (tk_context u)))"
    using steps_sound(1) [OF assms(1)] by (simp add: outer_advances_def advances_def extends_def)
  then obtain rest where
    "d_lease_events (k_db (tk_context u)) = d_lease_events (k_db (tk_context t)) @ rest"
    by (auto simp: prefix_def)
  then have "ledger w (k_db (tk_context u)) =
      ledger w (k_db (tk_context t)) @ filter (\<lambda>e. we_worktree_id e = w) rest"
    by (simp add: ledger_def)
  moreover have "lease_inv (k_db (tk_context t))" "lease_inv (k_db (tk_context u))"
    using steps_sound(2) [OF assms(1)] assms(2)
    by (simp_all add: outer_inv_def worktree_inv_def on_db_def)
  then have "replay lease_abs0 (ledger w (k_db (tk_context t))) =
      Some (abs_lease (lease_of w (k_db (tk_context t))))"
    "replay lease_abs0 (ledger w (k_db (tk_context u))) =
      Some (abs_lease (lease_of w (k_db (tk_context u))))"
    by (simp_all add: lease_inv_def)
  ultimately show ?thesis by (auto simp: replay_append)
qed

lemma leases_refine_protocol_witness:
  "\<exists>es. replay (abs_lease (Some sample_lease)) es =
     Some (abs_lease (lease_of ''w'' (k_db (tk_context sample_later))))"
proof -
  have "lease_of ''w'' (k_db (tk_context sample_object)) = Some sample_lease"
    by (simp add: sample_object_def sample_kernel_def sample_database_def context_on_def lease_of_def
        sample_lease_def find_row_Cons)
  then show ?thesis
    using leases_refine_protocol [OF sample_later_steps sample_worktree_inv, of "''w''"] by auto
qed

text \<open>C12: A lost authority never comes back. Once an execution of an activation has its publication
  authority revoked, every later writer check of the activation fails, in every state that any
  sequence of calls, restarts and clock changes can reach.\<close>

theorem lost_authority_never_returns:
  assumes "kernel_steps t u" and "activation_revoked i (k_db (tk_context t))"
  shows "\<exists>e k. assertActivationWriterAuthority i b1 b2 (tk_context u) = (Inl e, k)"
proof -
  let ?xs = "d_executions (k_db (tk_context t))" and ?ys = "d_executions (k_db (tk_context u))"
  obtain n where n: "n < length ?xs" "wx_activation_id (?xs ! n) = i"
    "wx_authority_revoked_at (?xs ! n) \<noteq> None"
    using assms(2) by (auto simp: activation_revoked_def list_ex_iff in_set_conv_nth)
  have step: "seals ?xs ?ys" "prefix (map execution_fixed ?xs) (map execution_fixed ?ys)"
    using steps_sound(1) [OF assms(1)] by (simp_all add: outer_advances_def advances_def extends_def)
  then have len: "length ?xs \<le> length ?ys" by (simp add: seals_def)
  have "map execution_fixed ?ys ! n = map execution_fixed ?xs ! n"
    using step(2) n(1) by (auto simp: prefix_def nth_append)
  then have "execution_fixed (?ys ! n) = execution_fixed (?xs ! n)" using n(1) len by simp
  then have "wx_activation_id (?ys ! n) = i"
    using n(2) by (metis execution_fixed_activation)
  moreover have "wx_authority_revoked_at (?ys ! n) \<noteq> None"
    using step(1) n by (auto simp: seals_def)
  moreover have "?ys ! n \<in> set ?ys" using n(1) len by simp
  ultimately show ?thesis using revoked_blocks by metis
qed

definition sample_revoked :: torsor_kernel where
  "sample_revoked = sample_object\<lparr>tk_context := context_on (sample_database
     \<lparr>d_executions := [sample_execution\<lparr>wx_authority_revoked_at := Some 0\<rparr>]\<rparr>)\<rparr>"

lemma lost_authority_never_returns_witness:
  "isl (fst (assertActivationWriterAuthority ''act'' False False
     (tk_context (snd (execute sample_hash [] sample_renewal runtime_context None sample_revoked)))))"
proof -
  have "activation_revoked ''act'' (k_db (tk_context sample_revoked))" by code_simp
  from lost_authority_never_returns [OF execute_steps this]
  show ?thesis by (metis fst_conv sum.disc(1))
qed

end
