(* ===== verification/Startup.thy ===== *)
theory Startup
  imports Reachability
begin

text \<open>
  Opening the kernel and what follows: a fresh database satisfies every invariant, so every state
  a kernel reaches does; an existing database is opened as it is or refused.
\<close>

section \<open>A fresh database\<close>

text \<open>The tables that the invariants speak of; the bootstrap writes none of them.\<close>

definition working_tables where
  "working_tables d =
     ((d_events d, d_outbox d, d_attentions d, d_activations d, d_threads d, d_messages d, d_runs d),
      (d_run_inputs d, d_provider_attempts d, d_activities d, d_artifacts d, d_idempotency d),
      (d_leases d, d_lease_events d, d_executions d, d_worktrees d))"

lemma working_tables_invariants:
  assumes "working_tables d = working_tables e"
  shows "well_formed d = well_formed e" and "keys_ok d = keys_ok e" and "lease_inv d = lease_inv e"
    and "execution_inv d = execution_inv e" and "d_worktrees d = d_worktrees e"
  using assms
  by (simp_all add: working_tables_def well_formed_def keys_ok_def lease_inv_def lease_of_def ledger_def
      execution_inv_def)

lemma frames_insert_or_ignore:
  "(\<And>h d. g (upd h d) = g d) \<Longrightarrow> frames (on_db g) (insert_or_ignore get upd clash check references row)"
  unfolding insert_or_ignore_def by (intro frame_rules frames_writeDb)

lemma frames_bootstrap:
  "frames (on_db working_tables) (initializeCausalLimits requested new)"
  "frames (on_db working_tables) (applyBootstrap b)"
proof -
  show "frames (on_db working_tables) (initializeCausalLimits requested new)"
    unfolding initializeCausalLimits_def
    by (intro frame_rules frames_writeDb) (simp add: working_tables_def)
  show "frames (on_db working_tables) (applyBootstrap b)"
    unfolding applyBootstrap_def insert_principal_def insert_project_def insert_channel_def insert_agent_def
    by (intro frame_rules frames_insert_or_ignore) (simp_all add: working_tables_def)
qed

lemma empty_invariants:
  "well_formed empty_database" "keys_ok empty_database" "lease_inv empty_database"
  "execution_inv empty_database" "d_worktrees empty_database = []"
  by (simp_all add: lease_inv_empty)
    (simp_all add: empty_database_def well_formed_def keys_ok_def execution_inv_def event_log_ok_def
      queue_ok_def numbered_def unsettled_worktrees_def)

lemma atomically_returned: "atomically m k = (Inr x, t) \<Longrightarrow> m k = (Inr x, t)"
  by (auto simp: atomically_def split: prod.splits sum.splits)

lemma fresh_tables:
  assumes "initializeSchema contract identity 0 objects limits b k = (Inr (), t)"
  shows "working_tables (k_db t) = working_tables empty_database"
proof -
  from assms obtain k1 k2 where "create_schema identity k = (Inr (), k1)"
    and limits: "initializeCausalLimits limits True k1 = (Inr (), k2)" and rows: "applyBootstrap b k2 = (Inr (), t)"
    unfolding initializeSchema_def
    by (auto dest!: atomically_returned simp: assertEmptySchema_def guardM_returned create_schema_def
        writeDb_run elim!: seqM_returned)
  then have "working_tables (k_db k1) = working_tables empty_database"
    by (auto simp: create_schema_def writeDb_run working_tables_def)
  then show ?thesis
    using frames_run [OF frames_bootstrap(1) limits] frames_run [OF frames_bootstrap(2) rows]
    by (simp add: on_db_def)
qed

lemma fresh_kernel:
  assumes "openKernelContext contract identity exists 0 objects duration limits b k = (Inr (), t)"
  shows "well_formed (k_db t)" and "keys_ok (k_db t)" and "worktree_inv t"
proof -
  from assms obtain k1 k2 where "initializeSchema contract identity 0 objects limits b k1 = (Inr (), k2)"
    and "k_db t = k_db k2"
    unfolding openKernelContext_def by (auto simp: modify_run elim!: bindM_returned seqM_returned)
  then have "working_tables (k_db t) = working_tables empty_database" by (simp add: fresh_tables)
  from working_tables_invariants [OF this]
  show "well_formed (k_db t)" and "keys_ok (k_db t)" and "worktree_inv t"
    by (simp_all add: empty_invariants worktree_inv_def on_db_def directories_apart_def)
qed

section \<open>Properties\<close>

text \<open>C11: Every state a kernel reaches is consistent. From opening a new database with any bootstrap
  rows, through any calls of any callers, closing and opening included: the event log and the
  outbox are in order, ids and idempotency keys are unique, every lease is what its ledger
  replays to, no Worktree has two unsettled executions and no registered directory lies in
  another.\<close>

theorem reachable_states_are_consistent:
  assumes "openKernelContext contract identity exists 0 objects duration limits b k = (Inr (), tk_context t)"
    and "kernel_steps t u"
  shows "well_formed (k_db (tk_context u)) \<and> keys_ok (k_db (tk_context u)) \<and>
    lease_inv (k_db (tk_context u)) \<and>
    distinct (unsettled_worktrees (d_executions (k_db (tk_context u)))) \<and>
    directories_apart (tk_context u)"
proof -
  note fresh = fresh_kernel [OF assms(1)]
  have "advances (tk_context t) (tk_context u)"
    using steps_sound(1) [OF assms(2)] by (simp add: outer_advances_def)
  moreover have "worktree_inv (tk_context u)"
    using steps_sound(2) [OF assms(2)] fresh(3) by (simp add: outer_inv_def)
  ultimately show ?thesis
    using fresh by (simp add: advances_def worktree_inv_def on_db_def execution_inv_def)
qed

definition sample_bootstrap :: kernel_bootstrap where
  "sample_bootstrap =
     \<lparr>kb_principals = Some [\<lparr>bo_id = ''h'', bo_kind = Human, bo_displayName = ''H''\<rparr>,
        \<lparr>bo_id = ''ap'', bo_kind = Agent, bo_displayName = ''A''\<rparr>],
      kb_projects = Some [\<lparr>bp_id = ''p'', bp_name = ''P''\<rparr>],
      kb_channels = Some [\<lparr>bc_id = ''ch'', bc_projectId = ''p'', bc_name = ''C''\<rparr>],
      kb_agents = Some [\<lparr>ba_id = ''ag'', ba_principalId = ''ap'', ba_projectId = ''p'', ba_name = ''A'',
        ba_configRevision = 1, ba_config = JObj []\<rparr>]\<rparr>"

abbreviation sample_open :: "(kerror + unit) \<times> kernel" where
  "sample_open \<equiv> openKernelContext (\<lambda>_. Inr ()) ''i'' False 0 False None None (Some sample_bootstrap)
     (context_on empty_database)"

lemma reachable_states_are_consistent_witness:
  "well_formed (k_db (tk_context (snd (execute sample_hash [] (sample_message [''ag'']) human_context None
     \<lparr>tk_context = snd sample_open, tk_closed = False, tk_localWorktreeExecutions = []\<rparr>))))"
proof -
  let ?t = "\<lparr>tk_context = snd sample_open, tk_closed = False, tk_localWorktreeExecutions = []\<rparr>"
  have "fst sample_open = Inr ()" by code_simp
  then have "sample_open = (Inr (), tk_context ?t)" by (cases sample_open) simp
  from reachable_states_are_consistent [OF this execute_steps] show ?thesis by blast
qed

lemma limits_checked:
  assumes "initializeCausalLimits limits False k = (r, t)"
  shows "t = k" and "r = Inr () \<Longrightarrow> \<exists>l. d_causal_limits (k_db k) = Some l \<and>
    (limits \<noteq> None \<longrightarrow> map_option limits_of limits = Some (Some l))"
  using assms
  by (auto simp: initializeCausalLimits_def run_simps split: option.splits if_splits)

lemma existing_validated:
  assumes "validateExistingSchema contract version limits k = (r, t)"
  shows "t = k" and "r = Inr () \<Longrightarrow> version = CURRENT_SCHEMA_VERSION \<and> contract (k_db k) = Inr () \<and>
    (\<exists>l. d_causal_limits (k_db k) = Some l \<and>
      (limits \<noteq> None \<longrightarrow> map_option limits_of limits = Some (Some l)))"
  using assms limits_checked
  by (auto simp: validateExistingSchema_def run_simps split: if_splits sum.splits)

text \<open>C33: An existing database is opened as it is or refused, where a database exists when it has a schema
  version or any object. Whatever the outcome its tables do not change, no bootstrap row is added
  and no limit is stored; it is opened only in the current schema version, so never without a
  version, with an intact schema, with stored causal limits, and only if the limits the operator
  asks for are the stored ones.\<close>

theorem reopening_preserves_or_refuses:
  assumes "openKernelContext contract identity exists version objects duration limits b k = (r, t)"
    and existing: "version \<noteq> 0 \<or> objects"
  shows "k_db t = k_db k \<and>
    (r = Inr () \<longrightarrow> version = CURRENT_SCHEMA_VERSION \<and> contract (k_db k) = Inr () \<and>
      (\<exists>l. d_causal_limits (k_db k) = Some l \<and>
        (limits \<noteq> None \<longrightarrow> map_option limits_of limits = Some (Some l))))"
proof -
  have "wp (openKernelContext contract identity exists version objects duration limits b)
      (\<lambda>_ t. k_db t = k_db k \<and> version = CURRENT_SCHEMA_VERSION \<and> contract (k_db k) = Inr () \<and>
        (\<exists>l. d_causal_limits (k_db k) = Some l \<and>
          (limits \<noteq> None \<longrightarrow> map_option limits_of limits = Some (Some l))))
      (\<lambda>_ t. k_db t = k_db k) k"
      (is "wp _ (\<lambda>_ t. _ \<and> ?ok) _ k")
  proof -
    have valid: "wp (validateExistingSchema contract version limits) (\<lambda>_ s. s = k \<and> ?ok) (\<lambda>_ s. s = k) k"
      by (rule wpI) (auto dest: existing_validated)
    have unversioned: "assertEmptySchema objects k = (Inl (err Conflict), k)" if "version = 0"
      using that existing by (simp add: assertEmptySchema_def guardM_run)
    have init: "wp (initializeSchema contract identity version objects limits b)
        (\<lambda>_ s. k_db s = k_db k \<and> ?ok) (\<lambda>_ s. k_db s = k_db k) k"
      unfolding initializeSchema_def
      using valid unversioned
      by (cases "version = 0") (auto simp: wp_def atomically_def seqM_run split: prod.splits sum.splits)
    have probe: "wp (probe contract version objects limits) (\<lambda>_ s. s = k) (\<lambda>_ s. s = k) k"
    proof (cases "version = 0")
      case True
      then show ?thesis using unversioned by (simp add: probe_def wp_def)
    next
      case False
      then show ?thesis by (simp add: probe_def) (blast intro: wp_mono [OF valid])
    qed
    show ?thesis
      unfolding openKernelContext_def
      by (auto simp: wp_simps intro!: wp_mono [OF probe] wp_mono [OF init] split: jsnum.split)
  qed
  then show ?thesis using assms(1) by (auto simp: wp_def split: sum.splits)
qed

lemma reopening_preserves_or_refuses_witness:
  "k_db (snd (openKernelContext (\<lambda>_. Inr ()) ''i'' True 19 True None
     (Some \<lparr>lo_maxDepth = JInt 3, lo_maxNonTerminalRunsPerRoot = JInt 4\<rparr>) None sample_kernel)) =
     k_db sample_kernel \<and>
   fst (openKernelContext (\<lambda>_. Inr ()) ''i'' True 0 True None None (Some sample_bootstrap) sample_kernel) \<noteq> Inr ()"
proof -
  note opened = reopening_preserves_or_refuses [OF surjective_pairing]
  have "k_db (snd (openKernelContext (\<lambda>_. Inr ()) ''i'' True 19 True None
      (Some \<lparr>lo_maxDepth = JInt 3, lo_maxNonTerminalRunsPerRoot = JInt 4\<rparr>) None sample_kernel)) = k_db sample_kernel"
    using opened by simp
  moreover have "fst (openKernelContext (\<lambda>_. Inr ()) ''i'' True 0 True None None (Some sample_bootstrap)
      sample_kernel) = Inr () \<longrightarrow> 0 = CURRENT_SCHEMA_VERSION"
    using opened [of 0 True "\<lambda>_. Inr ()" "''i''" True None None "Some sample_bootstrap" sample_kernel] by simp
  ultimately show ?thesis by (simp add: CURRENT_SCHEMA_VERSION_def)
qed

end
