(* ===== verification/HttpServer.thy ===== *)
theory HttpServer
  imports Queries "HOL-Library.AList"
begin

text \<open>
  The HTTP service around the kernel (\<open>apps/server/src/server.ts\<close>): credentials, browser sessions
  and their CSRF token, the commands a client may send, the queries and their paths, and the answer
  to every error. A request is what Node hands the service: its method, the decoded segments of its
  path, its query parameters, its headers and its body as \<open>JSON.parse\<close> sees it. The requests are
  handled one at a time except where the service awaits: there \<open>meanwhile\<close> is whatever happens to
  the service before it goes on. Logging, sockets and the text of the messages are not modelled.
\<close>

section \<open>Requests and answers\<close>

datatype header_value = OneValue string | ManyValues "string list"

text \<open>The size of the body in bytes, and its value when it is JSON.\<close>

record request_body =
  qb_size :: nat
  qb_json :: "json option"

text \<open>The target of the request is absent when its URL cannot be parsed or decoded.\<close>

record request_target =
  qt_pathname :: string
  qt_segments :: "string list"
  qt_query :: "(string \<times> string) list"

record http_request =
  rq_method :: string
  rq_target :: "request_target option"
  rq_headers :: "(string \<times> header_value) list"
  rq_body :: request_body

datatype http_error =
    HttpError nat string
  | KernelFailure kerror
  | UnexpectedFailure

datatype answer_body =
    HealthAnswer
  | SessionAnswer ident string
  | EmptyAnswer
  | CommandAnswer command_result
  | BootstrapAnswer bootstrap_projection
  | ChannelsAnswer "bootstrap_channel list" "ident option"
  | RunsAnswer "run_projection projection_page"
  | AgentsAnswer "(bootstrap_agent \<times> agent_status_view option) list"
  | AttentionsAnswer attention_page
  | ThreadsAnswer "thread_projection projection_page"
  | ArtifactAnswer artifact_view
  | ContentAnswer string bytes
  | ThreadAnswer thread_projection
  | RunAnswer run_projection
  | ActivityAnswer activity_page
  | ErrorAnswer string "json option" string

text \<open>A cookie is set to a session for so many seconds, or cleared.\<close>

datatype cookie = SetSession string int | ClearSession

record http_answer =
  an_status :: nat
  an_body :: answer_body
  an_cookie :: "cookie option"
  an_challenge :: bool

definition plain_answer :: "nat \<Rightarrow> answer_body \<Rightarrow> http_answer" where
  "plain_answer status body =
     \<lparr>an_status = status, an_body = body, an_cookie = None, an_challenge = False\<rparr>"

section \<open>The service\<close>

record http_session =
  hs_context :: principal_context
  hs_expiresAt :: int
  hs_csrfToken :: string

record service =
  sv_kernel :: torsor_kernel
  sv_credentials :: "(string \<times> principal_context) list"
  sv_sessions :: "(string \<times> http_session) list"
  sv_bodyLimitBytes :: nat
  sv_sessionDurationMs :: int
  sv_now :: int
  sv_uuid :: "nat \<Rightarrow> string"
  sv_drawn :: nat

type_synonym 'a sop = "(service, http_error, 'a) op"

record authenticated_request =
  au_context :: principal_context
  au_bearer :: bool
  au_sessionId :: "string option"
  au_sessionExpiresAt :: "int option"
  au_sessionCsrfToken :: "string option"

definition randomUUID :: "string sop" where
  "randomUUID = (\<lambda>s. (Inr (sv_uuid s (sv_drawn s)), s\<lparr>sv_drawn := Suc (sv_drawn s)\<rparr>))"

lemma randomUUID_run [run_simps, code]:
  "randomUUID s = (Inr (sv_uuid s (sv_drawn s)), s\<lparr>sv_drawn := Suc (sv_drawn s)\<rparr>)"
  by (simp add: randomUUID_def)

definition on_kernel :: "'a top \<Rightarrow> 'a sop" where
  "on_kernel m = (\<lambda>s. case m (sv_kernel s) of (r, t) \<Rightarrow>
     (case r of Inl e \<Rightarrow> Inl (KernelFailure e) | Inr x \<Rightarrow> Inr x, s\<lparr>sv_kernel := t\<rparr>))"

lemma on_kernel_run [run_simps, code]:
  "on_kernel m s = (case m (sv_kernel s) of (r, t) \<Rightarrow>
     (case r of Inl e \<Rightarrow> Inl (KernelFailure e) | Inr x \<Rightarrow> Inr x, s\<lparr>sv_kernel := t\<rparr>))"
  by (simp add: on_kernel_def)

definition sameContext :: "principal_context \<Rightarrow> principal_context \<Rightarrow> bool" where
  "sameContext l r \<longleftrightarrow>
     pc_principalId l = pc_principalId r \<and> pc_activationId l = pc_activationId r"

section \<open>Headers and parameters\<close>

fun split_on :: "char \<Rightarrow> string \<Rightarrow> string list" where
  "split_on c [] = [[]]"
| "split_on c (x # xs) =
     (if x = c then [] # split_on c xs
      else (case split_on c xs of [] \<Rightarrow> [[x]] | t # ts \<Rightarrow> (x # t) # ts))"

fun join_with :: "char \<Rightarrow> string list \<Rightarrow> string" where
  "join_with c [] = []"
| "join_with c [t] = t"
| "join_with c (t # u # ts) = t @ [c] @ join_with c (u # ts)"

definition lower_char :: "char \<Rightarrow> char" where
  "lower_char c = (let n = of_char c :: nat in if 65 \<le> n \<and> n \<le> 90 then char_of (n + 32) else c)"

definition toLowerCase :: "string \<Rightarrow> string" where
  "toLowerCase = map lower_char"

definition singleHeader :: "http_request \<Rightarrow> string \<Rightarrow> (string option) sop" where
  "singleHeader request name =
     (case map_of (rq_headers request) name of
        None \<Rightarrow> ret None
      | Some (OneValue v) \<Rightarrow> ret (Some v)
      | Some (ManyValues [v]) \<Rightarrow> ret (Some v)
      | Some (ManyValues _) \<Rightarrow> raise (HttpError 400 ''invalid_header''))"

text \<open>\<open>/^Bearer (.+)$/i\<close>: the scheme in any case, one blank, and at least one character.\<close>

definition bearer_scheme :: "string \<Rightarrow> string option" where
  "bearer_scheme v =
     (if toLowerCase (take 7 v) = ''bearer '' \<and> drop 7 v \<noteq> [] \<and>
         list_all (\<lambda>c. of_char c \<notin> {10 :: nat, 13}) (drop 7 v)
      then Some (drop 7 v) else None)"

definition bearerToken :: "http_request \<Rightarrow> (string option) sop" where
  "bearerToken request =
     bindM (singleHeader request ''authorization'') (\<lambda>authorization.
     case truthy authorization of
       None \<Rightarrow> ret None
     | Some v \<Rightarrow>
         (case bearer_scheme v of
            None \<Rightarrow> raise (HttpError 401 ''unauthorized'')
          | Some token \<Rightarrow> ret (Some token)))"

fun cookie_among :: "string \<Rightarrow> string list \<Rightarrow> string option" where
  "cookie_among name [] = None"
| "cookie_among name (entry # entries) =
     (case split_on (CHR ''='') (js_trim entry) of
        [] \<Rightarrow> cookie_among name entries
      | key # parts \<Rightarrow>
          if key = name then truthy (Some (join_with (CHR ''='') parts))
          else cookie_among name entries)"

definition cookieValue :: "http_request \<Rightarrow> string \<Rightarrow> (string option) sop" where
  "cookieValue request name =
     bindM (singleHeader request ''cookie'') (\<lambda>cookie.
     ret (case truthy cookie of None \<Rightarrow> None | Some v \<Rightarrow> cookie_among name (split_on (CHR '';'') v)))"

section \<open>Numbers in a query\<close>

text \<open>
  \<open>Number\<close> of a string: blanks around a decimal, hexadecimal, octal or binary literal, the empty
  string being zero. The value is exact; a literal a double cannot hold is rounded by JavaScript,
  which no number the kernel accepts is.
\<close>

definition digit_value :: "char \<Rightarrow> nat option" where
  "digit_value c =
     (let n = of_char c :: nat in
      if 48 \<le> n \<and> n \<le> 57 then Some (n - 48)
      else if 97 \<le> n \<and> n \<le> 102 then Some (n - 87)
      else if 65 \<le> n \<and> n \<le> 70 then Some (n - 55) else None)"

fun digits_from :: "nat \<Rightarrow> int \<Rightarrow> string \<Rightarrow> int option" where
  "digits_from base value [] = Some value"
| "digits_from base value (c # cs) =
     (case digit_value c of
        None \<Rightarrow> None
      | Some d \<Rightarrow> if d < base then digits_from base (value * int base + int d) cs else None)"

definition digits :: "nat \<Rightarrow> string \<Rightarrow> int option" where
  "digits base t = (if t = [] then None else digits_from base 0 t)"

text \<open>An optional sign, and the rest.\<close>

definition sign_of :: "string \<Rightarrow> int \<times> string" where
  "sign_of t =
     (case t of
        [] \<Rightarrow> (1, [])
      | c # cs \<Rightarrow> if c = CHR ''-'' then (-1, cs) else if c = CHR ''+'' then (1, cs) else (1, t))"

definition exponent_value :: "string list \<Rightarrow> int option" where
  "exponent_value parts =
     (case parts of
        [] \<Rightarrow> Some 0
      | [e] \<Rightarrow> (case digits 10 (snd (sign_of e)) of None \<Rightarrow> None | Some n \<Rightarrow> Some (fst (sign_of e) * n))
      | _ \<Rightarrow> None)"

text \<open>The digits of a mantissa without its point, and how many follow the point.\<close>

definition mantissa_value :: "string \<Rightarrow> (int \<times> nat) option" where
  "mantissa_value t =
     (case split_on (CHR ''.'') t of
        [whole] \<Rightarrow> map_option (\<lambda>n. (n, 0)) (digits 10 whole)
      | [whole, fraction] \<Rightarrow> map_option (\<lambda>n. (n, length fraction)) (digits 10 (whole @ fraction))
      | _ \<Rightarrow> None)"

definition scaled :: "int \<Rightarrow> int \<Rightarrow> jsnum" where
  "scaled m e =
     (if m = 0 then JInt 0
      else if e > 400 then JOther
      else if 0 \<le> e then
        (if m * 10 ^ nat e < 2 ^ 1024 then JInt (m * 10 ^ nat e) else JOther)
      else if 10 ^ nat (- e) dvd m then JInt (m div 10 ^ nat (- e)) else JOther)"

definition negate_num :: "int \<Rightarrow> jsnum \<Rightarrow> jsnum" where
  "negate_num s n = (case n of JInt i \<Rightarrow> JInt (s * i) | JOther \<Rightarrow> JOther)"

definition decimal_number :: "string \<Rightarrow> jsnum" where
  "decimal_number t =
     (case split_on (CHR ''e'') (toLowerCase (snd (sign_of t))) of
        [] \<Rightarrow> JOther
      | mantissa # rest \<Rightarrow>
          (case (mantissa_value mantissa, exponent_value rest) of
             (Some (m, places), Some e) \<Rightarrow> negate_num (fst (sign_of t)) (scaled m (e - int places))
           | _ \<Rightarrow> JOther))"

definition prefixed_number :: "nat \<Rightarrow> string \<Rightarrow> jsnum" where
  "prefixed_number base t = (case digits base t of None \<Rightarrow> JOther | Some n \<Rightarrow> JInt n)"

definition Number_of :: "string \<Rightarrow> jsnum" where
  "Number_of value =
     (let t = js_trim value; h = toLowerCase (take 2 t) in
      if t = [] then JInt 0
      else if h = ''0x'' then prefixed_number 16 (drop 2 t)
      else if h = ''0o'' then prefixed_number 8 (drop 2 t)
      else if h = ''0b'' then prefixed_number 2 (drop 2 t)
      else decimal_number t)"

definition optionalInteger :: "string option \<Rightarrow> (jsnum option) sop" where
  "optionalInteger value =
     (case value of
        None \<Rightarrow> ret None
      | Some v \<Rightarrow>
          (case Number_of v of
             JOther \<Rightarrow> raise (HttpError 400 ''invalid_request'')
           | JInt i \<Rightarrow> ret (Some (JInt i))))"

definition boundedInteger :: "jsnum \<Rightarrow> int \<Rightarrow> int \<Rightarrow> nat sop" where
  "boundedInteger value minimum maximum =
     (case value of
        JOther \<Rightarrow> raise (HttpError 400 ''invalid_request'')
      | JInt i \<Rightarrow>
          if i < minimum \<or> i > maximum then raise (HttpError 400 ''invalid_request'') else ret (nat i))"

text \<open>\<open>url.searchParams.get\<close>: the first parameter of the name.\<close>

definition param :: "request_target \<Rightarrow> string \<Rightarrow> string option" where
  "param url name = map_of (qt_query url) name"

definition requiredQuery :: "request_target \<Rightarrow> string \<Rightarrow> string sop" where
  "requiredQuery url name = needM (HttpError 400 ''invalid_request'') (truthy (param url name))"

definition pageSize :: "request_target \<Rightarrow> (jsnum option) sop" where
  "pageSize url =
     bindM (optionalInteger (param url ''limit'')) (\<lambda>value.
     case value of
       None \<Rightarrow> ret (Some (JInt 50))
     | Some n \<Rightarrow> bindM (boundedInteger n 1 100) (\<lambda>size. ret (Some (JInt (int size)))))"

definition optionalNumber :: "request_target \<Rightarrow> string \<Rightarrow> (jsnum option) sop" where
  "optionalNumber url name = optionalInteger (param url name)"

text \<open>\<open>optionalString\<close> and \<open>optionalStringAs\<close>: absent, or the parameter's value.\<close>

definition optionalString :: "request_target \<Rightarrow> string \<Rightarrow> ident option option" where
  "optionalString url name = map_option Some (param url name)"

section \<open>Sessions and authentication\<close>

definition prune_sessions :: "int \<Rightarrow> service \<Rightarrow> service" where
  "prune_sessions now s = s\<lparr>sv_sessions := filter (\<lambda>(i, session). \<not> hs_expiresAt session \<le> now) (sv_sessions s)\<rparr>"

definition pruneSessions :: "unit sop" where
  "pruneSessions = modify (\<lambda>s. prune_sessions (sv_now s) s)"

definition session_of :: "string option \<Rightarrow> service \<Rightarrow> http_session option" where
  "session_of i s = (case i of None \<Rightarrow> None | Some n \<Rightarrow> map_of (sv_sessions s) n)"

text \<open>\<open>Math.max(1, Math.ceil(ms / 1000))\<close>.\<close>

definition max_age :: "int \<Rightarrow> int" where
  "max_age ms = max 1 (- ((- ms) div 1000))"

definition session_answer :: "principal_context \<Rightarrow> string \<Rightarrow> string \<Rightarrow> int \<Rightarrow> http_answer" where
  "session_answer context sessionId csrfToken ms =
     \<lparr>an_status = 201, an_body = SessionAnswer (pc_principalId context) csrfToken,
      an_cookie = Some (SetSession sessionId (max_age ms)), an_challenge = False\<rparr>"

definition new_session :: "principal_context \<Rightarrow> http_answer sop" where
  "new_session context =
     bindM randomUUID (\<lambda>sessionId.
     bindM randomUUID (\<lambda>csrfToken.
     bindM (gets (\<lambda>s. \<lparr>hs_context = context, hs_expiresAt = sv_now s + sv_sessionDurationMs s,
                      hs_csrfToken = csrfToken\<rparr>)) (\<lambda>session.
     seqM (modify (sv_sessions_update (AList.update sessionId session)))
    (bindM (gets sv_sessionDurationMs) (\<lambda>duration.
     ret (session_answer context sessionId csrfToken duration))))))"

definition openSession :: "http_request \<Rightarrow> http_answer sop" where
  "openSession request =
     bindM (bearerToken request) (\<lambda>authorization.
     bindM (needM (HttpError 401 ''unauthorized'') (truthy authorization)) (\<lambda>token.
     bindM (gets (\<lambda>s. map_of (sv_credentials s) token)) (\<lambda>found.
     bindM (needM (HttpError 401 ''unauthorized'') found) (\<lambda>context.
     seqM pruneSessions
    (bindM (cookieValue request ''torsor_session'') (\<lambda>currentSessionId.
     bindM (gets (session_of currentSessionId)) (\<lambda>currentSession.
     bindM (gets sv_now) (\<lambda>now.
     case (currentSessionId, currentSession) of
       (Some i, Some session) \<Rightarrow>
         if sameContext (hs_context session) context
         then ret (session_answer context i (hs_csrfToken session) (hs_expiresAt session - now))
         else new_session context
     | _ \<Rightarrow> new_session context))))))))"

definition closeSession :: "http_request \<Rightarrow> http_answer sop" where
  "closeSession request =
     bindM (cookieValue request ''torsor_session'') (\<lambda>sessionId.
     seqM (case sessionId of None \<Rightarrow> ret ()
           | Some i \<Rightarrow> modify (sv_sessions_update (AList.delete i)))
          (ret \<lparr>an_status = 204, an_body = EmptyAnswer, an_cookie = Some ClearSession,
                an_challenge = False\<rparr>))"

definition handleSession :: "http_request \<Rightarrow> http_answer sop" where
  "handleSession request =
     (if rq_method request = ''POST'' then openSession request
      else if rq_method request = ''DELETE'' then closeSession request
      else raise (HttpError 405 ''method_not_allowed''))"

text \<open>What \<open>authenticate\<close> knows of a request: its credential, its session, and their contexts.\<close>

definition authenticated_by ::
  "principal_context option \<Rightarrow> string option \<Rightarrow> http_session option \<Rightarrow> principal_context \<Rightarrow>
   authenticated_request" where
  "authenticated_by bearerContext sessionId session context =
     \<lparr>au_context = context, au_bearer = (bearerContext \<noteq> None),
      au_sessionId = (if bearerContext = None \<and> session \<noteq> None then sessionId else None),
      au_sessionExpiresAt = (if bearerContext = None then map_option hs_expiresAt session else None),
      au_sessionCsrfToken = (if bearerContext = None then map_option hs_csrfToken session else None)\<rparr>"

definition authenticate :: "http_request \<Rightarrow> authenticated_request sop" where
  "authenticate request =
     bindM (bearerToken request) (\<lambda>bearer.
     bindM (gets (\<lambda>s. case truthy bearer of None \<Rightarrow> None | Some b \<Rightarrow> map_of (sv_credentials s) b)) (\<lambda>bearerContext.
     bindM (cookieValue request ''torsor_session'') (\<lambda>sessionId.
     seqM pruneSessions
    (bindM (gets (session_of sessionId)) (\<lambda>session.
     bindM (gets sv_now) (\<lambda>now.
     let sessionContext = (case session of None \<Rightarrow> None
           | Some h \<Rightarrow> if hs_expiresAt h > now then Some (hs_context h) else None) in
     seqM (guardM (\<not> (truthy bearer \<noteq> None \<and> bearerContext = None)) (HttpError 401 ''unauthorized''))
    (seqM (guardM (case (bearerContext, sessionContext) of
                     (Some b, Some c) \<Rightarrow> sameContext b c | _ \<Rightarrow> True)
             (HttpError 400 ''ambiguous_authentication''))
    (bindM (needM (HttpError 401 ''unauthorized'')
              (case bearerContext of Some b \<Rightarrow> Some b | None \<Rightarrow> sessionContext)) (\<lambda>context.
     ret (authenticated_by bearerContext sessionId session context))))))))))"

definition session_current :: "authenticated_request \<Rightarrow> service \<Rightarrow> bool" where
  "session_current authenticated s \<longleftrightarrow>
     (case session_of (au_sessionId authenticated) s of
        None \<Rightarrow> False
      | Some session \<Rightarrow>
          \<not> (hs_expiresAt session \<le> sv_now s \<or>
             Some (hs_expiresAt session) \<noteq> au_sessionExpiresAt authenticated \<or>
             Some (hs_csrfToken session) \<noteq> au_sessionCsrfToken authenticated \<or>
             \<not> sameContext (hs_context session) (au_context authenticated)))"

definition authenticationIsCurrent :: "authenticated_request \<Rightarrow> bool sop" where
  "authenticationIsCurrent authenticated =
     (case au_sessionId authenticated of
        None \<Rightarrow> ret True
      | Some i \<Rightarrow>
          bindM (gets (session_current authenticated)) (\<lambda>current.
          if current then ret True
          else seqM (modify (sv_sessions_update (AList.delete i))) (ret False)))"

definition requireCurrentAuthentication :: "authenticated_request \<Rightarrow> unit sop" where
  "requireCurrentAuthentication authenticated =
     (if au_bearer authenticated then ret ()
      else bindM (authenticationIsCurrent authenticated) (\<lambda>current.
           guardM current (HttpError 401 ''unauthorized'')))"

section \<open>Commands\<close>

text \<open>The commands of the table, and the names every JavaScript object inherits: \<open>in\<close> finds both.\<close>

definition commandTypes :: "(string \<times> command_type) list" where
  "commandTypes =
     [(''start-thread'', StartThread), (''reply-to-thread'', ReplyToThread),
      (''edit-message'', EditMessage), (''delete-message'', DeleteMessage),
      (''update-agent-config'', UpdateAgentConfig), (''adopt-run-config'', AdoptRunConfig),
      (''send-to-run'', SendToRun), (''cancel-run'', CancelRun),
      (''withdraw-run-input'', WithdrawRunInput)]"

definition inherited_names :: "string list" where
  "inherited_names =
     [''constructor'', ''hasOwnProperty'', ''isPrototypeOf'', ''propertyIsEnumerable'', ''toString'',
      ''valueOf'', ''toLocaleString'', ''__proto__'', ''__defineGetter__'', ''__defineSetter__'',
      ''__lookupGetter__'', ''__lookupSetter__'']"

definition forbiddenCommandFields :: "string list" where
  "forbiddenCommandFields =
     [''type'', ''principalId'', ''principalContext'', ''actorPrincipalId'', ''authorPrincipalId'',
      ''authorAgentId'', ''causedByAttentionId'', ''causedByRunId'', ''activationId'', ''correlationId'']"

definition readJsonObject :: "http_request \<Rightarrow> nat \<Rightarrow> ((string \<times> json) list) sop" where
  "readJsonObject request limitBytes =
     seqM (guardM (\<not> qb_size (rq_body request) > limitBytes) (HttpError 413 ''payload_too_large''))
    (bindM (needM (HttpError 400 ''invalid_json'') (qb_json (rq_body request))) (\<lambda>parsed.
     case parsed of JObj members \<Rightarrow> ret members | _ \<Rightarrow> raise (HttpError 400 ''invalid_request'')))"

definition json_content :: "string option \<Rightarrow> bool" where
  "json_content contentType =
     (case contentType of
        None \<Rightarrow> False
      | Some v \<Rightarrow> toLowerCase (js_trim (hd (split_on (CHR '';'') v))) = ''application/json'')"

text \<open>
  The command is the body with its type; that it is a command of that type is a cast, which is
  \<open>decode\<close>. \<open>hash\<close> is the kernel's payload hash.
\<close>

record client =
  cl_decode :: "command_type \<Rightarrow> (string \<times> json) list \<Rightarrow> kernel_command"
  cl_hash :: "kernel_command \<Rightarrow> string"

definition send_command ::
  "client \<Rightarrow> string \<Rightarrow> (string \<times> json) list \<Rightarrow> principal_context \<Rightarrow> string \<Rightarrow> command_result sop" where
  "send_command client slug members context correlationId =
     on_kernel
       (case map_of commandTypes slug of
          Some ty \<Rightarrow> execute (cl_hash client) [map fst members @ [''type'']] (cl_decode client ty members)
                       context (Some correlationId)
        | None \<Rightarrow> unsupported_command [map fst members @ [''type'']] context (Some correlationId))"

text \<open>\<open>handleCommand\<close> up to the reading of the body, and from there on.\<close>

definition perform_command ::
  "client \<Rightarrow> string \<Rightarrow> http_request \<Rightarrow> authenticated_request \<Rightarrow> command_result sop" where
  "perform_command client slug request authenticated =
     bindM (gets sv_bodyLimitBytes) (\<lambda>limitBytes.
     bindM (readJsonObject request limitBytes) (\<lambda>members.
     seqM (guardM (list_all (\<lambda>field. field \<notin> set (map fst members)) forbiddenCommandFields)
             (HttpError 400 ''invalid_request''))
    (seqM (guardM (truthy (json_string_member ''idempotencyKey'' (JObj members)) \<noteq> None)
             (HttpError 400 ''invalid_request''))
    (seqM (requireCurrentAuthentication authenticated)
    (bindM randomUUID (\<lambda>uuid.
     send_command client slug members (au_context authenticated) (''corr-'' @ uuid)))))))"

definition handleCommand ::
  "client \<Rightarrow> (service \<Rightarrow> service) \<Rightarrow> string option \<Rightarrow> http_request \<Rightarrow> authenticated_request \<Rightarrow>
   command_result sop" where
  "handleCommand client meanwhile commandSlug request authenticated =
     bindM (needM (HttpError 404 ''not_found'') (truthy commandSlug)) (\<lambda>slug.
     seqM (guardM (slug \<in> set (map fst commandTypes @ inherited_names)) (HttpError 404 ''not_found''))
    (bindM (singleHeader request ''content-type'') (\<lambda>contentType.
     seqM (guardM (json_content contentType) (HttpError 415 ''unsupported_media_type''))
    (seqM (if au_bearer authenticated then ret ()
           else bindM (singleHeader request ''x-torsor-csrf'') (\<lambda>csrf.
                guardM (csrf \<noteq> None \<and> csrf = au_sessionCsrfToken authenticated)
                  (HttpError 403 ''invalid_csrf_token'')))
    (seqM (modify meanwhile)
          (perform_command client slug request authenticated))))))"

section \<open>Queries\<close>

text \<open>
  The kernel answers a query with the result of its kind; anything else is an unexpected failure,
  which does not happen.
\<close>

definition ask :: "kernel_query \<Rightarrow> principal_context \<Rightarrow> (query_result \<Rightarrow> 'a option) \<Rightarrow> 'a sop" where
  "ask q context view =
     bindM (on_kernel (query_kernel q context)) (\<lambda>r. needM UnexpectedFailure (view r))"

definition bootstrap_of :: "query_result \<Rightarrow> bootstrap_projection option" where
  "bootstrap_of r = (case r of Bootstrap b \<Rightarrow> Some b | _ \<Rightarrow> None)"

definition status_of :: "query_result \<Rightarrow> agent_status_view list option" where
  "status_of r = (case r of AgentStatus s \<Rightarrow> Some s | _ \<Rightarrow> None)"

definition listAgents :: "ident \<Rightarrow> principal_context \<Rightarrow> ((bootstrap_agent \<times> agent_status_view option) list) sop" where
  "listAgents projectId context =
     bindM (ask (GetBootstrap projectId) context bootstrap_of) (\<lambda>bootstrap.
     bindM (ask (GetProjectAgentStatus projectId None) context status_of) (\<lambda>status.
     ret (map (\<lambda>agent. (agent, find_row as_agentId (ba_id agent) (rev status))) (bpr_agents bootstrap))))"

text \<open>A sequence is positive: a negative cursor stands before all of them, like zero.\<close>

definition cursor_of :: "jsnum option \<Rightarrow> nat option" where
  "cursor_of n = (case n of Some (JInt i) \<Rightarrow> Some (nat i) | _ \<Rightarrow> None)"

definition project_query ::
  "ident \<Rightarrow> string list \<Rightarrow> request_target \<Rightarrow> principal_context \<Rightarrow> (answer_body option) sop" where
  "project_query projectId rest url context =
     (if rest = [''bootstrap''] then
        bindM (ask (GetBootstrap projectId) context bootstrap_of) (\<lambda>b. ret (Some (BootstrapAnswer b)))
      else if rest = [''channels''] then
        bindM (ask (GetBootstrap projectId) context bootstrap_of) (\<lambda>b.
        ret (Some (ChannelsAnswer (bpr_channels b) (bpr_latestEventId b))))
      else if rest = [''runs''] then
        bindM (pageSize url) (\<lambda>limit.
        bindM (ask (ListRunProjections projectId None (param url ''after'')
                     (optionalString url ''snapshot'') limit) context
                 (\<lambda>r. case r of RunPage p \<Rightarrow> Some p | _ \<Rightarrow> None)) (\<lambda>p.
        ret (Some (RunsAnswer p))))
      else if rest = [''agents''] then
        bindM (listAgents projectId context) (\<lambda>agents. ret (Some (AgentsAnswer agents)))
      else if rest = [''attentions''] then
        bindM (optionalNumber url ''afterCursor'') (\<lambda>afterCursor.
        bindM (pageSize url) (\<lambda>limit.
        bindM (ask (ListOpenAttentions (Some projectId) None (cursor_of afterCursor)
                     (optionalString url ''snapshotEventId'') limit) context
                 (\<lambda>r. case r of AttentionPage p \<Rightarrow> Some p | _ \<Rightarrow> None)) (\<lambda>p.
        ret (Some (AttentionsAnswer p)))))
      else ret None)"

definition artifact_query ::
  "(string \<Rightarrow> nat \<Rightarrow> bytes top) option \<Rightarrow> (bytes \<Rightarrow> string) \<Rightarrow> (service \<Rightarrow> service) \<Rightarrow> ident \<Rightarrow> string list \<Rightarrow>
   authenticated_request \<Rightarrow> (answer_body option) sop" where
  "artifact_query storage sha meanwhile artifactId rest authenticated =
     (if rest = [] then
        bindM (ask (GetArtifact artifactId) (au_context authenticated)
                 (\<lambda>r. case r of Artifact a \<Rightarrow> Some a | _ \<Rightarrow> None)) (\<lambda>artifact.
        seqM (modify meanwhile)
       (seqM (requireCurrentAuthentication authenticated)
             (ret (Some (ArtifactAnswer artifact)))))
      else if rest = [''content''] then
        bindM (on_kernel (readArtifact storage sha artifactId (au_context authenticated))) (\<lambda>(artifact, content).
        seqM (modify meanwhile)
       (seqM (requireCurrentAuthentication authenticated)
             (ret (Some (ContentAnswer (av_mediaType artifact) content)))))
      else ret None)"

definition run_query :: "ident \<Rightarrow> string list \<Rightarrow> request_target \<Rightarrow> principal_context \<Rightarrow> (answer_body option) sop" where
  "run_query runId rest url context =
     (if rest = [] then
        bindM (ask (GetRunProjection runId) context (\<lambda>r. case r of RunProjection p \<Rightarrow> Some p | _ \<Rightarrow> None))
          (\<lambda>run. ret (Some (RunAnswer run)))
      else if rest = [''activity''] then
        bindM (optionalNumber url ''afterSequence'') (\<lambda>afterSequence.
        bindM (optionalNumber url ''beforeSequence'') (\<lambda>beforeSequence.
        bindM (pageSize url) (\<lambda>limit.
        bindM (ask (ListActivity runId afterSequence beforeSequence limit) context
                 (\<lambda>r. case r of ActivityPage p \<Rightarrow> Some p | _ \<Rightarrow> None)) (\<lambda>page.
        ret (Some (ActivityAnswer page))))))
      else ret None)"

definition channel_query :: "ident \<Rightarrow> request_target \<Rightarrow> principal_context \<Rightarrow> (answer_body option) sop" where
  "channel_query channelId url context =
     bindM (requiredQuery url ''projectId'') (\<lambda>projectId.
     bindM (pageSize url) (\<lambda>limit.
     bindM (ask (ListThreadProjections projectId (Some channelId) (param url ''after'')
                  (optionalString url ''snapshot'') limit) context
              (\<lambda>r. case r of ThreadPage p \<Rightarrow> Some p | _ \<Rightarrow> None)) (\<lambda>p.
     ret (Some (ThreadsAnswer p)))))"

definition thread_query :: "ident \<Rightarrow> principal_context \<Rightarrow> (answer_body option) sop" where
  "thread_query threadRootId context =
     bindM (ask (GetThreadProjection threadRootId) context
              (\<lambda>r. case r of ThreadProjection p \<Rightarrow> Some p | _ \<Rightarrow> None)) (\<lambda>thread.
     ret (Some (ThreadAnswer thread)))"

definition handleQuery ::
  "(string \<Rightarrow> nat \<Rightarrow> bytes top) option \<Rightarrow> (bytes \<Rightarrow> string) \<Rightarrow> (service \<Rightarrow> service) \<Rightarrow> string list \<Rightarrow>
   request_target \<Rightarrow> authenticated_request \<Rightarrow> http_answer sop" where
  "handleQuery storage sha meanwhile segments url authenticated =
     bindM (case segments of
         kind # i # rest \<Rightarrow>
           if kind = ''projects'' then project_query i rest url (au_context authenticated)
           else if kind = ''channels'' \<and> rest = [''threads''] then
             channel_query i url (au_context authenticated)
           else if kind = ''artifacts'' then artifact_query storage sha meanwhile i rest authenticated
           else if kind = ''threads'' \<and> rest = [] then thread_query i (au_context authenticated)
           else if kind = ''runs'' then run_query i rest url (au_context authenticated)
           else ret None
       | _ \<Rightarrow> ret None) (\<lambda>found.
     bindM (needM (HttpError 404 ''not_found'') found) (\<lambda>body.
     ret (plain_answer 200 body)))"

section \<open>Errors\<close>

definition kcode_name :: "kcode \<Rightarrow> string" where
  "kcode_name c =
     (case c of
        NotFound \<Rightarrow> ''NotFound'' | Unauthorized \<Rightarrow> ''Unauthorized'' | Forbidden \<Rightarrow> ''Forbidden''
      | InvalidCommand \<Rightarrow> ''InvalidCommand'' | Conflict \<Rightarrow> ''Conflict'' | DomainBusy \<Rightarrow> ''DomainBusy''
      | WriterAuthorityLost \<Rightarrow> ''WriterAuthorityLost'' | CausalLimitExceeded \<Rightarrow> ''CausalLimitExceeded''
      | StaleRevision \<Rightarrow> ''StaleRevision'' | ConditionalCheckFailed \<Rightarrow> ''ConditionalCheckFailed''
      | TerminalRun \<Rightarrow> ''TerminalRun'' | PendingRunInputs \<Rightarrow> ''PendingRunInputs'')"

definition kernelStatus :: "kcode \<Rightarrow> nat" where
  "kernelStatus c =
     (case c of
        Unauthorized \<Rightarrow> 401 | Forbidden \<Rightarrow> 403 | NotFound \<Rightarrow> 404 | InvalidCommand \<Rightarrow> 400 | _ \<Rightarrow> 409)"

text \<open>\<open>replace(/([a-z0-9])([A-Z])/g, "$1_$2")\<close>, then lower case.\<close>

fun snake_split :: "string \<Rightarrow> string" where
  "snake_split (x # y # cs) =
     (if (of_char x \<in> {97 :: nat..122} \<or> of_char x \<in> {48 :: nat..57}) \<and> of_char y \<in> {65 :: nat..90}
      then x # CHR ''_'' # y # snake_split cs else x # snake_split (y # cs))"
| "snake_split cs = cs"

definition snakeCase :: "string \<Rightarrow> string" where
  "snakeCase value = toLowerCase (snake_split value)"

definition error_answer :: "nat \<Rightarrow> string \<Rightarrow> json option \<Rightarrow> string \<Rightarrow> http_answer" where
  "error_answer status code details requestId =
     \<lparr>an_status = status, an_body = ErrorAnswer code details requestId, an_cookie = None,
      an_challenge = (status = 401)\<rparr>"

definition sendError :: "string \<Rightarrow> http_error \<Rightarrow> http_answer" where
  "sendError requestId error =
     (case error of
        HttpError status code \<Rightarrow> error_answer status code None requestId
      | KernelFailure (KernelError c details) \<Rightarrow>
          error_answer (kernelStatus c) (snakeCase (kcode_name c)) details requestId
      | KernelFailure (DurableKernelError c details) \<Rightarrow>
          error_answer (kernelStatus c) (snakeCase (kcode_name c)) details requestId
      | _ \<Rightarrow> error_answer 500 ''internal_error'' None requestId)"

section \<open>Requests\<close>

text \<open>
  Everything but the event stream, which \<open>is_event_stream\<close> tells apart and which is not
  modelled. The kernel's parameters are those of the client and of the artifact storage.
\<close>

record environment =
  env_client :: client
  env_storage :: "(string \<Rightarrow> nat \<Rightarrow> bytes top) option"
  env_sha :: "bytes \<Rightarrow> string"
  env_meanwhile :: "service \<Rightarrow> service"

definition dispatch_request ::
  "environment \<Rightarrow> http_request \<Rightarrow> request_target \<Rightarrow> string list \<Rightarrow> authenticated_request \<Rightarrow> http_answer sop" where
  "dispatch_request env request url rest authenticated =
     (if rq_method request = ''POST'' \<and> rest \<noteq> [] \<and> hd rest = ''commands'' then
        bindM (handleCommand (env_client env) (env_meanwhile env)
                 (case rest of _ # slug # _ \<Rightarrow> Some slug | _ \<Rightarrow> None) request authenticated)
          (\<lambda>result. ret (plain_answer 200 (CommandAnswer result)))
      else if rq_method request \<noteq> ''GET'' then raise (HttpError 405 ''method_not_allowed'')
      else handleQuery (env_storage env) (env_sha env) (env_meanwhile env) rest url authenticated)"

definition route :: "environment \<Rightarrow> http_request \<Rightarrow> request_target \<Rightarrow> http_answer sop" where
  "route env request url =
     (if rq_method request = ''GET'' \<and> qt_pathname url = ''/health'' then ret (plain_answer 200 HealthAnswer)
      else
        (case qt_segments url of
           a # b # rest \<Rightarrow>
             if a \<noteq> ''api'' \<or> b \<noteq> ''v1'' then raise (HttpError 404 ''not_found'')
             else if rest \<noteq> [] \<and> hd rest = ''session'' then handleSession request
             else bindM (authenticate request) (dispatch_request env request url rest)
         | _ \<Rightarrow> raise (HttpError 404 ''not_found'')))"

definition is_event_stream :: "http_request \<Rightarrow> bool" where
  "is_event_stream request \<longleftrightarrow>
     rq_method request = ''GET'' \<and>
     (case rq_target request of None \<Rightarrow> False | Some url \<Rightarrow> take 3 (qt_segments url) = [''api'', ''v1'', ''events''])"

definition handle_request :: "environment \<Rightarrow> http_request \<Rightarrow> service \<Rightarrow> http_answer \<times> service" where
  "handle_request env request s =
     (case randomUUID s of
        (Inr requestId, s') \<Rightarrow>
          (case bindM (needM UnexpectedFailure (rq_target request)) (route env request) s' of
             (Inr reply, t) \<Rightarrow> (reply, t)
           | (Inl e, t) \<Rightarrow> (sendError requestId e, t))
      | (Inl e, s') \<Rightarrow> (sendError [] e, s'))"

end
