(* ===== verification/HttpSafety.thy ===== *)
theory HttpSafety
  imports HttpServer Reachability
begin

text \<open>
  Who reaches the kernel through the HTTP service, and on whose behalf: the authority a request
  presents, what an answered command proves of its request, what ending a session stops, and the
  service as a system whose steps keep every invariant of the kernel.
\<close>

section \<open>The authority of a request\<close>

definition presents_credential :: "service \<Rightarrow> http_request \<Rightarrow> principal_context \<Rightarrow> bool" where
  "presents_credential s request context \<longleftrightarrow>
     (\<exists>token. fst (bearerToken request s) = Inr (Some token) \<and>
        map_of (sv_credentials s) token = Some context)"

definition presents_session ::
  "service \<Rightarrow> http_request \<Rightarrow> string \<Rightarrow> http_session \<Rightarrow> principal_context \<Rightarrow> bool" where
  "presents_session s request i session context \<longleftrightarrow>
     fst (cookieValue request ''torsor_session'' s) = Inr (Some i) \<and>
     map_of (sv_sessions s) i = Some session \<and> sv_now s < hs_expiresAt session \<and>
     hs_context session = context"

definition presents_csrf :: "service \<Rightarrow> http_request \<Rightarrow> http_session \<Rightarrow> bool" where
  "presents_csrf s request session \<longleftrightarrow>
     fst (singleHeader request ''x-torsor-csrf'' s) = Inr (Some (hs_csrfToken session))"

lemma header_frames [frame_rules]:
  "frames g (singleHeader request name)" "frames g (bearerToken request)"
  "frames g (cookieValue request name)"
proof -
  show single: "frames g (singleHeader request name)" for name
    unfolding singleHeader_def by (auto split: option.split header_value.split list.split intro!: frame_rules)
  show "frames g (bearerToken request)"
    unfolding bearerToken_def by (intro frame_rules single)
  show "frames g (cookieValue request name)"
    unfolding cookieValue_def by (intro frame_rules single)
qed

lemma session_frames [frame_rules]:
  "frames sv_kernel pruneSessions" "frames sv_kernel randomUUID"
  "frames sv_kernel (openSession request)" "frames sv_kernel (closeSession request)"
  "frames sv_kernel (handleSession request)" "frames sv_kernel (authenticate request)"
  "frames sv_kernel (authenticationIsCurrent au)" "frames sv_kernel (requireCurrentAuthentication au)"
proof -
  show uuid: "frames sv_kernel randomUUID"
    by (simp add: frames_def randomUUID_run)
  show prune: "frames sv_kernel pruneSessions"
    unfolding pruneSessions_def by (rule frames_modify) (simp add: prune_sessions_def)
  have new: "frames sv_kernel (new_session cx)" for cx
    unfolding new_session_def by (intro frame_rules uuid frames_modify) simp
  show open_s: "frames sv_kernel (openSession request)"
    unfolding openSession_def by (intro frame_rules prune new)
  show close_s: "frames sv_kernel (closeSession request)"
    unfolding closeSession_def by (intro frame_rules frames_modify) simp
  show "frames sv_kernel (handleSession request)"
    unfolding handleSession_def by (intro frame_rules open_s close_s)
  show "frames sv_kernel (authenticate request)"
    unfolding authenticate_def by (intro frame_rules prune)
  show current: "frames sv_kernel (authenticationIsCurrent au)"
    unfolding authenticationIsCurrent_def by (intro frame_rules frames_modify) simp
  show "frames sv_kernel (requireCurrentAuthentication au)"
    unfolding requireCurrentAuthentication_def by (intro frame_rules current)
qed

text \<open>The reading of a header does not depend on the state of the service.\<close>

lemma header_result:
  "fst (singleHeader request name s) = fst (singleHeader request name t)"
  "fst (bearerToken request s) = fst (bearerToken request t)"
  "fst (cookieValue request name s) = fst (cookieValue request name t)"
proof -
  show single: "fst (singleHeader request name s) = fst (singleHeader request name t)" for name
    by (auto simp: singleHeader_def run_simps split: option.split header_value.split list.split)
  show "fst (bearerToken request s) = fst (bearerToken request t)"
    using single [of "''authorization''"]
    by (auto simp: bearerToken_def bindM_run ret_run raise_run split: prod.splits sum.splits option.splits)
  show "fst (cookieValue request name s) = fst (cookieValue request name t)"
    using single [of "''cookie''"]
    by (auto simp: cookieValue_def bindM_run ret_run split: prod.splits sum.splits)
qed

lemma header_state:
  "singleHeader request name s = (r, t) \<Longrightarrow> t = s" "bearerToken request s = (r', t) \<Longrightarrow> t = s"
  "cookieValue request name s = (r'', t) \<Longrightarrow> t = s"
  using header_frames [where g = "\<lambda>s. s"] by (metis frames_run)+

lemma truthy_Some: "truthy v = Some x \<Longrightarrow> v = Some x"
  by (simp add: truthy_def split: if_splits)

lemma session_of_pruned:
  "session_of i (prune_sessions now s) = Some session \<Longrightarrow> distinct (map fst (sv_sessions s)) \<Longrightarrow>
   session_of i s = Some session \<and> now < hs_expiresAt session"
  by (cases i) (auto simp: session_of_def prune_sessions_def simp del: map_of_eq_Some_iff
      dest!: map_of_SomeD intro!: map_of_is_SomeI)

text \<open>The sessions are a map: no identifier occurs twice.\<close>

definition sessions_ok :: "service \<Rightarrow> bool" where
  "sessions_ok s \<longleftrightarrow>
     distinct (map fst (sv_sessions s)) \<and>
     (\<forall>(i, session) \<in> set (sv_sessions s). hs_context session \<in> snd ` set (sv_credentials s))"

definition authority_of ::
  "service \<Rightarrow> http_request \<Rightarrow> authenticated_request \<Rightarrow> bool" where
  "authority_of s request au \<longleftrightarrow>
     (if au_bearer au then presents_credential s request (au_context au)
      else \<exists>i session. presents_session s request i session (au_context au) \<and>
        au_sessionId au = Some i \<and> au_sessionExpiresAt au = Some (hs_expiresAt session) \<and>
        au_sessionCsrfToken au = Some (hs_csrfToken session))"

lemma authenticate_source:
  assumes "authenticate request s = (Inr au, t)" "distinct (map fst (sv_sessions s))"
  shows "authority_of s request au \<and> t = prune_sessions (sv_now s) s"
proof -
  obtain bearer where bearer: "bearerToken request s = (Inr bearer, s)"
    using assms(1) header_state(2) unfolding authenticate_def by (elim bindM_returned) metis
  obtain cookie where cookie: "cookieValue request ''torsor_session'' s = (Inr cookie, s)"
    using assms(1) header_state(3) bearer unfolding authenticate_def
    by (auto simp: bindM_run gets_run split: prod.splits sum.splits)
  have session: "session_of cookie (prune_sessions (sv_now s) s) = Some h \<Longrightarrow>
      session_of cookie s = Some h \<and> sv_now s < hs_expiresAt h" for h
    by (rule session_of_pruned [OF _ assms(2)])
  have now: "sv_now (prune_sessions (sv_now s) s) = sv_now s"
    by (simp add: prune_sessions_def)
  show ?thesis
    using assms(1) bearer cookie session now
    by (auto simp: authenticate_def run_simps pruneSessions_def Let_def authority_of_def
        authenticated_by_def presents_credential_def presents_session_def session_of_def
        split: if_splits option.splits dest!: truthy_Some)
qed

text \<open>Between the authentication and the body nothing touches the kernel.\<close>

lemma handleCommand_refused:
  assumes "\<not> au_bearer au" "au_sessionCsrfToken au = Some (hs_csrfToken session)"
    "\<not> presents_csrf s request session"
  shows "sv_kernel (snd (handleCommand cl meanwhile slug request au s)) = sv_kernel s"
proof -
  let ?csrf = "bindM (singleHeader request ''x-torsor-csrf'') (\<lambda>csrf.
      guardM (csrf \<noteq> None \<and> csrf = au_sessionCsrfToken au) (HttpError 403 ''invalid_csrf_token''))"
  have refused: "\<exists>e. ?csrf u = (Inl e, u)" for u
    using assms header_result(1) [of request "''x-torsor-csrf''" s u] header_state(1) [of request "''x-torsor-csrf''" u]
    by (auto simp: presents_csrf_def bindM_run guardM_run split: prod.splits sum.splits)
  have stops: "frames sv_kernel (seqM (if au_bearer au then ret () else ?csrf) rest)" for rest :: "'b sop"
    unfolding frames_def
  proof
    fix u
    obtain e where "?csrf u = (Inl e, u)" using refused by blast
    then show "sv_kernel (snd (seqM (if au_bearer au then ret () else ?csrf) rest u)) = sv_kernel u"
      using assms(1) by (simp add: seqM_run)
  qed
  have "frames sv_kernel (handleCommand cl meanwhile slug request au)"
    unfolding handleCommand_def by (rule stops frame_rules)+
  then show ?thesis by (simp add: frames_def)
qed

text \<open>Whatever a request changes in the kernel, it changes with an authority it presents.\<close>

lemma prune_kernel [simp]: "sv_kernel (prune_sessions now s) = sv_kernel s"
  by (simp add: prune_sessions_def)

definition may_act :: "service \<Rightarrow> http_request \<Rightarrow> bool" where
  "may_act s request \<longleftrightarrow>
     (\<exists>context. presents_credential s request context) \<or>
     (\<exists>i session context. presents_session s request i session context \<and>
        (rq_method request = ''GET'' \<or> presents_csrf s request session))"

lemma authenticated_route:
  assumes "distinct (map fst (sv_sessions s))"
    and other: "\<And>au. \<not> may_act s request \<Longrightarrow> authority_of s request au \<Longrightarrow>
      sv_kernel (snd (f au (prune_sessions (sv_now s) s))) = sv_kernel s"
  shows "sv_kernel (snd (bindM (authenticate request) f s)) = sv_kernel s \<or> may_act s request"
proof (cases "authenticate request s")
  case (Pair r t)
  show ?thesis
  proof (cases r)
    case (Inl e)
    then have "snd (bindM (authenticate request) f s) = t" using Pair by (simp add: bindM_run)
    then show ?thesis using frames_run [OF session_frames(6) Pair] by simp
  next
    case (Inr au)
    then have "authority_of s request au" "t = prune_sessions (sv_now s) s"
      using authenticate_source [of request s au t] Pair assms(1) by auto
    moreover have "snd (bindM (authenticate request) f s) = snd (f au t)"
      using Pair Inr by (simp add: bindM_run)
    ultimately show ?thesis using other by auto
  qed
qed

lemma unauthorized_command:
  assumes "\<not> may_act s request" "authority_of s request au" "rq_method request \<noteq> ''GET''"
  shows "sv_kernel (snd (handleCommand cl meanwhile slug request au (prune_sessions now s))) = sv_kernel s"
proof -
  obtain i session where session: "\<not> au_bearer au" "presents_session s request i session (au_context au)"
      "au_sessionCsrfToken au = Some (hs_csrfToken session)"
    using assms(1,2) by (auto simp: authority_of_def may_act_def split: if_splits)
  then have "\<not> presents_csrf (prune_sessions now s) request session"
    using assms(1) header_result(1) [of request "''x-torsor-csrf''" s "prune_sessions now s"]
    unfolding may_act_def presents_csrf_def by metis
  then show ?thesis
    using handleCommand_refused [OF session(1,3)] by (simp add: prune_kernel)
qed

lemma unauthorized_query:
  assumes "\<not> may_act s request" "authority_of s request au"
  shows "rq_method request \<noteq> ''GET''"
  using assms unfolding authority_of_def may_act_def by metis

lemma route_authority:
  assumes "distinct (map fst (sv_sessions s))"
  shows "sv_kernel (snd (route env request url s)) = sv_kernel s \<or> may_act s request"
proof -
  have bind: "sv_kernel (snd (bindM (handleCommand cl mw slug request au) (\<lambda>r. ret (h r)) u)) =
      sv_kernel (snd (handleCommand cl mw slug request au u))" for cl mw slug au h u
    by (auto simp: bindM_run ret_run split: prod.splits sum.splits)
  have session: "sv_kernel (snd (handleSession request s)) = sv_kernel s"
    using session_frames(5) by (simp add: frames_def)
  have other: "sv_kernel (snd (dispatch_request env request url rest au
      (prune_sessions (sv_now s) s))) = sv_kernel s"
    if "\<not> may_act s request" "authority_of s request au" for au rest
    using that unauthorized_query [OF that]
    by (simp add: dispatch_request_def bind unauthorized_command raise_run)
  have "sv_kernel (snd (bindM (authenticate request) (dispatch_request env request url rest) s)) =
      sv_kernel s \<or> may_act s request" for rest
    by (rule authenticated_route [OF assms]) (rule other)
  then show ?thesis
    by (auto simp: route_def ret_run raise_run session split: list.split)
qed

section \<open>Answered commands\<close>

text \<open>
  The endpoint of each command a client of the service can send, written down independently of the
  table of the code: the name of the command in lower case.
\<close>

fun endpoint_of :: "command_type \<Rightarrow> string option" where
  "endpoint_of StartThread = Some ''start-thread''"
| "endpoint_of ReplyToThread = Some ''reply-to-thread''"
| "endpoint_of EditMessage = Some ''edit-message''"
| "endpoint_of DeleteMessage = Some ''delete-message''"
| "endpoint_of UpdateAgentConfig = Some ''update-agent-config''"
| "endpoint_of AdoptRunConfig = Some ''adopt-run-config''"
| "endpoint_of SendToRun = Some ''send-to-run''"
| "endpoint_of CancelRun = Some ''cancel-run''"
| "endpoint_of WithdrawRunInput = Some ''withdraw-run-input''"
| "endpoint_of _ = None"

lemma commandTypes_endpoint: "map_of commandTypes slug = Some ty \<Longrightarrow> endpoint_of ty = Some slug"
  by (auto simp: commandTypes_def split: if_splits)

definition names_command :: "http_request \<Rightarrow> command_type \<Rightarrow> bool" where
  "names_command request ty \<longleftrightarrow>
     rq_method request = ''POST'' \<and>
     (\<exists>url slug rest. rq_target request = Some url \<and> endpoint_of ty = Some slug \<and>
        qt_segments url = [''api'', ''v1'', ''commands'', slug] @ rest)"

text \<open>
  What an answered command proves: the request named the command in its path and was a JSON object
  without any field the server controls, and the kernel executed a command of that type for the
  principal the request authenticates, under a correlation the server drew.
\<close>

definition executes_command ::
  "environment \<Rightarrow> command_type \<Rightarrow> http_request \<Rightarrow> principal_context \<Rightarrow> command_result \<Rightarrow>
   torsor_kernel \<Rightarrow> torsor_kernel \<Rightarrow> bool" where
  "executes_command env ty request context result t t' \<longleftrightarrow>
     (\<exists>members correlationId.
        qb_json (rq_body request) = Some (JObj members) \<and>
        set (map fst members) \<inter> set forbiddenCommandFields = {} \<and>
        execute (cl_hash (env_client env)) [map fst members @ [''type'']]
          (cl_decode (env_client env) ty members) context (Some correlationId) t = (Inr result, t'))"

definition command_of_request ::
  "environment \<Rightarrow> http_request \<Rightarrow> principal_context \<Rightarrow> command_result \<Rightarrow> torsor_kernel \<Rightarrow> torsor_kernel \<Rightarrow> bool" where
  "command_of_request env request context result t t' \<longleftrightarrow>
     (\<exists>ty. names_command request ty \<and> executes_command env ty request context result t t')"

lemma unsupported_fails: "isl (fst (unsupported_command inputs context operation t))"
  by (auto simp: unsupported_command_def withDatabaseAccess_def assertOpen_def on_context_def run_simps
      transaction_run split: prod.split sum.split)

lemma handleCommand_returned:
  assumes "handleCommand (env_client env) meanwhile slug request au s = (Inr result, t)"
  shows "\<exists>u name ty. slug = Some name \<and> endpoint_of ty = Some name \<and>
    requireCurrentAuthentication au (meanwhile s) = (Inr (), u) \<and>
    (au_bearer au \<or> (\<exists>token. fst (singleHeader request ''x-torsor-csrf'' s) = Inr (Some token) \<and>
      au_sessionCsrfToken au = Some token)) \<and>
    executes_command env ty request (au_context au) result (sv_kernel u) (sv_kernel t)"
proof -
  have body: "v = u \<and> qb_json (rq_body request) = Some (JObj m)"
    if "readJsonObject request n u = (Inr m, v)" for n u m v
    using that by (auto simp: readJsonObject_def seqM_run bindM_run guardM_run needM_run ret_run raise_run
        split: option.splits if_splits json.splits)
  have need: "v = u \<and> w = Some x" if "needM e (truthy w) u = (Inr x, v)" for e w u v and x :: string
    using that by (auto simp: needM_run split: option.splits dest: truthy_Some)
  have csrf: "v = u \<and> (au_bearer au \<or> (\<exists>token. fst (singleHeader request ''x-torsor-csrf'' u) =
      Inr (Some token) \<and> au_sessionCsrfToken au = Some token))" if "(if au_bearer au then ret () else bindM (singleHeader request ''x-torsor-csrf'')
      (\<lambda>csrf. guardM (csrf \<noteq> None \<and> csrf = au_sessionCsrfToken au) (HttpError 403 ''invalid_csrf_token''))) u =
      (Inr (), v)" for u v
    using that by (auto simp: ret_run bindM_run guardM_run split: if_splits prod.splits sum.splits
        dest: header_state(1)) (metis+)
  obtain name members u corr v where slug: "slug = Some name" and steps:
      "qb_json (rq_body request) = Some (JObj members)"
      "list_all (\<lambda>field. field \<notin> set (map fst members)) forbiddenCommandFields"
      "requireCurrentAuthentication au (meanwhile s) = (Inr (), u)"
      "randomUUID u = (Inr corr, v)"
      "send_command (env_client env) name members (au_context au) (''corr-'' @ corr) v = (Inr result, t)"
      "au_bearer au \<or> (\<exists>token. fst (singleHeader request ''x-torsor-csrf'' s) = Inr (Some token) \<and>
        au_sessionCsrfToken au = Some token)"
    using assms unfolding handleCommand_def perform_command_def
    by (elim bindM_returned seqM_returned)
      (auto simp: guardM_returned modify_run gets_run dest!: body header_state(1) need csrf)
  have "map_of commandTypes name \<noteq> None"
  proof
    assume "map_of commandTypes name = None"
    then show False
      using steps(5) unsupported_fails [of "[map fst members @ [''type'']]" "au_context au"
          "Some (''corr-'' @ corr)" "sv_kernel v"]
      by (auto simp: send_command_def on_kernel_run split: prod.splits sum.splits)
  qed
  then obtain ty where ty: "map_of commandTypes name = Some ty" by blast
  then have "endpoint_of ty = Some name" by (rule commandTypes_endpoint)
  moreover have "execute (cl_hash (env_client env)) [map fst members @ [''type'']]
      (cl_decode (env_client env) ty members) (au_context au) (Some (''corr-'' @ corr)) (sv_kernel u) =
      (Inr result, sv_kernel t)"
    using steps(4,5) ty
    by (auto simp: send_command_def on_kernel_run randomUUID_run split: prod.splits sum.splits)
  ultimately show ?thesis
    using slug steps(1,2,3,6) by (auto simp: executes_command_def list_all_iff)
qed

text \<open>Only the command endpoint answers with the result of a command.\<close>

definition no_command :: "answer_body \<Rightarrow> bool" where
  "no_command body \<longleftrightarrow> (case body of CommandAnswer _ \<Rightarrow> False | _ \<Rightarrow> True)"

lemma no_command_simps [simp]:
  "no_command HealthAnswer" "no_command (SessionAnswer i c)" "no_command EmptyAnswer"
  "no_command (BootstrapAnswer b)" "no_command (ChannelsAnswer cs e)" "no_command (RunsAnswer rp)"
  "no_command (AgentsAnswer ag)" "no_command (AttentionsAnswer atp)" "no_command (ThreadsAnswer tp)"
  "no_command (ArtifactAnswer av)" "no_command (ContentAnswer m bs)" "no_command (ThreadAnswer th)"
  "no_command (RunAnswer rn)" "no_command (ActivityAnswer ap)" "no_command (ErrorAnswer ec d q)"
  "\<not> no_command (CommandAnswer result)"
  by (simp_all add: no_command_def)

definition answers_no_command :: "(answer_body option) sop \<Rightarrow> bool" where
  "answers_no_command m \<longleftrightarrow> (\<forall>s b t. m s = (Inr (Some b), t) \<longrightarrow> no_command b)"

named_theorems quiet_rules "operations that answer without the result of a command"

lemma quiet_combinators [quiet_rules]:
  "no_command b \<Longrightarrow> answers_no_command (ret (Some b))"
  "answers_no_command (ret None)"
  "(\<And>x. answers_no_command (f x)) \<Longrightarrow> answers_no_command (bindM m f)"
  "answers_no_command n \<Longrightarrow> answers_no_command (seqM m' n)"
  "(c \<Longrightarrow> answers_no_command n) \<Longrightarrow> (\<not> c \<Longrightarrow> answers_no_command n') \<Longrightarrow>
   answers_no_command (if c then n else n')"
  "(\<And>x y. answers_no_command (g x y)) \<Longrightarrow> answers_no_command (case p of (x, y) \<Rightarrow> g x y)"
  unfolding answers_no_command_def
  by (auto simp: ret_run split: prod.splits elim!: bindM_returned seqM_returned)

lemma quiet_queries [quiet_rules]:
  "answers_no_command (project_query i rest url context)"
  "answers_no_command (artifact_query storage sha meanwhile i rest au)"
  "answers_no_command (run_query i rest url context)" "answers_no_command (channel_query i url context)"
  "answers_no_command (thread_query i context)"
  unfolding project_query_def artifact_query_def run_query_def channel_query_def thread_query_def
  by (intro quiet_rules; simp)+

lemma handleQuery_quiet:
  "handleQuery storage sha meanwhile segments url au s = (Inr a, t) \<Longrightarrow> no_command (an_body a)"
proof -
  assume "handleQuery storage sha meanwhile segments url au s = (Inr a, t)"
  then obtain found u v body where found: "(case segments of
         kind # i # rest \<Rightarrow>
           if kind = ''projects'' then project_query i rest url (au_context au)
           else if kind = ''channels'' \<and> rest = [''threads''] then
             channel_query i url (au_context au)
           else if kind = ''artifacts'' then artifact_query storage sha meanwhile i rest au
           else if kind = ''threads'' \<and> rest = [] then thread_query i (au_context au)
           else if kind = ''runs'' then run_query i rest url (au_context au)
           else ret None
       | _ \<Rightarrow> ret None) s = (Inr found, u)" "found = Some body" "a = plain_answer 200 body"
    unfolding handleQuery_def
    by (elim bindM_returned) (auto simp: needM_run ret_run split: option.splits)
  have "answers_no_command (case segments of
         kind # i # rest \<Rightarrow>
           if kind = ''projects'' then project_query i rest url (au_context au)
           else if kind = ''channels'' \<and> rest = [''threads''] then
             channel_query i url (au_context au)
           else if kind = ''artifacts'' then artifact_query storage sha meanwhile i rest au
           else if kind = ''threads'' \<and> rest = [] then thread_query i (au_context au)
           else if kind = ''runs'' then run_query i rest url (au_context au)
           else ret None
       | _ \<Rightarrow> ret None)"
    by (auto split: list.split intro!: quiet_rules)
  then show ?thesis using found by (auto simp: answers_no_command_def plain_answer_def)
qed

lemma handleSession_quiet: "handleSession request s = (Inr a, t) \<Longrightarrow> no_command (an_body a)"
  by (auto simp: handleSession_def openSession_def closeSession_def new_session_def session_answer_def
      ret_run raise_run split: if_splits option.splits elim!: bindM_returned seqM_returned)

definition acts_for :: "service \<Rightarrow> http_request \<Rightarrow> principal_context \<Rightarrow> bool" where
  "acts_for s request context \<longleftrightarrow>
     presents_credential s request context \<or>
     (\<exists>i session. presents_session s request i session context \<and> presents_csrf s request session)"

lemma route_command:
  assumes "route env request url s = (Inr a, t)" "an_body a = CommandAnswer result"
    "distinct (map fst (sv_sessions s))" and target: "rq_target request = Some url"
  shows "\<exists>context u. acts_for s request context \<and>
    command_of_request env request context result u (sv_kernel t)"
proof -
  have not_quiet: "\<not> no_command (an_body a)" using assms(2) by simp
  obtain rest where dispatched:
      "bindM (authenticate request) (dispatch_request env request url rest) s = (Inr a, t)"
      and path: "qt_segments url = ''api'' # ''v1'' # rest"
    using assms(1) not_quiet handleSession_quiet
    by (auto simp: route_def ret_run raise_run plain_answer_def split: if_splits list.splits)
  then obtain au where au: "authority_of s request au"
      and sent: "dispatch_request env request url rest au (prune_sessions (sv_now s) s) = (Inr a, t)"
    using authenticate_source [OF _ assms(3)] by (elim bindM_returned) blast
  let ?slug = "case rest of _ # slug # _ \<Rightarrow> Some slug | _ \<Rightarrow> None"
  have handled: "handleCommand (env_client env) (env_meanwhile env) ?slug request au
      (prune_sessions (sv_now s) s) = (Inr result, t)" and "rq_method request = ''POST''"
    and endpoint: "rest \<noteq> []" "hd rest = ''commands''"
    using sent not_quiet assms(2)
    by (auto simp: dispatch_request_def ret_run raise_run plain_answer_def split: if_splits
        elim!: bindM_returned dest: handleQuery_quiet)
  obtain u name ty where named: "?slug = Some name" "endpoint_of ty = Some name" and sent:
      "requireCurrentAuthentication au (env_meanwhile env (prune_sessions (sv_now s) s)) = (Inr (), u)"
      "executes_command env ty request (au_context au) result (sv_kernel u) (sv_kernel t)"
      "au_bearer au \<or> (\<exists>token. fst (singleHeader request ''x-torsor-csrf'' (prune_sessions (sv_now s) s)) =
        Inr (Some token) \<and> au_sessionCsrfToken au = Some token)"
    using handleCommand_returned [OF handled] by blast
  have "names_command request ty"
    using named endpoint path target \<open>rq_method request = ''POST''\<close>
    by (auto simp: names_command_def split: list.splits)
  then have "command_of_request env request (au_context au) result (sv_kernel u) (sv_kernel t)"
    using sent(2) by (auto simp: command_of_request_def)
  moreover
  have "acts_for s request (au_context au)"
    using au sent(3) header_result(1) [of request "''x-torsor-csrf''" s "prune_sessions (sv_now s) s"]
    unfolding authority_of_def acts_for_def presents_csrf_def by (metis option.inject)
  ultimately show ?thesis by blast
qed

lemma drawn_presents:
  "presents_credential (s\<lparr>sv_drawn := n\<rparr>) request context = presents_credential s request context"
  "presents_session (s\<lparr>sv_drawn := n\<rparr>) request i session context = presents_session s request i session context"
  "presents_csrf (s\<lparr>sv_drawn := n\<rparr>) request session = presents_csrf s request session"
proof -
  have headers: "fst (singleHeader request name (s\<lparr>sv_drawn := n\<rparr>)) = fst (singleHeader request name s)"
    "fst (bearerToken request (s\<lparr>sv_drawn := n\<rparr>)) = fst (bearerToken request s)"
    "fst (cookieValue request name (s\<lparr>sv_drawn := n\<rparr>)) = fst (cookieValue request name s)" for name
    by (rule header_result)+
  show "presents_credential (s\<lparr>sv_drawn := n\<rparr>) request context = presents_credential s request context"
    "presents_session (s\<lparr>sv_drawn := n\<rparr>) request i session context = presents_session s request i session context"
    "presents_csrf (s\<lparr>sv_drawn := n\<rparr>) request session = presents_csrf s request session"
    by (simp_all add: presents_credential_def presents_session_def presents_csrf_def headers)
qed

lemma may_act_drawn: "may_act (s\<lparr>sv_drawn := n\<rparr>) request = may_act s request"
  by (simp add: may_act_def drawn_presents)

text \<open>A service with one credential and one browser session, and a client without either.\<close>

definition sample_session :: http_session where
  "sample_session = \<lparr>hs_context = human_context, hs_expiresAt = 100, hs_csrfToken = ''x''\<rparr>"

definition sample_service :: service where
  "sample_service =
     \<lparr>sv_kernel = sample_object, sv_credentials = [(''t'', human_context)],
      sv_sessions = [(''s'', sample_session)], sv_bodyLimitBytes = 1000, sv_sessionDurationMs = 50,
      sv_now = 10, sv_uuid = (\<lambda>n. replicate n (CHR ''u'')), sv_drawn = 1\<rparr>"

definition sample_environment :: environment where
  "sample_environment =
     \<lparr>env_client = \<lparr>cl_decode = (\<lambda>ty members. sample_message [''ag'']), cl_hash = sample_hash\<rparr>,
      env_storage = None, env_sha = (\<lambda>bs. ''d''), env_meanwhile = (\<lambda>s. s)\<rparr>"

definition sample_request :: "(string \<times> header_value) list \<Rightarrow> http_request" where
  "sample_request headers =
     \<lparr>rq_method = ''POST'',
      rq_target = Some \<lparr>qt_pathname = ''/api/v1/commands/start-thread'',
        qt_segments = [''api'', ''v1'', ''commands'', ''start-thread''], qt_query = []\<rparr>,
      rq_headers = (''content-type'', OneValue ''application/json'') # headers,
      rq_body = \<lparr>qb_size = 10, qb_json = Some (JObj [(''idempotencyKey'', JStr ''k'')])\<rparr>\<rparr>"

text \<open>The browser of the session sends a command.\<close>

definition sample_post :: http_request where
  "sample_post =
     sample_request [(''cookie'', OneValue ''torsor_session=s''), (''x-torsor-csrf'', OneValue ''x'')]"

text \<open>C15: A request reaches the kernel only with an authority it presents: unless it carries the token of
  a configured credential or the cookie of a live session, with the session's CSRF token where it
  is not a GET, the kernel object is as it was. A request that is answered with the result of a
  command was a POST to the endpoint of a command and carried a JSON object without any field the
  server controls, and the kernel executed the command of that endpoint, with the body the request
  had, for the very principal the request authenticates.\<close>

theorem requests_act_for_their_principal:
  assumes "sessions_ok s"
  shows "(sv_kernel (snd (handle_request env request s)) = sv_kernel s \<or> may_act s request) \<and>
    (\<forall>a t result. handle_request env request s = (a, t) \<longrightarrow> an_body a = CommandAnswer result \<longrightarrow>
      (\<exists>context u. acts_for s request context \<and>
        command_of_request env request context result u (sv_kernel t)))"
proof -
  let ?s = "s\<lparr>sv_drawn := Suc (sv_drawn s)\<rparr>"
  have distinct: "distinct (map fst (sv_sessions ?s))"
    using assms by (simp add: sessions_ok_def)
  have reached: "sv_kernel (snd (handle_request env request s)) = sv_kernel s \<or> may_act s request"
  proof (cases "rq_target request")
    case (Some url)
    then show ?thesis
      using route_authority [OF distinct, of env request url]
      by (auto simp: handle_request_def randomUUID_run bindM_run needM_run may_act_drawn
          split: prod.splits sum.splits)
  qed (simp add: handle_request_def randomUUID_run bindM_run needM_run)
  moreover have "\<exists>context u. acts_for s request context \<and>
      command_of_request env request context result u (sv_kernel t)"
    if run: "handle_request env request s = (a, t)" and command: "an_body a = CommandAnswer result"
    for a t result
  proof -
    have "an_body (sendError requestId e) \<noteq> CommandAnswer result" for requestId e
      by (simp add: sendError_def error_answer_def split: http_error.split kerror.split)
    then obtain url where routed: "route env request url ?s = (Inr a, t)" and target: "rq_target request = Some url"
      using run command
      by (auto simp: handle_request_def randomUUID_run bindM_run needM_run
          split: option.splits prod.splits sum.splits)
    from route_command [OF routed command distinct target] show ?thesis
      by (simp add: acts_for_def drawn_presents)
  qed
  ultimately show ?thesis by blast
qed

lemma requests_act_for_their_principal_witness:
  "sv_kernel (snd (handle_request sample_environment (sample_request []) sample_service)) =
     sv_kernel sample_service \<and>
   (\<exists>result context u t. acts_for sample_service sample_post context \<and>
     command_of_request sample_environment sample_post context result u t)"
proof -
  have sessions: "sessions_ok sample_service"
    by (simp add: sessions_ok_def sample_service_def sample_session_def)
  have "\<not> may_act sample_service (sample_request [])"
    by (simp add: may_act_def presents_credential_def presents_session_def presents_csrf_def
        bearerToken_def cookieValue_def singleHeader_def sample_request_def run_simps truthy_def)
  moreover have "\<not> no_command (an_body (fst (handle_request sample_environment sample_post sample_service)))"
    by code_simp
  then obtain a t result where "handle_request sample_environment sample_post sample_service = (a, t)"
      "an_body a = CommandAnswer result"
    by (cases "handle_request sample_environment sample_post sample_service")
      (auto simp: no_command_def split: answer_body.splits)
  ultimately show ?thesis
    using requests_act_for_their_principal [OF sessions] by blast
qed

text \<open>C16: Ending a session stops what it has not done yet: when the session of a command is gone by the
  time its body has been read, because it expired, was deleted or was replaced, the command is
  answered with an error and the kernel is left as it is.\<close>

theorem ended_session_stops_its_commands:
  assumes "\<not> au_bearer au" and "au_sessionId au \<noteq> None"
    and "\<not> session_current au (meanwhile s)"
  shows "isl (fst (handleCommand cl meanwhile slug request au s)) \<and>
    sv_kernel (snd (handleCommand cl meanwhile slug request au s)) \<in> {sv_kernel s, sv_kernel (meanwhile s)}"
proof -
  have headers: "frames (\<lambda>s. s) (singleHeader request name)" for name
    by (rule frame_rules)
  have body: "frames (\<lambda>s. s) (readJsonObject request n)" for n
    unfolding readJsonObject_def by (auto intro!: frame_rules split: json.split)
  have current: "wp (requireCurrentAuthentication au) (\<lambda>_ _. False) (\<lambda>_ v. sv_kernel v = sv_kernel (meanwhile s)) (meanwhile s)"
    using assms by (auto simp: wp_simps requireCurrentAuthentication_def authenticationIsCurrent_def)
  have stops: "wp (requireCurrentAuthentication au) Q (\<lambda>_ v. sv_kernel v = sv_kernel (meanwhile s)) (meanwhile s)" for Q
    by (rule wp_mono [OF current]) simp_all
  have "wp (perform_command cl name request au) (\<lambda>_ _. False)
      (\<lambda>_ t. sv_kernel t = sv_kernel (meanwhile s)) (meanwhile s)" for name
    unfolding perform_command_def
    by (intro wp_intros) (simp only: wp_gets, intro wp_intros wp_frame [OF body]; simp add: stops)
  then have done_after: "wp (perform_command cl name request au) (\<lambda>_ _. False)
      (\<lambda>_ t. sv_kernel t = sv_kernel s \<or> sv_kernel t = sv_kernel (meanwhile s)) (meanwhile s)" for name
    by (rule wp_mono) simp_all
  have "wp (handleCommand cl meanwhile slug request au) (\<lambda>_ _. False)
      (\<lambda>_ t. sv_kernel t \<in> {sv_kernel s, sv_kernel (meanwhile s)}) s"
    unfolding handleCommand_def
    by (intro wp_intros wp_frame [OF headers]) (simp_all add: wp_modify done_after)
  then show ?thesis
    by (auto simp: wp_def split: prod.splits sum.splits)
qed

lemma ended_session_stops_its_commands_witness:
  "isl (fst (handleCommand (env_client sample_environment) (sv_sessions_update (AList.delete ''s''))
     (Some ''start-thread'') (sample_request [(''x-torsor-csrf'', OneValue ''x'')])
     (authenticated_by None (Some ''s'') (Some sample_session) human_context) sample_service))"
proof -
  let ?au = "authenticated_by None (Some ''s'') (Some sample_session) human_context"
  have "\<not> au_bearer ?au" "au_sessionId ?au \<noteq> None"
    by (simp_all add: authenticated_by_def)
  moreover have "\<not> session_current ?au (sv_sessions_update (AList.delete ''s'') sample_service)"
    by (simp add: session_current_def session_of_def authenticated_by_def sample_service_def)
  ultimately show ?thesis
    using ended_session_stops_its_commands [of ?au "sv_sessions_update (AList.delete ''s'')" sample_service]
    by blast
qed

section \<open>The service as a system\<close>

text \<open>
  What the service goes through: its requests, whatever happens while it awaits, time passing, and
  the steps other clients of a shared kernel take. Reading a stored artifact is a step of the kernel.
\<close>

definition serves :: "service \<Rightarrow> service \<Rightarrow> bool" where
  "serves s t \<longleftrightarrow>
     sv_credentials t = sv_credentials s \<and> (sessions_ok s \<longrightarrow> sessions_ok t) \<and>
     kernel_steps (sv_kernel s) (sv_kernel t)"

definition storage_steps :: "environment \<Rightarrow> bool" where
  "storage_steps env \<longleftrightarrow>
     (\<forall>fetch_bytes. env_storage env = Some fetch_bytes \<longrightarrow>
        (\<forall>digest n. evolves kernel_steps (fetch_bytes digest n)))"

inductive service_steps :: "service \<Rightarrow> service \<Rightarrow> bool" where
  refl: "service_steps s s"
| request: "service_steps s t \<Longrightarrow> (\<And>u. service_steps u (env_meanwhile env u)) \<Longrightarrow> storage_steps env \<Longrightarrow>
    service_steps s (snd (handle_request env request t))"
| time: "service_steps s t \<Longrightarrow> service_steps s (t\<lparr>sv_now := now\<rparr>)"
| shared: "service_steps s t \<Longrightarrow> kernel_steps (sv_kernel t) k \<Longrightarrow> service_steps s (t\<lparr>sv_kernel := k\<rparr>)"

interpretation stepping: evolution kernel_steps
  by unfold_locales auto

interpretation serving: evolution serves
  by unfold_locales (auto simp: serves_def)

named_theorems serve_rules "operations of the service"

lemmas serve_combinators [serve_rules] = serving.rules

lemma serve_same: "frames (\<lambda>s. (sv_credentials s, sv_sessions s, sv_kernel s)) m \<Longrightarrow> evolves serves m"
  by (auto simp: frames_def evolves_def serves_def sessions_ok_def)

lemma serve_sessions:
  assumes "distinct (map fst (sv_sessions s)) \<Longrightarrow>
    distinct (map fst (f (sv_sessions s))) \<and> set (f (sv_sessions s)) \<subseteq> set (sv_sessions s)"
  shows "serves s (sv_sessions_update f s)"
  using assms by (fastforce simp: serves_def sessions_ok_def)

lemma serve_delete: "serves s (sv_sessions_update (AList.delete i) s)"
  by (rule serve_sessions) (auto simp: AList.delete_eq intro: distinct_map_filter)

lemma serve_on_kernel [serve_rules]:
  "evolves kernel_steps m \<Longrightarrow> evolves serves (on_kernel m)"
  by (auto simp: evolves_def serves_def sessions_ok_def on_kernel_run split: prod.split)
    (metis snd_conv)

lemma set_update_subset: "set (AList.update k v al) \<subseteq> insert (k, v) (set al)"
  by (induction al) auto

lemma serve_session_operations [serve_rules]:
  "evolves serves pruneSessions" "evolves serves randomUUID" "evolves serves (closeSession request)"
  "evolves serves (openSession request)" "evolves serves (handleSession request)"
  "evolves serves (authenticate request)" "evolves serves (authenticationIsCurrent au)"
  "evolves serves (requireCurrentAuthentication au)"
  "evolves serves (singleHeader request name)" "evolves serves (bearerToken request)"
  "evolves serves (cookieValue request name)"
proof -
  show uuid: "evolves serves randomUUID"
    by (rule serve_same) (simp add: frames_def randomUUID_run)
  show prune: "evolves serves pruneSessions"
    unfolding evolves_def pruneSessions_def modify_run prune_sessions_def
    by (auto intro!: serve_sessions distinct_map_filter)
  show headers: "evolves serves (singleHeader request name)" "evolves serves (bearerToken request)"
    "evolves serves (cookieValue request name)" for name
    by (rule serve_same, rule frame_rules)+
  have delete: "evolves serves (modify (sv_sessions_update (AList.delete i)))" for i
    by (simp add: evolves_def modify_run serve_delete)
  show close_s: "evolves serves (closeSession request)"
    unfolding closeSession_def by (intro serve_rules headers delete)
  have new: "serves s (snd (new_session cx s))" if "cx \<in> snd ` set (sv_credentials s)" for cx s
    using that
    by (auto simp: new_session_def run_simps serves_def sessions_ok_def distinct_update
        dest!: subsetD [OF set_update_subset] intro: rev_image_eqI)
  have pruned: "serves s (prune_sessions now s)" for now s
    unfolding prune_sessions_def by (rule serve_sessions) (auto intro: distinct_map_filter)
  have opened: "wp (new_session cx) (\<lambda>_. serves s) (\<lambda>_. serves s) (prune_sessions (sv_now s) s)"
    if "(i, cx) \<in> set (sv_credentials s)" for i cx s
  proof -
    have "serves (prune_sessions (sv_now s) s) (snd (new_session cx (prune_sessions (sv_now s) s)))"
      using that by (intro new) (force simp: prune_sessions_def)
    then have "serves s (snd (new_session cx (prune_sessions (sv_now s) s)))"
      by (rule serving.trans [OF pruned])
    then show ?thesis by (auto simp: wp_def split: prod.splits sum.splits)
  qed
  have "wp (openSession request) (\<lambda>_ t. serves s t) (\<lambda>_ t. serves s t) s" for s
    unfolding openSession_def pruneSessions_def
    by (intro wp_intros wp_intro_gets wp_intro_modify wp_frame [OF header_frames(3) [where g = "\<lambda>s. s"]]
        wp_frame [OF header_frames(2) [where g = "\<lambda>s. s"]])
      (auto simp: serving.refl pruned intro: opened dest: map_of_SomeD)
  then show open_s: "evolves serves (openSession request)"
    by (auto simp: evolves_def wp_def split_beta split: sum.splits)
  show "evolves serves (handleSession request)"
    unfolding handleSession_def by (intro serve_rules open_s close_s)
  show "evolves serves (authenticate request)"
    unfolding authenticate_def by (intro serve_rules headers prune)
  show current: "evolves serves (authenticationIsCurrent au)"
    unfolding authenticationIsCurrent_def by (intro serve_rules delete)
  show "evolves serves (requireCurrentAuthentication au)"
    unfolding requireCurrentAuthentication_def by (intro serve_rules current)
qed

lemma serve_steps:
  "evolves kernel_steps (execute h inputs command context operation)"
  "evolves kernel_steps (unsupported_command inputs context operation)"
  "evolves kernel_steps (query_kernel q context)"
  by (auto simp: evolves_def intro!: r_into_rtranclp kernel_step.intros)

lemma steps_needM:
  "(\<And>y. v = Some y \<Longrightarrow> evolves kernel_steps (f y)) \<Longrightarrow> evolves kernel_steps (bindM (needM e v) f)"
  by (cases v) (simp_all add: evolves_def bindM_run needM_run)

lemma serve_artifact:
  assumes "storage_steps env"
  shows "evolves kernel_steps (readArtifact (env_storage env) sha artifactId actor)"
proof -
  have "evolves kernel_steps (artifact_of artifactId actor)"
    unfolding artifact_of_def by (auto intro!: stepping.rules serve_steps split: query_result.split)
  moreover have "evolves kernel_steps (verifyArtifactContent sha content digest n)" for content digest n
    unfolding verifyArtifactContent_def by (intro stepping.rules)
  ultimately show ?thesis
    using assms unfolding readArtifact_def storage_steps_def
    by (intro stepping.bindM stepping.seqM stepping.ret steps_needM) simp_all
qed

lemma serve_ask [serve_rules]: "evolves serves (ask q context view)"
  unfolding ask_def by (intro serve_rules serve_steps)

lemma serve_parameters [serve_rules]:
  "evolves serves (readJsonObject request n)" "evolves serves (optionalInteger v)"
  "evolves serves (boundedInteger i lo hi)" "evolves serves (requiredQuery url name)"
  "evolves serves (pageSize url)" "evolves serves (optionalNumber url name)"
proof -
  show "evolves serves (readJsonObject request n)"
    unfolding readJsonObject_def by (auto intro!: serve_rules split: json.split)
  show integer: "evolves serves (optionalInteger v)" for v
    unfolding optionalInteger_def by (auto intro!: serve_rules split: option.split jsnum.split)
  show bounded: "evolves serves (boundedInteger i lo hi)" for i lo hi
    unfolding boundedInteger_def by (auto intro!: serve_rules split: jsnum.split)
  show "evolves serves (requiredQuery url name)"
    unfolding requiredQuery_def by (intro serve_rules)
  show "evolves serves (pageSize url)"
    unfolding pageSize_def by (intro serve_rules integer bounded)
  show "evolves serves (optionalNumber url name)"
    unfolding optionalNumber_def by (rule integer)
qed

lemma serve_meanwhile: "(\<And>u. serves u (meanwhile u)) \<Longrightarrow> evolves serves (modify meanwhile)"
  by (simp add: evolves_def modify_run)

lemma serve_command:
  "(\<And>u. serves u (meanwhile u)) \<Longrightarrow> evolves serves (handleCommand cl meanwhile slug request au)"
  unfolding handleCommand_def perform_command_def send_command_def
  by (auto intro!: serve_rules serve_meanwhile serve_steps split: option.split)

lemma serve_query:
  assumes "\<And>u. serves u (env_meanwhile env u)" "storage_steps env"
  shows "evolves serves (handleQuery (env_storage env) sha (env_meanwhile env) segments url au)"
  unfolding handleQuery_def project_query_def artifact_query_def run_query_def channel_query_def
    thread_query_def listAgents_def
  by (auto intro!: serve_rules serve_meanwhile assms serve_artifact split: list.split)

lemma serve_handle:
  assumes "\<And>u. serves u (env_meanwhile env u)" "storage_steps env"
  shows "serves s (snd (handle_request env request s))"
proof -
  have "evolves serves (bindM (needM UnexpectedFailure (rq_target request)) (route env request))"
    unfolding route_def dispatch_request_def
    by (auto intro!: serve_rules serve_command serve_query assms split: list.split)
  then show ?thesis
    using serve_session_operations(2)
    by (auto simp: handle_request_def evolves_def split: prod.split sum.split) (metis serving.trans snd_conv)+
qed

lemma service_steps_serve: "service_steps s t \<Longrightarrow> serves s t"
proof (induction rule: service_steps.induct)
  case (request s t env req)
  then show ?case using serve_handle serving.trans by blast
qed (auto simp: serves_def sessions_ok_def)

text \<open>C38: Whatever the clients send and in whatever order, the service only takes steps of the kernel,
  so every invariant of the kernel's reachable states holds behind it; its credentials never
  change, no session identifier is in use twice, and every session acts for the principal of a
  configured credential.\<close>

theorem service_keeps_its_principals:
  assumes "service_steps s t" and "sessions_ok s"
  shows "kernel_steps (sv_kernel s) (sv_kernel t) \<and> sv_credentials t = sv_credentials s \<and> sessions_ok t"
  using service_steps_serve [OF assms(1)] assms(2) by (simp add: serves_def)

lemma service_keeps_its_principals_witness:
  "sessions_ok (snd (handle_request sample_environment (sample_request []) sample_service))"
proof -
  have "service_steps sample_service (snd (handle_request sample_environment (sample_request []) sample_service))"
    by (rule service_steps.request)
      (auto simp: sample_environment_def storage_steps_def intro: service_steps.refl)
  moreover have "sessions_ok sample_service"
    by (simp add: sessions_ok_def sample_service_def sample_session_def)
  ultimately show ?thesis using service_keeps_its_principals by blast
qed

end
