(* ===== verification/TimelineHistory.thy ===== *)
theory TimelineHistory
  imports Projections "HOL-Library.AList"
begin

text \<open>
  The activity history of the browser (\<open>timeline-history.ts\<close>): merging the windows of activity it
  has read, checking the pages it is sent, and reading the gap between what it holds and a fresh
  projection. A page is whatever the server sent; the bytes of the request are not modelled, a
  request is the decoded query of its path.
\<close>

section \<open>Requests and errors\<close>

text \<open>\<open>ApiError\<close> of \<open>api.ts\<close> without its message, and any other error a caller may see.\<close>

record api_error =
  ae_status :: int
  ae_code :: string
  ae_requestId :: "string option"

datatype web_error = PlainError | ApiFailure api_error

record activity_request =
  aq_runId :: ident
  aq_beforeSequence :: nat
  aq_afterSequence :: "nat option"
  aq_limit :: nat

definition activityPath :: "ident \<Rightarrow> nat \<Rightarrow> nat option \<Rightarrow> activity_request" where
  "activityPath runId beforeSequence afterSequence =
     \<lparr>aq_runId = runId, aq_beforeSequence = beforeSequence, aq_afterSequence = afterSequence,
      aq_limit = 100\<rparr>"

section \<open>Merging windows\<close>

text \<open>
  A JavaScript \<open>Map\<close> is an association list: setting a present key replaces its value in place, a
  new key goes to the end.
\<close>

type_synonym activity_index = "(ident \<times> activity_view) list \<times> (nat \<times> ident) list"

definition inconsistent :: "ident \<Rightarrow> activity_index \<Rightarrow> activity_view \<Rightarrow> bool" where
  "inconsistent runId index item \<longleftrightarrow>
     rav_runId item \<noteq> runId \<or>
     (case map_of (fst index) (rav_id item) of
        None \<Rightarrow> False | Some known \<Rightarrow> rav_sequence known \<noteq> rav_sequence item) \<or>
     (case map_of (snd index) (rav_sequence item) of
        None \<Rightarrow> False | Some known \<Rightarrow> known \<noteq> rav_id item)"

fun merge_items :: "ident \<Rightarrow> activity_index \<Rightarrow> activity_view list \<Rightarrow> web_error + activity_index" where
  "merge_items runId index [] = Inr index"
| "merge_items runId index (item # items) =
     (if inconsistent runId index item then Inl PlainError
      else merge_items runId
        (AList.update (rav_id item) item (fst index),
         AList.update (rav_sequence item) (rav_id item) (snd index)) items)"

definition earlier_window :: "activity_window option \<Rightarrow> activity_window \<Rightarrow> activity_window option" where
  "earlier_window earliest w =
     (case aw_earliestSequence w of
        None \<Rightarrow> earliest
      | Some s \<Rightarrow>
          (case earliest of
             None \<Rightarrow> Some w
           | Some e \<Rightarrow>
               (case aw_earliestSequence e of
                  None \<Rightarrow> earliest
                | Some t \<Rightarrow> if s < t then Some w else earliest)))"

fun merge_windows ::
  "ident \<Rightarrow> activity_window option \<Rightarrow> activity_index \<Rightarrow> activity_window list \<Rightarrow>
   web_error + (activity_window option \<times> activity_index)" where
  "merge_windows runId earliest index [] = Inr (earliest, index)"
| "merge_windows runId earliest index (w # ws) =
     (case merge_items runId index (aw_items w) of
        Inl e \<Rightarrow> Inl e
      | Inr index' \<Rightarrow> merge_windows runId (earlier_window earliest w) index' ws)"

definition first_sequence :: "activity_view list \<Rightarrow> nat option" where
  "first_sequence items = (case items of [] \<Rightarrow> None | e # es \<Rightarrow> Some (rav_sequence e))"

definition last_sequence :: "activity_view list \<Rightarrow> nat option" where
  "last_sequence items = (if items = [] then None else Some (rav_sequence (last items)))"

definition merged_window :: "activity_window option \<Rightarrow> activity_index \<Rightarrow> activity_window" where
  "merged_window earliest index =
     (let items = sort_key rav_sequence (map snd (fst index)) in
      \<lparr>aw_items = items,
       aw_hasEarlier = (case earliest of None \<Rightarrow> False | Some w \<Rightarrow> aw_hasEarlier w),
       aw_earliestSequence = first_sequence items, aw_latestSequence = last_sequence items\<rparr>)"

definition mergeActivity :: "ident \<Rightarrow> activity_window list \<Rightarrow> web_error + activity_window" where
  "mergeActivity runId windows =
     (case merge_windows runId None ([], []) windows of
        Inl e \<Rightarrow> Inl e
      | Inr (earliest, index) \<Rightarrow> Inr (merged_window earliest index))"

definition historyWindow :: "activity_view list \<Rightarrow> bool \<Rightarrow> activity_window" where
  "historyWindow items hasMore =
     \<lparr>aw_items = items, aw_hasEarlier = hasMore,
      aw_earliestSequence = first_sequence items, aw_latestSequence = last_sequence items\<rparr>"

definition mergeRunTimeline ::
  "run_projection option \<Rightarrow> run_projection \<Rightarrow> web_error + run_projection" where
  "mergeRunTimeline current incoming =
     (let runId = rnv_id (rp_run incoming);
          previous = (case current of None \<Rightarrow> None
             | Some c \<Rightarrow> if rnv_id (rp_run c) = runId then Some c else None);
          base = (case previous of
               Some p \<Rightarrow> if rnv_revision (rp_run p) > rnv_revision (rp_run incoming) then p else incoming
             | None \<Rightarrow> incoming) in
      case mergeActivity runId
             ((case previous of None \<Rightarrow> [] | Some p \<Rightarrow> [rp_activity p]) @ [rp_activity incoming]) of
        Inl e \<Rightarrow> Inl e
      | Inr activity \<Rightarrow> Inr (base\<lparr>rp_activity := activity\<rparr>))"

section \<open>Pages and gaps\<close>

text \<open>The loop over the items: the sequence of the last one, or no value for an error.\<close>

fun ascending_within :: "ident \<Rightarrow> nat \<Rightarrow> nat \<Rightarrow> activity_view list \<Rightarrow> bool" where
  "ascending_within runId before previous [] = True"
| "ascending_within runId before previous (item # items) =
     (\<not> (rav_runId item \<noteq> runId \<or> int (rav_sequence item) > MAX_SAFE_INTEGER \<or>
         rav_sequence item \<le> previous \<or> rav_sequence item \<ge> before) \<and>
      ascending_within runId before (rav_sequence item) items)"

definition validateActivityPage ::
  "activity_page \<Rightarrow> ident \<Rightarrow> nat \<Rightarrow> nat option \<Rightarrow> web_error + unit" where
  "validateActivityPage page runId before after =
     (if length (acp_items page) > 100 then Inl PlainError
      else if \<not> ascending_within runId before (case after of None \<Rightarrow> 0 | Some a \<Rightarrow> a) (acp_items page)
      then Inl PlainError
      else
        let cursor = (if after = None then first_sequence (acp_items page)
                      else last_sequence (acp_items page)) in
        if acp_hasMore page \<and> (cursor = None \<or> acp_nextCursor page \<noteq> cursor) then Inl PlainError
        else Inr ())"

lemma ascending_last:
  "ascending_within runId before after items \<Longrightarrow> items \<noteq> [] \<Longrightarrow>
   after < rav_sequence (last items) \<and> rav_sequence (last items) < before"
proof (induction items arbitrary: after)
  case (Cons e es)
  then show ?case by (cases es) force+
qed simp

lemma valid_page_advances:
  assumes "validateActivityPage page runId before (Some after) = Inr ()" "acp_hasMore page"
  shows "\<exists>c. acp_nextCursor page = Some c \<and> after < c \<and> c < before"
  using assms ascending_last [of runId before after "acp_items page"]
  by (auto simp: validateActivityPage_def last_sequence_def Let_def split: if_splits)

text \<open>
  The loop of \<open>readActivityGap\<close>. The world is whatever the requests and the check of \<open>isCurrent\<close>
  depend on: the server, and the state of the client other requests may change meanwhile. A page
  that is valid moves the cursor forward, so the loop ends whatever the server sends; a valid
  page with more to come always has a cursor.
\<close>

function read_gap ::
  "(activity_request \<Rightarrow> ('w, web_error, activity_page) op) \<Rightarrow> ('w \<Rightarrow> bool) \<Rightarrow> ident \<Rightarrow> nat \<Rightarrow> nat \<Rightarrow>
   activity_view list \<Rightarrow> ('w, web_error, activity_view list) op" where
  "read_gap read_page isCurrent runId before after items w =
     (if after + 1 < before \<and> isCurrent w then
        (case read_page (activityPath runId before (Some after)) w of
           (Inl e, w') \<Rightarrow> (Inl e, w')
         | (Inr page, w') \<Rightarrow>
             (case validateActivityPage page runId before (Some after) of
                Inl e \<Rightarrow> (Inl e, w')
              | Inr _ \<Rightarrow>
                  if \<not> acp_hasMore page then (Inr (items @ acp_items page), w')
                  else
                    (case acp_nextCursor page of
                       None \<Rightarrow> (Inl PlainError, w')
                     | Some cursor \<Rightarrow>
                         read_gap read_page isCurrent runId before cursor (items @ acp_items page) w')))
      else (Inr items, w))"
  by pat_completeness auto
termination
  by (relation "measure (\<lambda>(read_page, isCurrent, runId, before, after, items, w). before - after)")
    (auto dest: valid_page_advances)

declare read_gap.simps [simp del]

definition readActivityGap ::
  "ident \<Rightarrow> activity_window option \<Rightarrow> activity_window \<Rightarrow>
   (activity_request \<Rightarrow> ('w, web_error, activity_page) op) \<Rightarrow> ('w \<Rightarrow> bool) \<Rightarrow>
   ('w, web_error, activity_view list) op" where
  "readActivityGap runId previous next_window read_page isCurrent =
     (case (previous, aw_earliestSequence next_window) of
        (None, _) \<Rightarrow> ret []
      | (_, None) \<Rightarrow> ret []
      | (Some p, Some before) \<Rightarrow>
          read_gap read_page isCurrent runId before
            (case aw_latestSequence p of None \<Rightarrow> 0 | Some s \<Rightarrow> s) [])"

section \<open>Reading with history\<close>

text \<open>
  \<open>#readRunWithHistory\<close> of the controller: a fresh projection of the run, the gap between what is
  shown and its window, and both merged with what is shown. \<open>shown\<close> is the run of the client's
  state; \<open>read_run\<close> and \<open>read_page\<close> are its requests.
\<close>

definition shown_activity :: "ident \<Rightarrow> run_projection option \<Rightarrow> activity_window option" where
  "shown_activity runId current =
     (case current of None \<Rightarrow> None
      | Some c \<Rightarrow> if rnv_id (rp_run c) = runId then Some (rp_activity c) else None)"

definition readRunWithHistory ::
  "(ident \<Rightarrow> ('w, web_error, run_projection) op) \<Rightarrow>
   (activity_request \<Rightarrow> ('w, web_error, activity_page) op) \<Rightarrow> ('w \<Rightarrow> run_projection option) \<Rightarrow>
   ('w \<Rightarrow> bool) \<Rightarrow> ident \<Rightarrow> ('w, web_error, run_projection) op" where
  "readRunWithHistory read_run read_page shown isCurrent runId =
     bindM (read_run runId) (\<lambda>run.
     bindM (gets (\<lambda>w. shown_activity runId (shown w))) (\<lambda>previous.
     bindM (readActivityGap runId previous (rp_activity run) read_page isCurrent) (\<lambda>gap.
     bindM (liftE (mergeActivity runId
              [historyWindow gap (case previous of None \<Rightarrow> False | Some p \<Rightarrow> aw_hasEarlier p),
               rp_activity run])) (\<lambda>activity.
     bindM (gets shown) (\<lambda>current.
     liftE (mergeRunTimeline current (run\<lparr>rp_activity := activity\<rparr>)))))))"

lemma mergeRunTimeline_activity:
  assumes "rnv_id (rp_run incoming) = runId"
    "mergeActivity runId
      ((case shown_activity runId current of None \<Rightarrow> [] | Some a \<Rightarrow> [a]) @ [rp_activity incoming]) = Inr act"
  shows "\<exists>p. mergeRunTimeline current incoming = Inr p \<and> rp_activity p = act \<and>
    rnv_id (rp_run p) = runId"
  using assms
  by (auto simp: mergeRunTimeline_def shown_activity_def Let_def split: option.splits)

section \<open>Reading a gap from any server\<close>

text \<open>A reader that counts its requests, and what is between two windows.\<close>

definition counting :: "('q \<Rightarrow> ('w, 'e, 'a) op) \<Rightarrow> 'q \<Rightarrow> (nat \<times> 'w, 'e, 'a) op" where
  "counting read q = (\<lambda>(n, w). case read q w of (r, w') \<Rightarrow> (r, (Suc n, w')))"

definition gap_bounds :: "activity_window option \<Rightarrow> activity_window \<Rightarrow> nat \<times> nat" where
  "gap_bounds previous next_window =
     (case (previous, aw_earliestSequence next_window) of
        (Some p, Some before) \<Rightarrow> (case aw_latestSequence p of None \<Rightarrow> 0 | Some s \<Rightarrow> s, before)
      | _ \<Rightarrow> (0, 0))"

definition between :: "ident \<Rightarrow> nat \<Rightarrow> nat \<Rightarrow> activity_view list \<Rightarrow> bool" where
  "between runId after before items \<longleftrightarrow>
     sorted_wrt (<) (map rav_sequence items) \<and>
     list_all (\<lambda>e. rav_runId e = runId \<and> after < rav_sequence e \<and> rav_sequence e < before) items"

lemma ascending_within_between:
  "ascending_within runId before after items \<Longrightarrow> between runId after before items"
proof (induction items arbitrary: after)
  case (Cons e es)
  then have "between runId (rav_sequence e) before es" "after < rav_sequence e" "rav_sequence e < before"
    "rav_runId e = runId" by auto
  then show ?case by (auto simp: between_def list_all_iff)
qed (simp add: between_def)

lemma between_append:
  assumes "between runId after cursor xs" "between runId cursor' before ys" "cursor \<le> Suc cursor'"
    "after < cursor" "cursor \<le> before" "after \<le> cursor'"
  shows "between runId after before (xs @ ys)"
  using assms by (fastforce simp: between_def list_all_iff sorted_wrt_append)

lemma valid_page_between:
  assumes "validateActivityPage page runId before (Some after) = Inr ()"
  shows "between runId after before (acp_items page)"
    and "acp_hasMore page \<Longrightarrow> acp_nextCursor page = Some c \<Longrightarrow>
      between runId after (Suc c) (acp_items page) \<and> after < c \<and> c < before"
proof -
  have items: "between runId after before (acp_items page)"
    using assms by (auto simp: validateActivityPage_def Let_def intro: ascending_within_between split: if_splits)
  then show "between runId after before (acp_items page)" .
  assume "acp_hasMore page" "acp_nextCursor page = Some c"
  then have "acp_items page \<noteq> []" "c = rav_sequence (last (acp_items page))" "after < c" "c < before"
    using assms valid_page_advances [OF assms]
    by (auto simp: validateActivityPage_def Let_def last_sequence_def split: if_splits)
  moreover have "rav_sequence e \<le> rav_sequence (last xs)"
    if "e \<in> set xs" "sorted_wrt (<) (map rav_sequence xs)" for e and xs :: "activity_view list"
    using that by (cases xs rule: rev_cases) (auto simp: sorted_wrt_append less_imp_le)
  ultimately show "between runId after (Suc c) (acp_items page) \<and> after < c \<and> c < before"
    using items by (auto simp: between_def list_all_iff less_Suc_eq_le)
qed

lemma read_gap_bounded:
  "case read_gap (counting read_page) isCurrent runId before after items (n, w) of
     (r, (m, w')) \<Rightarrow> m \<le> n + (before - after - 1) \<and>
       (case r of Inl _ \<Rightarrow> True | Inr gap \<Rightarrow> \<exists>found. gap = items @ found \<and> between runId after before found)"
proof (induction "before - after" arbitrary: after items n w rule: less_induct)
  case less
  show ?case
  proof (cases "after + 1 < before \<and> isCurrent (n, w)")
    case False
    then show ?thesis by (auto simp: read_gap.simps between_def)
  next
    case True
    obtain p w1 where page: "read_page (activityPath runId before (Some after)) w = (p, w1)" by fastforce
    show ?thesis
    proof (cases "\<exists>page c. p = Inr page \<and> validateActivityPage page runId before (Some after) = Inr () \<and>
        acp_hasMore page \<and> acp_nextCursor page = Some c")
      case False
      then show ?thesis
        using True page valid_page_between(1)
        by (auto simp: read_gap.simps counting_def split: sum.split option.split)
    next
      case more: True
      then obtain q c where q: "p = Inr q" "validateActivityPage q runId before (Some after) = Inr ()"
        "acp_hasMore q" "acp_nextCursor q = Some c" by auto
      note items = valid_page_between(2) [OF q(2,3,4)]
      have "case read_gap (counting read_page) isCurrent runId before c (items @ acp_items q) (Suc n, w1) of
          (r, (m, w')) \<Rightarrow> m \<le> Suc n + (before - c - 1) \<and>
            (case r of Inl _ \<Rightarrow> True
             | Inr gap \<Rightarrow> \<exists>found. gap = (items @ acp_items q) @ found \<and> between runId c before found)"
        using items by (intro less) arith
      then show ?thesis
        using True page q items between_append [of runId after "Suc c" "acp_items q" c before]
        by (fastforce simp: read_gap.simps [of _ _ _ _ after] counting_def split: prod.splits sum.splits)
    qed
  qed
qed

text \<open>C40: Reading a gap ends, whatever the server sends: it takes at most as many requests as there are
  sequence numbers strictly between what is shown and the fresh window, none where there are none,
  and what it returns is activity of the run, strictly ascending, strictly between the two.\<close>

theorem gap_reading_ends:
  "case readActivityGap runId previous next_window (counting read_page) isCurrent (0, w) of
     (r, (requests, w')) \<Rightarrow>
       requests \<le> snd (gap_bounds previous next_window) - fst (gap_bounds previous next_window) - 1 \<and>
       (case r of
          Inl _ \<Rightarrow> True
        | Inr gap \<Rightarrow> between runId (fst (gap_bounds previous next_window))
            (snd (gap_bounds previous next_window)) gap)"
proof (cases "previous = None \<or> aw_earliestSequence next_window = None")
  case True
  then show ?thesis
    by (auto simp: readActivityGap_def ret_run between_def split: option.split)
next
  case False
  then obtain p before where shown: "previous = Some p" "aw_earliestSequence next_window = Some before" by auto
  define after where "after = (case aw_latestSequence p of None \<Rightarrow> 0 | Some s \<Rightarrow> s)"
  have "gap_bounds previous next_window = (after, before)"
    by (simp add: gap_bounds_def shown after_def)
  moreover have "readActivityGap runId previous next_window (counting read_page) isCurrent (0, w) =
      read_gap (counting read_page) isCurrent runId before after [] (0, w)"
    by (simp add: readActivityGap_def shown after_def)
  ultimately show ?thesis
    using read_gap_bounded [where read_page = read_page and isCurrent = isCurrent and runId = runId and w = w
        and before = before and after = after and items = "[]" and n = 0]
    by (auto split: prod.splits sum.splits)
qed

end
