(* ===== verification/ActivityLog.thy ===== *)
theory ActivityLog
  imports TimelineHistory
begin

text \<open>
  What the browser shows of a run, against the log of the run's activity: windows of one log merge
  into the part of the log they cover, and reading a run with its history leaves no gap, whatever
  the server's log grows by meanwhile. The server is an interface; the kernel's queries are one.
\<close>

section \<open>Merging windows of one log\<close>

lemma ascending_below:
  fixes f :: "'e \<Rightarrow> nat"
  assumes "sorted_wrt (<) (map f xs)" "m < length xs"
  shows "filter (\<lambda>e. f e < f (xs ! m)) xs = take m xs"
proof -
  have order: "i < j \<Longrightarrow> j < length xs \<Longrightarrow> f (xs ! i) < f (xs ! j)" for i j
    using assms(1) by (simp add: sorted_wrt_iff_nth_less)
  have "filter (\<lambda>e. f e < f (xs ! m)) (take m xs) = take m xs"
    using order assms(2) by (auto simp: filter_id_conv in_set_conv_nth)
  moreover have "filter (\<lambda>e. f e < f (xs ! m)) (drop m xs) = []"
  proof -
    have "f (xs ! m) \<le> f (xs ! (m + i))" if "m + i < length xs" for i
      using order [of m "m + i"] that by (cases i) (simp_all add: less_imp_le)
    then show ?thesis
      by (auto simp: filter_empty_conv in_set_conv_nth less_diff_conv add.commute not_less)
  qed
  ultimately show ?thesis
    by (metis append_Nil2 append_take_drop_id filter_append)
qed

lemma ascending_above:
  fixes f :: "'e \<Rightarrow> nat"
  assumes "sorted_wrt (<) (map f xs)" "0 < n" "n \<le> length xs"
  shows "filter (\<lambda>e. f (xs ! (n - 1)) < f e) xs = drop n xs"
proof -
  have order: "i < j \<Longrightarrow> j < length xs \<Longrightarrow> f (xs ! i) < f (xs ! j)" for i j
    using assms(1) by (simp add: sorted_wrt_iff_nth_less)
  have "filter (\<lambda>e. f (xs ! (n - 1)) < f e) (drop n xs) = drop n xs"
    using order assms(2) by (auto simp: filter_id_conv in_set_conv_nth)
  moreover have "filter (\<lambda>e. f (xs ! (n - 1)) < f e) (take n xs) = []"
  proof -
    have "f (xs ! i) \<le> f (xs ! (n - 1))" if "i < n" for i
      using order [of i "n - 1"] that assms(2,3) by (cases "i = n - 1") (simp_all add: less_imp_le)
    then show ?thesis
      using assms(3) by (auto simp: filter_empty_conv in_set_conv_nth not_less)
  qed
  ultimately show ?thesis
    by (metis append_Nil append_take_drop_id filter_append)
qed

lemma ascending_between:
  fixes f :: "'e \<Rightarrow> nat"
  assumes "sorted_wrt (<) (map f xs)" "0 < n" "n \<le> length xs" "m < length xs"
  shows "filter (\<lambda>e. f (xs ! (n - 1)) < f e \<and> f e < f (xs ! m)) xs = drop n (take m xs)"
proof -
  have "filter (\<lambda>e. f (xs ! (n - 1)) < f e \<and> f e < f (xs ! m)) xs =
        filter (\<lambda>e. f e < f (xs ! m)) (filter (\<lambda>e. f (xs ! (n - 1)) < f e) xs)"
    by (simp add: conj_commute)
  also have "\<dots> = filter (\<lambda>e. f e < f (xs ! m)) (drop n xs)"
    by (simp only: ascending_above [OF assms(1,2,3)])
  also have "\<dots> = drop n (take m xs)"
  proof (cases "n \<le> m")
    case True
    then have "xs ! m = drop n xs ! (m - n)" using assms(3) by simp
    moreover have "sorted_wrt (<) (map f (drop n xs))"
      using assms(1) by (simp add: drop_map [symmetric] sorted_wrt_drop)
    ultimately show ?thesis
      using ascending_below [of f "drop n xs" "m - n"] True assms(4) by (simp add: drop_take)
  next
    case False
    have "\<not> f e < f (xs ! m)" if e: "e \<in> set (drop n xs)" for e
    proof -
      obtain i where "i < length (drop n xs)" "drop n xs ! i = e"
        using e by (metis in_set_conv_nth)
      then have "n + i < length xs" "xs ! (n + i) = e" by simp_all
      then show ?thesis
        using assms(1) False by (auto simp: sorted_wrt_iff_nth_less not_less less_imp_le)
    qed
    then show ?thesis using False by (auto simp: filter_empty_conv)
  qed
  finally show ?thesis .
qed

text \<open>A window of the log: its entries from position \<open>k\<close> to position \<open>n\<close>.\<close>

definition window_at :: "activity_view list \<Rightarrow> nat \<Rightarrow> nat \<Rightarrow> activity_window" where
  "window_at entries k n = historyWindow (drop k (take n entries)) (0 < k)"

definition covers :: "activity_view list \<Rightarrow> activity_window \<Rightarrow> nat \<Rightarrow> nat \<Rightarrow> bool" where
  "covers entries w k n \<longleftrightarrow>
     w = window_at entries k n \<and> n \<le> length entries \<and> (k < n \<or> k = 0 \<and> n = 0)"

text \<open>
  The activity of a run in the order of its sequence. Any number of windows of it merge into the
  part of the log they cover; nothing is lost, nothing doubled, whatever their overlap.
\<close>

lemma update_Some:
  "map_of (AList.update k v al) i = Some e \<longleftrightarrow> (if i = k then e = v else map_of al i = Some e)"
  by (auto simp: update_conv')

lemma first_drop:
  "first_sequence (drop k xs) = (if k < length xs then Some (rav_sequence (xs ! k)) else None)"
  by (auto simp: first_sequence_def Cons_nth_drop_Suc [symmetric] split: list.split)

lemma first_nil: "first_sequence [] = None"
  by (simp add: first_sequence_def)

lemma covers_extend:
  "covers xs w k n \<Longrightarrow> Sublist.prefix xs ys \<Longrightarrow> covers ys w k n"
  by (auto simp: covers_def window_at_def Sublist.prefix_def)

lemma window_at_prefix:
  "Sublist.prefix xs ys \<Longrightarrow> window_at ys k (length xs) = window_at xs k (length xs)"
  by (auto simp: window_at_def Sublist.prefix_def)

locale activity_log =
  fixes runId :: ident and entries :: "activity_view list"
  assumes ascending: "sorted_wrt (<) (map rav_sequence entries)"
    and distinct_ids: "distinct (map rav_id entries)"
    and of_run: "e \<in> set entries \<Longrightarrow> rav_runId e = runId"
begin

lemma distinct_entries: "distinct entries"
  using distinct_ids by (simp add: distinct_map)

lemma sequence_identifies:
  "e \<in> set entries \<Longrightarrow> f \<in> set entries \<Longrightarrow> rav_sequence e = rav_sequence f \<Longrightarrow> e = f"
  using ascending by (simp add: strict_sorted_iff distinct_map inj_on_def)

lemma id_identifies:
  "e \<in> set entries \<Longrightarrow> f \<in> set entries \<Longrightarrow> rav_id e = rav_id f \<Longrightarrow> e = f"
  using distinct_ids by (simp add: distinct_map inj_on_def)

definition indexes :: "activity_index \<Rightarrow> activity_view set \<Rightarrow> bool" where
  "indexes index S \<longleftrightarrow>
     S \<subseteq> set entries \<and> distinct (map fst (fst index)) \<and>
     (\<forall>i e. map_of (fst index) i = Some e \<longleftrightarrow> e \<in> S \<and> rav_id e = i) \<and>
     (\<forall>n i. map_of (snd index) n = Some i \<longleftrightarrow> (\<exists>e \<in> S. rav_sequence e = n \<and> rav_id e = i))"

lemma indexes_empty: "indexes ([], []) {}"
  by (simp add: indexes_def)

lemma indexes_lookup:
  assumes "indexes index S"
  shows "map_of (fst index) i = Some e \<longleftrightarrow> e \<in> S \<and> rav_id e = i"
    and "map_of (snd index) n = Some i \<longleftrightarrow> (\<exists>e \<in> S. rav_sequence e = n \<and> rav_id e = i)"
  using assms by (simp_all add: indexes_def)

lemma indexes_identify:
  assumes "indexes index S" "x \<in> set entries" "e \<in> S"
  shows "rav_id e = rav_id x \<Longrightarrow> e = x" "rav_sequence e = rav_sequence x \<Longrightarrow> e = x"
  using assms id_identifies sequence_identifies by (auto simp: indexes_def)

lemma indexes_consistent:
  assumes "indexes index S" "x \<in> set entries"
  shows "\<not> inconsistent runId index x"
proof -
  note same = indexes_identify [OF assms] and lookup = indexes_lookup [OF assms(1)]
  have "\<not> (case map_of (fst index) (rav_id x) of
          None \<Rightarrow> False | Some known \<Rightarrow> rav_sequence known \<noteq> rav_sequence x)"
    by (auto split: option.split simp: lookup(1) dest: same(1))
  moreover have "\<not> (case map_of (snd index) (rav_sequence x) of
          None \<Rightarrow> False | Some known \<Rightarrow> known \<noteq> rav_id x)"
    by (auto split: option.split simp: lookup(2) dest: same(2))
  ultimately show ?thesis
    using of_run [OF assms(2)] by (simp add: inconsistent_def)
qed

lemma indexes_insert:
  assumes "indexes index S" "x \<in> set entries"
  shows "indexes (AList.update (rav_id x) x (fst index),
                  AList.update (rav_sequence x) (rav_id x) (snd index)) (insert x S)"
proof -
  note same = indexes_identify [OF assms]
  note found = indexes_lookup(1) [OF assms(1)] and known = indexes_lookup(2) [OF assms(1)]
  have "map_of (AList.update (rav_id x) x (fst index)) i = Some e \<longleftrightarrow>
        e \<in> insert x S \<and> rav_id e = i" for i e
    unfolding update_Some found by (cases "i = rav_id x") (auto dest: same(1))
  moreover have "map_of (AList.update (rav_sequence x) (rav_id x) (snd index)) n = Some i \<longleftrightarrow>
        (\<exists>e \<in> insert x S. rav_sequence e = n \<and> rav_id e = i)" for n i
    unfolding update_Some known by (cases "n = rav_sequence x") (auto dest: same(2))
  ultimately show ?thesis
    using assms by (simp add: indexes_def distinct_update)
qed

lemma merge_items_indexes:
  "indexes index S \<Longrightarrow> set items \<subseteq> set entries \<Longrightarrow>
   \<exists>index'. merge_items runId index items = Inr index' \<and> indexes index' (S \<union> set items)"
proof (induction items arbitrary: index S)
  case (Cons x xs)
  then show ?case
    using indexes_consistent [of index S x] indexes_insert [of index S x] by fastforce
qed simp

lemma sorted_index:
  assumes "indexes index S"
  shows "sort_key rav_sequence (map snd (fst index)) = filter (\<lambda>e. e \<in> S) entries"
proof (rule map_inj_on [of rav_sequence])
  let ?xs = "sort_key rav_sequence (map snd (fst index))" and ?ys = "filter (\<lambda>e. e \<in> S) entries"
  have S: "S \<subseteq> set entries" and keys: "distinct (map fst (fst index))"
    and found: "map_of (fst index) i = Some e \<longleftrightarrow> e \<in> S \<and> rav_id e = i" for i e
    using assms by (simp_all add: indexes_def)
  have pairs: "(i, e) \<in> set (fst index) \<longleftrightarrow> e \<in> S \<and> rav_id e = i" for i e
    using found map_of_eq_Some_iff [OF keys] by metis
  have set_eq: "set (map snd (fst index)) = S"
  proof (intro equalityI subsetI)
    show "e \<in> S" if "e \<in> set (map snd (fst index))" for e
      using that pairs by (metis (no_types) imageE list.set_map prod.collapse)
    show "e \<in> set (map snd (fst index))" if "e \<in> S" for e
      using that pairs [of "rav_id e" e] by (metis image_eqI list.set_map snd_conv)
  qed
  have "map fst (fst index) = map rav_id (map snd (fst index))"
    using pairs by (auto simp: map_eq_conv)
  then have "distinct (map snd (fst index))"
    using keys by (metis distinct_map)
  moreover have inj: "inj_on rav_sequence S"
    using S sequence_identifies by (auto simp: inj_on_def)
  ultimately have "distinct (map rav_sequence (map snd (fst index)))"
    using set_eq distinct_map by blast
  then have dx: "distinct (map rav_sequence ?xs)"
    by (metis distinct_map distinct_sort set_sort)
  have sy: "sorted_wrt (<) (map rav_sequence ?ys)"
    using ascending by (simp add: sorted_wrt_map sorted_wrt_filter)
  show "map rav_sequence ?xs = map rav_sequence ?ys"
  proof (rule sorted_distinct_set_unique)
    show "sorted (map rav_sequence ?xs)" by simp
    show "distinct (map rav_sequence ?xs)" by (fact dx)
    show "sorted (map rav_sequence ?ys)" "distinct (map rav_sequence ?ys)"
      using sy by (simp_all add: strict_sorted_iff)
    show "set (map rav_sequence ?xs) = set (map rav_sequence ?ys)"
      using set_eq S by (auto simp: image_iff)
  qed
  show "inj_on rav_sequence (set ?xs \<union> set ?ys)"
    by (rule inj_on_subset [OF inj]) (use set_eq S in auto)
qed

text \<open>Two windows of the log: the entries of either, and the flag of the one that begins earlier.\<close>

lemma merge_two:
  assumes "set xs \<subseteq> set entries" "set ys \<subseteq> set entries"
  shows "mergeActivity runId [historyWindow xs f, historyWindow ys g] =
    Inr (historyWindow (filter (\<lambda>e. e \<in> set xs \<union> set ys) entries)
      (case first_sequence xs of
         None \<Rightarrow> ys \<noteq> [] \<and> g
       | Some n \<Rightarrow> (case first_sequence ys of None \<Rightarrow> f | Some m \<Rightarrow> if m < n then g else f)))"
proof -
  obtain index where xs: "merge_items runId ([], []) xs = Inr index" "indexes index (set xs)"
    using merge_items_indexes [OF indexes_empty assms(1)] by auto
  obtain index' where ys: "merge_items runId index ys = Inr index'" "indexes index' (set xs \<union> set ys)"
    using merge_items_indexes [OF xs(2) assms(2)] by auto
  show ?thesis
    using xs(1) ys(1) sorted_index [OF ys(2)]
    by (auto simp: mergeActivity_def merged_window_def historyWindow_def earlier_window_def
        first_sequence_def Let_def split: list.splits option.splits)
qed

lemma merge_one:
  assumes "set ys \<subseteq> set entries"
  shows "mergeActivity runId [historyWindow ys g] =
    Inr (historyWindow (filter (\<lambda>e. e \<in> set ys) entries) (ys \<noteq> [] \<and> g))"
proof -
  obtain index where ys: "merge_items runId ([], []) ys = Inr index" "indexes index (set ys)"
    using merge_items_indexes [OF indexes_empty assms] by auto
  show ?thesis
    using ys(1) sorted_index [OF ys(2)]
    by (auto simp: mergeActivity_def merged_window_def historyWindow_def earlier_window_def
        first_sequence_def Let_def split: list.splits)
qed

lemma filter_suffix:
  "filter (\<lambda>e. e \<in> set (drop k entries)) entries = drop k entries"
proof -
  have "set (take k entries) \<inter> set (drop k entries) = {}"
    using distinct_entries by (metis append_take_drop_id distinct_append)
  then have "filter (\<lambda>e. e \<in> set (drop k entries)) (take k entries) = []"
    by (auto simp: filter_empty_conv)
  moreover have "filter (\<lambda>e. e \<in> set (drop k entries)) (drop k entries) = drop k entries"
    by (simp add: filter_id_conv)
  ultimately show ?thesis
    by (metis append_Nil append_take_drop_id filter_append)
qed

lemma covered_suffix:
  assumes "m \<le> n" "k \<le> n"
  shows "filter (\<lambda>e. e \<in> set (drop k (take n entries)) \<union> set (drop m entries)) entries =
         drop (min k m) entries"
proof -
  have "set (drop k (take n entries)) \<union> set (drop m entries) = set (drop (min k m) entries)"
    (is "?L = ?R")
  proof
    have "set (drop k (take n entries)) \<subseteq> set (drop k entries)"
      by (metis drop_take set_take_subset)
    then show "?L \<subseteq> ?R"
      using set_drop_subset_set_drop [of "min k m" k entries]
        set_drop_subset_set_drop [of "min k m" m entries] by auto
    show "?R \<subseteq> ?L"
    proof (cases "k \<le> m")
      case True
      have "drop k entries = drop k (take n entries) @ drop n entries"
        using append_take_drop_id [of "n - k" "drop k entries"] assms(2) by (simp add: drop_take)
      then show ?thesis
        using True assms(1) set_drop_subset_set_drop [of m n entries] by (auto simp: min_def)
    qed (simp add: min_def)
  qed
  then show ?thesis using filter_suffix [of "min k m"] by simp
qed

lemma segment_subset: "set (drop i (take j entries)) \<subseteq> set entries"
  by (meson order_trans set_drop_subset set_take_subset)

lemma merge_gap:
  assumes "m < length entries"
  shows "mergeActivity runId
      [historyWindow (drop n (take m entries)) f, window_at entries m (length entries)] =
    Inr (historyWindow (drop (min n m) entries) (if n < m then f else 0 < m))"
proof (cases "n < m")
  case True
  have "rav_sequence (entries ! n) < rav_sequence (entries ! m)"
    using ascending True assms by (simp add: sorted_wrt_iff_nth_less)
  then show ?thesis
    using merge_two [of "drop n (take m entries)" "drop m entries" f "0 < m"] True assms
      covered_suffix [of m m n] set_drop_subset [of n "take m entries"]
    by (auto simp: window_at_def first_drop set_drop_subset dest: in_set_dropD in_set_takeD)
next
  case False
  then show ?thesis
    using merge_two [of "[]" "drop m entries" f "0 < m"] assms filter_suffix [of m]
    by (simp add: window_at_def first_drop first_nil set_drop_subset min_def)
qed

lemma merge_shown:
  assumes "k < n \<or> k = 0 \<and> n = 0" "n \<le> length entries" "m < length entries"
  shows "mergeActivity runId [window_at entries k n,
      historyWindow (drop (min n m) entries) (if n < m then 0 < k else 0 < m)] =
    Inr (window_at entries (min k m) (length entries))"
proof -
  have order: "i < j \<Longrightarrow> j < length entries \<Longrightarrow>
      rav_sequence (entries ! i) < rav_sequence (entries ! j)" for i j
    using ascending by (simp add: sorted_wrt_iff_nth_less)
  have union: "filter (\<lambda>e. e \<in> set (drop k (take n entries)) \<union> set (drop (min n m) entries)) entries =
      drop (min k m) entries"
    using covered_suffix [of "min n m" n k] assms(1) by (auto simp: min_def split: if_splits)
  have flag: "(case first_sequence (drop k (take n entries)) of
      None \<Rightarrow> drop (min n m) entries \<noteq> [] \<and> (if n < m then 0 < k else 0 < m)
    | Some i \<Rightarrow> (case first_sequence (drop (min n m) entries) of None \<Rightarrow> 0 < k
        | Some j \<Rightarrow> if j < i then (if n < m then 0 < k else 0 < m) else 0 < k)) = (0 < min k m)"
    using assms order [of "min n m" k] order [of k "min n m"]
    by (cases "k < min n m"; cases "k = min n m") (auto simp: first_drop min_def split: if_splits)
  show ?thesis
    unfolding window_at_def merge_two [OF segment_subset set_drop_subset] union flag by simp
qed

lemma merge_first:
  "mergeActivity runId [historyWindow [] f, window_at entries m (length entries)] =
   Inr (window_at entries m (length entries))" if "m < length entries \<or> m = 0"
  using that merge_two [of "[]" "drop m entries" f "0 < m"] filter_suffix [of m]
  by (auto simp: window_at_def first_nil set_drop_subset)

lemma merge_single:
  "mergeActivity runId [window_at entries m (length entries)] =
   Inr (window_at entries m (length entries))" if "m < length entries \<or> m = 0"
  using that merge_one [of "drop m entries" "0 < m"] filter_suffix [of m]
  by (auto simp: window_at_def set_drop_subset)

end

section \<open>The server\<close>

text \<open>
  What the client relies on. A page holds the first hundred entries between its bounds and says
  whether there are more; the log only grows at its end; requests leave the client's state alone.
\<close>

definition is_page :: "activity_view list \<Rightarrow> nat \<Rightarrow> nat \<Rightarrow> activity_page \<Rightarrow> bool" where
  "is_page entries after before page \<longleftrightarrow>
     (let rows = filter (\<lambda>e. after < rav_sequence e \<and> rav_sequence e < before) entries in
      acp_items page = take 100 rows \<and> acp_hasMore page = (length rows > 100) \<and>
      (acp_hasMore page \<longrightarrow> acp_nextCursor page = last_sequence (acp_items page)))"

locale activity_server =
  fixes ok :: "'w \<Rightarrow> bool"
    and log_of :: "'w \<Rightarrow> activity_view list"
    and shown :: "'w \<Rightarrow> run_projection option"
    and read_run :: "ident \<Rightarrow> ('w, web_error, run_projection) op"
    and read_page :: "activity_request \<Rightarrow> ('w, web_error, activity_page) op"
    and runId :: ident
  assumes log_ok: "ok w \<Longrightarrow> activity_log runId (log_of w)"
    and sequences: "ok w \<Longrightarrow> e \<in> set (log_of w) \<Longrightarrow>
      0 < rav_sequence e \<and> int (rav_sequence e) \<le> MAX_SAFE_INTEGER"
    and run_keeps: "ok w \<Longrightarrow> read_run runId w = (r, w') \<Longrightarrow>
      ok w' \<and> Sublist.prefix (log_of w) (log_of w') \<and> shown w' = shown w"
    and run_window: "ok w \<Longrightarrow> read_run runId w = (Inr run, w') \<Longrightarrow>
      rnv_id (rp_run run) = runId \<and>
      rp_activity run = window_at (log_of w') (length (log_of w') - 100) (length (log_of w'))"
    and page_keeps: "ok w \<Longrightarrow> read_page q w = (p, w') \<Longrightarrow>
      ok w' \<and> Sublist.prefix (log_of w) (log_of w') \<and> shown w' = shown w"
    and page_entries: "ok w \<Longrightarrow> after < before \<Longrightarrow> int before \<le> MAX_SAFE_INTEGER \<Longrightarrow>
      read_page (activityPath runId before (Some after)) w = (Inr page, w') \<Longrightarrow>
      is_page (log_of w') after before page"
begin

text \<open>The entries between two bounds the log has already passed do not change any more.\<close>

lemma settled:
  assumes "ok w" "ok w'" "Sublist.prefix (log_of w) (log_of w')"
    "before \<in> rav_sequence ` set (log_of w)"
  shows "filter (\<lambda>e. after < rav_sequence e \<and> rav_sequence e < before) (log_of w') =
         filter (\<lambda>e. after < rav_sequence e \<and> rav_sequence e < before) (log_of w)"
proof -
  obtain rest where rest: "log_of w' = log_of w @ rest"
    using assms(3) by (auto simp: Sublist.prefix_def)
  have "\<not> rav_sequence e < before" if "e \<in> set rest" for e
    using activity_log.ascending [OF log_ok [OF assms(2)]] assms(4) that
    by (fastforce simp: rest sorted_wrt_append)
  then show ?thesis by (auto simp: rest filter_empty_conv)
qed

lemma page_is_valid:
  assumes "ok w" "is_page (log_of w) after before page"
  shows "validateActivityPage page runId before (Some after) = Inr ()"
proof -
  let ?rows = "filter (\<lambda>e. after < rav_sequence e \<and> rav_sequence e < before) (log_of w)"
  have order: "sorted_wrt (<) (map rav_sequence (take 100 ?rows))"
    using activity_log.ascending [OF log_ok [OF assms(1)]]
    by (simp add: sorted_wrt_map sorted_wrt_filter sorted_wrt_take)
  have facts: "rav_runId e = runId \<and> int (rav_sequence e) \<le> MAX_SAFE_INTEGER \<and>
      after < rav_sequence e \<and> rav_sequence e < before" if "e \<in> set (take 100 ?rows)" for e
    using in_set_takeD [OF that] activity_log.of_run [OF log_ok [OF assms(1)]] sequences [OF assms(1)]
    by auto
  have "ascending_within runId before a xs"
    if "sorted_wrt (<) (map rav_sequence xs)" "\<forall>e \<in> set xs. rav_runId e = runId \<and>
      int (rav_sequence e) \<le> MAX_SAFE_INTEGER \<and> rav_sequence e < before"
      "\<forall>e \<in> set xs. a < rav_sequence e" for xs a
    using that by (induction xs arbitrary: a) (auto simp: not_less)
  then have "ascending_within runId before after (take 100 ?rows)"
    using order facts by blast
  moreover have "take 100 ?rows \<noteq> []" if "length ?rows > 100"
    using that by (cases ?rows) auto
  ultimately show ?thesis
    using assms(2) by (auto simp: is_page_def validateActivityPage_def Let_def last_sequence_def)
qed

text \<open>What a page leaves for the next one.\<close>

lemma page_rest:
  assumes "sorted_wrt (<) (map rav_sequence entries)" "is_page entries after before page"
    "acp_hasMore page" "acp_nextCursor page = Some cursor"
  shows "filter (\<lambda>e. after < rav_sequence e \<and> rav_sequence e < before) entries =
    acp_items page @ filter (\<lambda>e. cursor < rav_sequence e \<and> rav_sequence e < before) entries"
proof -
  let ?rows = "filter (\<lambda>e. after < rav_sequence e \<and> rav_sequence e < before) entries"
  have rows: "sorted_wrt (<) (map rav_sequence ?rows)" "length ?rows > 100"
    and items: "acp_items page = take 100 ?rows"
    and cursor: "cursor = rav_sequence (?rows ! 99)"
    using assms by (auto simp: is_page_def Let_def last_sequence_def last_conv_nth
        sorted_wrt_map sorted_wrt_filter split: if_splits)
  have "?rows ! 99 \<in> set ?rows" using rows(2) by (intro nth_mem) simp
  then have "after < cursor" by (simp add: cursor)
  then have "filter (\<lambda>e. cursor < rav_sequence e \<and> rav_sequence e < before) entries =
        filter (\<lambda>e. cursor < rav_sequence e) ?rows"
    by (auto intro!: filter_cong)
  also have "\<dots> = drop 100 ?rows"
    using ascending_above [OF rows(1), of 100] rows(2) by (simp add: cursor)
  finally show ?thesis by (simp add: items)
qed

lemma gap_complete:
  assumes "read_gap read_page isCurrent runId before after items w = (Inr gap, w')" "ok w"
    "before \<in> rav_sequence ` set (log_of w)"
  shows "ok w' \<and> Sublist.prefix (log_of w) (log_of w') \<and> shown w' = shown w \<and>
    (isCurrent w' \<longrightarrow>
      gap = items @ filter (\<lambda>e. after < rav_sequence e \<and> rav_sequence e < before) (log_of w))"
  using assms
proof (induction "before - after" arbitrary: after items w rule: less_induct)
  case less
  note run = less.prems(1) and ok = less.prems(2) and before = less.prems(3)
  let ?rest = "\<lambda>a. filter (\<lambda>e. a < rav_sequence e \<and> rav_sequence e < before) (log_of w)"
  show ?case
  proof (cases "after + 1 < before \<and> isCurrent w")
    case False
    then have "w' = w" "gap = items" using run by (auto simp: read_gap.simps)
    then show ?thesis using False ok by (auto simp: filter_empty_conv)
  next
    case True
    then obtain page w1 where page: "read_page (activityPath runId before (Some after)) w = (Inr page, w1)"
      using run by (auto simp: read_gap.simps split: prod.splits sum.splits)
    have kept: "ok w1" "Sublist.prefix (log_of w) (log_of w1)" "shown w1 = shown w"
      using page_keeps [OF ok page] by auto
    have is_page: "is_page (log_of w1) after before page"
      using page_entries [OF ok _ _ page] True sequences [OF ok] before by auto
    note valid = page_is_valid [OF kept(1) is_page]
    have same: "filter (\<lambda>e. a < rav_sequence e \<and> rav_sequence e < before) (log_of w1) = ?rest a" for a
      by (rule settled [OF ok kept(1,2) before])
    show ?thesis
    proof (cases "acp_hasMore page")
      case False
      then show ?thesis
        using run True page valid kept is_page same
        by (auto simp: read_gap.simps is_page_def Let_def)
    next
      case more: True
      then obtain cursor where cursor: "acp_nextCursor page = Some cursor" "after < cursor" "cursor < before"
        using valid_page_advances [OF valid] by auto
      have "read_gap read_page isCurrent runId before cursor (items @ acp_items page) w1 = (Inr gap, w')"
        using run True page valid more cursor(1) by (simp add: read_gap.simps [of _ _ _ _ after])
      moreover have "before \<in> rav_sequence ` set (log_of w1)"
        using before kept(2) by (auto simp: Sublist.prefix_def)
      ultimately have "ok w' \<and> Sublist.prefix (log_of w1) (log_of w') \<and> shown w' = shown w1 \<and>
        (isCurrent w' \<longrightarrow> gap = items @ acp_items page @ ?rest cursor)"
        using less.hyps [of cursor "items @ acp_items page" w1] cursor kept(1) same by auto
      moreover have "?rest after = acp_items page @ ?rest cursor"
        using page_rest [OF activity_log.ascending [OF log_ok [OF kept(1)]] is_page more cursor(1)]
        by (simp add: same)
      ultimately show ?thesis
        using kept by (auto intro: Sublist.prefix_order.order_trans)
    qed
  qed
qed

lemma gap_of_shown:
  assumes "readActivityGap runId (Some a) next_window read_page isCurrent w = (Inr gap, w')" "ok w"
    "covers (log_of w) a k n" "m < length (log_of w)"
    "next_window = window_at (log_of w) m (length (log_of w))"
  shows "ok w' \<and> Sublist.prefix (log_of w) (log_of w') \<and> shown w' = shown w \<and>
    (isCurrent w' \<longrightarrow> gap = drop n (take m (log_of w)))"
proof -
  let ?before = "rav_sequence (log_of w ! m)"
  let ?after = "case aw_latestSequence a of None \<Rightarrow> 0 | Some s \<Rightarrow> s"
  have first: "aw_earliestSequence next_window = Some ?before"
    using assms(4,5) by (simp add: window_at_def historyWindow_def first_drop)
  note log = activity_log.ascending [OF log_ok [OF assms(2)]]
  have between: "filter (\<lambda>e. ?after < rav_sequence e \<and> rav_sequence e < ?before) (log_of w) =
      drop n (take m (log_of w))"
  proof (cases "n = 0")
    case True
    then have "?after = 0" using assms(3)
      by (simp add: covers_def window_at_def historyWindow_def last_sequence_def)
    then have "filter (\<lambda>e. ?after < rav_sequence e \<and> rav_sequence e < ?before) (log_of w) =
        filter (\<lambda>e. rav_sequence e < ?before) (log_of w)"
      using sequences [OF assms(2)] by (auto intro!: filter_cong)
    then show ?thesis using True ascending_below [OF log assms(4)] by simp
  next
    case False
    then have kn: "k < n" "n \<le> length (log_of w)" using assms(3) by (auto simp: covers_def)
    then have "last (drop k (take n (log_of w))) = log_of w ! (n - 1)"
      by (simp add: last_conv_nth)
    then have "?after = rav_sequence (log_of w ! (n - 1))"
      using assms(3) kn by (auto simp: covers_def window_at_def historyWindow_def last_sequence_def)
    then show ?thesis using ascending_between [OF log _ kn(2) assms(4)] False by simp
  qed
  have "read_gap read_page isCurrent runId ?before ?after [] w = (Inr gap, w')"
    using assms(1) first by (simp add: readActivityGap_def)
  from gap_complete [OF this assms(2)] between show ?thesis
    using assms(4) by simp
qed

text \<open>The two merges of a reading, on the log \<open>E\<close> as the fresh projection saw it.\<close>

definition start_of :: "activity_window option \<Rightarrow> nat \<Rightarrow> nat \<Rightarrow> nat" where
  "start_of previous k m = (if previous = None then m else min k m)"

definition merges_to ::
  "activity_window option \<Rightarrow> activity_view list \<Rightarrow> activity_window \<Rightarrow> activity_window \<Rightarrow> bool" where
  "merges_to previous gap next_window result \<longleftrightarrow>
     (\<exists>act. mergeActivity runId
         [historyWindow gap (case previous of None \<Rightarrow> False | Some p \<Rightarrow> aw_hasEarlier p), next_window] =
           Inr act \<and>
       mergeActivity runId ((case previous of None \<Rightarrow> [] | Some a \<Rightarrow> [a]) @ [act]) = Inr result)"

lemma gap_merges:
  assumes "readActivityGap runId previous next_window read_page isCurrent w = (Inr gap, w')" "ok w"
    "case previous of None \<Rightarrow> True | Some a \<Rightarrow> covers (log_of w) a k n" "isCurrent w'"
    "next_window = window_at (log_of w) m (length (log_of w))" "m < length (log_of w) \<or> m = 0"
  shows "merges_to previous gap next_window
    (window_at (log_of w) (start_of previous k m) (length (log_of w)))"
proof (cases previous)
  case None
  then show ?thesis
    using assms activity_log.merge_first [OF log_ok [OF assms(2)]]
      activity_log.merge_single [OF log_ok [OF assms(2)]]
    by (simp add: merges_to_def start_of_def readActivityGap_def ret_run)
next
  case (Some a)
  have covers: "covers (log_of w) a k n" using assms(3) Some by simp
  show ?thesis
  proof (cases "m < length (log_of w)")
    case True
    note facts = gap_of_shown [OF assms(1) [unfolded Some] assms(2) covers True assms(5)]
    have "mergeActivity runId [historyWindow gap (0 < k), next_window] =
        Inr (historyWindow (drop (min n m) (log_of w)) (if n < m then 0 < k else 0 < m))"
      using activity_log.merge_gap [OF log_ok [OF assms(2)] True] facts assms(4,5) by simp
    moreover have "mergeActivity runId [window_at (log_of w) k n,
        historyWindow (drop (min n m) (log_of w)) (if n < m then 0 < k else 0 < m)] =
        Inr (window_at (log_of w) (min k m) (length (log_of w)))"
      using activity_log.merge_shown [OF log_ok [OF assms(2)] _ _ True] covers by (simp add: covers_def)
    ultimately show ?thesis
      using covers Some
      by (simp add: merges_to_def start_of_def covers_def window_at_def historyWindow_def)
  next
    case False
    then have empty: "log_of w = []" "m = 0" "a = window_at [] 0 0" "k = 0"
      using assms(6) covers by (auto simp: covers_def)
    then have "gap = []"
      using assms(1,5) Some by (auto simp: readActivityGap_def window_at_def historyWindow_def
          first_sequence_def run_simps split: option.splits)
    then show ?thesis
      using Some assms(5) empty activity_log.merge_two [OF log_ok [OF assms(2)], of "[]" "[]"]
      by (simp add: merges_to_def start_of_def window_at_def first_nil)
  qed
qed

lemma gap_keeps:
  assumes "readActivityGap runId previous next_window read_page isCurrent w = (Inr gap, w')" "ok w"
    "case previous of None \<Rightarrow> True | Some a \<Rightarrow> covers (log_of w) a k n"
    "next_window = window_at (log_of w) m (length (log_of w))" "m < length (log_of w) \<or> m = 0"
  shows "ok w' \<and> Sublist.prefix (log_of w) (log_of w') \<and> shown w' = shown w"
proof (cases "previous = None \<or> log_of w = []")
  case True
  then have "w' = w"
    using assms(1,4) by (auto simp: readActivityGap_def window_at_def historyWindow_def
        first_sequence_def run_simps split: option.splits)
  then show ?thesis using assms(2) by simp
next
  case False
  then show ?thesis
    using assms gap_of_shown [of _ next_window isCurrent w gap w' k n m] by (cases previous) auto
qed

text \<open>
  Reading a run with its history: what was shown from position \<open>k\<close> on and the newest hundred
  entries become one window without a gap.
\<close>

lemma catches_up:
  assumes "readRunWithHistory read_run read_page shown isCurrent runId w = (Inr p, w')" "ok w"
    "case shown_activity runId (shown w) of None \<Rightarrow> True | Some a \<Rightarrow> covers (log_of w) a k n"
    "isCurrent w'"
  shows "ok w' \<and> Sublist.prefix (log_of w) (log_of w') \<and> rnv_id (rp_run p) = runId \<and>
    (\<exists>l. length (log_of w) \<le> l \<and> l \<le> length (log_of w') \<and>
      rp_activity p = window_at (log_of w')
        (start_of (shown_activity runId (shown w)) k (l - 100)) l)"
proof -
  obtain run w1 gap where run: "read_run runId w = (Inr run, w1)"
    and gap: "readActivityGap runId (shown_activity runId (shown w1)) (rp_activity run)
      read_page isCurrent w1 = (Inr gap, w')"
    using assms(1) by (auto simp: readRunWithHistory_def run_simps split: prod.splits sum.splits)
  have kept: "ok w1" "Sublist.prefix (log_of w) (log_of w1)" "shown w1 = shown w"
    using run_keeps [OF assms(2) run] by auto
  let ?l = "length (log_of w1)"
  let ?k = "start_of (shown_activity runId (shown w)) k (?l - 100)"
  have window: "rnv_id (rp_run run) = runId" "rp_activity run = window_at (log_of w1) (?l - 100) ?l"
    using run_window [OF assms(2) run] by auto
  have position: "?l - 100 < ?l \<or> ?l - 100 = 0" by auto
  have shown: "case shown_activity runId (shown w1) of None \<Rightarrow> True | Some a \<Rightarrow> covers (log_of w1) a k n"
    using assms(3) kept(2,3) covers_extend by (auto split: option.splits)
  have after: "ok w'" "Sublist.prefix (log_of w1) (log_of w')" "shown w' = shown w1"
    using gap_keeps [OF gap kept(1) shown window(2) position] by auto
  obtain act where act: "mergeActivity runId [historyWindow gap
        (case shown_activity runId (shown w1) of None \<Rightarrow> False | Some p \<Rightarrow> aw_hasEarlier p),
        rp_activity run] = Inr act"
      "mergeActivity runId
        ((case shown_activity runId (shown w1) of None \<Rightarrow> [] | Some a \<Rightarrow> [a]) @ [act]) =
       Inr (window_at (log_of w1) ?k ?l)"
    using gap_merges [OF gap kept(1) shown assms(4) window(2) position] kept(3)
    by (auto simp: merges_to_def)
  have "\<exists>q. mergeRunTimeline (shown w') (run\<lparr>rp_activity := act\<rparr>) = Inr q \<and>
      rp_activity q = window_at (log_of w1) ?k ?l \<and> rnv_id (rp_run q) = runId"
    by (rule mergeRunTimeline_activity) (use window(1) act(2) after(3) in simp_all)
  moreover have "mergeRunTimeline (shown w') (run\<lparr>rp_activity := act\<rparr>) = Inr p"
    using assms(1) run gap act(1) by (simp add: readRunWithHistory_def run_simps)
  ultimately show ?thesis
    using after kept(2) window_at_prefix [OF after(2), of ?k]
    by (auto intro!: exI [of _ ?l] dest: Sublist.prefix_length_le intro: Sublist.prefix_order.order_trans)
qed

end

locale reliable_server = activity_server +
  assumes page_answers: "ok w \<Longrightarrow> after < before \<Longrightarrow> int before \<le> MAX_SAFE_INTEGER \<Longrightarrow>
    \<exists>page. fst (read_page (activityPath runId before (Some after)) w) = Inr page"
begin

lemma gap_returns:
  assumes "ok w" "before \<in> rav_sequence ` set (log_of w)"
  shows "isl (fst (read_gap read_page isCurrent runId before after items w)) = False"
  using assms
proof (induction "before - after" arbitrary: after items w rule: less_induct)
  case less
  show ?case
  proof (cases "after + 1 < before \<and> isCurrent w")
    case False
    then show ?thesis by (auto simp: read_gap.simps)
  next
    case True
    have "int before \<le> MAX_SAFE_INTEGER"
      using less.prems(2) sequences [OF less.prems(1)] by auto
    then obtain page w1 where page: "read_page (activityPath runId before (Some after)) w = (Inr page, w1)"
      using page_answers [OF less.prems(1), of after before] True
      by (cases "read_page (activityPath runId before (Some after)) w") auto
    have kept: "ok w1" "before \<in> rav_sequence ` set (log_of w1)"
      using page_keeps [OF less.prems(1) page] less.prems(2) by (auto simp: Sublist.prefix_def)
    have is_page: "is_page (log_of w1) after before page"
      using page_entries [OF less.prems(1) _ _ page] True sequences [OF less.prems(1)] less.prems(2) by auto
    note valid = page_is_valid [OF kept(1) is_page]
    show ?thesis
    proof (cases "acp_hasMore page")
      case False
      then show ?thesis using True page valid by (simp add: read_gap.simps)
    next
      case more: True
      then obtain cursor where cursor: "acp_nextCursor page = Some cursor" "after < cursor" "cursor < before"
        using valid_page_advances [OF valid] by auto
      then have "\<not> isl (fst (read_gap read_page isCurrent runId before cursor (items @ acp_items page) w1))"
        using less.hyps kept by simp
      then show ?thesis
        using True page valid more cursor(1) by (simp add: read_gap.simps [of _ _ _ _ after])
    qed
  qed
qed

text \<open>Once the projection has been read, the rest succeeds.\<close>

lemma history_returns:
  assumes "read_run runId w = (Inr run, w1)" "ok w"
    "case shown_activity runId (shown w) of None \<Rightarrow> True | Some a \<Rightarrow> covers (log_of w) a k n"
  shows "\<exists>p w'. readRunWithHistory read_run read_page shown (\<lambda>_. True) runId w = (Inr p, w')"
proof -
  have kept: "ok w1" "Sublist.prefix (log_of w) (log_of w1)" "shown w1 = shown w"
    using run_keeps [OF assms(2,1)] by auto
  let ?l = "length (log_of w1)"
  have window: "rnv_id (rp_run run) = runId" "rp_activity run = window_at (log_of w1) (?l - 100) ?l"
    using run_window [OF assms(2,1)] by auto
  have position: "?l - 100 < ?l \<or> ?l - 100 = 0" by auto
  have shown: "case shown_activity runId (shown w1) of None \<Rightarrow> True | Some a \<Rightarrow> covers (log_of w1) a k n"
    using assms(3) kept(2,3) covers_extend by (auto split: option.splits)
  have "first_sequence (aw_items (rp_activity run)) = aw_earliestSequence (rp_activity run)"
    by (simp add: window(2) window_at_def historyWindow_def)
  then have "\<not> isl (fst (readActivityGap runId (shown_activity runId (shown w1)) (rp_activity run)
      read_page (\<lambda>_. True) w1))"
    using gap_returns [OF kept(1)] window(2) position
    by (auto simp: readActivityGap_def ret_run window_at_def historyWindow_def first_drop
        split: option.splits if_splits)
  then obtain gap w' where gap: "readActivityGap runId (shown_activity runId (shown w1))
      (rp_activity run) read_page (\<lambda>_. True) w1 = (Inr gap, w')"
    by (metis isl_def prod.collapse sum.collapse(2))
  note merges = gap_merges [OF gap kept(1) shown TrueI window(2) position]
  then obtain act where act: "mergeActivity runId [historyWindow gap
        (case shown_activity runId (shown w1) of None \<Rightarrow> False | Some p \<Rightarrow> aw_hasEarlier p),
        rp_activity run] = Inr act" "\<exists>r. mergeActivity runId
        ((case shown_activity runId (shown w1) of None \<Rightarrow> [] | Some a \<Rightarrow> [a]) @ [act]) = Inr r"
    by (auto simp: merges_to_def)
  moreover have "shown w' = shown w1"
    using gap_keeps [OF gap kept(1) shown window(2) position] by simp
  ultimately obtain q where "mergeRunTimeline (shown w') (run\<lparr>rp_activity := act\<rparr>) = Inr q"
    using mergeRunTimeline_activity [of "run\<lparr>rp_activity := act\<rparr>" runId "shown w1"] window(1) by auto
  then show ?thesis
    using assms(1) gap act(1) by (simp add: readRunWithHistory_def run_simps)
qed

end

end
