(* ===== verification/BrowserReads.thy ===== *)
theory BrowserReads
  imports HttpSafety ActivityLog
begin

text \<open>
  The reads of the browser against the service and the kernel behind it: what a request for a run or
  for a page of its activity does, that it leaves the database alone, and when it is answered. The
  kernel numbers the activity of a run, which makes it a server in the sense of the activity log.
\<close>

section \<open>Numbers in paths\<close>

lemma digits_from_append:
  "digits_from b v (xs @ ys) = (case digits_from b v xs of None \<Rightarrow> None | Some w \<Rightarrow> digits_from b w ys)"
  by (induction xs arbitrary: v) (auto split: option.split)

definition digit_char :: "nat \<Rightarrow> char" where
  "digit_char d = char_of (48 + d)"

lemma digit_char_value: "d < 10 \<Longrightarrow> digit_value (digit_char d) = Some d"
  by (simp add: digit_char_def digit_value_def)

lemma show_nat_digits: "\<exists>ds. show_nat n = map digit_char ds \<and> ds \<noteq> [] \<and> (\<forall>d \<in> set ds. d < 10)"
proof (induction n rule: show_nat.induct)
  case (1 n)
  show ?case
  proof (cases "n < 10")
    case True
    then show ?thesis by (auto simp: show_nat.simps [of n] digit_char_def intro!: exI [of _ "[n]"])
  next
    case False
    then obtain ds where "show_nat (n div 10) = map digit_char ds" "\<forall>d \<in> set ds. d < 10"
      using 1 by auto
    then show ?thesis
      using False by (auto simp: show_nat.simps [of n] digit_char_def intro!: exI [of _ "ds @ [n mod 10]"])
  qed
qed

lemma digits_show_nat: "digits_from 10 0 (show_nat n) = Some (int n)"
proof (induction n rule: show_nat.induct)
  case (1 n)
  moreover have "int (n div 10) * 10 + int (n mod 10) = int n"
    by (metis div_mult_mod_eq of_nat_add of_nat_mult of_nat_numeral)
  ultimately show ?case
    using digit_char_value [of n] digit_char_value [of "n mod 10"]
    by (cases "n < 10") (auto simp: show_nat.simps [of n] digits_from_append digit_char_def)
qed

text \<open>A digit is no blank, no letter, no sign and no separator.\<close>

lemma digit_plain:
  assumes "d < 10"
  shows "\<not> js_space (digit_char d)" "lower_char (digit_char d) = digit_char d"
    "digit_char d \<notin> {CHR ''e'', CHR ''.'', CHR ''-'', CHR ''+'', CHR ''x'', CHR ''o'', CHR ''b''}"
proof -
  have "d \<in> {0, 1, 2, 3, 4, 5, 6, 7, 8, 9}" using assms by auto
  then show "\<not> js_space (digit_char d)" "lower_char (digit_char d) = digit_char d"
    "digit_char d \<notin> {CHR ''e'', CHR ''.'', CHR ''-'', CHR ''+'', CHR ''x'', CHR ''o'', CHR ''b''}"
    by (elim insertE emptyE; hypsubst; code_simp)+
qed

lemma split_on_absent: "c \<notin> set xs \<Longrightarrow> split_on c xs = [xs]"
  by (induction xs) auto

lemma js_trim_plain:
  assumes "xs \<noteq> []" "\<forall>c \<in> set xs. \<not> js_space c"
  shows "js_trim xs = xs"
proof -
  have "dropWhile js_space ys = ys" if "ys \<noteq> []" "\<forall>c \<in> set ys. \<not> js_space c" for ys
    using that by (cases ys) auto
  from this [of xs] this [of "rev xs"] show ?thesis using assms by (simp add: js_trim_def)
qed

lemma Number_of_show_nat:
  assumes "int n \<le> MAX_SAFE_INTEGER"
  shows "Number_of (show_nat n) = JInt (int n)"
proof -
  obtain ds where ds: "show_nat n = map digit_char ds" "ds \<noteq> []" "\<forall>d \<in> set ds. d < 10"
    using show_nat_digits by blast
  note plain = digit_plain
  have trim: "js_trim (show_nat n) = show_nat n"
    using ds plain(1) by (intro js_trim_plain) auto
  have lower: "toLowerCase (show_nat n) = show_nat n"
    using ds plain(2) by (simp add: toLowerCase_def)
  have absent: "CHR ''e'' \<notin> set (show_nat n)" "CHR ''.'' \<notin> set (show_nat n)"
    using ds plain(3) by fastforce+
  have sign: "sign_of (show_nat n) = (1, show_nat n)"
    using ds plain(3) by (cases ds) (auto simp: sign_of_def)
  have "toLowerCase (take 2 (show_nat n)) \<notin> {''0x'', ''0o'', ''0b''}"
    using ds plain(2,3) by (cases ds; cases "tl ds") (auto simp: toLowerCase_def)
  moreover have "show_nat n \<noteq> []" using ds by simp
  moreover have "int n < 2 ^ 1024"
  proof -
    have "MAX_SAFE_INTEGER < (2 :: int) ^ 53" by (simp add: MAX_SAFE_INTEGER_def)
    also have "(2 :: int) ^ 53 \<le> 2 ^ 1024" by (rule power_increasing) simp_all
    finally show ?thesis using assms by simp
  qed
  ultimately show ?thesis
    using trim lower absent sign
    by (simp add: Number_of_def Let_def decimal_number_def split_on_absent mantissa_value_def
        digits_def digits_show_nat exponent_value_def scaled_def negate_num_def)
qed

section \<open>The log of a run\<close>

definition service_db :: "service \<Rightarrow> database" where
  "service_db s = k_db (tk_context (sv_kernel s))"

definition run_rows :: "ident \<Rightarrow> database \<Rightarrow> activity_row list" where
  "run_rows runId d = filter (\<lambda>a. ra_run_id a = runId) (d_activities d)"

definition run_log :: "ident \<Rightarrow> database \<Rightarrow> activity_view list" where
  "run_log runId d = map mapActivity (run_rows runId d)"

lemma mapActivity_columns:
  "rav_sequence (mapActivity a) = ra_sequence a" "rav_id (mapActivity a) = ra_id a"
  "rav_runId (mapActivity a) = ra_run_id a"
  by (simp_all add: mapActivity_def)

lemma rows_numbered:
  assumes "well_formed d"
  shows "map ra_sequence (run_rows runId d) = [1..<Suc (length (run_rows runId d))]"
proof (cases "runId \<in> rn_id ` set (d_runs d)")
  case True
  then obtain r where r: "r \<in> set (d_runs d)" "rn_id r = runId" by auto
  have "map ra_sequence (run_rows runId d) = [1..<rn_next_activity_sequence r]"
    "0 < rn_next_activity_sequence r"
    using assms r by (auto simp: well_formed_def numbered_def run_counter_def activity_key_def
        run_rows_def list_all_iff filter_map o_def)
  moreover from this have "length (run_rows runId d) = rn_next_activity_sequence r - 1"
    by (metis length_map length_upt)
  ultimately show ?thesis by simp
next
  case False
  then have "run_rows runId d = []"
    using assms by (auto simp: well_formed_def numbered_def run_counter_def activity_key_def
        run_rows_def list_all_iff filter_empty_conv)
  then show ?thesis by simp
qed

lemma log_numbered:
  "well_formed d \<Longrightarrow> map rav_sequence (run_log runId d) = [1..<Suc (length (run_log runId d))]"
  using rows_numbered [of d runId] by (simp add: run_log_def mapActivity_columns o_def)

lemma run_log_is_log:
  assumes "well_formed d"
  shows "activity_log runId (run_log runId d)"
proof
  show "sorted_wrt (<) (map rav_sequence (run_log runId d))"
    by (simp only: log_numbered [OF assms] sorted_wrt_upt)
  show "distinct (map rav_id (run_log runId d))"
    using assms by (auto simp: well_formed_def numbered_def activity_key_def run_log_def run_rows_def
        mapActivity_columns o_def intro: distinct_map_filter)
  show "rav_runId e = runId" if "e \<in> set (run_log runId d)" for e
    using that by (auto simp: run_log_def run_rows_def mapActivity_columns)
qed

lemma log_sequences:
  assumes "well_formed d" "e \<in> set (run_log runId d)"
  shows "0 < rav_sequence e \<and> rav_sequence e \<le> length (run_log runId d)"
proof -
  have "rav_sequence e \<in> set (map rav_sequence (run_log runId d))" using assms(2) by simp
  then show ?thesis by (simp only: log_numbered [OF assms(1)]) auto
qed

lemma log_extends:
  assumes "extends d e"
  shows "Sublist.prefix (run_log runId d) (run_log runId e)"
proof -
  let ?view = "\<lambda>as. map mapActivity (filter (\<lambda>a. ra_run_id a = runId) as)"
  have fixed: "?view as = ?view (map activity_fixed as)" for as
    by (induction as) (simp_all add: activity_fixed_def mapActivity_def)
  obtain rest where "map activity_fixed (d_activities e) = map activity_fixed (d_activities d) @ rest"
    using assms by (auto simp: extends_def Sublist.prefix_def)
  then have "?view (d_activities e) = ?view (d_activities d) @ ?view rest"
    using fixed [of "d_activities e"] fixed [of "d_activities d"] by simp
  then show ?thesis by (simp add: run_log_def run_rows_def)
qed

lemma page_rows_take: "page_rows n rows = take n rows"
  by (simp add: page_rows_def fetch_def)

lemma latest_window:
  assumes "well_formed d"
  shows "latestActivityWindow runId 100 d =
    window_at (run_log runId d) (length (run_log runId d) - 100) (length (run_log runId d))"
proof -
  let ?rows = "run_rows runId d"
  have "sorted (map ra_sequence ?rows)"
    by (simp only: rows_numbered [OF assms] sorted_upt)
  then have sorted: "sort_key ra_sequence ?rows = ?rows"
    by (rule sort_key_id_if_sorted)
  have items: "map mapActivity (rev (page_rows 100 (rev ?rows))) = drop (length ?rows - 100) (run_log runId d)"
    by (simp add: page_rows_take run_log_def take_rev drop_map)
  have more: "has_more 100 (rev ?rows) \<longleftrightarrow> 0 < length ?rows - 100"
    by (auto simp: has_more_def fetch_def)
  have ends: "map_option rav_sequence (if xs = [] then None else Some (hd xs)) = first_sequence xs"
    "last_of rav_sequence xs = last_sequence xs" for xs
    by (simp_all add: first_sequence_def last_sequence_def last_of_def split: list.split)
  show ?thesis
    unfolding latestActivityWindow_def activity_window_of_def run_rows_def [symmetric] sorted Let_def
      items more ends
    by (simp add: window_at_def historyWindow_def run_log_def)
qed

lemma activity_rows_log:
  assumes "well_formed d"
  shows "map mapActivity (activity_rows runId after (Some before) d) =
    filter (\<lambda>e. after < rav_sequence e \<and> rav_sequence e < before) (run_log runId d)"
proof -
  have "filter (\<lambda>r. ra_run_id r = runId \<and> after < ra_sequence r \<and> ra_sequence r < before) (d_activities d) =
      filter (\<lambda>r. after < ra_sequence r \<and> ra_sequence r < before) (run_rows runId d)" (is "?l = ?r")
    by (simp add: run_rows_def conj_commute conj_left_commute)
  moreover have "sorted (map ra_sequence ?r)"
  proof (rule sorted_filter)
    show "sorted (map ra_sequence (run_rows runId d))"
      by (simp only: rows_numbered [OF assms] sorted_upt)
  qed
  ultimately show ?thesis
    by (simp add: activity_rows_def sort_key_id_if_sorted run_log_def filter_map o_def mapActivity_columns)
qed

section \<open>The requests of the browser\<close>

text \<open>
  \<open>readApiResponse\<close>: the body of a good answer, whose type the client takes for granted, or an
  \<open>ApiError\<close>. \<open>read_api\<close> is a \<open>fetch\<close> of a path with the headers a browser sends; the service goes on
  meanwhile, which is \<open>others\<close>.
\<close>

definition readApiResponse :: "(answer_body \<Rightarrow> 'a option) \<Rightarrow> http_answer \<Rightarrow> web_error + 'a" where
  "readApiResponse view response =
     (if 200 \<le> an_status response \<and> an_status response < 300 then
        (case view (an_body response) of None \<Rightarrow> Inl PlainError | Some x \<Rightarrow> Inr x)
      else
        Inl (ApiFailure
          (case an_body response of
             ErrorAnswer code details requestId \<Rightarrow>
               \<lparr>ae_status = int (an_status response), ae_code = code, ae_requestId = Some requestId\<rparr>
           | _ \<Rightarrow> \<lparr>ae_status = int (an_status response), ae_code = ''request_failed'', ae_requestId = None\<rparr>)))"

type_synonym headers = "(string \<times> header_value) list"

definition get_request :: "headers \<Rightarrow> string list \<Rightarrow> (string \<times> string) list \<Rightarrow> http_request" where
  "get_request headers segments parameters =
     \<lparr>rq_method = ''GET'',
      rq_target = Some \<lparr>qt_pathname = CHR ''/'' # join_with (CHR ''/'') segments, qt_segments = segments,
                        qt_query = parameters\<rparr>,
      rq_headers = headers, rq_body = \<lparr>qb_size = 0, qb_json = None\<rparr>\<rparr>"

record fetching =
  fe_env :: environment
  fe_headers :: headers
  fe_others :: "service \<Rightarrow> service"

type_synonym browser = "service \<times> run_projection option"

definition read_api ::
  "fetching \<Rightarrow> string list \<Rightarrow> (string \<times> string) list \<Rightarrow> (answer_body \<Rightarrow> 'a option) \<Rightarrow>
   (browser, web_error, 'a) op" where
  "read_api f segments parameters view = (\<lambda>(s, shown).
     case handle_request (fe_env f) (get_request (fe_headers f) segments parameters) (fe_others f s) of
       (response, t) \<Rightarrow> (readApiResponse view response, (t, shown)))"

definition run_path :: "ident \<Rightarrow> string list" where
  "run_path runId = [''api'', ''v1'', ''runs'', runId]"

definition read_run_api :: "fetching \<Rightarrow> ident \<Rightarrow> (browser, web_error, run_projection) op" where
  "read_run_api f runId =
     read_api f (run_path runId) [] (\<lambda>b. case b of RunAnswer p \<Rightarrow> Some p | _ \<Rightarrow> None)"

definition activity_parameters :: "activity_request \<Rightarrow> (string \<times> string) list" where
  "activity_parameters q =
     [(''beforeSequence'', show_nat (aq_beforeSequence q)), (''limit'', show_nat (aq_limit q))] @
     (case aq_afterSequence q of None \<Rightarrow> [] | Some a \<Rightarrow> [(''afterSequence'', show_nat a)])"

definition read_page_api :: "fetching \<Rightarrow> activity_request \<Rightarrow> (browser, web_error, activity_page) op" where
  "read_page_api f q =
     read_api f (run_path (aq_runId q) @ [''activity'']) (activity_parameters q)
       (\<lambda>b. case b of ActivityAnswer p \<Rightarrow> Some p | _ \<Rightarrow> None)"

section \<open>What these requests read\<close>

text \<open>They leave the database alone.\<close>

lemma frames_requires [frame_rules]:
  "frames g (requireRow c h)" "frames g (requirePrincipal i)" "frames g (requireRun i)"
  "frames g (requireProject i)" "frames g (requireAttention i)" "frames g (requireAgentForPrincipal i)"
  "frames g (requireActivation i)" "frames g (requireLiveActivation i)"
proof -
  show row: "frames g (requireRow c h)" for c and h :: "database \<Rightarrow> 'r option"
    unfolding requireRow_def by (intro frame_rules)
  show "frames g (requirePrincipal i)" "frames g (requireRun i)" "frames g (requireProject i)"
    "frames g (requireAttention i)" "frames g (requireAgentForPrincipal i)" "frames g (requireActivation i)"
    unfolding requirePrincipal_def requireRun_def requireActivation_def requireAttention_def
      requireAgentForPrincipal_def requireProject_def
    by (rule row)+
  then show "frames g (requireLiveActivation i)"
    unfolding requireLiveActivation_def by (intro frame_rules)
qed

lemma frames_scopes [frame_rules]:
  "frames (on_db g) (assertProjectAccess prin p)" "frames (on_db g) (activationScope a)"
  "frames (on_db g) (loadActivationScopeState a)" "frames (on_db g) (assertActivationScopeCurrent a)"
  "frames (on_db g) (resolvePrincipalReadScope prin cx p)"
  "frames (on_db g) (assertAgentQueryScope prin cx p root v)"
  "frames (on_db g) (query_run_access i prin cx)"
  unfolding query_run_access_def assertAgentQueryScope_def resolvePrincipalReadScope_def
    assertProjectAccess_def activationScope_def assertActivationScopeCurrent_def
    loadActivationScopeState_def
  by (intro frame_rules; fail)+

lemma frames_run_reads [frame_rules]:
  "frames (on_db g) (getRunProjection i)" "frames (on_db g) (listActivity i a n b)"
  "frames (on_db g) (boundedLimit l)"
proof -
  show "frames (on_db g) (boundedLimit l)"
    unfolding boundedLimit_def by (auto intro!: frame_rules split: option.split jsnum.split)
  have "frames (on_db g) (activity_bounds a b)"
    unfolding activity_bounds_def by (auto intro!: frame_rules split: option.split jsnum.split)
  then show "frames (on_db g) (listActivity i a n b)"
    unfolding listActivity_def Let_def by (intro frame_rules)
  show "frames (on_db g) (getRunProjection i)"
    unfolding getRunProjection_def by (intro frame_rules)
qed

lemma frames_outer [frame_rules]:
  "frames (on_db g) m \<Longrightarrow> frames (\<lambda>t. g (k_db (tk_context t))) (withDatabaseAccess m)"
  "frames (\<lambda>t. g (k_db (tk_context t))) n \<Longrightarrow> frames (\<lambda>s. g (service_db s)) (on_kernel n)"
proof -
  show "frames (\<lambda>t. g (k_db (tk_context t))) (withDatabaseAccess m)" if "frames (on_db g) m"
  proof -
    have "frames (\<lambda>t. g (k_db (tk_context t))) (on_context m)"
      using that by (auto simp: frames_def on_context_def on_db_def split: prod.split) (metis snd_conv)
    then show ?thesis
      unfolding withDatabaseAccess_def assertOpen_def by (intro frame_rules)
  qed
  show "frames (\<lambda>s. g (service_db s)) (on_kernel n)" if "frames (\<lambda>t. g (k_db (tk_context t))) n"
    using that by (auto simp: frames_def on_kernel_def service_db_def split: prod.split) (metis snd_conv)
qed

lemma frames_queryTransaction:
  "(\<And>prin. frames (on_db g) (query_body q prin cx)) \<Longrightarrow> frames (on_db g) (queryTransaction q cx)"
proof -
  have "frames (on_db g) (atomically m)" if "frames (on_db g) m" for m :: "query_result kop"
    using that by (auto simp: frames_def atomically_def on_db_def split: prod.split sum.split) (metis snd_conv)
  then show "(\<And>prin. frames (on_db g) (query_body q prin cx)) \<Longrightarrow> frames (on_db g) (queryTransaction q cx)"
    unfolding queryTransaction_def by (intro frame_rules) simp_all
qed

lemma frames_run_asks [frame_rules]:
  "frames (\<lambda>s. g (service_db s)) (ask (GetRunProjection i) cx view)"
  "frames (\<lambda>s. g (service_db s)) (ask (ListActivity i a b l) cx view)"
  unfolding ask_def query_kernel_def
  by (intro frame_rules frames_queryTransaction; simp add: query_body_def answer_def; intro frame_rules)+

lemma frames_parameters [frame_rules]: "frames g (optionalNumber url name)" "frames g (pageSize url)"
  unfolding optionalNumber_def pageSize_def optionalInteger_def boundedInteger_def
  by (auto intro!: frame_rules split: option.split jsnum.split)

lemma frames_run_query [frame_rules]: "frames (\<lambda>s. g (service_db s)) (run_query runId rest url cx)"
  unfolding run_query_def by (intro frame_rules)

text \<open>A request for a run: its authentication and its query.\<close>

definition answer_run ::
  "http_request \<Rightarrow> ident \<Rightarrow> string list \<Rightarrow> request_target \<Rightarrow> http_answer sop" where
  "answer_run request runId rest url =
     bindM (authenticate request) (\<lambda>au.
     bindM (run_query runId rest url (au_context au)) (\<lambda>found.
     bindM (needM (HttpError 404 ''not_found'') found) (\<lambda>body. ret (plain_answer 200 body))))"

lemma handle_run_request:
  "handle_request env (get_request headers (run_path runId @ rest) parameters) s =
     (case answer_run (get_request headers (run_path runId @ rest) parameters) runId rest
             (the (rq_target (get_request headers (run_path runId @ rest) parameters)))
             (s\<lparr>sv_drawn := Suc (sv_drawn s)\<rparr>) of
        (Inr reply, t) \<Rightarrow> (reply, t)
      | (Inl e, t) \<Rightarrow> (sendError (sv_uuid s (sv_drawn s)) e, t))"
proof -
  let ?request = "get_request headers (run_path runId @ rest) parameters"
  have "dispatch_request env request url (''runs'' # runId # rest) = (\<lambda>au.
      bindM (run_query runId rest url (au_context au)) (\<lambda>found.
      bindM (needM (HttpError 404 ''not_found'') found) (\<lambda>body. ret (plain_answer 200 body))))"
    if "rq_method request = ''GET''" for request url
    by (rule ext) (simp add: dispatch_request_def handleQuery_def that)
  then have "route env ?request (the (rq_target ?request)) =
      answer_run ?request runId rest (the (rq_target ?request))"
    by (simp add: route_def get_request_def run_path_def answer_run_def)
  moreover obtain url where "rq_target ?request = Some url"
    by (simp add: get_request_def)
  ultimately show ?thesis
    by (simp add: handle_request_def randomUUID_run bindM_run needM_run)
qed

lemma run_request_reads:
  "service_db (snd (handle_request env (get_request headers (run_path runId @ rest) parameters) s)) = service_db s"
proof -
  have "frames service_db (authenticate request)" for request
    unfolding service_db_def by (rule frames_comp [OF session_frames(6)])
  moreover have "frames service_db (run_query runId rest url cx)" for url cx
    by (rule frames_run_query [where g = "\<lambda>d. d"])
  ultimately have "frames service_db (answer_run request runId rest url)" for request url
    unfolding answer_run_def by (intro frame_rules)
  from frames_run [OF this] show ?thesis
    by (auto simp: handle_run_request service_db_def split: prod.split sum.split)
qed

text \<open>What an answer holds, in terms of the database after it, which is the one before it.\<close>

lemma wp_on_kernel:
  "wp (on_kernel m) Q E s =
   wp m (\<lambda>x t. Q x (s\<lparr>sv_kernel := t\<rparr>)) (\<lambda>e t. E (KernelFailure e) (s\<lparr>sv_kernel := t\<rparr>)) (sv_kernel s)"
  by (auto simp: wp_def on_kernel_run split: prod.split sum.split)

lemma wp_query_kernel:
  assumes "\<And>prin k. k_db k = k_db (tk_context t) \<Longrightarrow>
    wp (query_body q prin cx) (\<lambda>r k'. Q r (k_db k')) (\<lambda>_ _. True) k"
  shows "wp (query_kernel q cx) (\<lambda>r t. Q r (k_db (tk_context t))) (\<lambda>_ _. True) t"
proof -
  have "wp (atomically (query_body q prin cx)) (\<lambda>r k. Q r (k_db k)) (\<lambda>_ _. True) k"
    if "k_db k = k_db (tk_context t)" for prin k
    using assms [OF that, of prin] by (auto simp: wp_def atomically_run split: prod.splits sum.splits)
  then have "wp (queryTransaction q cx) (\<lambda>r k. Q r (k_db k)) (\<lambda>_ _. True) (tk_context t)"
    unfolding queryTransaction_def by (intro wp_intros) simp_all
  then show ?thesis
    by (auto simp: wp_def query_kernel_def withDatabaseAccess_def assertOpen_def run_simps on_context_run
        split: prod.splits sum.splits)
qed

lemma wp_ask:
  assumes "\<And>prin k. k_db k = service_db s \<Longrightarrow>
    wp (query_body q prin cx) (\<lambda>r k'. \<forall>x. view r = Some x \<longrightarrow> Q x (k_db k')) (\<lambda>_ _. True) k"
  shows "wp (ask q cx view) (\<lambda>x t. Q x (service_db t)) (\<lambda>_ _. True) s"
proof -
  have "wp (query_kernel q cx) (\<lambda>r t. \<forall>x. view r = Some x \<longrightarrow> Q x (k_db (tk_context t))) (\<lambda>_ _. True) (sv_kernel s)"
    using assms by (intro wp_query_kernel) (simp add: service_db_def)
  then show ?thesis
    unfolding ask_def wp_bindM wp_on_kernel
    by (rule wp_mono) (auto simp: wp_needM service_db_def split: option.split)
qed

lemma run_answered:
  "wp (run_query runId [] url cx)
     (\<lambda>found t. \<forall>p. found = Some (RunAnswer p) \<longrightarrow> rnv_id (rp_run p) = runId \<and>
        rp_activity p = latestActivityWindow runId 100 (service_db t)) (\<lambda>_ _. True) s"
proof -
  have "wp (getRunProjection runId) (\<lambda>p k'. rnv_id (rp_run p) = runId \<and>
      rp_activity p = latestActivityWindow runId 100 (k_db k')) (\<lambda>_ _. True) k" for k
    unfolding getRunProjection_def requireRun_def
    by (intro wp_intros) (auto simp: wp_simps mapRun_def dest: find_row_Some)
  then have "wp (query_body (GetRunProjection runId) prin cx)
      (\<lambda>r k'. \<forall>p. (case r of RunProjection p \<Rightarrow> Some p | _ \<Rightarrow> None) = Some p \<longrightarrow>
        rnv_id (rp_run p) = runId \<and> rp_activity p = latestActivityWindow runId 100 (k_db k')) (\<lambda>_ _. True) k" for prin k
    unfolding query_body_def answer_def
    by (simp, intro wp_intros wp_frame [OF frames_scopes(7) [where g = "\<lambda>d. d"]])
      (simp_all add: wp_ret)
  then show ?thesis
    unfolding run_query_def
    by (simp, intro wp_intros wp_ask [where Q = "\<lambda>p d. rnv_id (rp_run p) = runId \<and>
        rp_activity p = latestActivityWindow runId 100 d", THEN wp_mono]) auto
qed

definition page_of :: "activity_row list \<Rightarrow> activity_page" where
  "page_of rows =
     \<lparr>acp_items = map mapActivity (take 100 rows), acp_nextCursor = next_cursor 100 ra_sequence rows,
      acp_hasMore = has_more 100 rows\<rparr>"

lemma activity_parameters_read:
  assumes "qt_query url = activity_parameters (activityPath runId before (Some after))"
    "after < before" "int before \<le> MAX_SAFE_INTEGER"
  shows "optionalNumber url ''afterSequence'' = ret (Some (JInt (int after)))"
    "optionalNumber url ''beforeSequence'' = ret (Some (JInt (int before)))"
    "pageSize url = ret (Some (JInt 100))"
proof -
  have limit: "Number_of (show_nat 100) = JInt 100"
    using Number_of_show_nat [of 100] by (simp add: MAX_SAFE_INTEGER_def)
  have params: "param url ''afterSequence'' = Some (show_nat after)"
    "param url ''beforeSequence'' = Some (show_nat before)" "param url ''limit'' = Some (show_nat 100)"
    by (simp_all add: param_def assms(1) activity_parameters_def activityPath_def)
  show "optionalNumber url ''afterSequence'' = ret (Some (JInt (int after)))"
    "optionalNumber url ''beforeSequence'' = ret (Some (JInt (int before)))"
    using assms(2,3) by (simp_all add: optionalNumber_def optionalInteger_def params Number_of_show_nat)
  show "pageSize url = ret (Some (JInt 100))"
    by (rule ext) (simp add: pageSize_def optionalInteger_def boundedInteger_def params limit run_simps)
qed

lemma listActivity_between:
  assumes "after < before" "int before \<le> MAX_SAFE_INTEGER"
  shows "listActivity runId (Some (JInt (int after))) 100 (Some (JInt (int before))) k =
    (Inr (page_of (activity_rows runId after (Some before) (k_db k))), k)"
  using assms
  by (simp add: listActivity_def activity_bounds_def run_simps query_run page_of_def page_rows_take)

lemma page_answered:
  assumes "qt_query url = activity_parameters (activityPath runId before (Some after))"
    "after < before" "int before \<le> MAX_SAFE_INTEGER"
  shows "wp (run_query runId [''activity''] url cx)
     (\<lambda>found t. \<forall>p. found = Some (ActivityAnswer p) \<longrightarrow>
        p = page_of (activity_rows runId after (Some before) (service_db t))) (\<lambda>_ _. True) s"
proof -
  have "wp (query_body (ListActivity runId (Some (JInt (int after))) (Some (JInt (int before))) (Some (JInt 100))) prin cx)
      (\<lambda>r k'. \<forall>p. (case r of ActivityPage p \<Rightarrow> Some p | _ \<Rightarrow> None) = Some p \<longrightarrow>
        p = page_of (activity_rows runId after (Some before) (k_db k'))) (\<lambda>_ _. True) k" for prin k
    unfolding query_body_def answer_def
    by (simp, intro wp_intros wp_frame [OF frames_scopes(7) [where g = "\<lambda>d. d"]])
      (simp_all add: wp_simps asked_limit_def, simp_all add: wp_def listActivity_between assms)
  then show ?thesis
    unfolding run_query_def
    by (simp add: activity_parameters_read [OF assms], intro wp_intros
        wp_ask [where Q = "\<lambda>p d. p = page_of (activity_rows runId after (Some before) d)", THEN wp_mono]) auto
qed

lemma page_of_is_page:
  assumes "well_formed d"
  shows "is_page (run_log runId d) after before (page_of (activity_rows runId after (Some before) d))"
proof -
  note rows = activity_rows_log [OF assms, of runId after before]
  have "last_sequence (map mapActivity xs) = last_of ra_sequence xs" for xs
    by (simp add: last_sequence_def last_of_def last_map mapActivity_columns)
  then show ?thesis
    using arg_cong [OF rows, of length]
    by (auto simp: is_page_def Let_def page_of_def rows [symmetric] take_map next_cursor_def
        page_rows_take has_more_def fetch_def)
qed

section \<open>The kernel as the server of the activity log\<close>

text \<open>
  A browser reads the run \<open>runId\<close>. The kernel behind the service is well-formed and the run's activity
  is still numbered by integers JavaScript can hold; whatever else happens keeps it so.
\<close>

definition consistent_service :: "service \<Rightarrow> bool" where
  "consistent_service s \<longleftrightarrow> well_formed (service_db s) \<and> keys_ok (service_db s)"

definition numbers_fit :: "ident \<Rightarrow> service \<Rightarrow> bool" where
  "numbers_fit runId s \<longleftrightarrow> int (length (run_rows runId (service_db s))) \<le> MAX_SAFE_INTEGER"

definition others_step :: "ident \<Rightarrow> fetching \<Rightarrow> bool" where
  "others_step runId f \<longleftrightarrow>
     (\<forall>s. service_steps s (fe_others f s) \<and> (numbers_fit runId s \<longrightarrow> numbers_fit runId (fe_others f s)))"

definition reading_ok :: "ident \<Rightarrow> browser \<Rightarrow> bool" where
  "reading_ok runId w \<longleftrightarrow> consistent_service (fst w) \<and> numbers_fit runId (fst w)"

definition browser_log :: "ident \<Rightarrow> browser \<Rightarrow> activity_view list" where
  "browser_log runId w = run_log runId (service_db (fst w))"

lemma serves_grow:
  assumes "serves s t" "consistent_service s"
  shows "consistent_service t \<and> extends (service_db s) (service_db t)"
  using steps_sound(1) [of "sv_kernel s" "sv_kernel t"] assms
  by (auto simp: serves_def consistent_service_def service_db_def outer_advances_def advances_def)

lemma others_keep:
  assumes "others_step runId f" "reading_ok runId (s, shown)"
  shows "reading_ok runId (fe_others f s, shown)"
    "Sublist.prefix (browser_log runId (s, shown)) (browser_log runId (fe_others f s, shown))"
  using assms serves_grow [OF service_steps_serve, of s "fe_others f s"] log_extends
  by (auto simp: others_step_def reading_ok_def browser_log_def)

lemma read_api_keeps:
  assumes "others_step runId f" "reading_ok runId w"
    "read_api f (run_path i @ rest) parameters view w = (r, w')"
  shows "reading_ok runId w' \<and> Sublist.prefix (browser_log runId w) (browser_log runId w') \<and> snd w' = snd w"
proof -
  obtain s shown where w: "w = (s, shown)" by (cases w)
  obtain response t where run: "handle_request (fe_env f) (get_request (fe_headers f) (run_path i @ rest) parameters)
      (fe_others f s) = (response, t)" by fastforce
  then have w': "w' = (t, shown)"
    using assms(3) by (simp add: w read_api_def)
  have same: "service_db t = service_db (fe_others f s)"
    using run_request_reads [of "fe_env f" "fe_headers f" i rest parameters "fe_others f s"] run by simp
  show ?thesis
    using others_keep [OF assms(1), of s shown] assms(2) same
    by (simp add: w w' reading_ok_def consistent_service_def numbers_fit_def browser_log_def)
qed

text \<open>What a read returned is what its query found in the database the service is left with.\<close>

lemma read_api_returned:
  assumes "read_api f (run_path i @ rest) parameters view w = (Inr x, w')"
    "\<And>url cx s. qt_query url = parameters \<Longrightarrow>
      wp (run_query i rest url cx) (\<lambda>found t. \<forall>x. Option.bind found view = Some x \<longrightarrow> Q x (service_db t))
        (\<lambda>_ _. True) s"
    "\<And>code details requestId. view (ErrorAnswer code details requestId) = None"
  shows "Q x (service_db (fst w'))"
proof -
  let ?request = "get_request (fe_headers f) (run_path i @ rest) parameters"
  let ?s = "fe_others f (fst w)"
  obtain response t where run: "handle_request (fe_env f) ?request ?s = (response, t)" by fastforce
  have response: "200 \<le> an_status response" "an_status response < 300" "view (an_body response) = Some x"
    "fst w' = t"
    using assms(1) run
    by (auto simp: read_api_def readApiResponse_def split: prod.splits if_splits option.splits)
  have "view (an_body (sendError requestId e)) = None" for requestId e
    using assms(3) by (simp add: sendError_def error_answer_def split: http_error.split kerror.split)
  then obtain s' where "answer_run ?request i rest (the (rq_target ?request)) s' = (Inr response, t)"
    using run response(3) by (auto simp: handle_run_request split: prod.splits sum.splits)
  moreover have "wp (answer_run ?request i rest (the (rq_target ?request)))
      (\<lambda>r t. \<forall>x. view (an_body r) = Some x \<longrightarrow> Q x (service_db t)) (\<lambda>_ _. True) s'"
    unfolding answer_run_def
    by (intro wp_intros wp_any wp_mono [OF assms(2)])
      (auto simp: get_request_def plain_answer_def)
  ultimately show ?thesis
    using response(3,4) by (auto simp: wp_def)
qed

text \<open>What the client takes out of an answer.\<close>

lemma answer_views:
  "(case b of RunAnswer p \<Rightarrow> Some p | _ \<Rightarrow> None) = Some x \<longleftrightarrow> b = RunAnswer x"
  "(case b of ActivityAnswer p \<Rightarrow> Some p | _ \<Rightarrow> None) = Some y \<longleftrightarrow> b = ActivityAnswer y"
  by (cases b; simp; fail)+

lemma read_run_returned:
  assumes "read_run_api f runId w = (Inr run, w')"
  shows "rnv_id (rp_run run) = runId \<and>
    rp_activity run = latestActivityWindow runId 100 (service_db (fst w'))"
proof -
  let ?view = "\<lambda>b. case b of RunAnswer p \<Rightarrow> Some p | _ \<Rightarrow> None"
  have "read_api f (run_path runId @ []) [] ?view w = (Inr run, w')"
    using assms by (simp add: read_run_api_def)
  then show ?thesis
    by (rule read_api_returned [where Q = "\<lambda>p d. rnv_id (rp_run p) = runId \<and>
          rp_activity p = latestActivityWindow runId 100 d"])
      (auto intro!: wp_mono [OF run_answered] simp: Option.bind_eq_Some_conv answer_views)
qed

lemma read_page_returned:
  assumes "read_page_api f (activityPath runId before (Some after)) w = (Inr page, w')"
    "after < before" "int before \<le> MAX_SAFE_INTEGER"
  shows "page = page_of (activity_rows runId after (Some before) (service_db (fst w')))"
proof -
  let ?view = "\<lambda>b. case b of ActivityAnswer p \<Rightarrow> Some p | _ \<Rightarrow> None"
  have "read_api f (run_path runId @ [''activity''])
      (activity_parameters (activityPath runId before (Some after))) ?view w = (Inr page, w')"
    using assms by (simp add: read_page_api_def activityPath_def)
  then show ?thesis
    by (rule read_api_returned [where Q = "\<lambda>p d. p = page_of (activity_rows runId after (Some before) d)"])
      (auto intro!: wp_mono [OF page_answered [OF _ assms(2,3)]] simp: Option.bind_eq_Some_conv answer_views)
qed

lemma reads_keep:
  assumes "others_step runId f" "reading_ok runId w"
  shows "read_run_api f i w = (r, w') \<Longrightarrow> reading_ok runId w' \<and>
      Sublist.prefix (browser_log runId w) (browser_log runId w') \<and> snd w' = snd w"
    and "read_page_api f q w = (p, w') \<Longrightarrow> reading_ok runId w' \<and>
      Sublist.prefix (browser_log runId w) (browser_log runId w') \<and> snd w' = snd w"
  using read_api_keeps [OF assms, where i = i and rest = "[]"]
    read_api_keeps [OF assms, where i = "aq_runId q" and rest = "[''activity'']"]
  unfolding read_run_api_def read_page_api_def by (simp only: append_Nil2, blast)+

lemma kernel_serves:
  assumes "others_step runId f"
  shows "activity_server (reading_ok runId) (browser_log runId) snd (read_run_api f) (read_page_api f) runId"
proof (rule activity_server.intro)
  fix w r w'
  assume ok: "reading_ok runId w"
  then have wf: "well_formed (service_db (fst w))"
    by (simp add: reading_ok_def consistent_service_def)
  show "activity_log runId (browser_log runId w)"
    using run_log_is_log [OF wf] by (simp add: browser_log_def)
  show "0 < rav_sequence e \<and> int (rav_sequence e) \<le> MAX_SAFE_INTEGER" if "e \<in> set (browser_log runId w)" for e
    using log_sequences [OF wf] ok that
    by (fastforce simp: browser_log_def reading_ok_def numbers_fit_def run_log_def)
  show "reading_ok runId w' \<and> Sublist.prefix (browser_log runId w) (browser_log runId w') \<and> snd w' = snd w"
    if "read_run_api f runId w = (r, w')"
    by (rule reads_keep(1) [OF assms ok that])
next
  fix w q p w'
  assume ok: "reading_ok runId w" and page: "read_page_api f q w = (p, w')"
  show "reading_ok runId w' \<and> Sublist.prefix (browser_log runId w) (browser_log runId w') \<and> snd w' = snd w"
    by (rule reads_keep(2) [OF assms ok page])
next
  fix w run w'
  assume ok: "reading_ok runId w" and run: "read_run_api f runId w = (Inr run, w')"
  show "rnv_id (rp_run run) = runId \<and> rp_activity run =
      window_at (browser_log runId w') (length (browser_log runId w') - 100) (length (browser_log runId w'))"
    using read_run_returned [OF run] latest_window reads_keep(1) [OF assms ok run]
    by (simp add: reading_ok_def consistent_service_def browser_log_def)
next
  fix w after before page w'
  assume ok: "reading_ok runId w" and bounds: "(after :: nat) < before" "int before \<le> MAX_SAFE_INTEGER"
    and page: "read_page_api f (activityPath runId before (Some after)) w = (Inr page, w')"
  show "is_page (browser_log runId w') after before page"
    using page_of_is_page read_page_returned [OF page bounds] reads_keep(2) [OF assms ok page]
    by (simp add: reading_ok_def consistent_service_def browser_log_def)
qed

text \<open>
  The kernel behind the service, as the interface: the log of a run, and the server while the others
  only take steps of the service.
\<close>

interpretation kernel_log: activity_log runId "if well_formed d then run_log runId d else []"
  for runId d
  by (cases "well_formed d") (simp add: run_log_is_log, simp add: activity_log_def)

interpretation kernel_server: activity_server "\<lambda>w. others_step runId f \<and> reading_ok runId w"
    "browser_log runId" snd "read_run_api f" "read_page_api f" runId
  for runId f
proof (cases "others_step runId f")
  case True
  then show "activity_server (\<lambda>w. others_step runId f \<and> reading_ok runId w) (browser_log runId) snd
      (read_run_api f) (read_page_api f) runId"
    using kernel_serves by simp
qed (simp add: activity_server_def)

section \<open>Answers\<close>

text \<open>
  A browser that may read the run: its headers authenticate a principal that is no agent, the kernel
  is open, and the run and its project are there.
\<close>

definition readable :: "ident \<Rightarrow> principal_context \<Rightarrow> database \<Rightarrow> bool" where
  "readable runId context d \<longleftrightarrow>
     (case (find_row pr_id (pc_principalId context) (d_principals d), find_row rn_id runId (d_runs d)) of
        (Some p, Some run) \<Rightarrow> pr_kind p \<noteq> Agent \<and> find_row pj_id (rn_project_id run) (d_projects d) \<noteq> None
      | _ \<Rightarrow> False)"

definition may_read :: "ident \<Rightarrow> fetching \<Rightarrow> service \<Rightarrow> bool" where
  "may_read runId f s \<longleftrightarrow>
     \<not> tk_closed (sv_kernel s) \<and>
     (case fst (authenticate (get_request (fe_headers f) [] []) s) of
        Inl _ \<Rightarrow> False
      | Inr au \<Rightarrow> readable runId (au_context au) (service_db s))"

definition reading_view where
  "reading_view s =
     (service_db s, tk_closed (sv_kernel s), sv_sessions s, sv_credentials s, sv_now s)"

lemma authenticate_headers:
  "authenticate (get_request headers segments parameters) = authenticate (get_request headers [] [])"
  by (simp add: authenticate_def bearerToken_def cookieValue_def singleHeader_def get_request_def)

lemma pruned_again:
  "prune_sessions now (prune_sessions now s) = prune_sessions now s"
  by (simp add: prune_sessions_def cong: filter_cong)

text \<open>Authentication succeeds again once it has, whatever became of the kernel.\<close>

lemma authenticate_same:
  assumes "sv_credentials s = sv_credentials t" "sv_now s = sv_now t"
    "\<And>i. session_of i (prune_sessions (sv_now t) s) = session_of i (prune_sessions (sv_now t) t)"
  shows "fst (authenticate request s) = fst (authenticate request t)"
    and "authenticate request t = (Inr au, u) \<Longrightarrow> u = prune_sessions (sv_now t) t"
proof -
  obtain b where bearer: "bearerToken request v = (b, v)" for v
    using header_result(2) header_state(2) by (metis surj_pair fst_conv)
  obtain c where cookie: "cookieValue request ''torsor_session'' v = (c, v)" for v
    using header_result(3) header_state(3) by (metis surj_pair fst_conv)
  have now: "sv_now (prune_sessions n v) = sv_now v" for n v
    by (simp add: prune_sessions_def)
  show "fst (authenticate request s) = fst (authenticate request t)"
    unfolding authenticate_def pruneSessions_def
    by (cases b; cases c) (simp_all add: run_simps bearer cookie assms Let_def now cong: option.case_cong,
        simp_all add: run_simps split: option.split)
  show "u = prune_sessions (sv_now t) t" if "authenticate request t = (Inr au, u)"
    using that unfolding authenticate_def pruneSessions_def
    by (cases b; cases c) (auto simp: run_simps bearer cookie Let_def split: option.splits if_splits)
qed

lemma authenticate_again:
  assumes "reading_view t = reading_view (prune_sessions (sv_now s) s)"
  shows "fst (authenticate request t) = fst (authenticate request s)"
proof (rule authenticate_same(1))
  have same: "sv_sessions t = sv_sessions (prune_sessions (sv_now s) s)" "sv_credentials t = sv_credentials s"
    "sv_now t = sv_now s"
    using assms by (simp_all add: reading_view_def prune_sessions_def)
  then show "sv_credentials t = sv_credentials s" "sv_now t = sv_now s" by simp_all
  show "session_of i (prune_sessions (sv_now s) t) = session_of i (prune_sessions (sv_now s) s)" for i
    by (cases i) (simp_all add: session_of_def prune_sessions_def same(1) cong: filter_cong)
qed

text \<open>Reading leaves everything it depends on as it was, up to sessions that have expired.\<close>

lemma frames_ask_rest [frame_rules]:
  "frames (\<lambda>s. (tk_closed (sv_kernel s), sv_sessions s, sv_credentials s, sv_now s)) (ask q cx view)"
proof -
  have closed: "withDatabaseAccess m k = (r, k') \<Longrightarrow> tk_closed k' = tk_closed k"
    for m :: "query_result kop" and r k k'
    by (auto simp: withDatabaseAccess_def assertOpen_def run_simps on_context_run split: prod.splits if_splits)
  show ?thesis
    unfolding ask_def query_kernel_def
    by (intro frame_rules) (auto simp: frames_def on_kernel_run split: prod.split dest: closed)
qed

lemma frames_reading [frame_rules]: "frames reading_view (run_query runId rest url cx)"
proof -
  have "frames (\<lambda>s. (tk_closed (sv_kernel s), sv_sessions s, sv_credentials s, sv_now s))
      (run_query runId rest url cx)"
    unfolding run_query_def by (intro frame_rules)
  moreover have "frames service_db (run_query runId rest url cx)"
    by (rule frames_run_query [where g = "\<lambda>d. d"])
  ultimately show ?thesis
    by (auto simp: frames_def reading_view_def)
qed

lemma may_read_view:
  assumes "reading_view s = reading_view t"
  shows "may_read runId f s = may_read runId f t"
proof -
  have same: "sv_sessions s = sv_sessions t" "sv_credentials s = sv_credentials t" "sv_now s = sv_now t"
    using assms by (simp_all add: reading_view_def)
  have "session_of i (prune_sessions (sv_now t) s) = session_of i (prune_sessions (sv_now t) t)" for i
    by (cases i) (simp_all add: session_of_def prune_sessions_def same)
  from authenticate_same(1) [OF same(2,3) this] show ?thesis
    using assms by (simp add: may_read_def reading_view_def split: sum.split)
qed

lemma may_read_pruned: "may_read runId f (prune_sessions (sv_now s) s) = may_read runId f s"
  using authenticate_again [of "prune_sessions (sv_now s) s" s]
  by (simp add: may_read_def service_db_def prune_sessions_def split: sum.split)

lemma reading_keeps_access:
  assumes "may_read runId f s"
  shows "may_read runId f (snd (handle_request (fe_env f) (get_request (fe_headers f) (run_path i @ rest) parameters) s))"
proof -
  let ?request = "get_request (fe_headers f) (run_path i @ rest) parameters"
  let ?s = "s\<lparr>sv_drawn := Suc (sv_drawn s)\<rparr>"
  have may: "may_read runId f ?s"
    using assms may_read_view [of ?s s] by (simp add: reading_view_def service_db_def)
  then obtain au where au: "authenticate ?request ?s = (Inr au, prune_sessions (sv_now ?s) ?s)"
    using authenticate_same(2) [of ?s ?s ?request]
    by (cases "authenticate ?request ?s")
      (auto simp: may_read_def authenticate_headers [of _ "run_path i @ rest" parameters] split: sum.splits)
  obtain r t where run: "answer_run ?request i rest (the (rq_target ?request)) ?s = (r, t)" by fastforce
  have "wp (answer_run ?request i rest (the (rq_target ?request)))
      (\<lambda>_ t. reading_view t = reading_view (prune_sessions (sv_now ?s) ?s))
      (\<lambda>_ t. reading_view t = reading_view (prune_sessions (sv_now ?s) ?s)) ?s"
  proof -
    have "wp (bindM (run_query i rest url cx) (\<lambda>found.
        bindM (needM (HttpError 404 ''not_found'') found) (\<lambda>body. ret (plain_answer 200 body))))
      (\<lambda>_ t. reading_view t = reading_view u) (\<lambda>_ t. reading_view t = reading_view u) u" for url cx u
      by (intro wp_intros wp_frame [OF frames_reading]) simp_all
    then show ?thesis
      unfolding answer_run_def wp_bindM [of "authenticate _"] by (simp add: wp_def [of "authenticate _"] au)
  qed
  then have "reading_view t = reading_view (prune_sessions (sv_now ?s) ?s)"
    using run by (auto simp: wp_def split: sum.splits)
  then have "may_read runId f t"
    using may_read_view may_read_pruned may by metis
  then show ?thesis
    using run by (auto simp: handle_run_request split: sum.split)
qed

lemma readable_access:
  assumes "readable runId context (k_db k)" "find_row pr_id (pc_principalId context) (d_principals (k_db k)) = Some p"
  shows "query_run_access runId p context k = (Inr (), k)"
  using assms
  by (auto simp: readable_def query_run_access_def requireRun_def requireProject_def requireRow_def
      assertProjectAccess_def assertAgentQueryScope_def resolvePrincipalReadScope_def run_simps query_run
      split: option.splits)

lemma request_answered:
  assumes "may_read runId f s"
    "\<And>context p u. readable runId context (service_db s) \<Longrightarrow>
      find_row pr_id (pc_principalId context) (d_principals (service_db s)) = Some p \<Longrightarrow>
      service_db u = service_db s \<Longrightarrow> \<not> tk_closed (sv_kernel u) \<Longrightarrow>
      \<exists>x t. run_query runId rest (the (rq_target (get_request (fe_headers f) (run_path runId @ rest) parameters)))
        context u = (Inr (Some (wrap x)), t)"
  shows "\<exists>x t. handle_request (fe_env f) (get_request (fe_headers f) (run_path runId @ rest) parameters) s =
    (plain_answer 200 (wrap x), t)"
proof -
  let ?request = "get_request (fe_headers f) (run_path runId @ rest) parameters"
  let ?s = "s\<lparr>sv_drawn := Suc (sv_drawn s)\<rparr>"
  have "may_read runId f ?s"
    using assms may_read_view [of ?s s] by (simp add: reading_view_def service_db_def)
  then obtain au where au: "authenticate ?request ?s = (Inr au, prune_sessions (sv_now ?s) ?s)"
      "readable runId (au_context au) (service_db s)" "\<not> tk_closed (sv_kernel s)"
    using authenticate_same(2) [of ?s ?s ?request]
    by (cases "authenticate ?request ?s")
      (auto simp: may_read_def authenticate_headers [of _ "run_path runId @ _"] service_db_def split: sum.splits)
  then obtain p where "find_row pr_id (pc_principalId (au_context au)) (d_principals (service_db s)) = Some p"
    by (auto simp: readable_def split: option.splits)
  from assms(2) [OF au(2) this, of "prune_sessions (sv_now ?s) ?s"] obtain x t where
    "run_query runId rest (the (rq_target ?request)) (au_context au) (prune_sessions (sv_now ?s) ?s) =
      (Inr (Some (wrap x)), t)"
    using au(3) by (auto simp: service_db_def prune_sessions_def)
  then have "answer_run ?request runId rest (the (rq_target ?request)) ?s = (Inr (plain_answer 200 (wrap x)), t)"
    using au(1) by (simp add: answer_run_def run_simps)
  then show ?thesis by (auto simp: handle_run_request)
qed

lemma ask_run:
  assumes "\<not> tk_closed (sv_kernel u)" "find_row pr_id (pc_principalId context) (d_principals (service_db u)) = Some p"
    "query_body q p context (tk_context (sv_kernel u)) = (Inr r, k)" "view r = Some x"
  shows "\<exists>t. ask q context view u = (Inr x, t)"
  using assms
  by (simp add: ask_def query_kernel_def withDatabaseAccess_def assertOpen_def queryTransaction_def
      requirePrincipal_def requireRow_def run_simps on_context_run atomically_run query_run service_db_def)

lemma page_read:
  assumes "may_read runId f s" "after < before" "int before \<le> MAX_SAFE_INTEGER"
  shows "\<exists>page t. handle_request (fe_env f) (get_request (fe_headers f) (run_path runId @ [''activity''])
    (activity_parameters (activityPath runId before (Some after)))) s =
    (plain_answer 200 (ActivityAnswer page), t)"
proof (rule request_answered [OF assms(1)])
  fix cx p and u :: service
  let ?url = "the (rq_target (get_request (fe_headers f) (run_path runId @ [''activity''])
    (activity_parameters (activityPath runId before (Some after)))))"
  let ?q = "ListActivity runId (Some (JInt (int after))) (Some (JInt (int before))) (Some (JInt 100))"
  let ?k = "tk_context (sv_kernel u)"
  assume u: "readable runId cx (service_db s)"
    "find_row pr_id (pc_principalId cx) (d_principals (service_db s)) = Some p"
    "service_db u = service_db s" "\<not> tk_closed (sv_kernel u)"
  have url: "qt_query ?url = activity_parameters (activityPath runId before (Some after))"
    by (simp add: get_request_def)
  have "query_body ?q p cx ?k = (Inr (ActivityPage (page_of (activity_rows runId after (Some before) (k_db ?k)))), ?k)"
    using readable_access [of runId cx ?k p] u(1,2,3)
    by (simp add: query_body_def answer_def boundedLimit_def run_simps listActivity_between assms(2,3) service_db_def)
  then have "\<exists>t. ask ?q cx (\<lambda>r. case r of ActivityPage p \<Rightarrow> Some p | _ \<Rightarrow> None) u =
      (Inr (page_of (activity_rows runId after (Some before) (k_db ?k))), t)"
    by (rule ask_run [OF u(4), rotated]) (simp_all add: u(2,3))
  then show "\<exists>x t. run_query runId [''activity''] ?url cx u = (Inr (Some (ActivityAnswer x)), t)"
    by (auto simp: run_query_def activity_parameters_read [OF url assms(2,3)] run_simps)
qed

lemma run_read:
  assumes "may_read runId f s"
  shows "\<exists>run t. handle_request (fe_env f) (get_request (fe_headers f) (run_path runId @ []) []) s =
    (plain_answer 200 (RunAnswer run), t)"
proof (rule request_answered [OF assms])
  fix cx p and u :: service
  let ?k = "tk_context (sv_kernel u)"
  let ?url = "the (rq_target (get_request (fe_headers f) (run_path runId @ []) []))"
  assume u: "readable runId cx (service_db s)"
    "find_row pr_id (pc_principalId cx) (d_principals (service_db s)) = Some p"
    "service_db u = service_db s" "\<not> tk_closed (sv_kernel u)"
  have "\<exists>run. query_body (GetRunProjection runId) p cx ?k = (Inr (RunProjection run), ?k)"
    using readable_access [of runId cx ?k p] u(1,2,3)
    by (auto simp: query_body_def answer_def run_simps getRunProjection_def requireRun_def requireRow_def
        readable_def query_run service_db_def split: option.splits)
  then obtain run where "query_body (GetRunProjection runId) p cx ?k = (Inr (RunProjection run), ?k)" ..
  then have "\<exists>t. ask (GetRunProjection runId) cx (\<lambda>r. case r of RunProjection p \<Rightarrow> Some p | _ \<Rightarrow> None) u = (Inr run, t)"
    by (rule ask_run [OF u(4), rotated]) (simp_all add: u(2,3))
  then show "\<exists>x t. run_query runId [] ?url cx u = (Inr (Some (RunAnswer x)), t)"
    by (auto simp: run_query_def run_simps)
qed

section \<open>A server that answers\<close>

definition reading_answered :: "ident \<Rightarrow> fetching \<Rightarrow> browser \<Rightarrow> bool" where
  "reading_answered runId f w \<longleftrightarrow> reading_ok runId w \<and> may_read runId f (fst w)"

text \<open>Whatever else happens does not take the run, the session or the kernel away.\<close>

definition others_let_read :: "ident \<Rightarrow> fetching \<Rightarrow> bool" where
  "others_let_read runId f \<longleftrightarrow> (\<forall>s. may_read runId f s \<longrightarrow> may_read runId f (fe_others f s))"

lemma reading_keeps_answered:
  assumes "others_let_read runId f" "may_read runId f (fst w)"
  shows "read_run_api f i w = (r, w') \<Longrightarrow> may_read runId f (fst w')"
    and "read_page_api f q w = (p, w') \<Longrightarrow> may_read runId f (fst w')"
  using reading_keeps_access [of runId f "fe_others f (fst w)"] assms
  by (auto simp: read_run_api_def read_page_api_def read_api_def others_let_read_def
      split: prod.splits) (metis append_Nil2 snd_conv, metis snd_conv)

lemma kernel_answers:
  assumes "others_step runId f" "others_let_read runId f"
  shows "reliable_server (reading_answered runId f) (browser_log runId) snd (read_run_api f) (read_page_api f) runId"
proof (rule reliable_server.intro)
  note served = kernel_serves [OF assms(1)]
  show "activity_server (reading_answered runId f) (browser_log runId) snd (read_run_api f) (read_page_api f) runId"
  proof (rule activity_server.intro)
    fix w r w'
    assume ok: "reading_answered runId f w"
    then have "reading_ok runId w" and may: "may_read runId f (fst w)" by (simp_all add: reading_answered_def)
    note facts = activity_server.log_ok [OF served this(1)] activity_server.sequences [OF served this(1)]
      activity_server.run_keeps [OF served this(1)] activity_server.page_keeps [OF served this(1)]
      activity_server.run_window [OF served this(1)] activity_server.page_entries [OF served this(1)]
    show "activity_log runId (browser_log runId w)" by (rule facts(1))
    show "0 < rav_sequence e \<and> int (rav_sequence e) \<le> MAX_SAFE_INTEGER" if "e \<in> set (browser_log runId w)" for e
      by (rule facts(2) [OF that])
    show "reading_answered runId f w' \<and> Sublist.prefix (browser_log runId w) (browser_log runId w') \<and> snd w' = snd w"
      if "read_run_api f runId w = (r, w')"
      using facts(3) [OF that] reading_keeps_answered(1) [OF assms(2) may that] by (simp add: reading_answered_def)
    show "reading_answered runId f w' \<and> Sublist.prefix (browser_log runId w) (browser_log runId w') \<and> snd w' = snd w"
      if "read_page_api f q w = (p, w')" for q p
      using facts(4) [OF that] reading_keeps_answered(2) [OF assms(2) may that] by (simp add: reading_answered_def)
    show "rnv_id (rp_run run) = runId \<and> rp_activity run =
        window_at (browser_log runId w') (length (browser_log runId w') - 100) (length (browser_log runId w'))"
      if "read_run_api f runId w = (Inr run, w')" for run
      by (rule facts(5) [OF that])
    show "is_page (browser_log runId w') after before page"
      if "after < before" "int before \<le> MAX_SAFE_INTEGER"
        "read_page_api f (activityPath runId before (Some after)) w = (Inr page, w')" for after before page
      by (rule facts(6) [OF that])
  qed
  have "\<exists>page. fst (read_page_api f (activityPath runId before (Some after)) w) = Inr page"
    if "reading_answered runId f w" "after < before" "int before \<le> MAX_SAFE_INTEGER" for w after before
    using page_read [of runId f "fe_others f (fst w)" after before] that assms(2)
    by (auto simp: reading_answered_def others_let_read_def read_page_api_def read_api_def activityPath_def
        readApiResponse_def plain_answer_def split: prod.split)
  then show "reliable_server_axioms (reading_answered runId f) (read_page_api f) runId"
    by (rule reliable_server_axioms.intro)
qed

end
