(* ===== verification/CatchUp.thy ===== *)
theory CatchUp
  imports BrowserReads
begin

text \<open>
  The browser catching up on a run, end to end: the client's reading of a run with its history, the
  HTTP service that answers it, and the kernel's log of the run, whatever else happens meanwhile.
\<close>

section \<open>The kernel as the interface\<close>

text \<open>A service nobody else uses meanwhile: the interface, discharged by the kernel as it is.\<close>

lemma undisturbed: "others_step runId (f\<lparr>fe_others := \<lambda>s. s\<rparr>)" "others_let_read runId (f\<lparr>fe_others := \<lambda>s. s\<rparr>)"
  by (simp_all add: others_step_def others_let_read_def service_steps.refl)

interpretation alone: reliable_server "reading_answered runId (f\<lparr>fe_others := \<lambda>s. s\<rparr>)" "browser_log runId" snd
    "read_run_api (f\<lparr>fe_others := \<lambda>s. s\<rparr>)" "read_page_api (f\<lparr>fe_others := \<lambda>s. s\<rparr>)" runId
  for runId f
  by (rule kernel_answers) (rule undisturbed)+

text \<open>The activity of the samples: three entries, of which none is shown yet.\<close>

definition sample_activity :: "nat \<Rightarrow> activity_row" where
  "sample_activity n =
     \<lparr>ra_id = show_nat n, ra_run_id = ''run'', ra_activation_id = Some ''act'', ra_provider_attempt_id = None,
      ra_sequence = n, ra_kind = ''tool'', ra_payload = JObj [], ra_retention_class = Durable,
      ra_created_event_sequence = None, ra_created_at = 0\<rparr>"

definition sample_reading :: service where
  "sample_reading = sample_service
     \<lparr>sv_kernel := sample_object\<lparr>tk_context := context_on (sample_database
        \<lparr>d_runs := [sample_run\<lparr>rn_next_activity_sequence := 4\<rparr>],
         d_activities := map sample_activity [1, 2, 3]\<rparr>)\<rparr>\<rparr>"

definition sample_fetching :: fetching where
  "sample_fetching =
     \<lparr>fe_env = sample_environment, fe_headers = [(''cookie'', OneValue ''torsor_session=s'')],
      fe_others = (\<lambda>s. s)\<rparr>"

lemma sample_undisturbed: "others_step runId sample_fetching" "others_let_read runId sample_fetching"
  using undisturbed [of runId sample_fetching] by (simp_all add: sample_fetching_def)

lemma sample_answered: "reading_answered ''run'' sample_fetching (sample_reading, None)"
proof -
  have "well_formed (service_db sample_reading)" "keys_ok (service_db sample_reading)"
    "numbers_fit ''run'' sample_reading" "may_read ''run'' sample_fetching sample_reading"
    by code_simp+
  then show ?thesis
    by (simp add: reading_answered_def reading_ok_def consistent_service_def)
qed

lemma run_returned:
  assumes "others_let_read runId f" "reading_answered runId f w"
  shows "\<exists>run w'. read_run_api f runId w = (Inr run, w')"
proof -
  obtain run t where "handle_request (fe_env f) (get_request (fe_headers f) (run_path runId @ []) [])
      (fe_others f (fst w)) = (plain_answer 200 (RunAnswer run), t)"
    using run_read [of runId f "fe_others f (fst w)"] assms
    by (auto simp: others_let_read_def reading_answered_def)
  then have "read_run_api f runId w = (Inr run, (t, snd w))"
    by (cases w) (simp add: read_run_api_def read_api_def readApiResponse_def plain_answer_def)
  then show ?thesis by blast
qed

section \<open>The properties\<close>

text \<open>C17: Catching up leaves no gap. When the browser shows the entries of a run's activity from some
  position on, reading the run with its history gives it exactly the entries from there, or from
  the hundredth newest if that is earlier, to a position no earlier than the end of the log when
  it began: nothing missing, nothing twice, in order, with the flag for earlier entries right,
  whatever other clients and agents do to the service meanwhile. The read is one that returned and
  is still current at its end: the user has not turned to another run.\<close>

theorem catching_up_is_complete:
  assumes "others_step runId f" and "reading_ok runId w"
    and "case shown_activity runId (snd w) of
      None \<Rightarrow> True | Some a \<Rightarrow> covers (browser_log runId w) a k n"
    and "readRunWithHistory (read_run_api f) (read_page_api f) snd isCurrent runId w = (Inr p, w')"
    and "isCurrent w'"
  shows "reading_ok runId w' \<and> rnv_id (rp_run p) = runId \<and>
    Sublist.prefix (browser_log runId w) (browser_log runId w') \<and>
    (\<exists>l \<ge> length (browser_log runId w).
      covers (browser_log runId w') (rp_activity p)
        (if shown_activity runId (snd w) = None then l - 100 else min k (l - 100)) l)"
proof -
  note caught = kernel_server.catches_up [OF assms(4) conjI [OF assms(1,2)] assms(3,5)]
  then obtain l where l: "length (browser_log runId w) \<le> l" "l \<le> length (browser_log runId w')"
      "rp_activity p = window_at (browser_log runId w')
        (if shown_activity runId (snd w) = None then l - 100 else min k (l - 100)) l"
    by (auto simp: kernel_server.start_of_def)
  then have "covers (browser_log runId w') (rp_activity p)
      (if shown_activity runId (snd w) = None then l - 100 else min k (l - 100)) l"
    by (auto simp: covers_def)
  then show ?thesis using caught l(1) by blast
qed

lemma catching_up_is_complete_witness:
  "\<exists>p w' l. readRunWithHistory (read_run_api sample_fetching) (read_page_api sample_fetching) snd (\<lambda>_. True)
      ''run'' (sample_reading, None) = (Inr p, w') \<and>
    3 \<le> l \<and> covers (browser_log ''run'' w') (rp_activity p) (l - 100) l"
proof -
  let ?f = "sample_fetching" and ?w = "(sample_reading, None) :: browser"
  have unshown: "shown_activity ''run'' (snd ?w) = None" by (simp add: shown_activity_def)
  obtain run w1 where "read_run_api ?f ''run'' ?w = (Inr run, w1)"
    using run_returned [OF sample_undisturbed(2) sample_answered] by blast
  then obtain p w' where run: "readRunWithHistory (read_run_api ?f) (read_page_api ?f) snd (\<lambda>_. True) ''run'' ?w =
      (Inr p, w')"
    using reliable_server.history_returns [OF kernel_answers [OF sample_undisturbed] _ sample_answered] unshown
    by fastforce
  have "length (browser_log ''run'' ?w) = 3" by code_simp
  then show ?thesis
    using catching_up_is_complete [OF sample_undisturbed(1) _ _ run] sample_answered run
    by (auto simp: reading_answered_def shown_activity_def)
qed

text \<open>C39: Catching up succeeds: as long as the kernel stays open and the browser is allowed to read the
  run, reading the run with its history returns a projection, however much the run's activity has
  grown since the browser looked.\<close>

theorem catching_up_succeeds:
  assumes "others_step runId f" and "others_let_read runId f" and "reading_answered runId f w"
    and "case shown_activity runId (snd w) of
      None \<Rightarrow> True | Some a \<Rightarrow> covers (browser_log runId w) a k n"
  shows "\<exists>p w'. readRunWithHistory (read_run_api f) (read_page_api f) snd (\<lambda>_. True) runId w = (Inr p, w')"
proof -
  obtain run w1 where "read_run_api f runId w = (Inr run, w1)"
    using run_returned assms(2,3) by blast
  then show ?thesis
    by (rule reliable_server.history_returns [OF kernel_answers [OF assms(1,2)] _ assms(3,4)])
qed

lemma catching_up_succeeds_witness:
  "\<exists>p w'. readRunWithHistory (read_run_api sample_fetching) (read_page_api sample_fetching) snd (\<lambda>_. True)
     ''run'' (sample_reading, None) = (Inr p, w')"
  using catching_up_succeeds [OF sample_undisturbed sample_answered] by (simp add: shown_activity_def)

end
