(* ===== verification/ToolActivity.thy ===== *)
theory ToolActivity
  imports Values "HOL-Library.AList" "HOL-Library.Multiset"
begin

text \<open>
  The tool calls of a provider session (\<open>copilot-tool-activity.ts\<close>): the updates an agent process sends
  are untrusted; what becomes activity of a run is bounded, uses ids of its own, and reports every
  tool as started once and as ended at most once.
\<close>

section \<open>Updates\<close>

text \<open>
  A value of JavaScript as the adapter sees it: something that is no object, or an object with its
  own properties, each a value, which may be undefined, or an accessor, which is not called.
\<close>

datatype js_property = DataProperty "json option" | AccessorProperty

datatype js_update = NoObject | ObjectWith "(string \<times> js_property) list"

datatype tool_error = ProtocolViolation | OutputLimit

datatype tool_kind =
    ToolRead | ToolEdit | ToolDelete | ToolMove | ToolSearch | ToolExecute | ToolThink | ToolFetch
  | ToolSwitchMode | ToolOther

datatype tool_status = InProgress | ToolCompleted | ToolFailed

datatype tool_event_kind = ToolStartedEvent | ToolCompletedEvent | ToolFailedEvent

record tool_event =
  te_kind :: tool_event_kind
  te_toolCallId :: string
  te_toolKind :: tool_kind
  te_status :: tool_status

record tool_state =
  ts_publicId :: string
  ts_kind :: tool_kind
  ts_status :: tool_status

record tool_activity =
  ta_tools :: "(string \<times> tool_state) list"
  ta_maxToolCalls :: nat
  ta_maxToolUpdates :: nat
  ta_updates :: nat

type_synonym 'a tool_op = "(tool_activity, tool_error, 'a) op"

definition toolKinds :: "(string \<times> tool_kind) list" where
  "toolKinds =
     [(''read'', ToolRead), (''edit'', ToolEdit), (''delete'', ToolDelete), (''move'', ToolMove),
      (''search'', ToolSearch), (''execute'', ToolExecute), (''think'', ToolThink), (''fetch'', ToolFetch),
      (''switch_mode'', ToolSwitchMode), (''other'', ToolOther)]"

definition own_field :: "(string \<times> js_property) list \<Rightarrow> string \<Rightarrow> (json option) tool_op" where
  "own_field value key =
     (case map_of value key of
        None \<Rightarrow> ret None
      | Some AccessorProperty \<Rightarrow> raise ProtocolViolation
      | Some (DataProperty v) \<Rightarrow> ret v)"

definition normalizeKind :: "json \<Rightarrow> tool_kind" where
  "normalizeKind value =
     (case value of
        JStr t \<Rightarrow> (case map_of toolKinds t of None \<Rightarrow> ToolOther | Some k \<Rightarrow> k)
      | _ \<Rightarrow> ToolOther)"

definition normalizeStatus :: "json \<Rightarrow> tool_status tool_op" where
  "normalizeStatus value =
     (if value = JStr ''pending'' \<or> value = JStr ''in_progress'' then ret InProgress
      else if value = JStr ''completed'' then ret ToolCompleted
      else if value = JStr ''failed'' then ret ToolFailed
      else raise ProtocolViolation)"

definition tool_event_of :: "tool_state \<Rightarrow> tool_status \<Rightarrow> tool_event" where
  "tool_event_of state status =
     \<lparr>te_kind = (case status of InProgress \<Rightarrow> ToolStartedEvent | ToolCompleted \<Rightarrow> ToolCompletedEvent
                 | ToolFailed \<Rightarrow> ToolFailedEvent),
      te_toolCallId = ts_publicId state, te_toolKind = ts_kind state, te_status = status\<rparr>"

section \<open>The activity\<close>

text \<open>The constructor; the limits are integers of JavaScript.\<close>

definition newToolActivity :: "jsnum \<Rightarrow> jsnum \<Rightarrow> tool_error + tool_activity" where
  "newToolActivity maxToolCalls maxToolUpdates =
     (case (maxToolCalls, maxToolUpdates) of
        (JInt calls, JInt updates) \<Rightarrow>
          if calls < 1 \<or> calls > 128 \<or> updates < 1 \<or> updates > 512 then Inl ProtocolViolation
          else Inr \<lparr>ta_tools = [], ta_maxToolCalls = nat calls, ta_maxToolUpdates = nat updates,
                    ta_updates = 0\<rparr>
      | _ \<Rightarrow> Inl ProtocolViolation)"

definition assertComplete :: "unit tool_op" where
  "assertComplete =
     bindM (gets ta_tools) (\<lambda>tools.
     guardM (list_all (\<lambda>(_, state). ts_status state \<noteq> InProgress) tools) ProtocolViolation)"

text \<open>Its id, when it is one.\<close>

definition raw_id :: "json option \<Rightarrow> string tool_op" where
  "raw_id value =
     (case value of
        Some (JStr t) \<Rightarrow> if t = [] \<or> length t > 256 then raise ProtocolViolation else ret t
      | _ \<Rightarrow> raise ProtocolViolation)"

text \<open>The tool as the update leaves it, and the events this makes.\<close>

definition record_tool ::
  "string \<Rightarrow> tool_state option \<Rightarrow> tool_kind \<Rightarrow> tool_status \<Rightarrow> (tool_event list) tool_op" where
  "record_tool rawId previous kind status =
     bindM (gets ta_tools) (\<lambda>tools.
     let state =
       \<lparr>ts_publicId = (case previous of Some p \<Rightarrow> ts_publicId p
                       | None \<Rightarrow> ''tool-'' @ show_nat (length tools + 1)),
        ts_kind = kind, ts_status = status\<rparr> in
     seqM (modify (ta_tools_update (AList.update rawId state)))
          (ret ((if previous = None then [tool_event_of state InProgress] else []) @
                (if status \<noteq> InProgress then [tool_event_of state status] else []))))"

definition accept_call :: "(string \<times> js_property) list \<Rightarrow> bool \<Rightarrow> (tool_event list) tool_op" where
  "accept_call update isUpdate =
     bindM (own_field update ''toolCallId'') (\<lambda>rawIdValue.
     bindM (raw_id rawIdValue) (\<lambda>rawId.
     bindM (gets (\<lambda>a. map_of (ta_tools a) rawId)) (\<lambda>previous.
     seqM (guardM (\<not> (previous = None \<and> isUpdate)) ProtocolViolation)
    (bindM (gets (\<lambda>a. length (ta_tools a) \<ge> ta_maxToolCalls a)) (\<lambda>full.
     seqM (guardM (\<not> (previous = None \<and> full)) OutputLimit)
    (bindM (own_field update ''status'') (\<lambda>rawStatus.
     bindM (case rawStatus of
              None \<Rightarrow> ret (case previous of None \<Rightarrow> InProgress | Some p \<Rightarrow> ts_status p)
            | Some v \<Rightarrow> normalizeStatus v) (\<lambda>status.
     bindM (own_field update ''kind'') (\<lambda>rawKind.
     let kind = (case rawKind of
           None \<Rightarrow> (case previous of None \<Rightarrow> ToolOther | Some p \<Rightarrow> ts_kind p)
         | Some v \<Rightarrow> normalizeKind v) in
     case previous of
       Some p \<Rightarrow>
         if ts_status p \<noteq> InProgress then
           seqM (guardM (status = ts_status p \<and> kind = ts_kind p) ProtocolViolation) (ret [])
         else record_tool rawId previous kind status
     | None \<Rightarrow> record_tool rawId previous kind status)))))))))"

definition accept :: "js_update \<Rightarrow> (tool_event list) tool_op" where
  "accept value =
     (case value of
        NoObject \<Rightarrow> ret []
      | ObjectWith update \<Rightarrow>
          bindM (own_field update ''sessionUpdate'') (\<lambda>updateType.
          if updateType \<noteq> Some (JStr ''tool_call'') \<and> updateType \<noteq> Some (JStr ''tool_call_update'') then ret []
          else
            bindM (gets (\<lambda>a. ta_updates a \<ge> ta_maxToolUpdates a)) (\<lambda>spent.
            seqM (guardM (\<not> spent) OutputLimit)
           (seqM (modify (\<lambda>a. a\<lparr>ta_updates := ta_updates a + 1\<rparr>))
                 (accept_call update (updateType = Some (JStr ''tool_call_update'')))))))"

section \<open>What a session reports\<close>

text \<open>
  The updates of a session one after another, with every event reported so far. An update that is
  refused reports nothing; the session goes on with the state it left, which covers a caller
  that stops at the first refusal.
\<close>

fun session :: "tool_activity \<Rightarrow> js_update list \<Rightarrow> tool_event list \<times> tool_activity" where
  "session a [] = ([], a)"
| "session a (u # us) =
     (case accept u a of
        (r, b) \<Rightarrow> (case session b us of
          (events, c) \<Rightarrow> ((case r of Inl _ \<Rightarrow> [] | Inr es \<Rightarrow> es) @ events, c)))"

definition started :: "tool_event list \<Rightarrow> string list" where
  "started events = map te_toolCallId (filter (\<lambda>e. te_kind e = ToolStartedEvent) events)"

definition ended :: "tool_event list \<Rightarrow> string list" where
  "ended events = map te_toolCallId (filter (\<lambda>e. te_kind e \<noteq> ToolStartedEvent) events)"

definition tool_ids :: "nat \<Rightarrow> string list" where
  "tool_ids n = map (\<lambda>i. ''tool-'' @ show_nat (i + 1)) [0..<n]"

text \<open>At no moment has a tool ended that has not been reported as started.\<close>

definition in_order :: "tool_event list \<Rightarrow> bool" where
  "in_order events \<longleftrightarrow> (\<forall>k \<le> length events. set (ended (take k events)) \<subseteq> set (started (take k events)))"

lemma in_order_snoc:
  "in_order (events @ [e]) \<longleftrightarrow>
     in_order events \<and> set (ended (events @ [e])) \<subseteq> set (started (events @ [e]))"
  unfolding in_order_def by (auto simp: le_Suc_eq)

lemma in_order_event:
  "in_order events \<Longrightarrow> te_kind e = ToolStartedEvent \<or> te_toolCallId e \<in> set (started events) \<Longrightarrow>
   in_order (events @ [e])"
proof -
  assume order: "in_order events" and e: "te_kind e = ToolStartedEvent \<or> te_toolCallId e \<in> set (started events)"
  have "set (ended events) \<subseteq> set (started events)"
    using order unfolding in_order_def by (metis order_refl take_all)
  with order e show ?thesis
    unfolding in_order_snoc by (auto simp: started_def ended_def)
qed

text \<open>What the state and the events reported so far have to do with each other.\<close>

definition reported :: "tool_event list \<Rightarrow> tool_activity \<Rightarrow> bool" where
  "reported events a \<longleftrightarrow>
     length (ta_tools a) \<le> ta_maxToolCalls a \<and> ta_updates a \<le> ta_maxToolUpdates a \<and>
     distinct (map fst (ta_tools a)) \<and>
     map (ts_publicId \<circ> snd) (ta_tools a) = tool_ids (length (ta_tools a)) \<and>
     started events = tool_ids (length (ta_tools a)) \<and> in_order events \<and>
     mset (ended events) =
       mset (map (ts_publicId \<circ> snd) (filter (\<lambda>(_, t). ts_status t \<noteq> InProgress) (ta_tools a)))"

lemma update_absent: "k \<notin> fst ` set al \<Longrightarrow> AList.update k v al = al @ [(k, v)]"
  by (induction al) auto

lemma update_between:
  "k \<notin> fst ` set xs \<Longrightarrow> AList.update k v (xs @ (k, p) # ys) = xs @ (k, v) # ys"
  by (induction xs) auto

lemma reported_new:
  assumes "reported events a" "rawId \<notin> fst ` set (ta_tools a)" "length (ta_tools a) < ta_maxToolCalls a"
    "state = \<lparr>ts_publicId = ''tool-'' @ show_nat (length (ta_tools a) + 1), ts_kind = kind, ts_status = status\<rparr>"
  shows "reported (events @ [tool_event_of state InProgress] @
      (if status \<noteq> InProgress then [tool_event_of state status] else []))
    (ta_tools_update (AList.update rawId state) a)"
proof -
  have "in_order (events @ [tool_event_of state InProgress] @
      (if status \<noteq> InProgress then [tool_event_of state status] else []))"
    using in_order_event [of events "tool_event_of state InProgress"]
      in_order_event [of "events @ [tool_event_of state InProgress]" "tool_event_of state status"] assms(1)
    by (auto simp: reported_def tool_event_of_def started_def)
  then show ?thesis
    using assms
    by (cases status) (auto simp: reported_def update_absent started_def ended_def tool_ids_def tool_event_of_def)
qed

lemma reported_update:
  assumes "reported events a" "map_of (ta_tools a) rawId = Some p" "ts_status p = InProgress"
    "state = \<lparr>ts_publicId = ts_publicId p, ts_kind = kind, ts_status = status\<rparr>"
  shows "reported (events @ (if status \<noteq> InProgress then [tool_event_of state status] else []))
    (ta_tools_update (AList.update rawId state) a)"
proof -
  obtain xs ys where tools: "ta_tools a = xs @ (rawId, p) # ys"
    using assms(2) by (meson map_of_SomeD split_list)
  then have "rawId \<notin> fst ` set xs"
    using assms(1) by (auto simp: reported_def)
  note between = update_between [OF this]
  have "ts_publicId p \<in> set (map (ts_publicId \<circ> snd) (ta_tools a))"
    by (simp add: tools)
  then have "ts_publicId p \<in> set (started events)"
    using assms(1) by (simp only: reported_def)
  then have "in_order (events @ (if status \<noteq> InProgress then [tool_event_of state status] else []))"
    using in_order_event [of events "tool_event_of state status"] assms(1,4)
    by (simp add: reported_def tool_event_of_def)
  with between show ?thesis
    using assms(1,3,4) tools
    by (cases status) (auto simp: reported_def started_def ended_def tool_event_of_def)
qed

text \<open>An update keeps what was reported in step with the tools, whether it is accepted or refused.\<close>

definition reports :: "tool_event list \<Rightarrow> tool_activity \<Rightarrow> tool_activity \<Rightarrow> bool" where
  "reports events a b \<longleftrightarrow>
     reported events b \<and> ta_maxToolCalls b = ta_maxToolCalls a \<and> ta_maxToolUpdates b = ta_maxToolUpdates a"

lemma wp_reads_update [wp_intros]:
  "(\<And>v. Q v a) \<Longrightarrow> (\<And>e. E e a) \<Longrightarrow> wp (own_field update key) Q E a"
  "(\<And>t. Q' t a) \<Longrightarrow> (\<And>e. E e a) \<Longrightarrow> wp (raw_id v) Q' E a"
  "(\<And>st. Q'' st a) \<Longrightarrow> (\<And>e. E e a) \<Longrightarrow> wp (normalizeStatus j) Q'' E a"
  unfolding own_field_def raw_id_def normalizeStatus_def
  by (auto split: option.split js_property.split json.split simp: wp_simps)

lemma record_tool_reports:
  assumes "reported events a" "map_of (ta_tools a) rawId = previous"
    "previous = None \<Longrightarrow> length (ta_tools a) < ta_maxToolCalls a"
    "\<And>p. previous = Some p \<Longrightarrow> ts_status p = InProgress"
  shows "wp (record_tool rawId previous kind status) (\<lambda>es b. reports (events @ es) a b) (\<lambda>_ _. False) a"
proof (cases previous)
  case None
  then have "rawId \<notin> fst ` set (ta_tools a)"
    using assms(2) by (simp add: map_of_eq_None_iff)
  then show ?thesis
    using reported_new [OF assms(1) _ assms(3) refl, of rawId kind status] None
    by (cases status) (simp_all add: record_tool_def wp_simps Let_def reports_def)
next
  case (Some p)
  then show ?thesis
    using reported_update [OF assms(1), of rawId p _ kind status] assms(2,4)
    by (cases status) (simp_all add: record_tool_def wp_simps Let_def reports_def)
qed

lemma accept_call_reports:
  assumes "reported events a"
  shows "wp (accept_call update isUpdate) (\<lambda>es b. reports (events @ es) a b) (\<lambda>_ b. reports events a b) a"
proof -
  have refl: "reports events a a" using assms by (simp add: reports_def)
  have recorded: "wp (record_tool rawId previous kind status) (\<lambda>es b. reports (events @ es) a b)
      (\<lambda>_ b. reports events a b) a"
    if "map_of (ta_tools a) rawId = previous" "previous = None \<Longrightarrow> length (ta_tools a) < ta_maxToolCalls a"
      "\<And>p. previous = Some p \<Longrightarrow> ts_status p = InProgress" for rawId previous kind status
    by (rule wp_mono [OF record_tool_reports [OF assms that]]) simp_all
  show ?thesis
    unfolding accept_call_def Let_def
    by (intro wp_intros wp_intro_gets) (auto simp: refl wp_simps intro!: recorded wp_intros split: option.split)
qed

lemma accept_reports:
  assumes "reported events a"
  shows "wp (accept u) (\<lambda>es b. reports (events @ es) a b) (\<lambda>_ b. reports events a b) a"
proof -
  have refl: "reports events a a" using assms by (simp add: reports_def)
  have call: "wp (accept_call update isUpdate) (\<lambda>es b. reports (events @ es) a b) (\<lambda>_ b. reports events a b)
      (a\<lparr>ta_updates := Suc (ta_updates a)\<rparr>)"
    if "ta_updates a < ta_maxToolUpdates a" for update isUpdate
    by (rule wp_mono [OF accept_call_reports [of events]])
       (use assms that in \<open>auto simp: reports_def reported_def\<close>)
  show ?thesis
  proof (cases u)
    case (ObjectWith update)
    then show ?thesis
      unfolding accept_def
      by (simp split del: if_split) (intro wp_intros wp_intro_gets wp_intro_modify; simp add: refl call)
  qed (simp add: accept_def wp_simps refl)
qed

text \<open>So every event of a session is in step with the tools the session ends with.\<close>

lemma session_reported:
  "reported events a \<Longrightarrow> session a us = (new, b) \<Longrightarrow> reports (events @ new) a b"
proof (induction us arbitrary: events a new)
  case Nil
  then show ?case by (simp add: reports_def)
next
  case (Cons u us)
  obtain r a' where step: "accept u a = (r, a')" by fastforce
  obtain rest c where goes_on: "session a' us = (rest, c)" by fastforce
  have new: "new = (case r of Inl _ \<Rightarrow> [] | Inr es \<Rightarrow> es) @ rest" "c = b"
    using Cons.prems(2) step goes_on by auto
  have "reports (events @ (case r of Inl _ \<Rightarrow> [] | Inr es \<Rightarrow> es)) a a'"
    using accept_reports [OF Cons.prems(1), of u] step by (auto simp: wp_def split: sum.splits)
  moreover from this have "reports ((events @ (case r of Inl _ \<Rightarrow> [] | Inr es \<Rightarrow> es)) @ rest) a' b"
    by (intro Cons.IH) (use goes_on new(2) in \<open>simp_all add: reports_def\<close>)
  ultimately show ?case
    by (simp add: reports_def new)
qed

lemma new_reported:
  assumes "newToolActivity maxToolCalls maxToolUpdates = Inr a"
  shows "reported [] a" "ta_maxToolCalls a \<le> 128" "ta_maxToolUpdates a \<le> 512"
  using assms by (auto simp: newToolActivity_def reported_def started_def ended_def tool_ids_def in_order_def
    split: jsnum.splits if_splits)

lemma digit_injective: "m < 10 \<Longrightarrow> n < 10 \<Longrightarrow> char_of (48 + m) = (char_of (48 + n) :: char) \<Longrightarrow> m = (n :: nat)"
  by (drule arg_cong [where f = "of_char :: char \<Rightarrow> nat"]) simp

lemma show_nat_injective: "show_nat m = show_nat n \<Longrightarrow> m = n"
proof (induction m arbitrary: n rule: show_nat.induct)
  case (1 m)
  have nonempty: "show_nat k \<noteq> []" for k by (simp add: show_nat.simps [of k])
  show ?case
  proof (cases "m < 10 \<or> n < 10")
    case True
    then show ?thesis
      using 1(2) nonempty [of "m div 10"] nonempty [of "n div 10"] digit_injective [of m n]
      by (auto simp: show_nat.simps [of m] show_nat.simps [of n] split: if_splits)
  next
    case False
    then have "m div 10 = n div 10" "m mod 10 = n mod 10"
      using 1 digit_injective [of "m mod 10" "n mod 10"]
      by (auto simp: show_nat.simps [of m] show_nat.simps [of n])
    then show ?thesis by (metis div_mult_mod_eq)
  qed
qed

lemma tool_ids_distinct: "distinct (tool_ids n)"
  by (auto simp: tool_ids_def distinct_map inj_on_def dest: show_nat_injective)

lemma complete_ended:
  assumes "reported events a"
  shows "fst (assertComplete a) = Inr () \<longleftrightarrow> set (started events) = set (ended events)"
proof -
  let ?id = "ts_publicId \<circ> snd" and ?over = "\<lambda>(_, t). ts_status t \<noteq> InProgress"
  have ids: "set (started events) = ?id ` set (ta_tools a)" "inj_on ?id (set (ta_tools a))"
    using assms tool_ids_distinct [of "length (ta_tools a)"] unfolding reported_def
    by (metis set_map, metis distinct_map)
  have "set_mset (mset (ended events)) = ?id ` set (filter ?over (ta_tools a))"
    using assms unfolding reported_def by simp
  then have ended: "set (ended events) = ?id ` set (filter ?over (ta_tools a))"
    by (simp only: set_mset_mset)
  have "set (started events) = set (ended events) \<longleftrightarrow> set (ta_tools a) = set (filter ?over (ta_tools a))"
    unfolding ids(1) ended by (rule inj_on_image_eq_iff [OF ids(2)]) auto
  then show ?thesis
    by (auto simp: assertComplete_def bindM_def gets_def guardM_def ret_def raise_def list_all_iff)
qed

lemma reported_ended:
  assumes "reported events a"
  shows "distinct (ended events)" "length events \<le> 2 * length (ta_tools a)"
proof -
  let ?id = "ts_publicId \<circ> snd" and ?over = "\<lambda>(_, t). ts_status t \<noteq> InProgress"
  have ended: "mset (ended events) = mset (map ?id (filter ?over (ta_tools a)))"
    using assms unfolding reported_def by blast
  have "distinct (map ?id (ta_tools a))"
    using assms tool_ids_distinct unfolding reported_def by metis
  then have "distinct (map ?id (filter ?over (ta_tools a)))"
    by (rule distinct_map_filter)
  then show "distinct (ended events)"
    using ended by (rule mset_eq_imp_distinct_iff [THEN iffD2, rotated])
  have "length (ended events) \<le> length (ta_tools a)" "length (started events) = length (ta_tools a)"
    using assms mset_eq_length [OF ended] by (simp_all add: reported_def tool_ids_def)
  moreover have "length events = length (started events) + length (ended events)"
    unfolding started_def ended_def by (simp add: sum_length_filter_compl)
  ultimately show "length events \<le> 2 * length (ta_tools a)" by simp
qed

text \<open>C37: A session of at most 128 tool calls and 512 updates, whatever the agent sends: the tools it reports
  as started are \<open>tool-1\<close> to \<open>tool-n\<close>, in this order and each once, where \<open>n\<close> is at most the limit the
  adapter set; every one of them is reported as ended at most once, and never before it started; and
  the session is complete exactly when all of them have ended.
\<close>

theorem tool_reports_are_bounded:
  assumes "newToolActivity maxToolCalls maxToolUpdates = Inr a" "session a updates = (events, b)"
  shows "\<exists>n \<le> ta_maxToolCalls a. n \<le> 128 \<and> JInt (int (ta_maxToolCalls a)) = maxToolCalls \<and>
      length events \<le> 2 * n \<and> ta_updates b \<le> 512 \<and>
      started events = tool_ids n \<and> distinct (started events) \<and> distinct (ended events) \<and>
      in_order events \<and>
      (fst (assertComplete b) = Inr () \<longleftrightarrow> set (started events) = set (ended events))"
proof (intro exI conjI)
  have r: "reported events b" and limits: "ta_maxToolCalls b = ta_maxToolCalls a" "ta_maxToolUpdates b = ta_maxToolUpdates a"
    using session_reported [OF new_reported(1) [OF assms(1)] assms(2)] by (simp_all add: reports_def)
  let ?n = "length (ta_tools b)"
  show "?n \<le> ta_maxToolCalls a" "started events = tool_ids ?n" "in_order events"
    using r limits by (simp_all add: reported_def)
  then show "?n \<le> 128"
    using new_reported(2) [OF assms(1)] by simp
  show "JInt (int (ta_maxToolCalls a)) = maxToolCalls"
    using assms(1) by (auto simp: newToolActivity_def split: jsnum.splits if_splits)
  show "ta_updates b \<le> 512"
    using r limits new_reported(3) [OF assms(1)] by (simp add: reported_def)
  show "distinct (started events)"
    using r tool_ids_distinct by (simp add: reported_def)
  show "fst (assertComplete b) = Inr () \<longleftrightarrow> set (started events) = set (ended events)"
    by (rule complete_ended [OF r])
  show "distinct (ended events)" "length events \<le> 2 * ?n"
    using reported_ended [OF r] by simp_all
qed

text \<open>Two tools, one of them over; the agent's own ids do not show.\<close>

definition sample_updates :: "js_update list" where
  "sample_updates =
     [ObjectWith [(''sessionUpdate'', DataProperty (Some (JStr ''tool_call''))),
        (''toolCallId'', DataProperty (Some (JStr ''call-a''))), (''kind'', DataProperty (Some (JStr ''read'')))],
      NoObject,
      ObjectWith [(''sessionUpdate'', DataProperty (Some (JStr ''tool_call_update''))),
        (''toolCallId'', DataProperty (Some (JStr ''call-a''))), (''status'', DataProperty (Some (JStr ''completed'')))],
      ObjectWith [(''sessionUpdate'', DataProperty (Some (JStr ''tool_call''))),
        (''toolCallId'', DataProperty (Some (JStr ''call-b''))), (''kind'', AccessorProperty)],
      ObjectWith [(''sessionUpdate'', DataProperty (Some (JStr ''tool_call''))),
        (''toolCallId'', DataProperty (Some (JStr ''call-b''))), (''status'', DataProperty (Some (JStr ''pending'')))]]"

lemma tool_reports_are_bounded_witness:
  "\<exists>a events b. newToolActivity (JInt 2) (JInt 5) = Inr a \<and> session a sample_updates = (events, b) \<and>
     map te_kind events = [ToolStartedEvent, ToolCompletedEvent, ToolStartedEvent] \<and>
     started events = [''tool-1'', ''tool-2''] \<and> fst (assertComplete b) = Inl ProtocolViolation \<and>
     distinct (started events) \<and> distinct (ended events) \<and> in_order events \<and> ta_updates b \<le> 512"
proof -
  let ?r = "case newToolActivity (JInt 2) (JInt 5) of Inr a \<Rightarrow> session a sample_updates"
  have "case newToolActivity (JInt 2) (JInt 5) of Inl _ \<Rightarrow> False | Inr a \<Rightarrow> True" by code_simp
  then obtain a where a: "newToolActivity (JInt 2) (JInt 5) = Inr a" by (auto split: sum.splits)
  have "map te_kind (fst ?r) = [ToolStartedEvent, ToolCompletedEvent, ToolStartedEvent] \<and>
      started (fst ?r) = [''tool-1'', ''tool-2''] \<and> fst (assertComplete (snd ?r)) = Inl ProtocolViolation"
    by code_simp
  then show ?thesis
    using tool_reports_are_bounded [OF a, of sample_updates] a by (cases ?r) auto
qed

end
