(* ===== verification/RuntimeKernel.thy ===== *)
theory RuntimeKernel
  imports Reachability Queries
begin

text \<open>
  What the agent runtime (\<open>packages/agent-runtime\<close>) works with: its state and options, the errors of
  \<open>types.ts\<close>, and its calls of the kernel. The runtime awaits at every call; \<open>ro_others\<close> is whatever
  happens meanwhile to its kernel, its clock and itself, at each of its awaits anew.
\<close>

section \<open>Provider errors\<close>

datatype provider_diagnostic =
    ProviderCancelled | ProviderCleanupFailed | ProviderExecutionFailed | ProviderIoError
  | ProviderNotStarted | ProviderOutputLimit | ProviderPolicyViolation | ProviderProcessExited
  | ProviderProcessStartFailed | ProviderProtocolViolation | ProviderRecoveredFailed
  | ProviderRecoveredUnknown | ProviderRuntimeMonitorFailed | ProviderStderrLimit | ProviderTimeout
  | ProviderWorktreeExecutionFailed | ProviderWorktreeAuthorityLost
  | ProviderRecoveredWorktreeAuthorityLost

definition providerPublicDiagnostic :: "provider_diagnostic \<Rightarrow> string" where
  "providerPublicDiagnostic code =
     (case code of
        ProviderCancelled \<Rightarrow> ''provider_cancelled: Provider execution was cancelled.''
      | ProviderCleanupFailed \<Rightarrow> ''provider_cleanup_failed: Provider process cleanup did not complete.''
      | ProviderExecutionFailed \<Rightarrow> ''provider_execution_failed: Provider execution failed.''
      | ProviderIoError \<Rightarrow> ''provider_io_error: Provider process I/O failed.''
      | ProviderNotStarted \<Rightarrow>
          ''provider_not_started: Provider execution did not start because authority expired.''
      | ProviderOutputLimit \<Rightarrow>
          ''provider_output_limit: Provider output exceeded a configured safety limit.''
      | ProviderPolicyViolation \<Rightarrow>
          ''provider_policy_violation: Provider violated the configured capability policy.''
      | ProviderProcessExited \<Rightarrow> ''provider_process_exited: Provider process exited before completion.''
      | ProviderProcessStartFailed \<Rightarrow>
          ''provider_process_start_failed: Provider process could not be started.''
      | ProviderProtocolViolation \<Rightarrow> ''provider_protocol_error: Provider protocol validation failed.''
      | ProviderRecoveredFailed \<Rightarrow>
          ''provider_recovered_failed: Runtime recovered a failed provider attempt.''
      | ProviderRecoveredUnknown \<Rightarrow>
          ''provider_recovered_unknown: Runtime recovered an unfinished provider attempt.''
      | ProviderRuntimeMonitorFailed \<Rightarrow>
          ''provider_runtime_monitor_failed: Runtime could not confirm provider execution authority.''
      | ProviderStderrLimit \<Rightarrow>
          ''provider_stderr_limit: Provider diagnostic output exceeded a configured safety limit.''
      | ProviderTimeout \<Rightarrow> ''provider_timeout: Provider execution exceeded its allowed time.''
      | ProviderWorktreeExecutionFailed \<Rightarrow>
          ''provider_worktree_execution_failed: Controlled Worktree execution did not complete.''
      | ProviderWorktreeAuthorityLost \<Rightarrow>
          ''provider_worktree_authority_lost: Controlled Worktree publication authority was lost.''
      | ProviderRecoveredWorktreeAuthorityLost \<Rightarrow>
          ''provider_recovered_worktree_authority_lost: Runtime recovered an Activation after Worktree authority was lost.'')"

text \<open>
  An error the runtime sees: of the kernel, of a provider with what is known of the outcome (\<open>Unknown\<close>
  or \<open>Failed\<close>), or any other.
\<close>

datatype runtime_error =
    KernelThrew kerror
  | ProviderThrew provider_diagnostic bool
  | RuntimeFailure

text \<open>\<open>normalizeWorktreeProviderError\<close>: the diagnostic of an error and whether the outcome is unknown.\<close>

definition normalizeWorktreeProviderError :: "runtime_error \<Rightarrow> provider_diagnostic \<times> bool" where
  "normalizeWorktreeProviderError e =
     (case e of
        KernelThrew k \<Rightarrow>
          if err_code k = Some WriterAuthorityLost then (ProviderWorktreeAuthorityLost, True)
          else (ProviderExecutionFailed, False)
      | ProviderThrew code unknown \<Rightarrow> (code, unknown)
      | RuntimeFailure \<Rightarrow> (ProviderExecutionFailed, False))"

section \<open>State and options\<close>

text \<open>
  \<open>rt_delivered\<close> records the calls of the provider: the attempt and the request key of each, newest
  first. It is no field of the class. \<open>rt_awaits\<close> counts the awaits so far.
\<close>

record runtime =
  rt_kernel :: torsor_kernel
  rt_now :: instant
  rt_stopped :: bool
  rt_projectIds :: "ident list"
  rt_agents :: "(ident \<times> bootstrap_agent) list"
  rt_delivered :: "(ident \<times> string) list"
  rt_awaits :: nat

type_synonym 'a rop = "(runtime, runtime_error, 'a) op"

record runtime_options =
  ro_principalId :: ident
  ro_attentionLeaseMs :: int
  ro_activationDurationMs :: "int option"
  ro_outboxLeaseMs :: int
  ro_providerTimeoutMs :: int
  ro_leaseSafetyMs :: int
  ro_adapterName :: string
  ro_adapterVersion :: string
  ro_capabilitySnapshot :: json
  ro_supportsIdempotentRequests :: bool
  ro_uuid :: "nat \<Rightarrow> string"
  ro_hash :: "kernel_command \<Rightarrow> string"
  ro_finalizeReport :: "report_input \<Rightarrow> principal_context \<Rightarrow> string option \<Rightarrow> command_result top"
  ro_stopActivation :: "ident \<Rightarrow> unit rop"
  ro_others :: "nat \<Rightarrow> runtime \<Rightarrow> runtime"

text \<open>The checks of the constructor; the batch size is always one.\<close>

definition valid_lease_options :: "runtime_options \<Rightarrow> bool" where
  "valid_lease_options ro \<longleftrightarrow>
     ro_attentionLeaseMs ro \<ge> 1 \<and> ro_outboxLeaseMs ro \<ge> 1 \<and> ro_providerTimeoutMs ro \<ge> 1 \<and>
     ro_leaseSafetyMs ro \<ge> 0 \<and>
     (case ro_activationDurationMs ro of None \<Rightarrow> True
      | Some ms \<Rightarrow> ms \<ge> 1 \<and> ms \<ge> ro_providerTimeoutMs ro + ro_leaseSafetyMs ro) \<and>
     ro_attentionLeaseMs ro \<ge> ro_providerTimeoutMs ro + ro_leaseSafetyMs ro \<and>
     ro_outboxLeaseMs ro \<ge> ro_providerTimeoutMs ro + ro_leaseSafetyMs ro"

section \<open>Calls of the kernel\<close>

definition await :: "runtime_options \<Rightarrow> runtime \<Rightarrow> runtime" where
  "await ro s = (ro_others ro (rt_awaits s) s)\<lparr>rt_awaits := Suc (rt_awaits s)\<rparr>"

definition pause :: "runtime_options \<Rightarrow> unit rop" where
  "pause ro = modify (await ro)"

text \<open>A call is made at once; its result, or its error, is seen after an await.\<close>

definition call_kernel :: "runtime_options \<Rightarrow> 'a top \<Rightarrow> 'a rop" where
  "call_kernel ro m = (\<lambda>s.
     case m (rt_kernel s) of
       (r, k) \<Rightarrow> (case r of Inl e \<Rightarrow> Inl (KernelThrew e) | Inr x \<Rightarrow> Inr x, await ro (s\<lparr>rt_kernel := k\<rparr>)))"

lemma call_kernel_run [code]:
  "call_kernel ro m s =
     (case m (rt_kernel s) of
        (r, k) \<Rightarrow> (case r of Inl e \<Rightarrow> Inl (KernelThrew e) | Inr x \<Rightarrow> Inr x, await ro (s\<lparr>rt_kernel := k\<rparr>)))"
  by (simp add: call_kernel_def)

definition runtime_actor :: "runtime_options \<Rightarrow> principal_context" where
  "runtime_actor ro = \<lparr>pc_principalId = ro_principalId ro, pc_activationId = None\<rparr>"

text \<open>No command of the runtime names a causal field, so no property name needs to be checked.\<close>

definition command_as ::
  "runtime_options \<Rightarrow> principal_context \<Rightarrow> kernel_command \<Rightarrow> string option \<Rightarrow> command_result rop" where
  "command_as ro actor command correlationId =
     call_kernel ro (execute (ro_hash ro) [] command actor correlationId)"

definition command :: "runtime_options \<Rightarrow> kernel_command \<Rightarrow> string option \<Rightarrow> command_result rop" where
  "command ro c correlationId = command_as ro (runtime_actor ro) c correlationId"

definition ask_as ::
  "runtime_options \<Rightarrow> principal_context \<Rightarrow> kernel_query \<Rightarrow> (query_result \<Rightarrow> 'a option) \<Rightarrow> 'a rop" where
  "ask_as ro actor q view =
     bindM (call_kernel ro (query_kernel q actor)) (\<lambda>r. needM RuntimeFailure (view r))"

definition runProjection :: "runtime_options \<Rightarrow> ident \<Rightarrow> run_projection rop" where
  "runProjection ro runId =
     ask_as ro (runtime_actor ro) (GetRunProjection runId) (\<lambda>r. case r of RunProjection p \<Rightarrow> Some p | _ \<Rightarrow> None)"

definition threadProjection :: "runtime_options \<Rightarrow> principal_context \<Rightarrow> ident \<Rightarrow> thread_projection rop" where
  "threadProjection ro actor threadRootId =
     ask_as ro actor (GetThreadProjection threadRootId)
       (\<lambda>r. case r of ThreadProjection p \<Rightarrow> Some p | _ \<Rightarrow> None)"

definition operationalCorrelation :: "runtime_options \<Rightarrow> entity_type \<Rightarrow> ident \<Rightarrow> string rop" where
  "operationalCorrelation ro entityType entityId =
     ask_as ro (runtime_actor ro) (GetOperationalCorrelation entityType entityId)
       (\<lambda>r. case r of OperationalCorrelation c \<Rightarrow> Some c | _ \<Rightarrow> None)"

definition recoveryRevision :: "runtime_options \<Rightarrow> nat rop" where
  "recoveryRevision ro =
     ask_as ro (runtime_actor ro) GetAttentionRecoverySnapshot
       (\<lambda>r. case r of RecoverySnapshot s \<Rightarrow> Some (rs_revision s) | _ \<Rightarrow> None)"

definition activationAgent :: "runtime_options \<Rightarrow> ident \<Rightarrow> ident \<Rightarrow> ident \<Rightarrow> bootstrap_agent rop" where
  "activationAgent ro activationId agentId projectId =
     bindM (ask_as ro (runtime_actor ro) (GetActivationAgentConfig activationId)
              (\<lambda>r. case r of AgentConfig a \<Rightarrow> Some a | _ \<Rightarrow> None)) (\<lambda>agent.
     seqM (guardM (ba_id agent = agentId \<and> ba_projectId agent = projectId) RuntimeFailure) (ret agent))"

definition findProviderAttemptStatus :: "runtime_options \<Rightarrow> ident \<Rightarrow> provider_status rop" where
  "findProviderAttemptStatus ro providerAttemptId =
     ask_as ro (runtime_actor ro) (GetProviderAttempt providerAttemptId)
       (\<lambda>r. case r of ProviderAttempt a \<Rightarrow> Some (pav_status a) | _ \<Rightarrow> None)"

definition loadProject :: "runtime_options \<Rightarrow> ident \<Rightarrow> unit rop" where
  "loadProject ro projectId =
     seqM (modify (\<lambda>s. s\<lparr>rt_projectIds :=
             (if projectId \<in> set (rt_projectIds s) then rt_projectIds s else rt_projectIds s @ [projectId])\<rparr>))
    (bindM (ask_as ro (runtime_actor ro) (GetBootstrap projectId)
              (\<lambda>r. case r of Bootstrap b \<Rightarrow> Some b | _ \<Rightarrow> None)) (\<lambda>bootstrap.
     modify (rt_agents_update (fold (\<lambda>agent. AList.update (ba_id agent) agent) (bpr_agents bootstrap)))))"

definition refreshAgents :: "runtime_options \<Rightarrow> unit rop" where
  "refreshAgents ro =
     seqM (modify (rt_agents_update (\<lambda>_. [])))
    (bindM (gets rt_projectIds) (\<lambda>projectIds. forM projectIds (loadProject ro)))"

definition isTerminalProviderStatus :: "provider_status \<Rightarrow> bool" where
  "isTerminalProviderStatus status \<longleftrightarrow> status = ProvCompleted \<or> status = ProvFailed \<or> status = ProvUnknown"

definition find_activation :: "run_projection \<Rightarrow> ident \<Rightarrow> activation_view option" where
  "find_activation projection activationId =
     find_first (\<lambda>a. aav_id a = activationId) (rp_activations projection)"

text \<open>What is left of the time the provider may take; the times are valid dates.\<close>

definition providerExecutionBudget :: "runtime_options \<Rightarrow> instant \<Rightarrow> instant option \<Rightarrow> runtime \<Rightarrow> int" where
  "providerExecutionBudget ro leaseExpiresAt authorityObservedAt s =
     (let localBudget = min (ro_providerTimeoutMs ro) (leaseExpiresAt - ro_leaseSafetyMs ro - rt_now s) in
      case authorityObservedAt of
        None \<Rightarrow> localBudget
      | Some observed \<Rightarrow> min localBudget (leaseExpiresAt - ro_leaseSafetyMs ro - observed))"

end
