(* ===== verification/CapabilityBridge.thy ===== *)
theory CapabilityBridge
  imports RuntimeKernel
begin

text \<open>
  What a provider may do while it runs (\<open>capability-bridge.ts\<close>): the calls of the bridge, each a command of
  the agent under the activation, with a key of its own. The bridge lets a provider decide an
  attention once, and end its part of a run once.
\<close>

datatype attention_decision = DecidedIgnore string | DecidedContinue ident | DecidedCreate ident

datatype terminal_action = TerminalComplete | TerminalFail | TerminalWait

datatype bridge_cause =
    AttentionCause attention_view nat string "run_view list"
  | RunCause run_projection

record bridge_options =
  bo_agent :: bootstrap_agent
  bo_activationId :: ident
  bo_providerAttemptId :: ident
  bo_correlationId :: string
  bo_cause :: bridge_cause
  bo_assertPublication :: "unit rop"

record bridge =
  br_attentionDecision :: "attention_decision option"
  br_terminalAction :: "terminal_action option"
  br_nextCommand :: nat
  br_runRevision :: "nat option"

type_synonym 'a bop = "(runtime \<times> bridge, runtime_error, 'a) op"

definition new_bridge :: "bridge_options \<Rightarrow> bridge" where
  "new_bridge bo =
     \<lparr>br_attentionDecision = None, br_terminalAction = None, br_nextCommand = 0,
      br_runRevision = (case bo_cause bo of RunCause p \<Rightarrow> Some (rnv_revision (rp_run p)) | _ \<Rightarrow> None)\<rparr>"

definition on_runtime :: "'a rop \<Rightarrow> 'a bop" where
  "on_runtime m = (\<lambda>(s, b). case m s of (r, t) \<Rightarrow> (r, (t, b)))"

lemma on_runtime_run [code]: "on_runtime m (s, b) = (case m s of (r, t) \<Rightarrow> (r, (t, b)))"
  by (simp add: on_runtime_def)

definition bridge_state :: "(bridge \<Rightarrow> bridge) \<Rightarrow> unit bop" where
  "bridge_state f = modify (\<lambda>(s, b). (s, f b))"

section \<open>Private methods\<close>

definition bridge_run :: "bridge_options \<Rightarrow> run_projection bop" where
  "bridge_run bo = (case bo_cause bo of RunCause p \<Rightarrow> ret p | _ \<Rightarrow> raise RuntimeFailure)"

definition requireRunRevision :: "nat bop" where
  "requireRunRevision = bindM (gets (\<lambda>(_, b). br_runRevision b)) (needM RuntimeFailure)"

definition assertNoTerminalAction :: "unit bop" where
  "assertNoTerminalAction =
     bindM (gets (\<lambda>(_, b). br_terminalAction b)) (\<lambda>action. guardM (action = None) RuntimeFailure)"

definition assertNoAttentionDecision :: "unit bop" where
  "assertNoAttentionDecision =
     bindM (gets (\<lambda>(_, b). br_attentionDecision b)) (\<lambda>decision. guardM (decision = None) RuntimeFailure)"

definition agentContext :: "bridge_options \<Rightarrow> principal_context bop" where
  "agentContext bo =
     seqM (on_runtime (bo_assertPublication bo))
          (ret \<lparr>pc_principalId = ba_principalId (bo_agent bo), pc_activationId = Some (bo_activationId bo)\<rparr>)"

definition bridge_key :: "bridge_options \<Rightarrow> string \<Rightarrow> string bop" where
  "bridge_key bo operation =
     bindM (gets (\<lambda>(_, b). br_nextCommand b)) (\<lambda>n.
     seqM (bridge_state (\<lambda>b. b\<lparr>br_nextCommand := n + 1\<rparr>))
          (ret (bo_providerAttemptId bo @ '':'' @ show_nat n @ '':'' @ operation)))"

text \<open>The command is built first, with its key; then the actor; then it is sent.\<close>

definition send ::
  "runtime_options \<Rightarrow> bridge_options \<Rightarrow> string \<Rightarrow> (string \<Rightarrow> kernel_command) \<Rightarrow> command_result bop" where
  "send ro bo operation build =
     bindM (bridge_key bo operation) (\<lambda>key.
     bindM (agentContext bo) (\<lambda>actor.
     on_runtime (command_as ro actor (build key) (Some (bo_correlationId bo)))))"

section \<open>Attentions\<close>

definition attention_of :: "bridge_options \<Rightarrow> (attention_view \<times> nat \<times> string \<times> run_view list) bop" where
  "attention_of bo =
     (case bo_cause bo of AttentionCause a revision token runs \<Rightarrow> ret (a, revision, token, runs)
      | _ \<Rightarrow> raise RuntimeFailure)"

definition createRunFromAttention :: "runtime_options \<Rightarrow> bridge_options \<Rightarrow> ident bop" where
  "createRunFromAttention ro bo =
     bindM (attention_of bo) (\<lambda>(attention, revision, token, _).
     seqM assertNoAttentionDecision
    (bindM (send ro bo ''create-run'' (\<lambda>key. CmdResolveAttentionWithRun
        \<lparr>idempotencyKey = key, dc_attentionId = atv_id attention, dc_expectedAttentionRevision = revision,
         dc_handlerLeaseToken = token\<rparr>)) (\<lambda>result.
     seqM (bridge_state (\<lambda>b. b\<lparr>br_attentionDecision := Some (DecidedCreate (cr_entityId result))\<rparr>))
          (ret (cr_entityId result)))))"

definition continueAttentionWithRun :: "runtime_options \<Rightarrow> bridge_options \<Rightarrow> ident \<Rightarrow> ident bop" where
  "continueAttentionWithRun ro bo runId =
     bindM (attention_of bo) (\<lambda>(attention, revision, token, eligibleRuns).
     seqM assertNoAttentionDecision
    (bindM (needM RuntimeFailure (find_first (\<lambda>run. rnv_id run = runId) eligibleRuns)) (\<lambda>eligible.
     bindM (send ro bo ''continue-run'' (\<lambda>key. CmdResolveAttentionWithExistingRun
        \<lparr>idempotencyKey = key, dc_attentionId = atv_id attention, dc_expectedAttentionRevision = revision,
         dc_handlerLeaseToken = token, xr_runId = runId, xr_expectedRunRevision = rnv_revision eligible\<rparr>)) (\<lambda>result.
     seqM (bridge_state (\<lambda>b. b\<lparr>br_attentionDecision := Some (DecidedContinue runId)\<rparr>))
          (ret (case Option.bind (cr_relatedIds result) (\<lambda>ids. map_of ids ''runInputId'') of
                  Some i \<Rightarrow> i | None \<Rightarrow> cr_entityId result))))))"

definition ignoreAttention_via :: "runtime_options \<Rightarrow> bridge_options \<Rightarrow> string \<Rightarrow> unit bop" where
  "ignoreAttention_via ro bo reason =
     bindM (attention_of bo) (\<lambda>(attention, revision, token, _).
     seqM assertNoAttentionDecision
    (bindM (send ro bo ''ignore-attention'' (\<lambda>key. CmdIgnoreAttention
        \<lparr>idempotencyKey = key, dc_attentionId = atv_id attention, dc_expectedAttentionRevision = revision,
         dc_handlerLeaseToken = token, ig_reason = reason\<rparr>)) (\<lambda>_.
     bridge_state (\<lambda>b. b\<lparr>br_attentionDecision := Some (DecidedIgnore (js_trim reason))\<rparr>))))"

section \<open>Runs\<close>

definition appendActivity ::
  "runtime_options \<Rightarrow> bridge_options \<Rightarrow> string \<Rightarrow> json \<Rightarrow> retention_class \<Rightarrow> ident bop" where
  "appendActivity ro bo kind payload retentionClass =
     bindM (bridge_run bo) (\<lambda>run.
     bindM (send ro bo ''append-activity'' (\<lambda>key. CmdAppendRunActivity
        \<lparr>idempotencyKey = key, apv_runId = rnv_id (rp_run run), apv_activationId = Some (bo_activationId bo),
         apv_providerAttemptId = Some (bo_providerAttemptId bo), apv_kind = kind, apv_payload = payload,
         apv_retentionClass = retentionClass\<rparr>)) (\<lambda>result. ret (cr_entityId result)))"

definition reportStatus :: "runtime_options \<Rightarrow> bridge_options \<Rightarrow> string \<Rightarrow> string option \<Rightarrow> ident bop" where
  "reportStatus ro bo status detail =
     appendActivity ro bo ''status''
       (JObj ((''status'', JStr status) # (case detail of None \<Rightarrow> [] | Some d \<Rightarrow> [(''detail'', JStr d)]))) Durable"

text \<open>The revision is read before the key is drawn.\<close>

definition publishReply ::
  "runtime_options \<Rightarrow> bridge_options \<Rightarrow> string \<Rightarrow> ident list option \<Rightarrow> nat option \<Rightarrow> ident bop" where
  "publishReply ro bo body targetAgentIds expectedThreadCursor =
     bindM (bridge_run bo) (\<lambda>run.
     bindM (bridge_key bo ''publish-reply'') (\<lambda>key.
     bindM requireRunRevision (\<lambda>revision.
     bindM (agentContext bo) (\<lambda>actor.
     bindM (on_runtime (command_as ro actor (CmdPublishRunReply
        \<lparr>idempotencyKey = key, rr_runId = rnv_id (rp_run run), rr_expectedRunRevision = revision,
         rr_expectedThreadCursor = expectedThreadCursor, rr_body = body, rr_targetAgentIds = targetAgentIds\<rparr>)
        (Some (bo_correlationId bo)))) (\<lambda>result. ret (cr_entityId result))))))"

text \<open>The names of the members of the argument, and the bytes of the text, which are a buffer.\<close>

definition publishReport ::
  "runtime_options \<Rightarrow> bridge_options \<Rightarrow> string list \<Rightarrow> string \<Rightarrow> bytes \<Rightarrow> ident bop" where
  "publishReport ro bo names key text =
     bindM (bridge_run bo) (\<lambda>run.
     seqM (guardM (set names \<subseteq> {''idempotencyKey'', ''text''} \<and> length text \<le> MAX_REPORT_BYTES) RuntimeFailure)
    (bindM requireRunRevision (\<lambda>revision.
     bindM (agentContext bo) (\<lambda>actor.
     bindM (on_runtime (call_kernel ro (ro_finalizeReport ro
        \<lparr>fi_names = [''runId'', ''expectedRunRevision'', ''idempotencyKey'', ''content''],
         fi_runId = rnv_id (rp_run run), fi_expectedRunRevision = JInt (int revision),
         fi_idempotencyKey = key, fi_content = WholeReport text\<rparr> actor (Some (bo_correlationId bo))))) (\<lambda>result.
     ret (cr_entityId result))))))"

text \<open>What the three ends of a run share: the mark is set first, and taken back when the command throws.\<close>

definition end_run ::
  "runtime_options \<Rightarrow> bridge_options \<Rightarrow> terminal_action \<Rightarrow> string \<Rightarrow>
   (run_projection \<Rightarrow> nat \<Rightarrow> string \<Rightarrow> kernel_command) \<Rightarrow> unit bop" where
  "end_run ro bo action operation build =
     seqM assertNoTerminalAction
    (seqM (bridge_state (\<lambda>b. b\<lparr>br_terminalAction := Some action\<rparr>))
    (bindM (bridge_run bo) (\<lambda>run.
     catchM
       (bindM (bridge_key bo operation) (\<lambda>key.
        bindM requireRunRevision (\<lambda>revision.
        bindM (agentContext bo) (\<lambda>actor.
        bindM (on_runtime (command_as ro actor (build run revision key) (Some (bo_correlationId bo)))) (\<lambda>result.
        bridge_state (\<lambda>b. b\<lparr>br_runRevision :=
          (case cr_revision result of None \<Rightarrow> br_runRevision b | Some r \<Rightarrow> Some r)\<rparr>))))))
       (\<lambda>e. seqM (bridge_state (\<lambda>b. b\<lparr>br_terminalAction := None\<rparr>)) (raise e)))))"

definition bridge_complete ::
  "runtime_options \<Rightarrow> bridge_options \<Rightarrow> jsnum option \<Rightarrow> completion_exception list option \<Rightarrow>
   final_reply option \<Rightarrow> unit bop" where
  "bridge_complete ro bo incorporatedThrough exceptions finalReply =
     end_run ro bo TerminalComplete ''complete-run'' (\<lambda>run revision key. CmdCompleteRun
       \<lparr>idempotencyKey = key, cp_runId = rnv_id (rp_run run), cp_expectedRunRevision = revision,
        cp_incorporatedThroughInputSequence =
          (case incorporatedThrough of Some n \<Rightarrow> n
           | None \<Rightarrow> JInt (int (fold (\<lambda>item maximum. max maximum (riv_sequence item)) (rp_inputs run) 0))),
        cp_exceptions = exceptions, cp_finalReply = finalReply\<rparr>)"

definition bridge_fail :: "runtime_options \<Rightarrow> bridge_options \<Rightarrow> string \<Rightarrow> unit bop" where
  "bridge_fail ro bo reason =
     end_run ro bo TerminalFail ''fail-run'' (\<lambda>run revision key. CmdFailRun
       \<lparr>idempotencyKey = key, fl_runId = rnv_id (rp_run run), fl_expectedRunRevision = revision,
        fl_reason = reason\<rparr>)"

definition bridge_wait :: "runtime_options \<Rightarrow> bridge_options \<Rightarrow> string \<Rightarrow> unit bop" where
  "bridge_wait ro bo reason =
     end_run ro bo TerminalWait ''wait-run'' (\<lambda>run revision key. CmdWaitRun
       \<lparr>idempotencyKey = key, wt_runId = rnv_id (rp_run run), wt_expectedRunRevision = revision,
        wt_reason = reason\<rparr>)"

end
