(* ===== verification/AttentionScheduler.thy ===== *)
theory AttentionScheduler
  imports Mappings "HOL-Library.AList"
begin

text \<open>
  The scheduler of open attentions (\<open>AttentionScheduler\<close> in \<open>runtime.ts\<close>): which of the attentions it is
  given it retains, in which order it runs them, and what it reports as deferred. Its methods run to
  their end; between them, one of the attentions it has started may finish.
\<close>

section \<open>State\<close>

record scheduler_options =
  so_concurrency :: nat
  so_bufferLimit :: int
  so_projectLimit :: int

text \<open>A retained attention; two of them are the same object exactly when they have the same identity.\<close>

record queued =
  qd_identity :: nat
  qd_attention :: attention_view
  qd_projectId :: ident

datatype admission = Admitted | Deferred | GlobalFull

datatype 'e dispatch_result = Dispatched | Blocked | Retry | DispatchError 'e

text \<open>
  The fields of the class, and the executions \<open>run\<close> has started and that have not finished. The
  order of a JavaScript map matters for \<open>projectRetained\<close> only, which is sorted when room is made.
\<close>

record 'e scheduler =
  sc_queues :: "ident \<rightharpoonup> queued"
  sc_activeDomains :: "ident set"
  sc_domainDeferred :: "ident \<rightharpoonup> int"
  sc_projectRetained :: "(ident \<times> int) list"
  sc_projectReadyDomains :: "ident \<rightharpoonup> ident list"
  sc_projectReadyDomainSets :: "ident \<rightharpoonup> ident set"
  sc_readyProjects :: "ident list"
  sc_readyProjectSet :: "ident set"
  sc_drainWaiters :: "nat list"
  sc_resolved :: "nat list"
  sc_buffered :: int
  sc_dispatched :: int
  sc_deferred :: int
  sc_firstError :: "'e option"
  sc_running :: "(ident \<times> queued) list"
  sc_objects :: nat

definition new_scheduler :: "'e scheduler" where
  "new_scheduler =
     \<lparr>sc_queues = Map.empty, sc_activeDomains = {}, sc_domainDeferred = Map.empty, sc_projectRetained = [],
      sc_projectReadyDomains = Map.empty, sc_projectReadyDomainSets = Map.empty, sc_readyProjects = [],
      sc_readyProjectSet = {}, sc_drainWaiters = [], sc_resolved = [], sc_buffered = 0, sc_dispatched = 0,
      sc_deferred = 0, sc_firstError = None, sc_running = [], sc_objects = 0\<rparr>"

text \<open>An absent entry of a map reads as its default.\<close>

definition entry :: "'v \<Rightarrow> 'v option \<Rightarrow> 'v" where
  "entry absent v = (case v of None \<Rightarrow> absent | Some x \<Rightarrow> x)"

lemma entry_simps [simp]: "entry d None = d" "entry d (Some x) = x"
  by (simp_all add: entry_def)

definition attentionConflictDomain :: "attention_view \<Rightarrow> ident" where
  "attentionConflictDomain attention =
     atv_targetAgentId attention @ CHR 0x00 # atv_threadRootId attention"

section \<open>Operations\<close>

definition retained :: "'e scheduler \<Rightarrow> ident \<Rightarrow> int" where
  "retained s projectId = entry 0 (map_of (sc_projectRetained s) projectId)"

definition changeProjectRetained :: "ident \<Rightarrow> int \<Rightarrow> 'e scheduler \<Rightarrow> 'e scheduler" where
  "changeProjectRetained projectId delta s =
     (let new = retained s projectId + delta in
      if new = 0 then s\<lparr>sc_projectRetained := AList.delete projectId (sc_projectRetained s)\<rparr>
      else s\<lparr>sc_projectRetained := AList.update projectId new (sc_projectRetained s)\<rparr>)"

definition notifyRetainedChanged :: "'e option \<Rightarrow> 'e scheduler \<Rightarrow> 'e scheduler" where
  "notifyRetainedChanged thrown s =
     (let t = (if sc_buffered s = 0
               then s\<lparr>sc_resolved := sc_resolved s @ sc_drainWaiters s, sc_drainWaiters := []\<rparr> else s) in
      case thrown of
        None \<Rightarrow> t
      | Some e \<Rightarrow> t\<lparr>sc_firstError := (case sc_firstError t of None \<Rightarrow> Some e | Some f \<Rightarrow> Some f)\<rparr>)"

definition markProjectReady :: "ident \<Rightarrow> 'e scheduler \<Rightarrow> 'e scheduler" where
  "markProjectReady projectId s =
     (if projectId \<in> sc_readyProjectSet s \<or> entry {} (sc_projectReadyDomainSets s projectId) = {} then s
      else s\<lparr>sc_readyProjectSet := insert projectId (sc_readyProjectSet s),
             sc_readyProjects := sc_readyProjects s @ [projectId]\<rparr>)"

definition markReady :: "ident \<Rightarrow> ident \<Rightarrow> 'e scheduler \<Rightarrow> 'e scheduler" where
  "markReady projectId key s =
     (if key \<in> sc_activeDomains s then s
      else
        let readySet = entry {} (sc_projectReadyDomainSets s projectId);
            readyDomains = entry [] (sc_projectReadyDomains s projectId);
            t = (if key \<notin> readySet
                 then s\<lparr>sc_projectReadyDomainSets := (sc_projectReadyDomainSets s)(projectId \<mapsto> insert key readySet),
                        sc_projectReadyDomains := (sc_projectReadyDomains s)(projectId \<mapsto> readyDomains @ [key])\<rparr>
                 else s\<lparr>sc_projectReadyDomainSets := (sc_projectReadyDomainSets s)(projectId \<mapsto> readySet)\<rparr>) in
        markProjectReady projectId t)"

text \<open>The loop of \<open>takeReadyDomain\<close>: the first of the domains that is still ready.\<close>

fun take_ready :: "ident list \<Rightarrow> ident set \<Rightarrow> ident option \<times> ident list \<times> ident set" where
  "take_ready [] readySet = (None, [], readySet)"
| "take_ready (key # readyDomains) readySet =
     (if key \<notin> readySet then take_ready readyDomains readySet
      else (Some key, readyDomains, readySet - {key}))"

definition takeReadyDomain :: "ident \<Rightarrow> 'e scheduler \<Rightarrow> ident option \<times> 'e scheduler" where
  "takeReadyDomain projectId s =
     (let readyDomains = sc_projectReadyDomains s projectId;
          readySet = sc_projectReadyDomainSets s projectId in
      case take_ready (entry [] readyDomains) (entry {} readySet) of
        (taken, restDomains, restSet) \<Rightarrow>
          let t = s\<lparr>sc_projectReadyDomains := (if readyDomains = None then sc_projectReadyDomains s
                      else (sc_projectReadyDomains s)(projectId \<mapsto> restDomains)),
                    sc_projectReadyDomainSets := (if readySet = None then sc_projectReadyDomainSets s
                      else (sc_projectReadyDomainSets s)(projectId \<mapsto> restSet))\<rparr> in
          case taken of
            Some key \<Rightarrow> (Some key, t)
          | None \<Rightarrow>
              (None,
               if readySet \<noteq> None \<and> restSet = {}
               then t\<lparr>sc_projectReadyDomainSets := (sc_projectReadyDomainSets t)(projectId := None),
                      sc_projectReadyDomains := (sc_projectReadyDomains t)(projectId := None)\<rparr>
               else t))"

definition evictQueuedCandidate :: "ident \<Rightarrow> 'e scheduler \<Rightarrow> bool \<times> 'e scheduler" where
  "evictQueuedCandidate projectId s =
     (case takeReadyDomain projectId s of
        (None, t) \<Rightarrow> (False, t)
      | (Some key, t) \<Rightarrow>
          if sc_queues t key = None \<or> key \<in> sc_activeDomains t then (False, t)
          else
            let u = changeProjectRetained projectId (-1)
                      (t\<lparr>sc_queues := (sc_queues t)(key := None), sc_buffered := sc_buffered t - 1\<rparr>) in
            (True, u\<lparr>sc_deferred := sc_deferred u + 1,
                     sc_domainDeferred := (sc_domainDeferred u)(key := None)\<rparr>))"

text \<open>The loop over the candidates: the first project that gives a domain up.\<close>

fun evict_first :: "ident list \<Rightarrow> 'e scheduler \<Rightarrow> bool \<times> 'e scheduler" where
  "evict_first [] s = (False, s)"
| "evict_first (candidate # candidates) s =
     (case evictQueuedCandidate candidate s of
        (made, t) \<Rightarrow> if made then (True, t) else evict_first candidates t)"

definition evictForNewProject :: "ident \<Rightarrow> 'e scheduler \<Rightarrow> bool \<times> 'e scheduler" where
  "evictForNewProject projectId s =
     (let candidates =
        sort_key (\<lambda>(_, n). - n) (filter (\<lambda>(candidate, n). candidate \<noteq> projectId \<and> n > 1) (sc_projectRetained s)) in
      case evict_first (map fst candidates) s of
        (made, t) \<Rightarrow> if made then (True, t) else evictQueuedCandidate projectId t)"

text \<open>
  Starting executions while there is room. A round either takes a ready domain or drops a project
  from the queue, which bounds the rounds; \<open>rounds\<close> is that bound.
\<close>

definition pump_round :: "'e scheduler \<Rightarrow> 'e scheduler" where
  "pump_round s =
     (let projectId = hd (sc_readyProjects s);
          t = s\<lparr>sc_readyProjects := tl (sc_readyProjects s)\<rparr> in
      if projectId \<notin> sc_readyProjectSet t then t
      else
        (case takeReadyDomain projectId (t\<lparr>sc_readyProjectSet := sc_readyProjectSet t - {projectId}\<rparr>) of
           (key, u) \<Rightarrow>
             let v = markProjectReady projectId u in
             case key of
               None \<Rightarrow> v
             | Some k \<Rightarrow>
                 (case sc_queues v k of
                    None \<Rightarrow> v
                  | Some queued \<Rightarrow>
                      v\<lparr>sc_activeDomains := insert k (sc_activeDomains v),
                        sc_running := sc_running v @ [(k, queued)]\<rparr>)))"

definition pumping :: "scheduler_options \<Rightarrow> 'e scheduler \<Rightarrow> bool" where
  "pumping options s \<longleftrightarrow> card (sc_activeDomains s) < so_concurrency options \<and> sc_readyProjects s \<noteq> []"

fun pump_rounds :: "nat \<Rightarrow> scheduler_options \<Rightarrow> 'e scheduler \<Rightarrow> 'e scheduler" where
  "pump_rounds 0 options s = s"
| "pump_rounds (Suc n) options s =
     (if pumping options s then pump_rounds n options (pump_round s) else s)"

definition rounds :: "'e scheduler \<Rightarrow> nat" where
  "rounds s = length (sc_readyProjects s) + nat (sc_buffered s)"

definition pump :: "scheduler_options \<Rightarrow> 'e scheduler \<Rightarrow> 'e scheduler" where
  "pump options s = pump_rounds (rounds s) options s"

text \<open>
  The methods its owner calls. \<open>thrown\<close> is what \<open>onBufferChanged\<close> throws, if it throws;
  \<open>finish_run\<close> is what \<open>run\<close> does once the dispatch of its attention has ended.
\<close>

definition admit :: "scheduler_options \<Rightarrow> 'e option \<Rightarrow> attention_view \<Rightarrow> 'e scheduler \<Rightarrow> 'e scheduler" where
  "admit options thrown attention s =
     (let key = attentionConflictDomain attention;
          projectId = atv_projectId attention;
          queued = \<lparr>qd_identity = sc_objects s, qd_attention = attention, qd_projectId = projectId\<rparr>;
          t = s\<lparr>sc_queues := (sc_queues s)(key \<mapsto> queued), sc_objects := sc_objects s + 1,
                sc_buffered := sc_buffered s + 1\<rparr> in
      notifyRetainedChanged thrown
        (pump options (markReady projectId key (changeProjectRetained projectId 1 t))))"

definition enqueue ::
  "scheduler_options \<Rightarrow> 'e option \<Rightarrow> attention_view \<Rightarrow> 'e scheduler \<Rightarrow> admission \<times> 'e scheduler" where
  "enqueue options thrown attention s =
     (let key = attentionConflictDomain attention;
          projectId = atv_projectId attention in
      if sc_queues s key \<noteq> None \<or> key \<in> sc_activeDomains s then
        (Deferred, s\<lparr>sc_deferred := sc_deferred s + 1,
                     sc_domainDeferred := (sc_domainDeferred s)(key \<mapsto> entry 0 (sc_domainDeferred s key) + 1)\<rparr>)
      else if retained s projectId \<ge> so_projectLimit options then
        (case evictQueuedCandidate projectId s of
           (made, t) \<Rightarrow>
             if \<not> made then (Deferred, t\<lparr>sc_deferred := sc_deferred t + 1\<rparr>)
             else (Admitted, admit options thrown attention t))
      else if sc_buffered s \<ge> so_bufferLimit options then
        (case (if retained s projectId = 0 then evictForNewProject projectId s
               else evictQueuedCandidate projectId s) of
           (madeRoom, t) \<Rightarrow>
             if \<not> madeRoom then (GlobalFull, t\<lparr>sc_deferred := sc_deferred t + 1\<rparr>)
             else (Admitted, admit options thrown attention t))
      else (Admitted, admit options thrown attention s))"

definition finish_run ::
  "scheduler_options \<Rightarrow> 'e option \<Rightarrow> ident \<Rightarrow> queued \<Rightarrow> 'e dispatch_result \<Rightarrow> 'e scheduler \<Rightarrow> 'e scheduler" where
  "finish_run options thrown key queued result s =
     (let t = (case result of
                 Dispatched \<Rightarrow> s\<lparr>sc_dispatched := sc_dispatched s + 1\<rparr>
               | DispatchError e \<Rightarrow>
                   s\<lparr>sc_firstError := (case sc_firstError s of None \<Rightarrow> Some e | Some f \<Rightarrow> Some f)\<rparr>
               | _ \<Rightarrow> s);
          u = t\<lparr>sc_activeDomains := sc_activeDomains t - {key}, sc_running := remove1 (key, queued) (sc_running t)\<rparr>;
          v = (if map_option qd_identity (sc_queues u key) = Some (qd_identity queued) then
                 let w = changeProjectRetained (qd_projectId queued) (-1)
                           (u\<lparr>sc_queues := (sc_queues u)(key := None), sc_buffered := sc_buffered u - 1\<rparr>);
                     domainDeferred = entry 0 (sc_domainDeferred w key);
                     x = (case result of
                            Blocked \<Rightarrow> w\<lparr>sc_deferred := sc_deferred w - domainDeferred\<rparr>
                          | Retry \<Rightarrow> (if domainDeferred = 0 then w\<lparr>sc_deferred := sc_deferred w + 1\<rparr> else w)
                          | _ \<Rightarrow> w) in
                 x\<lparr>sc_domainDeferred := (sc_domainDeferred x)(key := None)\<rparr>
               else u) in
      notifyRetainedChanged thrown (pump options v))"

text \<open>\<open>drain\<close> waits until nothing is retained, and then returns or throws.\<close>

definition drain :: "nat \<Rightarrow> 'e scheduler \<Rightarrow> 'e scheduler" where
  "drain waiter s =
     (if sc_buffered s > 0 then s\<lparr>sc_drainWaiters := sc_drainWaiters s @ [waiter]\<rparr>
      else s\<lparr>sc_resolved := sc_resolved s @ [waiter]\<rparr>)"

definition drain_result :: "'e scheduler \<Rightarrow> 'e + (int \<times> int)" where
  "drain_result s = (case sc_firstError s of Some e \<Rightarrow> Inl e | None \<Rightarrow> Inr (sc_dispatched s, sc_deferred s))"

section \<open>Runs\<close>

text \<open>What has happened to a scheduler, newest first.\<close>

datatype 'e happening =
    Enqueued attention_view admission
  | RunEnded attention_view "'e dispatch_result"
  | Awaited nat

inductive scheduled :: "scheduler_options \<Rightarrow> 'e happening list \<Rightarrow> 'e scheduler \<Rightarrow> bool" for options where
  scheduled_new: "scheduled options [] new_scheduler"
| scheduled_enqueue:
    "scheduled options trace s \<Longrightarrow> enqueue options thrown attention s = (r, t) \<Longrightarrow>
     scheduled options (Enqueued attention r # trace) t"
| scheduled_finish:
    "scheduled options trace s \<Longrightarrow> (key, queued) \<in> set (sc_running s) \<Longrightarrow>
     scheduled options (RunEnded (qd_attention queued) result # trace) (finish_run options thrown key queued result s)"
| scheduled_drain:
    "scheduled options trace s \<Longrightarrow> scheduled options (Awaited waiter # trace) (drain waiter s)"

section \<open>The structure\<close>

definition ready :: "'e scheduler \<Rightarrow> ident \<Rightarrow> ident set" where
  "ready s projectId = entry {} (sc_projectReadyDomainSets s projectId)"

definition ready_order :: "'e scheduler \<Rightarrow> ident \<Rightarrow> ident list" where
  "ready_order s projectId = entry [] (sc_projectReadyDomains s projectId)"

definition ready_listed :: "'e scheduler \<Rightarrow> bool" where
  "ready_listed s \<longleftrightarrow> (\<forall>p. distinct (ready_order s p) \<and> set (ready_order s p) = ready s p)"

lemma take_ready_exact:
  "distinct ds \<Longrightarrow> take_ready ds (set ds) =
     (case ds of [] \<Rightarrow> (None, [], {}) | k # rest \<Rightarrow> (Some k, rest, set rest))"
  by (cases ds) auto

lemma takeReadyDomain_takes:
  assumes "ready_listed s" "takeReadyDomain p s = (r, t)"
  shows "t = s\<lparr>sc_projectReadyDomains := sc_projectReadyDomains t,
      sc_projectReadyDomainSets := sc_projectReadyDomainSets t\<rparr>" "ready_listed t"
    "p' \<noteq> p \<Longrightarrow> ready t p' = ready s p'"
    "r = None \<Longrightarrow> ready s p = {} \<and> ready t p = {}"
    "r = Some k \<Longrightarrow> k \<in> ready s p \<and> ready t p = ready s p - {k}"
proof -
  have p: "distinct (ready_order s p)" "set (ready_order s p) = ready s p"
    using assms(1) by (simp_all add: ready_listed_def)
  have taken: "take_ready (ready_order s p) (ready s p) =
      (case ready_order s p of [] \<Rightarrow> (None, [], {}) | k # rest \<Rightarrow> (Some k, rest, set rest))"
    using take_ready_exact [OF p(1)] p(2) by simp
  have "t = s\<lparr>sc_projectReadyDomains := sc_projectReadyDomains t, sc_projectReadyDomainSets := sc_projectReadyDomainSets t\<rparr> \<and>
      (\<forall>p'. p' \<noteq> p \<longrightarrow> ready t p' = ready s p' \<and> ready_order t p' = ready_order s p') \<and>
      set (ready_order t p) = ready t p \<and> distinct (ready_order t p) \<and>
      (case r of None \<Rightarrow> ready s p = {} \<and> ready t p = {} | Some k \<Rightarrow> k \<in> ready s p \<and> ready t p = ready s p - {k})"
    using assms(2) taken p
    by (cases "sc_projectReadyDomains s p"; cases "sc_projectReadyDomainSets s p"; cases "ready_order s p")
       (auto simp: takeReadyDomain_def ready_def ready_order_def)
  then show "t = s\<lparr>sc_projectReadyDomains := sc_projectReadyDomains t,
      sc_projectReadyDomainSets := sc_projectReadyDomainSets t\<rparr>" "ready_listed t"
    "p' \<noteq> p \<Longrightarrow> ready t p' = ready s p'"
    "r = None \<Longrightarrow> ready s p = {} \<and> ready t p = {}"
    "r = Some k \<Longrightarrow> k \<in> ready s p \<and> ready t p = ready s p - {k}"
    using assms(1) by (simp_all add: ready_listed_def, metis+)
qed

text \<open>
  The structure of a scheduler between two calls: what is retained and how it is counted; what is
  active; and what is ready, which is what is retained and not active.
\<close>

definition domains_of :: "'e scheduler \<Rightarrow> ident \<Rightarrow> ident set" where
  "domains_of s p = {k. \<exists>q. sc_queues s k = Some q \<and> qd_projectId q = p}"

definition counted :: "'e scheduler \<Rightarrow> bool" where
  "counted s \<longleftrightarrow>
     finite (dom (sc_queues s)) \<and> sc_buffered s = int (card (dom (sc_queues s))) \<and>
     (\<forall>k q. sc_queues s k = Some q \<longrightarrow>
        k = attentionConflictDomain (qd_attention q) \<and> qd_projectId q = atv_projectId (qd_attention q)) \<and>
     (\<forall>p. retained s p = int (card (domains_of s p)))"

definition started_runs :: "'e scheduler \<Rightarrow> bool" where
  "started_runs s \<longleftrightarrow>
     distinct (map fst (sc_running s)) \<and> set (map fst (sc_running s)) = sc_activeDomains s \<and>
     (\<forall>k q. (k, q) \<in> set (sc_running s) \<longrightarrow> sc_queues s k = Some q)"

definition offered :: "'e scheduler \<Rightarrow> bool" where
  "offered s \<longleftrightarrow>
     distinct (sc_readyProjects s) \<and> set (sc_readyProjects s) = sc_readyProjectSet s \<and>
     (\<forall>p. ready s p \<noteq> {} \<longrightarrow> p \<in> sc_readyProjectSet s)"

definition structured :: "'e scheduler \<Rightarrow> bool" where
  "structured s \<longleftrightarrow>
     counted s \<and> started_runs s \<and> offered s \<and> ready_listed s \<and>
     (\<forall>p. ready s p = domains_of s p - sc_activeDomains s)"

lemma active_retained: "started_runs s \<Longrightarrow> sc_activeDomains s \<subseteq> dom (sc_queues s)"
  by (fastforce simp: started_runs_def)

lemma finite_domains_of: "counted s \<Longrightarrow> finite (domains_of s p)"
  by (rule finite_subset [of _ "dom (sc_queues s)"]) (auto simp: counted_def domains_of_def)

lemma domains_of_remove:
  "domains_of (s\<lparr>sc_queues := (sc_queues s)(k := None)\<rparr>) p = domains_of s p - {k}"
  by (auto simp: domains_of_def split: if_splits)

text \<open>Counting one attention more or one less.\<close>

lemma retained_change:
  "retained (changeProjectRetained p d s) p' = retained s p' + (if p' = p then d else 0)"
  by (auto simp: changeProjectRetained_def retained_def Let_def update_conv delete_conv entry_def split: option.split)

lemma changeProjectRetained_only:
  "changeProjectRetained p d s = s\<lparr>sc_projectRetained := sc_projectRetained (changeProjectRetained p d s)\<rparr>"
  by (simp add: changeProjectRetained_def Let_def)

lemma less_one_card: "finite S \<Longrightarrow> k \<in> S \<Longrightarrow> int (card (S - {k})) = int (card S) - 1"
  by (simp add: of_nat_diff Suc_leI card_gt_0_iff ex_in_conv [symmetric] exI [of _ k])

lemma counted_remove:
  assumes "counted s" "sc_queues s k = Some q"
    "t = changeProjectRetained (qd_projectId q) (-1)
       (s\<lparr>sc_queues := (sc_queues s)(k := None), sc_buffered := sc_buffered s - 1\<rparr>)"
  shows "counted t"
proof -
  have fields: "sc_queues t = (sc_queues s)(k := None)" "sc_buffered t = sc_buffered s - 1"
    unfolding assms(3) by (subst changeProjectRetained_only, simp)+
  have domains: "domains_of t p = domains_of s p - {k}" for p
    by (auto simp: domains_of_def fields split: if_splits)
  have one: "k \<in> domains_of s p \<longleftrightarrow> p = qd_projectId q" for p
    using assms(2) by (auto simp: domains_of_def)
  have "retained t p = int (card (domains_of t p))" for p
    using assms(1) one [of p] less_one_card [OF finite_domains_of [OF assms(1)], of k p]
    unfolding assms(3) retained_change domains [unfolded assms(3)]
    by (auto simp: counted_def retained_def)
  moreover have "k \<in> dom (sc_queues s)" using assms(2) by blast
  ultimately show ?thesis
    using assms(1,2) less_one_card [of "dom (sc_queues s)" k] by (auto simp: counted_def fields)
qed

lemma counted_insert:
  assumes "counted s" "sc_queues s k = None" "k = attentionConflictDomain (qd_attention q)"
    "qd_projectId q = atv_projectId (qd_attention q)"
    "t = changeProjectRetained (qd_projectId q) 1
       (s\<lparr>sc_queues := (sc_queues s)(k \<mapsto> q), sc_objects := n, sc_buffered := sc_buffered s + 1\<rparr>)"
  shows "counted t"
proof -
  have fields: "sc_queues t = (sc_queues s)(k \<mapsto> q)" "sc_buffered t = sc_buffered s + 1"
    unfolding assms(5) by (subst changeProjectRetained_only, simp)+
  have absent: "k \<notin> domains_of s p" for p
    using assms(2) by (auto simp: domains_of_def)
  have domains: "domains_of t p = (if p = qd_projectId q then insert k (domains_of s p) else domains_of s p)" for p
    using assms(2) by (auto simp: domains_of_def fields split: if_splits)
  have "retained t p = int (card (domains_of t p))" for p
    using assms(1) finite_domains_of [OF assms(1), of p] absent [of p]
    unfolding assms(5) retained_change domains [unfolded assms(5)]
    by (auto simp: counted_def retained_def)
  moreover have "k \<notin> dom (sc_queues s)" using assms(2) by blast
  ultimately show ?thesis
    using assms(1,3,4) by (auto simp: counted_def fields)
qed

section \<open>Taking and offering domains\<close>

lemma markProjectReady_only:
  "markProjectReady p s =
     s\<lparr>sc_readyProjectSet := sc_readyProjectSet (markProjectReady p s),
       sc_readyProjects := sc_readyProjects (markProjectReady p s)\<rparr>"
  by (simp add: markProjectReady_def)

lemma markProjectReady_offers:
  assumes "distinct (sc_readyProjects s)" "set (sc_readyProjects s) = sc_readyProjectSet s"
    "\<And>p'. ready s p' \<noteq> {} \<Longrightarrow> p' = p \<or> p' \<in> sc_readyProjectSet s"
  shows "offered (markProjectReady p s)"
proof (cases "p \<in> sc_readyProjectSet s \<or> ready s p = {}")
  case True
  then have "markProjectReady p s = s" by (simp add: markProjectReady_def ready_def)
  then show ?thesis using assms True unfolding offered_def by auto
next
  case False
  then show ?thesis using assms unfolding offered_def markProjectReady_def ready_def by auto
qed

text \<open>The parts of the structure see only the fields they are about.\<close>

lemma same_parts:
  assumes "sc_queues t = sc_queues s"
  shows "domains_of t = domains_of s"
    "sc_buffered t = sc_buffered s \<Longrightarrow> sc_projectRetained t = sc_projectRetained s \<Longrightarrow> counted t = counted s"
    "sc_running t = sc_running s \<Longrightarrow> sc_activeDomains t = sc_activeDomains s \<Longrightarrow> started_runs t = started_runs s"
proof -
  show domains: "domains_of t = domains_of s"
    by (rule ext) (simp add: domains_of_def assms)
  show "sc_buffered t = sc_buffered s \<Longrightarrow> sc_projectRetained t = sc_projectRetained s \<Longrightarrow> counted t = counted s"
    by (simp add: counted_def retained_def domains assms)
  show "sc_running t = sc_running s \<Longrightarrow> sc_activeDomains t = sc_activeDomains s \<Longrightarrow> started_runs t = started_runs s"
    by (simp add: started_runs_def assms)
qed

lemma same_ready:
  assumes "sc_projectReadyDomains t = sc_projectReadyDomains s"
    "sc_projectReadyDomainSets t = sc_projectReadyDomainSets s"
  shows "ready t = ready s" "ready_listed t = ready_listed s"
  using assms by (auto simp: ready_def ready_order_def ready_listed_def fun_eq_iff)

text \<open>A round starts one run, or drops a project that offers nothing.\<close>

definition rounds_left :: "'e scheduler \<Rightarrow> nat" where
  "rounds_left s = length (sc_readyProjects s) + card (dom (sc_queues s) - sc_activeDomains s)"

text \<open>What taking, offering and starting leave alone.\<close>

definition books where
  "books s = (sc_queues s, sc_domainDeferred s, sc_projectRetained s, (sc_drainWaiters s, sc_resolved s),
     sc_buffered s, sc_dispatched s, sc_deferred s, sc_firstError s, sc_objects s)"

lemma books_eq:
  "books t = books s \<longleftrightarrow>
     sc_queues t = sc_queues s \<and> sc_domainDeferred t = sc_domainDeferred s \<and>
     sc_projectRetained t = sc_projectRetained s \<and> sc_drainWaiters t = sc_drainWaiters s \<and>
     sc_resolved t = sc_resolved s \<and> sc_buffered t = sc_buffered s \<and> sc_dispatched t = sc_dispatched s \<and>
     sc_deferred t = sc_deferred s \<and> sc_firstError t = sc_firstError s \<and> sc_objects t = sc_objects s"
  by (simp add: books_def)

lemma books_take: "books (snd (takeReadyDomain p s)) = books s"
  by (simp add: takeReadyDomain_def Let_def books_eq split: prod.split option.split)

lemma books_offer: "books (markProjectReady p s) = books s"
  by (simp add: markProjectReady_def books_eq)

lemma books_round: "books (pump_round s) = books s"
proof -
  have start: "books (u\<lparr>sc_activeDomains := a, sc_running := r\<rparr>) = books u"
    "books (u\<lparr>sc_readyProjects := x\<rparr>) = books u" "books (u\<lparr>sc_readyProjectSet := y\<rparr>) = books u"
    for u :: "'a scheduler" and a r x y by (simp_all add: books_eq)
  have take: "books u = books v" if "takeReadyDomain p v = (k, u)" for p k and u v :: "'a scheduler"
    using books_take [of p v] that by simp
  show ?thesis
    by (auto simp: pump_round_def Let_def start books_offer split: prod.split option.split dest!: take)
qed

lemma pump_round_structured:
  assumes "structured s" "sc_readyProjects s \<noteq> []"
  shows "structured (pump_round s)" "rounds_left (pump_round s) < rounds_left s"
    "card (sc_activeDomains (pump_round s)) \<le> Suc (card (sc_activeDomains s))"
proof -
  obtain p ps where projects: "sc_readyProjects s = p # ps" using assms(2) by (cases "sc_readyProjects s") auto
  let ?A = "sc_activeDomains s"
  let ?s = "s\<lparr>sc_readyProjects := ps, sc_readyProjectSet := sc_readyProjectSet s - {p}\<rparr>"
  note parts = assms(1) [unfolded structured_def offered_def]
  have p: "p \<in> sc_readyProjectSet s" "distinct ps" "set ps = sc_readyProjectSet s - {p}" "p \<notin> set ps"
    using parts projects by auto
  obtain r u where taken: "takeReadyDomain p ?s = (r, u)" by fastforce
  have listed: "ready_listed ?s" using parts by (simp add: same_ready(2) [of ?s s])
  note takes = takeReadyDomain_takes [OF listed taken]
  have s_ready: "ready ?s = ready s" by (rule same_ready) simp_all
  let ?v = "markProjectReady p u"
  have u: "sc_queues u = sc_queues s" "sc_activeDomains u = ?A" "sc_running u = sc_running s"
    "sc_buffered u = sc_buffered s" "sc_projectRetained u = sc_projectRetained s"
    "sc_readyProjects u = ps" "sc_readyProjectSet u = sc_readyProjectSet s - {p}"
    by (subst takes(1), simp)+
  have v: "sc_queues ?v = sc_queues s" "sc_activeDomains ?v = ?A" "sc_running ?v = sc_running s"
    "sc_buffered ?v = sc_buffered s" "sc_projectRetained ?v = sc_projectRetained s"
    "sc_projectReadyDomains ?v = sc_projectReadyDomains u" "sc_projectReadyDomainSets ?v = sc_projectReadyDomainSets u"
    by (subst markProjectReady_only, simp add: u)+
  have others: "ready u p' = ready s p'" if "p' \<noteq> p" for p'
    using takes(3) [OF that] s_ready by simp
  have v_ready: "ready ?v = ready u" "ready_listed ?v"
    using same_ready [OF v(6,7)] takes(2) by simp_all
  have v_offered: "offered ?v"
  proof (rule markProjectReady_offers)
    fix p' assume "ready u p' \<noteq> {}"
    then show "p' = p \<or> p' \<in> sc_readyProjectSet u"
      using others [of p'] parts by (cases "p' = p") (auto simp: u simp del: split_paired_All)
  qed (use p u in simp_all)
  have finite_left: "finite (dom (sc_queues s) - ?A)" using parts by (simp add: counted_def)
  have card_A: "finite ?A"
    using parts by (metis List.finite_set started_runs_def)
  have round: "pump_round s = (case r of None \<Rightarrow> ?v | Some k \<Rightarrow>
      (case sc_queues s k of None \<Rightarrow> ?v
       | Some q \<Rightarrow> ?v\<lparr>sc_activeDomains := insert k ?A, sc_running := sc_running s @ [(k, q)]\<rparr>))"
    using p(1) taken projects v by (simp add: pump_round_def Let_def split: option.split)
  have "structured (pump_round s) \<and> rounds_left (pump_round s) < rounds_left s \<and>
    card (sc_activeDomains (pump_round s)) \<le> Suc (card ?A)"
  proof (cases r)
    case None
    then have empty: "ready u p = {}" "ready s p = {}" using takes(4) s_ready by simp_all
    then have "?v = u" by (simp add: markProjectReady_def ready_def)
    moreover have "ready u p' = ready s p'" for p' using others empty by (cases "p' = p") auto
    ultimately show ?thesis
      using None parts v v_offered v_ready projects u
      by (auto simp: round structured_def same_parts [of u s] rounds_left_def)
  next
    case (Some k)
    then have k: "k \<in> ready s p" "ready u p = ready s p - {k}" using takes(5) s_ready by simp_all
    then obtain q where q: "sc_queues s k = Some q" "qd_projectId q = p" "k \<notin> ?A"
      using parts by (auto simp: domains_of_def)
    let ?w = "?v\<lparr>sc_activeDomains := insert k ?A, sc_running := sc_running s @ [(k, q)]\<rparr>"
    have w: "pump_round s = ?w" using round Some q by simp
    have w_ready: "ready ?w p' = domains_of s p' - insert k ?A" for p'
    proof -
      have "ready ?w p' = ready u p'" using v_ready(1) same_ready(1) [of ?w ?v] by simp
      then show ?thesis
        using k others [of p'] parts q by (cases "p' = p") (auto simp: domains_of_def)
    qed
    have "k \<notin> fst ` set (sc_running s)" using q(3) parts by (auto simp: started_runs_def)
    then have runs: "started_runs ?w" using parts q by (auto simp: started_runs_def v)
    have "offered ?w" using v_offered same_ready(1) [of ?w ?v] by (simp add: offered_def)
    moreover have "ready_listed ?w" using v_ready(2) same_ready(2) [of ?w ?v] by simp
    ultimately have "structured ?w"
      using parts runs w_ready by (simp add: structured_def same_parts(1,2) [of ?w s] v)
    moreover have "card (dom (sc_queues s) - insert k ?A) < card (dom (sc_queues s) - ?A)"
      by (rule psubset_card_mono [OF finite_left]) (use q in auto)
    moreover have "length (sc_readyProjects ?v) \<le> Suc (length ps)"
      by (simp add: markProjectReady_def u)
    ultimately show ?thesis
      using projects card_A by (simp add: w rounds_left_def v card_insert_if)
  qed
  then show "structured (pump_round s)" "rounds_left (pump_round s) < rounds_left s"
    "card (sc_activeDomains (pump_round s)) \<le> Suc (card ?A)" by blast+
qed

text \<open>The bound on the rounds is enough: the loop ends because its condition fails.\<close>

lemma pump_rounds_end:
  assumes "structured s" "card (sc_activeDomains s) \<le> so_concurrency options" "rounds_left s \<le> n"
  shows "structured (pump_rounds n options s) \<and>
    card (sc_activeDomains (pump_rounds n options s)) \<le> so_concurrency options \<and>
    books (pump_rounds n options s) = books s \<and> \<not> pumping options (pump_rounds n options s)"
  using assms
proof (induction n arbitrary: s)
  case 0
  then show ?case by (simp add: pumping_def rounds_left_def)
next
  case (Suc n)
  show ?case
  proof (cases "pumping options s")
    case True
    then have more: "sc_readyProjects s \<noteq> []" "card (sc_activeDomains s) < so_concurrency options"
      by (simp_all add: pumping_def)
    note round = pump_round_structured [OF Suc.prems(1) more(1)]
    have "card (sc_activeDomains (pump_round s)) \<le> so_concurrency options" "rounds_left (pump_round s) \<le> n"
      using round more(2) Suc.prems(3) by simp_all
    from Suc.IH [OF round(1) this] True books_round [of s] show ?thesis by simp
  qed (use Suc.prems in simp)
qed

lemma pump_ends:
  assumes "structured s" "card (sc_activeDomains s) \<le> so_concurrency options"
  shows "structured (pump options s)" "card (sc_activeDomains (pump options s)) \<le> so_concurrency options"
    "books (pump options s) = books s" "\<not> pumping options (pump options s)"
proof -
  have "card (dom (sc_queues s) - sc_activeDomains s) \<le> card (dom (sc_queues s))"
    using assms(1) by (intro card_mono) (auto simp: structured_def counted_def)
  then have "rounds_left s \<le> rounds s"
    using assms(1) by (simp add: rounds_left_def rounds_def structured_def counted_def)
  from pump_rounds_end [OF assms this]
  show "structured (pump options s)" "card (sc_activeDomains (pump options s)) \<le> so_concurrency options"
    "books (pump options s) = books s" "\<not> pumping options (pump options s)"
    by (simp_all add: pump_def)
qed

section \<open>Making room\<close>

definition evicted :: "ident \<Rightarrow> ident \<Rightarrow> 'e scheduler \<Rightarrow> 'e scheduler \<Rightarrow> bool" where
  "evicted p k s t \<longleftrightarrow>
     k \<in> domains_of s p \<and> k \<notin> sc_activeDomains s \<and> sc_queues t = (sc_queues s)(k := None) \<and>
     sc_domainDeferred t = (sc_domainDeferred s)(k := None) \<and> sc_deferred t = sc_deferred s + 1 \<and>
     sc_dispatched t = sc_dispatched s \<and> sc_firstError t = sc_firstError s"

text \<open>What an attempt to make room does.\<close>

definition tried :: "ident set \<Rightarrow> 'e scheduler \<Rightarrow> bool \<Rightarrow> 'e scheduler \<Rightarrow> bool" where
  "tried P s made t \<longleftrightarrow>
     structured t \<and> sc_activeDomains t = sc_activeDomains s \<and> sc_readyProjects t = sc_readyProjects s \<and>
     (if made then \<exists>p \<in> P. \<exists>k. evicted p k s t else books t = books s)"

lemma evictQueuedCandidate_tries:
  assumes "structured s" "evictQueuedCandidate p s = (made, t)"
  shows "tried {p} s made t"
proof -
  note parts = assms(1) [unfolded structured_def]
  obtain r u where taken: "takeReadyDomain p s = (r, u)" by fastforce
  note takes = takeReadyDomain_takes [OF _ taken]
  have listed: "ready_listed s" using parts by simp
  have u: "sc_queues u = sc_queues s" "sc_activeDomains u = sc_activeDomains s" "sc_running u = sc_running s"
    "sc_buffered u = sc_buffered s" "sc_projectRetained u = sc_projectRetained s"
    "sc_readyProjects u = sc_readyProjects s" "sc_readyProjectSet u = sc_readyProjectSet s"
    "sc_domainDeferred u = sc_domainDeferred s" "sc_deferred u = sc_deferred s"
    "sc_dispatched u = sc_dispatched s" "sc_firstError u = sc_firstError s" "books u = books s"
    by (subst takes(1) [OF listed], simp add: books_eq)+
  have others: "ready u p' = ready s p'" if "p' \<noteq> p" for p'
    using takes(3) [OF listed that] .
  show ?thesis
  proof (cases r)
    case None
    then have empty: "ready u p = {}" "ready s p = {}" using takes(4) [OF listed] by simp_all
    then have same: "ready u p' = ready s p'" for p' using others by (cases "p' = p") auto
    have "t = u" "\<not> made" using assms(2) taken None by (simp_all add: evictQueuedCandidate_def)
    moreover have "structured u"
      using parts takes(2) [OF listed] same
      by (simp add: structured_def same_parts [OF u(1)] u offered_def)
    ultimately show ?thesis by (simp add: tried_def u)
  next
    case (Some k)
    then have k: "k \<in> ready s p" "ready u p = ready s p - {k}" using takes(5) [OF listed] by simp_all
    then obtain q where q: "sc_queues s k = Some q" "qd_projectId q = p" "k \<notin> sc_activeDomains s"
      using parts by (auto simp: domains_of_def)
    let ?v = "changeProjectRetained p (-1)
      (u\<lparr>sc_queues := (sc_queues u)(k := None), sc_buffered := sc_buffered u - 1\<rparr>)"
    have made: "made" "t = ?v\<lparr>sc_deferred := sc_deferred u + 1, sc_domainDeferred := (sc_domainDeferred u)(k := None)\<rparr>"
      using assms(2) taken Some q
      by (auto simp: evictQueuedCandidate_def u Let_def changeProjectRetained_def)
    have t: "sc_queues t = (sc_queues s)(k := None)" "sc_activeDomains t = sc_activeDomains s"
      "sc_running t = sc_running s" "sc_readyProjects t = sc_readyProjects s"
      "sc_readyProjectSet t = sc_readyProjectSet s" "sc_projectReadyDomains t = sc_projectReadyDomains u"
      "sc_projectReadyDomainSets t = sc_projectReadyDomainSets u"
      "sc_domainDeferred t = (sc_domainDeferred s)(k := None)" "sc_deferred t = sc_deferred s + 1"
      "sc_dispatched t = sc_dispatched s" "sc_firstError t = sc_firstError s"
      unfolding made(2) by (subst changeProjectRetained_only, simp add: u)+
    have "counted u" using parts same_parts(2) [OF u(1,4,5)] by simp
    then have "counted ?v" by (rule counted_remove [where q = q]) (simp_all add: q u)
    moreover have "sc_queues t = sc_queues ?v" "sc_buffered t = sc_buffered ?v"
      "sc_projectRetained t = sc_projectRetained ?v"
      unfolding made(2) by simp_all
    ultimately have "counted t" using same_parts(2) [of t ?v] by simp
    moreover have "started_runs t"
    proof -
      have "k \<notin> fst ` set (sc_running s)" using parts q(3) by (simp add: started_runs_def)
      then have "k' \<noteq> k" if "(k', q') \<in> set (sc_running s)" for k' q' using that by force
      then show ?thesis using parts unfolding started_runs_def t by simp
    qed
    moreover have "ready t p' = domains_of t p' - sc_activeDomains t" for p'
    proof -
      have "domains_of t p' = domains_of s p' - {k}" by (auto simp: domains_of_def t split: if_splits)
      moreover have "ready t p' = ready u p'" using same_ready(1) [OF t(6,7)] by simp
      ultimately show ?thesis
        using k others [of p'] parts q by (cases "p' = p") (auto simp: domains_of_def t)
    qed
    moreover have "ready t p' \<subseteq> ready s p'" for p'
      using same_ready(1) [OF t(6,7)] k others [of p'] by (cases "p' = p") auto
    then have "offered t" using parts t(4,5) unfolding offered_def by (metis subset_empty)
    moreover have "ready_listed t" using same_ready(2) [OF t(6,7)] takes(2) [OF listed] by simp
    ultimately have "structured t" by (simp add: structured_def)
    moreover have "evicted p k s t" using k q parts by (simp add: evicted_def t domains_of_def)
    ultimately show ?thesis using made(1) by (auto simp: tried_def t)
  qed
qed

lemma tried_chain:
  assumes "tried P s False u" "tried Q u made t"
  shows "tried (P \<union> Q) s made t"
proof -
  have u: "books u = books s" "sc_activeDomains u = sc_activeDomains s" "sc_readyProjects u = sc_readyProjects s"
    using assms(1) by (simp_all add: tried_def)
  then have fields: "sc_queues u = sc_queues s" "sc_domainDeferred u = sc_domainDeferred s"
    "sc_deferred u = sc_deferred s" "sc_dispatched u = sc_dispatched s" "sc_firstError u = sc_firstError s"
    unfolding books_eq by blast+
  have same: "evicted p k u t = evicted p k s t" for p k
    unfolding evicted_def fields u same_parts(1) [OF fields(1)] ..
  show ?thesis
  proof (cases made)
    case True
    then obtain p k where "p \<in> Q" "evicted p k s t"
      using assms(2) same unfolding tried_def by auto
    then show ?thesis using assms(2) u True unfolding tried_def by auto
  next
    case False
    then show ?thesis using assms(2) u unfolding tried_def by simp
  qed
qed

lemma evict_first_tries:
  "structured s \<Longrightarrow> evict_first ps s = (made, t) \<Longrightarrow> tried (set ps) s made t"
proof (induction ps arbitrary: s)
  case Nil
  then show ?case by (auto simp: tried_def)
next
  case (Cons p ps)
  obtain m u where one: "evictQueuedCandidate p s = (m, u)" by fastforce
  note tries = evictQueuedCandidate_tries [OF Cons.prems(1) one]
  show ?case
  proof (cases m)
    case True
    then have "u = t" "made" using Cons.prems(2) one by auto
    then show ?thesis using tries True by (auto simp: tried_def)
  next
    case False
    then have "tried (set ps) u made t"
      using Cons.IH [of u] Cons.prems(2) one tries by (simp add: tried_def)
    from tries False have "tried {p} s False u" by simp
    from tried_chain [OF this \<open>tried (set ps) u made t\<close>] show ?thesis by simp
  qed
qed

lemma evictForNewProject_tries:
  assumes "structured s" "evictForNewProject p s = (made, t)"
  shows "tried UNIV s made t"
proof -
  have wider: "tried UNIV s m u" if "tried P s m u" for P m u
    using that unfolding tried_def by (metis UNIV_I)
  let ?ps = "map fst (sort_key (\<lambda>(_, n). - n) (filter (\<lambda>(c, n). c \<noteq> p \<and> n > 1) (sc_projectRetained s)))"
  obtain m u where first: "evict_first ?ps s = (m, u)" by fastforce
  note tries = evict_first_tries [OF assms(1) first]
  show ?thesis
  proof (cases m)
    case True
    then have "u = t" "made" using assms(2) first by (auto simp: evictForNewProject_def Let_def)
    then show ?thesis using tries True wider by auto
  next
    case False
    then have "evictQueuedCandidate p u = (made, t)"
      using assms(2) first by (auto simp: evictForNewProject_def Let_def)
    then have "tried {p} u made t"
      by (rule evictQueuedCandidate_tries [rotated]) (use tries in \<open>simp add: tried_def\<close>)
    with tries False have "tried (set ?ps \<union> {p}) s made t"
      using tried_chain [of "set ?ps" s u "{p}" made t] by simp
    then show ?thesis by (rule wider)
  qed
qed

section \<open>Admitting and finishing\<close>

definition within :: "scheduler_options \<Rightarrow> 'e scheduler \<Rightarrow> bool" where
  "within options s \<longleftrightarrow>
     card (sc_activeDomains s) \<le> so_concurrency options \<and> sc_buffered s \<le> so_bufferLimit options \<and>
     (\<forall>p. retained s p \<le> so_projectLimit options) \<and> \<not> pumping options s"

definition first_error :: "'e option \<Rightarrow> 'e option \<Rightarrow> 'e option" where
  "first_error old new = (case old of None \<Rightarrow> new | Some e \<Rightarrow> Some e)"

lemma notify_fields:
  "sc_queues (notifyRetainedChanged x s) = sc_queues s"
  "sc_domainDeferred (notifyRetainedChanged x s) = sc_domainDeferred s"
  "sc_projectRetained (notifyRetainedChanged x s) = sc_projectRetained s"
  "sc_buffered (notifyRetainedChanged x s) = sc_buffered s"
  "sc_deferred (notifyRetainedChanged x s) = sc_deferred s"
  "sc_dispatched (notifyRetainedChanged x s) = sc_dispatched s"
  "sc_activeDomains (notifyRetainedChanged x s) = sc_activeDomains s"
  "sc_running (notifyRetainedChanged x s) = sc_running s"
  "sc_readyProjects (notifyRetainedChanged x s) = sc_readyProjects s"
  "sc_readyProjectSet (notifyRetainedChanged x s) = sc_readyProjectSet s"
  "sc_projectReadyDomains (notifyRetainedChanged x s) = sc_projectReadyDomains s"
  "sc_projectReadyDomainSets (notifyRetainedChanged x s) = sc_projectReadyDomainSets s"
  "sc_firstError (notifyRetainedChanged x s) = first_error (sc_firstError s) x"
  "sc_drainWaiters (notifyRetainedChanged x s) = (if sc_buffered s = 0 then [] else sc_drainWaiters s)"
  by (simp_all add: notifyRetainedChanged_def Let_def first_error_def split: option.split)

lemma notify_structured: "structured (notifyRetainedChanged x s) = structured s"
  by (simp add: structured_def same_parts [of "notifyRetainedChanged x s" s]
      same_ready [of "notifyRetainedChanged x s" s] notify_fields offered_def)

lemma notify_within: "within options (notifyRetainedChanged x s) = within options s"
  by (simp add: within_def notify_fields pumping_def retained_def)

text \<open>The books of a scheduler after a call, compared with those before.\<close>

definition pumped :: "scheduler_options \<Rightarrow> 'e option \<Rightarrow> 'e scheduler \<Rightarrow> 'e scheduler \<Rightarrow> bool" where
  "pumped options thrown v t \<longleftrightarrow>
     structured t \<and> within options t \<and> sc_buffered t = sc_buffered v \<and>
     sc_queues t = sc_queues v \<and> sc_domainDeferred t = sc_domainDeferred v \<and>
     sc_deferred t = sc_deferred v \<and> sc_dispatched t = sc_dispatched v \<and>
     sc_firstError t = first_error (sc_firstError v) thrown \<and>
     sc_drainWaiters t = (if sc_buffered v = 0 then [] else sc_drainWaiters v)"

lemma pump_notify:
  assumes "structured v" "card (sc_activeDomains v) \<le> so_concurrency options"
    "sc_buffered v \<le> so_bufferLimit options" "\<And>p. retained v p \<le> so_projectLimit options"
  shows "pumped options thrown v (notifyRetainedChanged thrown (pump options v))"
proof -
  note ends = pump_ends [OF assms(1,2)]
  from ends(3) have same: "sc_queues (pump options v) = sc_queues v" "sc_buffered (pump options v) = sc_buffered v"
    "sc_domainDeferred (pump options v) = sc_domainDeferred v" "sc_deferred (pump options v) = sc_deferred v"
    "sc_dispatched (pump options v) = sc_dispatched v" "sc_firstError (pump options v) = sc_firstError v"
    "sc_projectRetained (pump options v) = sc_projectRetained v" "sc_drainWaiters (pump options v) = sc_drainWaiters v"
    unfolding books_eq by blast+
  have "within options (pump options v)"
    using ends assms(3,4) by (simp add: within_def same retained_def)
  then show ?thesis
    using ends(1) by (simp add: pumped_def notify_structured notify_within notify_fields same)
qed

lemma admit_admits:
  assumes "structured s" "card (sc_activeDomains s) \<le> so_concurrency options"
    "sc_queues s (attentionConflictDomain attention) = None" "sc_buffered s < so_bufferLimit options"
    "retained s (atv_projectId attention) < so_projectLimit options" "\<And>p. retained s p \<le> so_projectLimit options"
  obtains v q where "pumped options thrown v (admit options thrown attention s)"
    "sc_queues v = (sc_queues s)(attentionConflictDomain attention \<mapsto> q)" "qd_attention q = attention"
    "sc_domainDeferred v = sc_domainDeferred s" "sc_deferred v = sc_deferred s"
    "sc_dispatched v = sc_dispatched s" "sc_firstError v = sc_firstError s" "sc_buffered v = sc_buffered s + 1"
    "sc_drainWaiters v = sc_drainWaiters s"
proof -
  let ?k = "attentionConflictDomain attention" and ?p = "atv_projectId attention"
  let ?q = "\<lparr>qd_identity = sc_objects s, qd_attention = attention, qd_projectId = ?p\<rparr>"
  obtain u where u_def: "u = changeProjectRetained ?p 1 (s\<lparr>sc_queues := (sc_queues s)(?k \<mapsto> ?q),
      sc_objects := sc_objects s + 1, sc_buffered := sc_buffered s + 1\<rparr>)" by blast
  obtain v where v_def: "v = markReady ?p ?k u" by blast
  note parts = assms(1) [unfolded structured_def]
  have u: "sc_queues u = (sc_queues s)(?k \<mapsto> ?q)" "sc_activeDomains u = sc_activeDomains s"
    "sc_running u = sc_running s" "sc_buffered u = sc_buffered s + 1"
    "sc_readyProjects u = sc_readyProjects s" "sc_readyProjectSet u = sc_readyProjectSet s"
    "sc_projectReadyDomains u = sc_projectReadyDomains s"
    "sc_projectReadyDomainSets u = sc_projectReadyDomainSets s"
    "sc_domainDeferred u = sc_domainDeferred s" "sc_deferred u = sc_deferred s"
    "sc_dispatched u = sc_dispatched s" "sc_firstError u = sc_firstError s" "sc_drainWaiters u = sc_drainWaiters s"
    unfolding u_def by (subst changeProjectRetained_only, simp)+
  have counted: "counted u"
    by (rule counted_insert [of s ?k ?q u]) (use parts assms(3) u_def in simp_all)
  have fresh: "?k \<notin> sc_activeDomains s" "?k \<notin> domains_of s p" "?k \<notin> ready s p" for p
    using active_retained [of s] parts assms(3) by (auto simp: domains_of_def)
  obtain w where w_def: "w = u\<lparr>sc_projectReadyDomainSets := (sc_projectReadyDomainSets s)(?p \<mapsto> insert ?k (ready s ?p)),
      sc_projectReadyDomains := (sc_projectReadyDomains s)(?p \<mapsto> ready_order s ?p @ [?k])\<rparr>" by blast
  have w_fields: "sc_readyProjects w = sc_readyProjects s" "sc_readyProjectSet w = sc_readyProjectSet s"
    by (simp_all add: w_def u)
  have v: "v = markProjectReady ?p w"
    using fresh by (simp add: v_def w_def markReady_def Let_def u ready_def ready_order_def)
  have v_fields: "books v = books u" "sc_activeDomains v = sc_activeDomains s" "sc_running v = sc_running s"
    "sc_projectReadyDomains v = sc_projectReadyDomains w"
    "sc_projectReadyDomainSets v = sc_projectReadyDomainSets w"
    unfolding v books_offer by (simp_all add: books_eq markProjectReady_def u w_def)
  then have v_books: "sc_queues v = sc_queues u" "sc_buffered v = sc_buffered u"
    "sc_projectRetained v = sc_projectRetained u" "sc_domainDeferred v = sc_domainDeferred u"
    "sc_deferred v = sc_deferred u" "sc_dispatched v = sc_dispatched u"
    "sc_firstError v = sc_firstError u" "sc_drainWaiters v = sc_drainWaiters u"
    unfolding books_eq by blast+
  have w_ready: "ready w p = (if p = ?p then insert ?k (ready s p) else ready s p)" for p
    by (simp add: ready_def u w_def)
  have v_ready: "ready v = ready w" using same_ready(1) [OF v_fields(4,5)] .
  have domains: "domains_of v p = (if p = ?p then insert ?k (domains_of s p) else domains_of s p)" for p
    using fresh(2) assms(3) by (auto simp: domains_of_def v_books u split: if_splits)
  have "counted v" using counted same_parts(2) [OF v_books(1,2,3)] by simp
  moreover have "started_runs v"
  proof -
    have "k \<noteq> ?k" if "(k, q) \<in> set (sc_running s)" for k q
      using that parts assms(3) by (auto simp: started_runs_def)
    then show ?thesis using parts unfolding started_runs_def v_fields v_books u by simp
  qed
  moreover have "offered v"
    unfolding v
    by (rule markProjectReady_offers)
       (use parts in \<open>auto simp: u w_ready w_fields offered_def split: if_splits\<close>)
  moreover have "ready_listed v"
  proof -
    have "ready_listed w"
      using parts fresh(3) [of ?p] unfolding ready_listed_def w_ready by (simp add: ready_order_def u w_def)
    then show ?thesis using same_ready(2) [OF v_fields(4,5)] by simp
  qed
  moreover have "ready v p = domains_of v p - sc_activeDomains v" for p
    using parts fresh(1) unfolding v_ready domains w_ready v_fields by auto
  ultimately have structured: "structured v" by (simp add: structured_def)
  have retained: "retained v p = retained s p + (if p = ?p then 1 else 0)" for p
  proof -
    have "retained v p = retained u p" by (simp add: retained_def v_books)
    also have "\<dots> = retained s p + (if p = ?p then 1 else 0)"
      unfolding u_def retained_change by (simp add: retained_def)
    finally show ?thesis .
  qed
  have "pumped options thrown v (notifyRetainedChanged thrown (pump options v))"
    by (rule pump_notify [OF structured])
       (use assms retained in \<open>simp_all add: v_fields v_books u\<close>)
  moreover have "admit options thrown attention s = notifyRetainedChanged thrown (pump options v)"
    by (simp add: admit_def Let_def v_def u_def)
  ultimately show ?thesis
    using that [of v ?q] v_books u by simp
qed

lemma retained_bounded:
  assumes "counted s" "counted t" "\<And>p. domains_of t p \<subseteq> domains_of s p"
  shows "retained t p \<le> retained s p"
proof -
  have "card (domains_of t p) \<le> card (domains_of s p)"
    by (rule card_mono [OF finite_domains_of [OF assms(1)] assms(3)])
  then show ?thesis using assms(1,2) by (simp add: counted_def)
qed

text \<open>The end of a run, before others are started in its place.\<close>

lemma finish_finishes:
  assumes "structured s" "within options s" "(key, queued) \<in> set (sc_running s)"
  obtains v where "pumped options thrown v (finish_run options thrown key queued result s)"
    "sc_queues s key = Some queued" "sc_queues v = (sc_queues s)(key := None)"
    "sc_domainDeferred v = (sc_domainDeferred s)(key := None)"
    "sc_deferred v = sc_deferred s +
       (let n = entry 0 (sc_domainDeferred s key) in
        case result of Blocked \<Rightarrow> - n | Retry \<Rightarrow> if n = 0 then 1 else 0 | _ \<Rightarrow> 0)"
    "sc_dispatched v = sc_dispatched s + (case result of Dispatched \<Rightarrow> 1 | _ \<Rightarrow> 0)"
    "sc_firstError v = (case result of DispatchError e \<Rightarrow> first_error (sc_firstError s) (Some e) | _ \<Rightarrow> sc_firstError s)"
    "sc_buffered v = sc_buffered s - 1" "sc_drainWaiters v = sc_drainWaiters s"
proof -
  note parts = assms(1) [unfolded structured_def]
  have q: "sc_queues s key = Some queued" "key \<in> sc_activeDomains s"
    using parts assms(3) by (force simp: started_runs_def)+
  let ?n = "entry 0 (sc_domainDeferred s key)"
  obtain u where u_def: "u = changeProjectRetained (qd_projectId queued) (-1)
    (s\<lparr>sc_queues := (sc_queues s)(key := None), sc_buffered := sc_buffered s - 1\<rparr>)" by blast
  have u: "sc_queues u = (sc_queues s)(key := None)" "sc_buffered u = sc_buffered s - 1"
    unfolding u_def by (subst changeProjectRetained_only, simp)+
  have u_counted: "counted u" by (rule counted_remove [OF _ q(1) u_def]) (use parts in simp)
  obtain v where v_def: "v = s\<lparr>
      sc_queues := (sc_queues s)(key := None), sc_buffered := sc_buffered s - 1,
      sc_projectRetained := sc_projectRetained u,
      sc_activeDomains := sc_activeDomains s - {key}, sc_running := remove1 (key, queued) (sc_running s),
      sc_domainDeferred := (sc_domainDeferred s)(key := None),
      sc_dispatched := sc_dispatched s + (case result of Dispatched \<Rightarrow> 1 | _ \<Rightarrow> 0),
      sc_firstError := (case result of DispatchError e \<Rightarrow> first_error (sc_firstError s) (Some e) | _ \<Rightarrow> sc_firstError s),
      sc_deferred := sc_deferred s +
        (case result of Blocked \<Rightarrow> - ?n | Retry \<Rightarrow> if ?n = 0 then 1 else 0 | _ \<Rightarrow> 0)\<rparr>" by blast
  have run: "finish_run options thrown key queued result s = notifyRetainedChanged thrown (pump options v)"
    using q(1)
    by (cases result; cases "retained s (qd_projectId queued) = 1")
       (auto simp: finish_run_def v_def u_def Let_def changeProjectRetained_def retained_def first_error_def
         split: option.split intro!: arg_cong [where f = "\<lambda>s. notifyRetainedChanged thrown (pump options s)"])
  have counted: "counted v"
    using u_counted same_parts(2) [of v u] by (simp add: v_def u)
  have domains: "domains_of v p = domains_of s p - {key}" for p
    by (auto simp: domains_of_def v_def split: if_splits)
  have runs: "distinct (map fst (sc_running s))" "set (map fst (sc_running s)) = sc_activeDomains s"
    using parts by (simp_all add: started_runs_def)
  have started: "started_runs v"
  proof -
    have only: "q' = queued" if "(key, q') \<in> set (sc_running s)" for q'
      using that parts q(1) by (auto simp: started_runs_def)
    have "set (sc_running v) = set (sc_running s) - {(key, queued)}"
      using runs(1) by (simp add: v_def set_remove1_eq distinct_map)
    then have members: "(k, q') \<in> set (sc_running v) \<longleftrightarrow> (k, q') \<in> set (sc_running s) \<and> k \<noteq> key" for k q'
      using only by auto
    then have "fst ` set (sc_running v) = fst ` set (sc_running s) - {key}" by force
    moreover have "distinct (map fst (sc_running v))"
      using runs(1) by (simp add: v_def distinct_map inj_on_def distinct_remove1 notin_set_remove1)
    ultimately show ?thesis
      using parts members runs(2) unfolding started_runs_def by (simp add: v_def)
  qed
  have ready: "ready v = ready s" "ready_listed v = ready_listed s"
    by (rule same_ready; simp add: v_def)+
  have "key \<notin> ready s p" for p using parts q(2) by simp
  then have "structured v"
    using parts counted started domains ready
    by (auto simp: structured_def offered_def v_def)
  moreover have "card (sc_activeDomains v) \<le> so_concurrency options"
    using assms(2) card_Diff1_le [of "sc_activeDomains s" key] by (simp add: within_def v_def)
  moreover have "retained v p \<le> so_projectLimit options" for p
    using retained_bounded [OF _ counted, of s p] parts domains assms(2)
    by (force simp: within_def intro: order_trans)
  ultimately have "pumped options thrown v (notifyRetainedChanged thrown (pump options v))"
    using assms(2) by (intro pump_notify) (simp_all add: within_def v_def)
  then show ?thesis
    using that [of v] q(1) run by (simp add: v_def Let_def)
qed

section \<open>The accounts\<close>

text \<open>
  What \<open>deferred\<close> counts beyond the attentions that are waiting behind a retained one of their
  domain; and why an attention given to the scheduler has not been lost.
\<close>

definition extra :: "'e scheduler \<Rightarrow> int" where
  "extra s = sc_deferred s - (\<Sum>k \<in> dom (sc_domainDeferred s). the (sc_domainDeferred s k))"

definition excused :: "'e happening list \<Rightarrow> 'e scheduler \<Rightarrow> attention_view \<Rightarrow> bool" where
  "excused trace s a \<longleftrightarrow>
     RunEnded a Dispatched \<in> set trace \<or>
     (\<exists>b. attentionConflictDomain b = attentionConflictDomain a \<and> RunEnded b Blocked \<in> set trace) \<or>
     (\<exists>q. sc_queues s (attentionConflictDomain a) = Some q \<and> qd_attention q = a) \<or>
     attentionConflictDomain a \<in> dom (sc_domainDeferred s) \<or> 1 \<le> extra s \<or> sc_firstError s \<noteq> None"

definition is_dispatched :: "'e happening \<Rightarrow> bool" where
  "is_dispatched h = (case h of RunEnded _ Dispatched \<Rightarrow> True | _ \<Rightarrow> False)"

definition accounts :: "'e happening list \<Rightarrow> 'e scheduler \<Rightarrow> bool" where
  "accounts trace s \<longleftrightarrow>
     finite (dom (sc_domainDeferred s)) \<and> dom (sc_domainDeferred s) \<subseteq> dom (sc_queues s) \<and>
     (\<forall>k n. sc_domainDeferred s k = Some n \<longrightarrow> 1 \<le> n) \<and> 0 \<le> extra s \<and>
     sc_dispatched s = int (length (filter is_dispatched trace)) \<and>
     (\<forall>a r. Enqueued a r \<in> set trace \<longrightarrow> excused trace s a)"

lemma sum_entry:
  assumes "finite (dom m)"
  shows "(\<Sum>j \<in> dom m. the (m j)) = (\<Sum>j \<in> dom m - {k}. the (m j)) + (entry 0 (m k) :: int)"
proof (cases "m k")
  case (Some n)
  then have "k \<in> dom m" by blast
  from sum.remove [OF assms this, of "\<lambda>j. the (m j)"] Some show ?thesis by simp
qed (simp add: domIff)

lemma extra_forget:
  assumes "finite (dom (sc_domainDeferred s))" "sc_domainDeferred t = (sc_domainDeferred s)(k := None)"
  shows "extra t = extra s + (sc_deferred t - sc_deferred s) + entry 0 (sc_domainDeferred s k)"
proof -
  let ?m = "sc_domainDeferred s"
  have "(\<Sum>j \<in> dom ?m - {k}. the ((?m(k := None)) j)) = (\<Sum>j \<in> dom ?m - {k}. the (?m j))"
    by (rule sum.cong) auto
  with sum_entry [OF assms(1), of k] show ?thesis by (simp add: extra_def assms(2))
qed

lemma extra_defer:
  assumes "finite (dom (sc_domainDeferred s))"
    "sc_domainDeferred t = (sc_domainDeferred s)(k \<mapsto> entry 0 (sc_domainDeferred s k) + 1)"
    "sc_deferred t = sc_deferred s + 1"
  shows "extra t = extra s"
proof -
  let ?m = "sc_domainDeferred s" and ?n = "sc_domainDeferred t"
  have "finite (dom ?n)" "dom ?n - {k} = dom ?m - {k}" "entry 0 (?n k) = entry 0 (?m k) + 1"
    using assms(1) by (auto simp: assms(2))
  moreover have "(\<Sum>j \<in> dom ?m - {k}. the (?n j)) = (\<Sum>j \<in> dom ?m - {k}. the (?m j))"
    by (rule sum.cong) (auto simp: assms(2))
  ultimately show ?thesis
    using sum_entry [of ?n k] sum_entry [OF assms(1), of k] by (simp add: extra_def assms(3))
qed

lemma excused_more:
  assumes "excused trace s a" "set trace \<subseteq> set trace'"
    "sc_queues t = sc_queues s" "sc_domainDeferred t = sc_domainDeferred s" "extra s \<le> extra t"
    "sc_firstError s \<noteq> None \<Longrightarrow> sc_firstError t \<noteq> None"
  shows "excused trace' t a"
  using assms unfolding excused_def by auto

lemma accounts_pumped:
  assumes "accounts trace v" "pumped options thrown v t"
  shows "accounts trace t"
proof -
  have t: "sc_queues t = sc_queues v" "sc_domainDeferred t = sc_domainDeferred v" "sc_deferred t = sc_deferred v"
    "sc_dispatched t = sc_dispatched v" "sc_firstError t = first_error (sc_firstError v) thrown"
    using assms(2) by (simp_all add: pumped_def)
  have "extra t = extra v" by (simp add: extra_def t)
  moreover have "excused trace t a" if "excused trace v a" for a
    by (rule excused_more [OF that]) (use t calculation in \<open>auto simp: first_error_def\<close>)
  ultimately show ?thesis
    using assms(1) t unfolding accounts_def by auto
qed

lemma accounts_evicted:
  assumes "accounts trace s" "evicted p k s t"
  shows "accounts trace t" "1 \<le> extra t"
proof -
  have t: "sc_queues t = (sc_queues s)(k := None)" "sc_domainDeferred t = (sc_domainDeferred s)(k := None)"
    "sc_deferred t = sc_deferred s + 1" "sc_dispatched t = sc_dispatched s" "sc_firstError t = sc_firstError s"
    using assms(2) by (simp_all add: evicted_def)
  have "0 \<le> entry 0 (sc_domainDeferred s k)"
    using assms(1) by (cases "sc_domainDeferred s k") (auto simp: accounts_def dest: order_trans [OF zero_le_one])
  then show more: "1 \<le> extra t"
    using extra_forget [OF _ t(2)] assms(1) by (simp add: accounts_def t)
  then show "accounts trace t"
    using assms(1) by (auto simp: accounts_def t excused_def split: if_splits)
qed

lemma accounts_finished:
  assumes "accounts trace s" "sc_queues s key = Some queued"
    "key = attentionConflictDomain (qd_attention queued)" "sc_queues v = (sc_queues s)(key := None)"
    "sc_domainDeferred v = (sc_domainDeferred s)(key := None)"
    "sc_deferred v = sc_deferred s +
       (let n = entry 0 (sc_domainDeferred s key) in
        case result of Blocked \<Rightarrow> - n | Retry \<Rightarrow> if n = 0 then 1 else 0 | _ \<Rightarrow> 0)"
    "sc_dispatched v = sc_dispatched s + (case result of Dispatched \<Rightarrow> 1 | _ \<Rightarrow> 0)"
    "sc_firstError v = (case result of DispatchError e \<Rightarrow> first_error (sc_firstError s) (Some e) | _ \<Rightarrow> sc_firstError s)"
  shows "accounts (RunEnded (qd_attention queued) result # trace) v"
proof -
  let ?n = "entry 0 (sc_domainDeferred s key)"
  have n: "0 \<le> ?n" "\<And>y. sc_domainDeferred s key = Some y \<Longrightarrow> 1 \<le> y"
    using assms(1) by (cases "sc_domainDeferred s key"; force simp: accounts_def)+
  have extra: "extra v = extra s +
      (case result of Blocked \<Rightarrow> 0 | Retry \<Rightarrow> if ?n = 0 then 1 else ?n | _ \<Rightarrow> ?n)"
    using extra_forget [OF _ assms(5)] assms(1,6) by (cases result) (auto simp: accounts_def Let_def)
  then have grown: "extra s \<le> extra v" using n by (cases result) auto
  have "0 \<le> extra s" using assms(1) by (simp add: accounts_def)
  note n = n this
  have "excused (RunEnded (qd_attention queued) result # trace) v a" if "excused trace s a" for a
  proof (cases "attentionConflictDomain a = key")
    case False
    then show ?thesis
      using that grown assms(4,5,8) unfolding excused_def
      by (auto simp: first_error_def split: dispatch_result.splits option.splits)
  next
    case True
    then show ?thesis
      using that grown extra n assms(2,3,8) unfolding excused_def
      by (cases result) (auto simp: first_error_def split: if_splits option.splits)
  qed
  then show ?thesis
    using assms(1,4,5,7) grown
    by (auto simp: accounts_def is_dispatched_def split: dispatch_result.split)
qed

text \<open>What is enqueued: admitted, deferred behind its own domain, or deferred for want of room.\<close>

definition valid_options :: "scheduler_options \<Rightarrow> bool" where
  "valid_options options \<longleftrightarrow>
     1 \<le> so_concurrency options \<and> 1 \<le> so_bufferLimit options \<and> 1 \<le> so_projectLimit options"

definition kept_up :: "scheduler_options \<Rightarrow> 'e happening list \<Rightarrow> 'e scheduler \<Rightarrow> bool" where
  "kept_up options trace s \<longleftrightarrow>
     structured s \<and> within options s \<and> accounts trace s \<and> (sc_buffered s = 0 \<longrightarrow> sc_drainWaiters s = [])"

lemma accounts_enqueued:
  assumes "accounts trace s" "sc_queues v = (sc_queues s)(attentionConflictDomain a \<mapsto> q)" "qd_attention q = a"
    "sc_queues s (attentionConflictDomain a) = None" "sc_domainDeferred v = sc_domainDeferred s"
    "sc_deferred v = sc_deferred s" "sc_dispatched v = sc_dispatched s" "sc_firstError v = sc_firstError s"
  shows "accounts (Enqueued a r # trace) v"
proof -
  have "extra v = extra s" by (simp add: extra_def assms(5,6))
  then show ?thesis
    using assms unfolding accounts_def excused_def by (auto simp: is_dispatched_def)
qed

lemma accounts_deferred:
  assumes "accounts trace s" "sc_queues v = sc_queues s" "sc_dispatched v = sc_dispatched s"
    "sc_firstError v = sc_firstError s" "sc_deferred v = sc_deferred s + 1"
    "sc_domainDeferred v = sc_domainDeferred s \<or>
     attentionConflictDomain a \<in> dom (sc_queues s) \<and>
     sc_domainDeferred v =
       (sc_domainDeferred s)(attentionConflictDomain a \<mapsto> entry 0 (sc_domainDeferred s (attentionConflictDomain a)) + 1)"
  shows "accounts (Enqueued a r # trace) v"
proof -
  let ?k = "attentionConflictDomain a"
  from assms(6) show ?thesis
  proof
    assume same: "sc_domainDeferred v = sc_domainDeferred s"
    then have "extra v = extra s + 1" by (simp add: extra_def assms(5))
    then show ?thesis
      using assms(1-4) same unfolding accounts_def excused_def by (auto simp: is_dispatched_def)
  next
    assume more: "?k \<in> dom (sc_queues s) \<and>
      sc_domainDeferred v = (sc_domainDeferred s)(?k \<mapsto> entry 0 (sc_domainDeferred s ?k) + 1)"
    then have "extra v = extra s"
      using extra_defer [of s v ?k] assms(1,5) by (simp add: accounts_def)
    moreover have "1 \<le> entry 0 (sc_domainDeferred s ?k) + 1"
      using assms(1) by (cases "sc_domainDeferred s ?k") (force simp: accounts_def)+
    ultimately show ?thesis
      using assms(1-4) more unfolding accounts_def excused_def by (auto simp: is_dispatched_def)
  qed
qed

lemma within_cong:
  assumes "within options s" "sc_activeDomains t = sc_activeDomains s" "sc_buffered t = sc_buffered s"
    "sc_projectRetained t = sc_projectRetained s" "sc_readyProjects t = sc_readyProjects s"
  shows "within options t"
  using assms by (simp add: within_def pumping_def retained_def)

lemma structured_cong:
  assumes "structured s" "sc_activeDomains t = sc_activeDomains s" "sc_buffered t = sc_buffered s"
    "sc_projectRetained t = sc_projectRetained s" "sc_readyProjects t = sc_readyProjects s"
    "sc_queues t = sc_queues s" "sc_running t = sc_running s" "sc_readyProjectSet t = sc_readyProjectSet s"
    "sc_projectReadyDomains t = sc_projectReadyDomains s" "sc_projectReadyDomainSets t = sc_projectReadyDomainSets s"
  shows "structured t"
  using assms by (simp add: structured_def same_parts [of t s] same_ready [of t s] offered_def)

text \<open>An attention that found no room, and one that found it after an eviction.\<close>

lemma dropped_kept_up:
  assumes "kept_up options trace s" "tried P s False u"
  shows "kept_up options (Enqueued a r # trace) (u\<lparr>sc_deferred := sc_deferred u + 1\<rparr>)"
proof -
  have u: "structured u" "books u = books s" "sc_activeDomains u = sc_activeDomains s"
    "sc_readyProjects u = sc_readyProjects s"
    using assms(2) by (simp_all add: tried_def)
  let ?t = "u\<lparr>sc_deferred := sc_deferred u + 1\<rparr>"
  have "structured ?t" by (rule structured_cong [OF u(1)]) simp_all
  moreover have "within options ?t"
    by (rule within_cong [of _ s]) (use assms(1) u in \<open>simp_all add: kept_up_def books_eq\<close>)
  moreover have "accounts (Enqueued a r # trace) ?t"
    by (rule accounts_deferred [of _ s]) (use assms(1) u in \<open>simp_all add: kept_up_def books_eq\<close>)
  ultimately show ?thesis using assms(1) u(2) by (simp add: kept_up_def books_eq)
qed

lemma admit_kept_up:
  assumes "structured s" "accounts trace s" "card (sc_activeDomains s) \<le> so_concurrency options"
    "sc_queues s (attentionConflictDomain a) = None" "sc_buffered s < so_bufferLimit options"
    "retained s (atv_projectId a) < so_projectLimit options" "\<And>p. retained s p \<le> so_projectLimit options"
  shows "kept_up options (Enqueued a r # trace) (admit options thrown a s)"
proof -
  obtain v q where v: "pumped options thrown v (admit options thrown a s)"
    "sc_queues v = (sc_queues s)(attentionConflictDomain a \<mapsto> q)" "qd_attention q = a"
    "sc_domainDeferred v = sc_domainDeferred s" "sc_deferred v = sc_deferred s"
    "sc_dispatched v = sc_dispatched s" "sc_firstError v = sc_firstError s"
    by (rule admit_admits [OF assms(1,3,4,5,6,7), of thrown]) blast
  have "accounts (Enqueued a r # trace) v"
    by (rule accounts_enqueued [OF assms(2) v(2,3) assms(4) v(4-7)])
  from accounts_pumped [OF this v(1)] v(1) show ?thesis by (simp add: kept_up_def pumped_def)
qed

lemma evicted_counts:
  assumes "structured s" "structured t" "evicted p k s t"
  shows "sc_buffered t = sc_buffered s - 1" "retained t p = retained s p - 1" "retained t p' \<le> retained s p'"
proof -
  have counted: "counted s" "counted t" using assms(1,2) by (simp_all add: structured_def)
  have k: "k \<in> domains_of s p" and queues: "sc_queues t = (sc_queues s)(k := None)"
    using assms(3) by (simp_all add: evicted_def)
  have domains: "domains_of t p' = domains_of s p' - {k}" for p'
    by (auto simp: domains_of_def queues split: if_splits)
  have "k \<in> dom (sc_queues s)" using k by (auto simp: domains_of_def)
  then show "sc_buffered t = sc_buffered s - 1"
    using counted less_one_card [of "dom (sc_queues s)" k] by (simp add: counted_def queues)
  show "retained t p = retained s p - 1"
    using counted k less_one_card [OF finite_domains_of [OF counted(1)] k] by (simp add: counted_def domains)
  show "retained t p' \<le> retained s p'"
    by (rule retained_bounded [OF counted]) (simp add: domains Diff_subset)
qed

lemma enqueue_kept_up:
  assumes "kept_up options trace s" "valid_options options" "enqueue options thrown a s = (r, t)"
  shows "kept_up options (Enqueued a r # trace) t"
proof -
  let ?k = "attentionConflictDomain a" and ?p = "atv_projectId a"
  have s: "structured s" "within options s" "accounts trace s" using assms(1) by (simp_all add: kept_up_def)
  have limits: "card (sc_activeDomains s) \<le> so_concurrency options" "sc_buffered s \<le> so_bufferLimit options"
    "\<And>p. retained s p \<le> so_projectLimit options" using s(2) by (simp_all add: within_def)
  have dropped: "kept_up options (Enqueued a r # trace) t" if "tried P s False u" "t = u\<lparr>sc_deferred := sc_deferred u + 1\<rparr>" for P u
    using dropped_kept_up [OF assms(1) that(1)] that(2) by simp
  have admitted: "kept_up options (Enqueued a r # trace) (admit options thrown a u)"
    if tr: "tried P s True u" and absent: "sc_queues s ?k = None"
      and limit: "P = {?p} \<or> retained s ?p < so_projectLimit options" for P u
  proof -
    obtain p k where u: "p \<in> P" "evicted p k s u" "structured u" "sc_activeDomains u = sc_activeDomains s"
      using tr by (auto simp: tried_def)
    note counts = evicted_counts [OF s(1) u(3,2)]
    show ?thesis
    proof (rule admit_kept_up)
      show "accounts trace u" by (rule accounts_evicted [OF s(3) u(2)])
      show "sc_queues u ?k = None" using u(2) absent by (simp add: evicted_def)
      show "retained u ?p < so_projectLimit options"
        using limit u(1) counts limits(3) [of ?p] by (force intro: le_less_trans)
      show "retained u p' \<le> so_projectLimit options" for p'
        using counts(3) limits(3) by (rule order_trans)
    qed (use u limits counts in simp_all)
  qed
  consider (own) "sc_queues s ?k \<noteq> None \<or> ?k \<in> sc_activeDomains s"
    | (project) "sc_queues s ?k = None" "?k \<notin> sc_activeDomains s" "retained s ?p \<ge> so_projectLimit options"
    | (buffer) "sc_queues s ?k = None" "?k \<notin> sc_activeDomains s" "retained s ?p < so_projectLimit options"
        "sc_buffered s \<ge> so_bufferLimit options"
    | (room) "sc_queues s ?k = None" "?k \<notin> sc_activeDomains s" "retained s ?p < so_projectLimit options"
        "sc_buffered s < so_bufferLimit options"
    by force
  then show ?thesis
  proof cases
    case own
    then have t: "t = s\<lparr>sc_deferred := sc_deferred s + 1,
        sc_domainDeferred := (sc_domainDeferred s)(?k \<mapsto> entry 0 (sc_domainDeferred s ?k) + 1)\<rparr>"
      using assms(3) by (auto simp: enqueue_def Let_def)
    have "?k \<in> dom (sc_queues s)"
      using own active_retained [of s] s(1) by (auto simp: structured_def)
    then have "accounts (Enqueued a r # trace) t"
      using accounts_deferred [OF s(3), of t a r] by (simp add: t)
    moreover have "structured t" "within options t"
      using structured_cong [OF s(1), of t] within_cong [OF s(2), of t] by (simp_all add: t)
    ultimately show ?thesis using assms(1) by (simp add: kept_up_def t)
  next
    case project
    obtain made u where made: "evictQueuedCandidate ?p s = (made, u)" by fastforce
    note tries = evictQueuedCandidate_tries [OF s(1) made]
    show ?thesis
      using assms(3) project made tries dropped admitted by (cases made) (auto simp: enqueue_def Let_def)
  next
    case buffer
    obtain made u where made: "(if retained s ?p = 0 then evictForNewProject ?p s else evictQueuedCandidate ?p s) = (made, u)"
      by fastforce
    then have tries: "tried (if retained s ?p = 0 then UNIV else {?p}) s made u"
      using evictForNewProject_tries [OF s(1)] evictQueuedCandidate_tries [OF s(1)] by (auto split: if_splits)
    have "t = (if made then admit options thrown a u else u\<lparr>sc_deferred := sc_deferred u + 1\<rparr>)"
      using assms(3) buffer made by (auto simp: enqueue_def Let_def split: if_splits)
    then show ?thesis
      using tries dropped admitted buffer by (cases made) auto
  next
    case room
    then have "t = admit options thrown a s" using assms(3) by (auto simp: enqueue_def Let_def)
    then show ?thesis
      using admit_kept_up [OF s(1,3) limits(1) room(1,4,3) limits(3)] by simp
  qed
qed

lemma finish_kept_up:
  assumes "kept_up options trace s" "(key, queued) \<in> set (sc_running s)"
  shows "kept_up options (RunEnded (qd_attention queued) result # trace) (finish_run options thrown key queued result s)"
proof -
  have s: "structured s" "within options s" "accounts trace s" using assms(1) by (simp_all add: kept_up_def)
  obtain v where v: "pumped options thrown v (finish_run options thrown key queued result s)"
    "sc_queues s key = Some queued" "sc_queues v = (sc_queues s)(key := None)"
    "sc_domainDeferred v = (sc_domainDeferred s)(key := None)"
    "sc_deferred v = sc_deferred s +
       (let n = entry 0 (sc_domainDeferred s key) in
        case result of Blocked \<Rightarrow> - n | Retry \<Rightarrow> if n = 0 then 1 else 0 | _ \<Rightarrow> 0)"
    "sc_dispatched v = sc_dispatched s + (case result of Dispatched \<Rightarrow> 1 | _ \<Rightarrow> 0)"
    "sc_firstError v = (case result of DispatchError e \<Rightarrow> first_error (sc_firstError s) (Some e) | _ \<Rightarrow> sc_firstError s)"
    by (rule finish_finishes [OF s(1,2) assms(2), of thrown result]) blast
  have "key = attentionConflictDomain (qd_attention queued)"
    using s(1) v(2) by (simp add: structured_def counted_def)
  then have "accounts (RunEnded (qd_attention queued) result # trace) v"
    using accounts_finished [OF s(3) v(2) _ v(3-7)] by simp
  from accounts_pumped [OF this v(1)] v(1) show ?thesis by (simp add: kept_up_def pumped_def)
qed

lemma new_kept_up: "valid_options options \<Longrightarrow> kept_up options [] new_scheduler"
  by (simp add: kept_up_def valid_options_def new_scheduler_def structured_def counted_def started_runs_def
      offered_def ready_listed_def ready_def ready_order_def domains_of_def retained_def within_def pumping_def
      accounts_def extra_def)

lemma scheduled_kept_up:
  "scheduled options trace s \<Longrightarrow> valid_options options \<Longrightarrow> kept_up options trace s"
proof (induction rule: scheduled.induct)
  case scheduled_new
  then show ?case by (rule new_kept_up)
next
  case (scheduled_drain trace s waiter)
  then have s: "kept_up options trace s" by blast
  let ?t = "drain waiter s"
  have "extra ?t = extra s" by (simp add: extra_def drain_def)
  then have "accounts (Awaited waiter # trace) ?t"
    using s by (auto simp: kept_up_def accounts_def excused_def drain_def is_dispatched_def)
  moreover have "structured ?t" "within options ?t"
    using s structured_cong [of s ?t] within_cong [of options s ?t] by (simp_all add: kept_up_def drain_def)
  ultimately show ?case using s by (simp add: kept_up_def drain_def)
qed (use enqueue_kept_up finish_kept_up in blast)+

section \<open>What the scheduler promises\<close>

lemma idle_empty:
  assumes "structured s" "within options s" "1 \<le> so_concurrency options" "sc_running s = []"
  shows "sc_buffered s = 0"
proof -
  have idle: "sc_activeDomains s = {}" using assms(1,4) by (simp add: structured_def started_runs_def)
  then have "sc_readyProjects s = []" using assms(2,3) by (auto simp: within_def pumping_def)
  then have "domains_of s p = {}" for p
    using assms(1) idle by (auto simp: structured_def offered_def)
  then have "sc_queues s k = None" for k
    by (cases "sc_queues s k") (auto simp: domains_of_def)
  then have "dom (sc_queues s) = {}" by (auto simp: dom_def)
  then show ?thesis using assms(1) unfolding structured_def counted_def by simp
qed

lemma empty_queues: "structured s \<Longrightarrow> sc_buffered s = 0 \<Longrightarrow> sc_queues s = Map.empty"
  unfolding structured_def counted_def by (metis card_eq_0_iff dom_eq_empty_conv int_eq_iff_numeral of_nat_0_eq_iff)

text \<open>The parts of the promise, each from the invariant.\<close>

lemma runs_exclusive:
  assumes "structured s"
  shows "distinct (map (\<lambda>(_, q). (atv_targetAgentId (qd_attention q), atv_threadRootId (qd_attention q))) (sc_running s))"
proof -
  let ?f = "\<lambda>(agent, thread). agent @ CHR 0x00 # thread :: ident"
    and ?g = "\<lambda>(_ :: ident, q). (atv_targetAgentId (qd_attention q), atv_threadRootId (qd_attention q))"
  have "map fst (sc_running s) = map (?f \<circ> ?g) (sc_running s)"
    using assms by (fastforce simp: structured_def started_runs_def counted_def attentionConflictDomain_def)
  then have "distinct (map ?f (map ?g (sc_running s)))"
    using assms unfolding structured_def started_runs_def map_map by metis
  then show ?thesis by (rule distinct_map [THEN iffD1, THEN conjunct1])
qed

lemma settled_accounts:
  assumes "accounts trace s" "sc_queues s = Map.empty" "drain_result s = Inr (dispatched, 0)"
    "Enqueued a r \<in> set trace"
  shows "RunEnded a Dispatched \<in> set trace \<or>
    (\<exists>b. attentionConflictDomain b = attentionConflictDomain a \<and> RunEnded b Blocked \<in> set trace)"
proof -
  have "sc_domainDeferred s = Map.empty" using assms(1,2) by (simp add: accounts_def)
  moreover have "sc_deferred s = 0" "sc_firstError s = None"
    using assms(3) by (simp_all add: drain_result_def split: option.splits)
  moreover from this have "\<not> 1 \<le> extra s" using calculation by (simp add: extra_def)
  ultimately have "\<not> (attentionConflictDomain a \<in> dom (sc_domainDeferred s) \<or> 1 \<le> extra s \<or> sc_firstError s \<noteq> None)"
    by simp
  moreover have "excused trace s a" using assms(1,4) by (auto simp: accounts_def)
  ultimately show ?thesis unfolding excused_def assms(2) by blast
qed

text \<open>C8: At every moment of a scheduler with valid options, whatever it is given and in whatever order its
  runs end and with whatever result: at most \<open>concurrency\<close> attentions run, no two of them of the same
  agent in the same thread; what it retains stays within its buffer and, for every project, within the
  project's share; it is idle only when nothing is retained, and then nobody waits for it. And
  when it is idle and \<open>drain\<close> reports no deferred attention, it has lost none: every attention it was given
  was dispatched, or one of its agent and thread came back blocked.
\<close>

theorem scheduler_keeps_its_promises:
  assumes "scheduled options trace s" "valid_options options"
  shows "length (sc_running s) \<le> so_concurrency options \<and>
    distinct (map (\<lambda>(_, q). (atv_targetAgentId (qd_attention q), atv_threadRootId (qd_attention q))) (sc_running s)) \<and>
    sc_buffered s = int (card (dom (sc_queues s))) \<and> sc_buffered s \<le> so_bufferLimit options \<and>
    (\<forall>p. int (card {k. \<exists>q. sc_queues s k = Some q \<and> qd_projectId q = p}) \<le> so_projectLimit options) \<and>
    (sc_running s = [] \<longrightarrow> sc_buffered s = 0 \<and> sc_drainWaiters s = []) \<and>
    (\<forall>n. sc_running s = [] \<and> drain_result s = Inr (n, 0) \<longrightarrow>
       n = int (length (filter is_dispatched trace)) \<and>
       (\<forall>a r. Enqueued a r \<in> set trace \<longrightarrow>
          RunEnded a Dispatched \<in> set trace \<or>
          (\<exists>b. attentionConflictDomain b = attentionConflictDomain a \<and> RunEnded b Blocked \<in> set trace)))"
proof (intro conjI allI impI)
  have s: "structured s" "within options s" "accounts trace s" "sc_buffered s = 0 \<Longrightarrow> sc_drainWaiters s = []"
    using scheduled_kept_up [OF assms] by (simp_all add: kept_up_def)
  have "length (sc_running s) = card (sc_activeDomains s)"
    using s(1) by (metis structured_def started_runs_def distinct_card length_map)
  then show "length (sc_running s) \<le> so_concurrency options" using s(2) by (simp add: within_def)
  show "distinct (map (\<lambda>(_, q). (atv_targetAgentId (qd_attention q), atv_threadRootId (qd_attention q))) (sc_running s))"
    by (rule runs_exclusive [OF s(1)])
  show counted: "sc_buffered s = int (card (dom (sc_queues s)))" "sc_buffered s \<le> so_bufferLimit options"
    using s(1,2) by (simp_all add: structured_def counted_def within_def)
  show "int (card {k. \<exists>q. sc_queues s k = Some q \<and> qd_projectId q = p}) \<le> so_projectLimit options" for p
    using s(1,2) by (auto simp: structured_def counted_def within_def domains_of_def)
  assume idle: "sc_running s = []"
  then show empty: "sc_buffered s = 0" using idle_empty [OF s(1,2)] assms(2) by (simp add: valid_options_def)
  then show "sc_drainWaiters s = []" by (rule s(4))
next
  fix n
  assume idle: "sc_running s = [] \<and> drain_result s = Inr (n, 0)"
  have s: "structured s" "within options s" "accounts trace s"
    using scheduled_kept_up [OF assms] by (simp_all add: kept_up_def)
  show "n = int (length (filter is_dispatched trace))"
    using s(3) idle by (auto simp: accounts_def drain_result_def split: option.splits)
  have "sc_buffered s = 0" using idle_empty [OF s(1,2)] idle assms(2) by (simp add: valid_options_def)
  from empty_queues [OF s(1) this] show "RunEnded a Dispatched \<in> set trace \<or>
      (\<exists>b. attentionConflictDomain b = attentionConflictDomain a \<and> RunEnded b Blocked \<in> set trace)"
    if "Enqueued a r \<in> set trace" for a r
    using settled_accounts [OF s(3) _ _ that] idle by blast
qed

text \<open>Two attentions of one agent in one thread and one of another: the first comes back blocked.\<close>

definition sample_candidate :: "nat \<Rightarrow> ident \<Rightarrow> ident \<Rightarrow> attention_view" where
  "sample_candidate n agent thread =
     \<lparr>atv_cursor = n, atv_id = ''a'' @ show_nat n, atv_projectId = ''p'', atv_channelId = ''c'',
      atv_threadRootId = thread, atv_messageRevisionId = ''m'', atv_targetAgentId = agent,
      atv_triggerKind = Mention, atv_status = AttOpen, atv_revision = 1,
      atv_handlerLeaseHolderPrincipalId = None, atv_handlerLeaseExpiresAt = None,
      atv_resolutionOutcome = None, atv_resolvedRunId = None, atv_createdAt = 0, atv_resolvedAt = None\<rparr>"

definition sample_scheduling :: scheduler_options where
  "sample_scheduling = \<lparr>so_concurrency = 1, so_bufferLimit = 100, so_projectLimit = 2\<rparr>"

abbreviation first_sample :: attention_view where "first_sample \<equiv> sample_candidate 1 ''x'' ''t''"
abbreviation second_sample :: attention_view where "second_sample \<equiv> sample_candidate 2 ''x'' ''t''"
abbreviation other_sample :: attention_view where "other_sample \<equiv> sample_candidate 3 ''y'' ''t''"

definition offered_samples :: "string scheduler" where
  "offered_samples =
     snd (enqueue sample_scheduling None other_sample
       (snd (enqueue sample_scheduling None second_sample
         (snd (enqueue sample_scheduling None first_sample new_scheduler)))))"

definition finish_next :: "string dispatch_result \<Rightarrow> string scheduler \<Rightarrow> string scheduler" where
  "finish_next result s =
     (case sc_running s of [] \<Rightarrow> s | (key, queued) # _ \<Rightarrow> finish_run sample_scheduling None key queued result s)"

lemma scheduled_next:
  assumes "scheduled sample_scheduling trace s" "map (qd_attention \<circ> snd) (sc_running s) = [a]"
  shows "scheduled sample_scheduling (RunEnded a result # trace) (finish_next result s)"
proof -
  obtain key queued where run: "sc_running s = [(key, queued)]" "qd_attention queued = a"
    using assms(2) by auto
  then show ?thesis
    using scheduled_finish [OF assms(1), of key queued result None] by (simp add: finish_next_def)
qed

definition sample_trace :: "string happening list" where
  "sample_trace =
     [RunEnded other_sample Dispatched, RunEnded first_sample Blocked, Enqueued other_sample Admitted,
      Enqueued second_sample Deferred, Enqueued first_sample Admitted]"

lemma scheduled_by: "scheduled options trace s \<Longrightarrow> fst (enqueue options None a s) = r \<Longrightarrow>
    scheduled options (Enqueued a r # trace) (snd (enqueue options None a s))"
  by (metis prod.collapse scheduled_enqueue)

lemma samples_scheduled:
  "scheduled sample_scheduling sample_trace (finish_next Dispatched (finish_next Blocked offered_samples))"
proof -
  have "scheduled sample_scheduling [Enqueued other_sample Admitted, Enqueued second_sample Deferred,
      Enqueued first_sample Admitted] offered_samples"
    unfolding offered_samples_def
    by (rule scheduled_by, rule scheduled_by, rule scheduled_by, rule scheduled_new) code_simp+
  moreover have "map (qd_attention \<circ> snd) (sc_running offered_samples) = [first_sample]" by code_simp
  ultimately have "scheduled sample_scheduling (RunEnded first_sample Blocked # [Enqueued other_sample Admitted,
      Enqueued second_sample Deferred, Enqueued first_sample Admitted]) (finish_next Blocked offered_samples)"
    by (rule scheduled_next)
  moreover have "map (qd_attention \<circ> snd) (sc_running (finish_next Blocked offered_samples)) = [other_sample]"
    by code_simp
  ultimately show ?thesis unfolding sample_trace_def by (rule scheduled_next)
qed

lemma scheduler_keeps_its_promises_witness:
  "\<exists>(trace :: string happening list) s. scheduled sample_scheduling trace s \<and> valid_options sample_scheduling \<and> sc_running s = [] \<and>
     drain_result s = Inr (1, 0) \<and> Enqueued second_sample Deferred \<in> set trace \<and>
     sc_buffered s = 0 \<and> (1 :: int) = int (length (filter is_dispatched trace)) \<and>
     (RunEnded second_sample Dispatched \<in> set trace \<or>
      (\<exists>b. attentionConflictDomain b = attentionConflictDomain second_sample \<and> RunEnded b Blocked \<in> set trace))"
proof -
  let ?s = "finish_next Dispatched (finish_next Blocked offered_samples)"
  have options: "valid_options sample_scheduling" by (simp add: valid_options_def sample_scheduling_def)
  have ended: "sc_running ?s = []" "drain_result ?s = Inr (1, 0)" by code_simp+
  have given: "Enqueued second_sample Deferred \<in> set sample_trace"
    unfolding sample_trace_def by (simp only: list.set insert_iff simp_thms)
  note promises = scheduler_keeps_its_promises [OF samples_scheduled options]
  have empty: "sc_buffered ?s = 0" using promises ended(1) by blast
  have one: "(1 :: int) = int (length (filter is_dispatched sample_trace))" using promises ended by blast
  have served: "RunEnded second_sample Dispatched \<in> set sample_trace \<or>
      (\<exists>b. attentionConflictDomain b = attentionConflictDomain second_sample \<and> RunEnded b Blocked \<in> set sample_trace)"
    using promises ended given by blast
  show ?thesis
    by (intro exI [of _ sample_trace] exI [of _ ?s] conjI samples_scheduled options ended given empty one served)
qed

end
