(* ===== verification/RuntimeDelivery.thy ===== *)
theory RuntimeDelivery
  imports CapabilityBridge AttentionScheduler
begin

text \<open>
  The agent runtime's deliveries (\<open>AgentRuntime\<close> in \<open>runtime.ts\<close>): settling provider attempts, recovering
  what an earlier host left, running the provider for an attention or for the inputs of a run, and
  draining the outbox one event at a time. The provider is an argument: what it does with
  its bridge, whether it ended with an error, and whether it was aborted, by the runtime's monitor or
  from outside. Its policy is restricted or absent, so no native process is started. Log lines
  are left out.
\<close>

section \<open>Settling\<close>

definition finish_activation ::
  "runtime_options \<Rightarrow> string \<Rightarrow> ident \<Rightarrow> activation_outcome \<Rightarrow> string option \<Rightarrow> string option \<Rightarrow> unit rop" where
  "finish_activation ro key activationId outcome detail correlationId =
     bindM (command ro (CmdFinishActivation
       \<lparr>idempotencyKey = key, fa_activationId = activationId, fa_outcome = outcome, fa_detail = detail\<rparr>)
       correlationId) (\<lambda>_. ret ())"

definition finish_attempt ::
  "runtime_options \<Rightarrow> string \<Rightarrow> ident \<Rightarrow> provider_status \<Rightarrow> string option \<Rightarrow> string option \<Rightarrow> unit rop" where
  "finish_attempt ro key providerAttemptId status detail correlationId =
     bindM (command ro (CmdFinishProviderAttempt
       \<lparr>idempotencyKey = key, fp_providerAttemptId = providerAttemptId, fp_status = status, fp_detail = detail\<rparr>)
       correlationId) (\<lambda>_. ret ())"

definition notStartedDetail :: string where
  "notStartedDetail = providerPublicDiagnostic ProviderNotStarted"

definition recoveredUnknownDetail :: string where
  "recoveredUnknownDetail = providerPublicDiagnostic ProviderRecoveredUnknown"

definition recoveredFailedDetail :: string where
  "recoveredFailedDetail = providerPublicDiagnostic ProviderRecoveredFailed"

definition finishActivationBeforeProvider :: "runtime_options \<Rightarrow> ident \<Rightarrow> string \<Rightarrow> unit rop" where
  "finishActivationBeforeProvider ro activationId correlationId =
     finish_activation ro (activationId @ '':lease-budget-exhausted'') activationId ActExpired
       (Some notStartedDetail) (Some correlationId)"

text \<open>The status that stands in the end: another host may have settled the attempt first.\<close>

definition settleProviderAttempt ::
  "runtime_options \<Rightarrow> ident \<Rightarrow> string \<Rightarrow> provider_status \<Rightarrow> string option \<Rightarrow> string option \<Rightarrow>
   provider_status rop" where
  "settleProviderAttempt ro providerAttemptId key status detail correlationId =
     catchM
       (seqM (if status = ProvFailed then
                bindM (command ro (CmdFailProviderAttempt
                  \<lparr>idempotencyKey = key, xp_providerAttemptId = providerAttemptId,
                   xp_error = (case detail of None \<Rightarrow> ''Provider execution failed.'' | Some d \<Rightarrow> d)\<rparr>)
                  correlationId) (\<lambda>_. ret ())
              else finish_attempt ro key providerAttemptId status detail correlationId)
             (ret status))
       (\<lambda>e. case e of
          KernelThrew k \<Rightarrow>
            if err_code k = Some Conflict then
              bindM (findProviderAttemptStatus ro providerAttemptId) (\<lambda>current.
              seqM (guardM (isTerminalProviderStatus current) e) (ret current))
            else raise e
        | _ \<Rightarrow> raise e)"

definition settleUncertainAttempt :: "runtime_options \<Rightarrow> run_projection \<Rightarrow> ident \<Rightarrow> unit rop" where
  "settleUncertainAttempt ro projection activationId =
     (case find_first (\<lambda>a. pav_activationId a = activationId) (rp_providerAttempts projection) of
        None \<Rightarrow> ret ()
      | Some attempt \<Rightarrow>
          if isTerminalProviderStatus (pav_status attempt) then ret ()
          else
            bindM (operationalCorrelation ro EntProviderAttempt (pav_id attempt)) (\<lambda>correlationId.
            seqM (finish_attempt ro (pav_id attempt @ '':recovered-unknown'') (pav_id attempt) ProvUnknown
                    (Some recoveredUnknownDetail) (Some correlationId))
           (bindM (needM RuntimeFailure (find_activation projection activationId)) (\<lambda>activation.
            whenM (aav_finishedAt activation = None)
              (finish_activation ro (activationId @ '':recovered-expired'') activationId ActExpired
                 (Some recoveredUnknownDetail) (Some correlationId))))))"

text \<open>The last attempt made for an event.\<close>

definition request_key :: "ident \<Rightarrow> string" where
  "request_key eventId = ''outbox:'' @ eventId @ '':provider''"

definition last_attempt :: "run_projection \<Rightarrow> string \<Rightarrow> provider_attempt_view option" where
  "last_attempt projection key =
     (case filter (\<lambda>a. pav_requestIdempotencyKey a = key) (rp_providerAttempts projection) of
        [] \<Rightarrow> None
      | as \<Rightarrow> Some (last as))"

definition parkRunAfterDeliveryFailure ::
  "runtime_options \<Rightarrow> run_projection \<Rightarrow> outbox_view \<Rightarrow> provider_status \<Rightarrow> string \<Rightarrow> unit rop" where
  "parkRunAfterDeliveryFailure ro projection event status correlationId =
     bindM (needM RuntimeFailure (last_attempt projection (request_key (ov_id event)))) (\<lambda>attempt.
     seqM (pause ro)
    (bindM (command ro (CmdPark
        \<lparr>idempotencyKey = ''outbox:'' @ ov_id event @
           (if status = ProvUnknown then '':delivery-unknown-park'' else '':delivery-failed-park''),
         pk_runId = rnv_id (rp_run projection), pk_providerAttemptId = pav_id attempt,
         pk_expectedRunRevision = rnv_revision (rp_run projection),
         pk_expectedActivationGeneration = JInt (int (rnv_activationGeneration (rp_run projection))),
         pk_reason =
           (if status = ProvUnknown
            then ''Provider delivery outcome is unknown and requires explicit resumption.''
            else ''Provider delivery failed and requires explicit resumption.'')\<rparr>)
        (Some correlationId)) (\<lambda>_. pause ro)))"

text \<open>
  Finishing a recovered activation. The kernel's errors carry no message here, so whether the message is
  the one of an activation that is already finished is the argument \<open>finished_message\<close>.
\<close>

definition finishRecoveredActivation ::
  "runtime_options \<Rightarrow> bool \<Rightarrow> ident \<Rightarrow> string \<Rightarrow> ident \<Rightarrow> activation_outcome \<Rightarrow> string \<Rightarrow> string option \<Rightarrow>
   unit rop" where
  "finishRecoveredActivation ro finished_message runId key activationId outcome detail correlationId =
     catchM (finish_activation ro key activationId outcome (Some detail) correlationId)
       (\<lambda>e. if \<not> (case e of KernelThrew k \<Rightarrow> err_code k = Some WriterAuthorityLost | _ \<Rightarrow> False) \<or>
               outcome \<noteq> ActCompleted then raise e
            else
              catchM
                (finish_activation ro (activationId @ '':reconciled-authority-lost'') activationId ActExpired
                   (Some (providerPublicDiagnostic ProviderRecoveredWorktreeAuthorityLost)) correlationId)
                (\<lambda>settlementError.
                   if \<not> (case settlementError of KernelThrew k \<Rightarrow> err_code k = Some Conflict | _ \<Rightarrow> False) \<or>
                      \<not> finished_message then raise settlementError
                   else
                     bindM (runProjection ro runId) (\<lambda>current.
                     case find_activation current activationId of
                       None \<Rightarrow> raise settlementError
                     | Some activation \<Rightarrow>
                         if aav_finishedAt activation = None then raise settlementError else ret ())))"

definition outcome_word :: "activation_outcome \<Rightarrow> string" where
  "outcome_word outcome =
     (case outcome of ActCompleted \<Rightarrow> ''completed'' | ActFailed \<Rightarrow> ''failed'' | _ \<Rightarrow> ''expired'')"

text \<open>One round of the loop of \<open>reconcileRunProjection\<close>.\<close>

definition reconcile_activation ::
  "runtime_options \<Rightarrow> bool \<Rightarrow> run_projection \<Rightarrow> string \<Rightarrow> activation_view \<Rightarrow> unit rop" where
  "reconcile_activation ro finished_message projection correlationId activation =
     (if aav_finishedAt activation \<noteq> None then ret ()
      else
        let attempt = find_first (\<lambda>a. pav_activationId a = aav_id activation) (rp_providerAttempts projection);
            status = map_option pav_status attempt;
            (outcome, detail) =
              (if status = Some ProvCompleted then (ActCompleted, ''Recovered a completed ProviderAttempt.'')
               else if status = Some ProvFailed then (ActFailed, recoveredFailedDetail)
               else (ActExpired, recoveredUnknownDetail)) in
        seqM (case attempt of
                Some a \<Rightarrow>
                  whenM (pav_status a = ProvStarted \<or> pav_status a = ProvAcknowledged)
                    (finish_attempt ro (pav_id a @ '':reconciled-unknown'') (pav_id a) ProvUnknown
                       (Some recoveredUnknownDetail) (Some correlationId))
              | None \<Rightarrow> ret ())
             (finishRecoveredActivation ro finished_message (rnv_id (rp_run projection))
                (aav_id activation @ '':reconciled-'' @ outcome_word outcome) (aav_id activation) outcome detail
                (Some correlationId)))"

definition reconcileRunProjection :: "runtime_options \<Rightarrow> bool \<Rightarrow> run_projection \<Rightarrow> unit rop" where
  "reconcileRunProjection ro finished_message projection =
     bindM (operationalCorrelation ro EntRun (rnv_id (rp_run projection))) (\<lambda>correlationId.
     forM (rp_activations projection) (reconcile_activation ro finished_message projection correlationId))"

section \<open>Running the provider\<close>

datatype provider_cause =
    ForAttention attention_view nat string "run_view list"
  | ForRun run_projection outbox_view string

record provider_request =
  pq_activationId :: ident
  pq_agent :: bootstrap_agent
  pq_cause :: provider_cause
  pq_authorityLeaseExpiresAt :: instant
  pq_runInputIds :: "ident list"
  pq_requestIdempotencyKey :: string
  pq_correlationId :: string

text \<open>
  A provider, given its bridge and the request key: the error it ends with, if any, whether it has been
  aborted by the time its outcome is settled, and what it has done to the runtime's kernel and to its bridge.
\<close>

type_synonym provider =
  "bridge_options \<Rightarrow> string \<Rightarrow> runtime \<times> bridge \<Rightarrow> (runtime_error option \<times> bool) \<times> (runtime \<times> bridge)"

definition request_bridge :: "provider_request \<Rightarrow> ident \<Rightarrow> bridge_options" where
  "request_bridge request attemptId =
     \<lparr>bo_agent = pq_agent request, bo_activationId = pq_activationId request, bo_providerAttemptId = attemptId,
      bo_correlationId = pq_correlationId request,
      bo_cause = (case pq_cause request of
                    ForAttention a revision token runs \<Rightarrow> AttentionCause a revision token runs
                  | ForRun p _ _ \<Rightarrow> RunCause p),
      bo_assertPublication = ret ()\<rparr>"

definition admissionCommand :: "runtime_options \<Rightarrow> provider_request \<Rightarrow> kernel_command" where
  "admissionCommand ro request =
     CmdStartProviderAttempt
       \<lparr>idempotencyKey = pq_activationId request @ '':provider-attempt'',
        sp_activationId = pq_activationId request,
        sp_outbox = (case pq_cause request of
           ForRun _ event token \<Rightarrow> \<lparr>oa_outboxEventId = Some (ov_id event), oa_outboxLeaseToken = Some token\<rparr>
         | ForAttention _ _ _ _ \<Rightarrow> \<lparr>oa_outboxEventId = None, oa_outboxLeaseToken = None\<rparr>),
        sp_adapter = ro_adapterName ro, sp_adapterVersion = ro_adapterVersion ro,
        sp_capabilitySnapshot = ro_capabilitySnapshot ro, sp_runInputIds = pq_runInputIds request,
        sp_requestIdempotencyKey = pq_requestIdempotencyKey request\<rparr>"

definition finallyM :: "('s, 'e, 'a) op \<Rightarrow> ('s, 'e, unit) op \<Rightarrow> ('s, 'e, 'a) op" where
  "finallyM m f = (\<lambda>s. case m s of (r, t) \<Rightarrow> (case f t of (Inl e, u) \<Rightarrow> (Inl e, u) | (Inr _, u) \<Rightarrow> (r, u)))"

text \<open>The execution itself.\<close>

definition run_provider ::
  "runtime_options \<Rightarrow> provider \<Rightarrow> provider_request \<Rightarrow> ident \<Rightarrow> (runtime_error option \<times> bool \<times> bridge) rop" where
  "run_provider ro provider request attemptId = (\<lambda>s.
     let bo = request_bridge request attemptId; key = pq_requestIdempotencyKey request in
     case provider bo key (s\<lparr>rt_delivered := (attemptId, key) # rt_delivered s\<rparr>, new_bridge bo) of
       ((e, aborted), (t, b)) \<Rightarrow> (Inr (e, aborted, b), await ro t))"

text \<open>The body of the try block after the provider has ended, for an attention and for a run.\<close>

definition complete_execution ::
  "runtime_options \<Rightarrow> provider_request \<Rightarrow> ident \<Rightarrow> runtime_error option \<Rightarrow> bridge \<Rightarrow> bool rop" where
  "complete_execution ro request attemptId thrown b =
     seqM (case thrown of Some e \<Rightarrow> raise e | None \<Rightarrow> ret ())
    (seqM (guardM
             (case pq_cause request of
                ForAttention _ _ _ _ \<Rightarrow> br_attentionDecision b \<noteq> None
              | ForRun _ _ _ \<Rightarrow> br_terminalAction b \<noteq> None)
             (ProviderThrew ProviderProtocolViolation False))
    (bindM (settleProviderAttempt ro attemptId (attemptId @ '':completed'') ProvCompleted None
              (Some (pq_correlationId request))) (\<lambda>_.
     seqM (case pq_cause request of
             ForAttention _ _ _ _ \<Rightarrow> ret ()
           | ForRun _ _ _ \<Rightarrow>
               finish_activation ro (pq_activationId request @ '':completed'') (pq_activationId request)
                 ActCompleted None (Some (pq_correlationId request)))
          (ret True))))"

text \<open>A run that is still the activation's is parked; the kernel's refusal of that is no failure.\<close>

definition park_refusal :: "runtime_error \<Rightarrow> bool" where
  "park_refusal e =
     (case e of
        KernelThrew k \<Rightarrow> (case err_code k of None \<Rightarrow> False
          | Some c \<Rightarrow> c \<in> {StaleRevision, Conflict, WriterAuthorityLost, TerminalRun})
      | ProviderThrew code _ \<Rightarrow> code = ProviderWorktreeAuthorityLost
      | RuntimeFailure \<Rightarrow> False)"

definition wait_after_failure ::
  "runtime_options \<Rightarrow> provider_request \<Rightarrow> ident \<Rightarrow> bridge \<Rightarrow> run_projection \<Rightarrow> string \<Rightarrow> unit rop" where
  "wait_after_failure ro request attemptId b projection message =
     bindM (runProjection ro (rnv_id (rp_run projection))) (\<lambda>latest.
     case find_activation latest (pq_activationId request) of
       None \<Rightarrow> ret ()
     | Some activation \<Rightarrow>
         if rnv_state (rp_run latest) = RunActive \<and> aav_finishedAt activation = None \<and>
            aav_revokedAt activation = None \<and>
            aav_runActivationGeneration activation = Some (rnv_activationGeneration (rp_run latest)) then
           catchM (\<lambda>s. case bridge_wait ro (request_bridge request attemptId) message (s, b) of
                     (r, (t, _)) \<Rightarrow> (r, t))
             (\<lambda>e. if park_refusal e then ret () else raise e)
         else ret ())"

definition fail_execution ::
  "runtime_options \<Rightarrow> provider_request \<Rightarrow> ident \<Rightarrow> bool \<Rightarrow> bridge \<Rightarrow> runtime_error \<Rightarrow> bool rop" where
  "fail_execution ro request attemptId aborted b e =
     (let (code, unknown) = normalizeWorktreeProviderError e;
          message = providerPublicDiagnostic code;
          correlationId = Some (pq_correlationId request) in
      seqM (case pq_cause request of
              ForRun projection _ _ \<Rightarrow>
                whenM (br_terminalAction b = None) (wait_after_failure ro request attemptId b projection message)
            | ForAttention _ _ _ _ \<Rightarrow> ret ())
     (bindM (if unknown
             then settleProviderAttempt ro attemptId (attemptId @ '':unknown'') ProvUnknown (Some message) correlationId
             else settleProviderAttempt ro attemptId (attemptId @ '':failed'') ProvFailed (Some message) correlationId)
        (\<lambda>_.
      seqM (whenM (case pq_cause request of ForRun _ _ _ \<Rightarrow> True
                   | ForAttention _ _ _ _ \<Rightarrow> br_attentionDecision b = None)
              (finish_activation ro (pq_activationId request @ '':failed'') (pq_activationId request)
                 (if aborted then ActExpired else ActFailed) (Some message) correlationId))
           (raise (ProviderThrew code unknown)))))"

text \<open>An attempt that an earlier delivery has ended.\<close>

definition resume_ended_attempt ::
  "runtime_options \<Rightarrow> bool \<Rightarrow> provider_request \<Rightarrow> ident \<Rightarrow> provider_status \<Rightarrow> bool rop" where
  "resume_ended_attempt ro finished_message request attemptId status =
     (case pq_cause request of
        ForAttention _ _ _ _ \<Rightarrow> ret False
      | ForRun projection event _ \<Rightarrow>
          bindM (runProjection ro (rnv_id (rp_run projection))) (\<lambda>latest.
          if status = ProvCompleted then seqM (reconcileRunProjection ro finished_message latest) (ret True)
          else
            bindM (needM RuntimeFailure
              (find_first (\<lambda>a. pav_id a = attemptId) (rp_providerAttempts latest))) (\<lambda>ended.
            bindM (needM RuntimeFailure (find_activation latest (pav_activationId ended))) (\<lambda>activation.
            seqM (whenM (rnv_state (rp_run latest) = RunActive \<and>
                         aav_runActivationGeneration activation = Some (rnv_activationGeneration (rp_run latest)))
                    (parkRunAfterDeliveryFailure ro latest event status (pq_correlationId request)))
           (seqM (reconcileRunProjection ro finished_message latest) (ret True))))))"

definition executeProvider ::
  "runtime_options \<Rightarrow> provider \<Rightarrow> bool \<Rightarrow> provider_request \<Rightarrow> bool rop" where
  "executeProvider ro provider finished_message request =
     (let correlationId = Some (pq_correlationId request) in
      bindM (gets (\<lambda>s. rt_stopped s \<or>
        providerExecutionBudget ro (pq_authorityLeaseExpiresAt request) None s \<le> 0)) (\<lambda>too_late.
      if too_late then
        seqM (finishActivationBeforeProvider ro (pq_activationId request) (pq_correlationId request)) (ret False)
      else
        bindM (command ro (admissionCommand ro request) correlationId) (\<lambda>attempt.
        seqM (pause ro)
       (bindM (findProviderAttemptStatus ro (cr_entityId attempt)) (\<lambda>existing.
        if isTerminalProviderStatus existing then
          resume_ended_attempt ro finished_message request (cr_entityId attempt) existing
        else
          bindM (command ro (admissionCommand ro request) correlationId) (\<lambda>admission.
          seqM (guardM (cr_entityId admission = cr_entityId attempt) RuntimeFailure)
         (bindM (needM RuntimeFailure (cr_leaseExpiresAt admission)) (\<lambda>admittedLeaseExpiresAt.
          bindM (needM RuntimeFailure (cr_authorityObservedAt admission)) (\<lambda>authorityObservedAt.
          bindM (gets (providerExecutionBudget ro admittedLeaseExpiresAt (Some authorityObservedAt))) (\<lambda>budget.
          if budget \<le> 0 then
            bindM (settleProviderAttempt ro (cr_entityId attempt)
                (cr_entityId attempt @ '':lease-budget-exhausted'') ProvFailed (Some notStartedDetail) correlationId)
              (\<lambda>_. seqM (finishActivationBeforeProvider ro (pq_activationId request) (pq_correlationId request))
                        (ret False))
          else
            finallyM
              (bindM (run_provider ro provider request (cr_entityId attempt)) (\<lambda>(thrown, aborted, b).
               catchM (complete_execution ro request (cr_entityId attempt) thrown b)
                 (fail_execution ro request (cr_entityId attempt) aborted b)))
              (seqM (ro_stopActivation ro (pq_activationId request)) (pause ro))))))))))))"

section \<open>Events of the outbox\<close>

definition requirePayloadString :: "json \<Rightarrow> string \<Rightarrow> string rop" where
  "requirePayloadString payload key =
     (case payload of
        JObj members \<Rightarrow>
          (case map_of members key of
             Some (JStr t) \<Rightarrow> if t = [] then raise RuntimeFailure else ret t
           | _ \<Rightarrow> raise RuntimeFailure)
      | _ \<Rightarrow> raise RuntimeFailure)"

definition activation_duration :: "runtime_options \<Rightarrow> int \<Rightarrow> jsnum" where
  "activation_duration ro leaseMs =
     JInt (max (case ro_activationDurationMs ro of None \<Rightarrow> 0 | Some ms \<Rightarrow> ms) (max 300000 leaseMs))"

text \<open>From an activation of the run to the provider, with the inputs of it that are still pending.\<close>

definition deliver_activation ::
  "runtime_options \<Rightarrow> provider \<Rightarrow> bool \<Rightarrow> outbox_view \<Rightarrow> string \<Rightarrow> instant \<Rightarrow> string \<Rightarrow>
   run_projection \<Rightarrow> activation_view \<Rightarrow> bool rop" where
  "deliver_activation ro provider finished_message event token leaseExpiresAt correlationId current activation =
     bindM (activationAgent ro (aav_id activation) (rnv_ownerAgentId (rp_run current))
              (rnv_projectId (rp_run current))) (\<lambda>agent.
     seqM (guardM (ba_configRevision agent = aav_configRevision activation) RuntimeFailure)
    (bindM (threadProjection ro \<lparr>pc_principalId = ba_principalId agent, pc_activationId = Some (aav_id activation)\<rparr>
              (rnv_threadRootId (rp_run current))) (\<lambda>_.
     let pendingInputIds = map riv_id (filter (\<lambda>i. riv_disposition i = Pending) (rp_inputs current));
         deliveryInputIds = filter (\<lambda>i. i \<in> set pendingInputIds) (aav_runInputIds activation) in
     if deliveryInputIds = [] then
       seqM (finishRecoveredActivation ro finished_message (rnv_id (rp_run current))
               (aav_id activation @ '':no-pending-input'') (aav_id activation) ActCompleted
               ''The outbox wake-up had no Pending RunInput to deliver.'' (Some correlationId))
            (ret True)
     else
       executeProvider ro provider finished_message
         \<lparr>pq_activationId = aav_id activation, pq_agent = agent, pq_cause = ForRun current event token,
          pq_authorityLeaseExpiresAt = leaseExpiresAt, pq_runInputIds = deliveryInputIds,
          pq_requestIdempotencyKey = request_key (ov_id event), pq_correlationId = correlationId\<rparr>)))"

text \<open>A new activation, when the run takes one.\<close>

definition start_delivery ::
  "runtime_options \<Rightarrow> provider \<Rightarrow> bool \<Rightarrow> outbox_view \<Rightarrow> string \<Rightarrow> instant \<Rightarrow> string \<Rightarrow> run_projection \<Rightarrow> bool rop" where
  "start_delivery ro provider finished_message event token leaseExpiresAt correlationId current =
     (if rnv_state (rp_run current) \<noteq> RunActive \<and>
         \<not> (ov_topic event = TopicRunInputAvailable \<and> rnv_state (rp_run current) = RunWaiting) then
        seqM (reconcileRunProjection ro finished_message current) (ret True)
      else
        seqM (pause ro)
       (bindM (command ro (CmdStartActivation
           \<lparr>idempotencyKey = ''outbox:'' @ ov_id event @ '':activation:'' @ token @ '':'' @
              show_nat (rnv_revision (rp_run current)),
            sa_runId = Some (rnv_id (rp_run current)), sa_attentionId = None, sa_handlerLeaseToken = None,
            sa_expectedRunRevision = Some (rnv_revision (rp_run current)),
            sa_outbox = \<lparr>oa_outboxEventId = Some (ov_id event), oa_outboxLeaseToken = Some token\<rparr>,
            sa_durationMs = Some (activation_duration ro (ro_outboxLeaseMs ro))\<rparr>) (Some correlationId)) (\<lambda>started.
        bindM (runProjection ro (rnv_id (rp_run current))) (\<lambda>latest.
        bindM (needM RuntimeFailure (find_activation latest (cr_entityId started))) (\<lambda>activation.
        deliver_activation ro provider finished_message event token leaseExpiresAt correlationId latest activation)))))"

text \<open>The last attempt for the event has been made and may have reached the provider.\<close>

definition settle_delivery ::
  "runtime_options \<Rightarrow> provider \<Rightarrow> bool \<Rightarrow> outbox_view \<Rightarrow> string \<Rightarrow> instant \<Rightarrow> string \<Rightarrow> run_projection \<Rightarrow>
   provider_attempt_view \<Rightarrow> bool rop" where
  "settle_delivery ro provider finished_message event token leaseExpiresAt correlationId projection prior =
     bindM (needM RuntimeFailure (find_activation projection (pav_activationId prior))) (\<lambda>activation.
     if pav_status prior = ProvCompleted then
       seqM (reconcileRunProjection ro finished_message projection) (ret True)
     else if pav_status prior = ProvFailed \<or> pav_status prior = ProvUnknown then
       seqM (whenM (rnv_state (rp_run projection) = RunActive \<and>
                    aav_runActivationGeneration activation = Some (rnv_activationGeneration (rp_run projection)))
               (parkRunAfterDeliveryFailure ro projection event (pav_status prior) correlationId))
      (seqM (reconcileRunProjection ro finished_message projection) (ret True))
     else
       seqM (settleUncertainAttempt ro projection (aav_id activation))
      (bindM (runProjection ro (rnv_id (rp_run projection))) (\<lambda>current.
       if \<not> ro_supportsIdempotentRequests ro then
         seqM (whenM (rnv_state (rp_run current) = RunActive)
                 (parkRunAfterDeliveryFailure ro current event ProvUnknown correlationId))
        (seqM (reconcileRunProjection ro finished_message current) (ret True))
       else
         start_delivery ro provider finished_message event token leaseExpiresAt correlationId current)))"

definition did_not_start :: "provider_attempt_view \<Rightarrow> bool" where
  "did_not_start attempt \<longleftrightarrow> pav_status attempt = ProvFailed \<and> pav_detail attempt = Some notStartedDetail"

text \<open>An event of a run, once the run is read: an input that is no longer pending needs no delivery.\<close>

definition wake_run ::
  "runtime_options \<Rightarrow> provider \<Rightarrow> bool \<Rightarrow> outbox_view \<Rightarrow> string \<Rightarrow> instant \<Rightarrow> run_projection \<Rightarrow> bool rop" where
  "wake_run ro provider finished_message event token leaseExpiresAt projection =
     bindM (requirePayloadString (ov_payload event) ''runInputId'') (\<lambda>inputId.
     bindM (operationalCorrelation ro EntRunInput inputId) (\<lambda>correlationId.
     if \<not> list_ex (\<lambda>i. riv_id i = inputId \<and> riv_disposition i = Pending) (rp_inputs projection) then
       seqM (reconcileRunProjection ro finished_message projection) (ret True)
     else
       (case last_attempt projection (request_key (ov_id event)) of
          None \<Rightarrow> start_delivery ro provider finished_message event token leaseExpiresAt correlationId projection
        | Some prior \<Rightarrow>
            if did_not_start prior then
              start_delivery ro provider finished_message event token leaseExpiresAt correlationId projection
            else
              settle_delivery ro provider finished_message event token leaseExpiresAt correlationId projection
                prior)))"

definition processOutboxEvent ::
  "runtime_options \<Rightarrow> provider \<Rightarrow> bool \<Rightarrow> outbox_view \<Rightarrow> string \<Rightarrow> instant \<Rightarrow> bool rop" where
  "processOutboxEvent ro provider finished_message event token leaseExpiresAt =
     (if ov_topic event = TopicMessagePublished then
        bindM (requirePayloadString (ov_payload event) ''threadRootId'') (\<lambda>threadRootId.
        bindM (threadProjection ro (runtime_actor ro) threadRootId) (\<lambda>thread.
        seqM (loadProject ro (tp_projectId thread)) (ret True)))
      else if ov_topic event \<noteq> TopicRunActivationRequested \<and> ov_topic event \<noteq> TopicRunInputAvailable then ret True
      else
        bindM (runProjection ro (ov_aggregateId event))
          (wake_run ro provider finished_message event token leaseExpiresAt))"

text \<open>One event is claimed, processed, and acknowledged only when it has been handled in time.\<close>

fun process_events ::
  "runtime_options \<Rightarrow> provider \<Rightarrow> bool \<Rightarrow> string \<Rightarrow> instant \<Rightarrow> outbox_view list \<Rightarrow> bool rop" where
  "process_events ro provider finished_message token leaseExpiresAt [] = ret True"
| "process_events ro provider finished_message token leaseExpiresAt (event # events) =
     bindM (processOutboxEvent ro provider finished_message event token leaseExpiresAt) (\<lambda>handled.
     if handled then process_events ro provider finished_message token leaseExpiresAt events else ret False)"

definition drainOutboxBatch :: "runtime_options \<Rightarrow> provider \<Rightarrow> bool \<Rightarrow> nat rop" where
  "drainOutboxBatch ro provider finished_message =
     bindM (gets rt_awaits) (\<lambda>n.
     bindM (command ro (CmdClaimOutboxEvents
        \<lparr>idempotencyKey = ''outbox-claim:'' @ ro_uuid ro n, co_limit = Some (JInt 1),
         co_leaseDurationMs = JInt (ro_outboxLeaseMs ro)\<rparr>) None) (\<lambda>claim.
     let events = (case cr_outboxEvents claim of None \<Rightarrow> [] | Some es \<Rightarrow> es) in
     if events = [] then ret 0
     else
       bindM (needM RuntimeFailure (truthy (cr_leaseToken claim))) (\<lambda>token.
       bindM (needM RuntimeFailure (cr_leaseExpiresAt claim)) (\<lambda>leaseExpiresAt.
       bindM (gets (providerExecutionBudget ro leaseExpiresAt None)) (\<lambda>budget.
       if budget \<le> 0 then ret 0
       else
         bindM (process_events ro provider finished_message token leaseExpiresAt events) (\<lambda>handled.
         if \<not> handled then ret 0
         else
           seqM (pause ro)
          (bindM (gets (providerExecutionBudget ro leaseExpiresAt None)) (\<lambda>left.
           if left \<le> 0 then ret 0
           else
             bindM (command ro (CmdAcknowledgeOutboxEvents
               \<lparr>idempotencyKey = ''outbox-ack:'' @ token, ak_outboxEventIds = map ov_id events,
                ak_leaseToken = token\<rparr>) None) (\<lambda>_. ret (length events))))))))))"

section \<open>Attentions\<close>

definition hasEarlierOpenAttention :: "runtime_options \<Rightarrow> attention_view \<Rightarrow> bool rop" where
  "hasEarlierOpenAttention ro attention =
     bindM (threadProjection ro (runtime_actor ro) (atv_threadRootId attention)) (\<lambda>projection.
     ret (list_ex (\<lambda>candidate. atv_targetAgentId candidate = atv_targetAgentId attention \<and>
            atv_status candidate = AttOpen \<and> atv_cursor candidate < atv_cursor attention)
          (tp_attentions projection)))"

text \<open>A claim, and what became of it when the kernel refused.\<close>

definition claim_attention ::
  "runtime_options \<Rightarrow> attention_view \<Rightarrow> string \<Rightarrow> (runtime_error dispatch_result + command_result) rop" where
  "claim_attention ro attention correlationId =
     bindM (gets rt_awaits) (\<lambda>n.
     catchM
       (bindM (command ro (CmdClaimAttention
          \<lparr>idempotencyKey = ''attention:'' @ atv_id attention @ '':claim:'' @ show_nat (atv_revision attention) @
             '':'' @ ro_uuid ro n,
           cl_attentionId = atv_id attention, cl_expectedAttentionRevision = atv_revision attention,
           cl_leaseDurationMs = JInt (ro_attentionLeaseMs ro)\<rparr>) (Some correlationId)) (\<lambda>claim. ret (Inr claim)))
       (\<lambda>e. case e of
          KernelThrew k \<Rightarrow>
            if err_code k = Some DomainBusy then ret (Inl Blocked)
            else if err_code k = Some Conflict \<or> err_code k = Some StaleRevision then
              bindM (threadProjection ro (runtime_actor ro) (atv_threadRootId attention)) (\<lambda>projection.
              bindM (gets rt_now) (\<lambda>now.
              ret (Inl
                (case find_first (\<lambda>c. atv_id c = atv_id attention) (tp_attentions projection) of
                   None \<Rightarrow> Retry
                 | Some current \<Rightarrow>
                     if atv_status current = AttOpen \<and>
                        (case atv_handlerLeaseExpiresAt current of None \<Rightarrow> False | Some t \<Rightarrow> t > now)
                     then Blocked else Retry))))
            else raise e
        | _ \<Rightarrow> raise e))"

definition eligible_runs :: "attention_view \<Rightarrow> thread_projection \<Rightarrow> run_view list" where
  "eligible_runs attention thread =
     filter (\<lambda>run. rnv_ownerAgentId run = atv_targetAgentId attention \<and>
               rnv_projectId run = atv_projectId attention \<and> rnv_homeChannelId run = atv_channelId attention \<and>
               rnv_threadRootId run = atv_threadRootId attention \<and>
               (rnv_state run = RunActive \<or> rnv_state run = RunWaiting)) (tp_runs thread)"

definition dispatch_claimed ::
  "runtime_options \<Rightarrow> provider \<Rightarrow> bool \<Rightarrow> attention_view \<Rightarrow> string \<Rightarrow> command_result \<Rightarrow>
   runtime_error dispatch_result rop" where
  "dispatch_claimed ro provider finished_message attention correlationId claim =
     bindM (needM RuntimeFailure
       (truthy (Option.bind (cr_relatedIds claim) (\<lambda>ids. map_of ids ''handlerLeaseToken'')))) (\<lambda>token.
     bindM (needM RuntimeFailure (cr_revision claim)) (\<lambda>revision.
     bindM (needM RuntimeFailure (cr_leaseExpiresAt claim)) (\<lambda>leaseExpiresAt.
     bindM (command ro (CmdStartActivation
        \<lparr>idempotencyKey = ''attention:'' @ atv_id attention @ '':activation:'' @ token,
         sa_runId = None, sa_attentionId = Some (atv_id attention), sa_handlerLeaseToken = Some token,
         sa_expectedRunRevision = None,
         sa_outbox = \<lparr>oa_outboxEventId = None, oa_outboxLeaseToken = None\<rparr>,
         sa_durationMs = Some (activation_duration ro (ro_attentionLeaseMs ro))\<rparr>) (Some correlationId)) (\<lambda>started.
     bindM (activationAgent ro (cr_entityId started) (atv_targetAgentId attention) (atv_projectId attention)) (\<lambda>agent.
     bindM (threadProjection ro \<lparr>pc_principalId = ba_principalId agent, pc_activationId = Some (cr_entityId started)\<rparr>
              (atv_threadRootId attention)) (\<lambda>thread.
     seqM (guardM (list_ex (\<lambda>m. list_ex (\<lambda>r. mrv_id r = atv_messageRevisionId attention) (msv_revisions m))
                     (tp_messages thread)) RuntimeFailure)
    (bindM (executeProvider ro provider finished_message
        \<lparr>pq_activationId = cr_entityId started, pq_agent = agent,
         pq_cause = ForAttention attention revision token (eligible_runs attention thread),
         pq_authorityLeaseExpiresAt = leaseExpiresAt, pq_runInputIds = [],
         pq_requestIdempotencyKey = ''attention:'' @ atv_id attention @ '':'' @ token,
         pq_correlationId = correlationId\<rparr>) (\<lambda>providerStarted.
     ret (if providerStarted then Dispatched else Blocked)))))))))"

definition dispatchAttention ::
  "runtime_options \<Rightarrow> provider \<Rightarrow> bool \<Rightarrow> attention_view \<Rightarrow> runtime_error dispatch_result rop" where
  "dispatchAttention ro provider finished_message attention =
     bindM (operationalCorrelation ro EntAttention (atv_id attention)) (\<lambda>correlationId.
     bindM (hasEarlierOpenAttention ro attention) (\<lambda>earlier.
     if earlier then ret Blocked
     else
       seqM (pause ro)
      (bindM (claim_attention ro attention correlationId) (\<lambda>claimed.
       case claimed of
         Inl result \<Rightarrow> ret result
       | Inr claim \<Rightarrow> dispatch_claimed ro provider finished_message attention correlationId claim))))"

text \<open>One execution an earlier host left; the number of settlements made.\<close>

definition reconcileAttentionExecution :: "runtime_options \<Rightarrow> recoverable_view \<Rightarrow> nat \<Rightarrow> nat rop" where
  "reconcileAttentionExecution ro execution revision =
     bindM (operationalCorrelation ro EntAttention (atv_id (rxv_attention execution))) (\<lambda>correlationId.
     let activation = rxv_activation execution;
         attempts = rxv_providerAttempts execution;
         unsettledAttempts = filter (\<lambda>a. pav_status a = ProvStarted \<or> pav_status a = ProvAcknowledged) attempts;
         latest = (if attempts = [] then None else Some (last attempts));
         (outcome, detail) =
           (case map_option pav_status latest of
              Some ProvCompleted \<Rightarrow> (ActCompleted, ''Recovered a completed Attention ProviderAttempt.'')
            | Some ProvFailed \<Rightarrow> (ActFailed, recoveredFailedDetail)
            | _ \<Rightarrow> (ActExpired, recoveredUnknownDetail)) in
     seqM (whenM (aav_finishedAt activation = None)
             (seqM (whenM (unsettledAttempts = [])
                (bindM (recoveryRevision ro) (\<lambda>current.
                 guardM (current = revision) (KernelThrew (err StaleRevision)))))
             (catchM
                (finish_activation ro (aav_id activation @ '':attention-reconciled-'' @ outcome_word outcome)
                   (aav_id activation) outcome (Some detail) (Some correlationId))
                (\<lambda>e. case e of KernelThrew k \<Rightarrow> (if err_code k = Some Conflict then ret () else raise e)
                     | _ \<Rightarrow> raise e))))
    (seqM (forM unsettledAttempts (\<lambda>attempt.
             seqM (pause ro)
            (bindM (settleProviderAttempt ro (pav_id attempt) (pav_id attempt @ '':attention-reconciled-unknown'')
                ProvUnknown (Some recoveredUnknownDetail) (Some correlationId)) (\<lambda>_. ret ()))))
          (ret ((if aav_finishedAt activation = None then 1 else 0) + length unsettledAttempts))))"

end
