(* ===== verification/DeliverySafety.thy ===== *)
theory DeliverySafety
  imports RuntimeDelivery BrowserReads
begin

text \<open>
  When the runtime calls a provider: at most once for an event, for an attempt the kernel has recorded under
  the event's key, and not again when an earlier attempt may have reached the provider, unless the
  provider tells requests apart itself.
\<close>

section \<open>Steps that call no provider\<close>

definition undelivered :: "runtime \<Rightarrow> runtime \<Rightarrow> bool" where
  "undelivered s t \<longleftrightarrow> rt_delivered t = rt_delivered s \<and> kernel_steps (rt_kernel s) (rt_kernel t)"

text \<open>
  The record of deliveries is the model's, so nobody else writes it; and whatever else happens to the
  kernel is a sequence of its operations.
\<close>

definition honest_options :: "runtime_options \<Rightarrow> bool" where
  "honest_options ro \<longleftrightarrow>
     (\<forall>n s. undelivered s (ro_others ro n s)) \<and> (\<forall>i s. undelivered s (snd (ro_stopActivation ro i s)))"

definition honest_provider :: "provider \<Rightarrow> bool" where
  "honest_provider provider \<longleftrightarrow> (\<forall>bo key s b. undelivered s (fst (snd (provider bo key (s, b)))))"

named_theorems delivery_rules "operations of the runtime that call no provider"

interpretation quietly: evolution undelivered
proof unfold_locales
  show "undelivered s s" for s by (simp add: undelivered_def)
  show "undelivered s t \<Longrightarrow> undelivered t u \<Longrightarrow> undelivered s u" for s t u
    unfolding undelivered_def by (auto intro: rtranclp_trans)
qed

lemmas quiet_combinators [delivery_rules] = quietly.rules

lemma undelivered_await: "honest_options ro \<Longrightarrow> undelivered s (await ro s)"
  by (simp add: honest_options_def await_def undelivered_def)

lemma quiet_calls [delivery_rules]:
  assumes "honest_options ro"
  shows "evolves undelivered (pause ro)" "evolves undelivered (command_as ro actor c corr)"
    "evolves undelivered (command ro c corr)" "evolves undelivered (ask_as ro actor q view)"
    "evolves undelivered (ro_stopActivation ro i)"
proof -
  have call: "evolves undelivered (call_kernel ro m)" if "\<And>k. kernel_steps k (snd (m k))" for m :: "'b top"
  proof -
    have "undelivered s (await ro (s\<lparr>rt_kernel := snd (m (rt_kernel s))\<rparr>))" for s
      by (rule quietly.trans [OF _ undelivered_await [OF assms]]) (simp add: undelivered_def that)
    then show ?thesis by (simp add: evolves_def call_kernel_def case_prod_unfold)
  qed
  show "evolves undelivered (pause ro)"
    using undelivered_await [OF assms] by (simp add: evolves_def pause_def modify_def)
  show c: "evolves undelivered (command_as ro actor c corr)" for actor
    unfolding command_as_def by (rule call [OF execute_steps])
  show "evolves undelivered (command ro c corr)"
    unfolding command_def by (rule c)
  have "kernel_steps k (snd (query_kernel q actor k))" for k
    by (rule r_into_rtranclp) (rule kernel_step.query)
  then show "evolves undelivered (ask_as ro actor q view)"
    unfolding ask_as_def by (intro delivery_rules call)
  show "evolves undelivered (ro_stopActivation ro i)"
    using assms by (simp add: honest_options_def evolves_def)
qed

lemma quiet_modify: "(\<And>s. rt_delivered (f s) = rt_delivered s) \<Longrightarrow> (\<And>s. rt_kernel (f s) = rt_kernel s) \<Longrightarrow>
    evolves undelivered (modify f)"
  by (simp add: evolves_def modify_def undelivered_def)

lemma quiet_reads [delivery_rules]:
  assumes "honest_options ro"
  shows "evolves undelivered (runProjection ro i)" "evolves undelivered (threadProjection ro actor i)"
    "evolves undelivered (operationalCorrelation ro ty i)" "evolves undelivered (recoveryRevision ro)"
    "evolves undelivered (activationAgent ro i j k)" "evolves undelivered (findProviderAttemptStatus ro i)"
    "evolves undelivered (loadProject ro i)"
  unfolding runProjection_def threadProjection_def operationalCorrelation_def recoveryRevision_def
    activationAgent_def findProviderAttemptStatus_def loadProject_def
  by (intro delivery_rules quiet_modify assms; simp)+

lemma quiet_case_error [delivery_rules]:
  "(\<And>k. e = KernelThrew k \<Longrightarrow> evolves undelivered (f k)) \<Longrightarrow> evolves undelivered m \<Longrightarrow>
   evolves undelivered (case e of KernelThrew k \<Rightarrow> f k | _ \<Rightarrow> m)"
  by (cases e) simp_all

lemma quiet_case_cause [delivery_rules]:
  "(\<And>a n t rs. c = ForAttention a n t rs \<Longrightarrow> evolves undelivered (f a n t rs)) \<Longrightarrow>
   (\<And>p ev t. c = ForRun p ev t \<Longrightarrow> evolves undelivered (g p ev t)) \<Longrightarrow>
   evolves undelivered (case c of ForAttention a n t rs \<Rightarrow> f a n t rs | ForRun p ev t \<Rightarrow> g p ev t)"
  by (cases c) simp_all

lemma quiet_settling [delivery_rules]:
  assumes "honest_options ro"
  shows "evolves undelivered (finish_activation ro key i out detail corr)"
    "evolves undelivered (finish_attempt ro key i status detail corr)"
    "evolves undelivered (finishActivationBeforeProvider ro i c)"
    "evolves undelivered (settleProviderAttempt ro i key status detail corr)"
    "evolves undelivered (settleUncertainAttempt ro p i)"
    "evolves undelivered (parkRunAfterDeliveryFailure ro p event status c)"
  unfolding finish_activation_def finish_attempt_def finishActivationBeforeProvider_def settleProviderAttempt_def
    settleUncertainAttempt_def parkRunAfterDeliveryFailure_def
  by (intro delivery_rules assms)+

lemma quiet_recovery [delivery_rules]:
  assumes "honest_options ro"
  shows "evolves undelivered (finishRecoveredActivation ro m i key j out detail corr)"
    "evolves undelivered (reconcile_activation ro m p c a)"
    "evolves undelivered (reconcileRunProjection ro m p)"
  unfolding finishRecoveredActivation_def reconcile_activation_def reconcileRunProjection_def
  by (intro delivery_rules assms)+

text \<open>The bridge calls no provider either.\<close>

abbreviation bridge_undelivered :: "runtime \<times> bridge \<Rightarrow> runtime \<times> bridge \<Rightarrow> bool" where
  "bridge_undelivered x y \<equiv> undelivered (fst x) (fst y)"

interpretation bridged: evolution bridge_undelivered
  by unfold_locales (auto intro: quietly.refl quietly.trans)

lemma bridge_parts:
  "evolves undelivered m \<Longrightarrow> evolves bridge_undelivered (on_runtime m)"
  "evolves bridge_undelivered (bridge_state f)"
  by (auto simp: evolves_def on_runtime_def bridge_state_def modify_def quietly.refl split: prod.split)
    (metis snd_conv)

lemma quiet_bridge_wait:
  assumes "honest_options ro" "bo_assertPublication bo = ret ()"
  shows "undelivered s (fst (snd (bridge_wait ro bo message (s, b))))"
proof -
  have "evolves bridge_undelivered (bridge_run bo)"
    unfolding bridge_run_def by (cases "bo_cause bo") (simp_all add: bridged.ret bridged.raise)
  moreover have "evolves bridge_undelivered (agentContext bo)"
    unfolding agentContext_def assms(2) by (intro bridged.rules bridge_parts delivery_rules)
  ultimately have "evolves bridge_undelivered (bridge_wait ro bo message)"
    unfolding bridge_wait_def end_run_def assertNoTerminalAction_def requireRunRevision_def bridge_key_def
    by (intro bridged.rules bridge_parts delivery_rules assms(1))
  then show ?thesis unfolding evolves_def by (metis fst_conv)
qed

lemma quiet_outcomes [delivery_rules]:
  assumes "honest_options ro"
  shows "evolves undelivered (complete_execution ro request i thrown b)"
    "evolves undelivered (wait_after_failure ro request i b p message)"
    "evolves undelivered (fail_execution ro request i aborted b e)"
    "evolves undelivered (resume_ended_attempt ro m request i status)"
proof -
  show wait: "evolves undelivered (wait_after_failure ro request i b p message)" for p message
    unfolding wait_after_failure_def
    by (intro delivery_rules assms)
       (simp add: evolves_def case_prod_unfold quiet_bridge_wait [OF assms] request_bridge_def)
  show "evolves undelivered (complete_execution ro request i thrown b)"
    "evolves undelivered (fail_execution ro request i aborted b e)"
    "evolves undelivered (resume_ended_attempt ro m request i status)"
    unfolding complete_execution_def fail_execution_def resume_ended_attempt_def
    by (intro delivery_rules assms wait)+
qed

section \<open>Attempts on record\<close>

definition attempt_on_record :: "ident \<Rightarrow> string \<Rightarrow> database \<Rightarrow> bool" where
  "attempt_on_record attemptId key d \<longleftrightarrow>
     (\<exists>a \<in> set (d_provider_attempts d). pa_id a = attemptId \<and> pa_request_idempotency_key a = key)"

definition recorded :: "ident \<Rightarrow> string \<Rightarrow> runtime \<Rightarrow> bool" where
  "recorded attemptId key s = attempt_on_record attemptId key (k_db (tk_context (rt_kernel s)))"

lemma attempt_stays:
  assumes "extends d e" "attempt_on_record i key d"
  shows "attempt_on_record i key e"
proof -
  obtain a where a: "a \<in> set (d_provider_attempts d)" "pa_id a = i" "pa_request_idempotency_key a = key"
    using assms(2) by (auto simp: attempt_on_record_def)
  have "attempt_fixed a \<in> set (map attempt_fixed (d_provider_attempts e))"
    using assms(1) a(1) set_mono_prefix unfolding extends_def by (metis image_eqI list.set_map subsetD)
  then obtain b where "b \<in> set (d_provider_attempts e)" "attempt_fixed b = attempt_fixed a" by auto
  then have "pa_id b = pa_id a" "pa_request_idempotency_key b = pa_request_idempotency_key a"
    by (auto simp: attempt_fixed_def dest: arg_cong [where f = pa_id]
        arg_cong [where f = pa_request_idempotency_key])
  then show ?thesis using a \<open>b \<in> set (d_provider_attempts e)\<close> by (auto simp: attempt_on_record_def)
qed

lemma recorded_stays: "kernel_steps (rt_kernel s) (rt_kernel t) \<Longrightarrow> recorded i key s \<Longrightarrow> recorded i key t"
  using steps_sound(1) [of "rt_kernel s" "rt_kernel t"] attempt_stays [of "k_db (tk_context (rt_kernel s))"]
  by (simp add: recorded_def outer_advances_def advances_def)

text \<open>What a started attempt returns is on record, started now or by an earlier command with its key.\<close>

lemma wp_growing:
  assumes "evolves advances m" "attempt_on_record i key (k_db s)"
    and "\<And>x t. attempt_on_record i key (k_db t) \<Longrightarrow> Q x t"
  shows "wp m Q (\<lambda>_ _. True) s"
proof -
  have "extends (k_db s) (k_db (snd (m s)))"
    using assms(1) by (simp add: evolves_def advances_def)
  then have "attempt_on_record i key (k_db (snd (m s)))"
    using assms(2) by (rule attempt_stays)
  then show ?thesis using assms(3) by (auto simp: wp_def split: prod.split sum.split)
qed

text \<open>\<open>returning Q m\<close>: whatever the state, what \<open>m\<close> returns satisfies \<open>Q\<close> there.\<close>

definition returning :: "('a \<Rightarrow> 's \<Rightarrow> bool) \<Rightarrow> ('s, 'e, 'a) op \<Rightarrow> bool" where
  "returning Q m \<longleftrightarrow> (\<forall>s. wp m Q (\<lambda>_ _. True) s)"

named_theorems returning_rules "what an operation returns, backwards"

lemma returning_intros [returning_rules]:
  "(\<And>s. Q x s) \<Longrightarrow> returning Q (ret x)"
  "(\<And>x. returning Q (f x)) \<Longrightarrow> returning Q (bindM m f)"
  "returning Q n \<Longrightarrow> returning Q (seqM m' n)"
  "(\<And>x y. p = (x, y) \<Longrightarrow> returning Q (g x y)) \<Longrightarrow> returning Q (case p of (x, y) \<Rightarrow> g x y)"
  "returning Q (h w) \<Longrightarrow> returning Q (Let w h)"
  "(v = None \<Longrightarrow> returning Q n) \<Longrightarrow> (\<And>z. v = Some z \<Longrightarrow> returning Q (j z)) \<Longrightarrow>
   returning Q (case v of None \<Rightarrow> n | Some z \<Rightarrow> j z)"
  by (auto simp: returning_def wp_simps Let_def split: prod.split option.split)
    (auto simp: wp_def split: prod.split sum.split)

text \<open>What a started attempt returns is on record, started now or by an earlier command with its key.\<close>

abbreviation names_attempt :: "string \<Rightarrow> command_result \<Rightarrow> kernel \<Rightarrow> bool" where
  "names_attempt key r k \<equiv> attempt_on_record (cr_entityId r) key (k_db k)"

lemma attempt_inserted:
  "wp (insert_provider_attempt a)
     (\<lambda>_ k. attempt_on_record (pa_id a) (pa_request_idempotency_key a) (k_db k)) (\<lambda>_ _. True) k"
proof -
  have "wp (insert_unique d_provider_attempts d_provider_attempts_update provider_attempt_clash a)
     (\<lambda>_ t. attempt_on_record (pa_id a) (pa_request_idempotency_key a) (k_db t)) (\<lambda>_ _. True) k"
    by (simp add: insert_unique_def query_def writeDb_def attempt_on_record_def wp_simps)
  then show ?thesis
    unfolding insert_provider_attempt_def wp_seqM
    by (rule wp_mono) (intro wp_growing wp_intro_seqM grows_advances grows_rules; assumption?)+
qed

lemma returning_inserted:
  assumes "pa_request_idempotency_key a = key"
    and "returning (\<lambda>r _. cr_entityId r = pa_id a) n" and "evolves advances n"
  shows "returning (names_attempt key) (seqM (insert_provider_attempt a) n)"
proof -
  let ?on = "\<lambda>t. attempt_on_record (pa_id a) key (k_db t)"
  have "wp n (names_attempt key) (\<lambda>_ _. True) t" if "?on t" for t
  proof -
    have "wp n (\<lambda>_. ?on) (\<lambda>_ _. True) t"
      by (rule wp_growing [OF assms(3) that])
    moreover have "wp n (\<lambda>r _. cr_entityId r = pa_id a) (\<lambda>_ _. True) t"
      using assms(2) by (simp add: returning_def)
    ultimately show ?thesis by (auto simp: wp_def split: prod.split sum.split)
  qed
  then show ?thesis
    unfolding returning_def wp_seqM assms(1) [symmetric]
    by (intro allI) (rule wp_mono [OF attempt_inserted], simp_all)
qed

lemma attempt_started: "returning (names_attempt (sp_requestIdempotencyKey c)) (startProviderAttempt c prin cx corr)"
  unfolding startProviderAttempt_def
  by ((rule returning_inserted returning_rules | simp add: command_result_of_def | intro grows_advances grows_rules)+)

lemma attempt_resolved:
  "returning (names_attempt (sp_requestIdempotencyKey c)) (resolveCachedProviderAttempt c r prin cx)"
proof -
  have "wp (bindM (requireProviderAttempt i) (\<lambda>attempt.
      seqM (guardM (pa_activation_id attempt = j \<and> pa_request_idempotency_key attempt = key) InternalError)
        (ret (r\<lparr>cr_leaseExpiresAt := v, cr_authorityObservedAt := w\<rparr>))))
      (names_attempt key) (\<lambda>_ _. True) s" if "i = cr_entityId r" for i j key v w s
    unfolding requireProviderAttempt_def requireRow_def wp_bindM query_def
    using that by (auto simp: wp_simps attempt_on_record_def dest: find_row_Some split: option.split)
  then have read: "returning (names_attempt key) (bindM (requireProviderAttempt (cr_entityId r)) (\<lambda>attempt.
      seqM (guardM (pa_activation_id attempt = j \<and> pa_request_idempotency_key attempt = key) InternalError)
        (ret (r\<lparr>cr_leaseExpiresAt := v, cr_authorityObservedAt := w\<rparr>))))" for j key v w
    by (simp add: returning_def)
  show ?thesis
    unfolding resolveCachedProviderAttempt_def
    by ((rule read returning_rules)+)
qed

lemma attempt_command:
  assumes "execute h inputs (CmdStartProviderAttempt c) cx operation t = (Inr r, u)"
  shows "attempt_on_record (cr_entityId r) (sp_requestIdempotencyKey c) (k_db (tk_context u))"
proof -
  let ?command = "CmdStartProviderAttempt c" and ?names = "names_attempt (sp_requestIdempotencyKey c)"
  have then_named: "returning ?names (bindM m f)"
    if "returning ?names m" "\<And>x. evolves advances (f x)" "\<And>x. returning (\<lambda>r _. cr_entityId r = cr_entityId x) (f x)"
    for m and f :: "command_result \<Rightarrow> command_result kop"
  proof -
    have "wp (f x) ?names (\<lambda>_ _. True) s" if "?names x s" for x s
    proof -
      have "wp (f x) (\<lambda>_ k. attempt_on_record (cr_entityId x) (sp_requestIdempotencyKey c) (k_db k)) (\<lambda>_ _. True) s"
        by (rule wp_growing [OF \<open>evolves advances (f x)\<close> that])
      moreover have "wp (f x) (\<lambda>r _. cr_entityId r = cr_entityId x) (\<lambda>_ _. True) s"
        using \<open>returning _ (f x)\<close> by (simp add: returning_def)
      ultimately show ?thesis by (auto simp: wp_def split: prod.split sum.split)
    qed
    then show ?thesis
      using that(1) unfolding returning_def wp_bindM by (blast intro: wp_mono)
  qed
  have "returning ?names (run_command ?command hash operation prin ct)" for hash prin ct
    unfolding run_command_def
    by (rule returning_intros(2), rule then_named)
      (simp add: dispatchCommand_def attempt_started, intro advance_rules advances_idempotency grows_advances grows_rules, (rule returning_rules | simp)+)
  moreover have "returning ?names (replay_cached ?command hash prin ct cached)" for hash prin ct cached
    unfolding replay_cached_def replay_result_def refreshing_def kernel_command.case
    by (rule returning_intros(3), rule returning_intros(3), rule then_named)
      (rule attempt_resolved, intro advance_rules advances_idempotency,
        auto simp: idempotency_fixed_def record_key_def idempotency_key_def type_of_command_def refreshable_def
          intro!: returning_rules)
  ultimately have body: "returning ?names (transaction_body ?command hash operation prin ct)" for hash prin ct
    unfolding transaction_body_def by (intro returning_rules)
  have "returning ?names (command_transaction h inputs ?command cx operation)"
    unfolding command_transaction_split
  proof (intro returning_intros(2))
    show "returning ?names (transaction (transaction_body ?command hash operation prin ct))" for hash prin ct
      using body [of hash prin ct] unfolding returning_def wp_def
      by (auto simp: transaction_def split: prod.splits sum.splits)
  qed
  then show ?thesis
    using assms
    by (auto simp: returning_def wp_def execute_def execute_inner_once withDatabaseAccess_def assertOpen_def
        remember_execution_def run_simps on_context_run split: prod.splits sum.splits if_splits)
qed

section \<open>Steps that call a provider once\<close>

definition delivers :: "string \<Rightarrow> runtime \<Rightarrow> runtime \<Rightarrow> bool" where
  "delivers key s t \<longleftrightarrow> kernel_steps (rt_kernel s) (rt_kernel t) \<and>
     (rt_delivered t = rt_delivered s \<or> (\<exists>i. rt_delivered t = (i, key) # rt_delivered s \<and> recorded i key t))"

definition known :: "string \<Rightarrow> ident option \<Rightarrow> runtime \<Rightarrow> bool" where
  "known key v s = (case v of None \<Rightarrow> True | Some i \<Rightarrow> recorded i key s)"

text \<open>Started where the attempt \<open>v\<close> is on record, the operation calls a provider at most once.\<close>

definition delivering :: "ident option \<Rightarrow> string \<Rightarrow> 'a rop \<Rightarrow> bool" where
  "delivering v key m \<longleftrightarrow> (\<forall>s. known key v s \<longrightarrow> delivers key s (snd (m s)))"

named_theorems delivering_rules "operations that call a provider at most once"

lemma undelivered_delivers: "undelivered s t \<Longrightarrow> delivers key t u \<Longrightarrow> delivers key s u"
  by (auto simp: undelivered_def delivers_def intro: rtranclp_trans)

lemma delivers_undelivered: "delivers key s t \<Longrightarrow> undelivered t u \<Longrightarrow> delivers key s u"
  by (auto simp: undelivered_def delivers_def intro: rtranclp_trans recorded_stays)

lemma known_stays: "undelivered s t \<Longrightarrow> known key v s \<Longrightarrow> known key v t"
  by (auto simp: known_def undelivered_def intro: recorded_stays split: option.splits)

lemma evolves_at: "evolves undelivered m \<Longrightarrow> m s = (r, t) \<Longrightarrow> undelivered s t"
  unfolding evolves_def by (metis snd_conv)

lemma quiet_delivers: "evolves undelivered m \<Longrightarrow> delivering v key m"
  by (auto simp: delivering_def evolves_def delivers_def undelivered_def)

lemma delivering_bindM [delivering_rules]:
  assumes "evolves undelivered m" "\<And>x. delivering v key (f x)"
  shows "delivering v key (bindM m f)"
  unfolding delivering_def
proof (intro allI impI)
  fix s assume known: "known key v s"
  obtain r t where run: "m s = (r, t)" by (cases "m s")
  have quiet: "undelivered s t" by (rule evolves_at [OF assms(1) run])
  have "delivers key t (snd (f x t))" for x
    using assms(2) known_stays [OF quiet known] by (simp add: delivering_def)
  then have "delivers key s (snd (f x t))" for x
    by (rule undelivered_delivers [OF quiet])
  moreover have "delivers key s t"
    using quiet by (simp add: delivers_def undelivered_def)
  ultimately show "delivers key s (snd (bindM m f s))"
    by (simp add: bindM_run run split: sum.split)
qed

lemma delivering_combinators [delivering_rules]:
  "evolves undelivered m \<Longrightarrow> delivering v key n \<Longrightarrow> delivering v key (seqM m n)"
  "(c \<Longrightarrow> delivering v key n) \<Longrightarrow> (\<not> c \<Longrightarrow> delivering v key n') \<Longrightarrow> delivering v key (if c then n else n')"
  "delivering v key (h u) \<Longrightarrow> delivering v key (Let u h)"
  "(w = None \<Longrightarrow> delivering v key n) \<Longrightarrow> (\<And>z. w = Some z \<Longrightarrow> delivering v key (j z)) \<Longrightarrow>
   delivering v key (case w of None \<Rightarrow> n | Some z \<Rightarrow> j z)"
  by (auto simp: seqM_def intro: delivering_bindM split: option.split)

lemma delivering_finally:
  assumes "delivering v key m" "evolves undelivered n"
  shows "delivering v key (finallyM m n)"
  unfolding delivering_def
proof (intro allI impI)
  fix s assume "known key v s"
  obtain r t where run: "m s = (r, t)" by (cases "m s")
  obtain r' u where then_run: "n t = (r', u)" by (cases "n t")
  have "delivers key s t"
    using assms(1) \<open>known key v s\<close> run by (auto simp: delivering_def)
  then have "delivers key s u"
    by (rule delivers_undelivered [OF _ evolves_at [OF assms(2) then_run]])
  then show "delivers key s (snd (finallyM m n s))"
    by (simp add: finallyM_def run then_run split: sum.split)
qed

lemma delivering_admission:
  assumes "honest_options ro" "\<And>x. delivering (Some (cr_entityId x)) (pq_requestIdempotencyKey request) (f x)"
  shows "delivering v (pq_requestIdempotencyKey request) (bindM (command ro (admissionCommand ro request) corr) f)"
  unfolding delivering_def
proof (intro allI impI)
  let ?key = "pq_requestIdempotencyKey request" and ?m = "command ro (admissionCommand ro request) corr"
  fix s
  obtain r t where run: "?m s = (r, t)" by (cases "?m s")
  have quiet: "undelivered s t"
    by (rule evolves_at [where m = ?m, OF _ run]) (intro delivery_rules assms(1))
  have "delivers ?key s (snd (f x t))" if "r = Inr x" for x
  proof -
    obtain k where k: "execute (ro_hash ro) [] (admissionCommand ro request) (runtime_actor ro) corr (rt_kernel s) =
        (Inr x, k)" "t = await ro (s\<lparr>rt_kernel := k\<rparr>)"
      using run unfolding command_def command_as_def call_kernel_def \<open>r = Inr x\<close>
      by (auto split: prod.splits sum.splits)
    have "attempt_on_record (cr_entityId x) ?key (k_db (tk_context k))"
      using attempt_command [OF k(1) [unfolded admissionCommand_def]] by simp
    then have "recorded (cr_entityId x) ?key (s\<lparr>rt_kernel := k\<rparr>)"
      by (simp add: recorded_def)
    then have "recorded (cr_entityId x) ?key t"
      using undelivered_await [OF assms(1)] unfolding k(2) undelivered_def by (blast intro: recorded_stays)
    then have "delivers ?key t (snd (f x t))"
      using assms(2) by (simp add: delivering_def known_def)
    then show ?thesis by (rule undelivered_delivers [OF quiet])
  qed
  moreover have "delivers ?key s t"
    using quiet by (simp add: delivers_def undelivered_def)
  ultimately show "delivers ?key s (snd (bindM ?m f s))"
    by (auto simp: bindM_run run split: sum.split)
qed

lemma delivering_provider:
  assumes "honest_options ro" "honest_provider provider" "\<And>x. evolves undelivered (f x)"
  shows "delivering (Some i) (pq_requestIdempotencyKey request) (bindM (run_provider ro provider request i) f)"
  unfolding delivering_def
proof (intro allI impI)
  let ?key = "pq_requestIdempotencyKey request" and ?bo = "request_bridge request i"
  fix s assume "known ?key (Some i) s"
  then have on: "recorded i ?key s" by (simp add: known_def)
  let ?s = "s\<lparr>rt_delivered := (i, ?key) # rt_delivered s\<rparr>"
  obtain e aborted t b where run: "provider ?bo ?key (?s, new_bridge ?bo) = ((e, aborted), (t, b))"
    by (metis surj_pair)
  have "undelivered ?s t"
    using assms(2) run unfolding honest_provider_def by (metis fst_conv snd_conv)
  then have "undelivered ?s (await ro t)"
    by (rule quietly.trans) (rule undelivered_await [OF assms(1)])
  then have "delivers ?key s (await ro t)"
    using recorded_stays [OF _ on, of "await ro t"] by (simp add: undelivered_def delivers_def)
  then have "delivers ?key s (snd (f x (await ro t)))" for x
    using assms(3) [of x] by (auto simp: evolves_def intro: delivers_undelivered)
  then show "delivers ?key s (snd (bindM (run_provider ro provider request i) f s))"
    by (simp add: bindM_run run_provider_def Let_def run)
qed

lemma delivering_executeProvider:
  assumes "honest_options ro" "honest_provider provider"
  shows "delivering v (pq_requestIdempotencyKey request) (executeProvider ro provider m request)"
  unfolding executeProvider_def
  by (rule delivering_admission delivering_provider delivering_finally delivering_combinators delivering_bindM
      | (rule quiet_delivers)?, intro delivery_rules assms)+

lemma delivering_event:
  assumes "honest_options ro" "honest_provider provider" "key = request_key (ov_id event)"
  shows "delivering v key (deliver_activation ro provider m event token expiry corr current activation)"
    and "delivering v key (start_delivery ro provider m event token expiry corr current)"
    and "delivering v key (settle_delivery ro provider m event token expiry corr current prior)"
proof -
  have execution: "delivering v key (executeProvider ro provider m request)"
    if "pq_requestIdempotencyKey request = key" for request
    using delivering_executeProvider [OF assms(1,2)] that by blast
  show deliver: "delivering v key (deliver_activation ro provider m event token expiry corr current activation)"
    for current activation
    unfolding deliver_activation_def
    by (rule delivering_combinators delivering_bindM | (rule execution, simp add: assms(3); fail)
        | (rule quiet_delivers, intro delivery_rules assms; fail) | (intro delivery_rules assms; fail))+
  show start: "delivering v key (start_delivery ro provider m event token expiry corr current)" for current
    unfolding start_delivery_def
    by (rule deliver delivering_combinators delivering_bindM | (rule quiet_delivers)?, intro delivery_rules assms)+
  show "delivering v key (settle_delivery ro provider m event token expiry corr current prior)"
    unfolding settle_delivery_def
    by (rule start delivering_combinators delivering_bindM | (rule quiet_delivers)?, intro delivery_rules assms)+
qed

lemma settled_not_delivered:
  assumes "honest_options ro" "isTerminalProviderStatus (pav_status prior) \<or> \<not> ro_supportsIdempotentRequests ro"
  shows "evolves undelivered (settle_delivery ro provider m event token expiry corr current prior)"
proof (cases "isTerminalProviderStatus (pav_status prior)")
  case True
  then show ?thesis
    unfolding settle_delivery_def isTerminalProviderStatus_def
    by (intro delivery_rules assms(1)) (auto intro: delivery_rules assms(1))
next
  case False
  with assms(2) have "\<not> ro_supportsIdempotentRequests ro" by simp
  then show ?thesis
    unfolding settle_delivery_def
    by (simp only: not_False_eq_True if_True) (intro delivery_rules assms(1))
qed

section \<open>What the runtime reads first\<close>

definition run_attempts :: "ident \<Rightarrow> database \<Rightarrow> provider_attempt_row list" where
  "run_attempts runId d =
     sort_key (\<lambda>p. (pa_started_at p, pa_id p)) (filter (\<lambda>p. pa_run_id p = Some runId) (d_provider_attempts d))"

lemma projection_read:
  "wp (runProjection ro runId)
     (\<lambda>p _. rp_providerAttempts p = map mapProviderAttempt (run_attempts runId (k_db (tk_context (rt_kernel s)))) \<and>
       rp_inputs p = map mapRunInput (run_inputs_of runId (k_db (tk_context (rt_kernel s))))) (\<lambda>_ _. True) s"
proof -
  let ?d = "k_db (tk_context (rt_kernel s))"
  let ?Q = "\<lambda>p. rp_providerAttempts p = map mapProviderAttempt (run_attempts runId ?d) \<and>
      rp_inputs p = map mapRunInput (run_inputs_of runId ?d)"
  have "wp (getRunProjection runId) (\<lambda>p _. ?Q p) (\<lambda>_ _. True) k" if "k_db k = ?d" for k
    unfolding getRunProjection_def requireRun_def run_attempts_def run_inputs_of_def
    by (intro wp_intros) (auto simp: wp_simps that)
  then have "wp (query_body (GetRunProjection runId) prin cx)
      (\<lambda>r _. \<forall>p. (case r of RunProjection p \<Rightarrow> Some p | _ \<Rightarrow> None) = Some p \<longrightarrow> ?Q p) (\<lambda>_ _. True) k"
    if "k_db k = ?d" for prin cx k
    unfolding query_body_def answer_def
    by (simp, intro wp_intros wp_frame [OF frames_scopes(7) [where g = "\<lambda>d. d"]])
      (simp_all add: wp_ret that on_db_def)
  then have "wp (query_kernel (GetRunProjection runId) cx)
      (\<lambda>r _. \<forall>p. (case r of RunProjection p \<Rightarrow> Some p | _ \<Rightarrow> None) = Some p \<longrightarrow> ?Q p) (\<lambda>_ _. True) (rt_kernel s)" for cx
    by (rule wp_query_kernel)
  from this [of "runtime_actor ro"] show ?thesis
    unfolding runProjection_def ask_as_def
    by (auto simp: wp_def call_kernel_run bindM_run needM_run split: prod.split sum.split option.split)
qed

section \<open>An event\<close>

definition wakes :: "outbox_view \<Rightarrow> database \<Rightarrow> bool" where
  "wakes event d \<longleftrightarrow>
     ov_topic event \<in> {TopicRunActivationRequested, TopicRunInputAvailable} \<and>
     list_ex (\<lambda>i. ri_disposition i = Pending) (run_inputs_of (ov_aggregateId event) d)"

text \<open>Nothing was asked under the event's key, or what was asked last cannot have been acted on twice.\<close>

definition may_deliver :: "bool \<Rightarrow> outbox_view \<Rightarrow> database \<Rightarrow> bool" where
  "may_deliver idempotent event d =
     (case filter (\<lambda>p. pa_request_idempotency_key p = request_key (ov_id event)) (run_attempts (ov_aggregateId event) d) of
        [] \<Rightarrow> True
      | ps \<Rightarrow>
          (pa_status (last ps) = ProvFailed \<and> pa_detail (last ps) = Some notStartedDetail) \<or>
          (idempotent \<and> \<not> isTerminalProviderStatus (pa_status (last ps))))"

lemma last_attempt_read:
  assumes "rp_providerAttempts p = map mapProviderAttempt as"
  shows "last_attempt p key =
    (case filter (\<lambda>a. pa_request_idempotency_key a = key) as of
       [] \<Rightarrow> None | bs \<Rightarrow> Some (mapProviderAttempt (last bs)))"
  by (simp add: last_attempt_def assms filter_map o_def mapProviderAttempt_def last_map split: list.split)

lemma delivering_after_reading:
  assumes "honest_options ro" "honest_provider provider"
    and "rp_providerAttempts p = map mapProviderAttempt (run_attempts (ov_aggregateId event) d)"
    and "rp_inputs p = map mapRunInput (run_inputs_of (ov_aggregateId event) d)"
    and "ov_topic event \<in> {TopicRunActivationRequested, TopicRunInputAvailable}"
  shows "delivering v (request_key (ov_id event)) (wake_run ro provider finished event token expiry p)"
    and "\<not> (wakes event d \<and> may_deliver (ro_supportsIdempotentRequests ro) event d) \<Longrightarrow>
      evolves undelivered (wake_run ro provider finished event token expiry p)"
proof -
  note event = delivering_event [OF assms(1,2), where event = event, OF HOL.refl]
  have quiet: "evolves undelivered (seqM (reconcileRunProjection ro finished p) (ret True))"
    by (intro delivery_rules assms(1))
  have payload: "evolves undelivered (requirePayloadString payload name)" for payload name
    unfolding requirePayloadString_def
    by (auto intro!: delivery_rules split: json.split option.split)
  show "delivering v (request_key (ov_id event)) (wake_run ro provider finished event token expiry p)"
    unfolding wake_run_def
    by (intro delivering_bindM delivering_combinators event quiet_delivers [OF quiet] payload
        quiet_reads assms(1))
  assume barred: "\<not> (wakes event d \<and> may_deliver (ro_supportsIdempotentRequests ro) event d)"
  have "evolves undelivered
      (case last_attempt p (request_key (ov_id event)) of
          None \<Rightarrow> start_delivery ro provider finished event token expiry corr p
        | Some prior \<Rightarrow>
            if did_not_start prior then start_delivery ro provider finished event token expiry corr p
            else settle_delivery ro provider finished event token expiry corr p prior)"
    if "list_ex (\<lambda>i. riv_id i = inputId \<and> riv_disposition i = Pending) (rp_inputs p)" for corr inputId
  proof -
    have "list_ex (\<lambda>i. ri_disposition i = Pending) (run_inputs_of (ov_aggregateId event) d)"
      using that by (auto simp: assms(4) list_ex_iff mapRunInput_def)
    with barred assms(5) have "\<not> may_deliver (ro_supportsIdempotentRequests ro) event d"
      by (auto simp: wakes_def)
    then obtain a where "last_attempt p (request_key (ov_id event)) = Some (mapProviderAttempt a)"
      "\<not> did_not_start (mapProviderAttempt a)"
      "isTerminalProviderStatus (pa_status a) \<or> \<not> ro_supportsIdempotentRequests ro"
      by (auto simp: last_attempt_read [OF assms(3)] may_deliver_def did_not_start_def
          mapProviderAttempt_def split: list.splits)
    then show ?thesis
      by (simp add: settled_not_delivered [OF assms(1)] mapProviderAttempt_def)
  qed
  then show "evolves undelivered (wake_run ro provider finished event token expiry p)"
    unfolding wake_run_def
    by (intro quietly.rules payload quiet_reads quiet assms(1)) simp_all
qed

text \<open>C3: an event of the outbox makes the runtime call the provider at most once, and only for an attempt that the
  kernel has recorded under the key of that event. It does so only when the event wakes a run that
  still has a pending input, and when the run has no attempt under the key yet, or the last one is
  known not to have started, or its outcome is still open and the provider recognises repeated
  requests. This holds whatever others do to the kernel while the runtime waits.
\<close>

theorem deliveries_are_safe:
  assumes "honest_options ro" and "honest_provider provider"
    and "processOutboxEvent ro provider finished event token expiry s = (r, t)"
  shows "rt_delivered t = rt_delivered s \<or>
    (\<exists>i. rt_delivered t = (i, request_key (ov_id event)) # rt_delivered s \<and>
       recorded i (request_key (ov_id event)) t \<and> wakes event (k_db (tk_context (rt_kernel s))) \<and>
       may_deliver (ro_supportsIdempotentRequests ro) event (k_db (tk_context (rt_kernel s))))"
proof -
  let ?d = "k_db (tk_context (rt_kernel s))" and ?key = "request_key (ov_id event)"
  have silent: ?thesis if "undelivered s t"
    using that by (simp add: undelivered_def)
  show ?thesis
  proof (cases "ov_topic event \<in> {TopicRunActivationRequested, TopicRunInputAvailable}")
    case False
    then have "evolves undelivered (processOutboxEvent ro provider finished event token expiry)"
      unfolding processOutboxEvent_def requirePayloadString_def
      by (auto intro!: delivery_rules assms(1) split: json.split option.split)
    from evolves_at [OF this assms(3)] show ?thesis by (rule silent)
  next
    case True
    obtain q u where first: "runProjection ro (ov_aggregateId event) s = (q, u)"
      by (cases "runProjection ro (ov_aggregateId event) s")
    have read: "undelivered s u"
      by (rule evolves_at [OF quiet_reads(1) [OF assms(1)] first])
    show ?thesis
    proof (cases q)
      case (Inl e)
      then have "t = u"
        using assms(3) True by (auto simp: processOutboxEvent_def bindM_run first)
      then show ?thesis using silent read by simp
    next
      case (Inr p)
      then have rest: "wake_run ro provider finished event token expiry p u = (r, t)"
        using assms(3) True by (auto simp: processOutboxEvent_def bindM_run first)
      have p: "rp_providerAttempts p = map mapProviderAttempt (run_attempts (ov_aggregateId event) ?d)"
        "rp_inputs p = map mapRunInput (run_inputs_of (ov_aggregateId event) ?d)"
        using wp_returned [OF projection_read first [unfolded Inr]] by simp_all
      note after = delivering_after_reading [OF assms(1,2) p True]
      have "delivers ?key u (snd (wake_run ro provider finished event token expiry p u))"
        using after(1) [where v = None and finished = finished and token = token and expiry = expiry]
        by (simp add: delivering_def known_def)
      then have "delivers ?key u t" by (simp add: rest)
      moreover have "undelivered u t" if "\<not> (wakes event ?d \<and> may_deliver (ro_supportsIdempotentRequests ro) event ?d)"
        by (rule evolves_at [OF after(2) [OF that] rest])
      ultimately show ?thesis
        using read by (auto simp: delivers_def undelivered_def)
    qed
  qed
qed

text \<open>
  A run with a pending input, its event leased to the runtime, and a provider during whose execution the kernel
  is closed.
\<close>

definition sample_waking :: kernel where
  "sample_waking = context_on (sample_database
     \<lparr>d_activations := [], d_activation_inputs := [], d_leases := [], d_lease_events := [],
      d_worktrees := [], d_executions := [],
      d_outbox := [(sample_outbox_row 1 ''ev'')\<lparr>ob_delivery_attempts := 1, ob_lease_holder := Some ''r'',
        ob_lease_token := Some ''tok'', ob_lease_expires_at := Some 300000\<rparr>],
      d_events := [\<lparr>ev_sequence = 1, ev_event_id = ''e1'', ev_type = EvRunInputAdded, ev_project_id = ''p'',
        ev_channel_id = Some ''ch'', ev_thread_root_id = Some ''m'', ev_thread_cursor = None,
        ev_entity_type = EntRunInput, ev_entity_id = ''in'', ev_actor = ''h'', ev_activation_id = None,
        ev_causation_id = None, ev_correlation_id = ''corr'', ev_payload = JObj [], ev_occurred_at = 0\<rparr>]\<rparr>)"

definition sample_runtime_options :: runtime_options where
  "sample_runtime_options =
     \<lparr>ro_principalId = ''r'', ro_attentionLeaseMs = 300000, ro_activationDurationMs = None,
      ro_outboxLeaseMs = 300000, ro_providerTimeoutMs = 60000, ro_leaseSafetyMs = 1000,
      ro_adapterName = ''acp'', ro_adapterVersion = ''1'', ro_capabilitySnapshot = JObj [],
      ro_supportsIdempotentRequests = False, ro_uuid = show_nat, ro_hash = (\<lambda>_. ''h''),
      ro_finalizeReport = (\<lambda>_ _ _. raise (err Forbidden)), ro_stopActivation = (\<lambda>_. ret ()),
      ro_others = (\<lambda>_ s. s)\<rparr>"

definition sample_waking_runtime :: runtime where
  "sample_waking_runtime =
     \<lparr>rt_kernel = \<lparr>tk_context = sample_waking, tk_closed = False, tk_localWorktreeExecutions = []\<rparr>,
      rt_now = 0, rt_stopped = False, rt_projectIds = [], rt_agents = [], rt_delivered = [], rt_awaits = 0\<rparr>"

definition sample_event :: outbox_view where
  "sample_event = mapOutboxEvent (hd (d_outbox (k_db sample_waking)))"

definition closing_provider :: provider where
  "closing_provider _ _ s = ((None, False), apfst (rt_kernel_update (tk_closed_update (\<lambda>_. True))) s)"

lemma deliveries_are_safe_witness:
  "\<exists>r t i. processOutboxEvent sample_runtime_options closing_provider False sample_event ''tok'' 300000
       sample_waking_runtime = (r, t) \<and>
     rt_delivered t = [(i, request_key ''ev'')] \<and> recorded i (request_key ''ev'') t"
proof -
  let ?m = "processOutboxEvent sample_runtime_options closing_provider False sample_event ''tok'' 300000
      sample_waking_runtime"
  obtain r t where run: "?m = (r, t)" by (cases ?m)
  have options: "honest_options sample_runtime_options"
    by (simp add: honest_options_def sample_runtime_options_def ret_run quietly.refl)
  have closing: "honest_provider closing_provider"
    unfolding honest_provider_def closing_provider_def undelivered_def
    by (auto intro!: r_into_rtranclp kernel_step.ambient)
  have key: "ov_id sample_event = ''ev''"
    by (simp add: sample_event_def mapOutboxEvent_def sample_waking_def sample_outbox_row_def context_on_def)
  have "length (rt_delivered (snd ?m)) = 1" by code_simp
  then have "length (rt_delivered t) = 1" unfolding run by simp
  moreover have before_none: "rt_delivered sample_waking_runtime = []" by (simp add: sample_waking_runtime_def)
  ultimately have "rt_delivered t \<noteq> rt_delivered sample_waking_runtime" by auto
  then have "\<exists>i. rt_delivered t = (i, request_key (ov_id sample_event)) # rt_delivered sample_waking_runtime \<and>
      recorded i (request_key (ov_id sample_event)) t"
    using deliveries_are_safe [OF options closing run] by blast
  then show ?thesis
    using run unfolding before_none key by blast
qed

end
