(* ===== verification/Spec2Isabelle.thy ===== *)
theory Spec2Isabelle
  imports Startup CatchUp ToolActivity DeliverySafety
begin

text \<open>
  A model of Torsor, a service in which humans and agents collaborate in threads, and its verification.

  \<^bold>\<open>The program.\<close> Its centre is the kernel (\<open>packages/kernel/src\<close>), a library over one SQLite file. Every
  change is a command that runs in one transaction and is identified by the idempotency key its
  caller chose. A message that mentions an agent opens an attention; a runtime claims the attention and
  starts an activation of the agent; from there the agent ignores the attention or resolves it with a
  run, which is given inputs and works through activations of its own. What must happen later is a row
  of the outbox. Work on files goes through a Worktree, whose writer holds a lease and whose processes
  are executions with an authority that can be revoked. Everything public is an event of a log, and a
  projection can be read as of any event of the past. Around the kernel stand the HTTP service for
  humans (\<open>apps/server/src/server.ts\<close>), the browser that reads from it (\<open>apps/web/src\<close>), and the agent
  runtime (\<open>packages/agent-runtime/src\<close>), which claims attentions and outbox events, runs a provider
  process for each, lets it act through a bridge, and settles what an earlier host left.

  \<^bold>\<open>How it is modelled.\<close> An operation takes a state and returns a result and a state (\<open>Prelude\<close>): \<open>Inl\<close> an
  error or \<open>Inr\<close> a value, and the state in both cases, since what was written before an error is
  committed, rolled back or kept depending on the caller. The database is the record of its tables
  (\<open>Schema\<close>), a table the list of its rows; a statement is one of the operations of \<open>Store\<close> and \<open>Triggers\<close>.
  The clock, the id factory and the random source are arbitrary streams: no proof assumes that time
  moves forward or that an id is fresh. Definitions keep the names of the source. A field of an
  interface is a field of a record with a prefix (\<open>rn_state\<close> is \<open>state\<close> of a run row, \<open>rnv_state\<close> of its
  view).

  \<^bold>\<open>Where things are.\<close>
  \<^item> \<open>Values\<close>, \<open>Schema\<close>, \<open>Store\<close>: \<open>values.ts\<close>, \<open>errors.ts\<close>, the tables of \<open>schema.ts\<close>, the context of \<open>database.ts\<close>.
    \<open>Samples\<close>: the small database the witnesses start from.
  \<^item> \<open>Leases\<close>: \<open>worktree-writer-leases.ts\<close>. \<open>PhysicalWorktrees\<close>: \<open>physical-worktrees.ts\<close> and the writer checks.
  \<^item> \<open>Triggers\<close>, \<open>Invariants\<close>: the constraints and triggers of \<open>schema.ts\<close>, and \<open>invariants.ts\<close> with \<open>artifact-visibility.ts\<close>.
  \<^item> \<open>Outbox\<close>, \<open>CausalLimits\<close>, \<open>Collaboration\<close>, \<open>Execution\<close>, \<open>Runs\<close>, \<open>Attentions\<close>, \<open>Configuration\<close>, \<open>Artifacts\<close>,
    \<open>History\<close>: the file of the same name each, a definition per handler.
  \<^item> \<open>Transactions\<close>, \<open>Queries\<close>: \<open>kernel.ts\<close>; one constructor per command and per query, and the transaction
    around them. \<open>Mappings\<close>, \<open>Projections\<close>, \<open>Recovery\<close>: \<open>mappings.ts\<close> and \<open>projections.ts\<close>.
    \<open>ArtifactStorage\<close>: \<open>artifact-storage.ts\<close>. \<open>Bootstrap\<close>: the opening of a file in \<open>database.ts\<close>.
  \<^item> \<open>HttpServer\<close>: \<open>server.ts\<close>. \<open>TimelineHistory\<close>: \<open>timeline-history.ts\<close> and the reading of a run in
    \<open>controller.ts\<close>. \<open>BrowserReads\<close>: the client's requests (\<open>api.ts\<close>).
  \<^item> \<open>ToolActivity\<close>: \<open>copilot-tool-activity.ts\<close>. \<open>AttentionScheduler\<close>: the class of that name in \<open>runtime.ts\<close>.
    \<open>RuntimeKernel\<close>, \<open>RuntimeDelivery\<close>: the class \<open>AgentRuntime\<close> there. \<open>CapabilityBridge\<close>: \<open>capability-bridge.ts\<close>.

  \<^bold>\<open>What the lemmas show.\<close>
  \<^item> \<open>Evolution\<close> and \<open>Soundness\<close>: what no operation does. The locale \<open>evolution\<close> of the prelude (a reflexive and
    transitive relation) gives the rules by which a relation between the states before and after is
    carried through the combinators; it is interpreted with \<open>collab\<close> (rows are appended, and only the columns
    that may change do), \<open>worktree_step\<close>, \<open>advances\<close>, \<open>redelivers\<close>, \<open>kernel_steps\<close>, \<open>undelivered\<close> and others.
    The locale \<open>table\<close> is what the statements rely on, interpreted for every keyed table.
  \<^item> \<open>Leases\<close>, \<open>Outbox\<close>, \<open>PhysicalWorktrees\<close>: exclusive acquisition, the exact live authority, the queue's order and
    its frontier, publication only after the work has stopped. The ledger of leases is also an abstract
    machine, which the handlers refine.
  \<^item> \<open>Reachability\<close>: the step relation of the kernel object, with the invariants of every reachable state,
    append-only history, and retrying: a command that is sent again returns its first result, a failed one
    changed nothing. \<open>Startup\<close> begins the reachable states at opening a file.
  \<^item> \<open>HttpSafety\<close>: a request acts for a principal it presents credentials of; an ended session stops a
    command that waits. \<open>ActivityLog\<close> and \<open>CatchUp\<close>: the locale \<open>activity_server\<close> states what the browser needs of
    its server, the kernel behind the service is shown to be one, and reading a run with its history is
    complete whatever happens meanwhile.
  \<^item> \<open>AttentionScheduler\<close>: the bounds and the fairness of the scheduler in every interleaving of calls and ends of
    runs. \<open>DeliverySafety\<close>: an outbox event calls a provider at most once, and for an attempt on record.
  \<^item> \<open>Recovery\<close>, \<open>ArtifactStorage\<close>, \<open>TimelineHistory\<close>, \<open>ToolActivity\<close>: the recovery pages as a sorted union, the storage
    as a content store, termination of the reading of gaps, the bounds of the tools an agent reports.

  \<^bold>\<open>Interleaving.\<close> A command is atomic, as it is in the code. Where the code awaits, the model runs an arbitrary
  function of the state: \<open>meanwhile\<close> of the service, \<open>fe_others\<close> of the browser, \<open>ro_others\<close> of the runtime. The
  theorems ask of it that it is a sequence of the kernel's operations.

  \<^bold>\<open>Bounds and fuel.\<close> Two loops are functions with a measure: following supersessions (\<open>follow\<close>) and reading
  a gap (\<open>read_gap\<close>, whose upper end decreases with every page). The loop that starts runs in the scheduler is given
  \<open>rounds\<close> steps, the projects that are offered and the attentions retained; \<open>pump_rounds_end\<close> shows that it
  ends before them. All other loops run over a list. Numbers the code checks with
  \<open>Number.isInteger\<close> are \<open>jsnum\<close>, the rest are unbounded, as no operation of the kernel leaves the exact
  range of a double without 2^53 commands. Bytes are words of 8 bits.

  \<^bold>\<open>Parameters.\<close> Not under \<open>src/\<close> or not described by it, and therefore arguments: SHA-256 and the payload
  hash over canonical JSON (an arbitrary function of the command), the comparison of the schema's
  fingerprint, the cast of a request's body to a command, the provider, and what others do meanwhile.

  \<^bold>\<open>Not modelled.\<close> Messages of errors (where one is compared, the comparison is an argument), foreign keys and most
  CHECK constraints (no handler is shown to rely on them), the busy timeout, logging, sockets, the event stream, file
  metadata and syncing. Of the runtime: the loops over pages of attentions and of recovery, the monitor that
  aborts an execution (its outcome is an argument), and native execution. The Copilot adapter, the executor
  of Worktrees, the host process, the React components with the rest of the controller, the conformance and scenario
  tools and the prototypes are not modelled: they drive processes, files and pages around the
  operations above.
\<close>

end
